(* ===== verification/JsTime.thy ===== *)
theory JsTime
  imports Prelude
begin

text \<open>
  The part of JavaScript's \<open>Date\<close> and of the regular expressions on timestamps that the
  source uses, and \<open>time.ts\<close> of vehicle-provider-core.
  \<^item> \<open>iso_fields\<close> reads the grammar
    \<open>YYYY-MM-DDTHH:MM:SS(.d+)?(Z|+HH:MM|-HH:MM)\<close>, the anchored regular expression of
    \<open>frozenTimestamp\<close>, \<open>isZonedRfc3339\<close> and of the observation cursors;
  \<^item> \<open>date_parse\<close> is \<open>Date.parse\<close> on that grammar, the seconds being optional there
    (milliseconds since the epoch, \<open>None\<close> for NaN), with the element ranges of the ECMAScript format and a day of 1 to 31 in
    every month, as the engine of Node.js reads it;
  \<^item> \<open>toISOString\<close> is its inverse for years 0 to 9999;
  \<^item> \<open>compareIsoTimestamps\<close> compares milliseconds first and then the decimal fractions.
\<close>

subsection \<open>Digits\<close>

definition digit_val :: "char \<Rightarrow> int option" where
  "digit_val c = (let n = (of_char c :: int) in if 48 \<le> n \<and> n \<le> 57 then Some (n - 48) else None)"

definition is_digit :: "char \<Rightarrow> bool" where
  "is_digit c \<longleftrightarrow> digit_val c \<noteq> None"

fun num_acc :: "nat \<Rightarrow> int \<Rightarrow> string \<Rightarrow> (int \<times> string) option" where
  "num_acc 0 acc s = Some (acc, s)"
| "num_acc (Suc n) acc [] = None"
| "num_acc (Suc n) acc (c # s) =
     (case digit_val c of None \<Rightarrow> None | Some d \<Rightarrow> num_acc n (10 * acc + d) s)"

definition num :: "nat \<Rightarrow> string \<Rightarrow> (int \<times> string) option" where
  "num n s = num_acc n 0 s"

fun expect :: "char \<Rightarrow> string \<Rightarrow> string option" where
  "expect c [] = None"
| "expect c (x # s) = (if x = c then Some s else None)"

subsection \<open>The RFC 3339 grammar\<close>

record iso_time =
  iso_year :: int
  iso_month :: int
  iso_day :: int
  iso_hour :: int
  iso_minute :: int
  iso_second :: int
  iso_fraction :: string
  iso_negative :: bool
  iso_off_hour :: int
  iso_off_minute :: int

definition iso_zone :: "string \<Rightarrow> (bool \<times> int \<times> int) option" where
  "iso_zone z =
     (case z of
        [] \<Rightarrow> None
      | c # r \<Rightarrow>
          if c = CHR ''Z'' then (if r = [] then Some (False, 0, 0) else None)
          else if c = CHR ''+'' \<or> c = CHR ''-'' then
            Option.bind (num 2 r) (\<lambda>(h, r1).
            Option.bind (expect (CHR '':'') r1) (\<lambda>r2.
            Option.bind (num 2 r2) (\<lambda>(m, r3).
              if r3 = [] then Some (c = CHR ''-'', h, m) else None)))
          else None)"

definition iso_frac :: "string \<Rightarrow> (string \<times> string) option" where
  "iso_frac s =
     (case s of
        [] \<Rightarrow> Some ([], [])
      | c # r \<Rightarrow>
          if c = CHR ''.''
          then (let ds = takeWhile is_digit r
                in if ds = [] then None else Some (ds, dropWhile is_digit r))
          else Some ([], s))"

text \<open>Seconds and fraction; \<open>Date.parse\<close> also reads a time of day without them.\<close>

definition iso_seconds :: "bool \<Rightarrow> string \<Rightarrow> (int \<times> string \<times> string) option" where
  "iso_seconds optional s =
     (if optional \<and> (case s of [] \<Rightarrow> True | c # _ \<Rightarrow> c \<noteq> CHR '':'') then Some (0, [], s)
      else
        Option.bind (expect (CHR '':'') s) (\<lambda>s1.
        Option.bind (num 2 s1) (\<lambda>(sec, s2).
        Option.bind (iso_frac s2) (\<lambda>(fr, s3). Some (sec, fr, s3)))))"

definition iso_read :: "bool \<Rightarrow> string \<Rightarrow> iso_time option" where
  "iso_read optional s =
     Option.bind (num 4 s) (\<lambda>(y, s1).
     Option.bind (expect (CHR ''-'') s1) (\<lambda>s2.
     Option.bind (num 2 s2) (\<lambda>(mo, s3).
     Option.bind (expect (CHR ''-'') s3) (\<lambda>s4.
     Option.bind (num 2 s4) (\<lambda>(d, s5).
     Option.bind (expect (CHR ''T'') s5) (\<lambda>s6.
     Option.bind (num 2 s6) (\<lambda>(h, s7).
     Option.bind (expect (CHR '':'') s7) (\<lambda>s8.
     Option.bind (num 2 s8) (\<lambda>(mi, s9).
     Option.bind (iso_seconds optional s9) (\<lambda>(sec, fr, s12).
     Option.bind (iso_zone s12) (\<lambda>(neg, oh, om).
       Some \<lparr>iso_year = y, iso_month = mo, iso_day = d, iso_hour = h, iso_minute = mi,
             iso_second = sec, iso_fraction = fr, iso_negative = neg,
             iso_off_hour = oh, iso_off_minute = om\<rparr>)))))))))))"

definition iso_fields :: "string \<Rightarrow> iso_time option" where
  "iso_fields s = iso_read False s"

definition rfc3339 :: "string \<Rightarrow> bool" where
  "rfc3339 s \<longleftrightarrow> iso_fields s \<noteq> None"

subsection \<open>Civil calendar\<close>

definition days_from_civil :: "int \<Rightarrow> int \<Rightarrow> int \<Rightarrow> int" where
  "days_from_civil y m d =
     (let y' = (if m \<le> 2 then y - 1 else y);
          era = y' div 400;
          yoe = y' mod 400;
          mp = (if m > 2 then m - 3 else m + 9);
          doy = (153 * mp + 2) div 5 + d - 1;
          doe = yoe * 365 + yoe div 4 - yoe div 100 + doy
      in era * 146097 + doe - 719468)"

definition civil_from_days :: "int \<Rightarrow> int \<times> int \<times> int" where
  "civil_from_days days =
     (let z = days + 719468;
          era = z div 146097;
          doe = z mod 146097;
          yoe = (doe - doe div 1460 + doe div 36524 - doe div 146096) div 365;
          doy = doe - (365 * yoe + yoe div 4 - yoe div 100);
          mp = (5 * doy + 2) div 153;
          d = doy - (153 * mp + 2) div 5 + 1;
          m = (if mp < 10 then mp + 3 else mp - 9);
          y = yoe + era * 400
      in (if m \<le> 2 then y + 1 else y, m, d))"

subsection \<open>Date.parse and toISOString\<close>

definition in_range :: "int \<Rightarrow> int \<Rightarrow> int \<Rightarrow> bool" where
  "in_range lo hi n \<longleftrightarrow> lo \<le> n \<and> n \<le> hi"

fun frac_millis :: "string \<Rightarrow> int" where
  "frac_millis ds = (case num 3 (take 3 (ds @ ''000'')) of None \<Rightarrow> 0 | Some (n, _) \<Rightarrow> n)"

definition iso_valid :: "iso_time \<Rightarrow> bool" where
  "iso_valid t \<longleftrightarrow>
     in_range 1 12 (iso_month t) \<and> in_range 1 31 (iso_day t) \<and>
     (in_range 0 23 (iso_hour t)
      \<or> iso_hour t = 24 \<and> iso_minute t = 0 \<and> iso_second t = 0 \<and> frac_millis (iso_fraction t) = 0) \<and>
     in_range 0 59 (iso_minute t) \<and> in_range 0 59 (iso_second t) \<and>
     in_range 0 23 (iso_off_hour t) \<and> in_range 0 59 (iso_off_minute t)"

definition iso_millis :: "iso_time \<Rightarrow> int" where
  "iso_millis t =
     (let days = days_from_civil (iso_year t) (iso_month t) (iso_day t);
          off = (if iso_negative t then -1 else 1) * (iso_off_hour t * 60 + iso_off_minute t)
      in ((days * 24 + iso_hour t) * 60 + iso_minute t - off) * 60000
         + iso_second t * 1000 + frac_millis (iso_fraction t))"

definition date_parse :: "string \<Rightarrow> int option" where
  "date_parse s =
     (case iso_read True s of
        None \<Rightarrow> None
      | Some t \<Rightarrow> if iso_valid t then Some (iso_millis t) else None)"

definition digit_char :: "int \<Rightarrow> char" where
  "digit_char d = (char_of (nat d + 48) :: char)"

fun pad_digits :: "nat \<Rightarrow> int \<Rightarrow> string" where
  "pad_digits 0 n = []"
| "pad_digits (Suc k) n = pad_digits k (n div 10) @ [digit_char (n mod 10)]"

definition toISOString :: "int \<Rightarrow> string" where
  "toISOString t =
     (let days = t div 86400000;
          ms = t mod 86400000
      in case civil_from_days days of (y, m, d) \<Rightarrow>
           pad_digits 4 y @ ''-'' @ pad_digits 2 m @ ''-'' @ pad_digits 2 d @ ''T'' @
           pad_digits 2 (ms div 3600000) @ '':'' @ pad_digits 2 (ms div 60000 mod 60) @ '':'' @
           pad_digits 2 (ms div 1000 mod 60) @ ''.'' @ pad_digits 3 (ms mod 1000) @ ''Z'')"

text \<open>A date value is finite when it is at most \<open>8.64e15\<close> milliseconds from the epoch.\<close>

definition date_finite :: "int \<Rightarrow> bool" where
  "date_finite t \<longleftrightarrow> - 8640000000000000 \<le> t \<and> t \<le> 8640000000000000"

lemma date_examples:
  "date_parse ''2026-09-08T12:30:15.250Z'' = Some 1788870615250"
  "date_parse ''2026-09-08T12:30:15.2509+02:00'' = Some 1788863415250"
  "date_parse ''2026-13-08T12:30:15Z'' = None"
  "date_parse ''2026-09-08T12:30Z'' = Some 1788870600000"
  "\<not> rfc3339 ''2026-09-08T12:30Z''"
  "rfc3339 ''2026-13-08T12:30:15Z''"
  "toISOString 1788870615250 = ''2026-09-08T12:30:15.250Z''"
  "toISOString 951782400000 = ''2000-02-29T00:00:00.000Z''"
  by code_simp+

subsection \<open>compareIsoTimestamps (time.ts)\<close>

text \<open>
  \<open>fractionalDigits\<close> searches the string for \<open>/\.(\d+)(?:Z|[+-]\d{2}:\d{2})$/\<close>: the digits
  after the last dot that is followed by digits and a zone up to the end.
\<close>

fun fractionalDigits :: "string \<Rightarrow> string" where
  "fractionalDigits [] = []"
| "fractionalDigits (c # s) =
     (if c = CHR ''.'' \<and> takeWhile is_digit s \<noteq> [] \<and> iso_zone (dropWhile is_digit s) \<noteq> None
      then takeWhile is_digit s
      else fractionalDigits s)"

definition padEnd :: "nat \<Rightarrow> string \<Rightarrow> string" where
  "padEnd n s = s @ replicate (n - length s) (CHR ''0'')"

fun string_less :: "string \<Rightarrow> string \<Rightarrow> bool" where
  "string_less [] [] = False"
| "string_less [] (b # bs) = True"
| "string_less (a # as) [] = False"
| "string_less (a # as) (b # bs) =
     (if (of_char a :: nat) = of_char b then string_less as bs
      else (of_char a :: nat) < of_char b)"

text \<open>
  The comparison on already parsed strings. \<open>NaN !== NaN\<close> holds and \<open>NaN < x\<close> does not, so
  a string that does not parse compares as greater.
\<close>

definition compareIsoTimestamps :: "string \<Rightarrow> string \<Rightarrow> int" where
  "compareIsoTimestamps left right =
     (case (date_parse left, date_parse right) of
        (Some l, Some r) \<Rightarrow>
          if l \<noteq> r then (if l < r then -1 else 1)
          else
            (let lf = fractionalDigits left;
                 rf = fractionalDigits right;
                 n = max (length lf) (length rf);
                 nl = padEnd n lf;
                 nr = padEnd n rf
             in if nl = nr then 0 else if string_less nl nr then -1 else 1)
      | _ \<Rightarrow> 1)"

lemma string_less_irrefl [simp]: "\<not> string_less s s"
  by (induction s) auto

lemma string_less_asym: "string_less a b \<Longrightarrow> \<not> string_less b a"
  by (induction a b rule: string_less.induct) (auto split: if_splits)

lemma string_less_total: "string_less a b \<or> a = b \<or> string_less b a"
proof (induction a b rule: string_less.induct)
  case (4 a as b bs)
  then show ?case by (auto simp: not_less_iff_gr_or_eq)
qed auto

lemma string_less_trans: "string_less a b \<Longrightarrow> string_less b c \<Longrightarrow> string_less a c"
proof (induction a b arbitrary: c rule: string_less.induct)
  case (2 b bs)
  then show ?case by (cases c) auto
next
  case (4 a as b bs)
  then show ?case by (cases c) (auto split: if_splits)
qed auto

end
