(* ===== verification/DomainTask.thy ===== *)
theory DomainTask
  imports JsTime
begin

text \<open>
  packages/domain/src/task.ts: the Task vocabulary, the projection of an Adapter snapshot to
  the internal and the MCP state of a Task, and the sanitising of Adapter results. A JSON
  object is the list of its own enumerable properties in order (\<open>jobj\<close>); \<open>null\<close> and
  \<open>undefined\<close> are \<open>None\<close> where a field is nullable.
\<close>

datatype execution_mode = Live | Simulation | Historical_replay

datatype mcp_status = Working | Input_required | Completed | Failed | Cancelled

datatype internal_state =
    SCHEDULED | STARTING | WAITING_START_CONFIRMATION | QUEUED | RUNNING | PAUSED | RESUMING
  | INPUT_REQUIRED | STOPPING | TERMINAL_COMPLETED | TERMINAL_FAILED | TERMINAL_CANCELLED

fun internal_state_name :: "internal_state \<Rightarrow> string" where
  "internal_state_name SCHEDULED = ''SCHEDULED''"
| "internal_state_name STARTING = ''STARTING''"
| "internal_state_name WAITING_START_CONFIRMATION = ''WAITING_START_CONFIRMATION''"
| "internal_state_name QUEUED = ''QUEUED''"
| "internal_state_name RUNNING = ''RUNNING''"
| "internal_state_name PAUSED = ''PAUSED''"
| "internal_state_name RESUMING = ''RESUMING''"
| "internal_state_name INPUT_REQUIRED = ''INPUT_REQUIRED''"
| "internal_state_name STOPPING = ''STOPPING''"
| "internal_state_name TERMINAL_COMPLETED = ''TERMINAL_COMPLETED''"
| "internal_state_name TERMINAL_FAILED = ''TERMINAL_FAILED''"
| "internal_state_name TERMINAL_CANCELLED = ''TERMINAL_CANCELLED''"

definition isTerminalState :: "internal_state \<Rightarrow> bool" where
  "isTerminalState s = prefix ''TERMINAL_'' (internal_state_name s)"

lemma isTerminalState_iff:
  "isTerminalState s \<longleftrightarrow> s \<in> {TERMINAL_COMPLETED, TERMINAL_FAILED, TERMINAL_CANCELLED}"
  by (cases s) (simp_all add: isTerminalState_def)

subsection \<open>Results\<close>

definition RESERVED_RESULT_FIELDS :: "string list" where
  "RESERVED_RESULT_FIELDS = [''outcome'', ''reasonCode'', ''retryable'', ''completedAt'']"

text \<open>
  \<open>STANDARD_RESULT_FIELDS[key]\<close> is a property read on a plain object literal, so it is truthy
  on the four listed fields and also on every name inherited from \<open>Object.prototype\<close>.
\<close>

definition standard_field :: "string \<Rightarrow> bool" where
  "standard_field key \<longleftrightarrow>
     key \<in> set RESERVED_RESULT_FIELDS \<or> key \<in> set OBJECT_PROTOTYPE_MEMBERS"

record adapter_snapshot =
  as_state :: string
  as_reasonCode :: string
  as_message :: string
  as_retryable :: bool
  as_result :: "json option"

definition sanitizeResultPayload :: "adapter_snapshot \<Rightarrow> jobj" where
  "sanitizeResultPayload snapshot =
     (case as_result snapshot of
        None \<Rightarrow> []
      | Some JNull \<Rightarrow> []
      | Some (JObj payload) \<Rightarrow> filter (\<lambda>(key, _). \<not> standard_field key) payload
      | Some source \<Rightarrow> [(''value'', source)])"

datatype outcome = Success | Business_failure | Partial_completion

fun outcome_name :: "outcome \<Rightarrow> string" where
  "outcome_name Success = ''success''"
| "outcome_name Business_failure = ''business_failure''"
| "outcome_name Partial_completion = ''partial_completion''"

fun outcome_upper :: "outcome \<Rightarrow> string" where
  "outcome_upper Success = ''SUCCESS''"
| "outcome_upper Business_failure = ''BUSINESS_FAILURE''"
| "outcome_upper Partial_completion = ''PARTIAL_COMPLETION''"

text \<open>\<open>now\<close> is the instant at which \<open>new Date()\<close> is read.\<close>

definition structuredContent :: "int \<Rightarrow> adapter_snapshot \<Rightarrow> outcome \<Rightarrow> jobj" where
  "structuredContent now snapshot outcome =
     (let filtered = sanitizeResultPayload snapshot
      in if outcome = Success then filtered
         else
           [(''outcome'', JStr (outcome_name outcome)),
            (''reasonCode'', JStr (or_string (as_reasonCode snapshot) (outcome_upper outcome))),
            (''retryable'', JBool (as_retryable snapshot)),
            (''completedAt'', JStr (toISOString now))] @ filtered)"

definition businessResult :: "int \<Rightarrow> adapter_snapshot \<Rightarrow> outcome \<Rightarrow> bool \<Rightarrow> jobj" where
  "businessResult now snapshot outcome isError =
     [(''content'', JArr [JObj [(''type'', JStr ''text''),
                               (''text'', JStr (or_string (as_message snapshot) (outcome_name outcome)))]]),
      (''isError'', JBool isError),
      (''structuredContent'', JObj (structuredContent now snapshot outcome))]"

subsection \<open>Projection of an Adapter snapshot\<close>

record snapshot_transition =
  tr_internalState :: internal_state
  tr_mcpStatus :: mcp_status
  tr_substate :: "string option"
  tr_statusMessage :: string
  tr_result :: "jobj option"
  tr_error :: "jobj option"
  tr_terminal :: bool
  tr_observationType :: string

definition working ::
  "internal_state \<Rightarrow> string \<Rightarrow> adapter_snapshot \<Rightarrow> string \<Rightarrow> snapshot_transition" where
  "working internalState substate snapshot observationType =
     \<lparr>tr_internalState = internalState, tr_mcpStatus = Working, tr_substate = Some substate,
      tr_statusMessage = as_message snapshot, tr_result = None, tr_error = None,
      tr_terminal = False, tr_observationType = observationType\<rparr>"

definition terminal ::
  "internal_state \<Rightarrow> mcp_status \<Rightarrow> jobj option \<Rightarrow> jobj option \<Rightarrow> adapter_snapshot
    \<Rightarrow> snapshot_transition" where
  "terminal internalState mcpStatus result err snapshot =
     \<lparr>tr_internalState = internalState, tr_mcpStatus = mcpStatus, tr_substate = None,
      tr_statusMessage = as_message snapshot, tr_result = result, tr_error = err,
      tr_terminal = True, tr_observationType = ''task.progress''\<rparr>"

definition technicalError :: "adapter_snapshot \<Rightarrow> jobj" where
  "technicalError snapshot =
     [(''code'', JNum (-32603)),
      (''message'', JStr ''Task execution failed.''),
      (''data'', JObj [(''reasonCode'',
                       JStr (or_string (as_reasonCode snapshot) ''TECHNICAL_EXECUTION_FAILED'')),
                      (''retryable'', JBool (as_retryable snapshot))])]"

definition mapAdapterSnapshot :: "int \<Rightarrow> adapter_snapshot \<Rightarrow> snapshot_transition result" where
  "mapAdapterSnapshot now snapshot =
     (if as_state snapshot = ''ACCEPTED'' then
        Inr (working QUEUED ''accepted'' snapshot ''task.accepted'')
      else if as_state snapshot = ''SCHEDULED'' then
        Inr (working QUEUED ''scheduled'' snapshot ''task.accepted'')
      else if as_state snapshot = ''QUEUED'' then
        Inr (working QUEUED ''queued'' snapshot ''task.accepted'')
      else if as_state snapshot = ''RUNNING'' then
        Inr (working RUNNING ''running'' snapshot ''task.started'')
      else if as_state snapshot = ''PAUSED'' then
        Inr (working PAUSED ''paused'' snapshot ''task.paused'')
      else if as_state snapshot = ''RESUMING'' then
        Inr (working RESUMING ''resuming'' snapshot ''task.resumed'')
      else if as_state snapshot = ''STOPPING'' then
        Inr (working STOPPING ''stopping'' snapshot ''task.progress'')
      else if as_state snapshot = ''WAITING_INPUT'' then
        Inr \<lparr>tr_internalState = INPUT_REQUIRED, tr_mcpStatus = Input_required,
             tr_substate = None, tr_statusMessage = as_message snapshot, tr_result = None,
             tr_error = None, tr_terminal = False, tr_observationType = ''task.progress''\<rparr>
      else if as_state snapshot = ''SUCCEEDED'' then
        Inr (terminal TERMINAL_COMPLETED Completed
               (Some (businessResult now snapshot Success False)) None snapshot)
      else if as_state snapshot = ''BUSINESS_FAILED'' then
        Inr (terminal TERMINAL_COMPLETED Completed
               (Some (businessResult now snapshot Business_failure True)) None snapshot)
      else if as_state snapshot = ''PARTIALLY_COMPLETED'' then
        Inr (terminal TERMINAL_COMPLETED Completed
               (Some (businessResult now snapshot Partial_completion True)) None snapshot)
      else if as_state snapshot = ''CANCELLED'' then
        Inr (terminal TERMINAL_CANCELLED Cancelled None None snapshot)
      else if as_state snapshot = ''TECHNICAL_FAILED'' then
        Inr (terminal TERMINAL_FAILED Failed None (Some (technicalError snapshot)) snapshot)
      else Inl (''UNKNOWN_ADAPTER_STATE:'' @ as_state snapshot))"

definition adapter_states :: "string list" where
  "adapter_states =
     [''ACCEPTED'', ''SCHEDULED'', ''QUEUED'', ''RUNNING'', ''PAUSED'', ''RESUMING'', ''STOPPING'',
      ''WAITING_INPUT'', ''SUCCEEDED'', ''BUSINESS_FAILED'', ''PARTIALLY_COMPLETED'', ''CANCELLED'',
      ''TECHNICAL_FAILED'']"

text \<open>Coherence of the three views of a Task state and of the payload fields.\<close>

definition coherent_transition :: "snapshot_transition \<Rightarrow> bool" where
  "coherent_transition t \<longleftrightarrow>
     (tr_terminal t \<longleftrightarrow> isTerminalState (tr_internalState t)) \<and>
     (tr_terminal t \<longleftrightarrow> tr_mcpStatus t \<in> {Completed, Failed, Cancelled}) \<and>
     (tr_result t \<noteq> None \<longleftrightarrow> tr_mcpStatus t = Completed) \<and>
     (tr_error t \<noteq> None \<longleftrightarrow> tr_mcpStatus t = Failed) \<and>
     (tr_substate t \<noteq> None \<longleftrightarrow> tr_mcpStatus t = Working) \<and>
     (tr_internalState t = INPUT_REQUIRED \<longleftrightarrow> tr_mcpStatus t = Input_required)"

lemma mapAdapterSnapshot_coherent:
  "mapAdapterSnapshot now snapshot = Inr t \<Longrightarrow> coherent_transition t"
  by (auto simp: mapAdapterSnapshot_def coherent_transition_def isTerminalState_iff
      working_def terminal_def split: if_splits)

lemma mapAdapterSnapshot_total:
  "is_ok (mapAdapterSnapshot now snapshot) \<longleftrightarrow> as_state snapshot \<in> set adapter_states"
  by (simp add: mapAdapterSnapshot_def adapter_states_def)

lemma mapAdapterSnapshot_error:
  "mapAdapterSnapshot now snapshot = Inl e \<longleftrightarrow>
     as_state snapshot \<notin> set adapter_states \<and> e = ''UNKNOWN_ADAPTER_STATE:'' @ as_state snapshot"
  by (auto simp: mapAdapterSnapshot_def adapter_states_def)

text \<open>
  A snapshot is mapped exactly when its state is one of the thirteen Adapter states, and the
  transition is coherent: \<open>terminal\<close>, the \<open>TERMINAL_\<close> prefix of the internal state and the MCP
  status agree, only a completed Task has a result, only a failed one an error, only a working
  one a substate; any other state is the error naming it.
\<close>

theorem snapshot_projection_coherent:
  "case mapAdapterSnapshot now snapshot of
     Inr t \<Rightarrow> as_state snapshot \<in> set adapter_states \<and> coherent_transition t
              \<and> tr_statusMessage t = as_message snapshot
   | Inl e \<Rightarrow> as_state snapshot \<notin> set adapter_states
              \<and> e = ''UNKNOWN_ADAPTER_STATE:'' @ as_state snapshot"
proof (cases "mapAdapterSnapshot now snapshot")
  case (Inl e)
  then have "as_state snapshot \<notin> set adapter_states \<and> e = ''UNKNOWN_ADAPTER_STATE:'' @ as_state snapshot"
    using mapAdapterSnapshot_error by blast
  with Inl show ?thesis by (auto simp only: sum.case)
next
  case (Inr t)
  moreover have "tr_statusMessage t = as_message snapshot"
    using Inr by (auto simp: mapAdapterSnapshot_def working_def terminal_def split: if_splits)
  ultimately show ?thesis
    using mapAdapterSnapshot_coherent mapAdapterSnapshot_total [of now snapshot] by auto
qed

subsection \<open>Result payloads\<close>

lemma map_of_sanitize_object:
  "as_result snapshot = Some (JObj payload) \<Longrightarrow>
     map_of (sanitizeResultPayload snapshot) key =
       (if standard_field key then None else map_of payload key)"
  by (simp add: sanitizeResultPayload_def map_of_filter_key)

lemma value_not_standard: "\<not> standard_field ''value''"
  by (simp add: standard_field_def RESERVED_RESULT_FIELDS_def OBJECT_PROTOTYPE_MEMBERS_def)

lemma map_of_sanitize_standard:
  assumes "standard_field key"
  shows "map_of (sanitizeResultPayload snapshot) key = None"
proof -
  have "key \<noteq> ''value''" using assms value_not_standard by auto
  then show ?thesis
    using assms
    by (auto simp: sanitizeResultPayload_def map_of_filter_key split: option.split json.split)
qed

text \<open>
  The Runtime owns the four standard fields of a business failure or a partial completion:
  whatever the Adapter's payload says, \<open>outcome\<close>, \<open>reasonCode\<close> and \<open>retryable\<close> read the
  Runtime's values; every other field of the payload is kept with its value.
\<close>

theorem standard_fields_owned_by_runtime:
  assumes "outcome \<noteq> Success" and "as_result snapshot = Some (JObj payload)"
  shows "map_of (structuredContent now snapshot outcome) ''outcome'' = Some (JStr (outcome_name outcome)) \<and>
         map_of (structuredContent now snapshot outcome) ''reasonCode'' =
           Some (JStr (or_string (as_reasonCode snapshot) (outcome_upper outcome))) \<and>
         map_of (structuredContent now snapshot outcome) ''retryable'' = Some (JBool (as_retryable snapshot)) \<and>
         (\<forall>key. \<not> standard_field key \<longrightarrow>
            map_of (structuredContent now snapshot outcome) key = map_of payload key)"
  using assms
  by (simp add: structuredContent_def Let_def map_of_sanitize_object standard_field_def
      RESERVED_RESULT_FIELDS_def)

definition sample_snapshot :: adapter_snapshot where
  "sample_snapshot =
     \<lparr>as_state = ''BUSINESS_FAILED'', as_reasonCode = ''BLOCKED'', as_message = [],
      as_retryable = False,
      as_result = Some (JObj [(''outcome'', JStr ''success''), (''distance'', JNum 12),
                             (''toString'', JStr ''lost'')])\<rparr>"

theorem standard_fields_owned_by_runtime_witness:
  "map_of (structuredContent 0 sample_snapshot Business_failure) ''outcome'' =
     Some (JStr ''business_failure'') \<and>
   map_of (structuredContent 0 sample_snapshot Business_failure) ''distance'' = Some (JNum 12)"
  using standard_fields_owned_by_runtime
    [of Business_failure sample_snapshot
        "[(''outcome'', JStr ''success''), (''distance'', JNum 12), (''toString'', JStr ''lost'')]" 0]
  by (simp add: sample_snapshot_def standard_field_def RESERVED_RESULT_FIELDS_def
      OBJECT_PROTOTYPE_MEMBERS_def)

text \<open>
  A payload field named like a member of \<open>Object.prototype\<close> is not a standard field, and is
  dropped all the same: the lookup in \<open>STANDARD_RESULT_FIELDS\<close> finds the inherited member.
\<close>

theorem inherited_member_names_dropped:
  "\<forall>key \<in> set OBJECT_PROTOTYPE_MEMBERS.
     key \<notin> set RESERVED_RESULT_FIELDS \<and>
     sanitizeResultPayload (snapshot\<lparr>as_result := Some (JObj [(key, v)])\<rparr>) = []"
  by (simp add: OBJECT_PROTOTYPE_MEMBERS_def RESERVED_RESULT_FIELDS_def sanitizeResultPayload_def
      standard_field_def)

theorem inherited_member_names_dropped_witness:
  "sanitizeResultPayload (sample_snapshot\<lparr>as_result := Some (JObj [(''toString'', JNum 1)])\<rparr>) = []"
  using inherited_member_names_dropped [where snapshot = sample_snapshot and v = "JNum 1"]
  by (simp add: OBJECT_PROTOTYPE_MEMBERS_def)

end
