(* ===== verification/DomainTiming.thy ===== *)
theory DomainTiming
  imports JsTime "HOL-Library.Multiset"
begin

text \<open>
  packages/domain/src/timing.ts (admission anchors of a Task), availability.ts (validation of an
  Adapter's answer to an availability batch, and the answer when there is none) and
  business-responder.ts. Instants are milliseconds since the epoch.
\<close>

subsection \<open>timing.ts\<close>

datatype start_mode =
    Immediate
  | Scheduled string

record task_timing =
  tm_start :: start_mode
  tm_startToleranceMs :: int
  tm_maxElapsedMs :: "int option"

record timing_anchors =
  an_acceptedAt :: int
  an_notBefore :: int
  an_latestStartAt :: int
  an_deadlineAt :: "int option"

definition defaultTiming :: task_timing where
  "defaultTiming = \<lparr>tm_start = Immediate, tm_startToleranceMs = 30000, tm_maxElapsedMs = None\<rparr>"

text \<open>
  \<open>/(?:Z|[+-]\d{2}:\d{2})$/i\<close>: the string ends in a zone, whose letter may be lower case.
  \<open>new Date(value)\<close> on a string outside the grammar of \<open>JsTime\<close> is left to the engine: the
  argument \<open>legacy\<close> says what it reads, \<open>None\<close> for an invalid date.
\<close>

definition ends_in_zone :: "string \<Rightarrow> bool" where
  "ends_in_zone s \<longleftrightarrow>
     (s \<noteq> [] \<and> (last s = CHR ''Z'' \<or> last s = CHR ''z'')) \<or>
     (6 \<le> length s \<and> iso_zone (drop (length s - 6) s) \<noteq> None)"

definition parseRfc3339 :: "(string \<Rightarrow> int option) \<Rightarrow> string \<Rightarrow> int result" where
  "parseRfc3339 legacy value =
     (if \<not> ends_in_zone value then Inl ''INVALID_SCHEDULED_AT''
      else
        case (case date_parse value of Some t \<Rightarrow> Some t | None \<Rightarrow> legacy value) of
          None \<Rightarrow> Inl ''INVALID_SCHEDULED_AT''
        | Some parsed \<Rightarrow> Inr parsed)"

definition addMilliseconds :: "int \<Rightarrow> int \<Rightarrow> int result" where
  "addMilliseconds value milliseconds =
     (if date_finite (value + milliseconds) then Inr (value + milliseconds)
      else Inl ''TIMING_OVERFLOW'')"

definition validateTiming ::
  "(string \<Rightarrow> int option) \<Rightarrow> task_timing \<Rightarrow> bool \<Rightarrow> bool \<Rightarrow> int \<Rightarrow> timing_anchors result" where
  "validateTiming legacy timing scheduling maxElapsed acceptedAt =
     (if \<not> is_safe_integer (tm_startToleranceMs timing) \<or> tm_startToleranceMs timing < 0
      then Inl ''INVALID_START_TOLERANCE''
      else if (case tm_maxElapsedMs timing of None \<Rightarrow> False
               | Some ms \<Rightarrow> \<not> is_safe_integer ms \<or> ms \<le> 0)
      then Inl ''INVALID_MAX_ELAPSED''
      else if tm_start timing \<noteq> Immediate \<and> \<not> scheduling then Inl ''SCHEDULING_NOT_SUPPORTED''
      else if tm_maxElapsedMs timing \<noteq> None \<and> \<not> maxElapsed then Inl ''MAX_ELAPSED_NOT_SUPPORTED''
      else
        bind_r (case tm_start timing of
                  Immediate \<Rightarrow> Inr acceptedAt
                | Scheduled scheduledAt \<Rightarrow> parseRfc3339 legacy scheduledAt) (\<lambda>notBefore.
        bind_r (addMilliseconds notBefore (tm_startToleranceMs timing)) (\<lambda>latestStartAt.
        bind_r (case tm_maxElapsedMs timing of
                  None \<Rightarrow> Inr None
                | Some ms \<Rightarrow> bind_r (addMilliseconds notBefore ms) (\<lambda>d. Inr (Some d))) (\<lambda>deadlineAt.
          Inr \<lparr>an_acceptedAt = acceptedAt, an_notBefore = notBefore,
               an_latestStartAt = latestStartAt, an_deadlineAt = deadlineAt\<rparr>))))"

lemma addMilliseconds_Inr [result_simps]:
  "addMilliseconds v ms = Inr t \<longleftrightarrow> t = v + ms \<and> date_finite t"
  by (auto simp: addMilliseconds_def)

text \<open>
  The anchors of an admitted Task are ordered: the start window opens at the admission (or
  at the scheduled instant) and closes \<open>startToleranceMs\<close> later, and the deadline, present
  exactly when \<open>maxElapsedMs\<close> is, lies strictly after its opening; a scheduled start needs the
  scheduling capability, a deadline the maxElapsed capability.
\<close>

theorem validateTiming_anchors:
  assumes "validateTiming legacy timing scheduling maxElapsed acceptedAt = Inr a"
  shows "an_acceptedAt a = acceptedAt
    \<and> (tm_start timing = Immediate \<longrightarrow> an_notBefore a = acceptedAt)
    \<and> (tm_start timing \<noteq> Immediate \<longrightarrow> scheduling)
    \<and> an_latestStartAt a = an_notBefore a + tm_startToleranceMs timing
    \<and> an_notBefore a \<le> an_latestStartAt a \<and> date_finite (an_latestStartAt a)
    \<and> (case an_deadlineAt a of
         None \<Rightarrow> tm_maxElapsedMs timing = None
       | Some d \<Rightarrow> maxElapsed \<and> tm_maxElapsedMs timing = Some (d - an_notBefore a)
                   \<and> an_notBefore a < d \<and> date_finite d)"
  using assms
  by (cases "tm_start timing"; cases "tm_maxElapsedMs timing")
    (auto simp: validateTiming_def result_simps split: if_splits)

theorem validateTiming_anchors_witness:
  "\<exists>a. validateTiming (\<lambda>_. None)
         \<lparr>tm_start = Scheduled ''2026-09-08T12:30:15Z'', tm_startToleranceMs = 1000,
          tm_maxElapsedMs = Some 60000\<rparr> True True 0 = Inr a
       \<and> an_notBefore a \<le> an_latestStartAt a"
proof -
  let ?t = "\<lparr>tm_start = Scheduled ''2026-09-08T12:30:15Z'', tm_startToleranceMs = 1000,
             tm_maxElapsedMs = Some 60000\<rparr>"
  have "is_ok (validateTiming (\<lambda>_. None) ?t True True 0)" by code_simp
  then obtain a where a: "validateTiming (\<lambda>_. None) ?t True True 0 = Inr a"
    by (auto simp: is_ok_iff)
  from validateTiming_anchors [OF a] a show ?thesis by blast
qed

subsection \<open>business-responder.ts\<close>

record responder_value =
  rv_source :: json
  rv_actorType :: json
  rv_actorId :: json

text \<open>
  \<open>String(fields.actorType)\<close> is compared with three names; only a string (or an array of one
  string, which prints as its element) can print as one of them.
\<close>

fun js_string_is :: "json \<Rightarrow> string \<Rightarrow> bool" where
  "js_string_is (JStr s) name \<longleftrightarrow> s = name"
| "js_string_is (JArr [v]) name \<longleftrightarrow> js_string_is v name"
| "js_string_is _ name \<longleftrightarrow> False"

definition isRuntimeBusinessResponder :: "responder_value \<Rightarrow> bool" where
  "isRuntimeBusinessResponder f \<longleftrightarrow>
     (if rv_source f = JStr ''development''
      then rv_actorType f = JStr ''development_anonymous'' \<and>
           rv_actorId f = JStr ''development-anonymous''
      else (rv_source f = JStr ''jwt_hs256'' \<or> rv_source f = JStr ''trusted_headers'') \<and>
           (\<exists>name \<in> set [''user'', ''agent'', ''operator'']. js_string_is (rv_actorType f) name) \<and>
           (case rv_actorId f of JStr s \<Rightarrow> 0 < length s | _ \<Rightarrow> False))"

subsection \<open>availability.ts\<close>

datatype check_arguments =
    Complete_arguments jobj
  | Partial_arguments jobj "string list"

record check_start =
  cs_mode :: string
  cs_scheduledAt :: "string option"
  cs_startToleranceMs :: "int option"

record check_timing =
  ct_start :: "check_start option"
  ct_maxElapsedMs :: "int option"

record availability_check =
  ck_requestId :: string
  ck_operationName :: string
  ck_arguments :: check_arguments
  ck_timing :: "check_timing option"

record availability_result =
  ar_requestId :: string
  ar_operationName :: string
  ar_availability :: string
  ar_riskLevel :: "string option"
  ar_reasonCode :: "string option"
  ar_description :: "string option"
  ar_validUntil :: "string option"
  ar_earliestStartTime :: "string option"
  ar_nextAvailableWindows :: "(string \<times> string) list option"
  ar_estimatedDelayMs :: "int option"
  ar_reservationMode :: "string option"
  ar_reservationRef :: "string option"
  ar_possibleEffects :: "string list option"

definition frozenTimestamp :: "string \<Rightarrow> error \<Rightarrow> int result" where
  "frozenTimestamp value reasonCode =
     (if \<not> rfc3339 value then Inl reasonCode
      else case date_parse value of None \<Rightarrow> Inl reasonCode | Some t \<Rightarrow> Inr t)"

definition window_step :: "int option \<Rightarrow> string \<times> string \<Rightarrow> int option result" where
  "window_step previousEnd w =
     bind_r (frozenTimestamp (fst w) ''INVALID_AVAILABILITY_WINDOW'') (\<lambda>start.
     bind_r (frozenTimestamp (snd w) ''INVALID_AVAILABILITY_WINDOW'') (\<lambda>stop.
       if start \<ge> stop \<or> (case previousEnd of None \<Rightarrow> False | Some p \<Rightarrow> start < p)
       then Inl ''INVALID_AVAILABILITY_WINDOW'' else Inr (Some stop)))"

definition check_windows :: "availability_result \<Rightarrow> unit result" where
  "check_windows r =
     (let ws = (case ar_nextAvailableWindows r of None \<Rightarrow> [] | Some ws \<Rightarrow> ws)
      in if length ws > 32 then Inl ''AVAILABILITY_TOO_MANY_WINDOWS''
         else bind_r (fold_r window_step None ws) (\<lambda>_. Inr ()))"

definition check_reservation :: "availability_result \<Rightarrow> unit result" where
  "check_reservation r =
     (if ar_reservationMode r = Some ''guaranteed''
      then (case ar_reservationRef r of
              None \<Rightarrow> Inl ''AVAILABILITY_RESERVATION_INVALID''
            | Some ref \<Rightarrow> if bounded 256 ref then Inr () else Inl ''AVAILABILITY_RESERVATION_INVALID'')
      else if ar_reservationRef r \<noteq> None then Inl ''AVAILABILITY_RESERVATION_INVALID''
      else Inr ())"

definition check_validity :: "int \<Rightarrow> availability_result \<Rightarrow> unit result" where
  "check_validity checkedAt r =
     (case ar_validUntil r of
        None \<Rightarrow> Inr ()
      | Some v \<Rightarrow>
          bind_r (frozenTimestamp v ''AVAILABILITY_INVALID_VALID_UNTIL'') (\<lambda>validUntil.
            if validUntil < checkedAt then Inl ''AVAILABILITY_VALID_UNTIL_BEFORE_CHECKED_AT''
            else Inr ()))"

definition restricted_incomplete :: "availability_result \<Rightarrow> bool" where
  "restricted_incomplete r \<longleftrightarrow>
     ar_riskLevel r = None \<or> ar_validUntil r = None \<or>
     (ar_earliestStartTime r = None \<and>
      (case ar_nextAvailableWindows r of None \<Rightarrow> True | Some ws \<Rightarrow> ws = []))"

text \<open>One round of the loop over the results; the state is the list \<open>seen\<close>.\<close>

definition check_result ::
  "int \<Rightarrow> (string, availability_check) jsmap \<Rightarrow> string list \<Rightarrow> availability_result
    \<Rightarrow> string list result" where
  "check_result checkedAt requestedById seen r =
     (if ar_reservationMode r \<notin> {Some ''none'', Some ''best_effort'', Some ''guaranteed''}
      then Inl ''AVAILABILITY_RESERVATION_MODE_MISSING''
      else if ar_availability r \<notin> set [''available'', ''restricted'', ''disabled'', ''unknown'']
      then Inl ''AVAILABILITY_INVALID_STATE''
      else if map_option ck_operationName (js_get requestedById (ar_requestId r))
                \<noteq> Some (ar_operationName r) \<or> ar_requestId r \<in> set seen
      then Inl ''AVAILABILITY_RESULT_IDENTITY_MISMATCH''
      else
        bind_r (check_validity checkedAt r) (\<lambda>_.
          if ar_availability r = ''restricted'' \<and> restricted_incomplete r
          then Inl ''RESTRICTED_AVAILABILITY_FIELDS_MISSING''
          else
            bind_r (case ar_earliestStartTime r of
                      None \<Rightarrow> Inr ()
                    | Some v \<Rightarrow> bind_r (frozenTimestamp v ''AVAILABILITY_INVALID_EARLIEST_START'')
                                       (\<lambda>_. Inr ())) (\<lambda>_.
            bind_r (check_windows r) (\<lambda>_.
            bind_r (check_reservation r) (\<lambda>_.
              Inr (ar_requestId r # seen))))))"

definition requested_by_id :: "availability_check list \<Rightarrow> (string, availability_check) jsmap" where
  "requested_by_id requested = fold (\<lambda>c. js_set (ck_requestId c) c) requested []"

definition validateAvailabilityResponse ::
  "int \<Rightarrow> availability_check list \<Rightarrow> availability_result list \<Rightarrow> availability_result list result" where
  "validateAvailabilityResponse checkedAt requested results =
     (if length results \<noteq> length requested then Inl ''AVAILABILITY_RESULT_COUNT_MISMATCH''
      else bind_r (fold_r (check_result checkedAt (requested_by_id requested)) [] results)
             (\<lambda>_. Inr results))"

definition unknown_result :: "availability_check \<Rightarrow> availability_result" where
  "unknown_result check =
     \<lparr>ar_requestId = ck_requestId check, ar_operationName = ck_operationName check,
      ar_availability = ''unknown'', ar_riskLevel = Some ''critical'',
      ar_reasonCode = Some ''ADAPTER_TRANSIENT_UNAVAILABLE'',
      ar_description = Some ''Availability could not be determined; final admission still applies.'',
      ar_validUntil = None, ar_earliestStartTime = None, ar_nextAvailableWindows = None,
      ar_estimatedDelayMs = None, ar_reservationMode = Some ''none'', ar_reservationRef = None, ar_possibleEffects = None\<rparr>"

definition unknownAvailability :: "availability_check list \<Rightarrow> availability_result list" where
  "unknownAvailability requested = map unknown_result requested"

subsubsection \<open>What an accepted response promises\<close>

lemma requested_by_id_get:
  "js_get (requested_by_id requested) i = Some c \<Longrightarrow> c \<in> set requested \<and> ck_requestId c = i"
proof -
  have "js_get (fold (\<lambda>c. js_set (ck_requestId c) c) requested m) i = Some c \<Longrightarrow>
          (c \<in> set requested \<and> ck_requestId c = i) \<or> js_get m i = Some c" for m
    by (induction requested arbitrary: m) (fastforce split: if_splits)+
  then show "js_get (requested_by_id requested) i = Some c \<Longrightarrow> ?thesis"
    by (fastforce simp: requested_by_id_def)
qed

lemma check_result_Inr:
  assumes "check_result checkedAt m seen r = Inr seen'"
  shows "seen' = ar_requestId r # seen \<and> ar_requestId r \<notin> set seen
    \<and> (\<exists>c. js_get m (ar_requestId r) = Some c \<and> ck_operationName c = ar_operationName r)"
  using assms by (auto simp: check_result_def result_simps split: if_splits)

lemma fold_check_result:
  "fold_r (check_result checkedAt m) seen results = Inr seen' \<Longrightarrow> distinct seen \<Longrightarrow>
     distinct seen' \<and> seen' = rev (map ar_requestId results) @ seen
     \<and> (\<forall>r \<in> set results. \<exists>c. js_get m (ar_requestId r) = Some c
                              \<and> ck_operationName c = ar_operationName r)"
proof (induction results arbitrary: seen)
  case (Cons r rs)
  from Cons.prems obtain t where t: "check_result checkedAt m seen r = Inr t"
      "fold_r (check_result checkedAt m) t rs = Inr seen'"
    by (auto simp: result_simps)
  from check_result_Inr [OF t(1)] Cons.prems(2) have "distinct t" by auto
  note rest = Cons.IH [OF t(2) this] and now = check_result_Inr [OF t(1)]
  have "seen' = rev (map ar_requestId (r # rs)) @ seen" using rest now by simp
  with rest now show ?case by simp
qed simp

text \<open>
  An accepted availability response answers the batch one to one: it is returned unchanged,
  no request is answered twice, every answer names a requested id with that request's operation,
  and when the requested ids are distinct every request is answered.
\<close>

theorem availability_answers_batch:
  assumes "validateAvailabilityResponse checkedAt requested results = Inr accepted"
  shows "accepted = results \<and> distinct (map ar_requestId results)
    \<and> (\<forall>r \<in> set results. \<exists>c \<in> set requested. ck_requestId c = ar_requestId r
                                  \<and> ck_operationName c = ar_operationName r)
    \<and> (distinct (map ck_requestId requested) \<longrightarrow>
         mset (map ar_requestId results) = mset (map ck_requestId requested))"
proof -
  have len: "length results = length requested"
    using assms by (simp add: validateAvailabilityResponse_def split: if_splits)
  with assms have "bind_r (fold_r (check_result checkedAt (requested_by_id requested)) [] results)
                     (\<lambda>_. Inr results) = Inr accepted"
    by (simp add: validateAvailabilityResponse_def)
  then obtain seen where
      fold: "fold_r (check_result checkedAt (requested_by_id requested)) [] results = Inr seen"
      and acc: "accepted = results"
    by (cases "fold_r (check_result checkedAt (requested_by_id requested)) [] results") simp_all
  from fold_check_result [OF fold] have d: "distinct (map ar_requestId results)"
    and named: "\<forall>r \<in> set results. \<exists>c. js_get (requested_by_id requested) (ar_requestId r) = Some c
                  \<and> ck_operationName c = ar_operationName r"
    by auto
  from named have sub: "\<forall>r \<in> set results. \<exists>c \<in> set requested. ck_requestId c = ar_requestId r
                  \<and> ck_operationName c = ar_operationName r"
    using requested_by_id_get by blast
  have "mset (map ar_requestId results) = mset (map ck_requestId requested)"
    if dr: "distinct (map ck_requestId requested)"
  proof -
    have "set (map ar_requestId results) \<subseteq> set (map ck_requestId requested)"
    proof
      fix x
      assume "x \<in> set (map ar_requestId results)"
      then obtain r where r: "r \<in> set results" "x = ar_requestId r" by auto
      with sub obtain c where "c \<in> set requested" "ck_requestId c = x" by blast
      then show "x \<in> set (map ck_requestId requested)" by auto
    qed
    moreover have "card (set (map ar_requestId results)) = card (set (map ck_requestId requested))"
      using d dr len distinct_card [of "map ar_requestId results"]
        distinct_card [of "map ck_requestId requested"] by simp
    ultimately have "set (map ar_requestId results) = set (map ck_requestId requested)"
      by (simp add: card_subset_eq)
    then show ?thesis using d dr set_eq_iff_mset_eq_distinct by blast
  qed
  with acc d sub show ?thesis by blast
qed

lemma requested_by_id_complete:
  "distinct (map ck_requestId requested) \<Longrightarrow> c \<in> set requested \<Longrightarrow>
     js_get (requested_by_id requested) (ck_requestId c) = Some c"
proof -
  have "distinct (map ck_requestId requested) \<Longrightarrow>
     js_get (fold (\<lambda>c. js_set (ck_requestId c) c) requested m) i =
       (case find (\<lambda>c. ck_requestId c = i) requested of Some c \<Rightarrow> Some c | None \<Rightarrow> js_get m i)" for m i
  proof (induction requested arbitrary: m)
    case (Cons a as)
    have "find (\<lambda>c. ck_requestId c = ck_requestId a) as = None"
      using Cons.prems by (auto simp: find_None_iff image_iff)
    with Cons show ?case by (auto split: option.splits)
  qed simp
  moreover assume "distinct (map ck_requestId requested)" "c \<in> set requested"
  moreover have "find (\<lambda>d. ck_requestId d = ck_requestId c) requested = Some c"
    using \<open>distinct (map ck_requestId requested)\<close> \<open>c \<in> set requested\<close>
    by (induction requested) (auto simp: image_iff)
  ultimately show ?thesis by (simp add: requested_by_id_def)
qed

text \<open>
  The answer given when the Adapter cannot be reached is itself a valid response to the
  batch at every instant: \<open>unknownAvailability\<close> passes \<open>validateAvailabilityResponse\<close>.
\<close>

theorem unknownAvailability_valid:
  assumes "distinct (map ck_requestId requested)"
  shows "validateAvailabilityResponse checkedAt requested (unknownAvailability requested) =
           Inr (unknownAvailability requested)"
proof -
  have "fold_r (check_result checkedAt m) seen (map unknown_result cs) =
          Inr (rev (map ck_requestId cs) @ seen)"
    if "\<forall>c \<in> set cs. js_get m (ck_requestId c) = Some c"
      and "distinct (map ck_requestId cs)" and "set (map ck_requestId cs) \<inter> set seen = {}"
    for m cs seen
    using that
  proof (induction cs arbitrary: seen)
    case (Cons c cs)
    then have "check_result checkedAt m seen (unknown_result c) = Inr (ck_requestId c # seen)"
      by (simp add: check_result_def unknown_result_def check_validity_def check_windows_def
          check_reservation_def)
    moreover have "set (map ck_requestId cs) \<inter> set (ck_requestId c # seen) = {}"
      using Cons.prems by auto
    ultimately show ?case using Cons.IH [of "ck_requestId c # seen"] Cons.prems by simp
  qed simp
  from this [of requested "requested_by_id requested" "[]"] assms requested_by_id_complete
  show ?thesis by (simp add: validateAvailabilityResponse_def unknownAvailability_def)
qed

definition sample_checks :: "availability_check list" where
  "sample_checks = [\<lparr>ck_requestId = ''a'', ck_operationName = ''vehicle_navigate'',
                     ck_arguments = Complete_arguments [], ck_timing = None\<rparr>,
                    \<lparr>ck_requestId = ''b'', ck_operationName = ''vehicle_fire_weapon'',
                     ck_arguments = Partial_arguments [] [''/target''], ck_timing = None\<rparr>]"

theorem unknownAvailability_valid_witness:
  "validateAvailabilityResponse 5 sample_checks (unknownAvailability sample_checks) =
     Inr (unknownAvailability sample_checks)"
  by (rule unknownAvailability_valid) (simp add: sample_checks_def)

theorem availability_answers_batch_witness:
  "mset (map ar_requestId (unknownAvailability sample_checks)) = mset (map ck_requestId sample_checks)"
proof -
  have "is_ok (validateAvailabilityResponse 0 sample_checks (unknownAvailability sample_checks))"
    by code_simp
  then obtain r where "validateAvailabilityResponse 0 sample_checks (unknownAvailability sample_checks) = Inr r"
    by (auto simp: is_ok_iff)
  from availability_answers_batch [OF this] show ?thesis by (simp add: sample_checks_def)
qed

end
