(* ===== verification/Interfaces.thy ===== *)
theory Interfaces
  imports Prelude
begin

text \<open>
  The contracts that several components of the platform share, as locales.
  \<^item> \<open>cas_side\<close> and \<open>cas_aggregate\<close>: an aggregate whose operations carry an expected revision
    (compare and swap), with several sides or one. Interpreted by the Runtime deployment (desired
    and observed side) and by the Runtime process projection.
  \<^item> \<open>fence\<close> and \<open>fence_ledger\<close>: a key passed at most once, also between other operations.
    Interpreted by the Context revisions of the task-business store, the updates of the provider
    catalogue.
  \<^item> \<open>claim_registry\<close> and \<open>claim_ledger\<close>: a fence with a record for each key, which a claim
    does not share. Interpreted by the command acknowledgements and the mutation journal of the
    Provider store and by the command ledger of the task-business store.
  \<^item> \<open>guarded_machine\<close>, \<open>guarded_history\<close>: immutable versions of an object, each accepted
    against its predecessor. Interpreted by the journal, by Actions, Required Inputs and
    Interventions.
  \<^item> \<open>fencing\<close>: leases whose tokens grow with each grant of a key. Interpreted by the durable jobs
    and by the start attempts of tasks.
\<close>

subsection \<open>Runs of fallible operations\<close>

text \<open>
  A caller that meets an error keeps the state it had. \<open>effective\<close> lists the operations of a
  run that changed the state; \<open>after\<close> is the state at its end.
\<close>

fun after :: "('s \<Rightarrow> 'op \<Rightarrow> 'e + 's \<times> bool) \<Rightarrow> 's \<Rightarrow> 'op list \<Rightarrow> 's" where
  "after step s [] = s"
| "after step s (x # xs) =
     (case step s x of Inl e \<Rightarrow> after step s xs | Inr (s', b) \<Rightarrow> after step s' xs)"

fun effective :: "('s \<Rightarrow> 'op \<Rightarrow> 'e + 's \<times> bool) \<Rightarrow> 's \<Rightarrow> 'op list \<Rightarrow> 'op list" where
  "effective step s [] = []"
| "effective step s (x # xs) =
     (case step s x of
        Inl e \<Rightarrow> effective step s xs
      | Inr (s', b) \<Rightarrow> (if b then x # effective step s' xs else effective step s' xs))"

lemma after_append: "after step s (xs @ ys) = after step (after step s xs) ys"
  by (induction xs arbitrary: s) (auto split: sum.split)

text \<open>A component under its invariant: outside of it every operation is refused.\<close>

definition under :: "('s \<Rightarrow> bool) \<Rightarrow> 'e \<Rightarrow> ('s \<Rightarrow> 'op \<Rightarrow> 'e + 'a) \<Rightarrow> 's \<Rightarrow> 'op \<Rightarrow> 'e + 'a" where
  "under good e step s x = (if good s then step s x else Inl e)"

lemma under_Inr: "under good e step s x = Inr y \<longleftrightarrow> good s \<and> step s x = Inr y"
  by (simp add: under_def)

lemma after_invariant:
  assumes "good s" and "\<And>s x s' b. good s \<Longrightarrow> step s x = Inr (s', b) \<Longrightarrow> good s'"
  shows "good (after step s xs)"
  using assms(1)
proof (induction xs arbitrary: s)
  case (Cons x xs)
  then show ?case using assms(2) by (auto split: sum.split)
qed simp

lemma effective_under:
  assumes "good s" and "\<And>s x s' b. good s \<Longrightarrow> step s x = Inr (s', b) \<Longrightarrow> good s'"
  shows "effective (under good e step) s xs = effective step s xs"
  using assms(1)
proof (induction xs arbitrary: s)
  case (Cons x xs)
  then have "under good e step s x = step s x" by (simp add: under_def)
  then show ?case using Cons assms(2) by (auto split: sum.split)
qed simp

text \<open>
  One side of an aggregate whose operations carry the revision they expect. The operations that
  concern the side are \<open>concerns\<close>; the others leave its revision alone.
\<close>

locale cas_side =
  fixes revision :: "'s \<Rightarrow> int"
    and expected :: "'op \<Rightarrow> int"
    and concerns :: "'op \<Rightarrow> bool"
    and step :: "'s \<Rightarrow> 'op \<Rightarrow> 'e + 's \<times> bool"
  assumes changed_revision: "step s x = Inr (s', True) \<Longrightarrow> concerns x \<Longrightarrow> revision s' = revision s + 1"
    and changed_expected: "step s x = Inr (s', True) \<Longrightarrow> concerns x \<Longrightarrow> expected x = revision s"
    and other_revision: "step s x = Inr (s', True) \<Longrightarrow> \<not> concerns x \<Longrightarrow> revision s' = revision s"
    and unchanged_revision: "step s x = Inr (s', False) \<Longrightarrow> revision s' = revision s"
begin

abbreviation taken :: "'s \<Rightarrow> 'op list \<Rightarrow> 'op list" where
  "taken s xs \<equiv> filter concerns (effective step s xs)"

lemma revision_counts: "revision (after step s xs) = revision s + int (length (taken s xs))"
proof (induction xs arbitrary: s)
  case (Cons x xs)
  show ?case
  proof (cases "step s x")
    case (Inr p)
    then obtain s' b where p: "step s x = Inr (s', b)" by (cases p) simp
    then show ?thesis
      using Cons.IH [of s'] changed_revision [of s x s'] other_revision [of s x s'] unchanged_revision [of s x s']
      by (cases b; cases "concerns x") auto
  qed (use Cons.IH in simp)
qed simp

lemma revision_monotone: "revision s \<le> revision (after step s xs)"
  by (simp add: revision_counts)

lemma effective_expected:
  "map expected (taken s xs) = map (\<lambda>i. revision s + int i) [0..<length (taken s xs)]"
proof (induction xs arbitrary: s)
  case (Cons x xs)
  show ?case
  proof (cases "step s x")
    case (Inr p)
    then obtain s' b where p: "step s x = Inr (s', b)" by (cases p) simp
    show ?thesis
    proof (cases "b \<and> concerns x")
      case True
      with p have r: "revision s' = revision s + 1" "expected x = revision s"
        using changed_revision changed_expected by auto
      have "map (\<lambda>i. revision s + int i) [0..<Suc n] =
              revision s # map (\<lambda>i. revision s' + int i) [0..<n]" for n
        by (simp add: upt_conv_Cons map_Suc_upt [symmetric] r(1) del: upt_Suc)
      then show ?thesis using p True r Cons.IH [of s'] by (simp del: upt_Suc)
    next
      case False
      with p have "revision s' = revision s"
        using other_revision [of s x s'] unchanged_revision [of s x s'] by (cases b) auto
      then show ?thesis using p False Cons.IH [of s'] by (cases b) auto
    qed
  qed (use Cons.IH in simp)
qed simp

text \<open>No lost update: of all the operations issued against one revision, at most one changes
  the side.\<close>

lemma no_lost_update: "distinct (map expected (taken s xs))"
  by (simp add: effective_expected distinct_map inj_on_def)

end

text \<open>An aggregate with one side.\<close>

locale cas_aggregate =
  fixes revision :: "'s \<Rightarrow> int"
    and expected :: "'op \<Rightarrow> int"
    and step :: "'s \<Rightarrow> 'op \<Rightarrow> 'e + 's \<times> bool"
  assumes changed_revision: "step s x = Inr (s', True) \<Longrightarrow> revision s' = revision s + 1"
    and changed_expected: "step s x = Inr (s', True) \<Longrightarrow> expected x = revision s"
    and unchanged_state: "step s x = Inr (s', False) \<Longrightarrow> s' = s"

sublocale cas_aggregate \<subseteq> side: cas_side revision expected "\<lambda>_. True" step
  by unfold_locales (auto simp: changed_revision changed_expected dest: unchanged_state)

context cas_aggregate begin

lemma revision_counts:
  "revision (after step s xs) = revision s + int (length (effective step s xs))"
  using side.revision_counts by simp

lemma revision_monotone: "revision s \<le> revision (after step s xs)"
  by (rule side.revision_monotone)

lemma no_lost_update: "distinct (map expected (effective step s xs))"
  using side.no_lost_update by simp

end

subsection \<open>Claims\<close>

locale fence =
  fixes lookup :: "'s \<Rightarrow> 'k \<Rightarrow> 'r option"
    and key :: "'a \<Rightarrow> 'k"
    and claim :: "'s \<Rightarrow> 'a \<Rightarrow> 'e + 's \<times> bool"
  assumes claim_new: "claim s a = Inr (s', True) \<Longrightarrow> lookup s (key a) = None"
    and claim_present: "claim s a = Inr (s', True) \<Longrightarrow> lookup s' (key a) \<noteq> None"
    and claim_keeps: "claim s a = Inr (s', b) \<Longrightarrow> lookup s k \<noteq> None \<Longrightarrow> lookup s' k \<noteq> None"
begin

lemma claimed_key_refused:
  "lookup s k \<noteq> None \<Longrightarrow> k \<notin> set (map key (effective claim s xs))"
proof (induction xs arbitrary: s)
  case (Cons x xs)
  show ?case
  proof (cases "claim s x")
    case (Inl e)
    then show ?thesis using Cons by simp
  next
    case (Inr p)
    then obtain s' b where p: "claim s x = Inr (s', b)" by (cases p) simp
    then have "lookup s' k \<noteq> None" using Cons.prems claim_keeps by blast
    from Cons.IH [OF this] show ?thesis
      using p Cons.prems claim_new by (cases b) auto
  qed
qed simp

text \<open>At most one caller wins a key, whatever the order of the claims.\<close>

lemma claimed_once: "distinct (map key (effective claim s xs))"
proof (induction xs arbitrary: s)
  case (Cons x xs)
  show ?case
  proof (cases "claim s x")
    case (Inl e)
    then show ?thesis using Cons by simp
  next
    case (Inr p)
    then obtain s' b where p: "claim s x = Inr (s', b)" by (cases p) simp
    then have "b \<Longrightarrow> key x \<notin> set (map key (effective claim s' xs))"
      using claim_present [of s x s'] claimed_key_refused [of s' "key x"] by simp
    then show ?thesis using p Cons.IH by (cases b) auto
  qed
qed simp

end

text \<open>A registry keeps one record per key: a claim touches only its own key.\<close>

locale claim_registry =
  fixes lookup :: "'s \<Rightarrow> 'k \<Rightarrow> 'r option"
    and key :: "'a \<Rightarrow> 'k"
    and claim :: "'s \<Rightarrow> 'a \<Rightarrow> 'e + 's \<times> bool"
  assumes registers_new: "claim s a = Inr (s', True) \<Longrightarrow> lookup s (key a) = None"
    and registers: "claim s a = Inr (s', True) \<Longrightarrow> lookup s' (key a) \<noteq> None"
    and found: "claim s a = Inr (s', False) \<Longrightarrow> s' = s"
    and registers_frame: "claim s a = Inr (s', b) \<Longrightarrow> k \<noteq> key a \<Longrightarrow> lookup s' k = lookup s k"
begin

lemma registry_keeps: "claim s a = Inr (s', b) \<Longrightarrow> lookup s k \<noteq> None \<Longrightarrow> lookup s' k \<noteq> None"
  using registers [of s a s'] registers_frame [of s a s' b k] found [of s a s']
  by (cases "k = key a"; cases b) auto

end

sublocale claim_registry \<subseteq> fence lookup key claim
  using registers_new registers registry_keeps by unfold_locales

text \<open>
  Claims interleaved with the other operations of the store: the combined step counts as
  effective only when it is a successful new claim.
\<close>

fun claim_or :: "('s \<Rightarrow> 'a \<Rightarrow> 'e + 's \<times> bool) \<Rightarrow> ('s \<Rightarrow> 'o \<Rightarrow> 'e + 's) \<Rightarrow> 's \<Rightarrow> 'a + 'o \<Rightarrow> 'e + 's \<times> bool"
where
  "claim_or claim other s (Inl a) = claim s a"
| "claim_or claim other s (Inr x) = bind_r (other s x) (\<lambda>s'. Inr (s', False))"

text \<open>A run of a component whose operations include the claims, seen as a run of the ledger.\<close>

lemma effective_split:
  assumes claim: "\<And>s x. is_claim x \<Longrightarrow> step s x = claim s (arg x)"
    and other: "\<And>s x. other s x = bind_r (step s x) (\<lambda>p. Inr (fst p))"
  shows "effective (claim_or claim other) s (map (\<lambda>x. if is_claim x then Inl (arg x) else Inr x) xs)
       = map (\<lambda>x. Inl (arg x)) (filter is_claim (effective step s xs))"
proof (induction xs arbitrary: s)
  case (Cons x xs)
  show ?case
  proof (cases "step s x")
    case (Inl e)
    have "is_claim x \<Longrightarrow> claim s (arg x) = Inl e" using claim [of x s] Inl by simp
    then show ?thesis using Inl Cons.IH other [of s x] by (cases "is_claim x") simp_all
  next
    case (Inr p)
    then obtain s' b where p: "step s x = Inr (s', b)" by (cases p) simp
    have "is_claim x \<Longrightarrow> claim s (arg x) = Inr (s', b)" using claim [of x s] p by simp
    then show ?thesis using p Cons.IH [of s'] other [of s x] by (cases "is_claim x"; cases b) simp_all
  qed
qed simp

locale fence_ledger = fence lookup key claim
  for lookup :: "'s \<Rightarrow> 'k \<Rightarrow> 'r option" and key :: "'a \<Rightarrow> 'k"
    and claim :: "'s \<Rightarrow> 'a \<Rightarrow> 'e + 's \<times> bool" +
  fixes other :: "'s \<Rightarrow> 'o \<Rightarrow> 'e + 's"
  assumes other_keeps: "other s x = Inr s' \<Longrightarrow> lookup s k \<noteq> None \<Longrightarrow> lookup s' k \<noteq> None"
begin

lemma mixed_refused:
  "lookup s k \<noteq> None \<Longrightarrow>
     k \<notin> set (map (\<lambda>x. key (projl x)) (effective (claim_or claim other) s xs))"
proof (induction xs arbitrary: s)
  case (Cons x xs)
  show ?case
  proof (cases "claim_or claim other s x")
    case (Inl e)
    then show ?thesis using Cons by simp
  next
    case (Inr p)
    then obtain s' b where p: "claim_or claim other s x = Inr (s', b)" by (cases p) simp
    have step: "lookup s' k \<noteq> None \<and> (b \<longrightarrow> k \<noteq> key (projl x))"
    proof (cases x)
      case (Inl c)
      with p have "claim s c = Inr (s', b)" by simp
      then show ?thesis using Inl Cons.prems claim_keeps claim_new by (cases b) auto
    next
      case (Inr y)
      with p have "other s y = Inr s'" "\<not> b" by (cases "other s y"; simp)+
      then show ?thesis using Cons.prems other_keeps by blast
    qed
    then have "k \<notin> set (map (\<lambda>x. key (projl x)) (effective (claim_or claim other) s' xs))"
      using Cons.IH by blast
    with step p show ?thesis by auto
  qed
qed simp

text \<open>At most one caller wins a key, also when the other operations run in between.\<close>

lemma mixed_claimed_once:
  "distinct (map (\<lambda>x. key (projl x)) (effective (claim_or claim other) s xs))"
proof (induction xs arbitrary: s)
  case (Cons x xs)
  show ?case
  proof (cases "claim_or claim other s x")
    case (Inl e)
    then show ?thesis using Cons by simp
  next
    case (Inr p)
    then obtain s' b where p: "claim_or claim other s x = Inr (s', b)" by (cases p) simp
    show ?thesis
    proof (cases b)
      case True
      with p obtain c where c: "x = Inl c" "claim s c = Inr (s', True)"
        by (cases x) (auto simp: bind_r_Inr)
      then have "key c \<notin> set (map (\<lambda>x. key (projl x)) (effective (claim_or claim other) s' xs))"
        using claim_present mixed_refused by blast
      then show ?thesis using p c True Cons.IH by simp
    next
      case False
      then show ?thesis using p Cons.IH by simp
    qed
  qed
qed simp

lemma component_claims_once:
  assumes "\<And>s x. is_claim x \<Longrightarrow> step s x = claim s (arg x)"
    and "\<And>s x. other s x = bind_r (step s x) (\<lambda>p. Inr (fst p))"
  shows "distinct (map (\<lambda>x. key (arg x)) (filter is_claim (effective step s xs)))"
proof -
  let ?ys = "map (\<lambda>x. if is_claim x then Inl (arg x) else Inr x) xs"
  have "effective (claim_or claim other) s ?ys =
          map (\<lambda>x. Inl (arg x)) (filter is_claim (effective step s xs))"
    using assms by (rule effective_split)
  then show ?thesis using mixed_claimed_once [of s ?ys] by (simp add: comp_def)
qed

end

locale claim_ledger = claim_registry lookup key claim
  for lookup :: "'s \<Rightarrow> 'k \<Rightarrow> 'r option" and key :: "'a \<Rightarrow> 'k"
    and claim :: "'s \<Rightarrow> 'a \<Rightarrow> 'e + 's \<times> bool" +
  fixes other :: "'s \<Rightarrow> 'o \<Rightarrow> 'e + 's"
  assumes rest_keeps: "other s x = Inr s' \<Longrightarrow> lookup s k \<noteq> None \<Longrightarrow> lookup s' k \<noteq> None"

sublocale claim_ledger \<subseteq> fence_ledger lookup key claim other
  using rest_keeps by unfold_locales

subsection \<open>Accepted histories\<close>

locale guarded_machine =
  fixes state :: "'v \<Rightarrow> 'st"
    and allowed :: "'st \<Rightarrow> 'st list"
    and check :: "'v \<Rightarrow> 'v \<Rightarrow> 'e + unit"
  assumes check_state: "check p n = Inr () \<Longrightarrow> state n \<in> set (allowed (state p))"
begin

lemma terminal_refused: "allowed (state p) = [] \<Longrightarrow> check p n \<noteq> Inr ()"
  using check_state by fastforce

end

text \<open>A history whose every version was accepted against its predecessor.\<close>

fun accepted_chain :: "('v \<Rightarrow> 'v \<Rightarrow> 'e + unit) \<Rightarrow> 'v \<Rightarrow> 'v list \<Rightarrow> bool" where
  "accepted_chain check p [] = True"
| "accepted_chain check p (n # ns) = (check p n = Inr () \<and> accepted_chain check n ns)"

locale guarded_history = guarded_machine state allowed check
  for state :: "'v \<Rightarrow> 'st" and allowed :: "'st \<Rightarrow> 'st list"
    and check :: "'v \<Rightarrow> 'v \<Rightarrow> 'e + unit" +
  fixes revision :: "'v \<Rightarrow> int" and same :: "'v \<Rightarrow> 'v \<Rightarrow> bool"
  assumes check_revision: "check p n = Inr () \<Longrightarrow> revision n = revision p + 1"
    and check_same: "check p n = Inr () \<Longrightarrow> same p n"
    and same_trans: "same u v \<Longrightarrow> same v w \<Longrightarrow> same u w"
begin

lemma chain_revisions:
  "accepted_chain check p ns \<Longrightarrow> i < length ns \<Longrightarrow> revision (ns ! i) = revision p + 1 + int i"
proof (induction ns arbitrary: p i)
  case (Cons n ns)
  then show ?case by (cases i) (auto simp: check_revision)
qed simp

lemma chain_same: "accepted_chain check p ns \<Longrightarrow> v \<in> set ns \<Longrightarrow> same p v"
proof (induction ns arbitrary: p)
  case (Cons n ns)
  then have pn: "same p n" using check_same by simp
  show ?case
  proof (cases "v = n")
    case False
    with Cons have "same n v" by simp
    with pn show ?thesis by (rule same_trans)
  qed (simp add: pn)
qed simp

text \<open>Only the last version of a history can be in a terminal state.\<close>

lemma terminal_is_last:
  "accepted_chain check p ns \<Longrightarrow> i < length ns \<Longrightarrow> allowed (state (ns ! i)) = [] \<Longrightarrow>
     Suc i = length ns"
proof (induction ns arbitrary: p i)
  case (Cons n ns)
  then show ?case
  proof (cases i)
    case 0
    with Cons.prems show ?thesis using terminal_refused by (cases ns) auto
  next
    case (Suc j)
    with Cons show ?thesis by auto
  qed
qed simp

end

subsection \<open>Fencing tokens\<close>

text \<open>A run whose steps grant leases, with all the leases it granted; a refused step changes nothing.\<close>

fun grants :: "('s \<Rightarrow> 'op \<Rightarrow> 'e + 's \<times> 'l list) \<Rightarrow> 's \<Rightarrow> 'op list \<Rightarrow> 's \<times> 'l list" where
  "grants step s [] = (s, [])"
| "grants step s (x # xs) =
     (case step s x of
        Inl e \<Rightarrow> grants step s xs
      | Inr (s', ls) \<Rightarrow> (case grants step s' xs of (s'', ls') \<Rightarrow> (s'', ls @ ls')))"

text \<open>Every lease of a key carries a token above the level of the key, which never falls.\<close>

locale fencing =
  fixes good :: "'s \<Rightarrow> bool"
    and level :: "'s \<Rightarrow> 'k \<Rightarrow> int"
    and key :: "'l \<Rightarrow> 'k"
    and token :: "'l \<Rightarrow> int"
    and step :: "'s \<Rightarrow> 'op \<Rightarrow> 'e + 's \<times> 'l list"
  assumes step_good: "good s \<Longrightarrow> step s x = Inr (s', ls) \<Longrightarrow> good s'"
    and level_grows: "good s \<Longrightarrow> step s x = Inr (s', ls) \<Longrightarrow> level s k \<le> level s' k"
    and granted_above: "good s \<Longrightarrow> step s x = Inr (s', ls) \<Longrightarrow> l \<in> set ls \<Longrightarrow>
      level s (key l) < token l \<and> token l \<le> level s' (key l)"
    and granted_distinct: "good s \<Longrightarrow> step s x = Inr (s', ls) \<Longrightarrow> distinct (map key ls)"
begin

lemma run_levels:
  "good s \<Longrightarrow> grants step s xs = (s', ls) \<Longrightarrow>
     good s' \<and> level s k \<le> level s' k \<and>
     (l \<in> set ls \<longrightarrow> level s (key l) < token l \<and> token l \<le> level s' (key l))"
proof (induction xs arbitrary: s ls k)
  case (Cons x xs)
  show ?case
  proof (cases "step s x")
    case (Inl e)
    with Cons show ?thesis by simp
  next
    case (Inr p)
    then obtain s1 l1 where p: "step s x = Inr (s1, l1)" by (cases p) simp
    obtain l2 where l2: "grants step s1 xs = (s', l2)" "ls = l1 @ l2"
      using Cons.prems(2) p by (auto split: prod.splits)
    have g: "good s1" using step_good [OF Cons.prems(1) p] .
    have "level s k \<le> level s1 k" for k using level_grows [OF Cons.prems(1) p] .
    moreover have "good s' \<and> level s1 k \<le> level s' k \<and>
        (l \<in> set l2 \<longrightarrow> level s1 (key l) < token l \<and> token l \<le> level s' (key l))" for k
      using Cons.IH [OF g l2(1), of k] Cons.IH [OF g l2(1), of "key l"] by blast
    moreover have "l \<in> set l1 \<longrightarrow> level s (key l) < token l \<and> token l \<le> level s1 (key l)"
      using granted_above [OF Cons.prems(1) p] by blast
    ultimately show ?thesis unfolding l2(2) by (metis (no_types, lifting) Un_iff order.trans order_le_less_trans set_append)
  qed
qed simp

text \<open>Two leases of a key never share a token: the later one has the greater.\<close>

lemma tokens_increase:
  "good s \<Longrightarrow> grants step s xs = (s', ls) \<Longrightarrow> sorted_wrt (\<lambda>x y. key x = key y \<longrightarrow> token x < token y) ls"
proof (induction xs arbitrary: s ls)
  case (Cons x xs)
  show ?case
  proof (cases "step s x")
    case (Inl e)
    with Cons show ?thesis by simp
  next
    case (Inr p)
    then obtain s1 l1 where p: "step s x = Inr (s1, l1)" by (cases p) simp
    obtain l2 where l2: "grants step s1 xs = (s', l2)" "ls = l1 @ l2"
      using Cons.prems(2) p by (auto split: prod.splits)
    have g: "good s1" using step_good [OF Cons.prems(1) p] .
    have "sorted_wrt (\<lambda>x y. key x = key y \<longrightarrow> token x < token y) l1"
      using granted_distinct [OF Cons.prems(1) p] by (induction l1) auto
    moreover have "token x < token y" if "x \<in> set l1" "y \<in> set l2" "key x = key y" for x y
      using granted_above [OF Cons.prems(1) p that(1)] run_levels [OF g l2(1)] that(2,3) by force
    ultimately show ?thesis using Cons.IH [OF g l2(1)] l2(2) by (auto simp: sorted_wrt_append)
  qed
qed simp

end

end
