(* ===== verification/Deployment.thy ===== *)
theory Deployment
  imports JsTime Interfaces
begin

text \<open>
  packages/runtime-deployment/src/ids.ts, errors.ts and model.ts: the Runtime deployment
  aggregate of the control plane. A deployment is a value; a method that mutates it returns the
  new value beside its result. \<open>new URL\<close> is the parameter \<open>parse_url\<close>; an invalid \<open>Date\<close> is
  \<open>None\<close>. The raw specification keeps every field optional, as \<open>validateSpec\<close> inspects it.
\<close>

subsection \<open>errors.ts, ids.ts\<close>

datatype deployment_status =
    REQUESTED | DATABASE_PROVISIONING | MIGRATING | CONFIG_PREPARING | STARTING
  | HEALTH_CHECKING | DISCOVERING | ACTIVE | STOPPED | DRAINING | DEGRADED | FAILED

datatype deployment_error =
    InvalidIdentifier string
  | InvalidSpec string
  | InvalidTransition deployment_status deployment_status
  | InvalidProjection string
  | StateConflict deployment_status deployment_status
  | RevisionConflict string int int
  | ProcessRevisionConflict int int

definition is_lower :: "char \<Rightarrow> bool" where
  "is_lower c \<longleftrightarrow> (let n = (of_char c :: nat) in 97 \<le> n \<and> n \<le> 122)"

definition is_upper :: "char \<Rightarrow> bool" where
  "is_upper c \<longleftrightarrow> (let n = (of_char c :: nat) in 65 \<le> n \<and> n \<le> 90)"

definition is_alnum :: "char \<Rightarrow> bool" where
  "is_alnum c \<longleftrightarrow> is_lower c \<or> is_upper c \<or> is_digit c"

text \<open>\<open>LogicalIdPattern\<close>: \<open>/^[A-Za-z0-9][A-Za-z0-9._:-]{0,127}$/\<close>.\<close>

definition logical_id :: "string \<Rightarrow> bool" where
  "logical_id s \<longleftrightarrow>
     (case s of [] \<Rightarrow> False
      | c # r \<Rightarrow> is_alnum c \<and> length r \<le> 127 \<and>
                 list_all (\<lambda>x. is_alnum x \<or> x \<in> set ''._:-'') r)"

text \<open>\<open>EnvironmentPattern\<close>: \<open>/^[a-z][a-z0-9-]{0,62}$/\<close>.\<close>

definition environment_id :: "string \<Rightarrow> bool" where
  "environment_id s \<longleftrightarrow>
     (case s of [] \<Rightarrow> False
      | c # r \<Rightarrow> is_lower c \<and> length r \<le> 62 \<and>
                 list_all (\<lambda>x. is_lower x \<or> is_digit x \<or> x = CHR ''-'') r)"

definition parseIdentifier :: "string \<Rightarrow> string \<Rightarrow> (string \<Rightarrow> bool) \<Rightarrow> deployment_error + string" where
  "parseIdentifier value kind pattern =
     (if pattern value then Inr value else Inl (InvalidIdentifier kind))"

definition runtimeDeploymentId :: "string \<Rightarrow> deployment_error + string" where
  "runtimeDeploymentId value = parseIdentifier value ''RuntimeDeploymentId'' logical_id"

definition runtimeInstanceId :: "string \<Rightarrow> deployment_error + string" where
  "runtimeInstanceId value = parseIdentifier value ''RuntimeInstanceId'' logical_id"

definition runtimeProviderId :: "string \<Rightarrow> deployment_error + string" where
  "runtimeProviderId value = parseIdentifier value ''RuntimeProviderId'' logical_id"

definition runtimeEnvironmentId :: "string \<Rightarrow> deployment_error + string" where
  "runtimeEnvironmentId value = parseIdentifier value ''RuntimeEnvironmentId'' environment_id"

subsection \<open>Specifications\<close>

record direct_container =
  dc_instanceId :: string
  dc_controlEndpoint :: string
  dc_advertisedEndpoint :: string

record deployment_spec =
  sp_deploymentId :: string
  sp_providerId :: string
  sp_environment :: string
  sp_desiredState :: string
  sp_desiredReplicas :: int
  sp_runtimeVersion :: string
  sp_adapterEndpoint :: "string option"
  sp_runtimeAuthority :: "string option"
  sp_databaseProfileId :: "string option"
  sp_configProfileId :: "string option"
  sp_directContainer :: "direct_container option"

record url =
  u_protocol :: string
  u_username :: string
  u_password :: string
  u_search :: string
  u_hash :: string
  u_pathname :: string

type_synonym url_parser = "string \<Rightarrow> url option"

definition base_endpoint :: "url_parser \<Rightarrow> string \<Rightarrow> bool" where
  "base_endpoint parse_url value \<longleftrightarrow>
     trim value = value \<and> bounded 2048 value \<and>
     (case parse_url value of
        None \<Rightarrow> False
      | Some endpoint \<Rightarrow>
          u_protocol endpoint \<in> set [''http:'', ''https:''] \<and>
          u_username endpoint = [] \<and> u_password endpoint = [] \<and>
          u_search endpoint = [] \<and> u_hash endpoint = [] \<and> u_pathname endpoint = ''/'')"

definition validateBaseEndpoint :: "url_parser \<Rightarrow> string \<Rightarrow> string \<Rightarrow> deployment_error + unit" where
  "validateBaseEndpoint parse_url value field =
     throw_if (\<not> base_endpoint parse_url value) (InvalidSpec field)"

definition DESIRED_STATES :: "string list" where
  "DESIRED_STATES = [''running'', ''stopped'', ''draining'']"

definition validateDesiredState :: "string \<Rightarrow> int \<Rightarrow> deployment_error + unit" where
  "validateDesiredState desiredState desiredReplicas =
     (if desiredState \<notin> set DESIRED_STATES then Inl (InvalidSpec ''desiredState'')
      else if \<not> is_safe_integer desiredReplicas \<or> desiredReplicas < 0 \<or> desiredReplicas > 1
      then Inl (InvalidSpec ''desiredReplicas'')
      else if desiredState = ''running'' \<and> desiredReplicas \<noteq> 1 then Inl (InvalidSpec ''desiredReplicas'')
      else if desiredState \<noteq> ''running'' \<and> desiredReplicas \<noteq> 0 then Inl (InvalidSpec ''desiredReplicas'')
      else Inr ())"

definition validateDirect :: "url_parser \<Rightarrow> deployment_spec \<Rightarrow> deployment_error + unit" where
  "validateDirect parse_url spec =
     (case sp_directContainer spec of
        None \<Rightarrow> Inl (InvalidSpec ''directContainer'')
      | Some direct \<Rightarrow>
          if sp_adapterEndpoint spec = None then Inl (InvalidSpec ''adapterEndpoint'')
          else if sp_databaseProfileId spec \<noteq> None then Inl (InvalidSpec ''databaseProfileId'')
          else if sp_configProfileId spec \<noteq> None then Inl (InvalidSpec ''configProfileId'')
          else if \<not> logical_id (dc_instanceId direct)
          then Inl (InvalidSpec ''directContainer.instanceId'')
          else
            bind_r (validateBaseEndpoint parse_url (dc_controlEndpoint direct)
                      ''directContainer.controlEndpoint'') (\<lambda>_.
              validateBaseEndpoint parse_url (dc_advertisedEndpoint direct)
                ''directContainer.advertisedEndpoint''))"

definition validatePlatform :: "deployment_spec \<Rightarrow> deployment_error + unit" where
  "validatePlatform spec =
     (if sp_directContainer spec \<noteq> None then Inl (InvalidSpec ''directContainer'')
      else if sp_databaseProfileId spec = None then Inl (InvalidSpec ''databaseProfileId'')
      else if sp_configProfileId spec = None then Inl (InvalidSpec ''configProfileId'')
      else Inr ())"

definition authority_of :: "deployment_spec \<Rightarrow> string" where
  "authority_of spec =
     (case sp_runtimeAuthority spec of None \<Rightarrow> ''platform_managed'' | Some a \<Rightarrow> a)"

definition validateShape :: "url_parser \<Rightarrow> deployment_spec \<Rightarrow> deployment_error + unit" where
  "validateShape parse_url spec =
     (if trim (sp_runtimeVersion spec) = [] then Inl (InvalidSpec ''runtimeVersion'')
      else if (case sp_adapterEndpoint spec of None \<Rightarrow> False | Some e \<Rightarrow> trim e = [])
      then Inl (InvalidSpec ''adapterEndpoint'')
      else if authority_of spec \<notin> set [''platform_managed'', ''direct_container'']
      then Inl (InvalidSpec ''runtimeAuthority'')
      else if authority_of spec = ''direct_container'' then validateDirect parse_url spec
      else validatePlatform spec)"

definition validateSpec :: "url_parser \<Rightarrow> deployment_spec \<Rightarrow> deployment_error + unit" where
  "validateSpec parse_url spec =
     bind_r (validateShape parse_url spec) (\<lambda>_.
       validateDesiredState (sp_desiredState spec) (sp_desiredReplicas spec))"

definition requireRevision :: "int \<Rightarrow> string \<Rightarrow> deployment_error + unit" where
  "requireRevision value field = throw_if (\<not> is_safe_integer value \<or> value < 0) (InvalidSpec field)"

definition requireDate :: "int option \<Rightarrow> deployment_error + int" where
  "requireDate value = (case value of None \<Rightarrow> Inl (InvalidSpec ''occurredAt'') | Some t \<Rightarrow> Inr t)"

subsection \<open>The aggregate\<close>

datatype domain_event =
    DeploymentRequested string string int
  | DesiredStateChanged string string string int int int int
  | StatusChanged string deployment_status deployment_status int int

record snapshot = deployment_spec +
  sn_status :: deployment_status
  sn_desiredRevision :: int
  sn_observedRevision :: int

text \<open>The private fields of the class; \<open>d_identity\<close> is the frozen part of the specification.\<close>

record deployment =
  d_identity :: deployment_spec
  d_desiredState :: string
  d_desiredReplicas :: int
  d_status :: deployment_status
  d_desiredRevision :: int
  d_observedRevision :: int
  d_events :: "domain_event list"

fun AllowedTransitions :: "deployment_status \<Rightarrow> deployment_status list" where
  "AllowedTransitions REQUESTED = [DATABASE_PROVISIONING, DRAINING, STOPPED, FAILED]"
| "AllowedTransitions DATABASE_PROVISIONING = [MIGRATING, DRAINING, FAILED]"
| "AllowedTransitions MIGRATING = [CONFIG_PREPARING, DRAINING, FAILED]"
| "AllowedTransitions CONFIG_PREPARING = [STARTING, DRAINING, FAILED]"
| "AllowedTransitions STARTING = [HEALTH_CHECKING, DRAINING, FAILED]"
| "AllowedTransitions HEALTH_CHECKING = [DISCOVERING, DEGRADED, DRAINING, FAILED]"
| "AllowedTransitions DISCOVERING = [ACTIVE, DEGRADED, DRAINING, FAILED]"
| "AllowedTransitions ACTIVE = [DEGRADED, DRAINING, FAILED]"
| "AllowedTransitions STOPPED = [CONFIG_PREPARING, REQUESTED]"
| "AllowedTransitions DRAINING = [STOPPED, FAILED]"
| "AllowedTransitions DEGRADED = [DISCOVERING, DRAINING, FAILED]"
| "AllowedTransitions FAILED = [REQUESTED, STOPPED]"

definition allowedTransitions :: "deployment_status \<Rightarrow> string \<Rightarrow> deployment_status list" where
  "allowedTransitions current authority =
     (if authority = ''direct_container'' \<and> current = REQUESTED
      then [CONFIG_PREPARING, DRAINING, STOPPED, FAILED]
      else AllowedTransitions current)"

text \<open>
  The identity keeps the common fields and those of the authority; the desired state and
  replicas live beside it, so the copy inside the identity is cleared.
\<close>

definition identity_of :: "deployment_spec \<Rightarrow> deployment_spec" where
  "identity_of spec =
     (let common = \<lparr>sp_deploymentId = sp_deploymentId spec, sp_providerId = sp_providerId spec,
            sp_environment = sp_environment spec, sp_desiredState = [], sp_desiredReplicas = 0,
            sp_runtimeVersion = sp_runtimeVersion spec,
            sp_adapterEndpoint = sp_adapterEndpoint spec,
            sp_runtimeAuthority = Some ''platform_managed'', sp_databaseProfileId = None,
            sp_configProfileId = None, sp_directContainer = None\<rparr>
      in if sp_runtimeAuthority spec = Some ''direct_container''
         then common\<lparr>sp_runtimeAuthority := Some ''direct_container'',
                     sp_directContainer := sp_directContainer spec\<rparr>
         else common\<lparr>sp_databaseProfileId := sp_databaseProfileId spec,
                     sp_configProfileId := sp_configProfileId spec\<rparr>)"

definition spec_of :: "snapshot \<Rightarrow> deployment_spec" where
  "spec_of s = deployment_spec.truncate s"

definition constructDeployment ::
  "url_parser \<Rightarrow> snapshot \<Rightarrow> domain_event list \<Rightarrow> deployment_error + deployment" where
  "constructDeployment parse_url s events =
     bind_r (validateSpec parse_url (spec_of s)) (\<lambda>_.
     bind_r (requireRevision (sn_desiredRevision s) ''desiredRevision'') (\<lambda>_.
     bind_r (requireRevision (sn_observedRevision s) ''observedRevision'') (\<lambda>_.
       Inr \<lparr>d_identity = identity_of (spec_of s), d_desiredState = sp_desiredState s,
            d_desiredReplicas = sp_desiredReplicas s, d_status = sn_status s,
            d_desiredRevision = sn_desiredRevision s, d_observedRevision = sn_observedRevision s,
            d_events = events\<rparr>)))"

definition requestDeployment ::
  "url_parser \<Rightarrow> deployment_spec \<Rightarrow> int option \<Rightarrow> deployment_error + deployment" where
  "requestDeployment parse_url spec occurredAt =
     bind_r (validateSpec parse_url spec) (\<lambda>_.
     bind_r (requireDate occurredAt) (\<lambda>t.
     bind_r (constructDeployment parse_url
               (deployment_spec.extend
                  (if sp_runtimeAuthority spec = Some ''direct_container'' then spec
                   else spec\<lparr>sp_runtimeAuthority := Some ''platform_managed''\<rparr>)
                  (snapshot.fields REQUESTED 0 0)) []) (\<lambda>d.
       Inr (d\<lparr>d_events := d_events d @
                 [DeploymentRequested (sp_deploymentId spec) (sp_providerId spec) t]\<rparr>))))"

definition rehydrateDeployment :: "url_parser \<Rightarrow> snapshot \<Rightarrow> deployment_error + deployment" where
  "rehydrateDeployment parse_url s = constructDeployment parse_url s []"

definition snapshot_of :: "deployment \<Rightarrow> snapshot" where
  "snapshot_of d =
     deployment_spec.extend
       ((d_identity d)\<lparr>sp_desiredState := d_desiredState d,
                       sp_desiredReplicas := d_desiredReplicas d\<rparr>)
       (snapshot.fields (d_status d) (d_desiredRevision d) (d_observedRevision d))"

definition assertRevision :: "int \<Rightarrow> int \<Rightarrow> string \<Rightarrow> deployment_error + unit" where
  "assertRevision expected actual revisionKind =
     throw_if (expected \<noteq> actual) (RevisionConflict revisionKind expected actual)"

definition assertIdempotentRevision :: "int \<Rightarrow> int \<Rightarrow> string \<Rightarrow> deployment_error + unit" where
  "assertIdempotentRevision expected actual revisionKind =
     (if expected \<noteq> actual \<and> expected \<noteq> actual - 1
      then assertRevision expected actual revisionKind else Inr ())"

text \<open>The precondition is the pair of the expected status and the expected revision.\<close>

definition assertIdempotentTransition ::
  "deployment_status \<times> int \<Rightarrow> deployment_status \<Rightarrow> int \<Rightarrow> string \<Rightarrow> deployment_error + unit" where
  "assertIdempotentTransition precondition actualStatus actualRevision authority =
     (case precondition of (expectedStatus, expectedRevision) \<Rightarrow>
        if expectedStatus = actualStatus \<and> expectedRevision = actualRevision then Inr ()
        else if expectedRevision = actualRevision - 1
                \<and> actualStatus \<in> set (allowedTransitions expectedStatus authority) then Inr ()
        else if expectedStatus \<noteq> actualStatus then Inl (StateConflict expectedStatus actualStatus)
        else assertRevision expectedRevision actualRevision ''observed'')"

definition identity_authority :: "deployment \<Rightarrow> string" where
  "identity_authority d = authority_of (d_identity d)"

definition changeDesiredState ::
  "deployment \<Rightarrow> string \<Rightarrow> int \<Rightarrow> int \<Rightarrow> int option \<Rightarrow> deployment_error + deployment \<times> bool" where
  "changeDesiredState d desiredState desiredReplicas expectedRevision occurredAt =
     bind_r (validateDesiredState desiredState desiredReplicas) (\<lambda>_.
     bind_r (requireRevision expectedRevision ''expectedRevision'') (\<lambda>_.
     bind_r (requireDate occurredAt) (\<lambda>t.
       if desiredState = d_desiredState d \<and> desiredReplicas = d_desiredReplicas d
       then bind_r (assertIdempotentRevision expectedRevision (d_desiredRevision d) ''desired'')
              (\<lambda>_. Inr (d, False))
       else
         bind_r (assertRevision expectedRevision (d_desiredRevision d) ''desired'') (\<lambda>_.
           Inr (d\<lparr>d_desiredState := desiredState, d_desiredReplicas := desiredReplicas,
                  d_desiredRevision := d_desiredRevision d + 1,
                  d_events := d_events d @
                    [DesiredStateChanged (sp_deploymentId (d_identity d)) (d_desiredState d)
                       desiredState (d_desiredReplicas d) desiredReplicas
                       (d_desiredRevision d + 1) t]\<rparr>, True)))))"

definition transition ::
  "deployment \<Rightarrow> deployment_status \<Rightarrow> deployment_status \<times> int \<Rightarrow> int option
    \<Rightarrow> deployment_error + deployment \<times> bool" where
  "transition d target precondition occurredAt =
     bind_r (requireRevision (snd precondition) ''expectedRevision'') (\<lambda>_.
     bind_r (requireDate occurredAt) (\<lambda>t.
       if target = d_status d
       then bind_r (assertIdempotentTransition precondition (d_status d) (d_observedRevision d)
                      (identity_authority d)) (\<lambda>_. Inr (d, False))
       else if fst precondition \<noteq> d_status d
       then Inl (StateConflict (fst precondition) (d_status d))
       else
         bind_r (assertRevision (snd precondition) (d_observedRevision d) ''observed'') (\<lambda>_.
           if target \<notin> set (allowedTransitions (d_status d) (identity_authority d))
           then Inl (InvalidTransition (d_status d) target)
           else
             Inr (d\<lparr>d_status := target, d_observedRevision := d_observedRevision d + 1,
                    d_events := d_events d @
                      [StatusChanged (sp_deploymentId (d_identity d)) (d_status d) target
                         (d_observedRevision d + 1) t]\<rparr>, True))))"

definition pullDomainEvents :: "deployment \<Rightarrow> deployment \<times> domain_event list" where
  "pullDomainEvents d = (d\<lparr>d_events := []\<rparr>, d_events d)"

subsection \<open>Well-formed deployments\<close>

text \<open>What the constructor establishes and every method keeps.\<close>

definition deployment_ok :: "url_parser \<Rightarrow> deployment \<Rightarrow> bool" where
  "deployment_ok parse_url d \<longleftrightarrow>
     is_ok (validateSpec parse_url (spec_of (snapshot_of d))) \<and>
     identity_of (d_identity d) = d_identity d \<and>
     0 \<le> d_desiredRevision d \<and> 0 \<le> d_observedRevision d"

text \<open>The operations of the aggregate as data, for runs.\<close>

datatype deployment_op =
    Change string int int "int option"
  | Transition deployment_status "deployment_status \<times> int" "int option"

fun deployment_step :: "deployment \<Rightarrow> deployment_op \<Rightarrow> deployment_error + deployment \<times> bool" where
  "deployment_step d (Change s n r t) = changeDesiredState d s n r t"
| "deployment_step d (Transition target pre t) = transition d target pre t"

lemma requireDate_Inr [result_simps]: "requireDate v = Inr t \<longleftrightarrow> v = Some t"
  by (cases v) (auto simp: requireDate_def)

lemma requireRevision_Inr [result_simps]:
  "requireRevision v f = Inr u \<longleftrightarrow> is_safe_integer v \<and> 0 \<le> v"
  by (auto simp: requireRevision_def)

lemma assertRevision_Inr [result_simps]: "assertRevision e a k = Inr u \<longleftrightarrow> e = a"
  by (auto simp: assertRevision_def)

lemma assertIdempotentRevision_Inr [result_simps]:
  "assertIdempotentRevision e a k = Inr u \<longleftrightarrow> e = a \<or> e = a - 1"
  by (auto simp: assertIdempotentRevision_def assertRevision_def)

lemma assertIdempotentTransition_Inr [result_simps]:
  "assertIdempotentTransition (s, r) actual current auth = Inr u \<longleftrightarrow>
     (s = actual \<and> r = current) \<or> (r = current - 1 \<and> actual \<in> set (allowedTransitions s auth))"
  by (auto simp: assertIdempotentTransition_def assertRevision_def)

lemma transition_changed:
  "transition d target pre tm = Inr (d', True) \<longleftrightarrow>
     (\<exists>t. tm = Some t \<and> is_safe_integer (snd pre) \<and> 0 \<le> snd pre \<and> target \<noteq> d_status d
        \<and> pre = (d_status d, d_observedRevision d)
        \<and> target \<in> set (allowedTransitions (d_status d) (identity_authority d))
        \<and> d' = d\<lparr>d_status := target, d_observedRevision := d_observedRevision d + 1,
                 d_events := d_events d @
                   [StatusChanged (sp_deploymentId (d_identity d)) (d_status d) target
                      (d_observedRevision d + 1) t]\<rparr>)"
  by (cases pre) (auto simp: transition_def result_simps)

lemma transition_unchanged:
  "transition d target pre tm = Inr (d', False) \<longleftrightarrow>
     (\<exists>t. tm = Some t \<and> is_safe_integer (snd pre) \<and> 0 \<le> snd pre \<and> target = d_status d \<and> d' = d
        \<and> (pre = (d_status d, d_observedRevision d)
           \<or> snd pre = d_observedRevision d - 1
             \<and> d_status d \<in> set (allowedTransitions (fst pre) (identity_authority d))))"
  by (cases pre) (auto simp: transition_def result_simps)

lemma changeDesiredState_changed:
  "changeDesiredState d s n r tm = Inr (d', True) \<longleftrightarrow>
     (\<exists>t. tm = Some t \<and> is_ok (validateDesiredState s n) \<and> is_safe_integer r \<and> 0 \<le> r
        \<and> (s, n) \<noteq> (d_desiredState d, d_desiredReplicas d) \<and> r = d_desiredRevision d
        \<and> d' = d\<lparr>d_desiredState := s, d_desiredReplicas := n,
                 d_desiredRevision := d_desiredRevision d + 1,
                 d_events := d_events d @
                   [DesiredStateChanged (sp_deploymentId (d_identity d)) (d_desiredState d) s
                      (d_desiredReplicas d) n (d_desiredRevision d + 1) t]\<rparr>)"
  by (auto simp: changeDesiredState_def result_simps)

lemma changeDesiredState_unchanged:
  "changeDesiredState d s n r tm = Inr (d', False) \<longleftrightarrow>
     (\<exists>t. tm = Some t \<and> is_ok (validateDesiredState s n) \<and> is_safe_integer r \<and> 0 \<le> r
        \<and> (s, n) = (d_desiredState d, d_desiredReplicas d) \<and> d' = d
        \<and> (r = d_desiredRevision d \<or> r = d_desiredRevision d - 1))"
  by (auto simp: changeDesiredState_def result_simps)

lemmas deployment_results =
  transition_changed transition_unchanged changeDesiredState_changed changeDesiredState_unchanged

subsection \<open>Compare and swap\<close>

fun is_transition :: "deployment_op \<Rightarrow> bool" where
  "is_transition (Change s n r t) = False"
| "is_transition (Transition target pre t) = True"

text \<open>The revision that a request was issued against: the desired one of a change, the observed
  one of a transition.\<close>

fun request_revision :: "deployment_op \<Rightarrow> int" where
  "request_revision (Change s n r t) = r"
| "request_revision (Transition target pre t) = snd pre"

interpretation observed: cas_side d_observedRevision request_revision is_transition deployment_step
proof
  fix d x d'
  show "deployment_step d x = Inr (d', True) \<Longrightarrow> is_transition x \<Longrightarrow> d_observedRevision d' = d_observedRevision d + 1"
    "deployment_step d x = Inr (d', True) \<Longrightarrow> is_transition x \<Longrightarrow> request_revision x = d_observedRevision d"
    "deployment_step d x = Inr (d', True) \<Longrightarrow> \<not> is_transition x \<Longrightarrow> d_observedRevision d' = d_observedRevision d"
    "deployment_step d x = Inr (d', False) \<Longrightarrow> d_observedRevision d' = d_observedRevision d"
    by (cases x; auto simp: deployment_results)+
qed

interpretation desired: cas_side d_desiredRevision request_revision "\<lambda>x. \<not> is_transition x" deployment_step
proof
  fix d x d'
  show "deployment_step d x = Inr (d', True) \<Longrightarrow> \<not> is_transition x \<Longrightarrow> d_desiredRevision d' = d_desiredRevision d + 1"
    "deployment_step d x = Inr (d', True) \<Longrightarrow> \<not> is_transition x \<Longrightarrow> request_revision x = d_desiredRevision d"
    "deployment_step d x = Inr (d', True) \<Longrightarrow> \<not> \<not> is_transition x \<Longrightarrow> d_desiredRevision d' = d_desiredRevision d"
    "deployment_step d x = Inr (d', False) \<Longrightarrow> d_desiredRevision d' = d_desiredRevision d"
    by (cases x; auto simp: deployment_results)+
qed

text \<open>
  C34. The operations of a deployment are compare-and-swap. In any sequence of status transitions
  and changes of the desired state, refused and repeated ones included, the transitions that took
  effect were issued against pairwise different observed revisions and the observed revision grew
  by exactly their number; the changes of the desired state that took effect were issued against
  pairwise different desired revisions and the desired revision grew by exactly their number.
\<close>

theorem transitions_never_lost:
  "distinct (map request_revision (filter is_transition (effective deployment_step d ops))) \<and>
   d_observedRevision (after deployment_step d ops) =
     d_observedRevision d + int (length (filter is_transition (effective deployment_step d ops))) \<and>
   distinct (map request_revision (filter (\<lambda>x. \<not> is_transition x) (effective deployment_step d ops))) \<and>
   d_desiredRevision (after deployment_step d ops) =
     d_desiredRevision d + int (length (filter (\<lambda>x. \<not> is_transition x) (effective deployment_step d ops)))"
  using observed.no_lost_update observed.revision_counts desired.no_lost_update desired.revision_counts
  by blast

text \<open>
  Lost replies are harmless: a transition or a change of the desired state that took effect
  can be sent again with the same precondition, and answers \<open>false\<close> without changing the
  deployment.
\<close>

theorem retry_is_idempotent:
  assumes "deployment_step d request = Inr (d', True)"
  shows "deployment_step d' request = Inr (d', False)"
proof (cases request)
  case (Change s n r t)
  with assms show ?thesis by (auto simp: deployment_results)
next
  case (Transition target pre t)
  with assms have "transition d target pre t = Inr (d', True)" by simp
  then have "transition d' target pre t = Inr (d', False)"
    by (auto simp: transition_changed transition_unchanged identity_authority_def)
  with Transition show ?thesis by simp
qed

subsection \<open>The invariant\<close>

lemma identity_of_idem: "identity_of (identity_of spec) = identity_of spec"
  by (simp add: identity_of_def Let_def)

lemma spec_of_snapshot_of:
  "spec_of (snapshot_of d) =
     (d_identity d)\<lparr>sp_desiredState := d_desiredState d, sp_desiredReplicas := d_desiredReplicas d\<rparr>"
  by (simp add: spec_of_def snapshot_of_def deployment_spec.defs snapshot.defs)

lemma validateShape_desired:
  "validateShape p (spec\<lparr>sp_desiredState := s, sp_desiredReplicas := n\<rparr>) = validateShape p spec"
  by (cases "sp_directContainer spec")
    (simp_all add: validateShape_def validateDirect_def validatePlatform_def authority_of_def)

lemma deployment_ok_iff:
  "deployment_ok p d \<longleftrightarrow>
     is_ok (validateShape p (d_identity d)) \<and>
     is_ok (validateDesiredState (d_desiredState d) (d_desiredReplicas d)) \<and>
     identity_of (d_identity d) = d_identity d \<and>
     0 \<le> d_desiredRevision d \<and> 0 \<le> d_observedRevision d"
  by (auto simp: deployment_ok_def spec_of_snapshot_of validateSpec_def validateShape_desired
      is_ok_iff bind_r_Inr)

lemma deployment_step_ok:
  "deployment_step d x = Inr (d', b) \<Longrightarrow> deployment_ok p d \<Longrightarrow> deployment_ok p d'"
  by (cases x; cases b) (auto simp: deployment_results deployment_ok_iff)

lemma deployment_run_ok: "deployment_ok p d \<Longrightarrow> deployment_ok p (after deployment_step d xs)"
proof (induction xs arbitrary: d)
  case (Cons x xs)
  show ?case
  proof (cases "deployment_step d x")
    case (Inl e)
    then show ?thesis using Cons by simp
  next
    case (Inr q)
    then obtain d' b where q: "deployment_step d x = Inr (d', b)" by (cases q) simp
    then have "deployment_ok p d'" using Cons.prems by (rule deployment_step_ok)
    then show ?thesis using q Cons.IH by simp
  qed
qed simp

lemma constructDeployment_ok:
  assumes "constructDeployment p s ev = Inr d"
  shows "deployment_ok p d"
proof -
  from assms have spec: "validateSpec p (spec_of s) = Inr ()"
      and d: "d_identity d = identity_of (spec_of s)"
      "d_desiredState d = sp_desiredState (spec_of s)"
      "d_desiredReplicas d = sp_desiredReplicas (spec_of s)"
      "0 \<le> d_desiredRevision d" "0 \<le> d_observedRevision d"
    by (auto simp: constructDeployment_def result_simps spec_of_def deployment_spec.defs)
  from spec have shape: "validateShape p (spec_of s) = Inr ()"
      and des: "validateDesiredState (sp_desiredState (spec_of s)) (sp_desiredReplicas (spec_of s)) = Inr ()"
    by (auto simp: validateSpec_def bind_r_Inr)
  from shape have "validateShape p (identity_of (spec_of s)) = Inr ()"
    by (cases "sp_runtimeAuthority (spec_of s)"; cases "sp_directContainer (spec_of s)")
      (auto simp: validateShape_def identity_of_def Let_def authority_of_def validateDirect_def
        validatePlatform_def split: if_splits)
  with d des show ?thesis by (simp add: deployment_ok_iff identity_of_idem is_ok_iff)
qed

lemma requestDeployment_ok:
  "requestDeployment p spec tm = Inr d \<Longrightarrow> deployment_ok p d"
  by (auto simp: requestDeployment_def bind_r_Inr dest!: constructDeployment_ok
      simp: deployment_ok_iff)

lemma identity_of_desired [simp]:
  "identity_of (spec\<lparr>sp_desiredState := s, sp_desiredReplicas := n\<rparr>) = identity_of spec"
  by (simp add: identity_of_def Let_def)

lemma rehydrate_snapshot:
  assumes "deployment_ok p d" and "is_safe_integer (d_desiredRevision d)"
    and "is_safe_integer (d_observedRevision d)"
  shows "rehydrateDeployment p (snapshot_of d) = Inr (d\<lparr>d_events := []\<rparr>)"
proof -
  from assms(1) have v: "validateSpec p (spec_of (snapshot_of d)) = Inr ()"
    by (auto simp: deployment_ok_def is_ok_iff)
  have fields: "sn_status (snapshot_of d) = d_status d"
      "sn_desiredRevision (snapshot_of d) = d_desiredRevision d"
      "sn_observedRevision (snapshot_of d) = d_observedRevision d"
      "sp_desiredState (snapshot_of d) = d_desiredState d"
      "sp_desiredReplicas (snapshot_of d) = d_desiredReplicas d"
    by (simp_all add: snapshot_of_def deployment_spec.defs snapshot.defs)
  have "identity_of (spec_of (snapshot_of d)) = d_identity d"
    using assms(1) by (simp add: spec_of_snapshot_of deployment_ok_iff)
  then show ?thesis
    using v fields assms
    by (simp add: rehydrateDeployment_def constructDeployment_def requireRevision_def
        throw_if_def deployment_ok_iff)
qed

text \<open>
  C36. Persisting and reloading a deployment loses nothing: from any requested deployment, after
  any sequence of accepted and refused operations, the snapshot is a valid one and rehydrates to
  the same deployment with an empty event list (revisions up to \<open>2^53 - 1\<close>).
\<close>

theorem snapshot_rehydrates:
  assumes "requestDeployment parse_url spec occurredAt = Inr d"
    and "is_safe_integer (d_desiredRevision (after deployment_step d ops))"
    and "is_safe_integer (d_observedRevision (after deployment_step d ops))"
  shows "rehydrateDeployment parse_url (snapshot_of (after deployment_step d ops)) =
           Inr ((after deployment_step d ops)\<lparr>d_events := []\<rparr>)"
  by (rule rehydrate_snapshot [OF deployment_run_ok [OF requestDeployment_ok [OF assms(1)]]
        assms(2,3)])

subsection \<open>The event log\<close>

type_synonym core = "deployment_status \<times> string \<times> int \<times> int \<times> int"

definition core_of :: "deployment \<Rightarrow> core" where
  "core_of d = (d_status d, d_desiredState d, d_desiredReplicas d, d_desiredRevision d,
                d_observedRevision d)"

fun apply_event :: "domain_event \<Rightarrow> core \<Rightarrow> core" where
  "apply_event (DeploymentRequested i p t) c = c"
| "apply_event (DesiredStateChanged i ps s pn n r t) (st, _, _, _, o') = (st, s, n, r, o')"
| "apply_event (StatusChanged i p st r t) (_, s, n, dr, _) = (st, s, n, dr, r)"

text \<open>The status changes of a log form a path of allowed transitions.\<close>

fun status_path :: "string \<Rightarrow> deployment_status \<Rightarrow> domain_event list \<Rightarrow> bool" where
  "status_path auth s [] = True"
| "status_path auth s (StatusChanged i p t r tm # es) =
     (p = s \<and> t \<in> set (allowedTransitions s auth) \<and> status_path auth t es)"
| "status_path auth s (e # es) = status_path auth s es"

lemma deployment_step_events:
  assumes "deployment_step d x = Inr (d', b)"
  shows "\<exists>ev. d_events d' = d_events d @ ev \<and> fold apply_event ev (core_of d) = core_of d'
    \<and> status_path (identity_authority d) (d_status d) ev
    \<and> (\<forall>es. status_path (identity_authority d) (d_status d) (ev @ es) \<longleftrightarrow>
             status_path (identity_authority d) (d_status d') es)
    \<and> d_identity d' = d_identity d"
proof (cases b)
  case False
  with assms have "d' = d" by (cases x) (auto simp: deployment_results)
  then show ?thesis by (intro exI [of _ "[]"]) simp
next
  case True
  show ?thesis
  proof (cases x)
    case (Change s n r t)
    with assms True obtain tm where "d' = d\<lparr>d_desiredState := s, d_desiredReplicas := n,
        d_desiredRevision := d_desiredRevision d + 1,
        d_events := d_events d @ [DesiredStateChanged (sp_deploymentId (d_identity d))
          (d_desiredState d) s (d_desiredReplicas d) n (d_desiredRevision d + 1) tm]\<rparr>"
      by (auto simp: changeDesiredState_changed)
    then show ?thesis
      by (intro exI [of _ "[DesiredStateChanged (sp_deploymentId (d_identity d))
          (d_desiredState d) s (d_desiredReplicas d) n (d_desiredRevision d + 1) tm]"])
        (simp add: core_of_def)
  next
    case (Transition target pre t)
    with assms True obtain tm where
        "target \<in> set (allowedTransitions (d_status d) (identity_authority d))"
        "d' = d\<lparr>d_status := target, d_observedRevision := d_observedRevision d + 1,
           d_events := d_events d @ [StatusChanged (sp_deploymentId (d_identity d)) (d_status d)
             target (d_observedRevision d + 1) tm]\<rparr>"
      by (auto simp: transition_changed)
    then show ?thesis
      by (intro exI [of _ "[StatusChanged (sp_deploymentId (d_identity d)) (d_status d)
             target (d_observedRevision d + 1) tm]"])
        (simp add: core_of_def)
  qed
qed

lemma deployment_run_events:
  "\<exists>ev. d_events (after deployment_step d xs) = d_events d @ ev
     \<and> fold apply_event ev (core_of d) = core_of (after deployment_step d xs)
     \<and> status_path (identity_authority d) (d_status d) ev"
proof (induction xs arbitrary: d)
  case (Cons x xs)
  show ?case
  proof (cases "deployment_step d x")
    case (Inl e)
    then show ?thesis using Cons by simp
  next
    case (Inr q)
    then obtain d' b where q: "deployment_step d x = Inr (d', b)" by (cases q) simp
    from deployment_step_events [OF q] obtain ev where ev: "d_events d' = d_events d @ ev"
        "fold apply_event ev (core_of d) = core_of d'"
        "\<And>es. status_path (identity_authority d) (d_status d) (ev @ es) \<longleftrightarrow>
             status_path (identity_authority d) (d_status d') es"
        "d_identity d' = d_identity d" by blast
    from Cons.IH [of d'] obtain ev' where
        "d_events (after deployment_step d' xs) = d_events d' @ ev'"
        "fold apply_event ev' (core_of d') = core_of (after deployment_step d' xs)"
        "status_path (identity_authority d') (d_status d') ev'" by blast
    then show ?thesis
      using q ev by (intro exI [of _ "ev @ ev'"]) (simp add: identity_authority_def)
  qed
qed simp

text \<open>
  C35. The domain events are a faithful log: after a pull, whatever operations are attempted, the
  collected events replay the status, the desired state and both revisions of the deployment
  from their values at the pull, and their status changes form a path of allowed transitions.
\<close>

theorem events_replay_deployment:
  "fold apply_event (d_events (after deployment_step (fst (pullDomainEvents d)) ops)) (core_of d)
     = core_of (after deployment_step (fst (pullDomainEvents d)) ops)
   \<and> status_path (identity_authority d) (d_status d)
       (d_events (after deployment_step (fst (pullDomainEvents d)) ops))"
  using deployment_run_events [of "d\<lparr>d_events := []\<rparr>" ops]
  by (auto simp: pullDomainEvents_def core_of_def identity_authority_def)

subsection \<open>Witnesses\<close>

definition sample_spec :: deployment_spec where
  "sample_spec =
     \<lparr>sp_deploymentId = ''dep-1'', sp_providerId = ''ugv'', sp_environment = ''dev'',
      sp_desiredState = ''running'', sp_desiredReplicas = 1, sp_runtimeVersion = ''2.0.0'',
      sp_adapterEndpoint = None, sp_runtimeAuthority = None, sp_databaseProfileId = Some ''db'',
      sp_configProfileId = Some ''cfg'', sp_directContainer = None\<rparr>"

definition sample_deployment :: deployment where
  "sample_deployment =
     (case requestDeployment (\<lambda>_. None) sample_spec (Some 1000) of
        Inr d \<Rightarrow> d
      | Inl _ \<Rightarrow> \<lparr>d_identity = sample_spec, d_desiredState = [], d_desiredReplicas = 0,
                 d_status = FAILED, d_desiredRevision = 0, d_observedRevision = 0, d_events = []\<rparr>)"

definition sample_ops :: "deployment_op list" where
  "sample_ops =
     [Transition DATABASE_PROVISIONING (REQUESTED, 0) (Some 1001),
      Transition DATABASE_PROVISIONING (REQUESTED, 0) (Some 1002),
      Transition ACTIVE (DATABASE_PROVISIONING, 1) (Some 1003),
      Change ''draining'' 0 0 (Some 1004)]"

lemma sample_requested:
  "requestDeployment (\<lambda>_. None) sample_spec (Some 1000) = Inr sample_deployment"
proof -
  have "is_ok (requestDeployment (\<lambda>_. None) sample_spec (Some 1000))" by code_simp
  then show ?thesis by (auto simp: is_ok_iff sample_deployment_def)
qed

theorem snapshot_rehydrates_witness:
  "rehydrateDeployment (\<lambda>_. None) (snapshot_of (after deployment_step sample_deployment sample_ops)) =
     Inr ((after deployment_step sample_deployment sample_ops)\<lparr>d_events := []\<rparr>)
   \<and> d_status (after deployment_step sample_deployment sample_ops) = DATABASE_PROVISIONING"
proof -
  have "is_safe_integer (d_desiredRevision (after deployment_step sample_deployment sample_ops))"
    by code_simp
  moreover have "is_safe_integer (d_observedRevision (after deployment_step sample_deployment sample_ops))"
    by code_simp
  moreover have "d_status (after deployment_step sample_deployment sample_ops) = DATABASE_PROVISIONING"
    by code_simp
  ultimately show ?thesis using snapshot_rehydrates [OF sample_requested] by blast
qed

theorem retry_is_idempotent_witness:
  "\<exists>d'. deployment_step sample_deployment (hd sample_ops) = Inr (d', True)
      \<and> deployment_step d' (hd sample_ops) = Inr (d', False)"
proof -
  have "case deployment_step sample_deployment (hd sample_ops) of Inr (_, b) \<Rightarrow> b | _ \<Rightarrow> False"
    by code_simp
  then obtain d' where "deployment_step sample_deployment (hd sample_ops) = Inr (d', True)"
    by (auto split: sum.splits)
  from this retry_is_idempotent [OF this] show ?thesis by blast
qed

end
