(* ===== verification/RuntimeProcess.thy ===== *)
theory RuntimeProcess
  imports Deployment
begin

text \<open>
  packages/runtime-deployment/src/process.ts (projection of an observed Runtime process and the
  evaluation of its health) and instance-allocation.ts (derived instance identities and port
  selection). \<open>sha256\<close> is the hexadecimal digest of the crypto library.
\<close>

subsection \<open>process.ts: identities and observations\<close>

datatype process_state = Missing | Starting | Online | Stopping | Stopped | Errored
datatype liveness_state = Liveness_unknown | Live | Dead
datatype readiness_state = Readiness_unknown | Ready | Not_ready
datatype registration_state = Unregistered | Registered | Identity_mismatch
datatype catalog_state = Catalog_unknown | Pending | Valid | Invalid
datatype config_state =
  Config_unknown | Current | Externally_managed | Stale | Rejected | Restart_required

text \<open>The raw identity as \<open>validateIdentity\<close> reads it; \<open>None\<close> is null or undefined.\<close>

record process_identity =
  pi_instanceId :: string
  pi_deploymentId :: string
  pi_processManager :: "string option"
  pi_pm2Name :: "string option"
  pi_port :: "int option"
  pi_controlEndpoint :: "string option"
  pi_advertisedEndpoint :: "string option"

record process_observation =
  ob_pid :: "int option"
  ob_processState :: process_state
  ob_livenessState :: liveness_state
  ob_readinessState :: readiness_state
  ob_registrationState :: registration_state
  ob_catalogState :: catalog_state
  ob_configState :: config_state
  ob_lastHeartbeatAt :: "int option"
  ob_runtimeVersion :: "string option"
  ob_configRevision :: "int option"
  ob_restartCount :: int

record projection =
  pj_identity :: process_identity
  pj_observation :: process_observation
  pj_observedRevision :: int

text \<open>\<open>/^sdar-runtime-[a-z0-9][a-z0-9-]{0,126}$/\<close>\<close>

definition slug_char :: "char \<Rightarrow> bool" where
  "slug_char c \<longleftrightarrow> is_lower c \<or> is_digit c"

definition pm2_name :: "string \<Rightarrow> bool" where
  "pm2_name s \<longleftrightarrow>
     take 13 s = ''sdar-runtime-'' \<and>
     (case drop 13 s of [] \<Rightarrow> False
      | c # r \<Rightarrow> slug_char c \<and> length r \<le> 126 \<and> list_all (\<lambda>x. slug_char x \<or> x = CHR ''-'') r)"

definition validateEndpoint ::
  "url_parser \<Rightarrow> string option \<Rightarrow> string \<Rightarrow> deployment_error + unit" where
  "validateEndpoint parse_url value field =
     (case value of
        None \<Rightarrow> Inl (InvalidProjection field)
      | Some v \<Rightarrow> throw_if (\<not> base_endpoint parse_url v) (InvalidProjection field))"

definition validateIdentity :: "url_parser \<Rightarrow> process_identity \<Rightarrow> deployment_error + unit" where
  "validateIdentity parse_url i =
     (if pi_processManager i = Some ''direct_container'' then
        (if pi_pm2Name i \<noteq> None then Inl (InvalidProjection ''pm2Name'')
         else if pi_port i \<noteq> None then Inl (InvalidProjection ''port'')
         else if pi_controlEndpoint i = None then Inl (InvalidProjection ''controlEndpoint'')
         else if pi_advertisedEndpoint i = None then Inl (InvalidProjection ''advertisedEndpoint'')
         else bind_r (validateEndpoint parse_url (pi_controlEndpoint i) ''controlEndpoint'') (\<lambda>_.
                validateEndpoint parse_url (pi_advertisedEndpoint i) ''advertisedEndpoint''))
      else if pi_processManager i \<notin> {None, Some ''pm2''}
      then Inl (InvalidProjection ''processManager'')
      else if (case pi_pm2Name i of None \<Rightarrow> True | Some n \<Rightarrow> \<not> pm2_name n)
      then Inl (InvalidProjection ''pm2Name'')
      else if (case pi_port i of None \<Rightarrow> True
               | Some p \<Rightarrow> \<not> is_safe_integer p \<or> p < 1 \<or> p > 65535)
      then Inl (InvalidProjection ''port'')
      else Inr ())"

definition requireNonNegativeInteger :: "int \<Rightarrow> string \<Rightarrow> deployment_error + unit" where
  "requireNonNegativeInteger value field =
     throw_if (\<not> is_safe_integer value \<or> value < 0) (InvalidProjection field)"

text \<open>
  The state names are a datatype, so \<open>RUNTIME_PROCESS_STATES.includes\<close> always holds; an instant
  is a finite number of milliseconds.
\<close>

definition validateObservation :: "process_observation \<Rightarrow> deployment_error + unit" where
  "validateObservation ob =
     (if (case ob_pid ob of None \<Rightarrow> False | Some p \<Rightarrow> \<not> is_safe_integer p \<or> p < 1)
      then Inl (InvalidProjection ''pid'')
      else if (case ob_lastHeartbeatAt ob of None \<Rightarrow> False | Some t \<Rightarrow> \<not> date_finite t)
      then Inl (InvalidProjection ''lastHeartbeatAt'')
      else if (case ob_runtimeVersion ob of None \<Rightarrow> False | Some v \<Rightarrow> trim v = [])
      then Inl (InvalidProjection ''runtimeVersion'')
      else if (case ob_configRevision ob of None \<Rightarrow> False | Some r \<Rightarrow> \<not> is_safe_integer r \<or> r < 0)
      then Inl (InvalidProjection ''configRevision'')
      else requireNonNegativeInteger (ob_restartCount ob) ''restartCount'')"

definition freezeProjection :: "projection \<Rightarrow> projection" where
  "freezeProjection p =
     p\<lparr>pj_identity := (pj_identity p)\<lparr>pi_processManager :=
        (case pi_processManager (pj_identity p) of None \<Rightarrow> Some ''pm2'' | Some m \<Rightarrow> Some m)\<rparr>\<rparr>"

definition createRuntimeProcessProjection ::
  "url_parser \<Rightarrow> process_identity \<Rightarrow> process_observation \<Rightarrow> deployment_error + projection" where
  "createRuntimeProcessProjection parse_url i ob =
     bind_r (validateIdentity parse_url i) (\<lambda>_.
     bind_r (validateObservation ob) (\<lambda>_.
       Inr (freezeProjection \<lparr>pj_identity = i, pj_observation = ob, pj_observedRevision = 0\<rparr>)))"

definition rehydrateRuntimeProcessProjection ::
  "url_parser \<Rightarrow> projection \<Rightarrow> deployment_error + projection" where
  "rehydrateRuntimeProcessProjection parse_url p =
     bind_r (validateIdentity parse_url (pj_identity p)) (\<lambda>_.
     bind_r (validateObservation (pj_observation p)) (\<lambda>_.
     bind_r (requireNonNegativeInteger (pj_observedRevision p) ''observedRevision'') (\<lambda>_.
       Inr (freezeProjection p))))"

text \<open>The comparison of all eleven observed fields is equality of the records.\<close>

definition observationsEqual :: "process_observation \<Rightarrow> process_observation \<Rightarrow> bool" where
  "observationsEqual a b \<longleftrightarrow>
     ob_pid a = ob_pid b \<and> ob_processState a = ob_processState b \<and>
     ob_livenessState a = ob_livenessState b \<and> ob_readinessState a = ob_readinessState b \<and>
     ob_registrationState a = ob_registrationState b \<and> ob_catalogState a = ob_catalogState b \<and>
     ob_configState a = ob_configState b \<and> ob_lastHeartbeatAt a = ob_lastHeartbeatAt b \<and>
     ob_runtimeVersion a = ob_runtimeVersion b \<and> ob_configRevision a = ob_configRevision b \<and>
     ob_restartCount a = ob_restartCount b"

text \<open>Besides the projection, the result says whether it is a new one.\<close>

definition updateRuntimeProcessObservation ::
  "url_parser \<Rightarrow> projection \<Rightarrow> process_observation \<Rightarrow> int \<Rightarrow> deployment_error + projection \<times> bool" where
  "updateRuntimeProcessObservation parse_url current ob expectedRevision =
     bind_r (validateIdentity parse_url (pj_identity current)) (\<lambda>_.
     bind_r (validateObservation ob) (\<lambda>_.
     bind_r (requireNonNegativeInteger expectedRevision ''expectedRevision'') (\<lambda>_.
       if observationsEqual (pj_observation current) ob then Inr (current, False)
       else if expectedRevision \<noteq> pj_observedRevision current
       then Inl (ProcessRevisionConflict expectedRevision (pj_observedRevision current))
       else Inr (freezeProjection
                   (current\<lparr>pj_observation := ob,
                            pj_observedRevision := pj_observedRevision current + 1\<rparr>), True))))"

subsection \<open>process.ts: health\<close>

datatype observed_health =
  H_STOPPED | H_STARTING | H_NOT_READY | H_STALE | H_DEGRADED | H_FAILED | H_READY

definition evaluation :: "observed_health \<Rightarrow> string \<Rightarrow> observed_health \<times> bool \<times> string" where
  "evaluation health reasonCode = (health, health = H_READY, reasonCode)"

definition observedHealth :: "process_observation \<Rightarrow> int \<Rightarrow> int \<Rightarrow> observed_health \<times> bool \<times> string" where
  "observedHealth ob t heartbeatStaleAfterMs =
     (if ob_processState ob \<in> {Missing, Stopped} then evaluation H_STOPPED ''PROCESS_ABSENT''
      else if ob_processState ob = Errored then evaluation H_FAILED ''PROCESS_ERRORED''
      else if ob_processState ob \<noteq> Online then evaluation H_STARTING ''PROCESS_NOT_ONLINE''
      else if ob_livenessState ob = Dead then evaluation H_FAILED ''LIVENESS_FAILED''
      else if ob_livenessState ob = Liveness_unknown
      then evaluation H_NOT_READY ''LIVENESS_UNKNOWN''
      else if ob_readinessState ob = Not_ready then evaluation H_NOT_READY ''READINESS_FAILED''
      else if ob_readinessState ob = Readiness_unknown
      then evaluation H_NOT_READY ''READINESS_UNKNOWN''
      else if ob_registrationState ob = Identity_mismatch
      then evaluation H_FAILED ''IDENTITY_MISMATCH''
      else if ob_registrationState ob = Unregistered
      then evaluation H_NOT_READY ''REGISTRATION_MISSING''
      else (case ob_lastHeartbeatAt ob of
        None \<Rightarrow> evaluation H_STALE ''HEARTBEAT_MISSING''
      | Some beat \<Rightarrow>
        if t - beat > heartbeatStaleAfterMs then evaluation H_STALE ''HEARTBEAT_STALE''
        else if ob_runtimeVersion ob = None
        then evaluation H_NOT_READY ''RUNTIME_VERSION_MISSING''
        else if ob_catalogState ob = Invalid then evaluation H_FAILED ''CATALOG_INVALID''
        else if ob_catalogState ob \<noteq> Valid then evaluation H_NOT_READY ''CATALOG_PENDING''
        else if ob_configState ob = Rejected then evaluation H_FAILED ''CONFIG_REJECTED''
        else if ob_configState ob = Config_unknown \<or> ob_configRevision ob = None
        then evaluation H_NOT_READY ''CONFIG_UNKNOWN''
        else if ob_configState ob = Stale then evaluation H_DEGRADED ''CONFIG_STALE''
        else if ob_configState ob = Restart_required
        then evaluation H_DEGRADED ''CONFIG_RESTART_REQUIRED''
        else evaluation H_READY ''READY''))"

definition evaluateRuntimeObservedHealth ::
  "url_parser \<Rightarrow> projection \<Rightarrow> int option \<Rightarrow> int
    \<Rightarrow> deployment_error + observed_health \<times> bool \<times> string" where
  "evaluateRuntimeObservedHealth parse_url process now heartbeatStaleAfterMs =
     (let ob = pj_observation process in
      bind_r (validateIdentity parse_url (pj_identity process)) (\<lambda>_.
      bind_r (validateObservation ob) (\<lambda>_.
      case now of None \<Rightarrow> Inl (InvalidProjection ''now'')
      | Some t \<Rightarrow>
        if \<not> is_safe_integer heartbeatStaleAfterMs \<or> heartbeatStaleAfterMs < 1
        then Inl (InvalidProjection ''heartbeatStaleAfterMs'')
        else Inr (observedHealth ob t heartbeatStaleAfterMs))))"

text \<open>The conjunction of facts under which a process may serve an active deployment.\<close>

definition serving :: "process_observation \<Rightarrow> int \<Rightarrow> int \<Rightarrow> bool" where
  "serving ob t stale \<longleftrightarrow>
     ob_processState ob = Online \<and> ob_livenessState ob = Live \<and> ob_readinessState ob = Ready \<and>
     ob_registrationState ob = Registered \<and>
     (\<exists>beat. ob_lastHeartbeatAt ob = Some beat \<and> t - beat \<le> stale) \<and>
     ob_runtimeVersion ob \<noteq> None \<and> ob_catalogState ob = Valid \<and>
     ob_configState ob \<in> {Current, Externally_managed} \<and> ob_configRevision ob \<noteq> None"

lemma state_exhausted:
  "l = Live \<longleftrightarrow> l \<noteq> Dead \<and> l \<noteq> Liveness_unknown"
  "r = Ready \<longleftrightarrow> r \<noteq> Not_ready \<and> r \<noteq> Readiness_unknown"
  "g = Registered \<longleftrightarrow> g \<noteq> Identity_mismatch \<and> g \<noteq> Unregistered"
  "c \<in> {Current, Externally_managed} \<longleftrightarrow>
     c \<noteq> Rejected \<and> c \<noteq> Config_unknown \<and> c \<noteq> Stale \<and> c \<noteq> Restart_required"
  by ((cases l; simp), (cases r; simp), (cases g; simp), (cases c; simp))

lemma observedHealth_serving:
  "observedHealth ob t stale = (health, ready, reason) \<Longrightarrow>
     (ready \<longleftrightarrow> serving ob t stale) \<and> (ready \<longleftrightarrow> health = H_READY) \<and> (ready \<longleftrightarrow> reason = ''READY'')"
  unfolding serving_def state_exhausted observedHealth_def evaluation_def
  by (cases "ob_lastHeartbeatAt ob") (simp_all split: if_splits, auto)

text \<open>
  C37. A Runtime process is ready for an active deployment exactly when every observed fact says
  so: online, live, ready, registered, heartbeat fresh, version known, catalog valid, and its
  configuration current (or externally managed) at a known revision. The three parts of the
  verdict agree: \<open>readyForActive\<close>, the health \<open>READY\<close> and the reason \<open>READY\<close>.
\<close>

theorem ready_iff_serving:
  assumes "evaluateRuntimeObservedHealth parse_url process (Some t) stale = Inr (health, ready, reason)"
  shows "(ready \<longleftrightarrow> serving (pj_observation process) t stale)
    \<and> (ready \<longleftrightarrow> health = H_READY) \<and> (ready \<longleftrightarrow> reason = ''READY'')"
proof (rule observedHealth_serving)
  show "observedHealth (pj_observation process) t stale = (health, ready, reason)"
    using assms
    by (auto simp: evaluateRuntimeObservedHealth_def Let_def bind_r_Inr split: if_splits)
qed

definition sample_identity :: process_identity where
  "sample_identity =
     \<lparr>pi_instanceId = ''runtime-1'', pi_deploymentId = ''dep-1'', pi_processManager = None,
      pi_pm2Name = Some ''sdar-runtime-a-0'', pi_port = Some 8080,
      pi_controlEndpoint = None, pi_advertisedEndpoint = None\<rparr>"

definition sample_observation :: process_observation where
  "sample_observation =
     \<lparr>ob_pid = Some 42, ob_processState = Online, ob_livenessState = Live, ob_readinessState = Ready,
      ob_registrationState = Registered, ob_catalogState = Valid, ob_configState = Current,
      ob_lastHeartbeatAt = Some 1000, ob_runtimeVersion = Some ''1.0'',
      ob_configRevision = Some 3, ob_restartCount = 0\<rparr>"

definition sample_process :: projection where
  "sample_process =
     \<lparr>pj_identity = sample_identity, pj_observation = sample_observation, pj_observedRevision = 0\<rparr>"

lemma sample_evaluation:
  "evaluateRuntimeObservedHealth (\<lambda>_. None) sample_process (Some 2000) 5000 =
     Inr (H_READY, True, ''READY'')"
  by code_simp

theorem ready_iff_serving_witness: "serving (pj_observation sample_process) 2000 5000"
  using ready_iff_serving [OF sample_evaluation] by simp

subsection \<open>process.ts: runs of observations\<close>

fun observe_step ::
  "url_parser \<Rightarrow> projection \<Rightarrow> process_observation \<times> int \<Rightarrow> deployment_error + projection \<times> bool" where
  "observe_step parse_url p (ob, expected) = updateRuntimeProcessObservation parse_url p ob expected"

lemma requireNonNegativeInteger_Inr [result_simps]:
  "requireNonNegativeInteger v f = Inr u \<longleftrightarrow> is_safe_integer v \<and> 0 \<le> v"
  by (auto simp: requireNonNegativeInteger_def)

lemma observationsEqual_iff: "observationsEqual a b \<longleftrightarrow> a = b"
  by (cases a; cases b) (auto simp: observationsEqual_def)

lemma update_changed:
  "updateRuntimeProcessObservation parse_url p ob r = Inr (p', True) \<longleftrightarrow>
     is_ok (validateIdentity parse_url (pj_identity p)) \<and> is_ok (validateObservation ob)
     \<and> is_safe_integer r \<and> 0 \<le> r \<and> pj_observation p \<noteq> ob \<and> r = pj_observedRevision p
     \<and> p' = freezeProjection (p\<lparr>pj_observation := ob,
                               pj_observedRevision := pj_observedRevision p + 1\<rparr>)"
  by (auto simp: updateRuntimeProcessObservation_def result_simps observationsEqual_iff)

lemma update_unchanged:
  "updateRuntimeProcessObservation parse_url p ob r = Inr (p', False) \<longleftrightarrow>
     is_ok (validateIdentity parse_url (pj_identity p)) \<and> is_ok (validateObservation ob)
     \<and> is_safe_integer r \<and> 0 \<le> r \<and> pj_observation p = ob \<and> p' = p"
  by (auto simp: updateRuntimeProcessObservation_def result_simps observationsEqual_iff)

interpretation process: cas_aggregate pj_observedRevision snd "observe_step parse_url"
  for parse_url
  by unfold_locales
    (auto simp: update_changed update_unchanged freezeProjection_def)

definition projection_ok :: "url_parser \<Rightarrow> projection \<Rightarrow> bool" where
  "projection_ok parse_url p \<longleftrightarrow>
     is_ok (validateIdentity parse_url (pj_identity p)) \<and> is_ok (validateObservation (pj_observation p))
     \<and> 0 \<le> pj_observedRevision p \<and> freezeProjection p = p"

lemma freeze_idem: "freezeProjection (freezeProjection p) = freezeProjection p"
  by (cases p) (auto simp: freezeProjection_def split: option.splits)

lemma validateIdentity_frozen:
  "validateIdentity parse_url (pj_identity (freezeProjection p)) =
     validateIdentity parse_url (pj_identity p)"
  by (cases "pi_processManager (pj_identity p)") (simp_all add: freezeProjection_def validateIdentity_def)

lemma freeze_fields [simp]:
  "pj_observation (freezeProjection p) = pj_observation p"
  "pj_observedRevision (freezeProjection p) = pj_observedRevision p"
  by (simp_all add: freezeProjection_def)

lemma create_projection_ok:
  "createRuntimeProcessProjection parse_url i ob = Inr p \<Longrightarrow> projection_ok parse_url p"
  by (auto simp: createRuntimeProcessProjection_def projection_ok_def result_simps
      validateIdentity_frozen freeze_idem)

lemma observe_step_ok:
  "observe_step parse_url p x = Inr (p', b) \<Longrightarrow> projection_ok parse_url p \<Longrightarrow> projection_ok parse_url p'"
  by (cases x; cases b)
    (auto simp: update_changed update_unchanged projection_ok_def validateIdentity_frozen
      freeze_idem result_simps)

lemma observe_run_ok:
  "projection_ok parse_url p \<Longrightarrow> projection_ok parse_url (after (observe_step parse_url) p xs)"
proof (induction xs arbitrary: p)
  case (Cons x xs)
  show ?case
  proof (cases "observe_step parse_url p x")
    case (Inr r)
    then obtain p' b where "observe_step parse_url p x = Inr (p', b)" by (cases r) simp
    then show ?thesis using Cons observe_step_ok by simp
  qed (use Cons in simp)
qed simp

text \<open>
  C40. Whatever observations the reconcilers report, in whatever order and with whatever expected
  revisions, the stored projection of a process can be read back unchanged (as long as its
  revision is a safe integer), and its revision counts exactly the reports that were applied, each
  against a different expected revision.
\<close>

theorem observations_fenced:
  assumes "createRuntimeProcessProjection parse_url i ob = Inr p"
    and "p' = after (observe_step parse_url) p xs"
    and "is_safe_integer (pj_observedRevision p')"
  shows "rehydrateRuntimeProcessProjection parse_url p' = Inr p'
    \<and> pj_observedRevision p' = int (length (effective (observe_step parse_url) p xs))
    \<and> distinct (map snd (effective (observe_step parse_url) p xs))"
proof -
  have "pj_observedRevision p = 0"
    using assms(1) by (auto simp: createRuntimeProcessProjection_def result_simps)
  moreover have "projection_ok parse_url p'"
    unfolding assms(2) by (rule observe_run_ok [OF create_projection_ok [OF assms(1)]])
  ultimately show ?thesis
    using assms(3) process.revision_counts [of parse_url p xs] process.no_lost_update [of parse_url p xs]
    by (auto simp: rehydrateRuntimeProcessProjection_def projection_ok_def result_simps assms(2))
qed

lemma sample_created:
  "createRuntimeProcessProjection (\<lambda>_. None) sample_identity sample_observation =
     Inr (freezeProjection sample_process)"
  by code_simp

theorem observations_fenced_witness:
  "pj_observedRevision (after (observe_step (\<lambda>_. None)) (freezeProjection sample_process)
     [(sample_observation\<lparr>ob_pid := Some 43\<rparr>, 0), (sample_observation, 0), (sample_observation, 1)]) = 2"
proof -
  let ?xs = "[(sample_observation\<lparr>ob_pid := Some 43\<rparr>, 0), (sample_observation, 0), (sample_observation, 1)]"
  have "is_safe_integer (pj_observedRevision
      (after (observe_step (\<lambda>_. None)) (freezeProjection sample_process) ?xs))"
    by code_simp
  from observations_fenced [OF sample_created refl this] have
    "pj_observedRevision (after (observe_step (\<lambda>_. None)) (freezeProjection sample_process) ?xs) =
       int (length (effective (observe_step (\<lambda>_. None)) (freezeProjection sample_process) ?xs))"
    by blast
  moreover have "length (effective (observe_step (\<lambda>_. None)) (freezeProjection sample_process) ?xs) = 2"
    by code_simp
  ultimately show ?thesis by simp
qed

end
