(* ===== verification/Allocation.thy ===== *)
theory Allocation
  imports RuntimeProcess
begin

text \<open>
  packages/runtime-deployment/src/instance-allocation.ts (derived instance identities, port
  selection, the explicit release of a port) and database-switch.ts (a database is switched only
  when everything is stopped). \<open>sha256_hex\<close> stands for the hexadecimal SHA-256 digest of the
  crypto library.
\<close>

subsection \<open>instance-allocation.ts\<close>

datatype allocation_error =
    InvalidAllocation string
  | PortRangeExhausted
  | BadIdentifier deployment_error

record instance_identity =
  ii_instanceId :: string
  ii_deploymentId :: string
  ii_pm2Name :: string
  ii_ordinal :: int

definition lower_char :: "char \<Rightarrow> char" where
  "lower_char c = (if is_upper c then (char_of ((of_char c :: nat) + 32) :: char) else c)"

text \<open>\<open>replace(/[^a-z0-9]+/g, "-")\<close>: every maximal run of other characters becomes one dash.\<close>

fun squeeze :: "bool \<Rightarrow> string \<Rightarrow> string" where
  "squeeze gap [] = []"
| "squeeze gap (c # cs) =
     (if slug_char c then c # squeeze False cs
      else if gap then squeeze True cs
      else CHR ''-'' # squeeze True cs)"

definition drop_dashes :: "string \<Rightarrow> string" where
  "drop_dashes s = rev (dropWhile ((=) (CHR ''-'')) (rev s))"

definition slug :: "string \<Rightarrow> string" where
  "slug value =
     (let normalized =
        drop_dashes (take 48 (drop_dashes (dropWhile ((=) (CHR ''-'')) (squeeze False (map lower_char value)))))
      in if normalized = [] then ''provider'' else normalized)"

definition digest12 :: "(string \<Rightarrow> string) \<Rightarrow> string \<Rightarrow> string" where
  "digest12 sha256_hex value = take 12 (sha256_hex value)"

text \<open>\<open>String(ordinal)\<close> for the accepted ordinals 0 to 999.\<close>

definition ordinal_string :: "int \<Rightarrow> string" where
  "ordinal_string n =
     (if n < 10 then pad_digits 1 n else if n < 100 then pad_digits 2 n else pad_digits 3 n)"

definition with_id :: "deployment_error + 'a \<Rightarrow> allocation_error + 'a" where
  "with_id m = (case m of Inl e \<Rightarrow> Inl (BadIdentifier e) | Inr x \<Rightarrow> Inr x)"

definition deriveRuntimeInstanceIdentity ::
  "(string \<Rightarrow> string) \<Rightarrow> string \<Rightarrow> string \<Rightarrow> int \<Rightarrow> allocation_error + instance_identity" where
  "deriveRuntimeInstanceIdentity sha256_hex provider deployment ordinal =
     bind_r (with_id (runtimeProviderId provider)) (\<lambda>providerId.
     bind_r (with_id (runtimeDeploymentId deployment)) (\<lambda>deploymentId.
       if \<not> is_safe_integer ordinal \<or> ordinal < 0 \<or> ordinal > 999
       then Inl (InvalidAllocation ''ordinal'')
       else
         (let providerSlug = slug providerId;
              identityDigest = digest12 sha256_hex (providerId @ CHR 0x00 # deploymentId);
              deploymentDigest = digest12 sha256_hex deploymentId
          in bind_r (with_id (runtimeInstanceId
                (''runtime-'' @ deploymentDigest @ ''-'' @ ordinal_string ordinal))) (\<lambda>instanceId.
               Inr \<lparr>ii_instanceId = instanceId, ii_deploymentId = deploymentId,
                    ii_pm2Name = ''sdar-runtime-'' @ providerSlug @ ''-'' @ identityDigest @ ''-'' @
                                 ordinal_string ordinal,
                    ii_ordinal = ordinal\<rparr>))))"

definition runtimePortRange :: "int \<Rightarrow> int \<Rightarrow> allocation_error + int \<times> int" where
  "runtimePortRange lo hi =
     (if \<not> is_safe_integer lo \<or> \<not> is_safe_integer hi \<or> lo < 1024 \<or> hi > 65535
         \<or> lo > hi \<or> hi - lo > 10000
      then Inl (InvalidAllocation ''portRange'') else Inr (lo, hi))"

text \<open>The loop of \<open>selectRuntimePort\<close>; the set of occupied ports is a list.\<close>

function select_from :: "int \<Rightarrow> int \<Rightarrow> int list \<Rightarrow> allocation_error + int" where
  "select_from port hi occupied =
     (if port > hi then Inl PortRangeExhausted
      else if port \<notin> set occupied then Inr port
      else select_from (port + 1) hi occupied)"
  by auto
termination
  by (relation "measure (\<lambda>(port, hi, _). nat (hi + 1 - port))") auto

declare select_from.simps [simp del]

definition selectRuntimePort :: "int \<times> int \<Rightarrow> int list \<Rightarrow> allocation_error + int" where
  "selectRuntimePort rng occupied =
     bind_r (runtimePortRange (fst rng) (snd rng)) (\<lambda>validated.
       select_from (fst validated) (snd validated) occupied)"

definition runtimeProcessIdentity ::
  "instance_identity \<Rightarrow> int \<Rightarrow> allocation_error + process_identity" where
  "runtimeProcessIdentity identity port =
     (if \<not> is_safe_integer port \<or> port < 1 \<or> port > 65535 then Inl (InvalidAllocation ''port'')
      else Inr \<lparr>pi_instanceId = ii_instanceId identity, pi_deploymentId = ii_deploymentId identity,
                pi_processManager = Some ''pm2'', pi_pm2Name = Some (ii_pm2Name identity),
                pi_port = Some port, pi_controlEndpoint = None, pi_advertisedEndpoint = None\<rparr>)"

text \<open>A release policy is an arbitrary JSON value.\<close>

definition text_field :: "json \<Rightarrow> string \<Rightarrow> string option" where
  "text_field v k =
     (case v of
        JObj kvs \<Rightarrow> (case map_of kvs k of Some (JStr s) \<Rightarrow> Some s | _ \<Rightarrow> None)
      | _ \<Rightarrow> None)"

definition assertRuntimePortReleasePolicy ::
  "instance_identity \<Rightarrow> json \<Rightarrow> allocation_error + unit" where
  "assertRuntimePortReleasePolicy identity policy =
     throw_if
       (text_field policy ''kind'' \<noteq> Some ''explicit-runtime-port-release''
        \<or> (case text_field policy ''providerId'' of None \<Rightarrow> True | Some p \<Rightarrow> trim p = [])
        \<or> text_field policy ''deploymentId'' \<noteq> Some (ii_deploymentId identity)
        \<or> text_field policy ''instanceId'' \<noteq> Some (ii_instanceId identity)
        \<or> (case text_field policy ''reason'' of None \<Rightarrow> True | Some r \<Rightarrow> length (trim r) < 8))
       (InvalidAllocation ''releasePolicy'')"

subsection \<open>Ports\<close>

lemma select_from_least:
  "select_from port hi occupied = Inr p \<longleftrightarrow>
     port \<le> p \<and> p \<le> hi \<and> p \<notin> set occupied \<and> {port..<p} \<subseteq> set occupied"
proof (induction port hi occupied rule: select_from.induct)
  case (1 port hi occupied)
  show ?case
  proof (cases "port > hi \<or> port \<notin> set occupied")
    case True
    then show ?thesis
      by (subst select_from.simps) (auto dest: subsetD [where c = port])
  next
    case False
    then have "select_from port hi occupied = select_from (port + 1) hi occupied"
      by (subst select_from.simps) simp
    moreover have "{port..<p} = insert port {port + 1..<p}" if "port < p" using that by auto
    ultimately show ?thesis
      using 1 False by (cases "p = port") auto
  qed
qed

lemma select_from_exhausted:
  "select_from port hi occupied = Inl e \<longleftrightarrow> e = PortRangeExhausted \<and> {port..hi} \<subseteq> set occupied"
proof (induction port hi occupied rule: select_from.induct)
  case (1 port hi occupied)
  show ?case
  proof (cases "port > hi \<or> port \<notin> set occupied")
    case True
    then show ?thesis
      by (subst select_from.simps) (auto dest: subsetD [where c = port])
  next
    case False
    then have "select_from port hi occupied = select_from (port + 1) hi occupied"
      by (subst select_from.simps) simp
    moreover have "{port..hi} = insert port {port + 1..hi}" using False by auto
    ultimately show ?thesis using 1 False by auto
  qed
qed

text \<open>
  Port selection is complete and deterministic: over an admissible range it returns the
  lowest port that is not occupied, and it reports exhaustion exactly when every port of the range
  is occupied.
\<close>

theorem lowest_free_port:
  assumes "runtimePortRange lo hi = Inr rng"
  shows "(selectRuntimePort rng occupied = Inr p \<longleftrightarrow>
            p \<in> {lo..hi} - set occupied \<and> (\<forall>q. lo \<le> q \<and> q < p \<longrightarrow> q \<in> set occupied))
    \<and> (selectRuntimePort rng occupied = Inl PortRangeExhausted \<longleftrightarrow> {lo..hi} \<subseteq> set occupied)
    \<and> (selectRuntimePort rng occupied = Inl e \<longrightarrow> e = PortRangeExhausted)"
proof -
  from assms have rng: "rng = (lo, hi)" by (auto simp: runtimePortRange_def split: if_splits)
  with assms have "selectRuntimePort rng occupied = select_from lo hi occupied"
    by (simp add: selectRuntimePort_def)
  then show ?thesis
    by (auto simp: select_from_least select_from_exhausted)
qed

theorem lowest_free_port_witness:
  "selectRuntimePort (2000, 2003) [2001, 2000, 9999] = Inr 2002"
proof -
  have "runtimePortRange 2000 2003 = Inr (2000, 2003)" by code_simp
  from lowest_free_port [OF this, of "[2001, 2000, 9999]" 2002] show ?thesis by fastforce
qed

subsection \<open>Derived identities\<close>

definition dashed :: "char \<Rightarrow> bool" where
  "dashed c \<longleftrightarrow> slug_char c \<or> c = CHR ''-''"

lemma squeeze_dashed: "list_all dashed (squeeze gap s)"
  by (induction s arbitrary: gap) (auto simp: dashed_def)

lemma dropWhile_all: "list_all P xs \<Longrightarrow> list_all P (dropWhile Q xs)"
  by (auto simp: list_all_iff dest: set_dropWhileD)

lemma take_all: "list_all P xs \<Longrightarrow> list_all P (take n xs)"
  by (auto simp: list_all_iff dest: in_set_takeD)

lemma drop_dashes_all: "list_all P xs \<Longrightarrow> list_all P (drop_dashes xs)"
  unfolding drop_dashes_def by (simp add: list_all_iff) (metis set_dropWhileD set_rev)

lemma drop_dashes_prefix: "\<exists>r. s = drop_dashes s @ r"
  unfolding drop_dashes_def
  by (metis rev_append rev_rev_ident takeWhile_dropWhile_id)

lemma head_dropWhile: "dropWhile ((=) d) s = c # r \<Longrightarrow> c \<noteq> d"
  by (auto simp: dropWhile_eq_Cons_conv)

lemma slug_shape:
  "\<exists>c r. slug v = c # r \<and> slug_char c \<and> list_all dashed r \<and> length r \<le> 47"
proof (cases "slug v = ''provider''")
  case True
  then show ?thesis by (simp add: dashed_def slug_char_def is_lower_def)
next
  case False
  define body where "body = dropWhile ((=) (CHR ''-'')) (squeeze False (map lower_char v))"
  define short where "short = drop_dashes (take 48 (drop_dashes body))"
  have slug: "slug v = short" "short \<noteq> []"
    using False unfolding slug_def short_def body_def by (auto simp: Let_def split: if_splits)
  obtain r1 where "take 48 (drop_dashes body) = short @ r1"
    using drop_dashes_prefix [of "take 48 (drop_dashes body)"] unfolding short_def by blast
  moreover obtain r2 where "body = drop_dashes body @ r2"
    using drop_dashes_prefix by blast
  ultimately have body: "body = short @ r1 @ drop 48 (drop_dashes body) @ r2"
    by (metis append_assoc append_take_drop_id)
  have "list_all dashed body"
    unfolding body_def by (intro dropWhile_all squeeze_dashed)
  then have all: "list_all dashed short" by (subst (asm) body) simp
  obtain c r where cr: "short = c # r" using slug(2) by (cases short) auto
  with body have "body = c # (r @ r1 @ drop 48 (drop_dashes body) @ r2)" by simp
  then have "c \<noteq> CHR ''-''"
    unfolding body_def by (rule head_dropWhile)
  moreover have "length short \<le> 48"
  proof -
    have "length short + length r1 = min (length (drop_dashes body)) 48"
      using arg_cong [OF \<open>take 48 (drop_dashes body) = short @ r1\<close>, of length] by simp
    then show ?thesis by simp
  qed
  ultimately show ?thesis using slug(1) cr all by (auto simp: dashed_def)
qed

text \<open>The documented shape of a SHA-256 hexadecimal digest.\<close>

definition hex_char :: "char \<Rightarrow> bool" where
  "hex_char c \<longleftrightarrow> is_digit c \<or> c \<in> set ''abcdef''"

definition hex_digest :: "(string \<Rightarrow> string) \<Rightarrow> bool" where
  "hex_digest sha256_hex \<longleftrightarrow> (\<forall>s. length (sha256_hex s) = 64 \<and> list_all hex_char (sha256_hex s))"

lemma hex_dashed: "hex_char c \<Longrightarrow> dashed c"
  by (auto simp: hex_char_def dashed_def slug_char_def is_lower_def)

lemma dashed_identifier: "dashed c \<Longrightarrow> is_alnum c \<or> c \<in> set ''._:-''"
  by (auto simp: dashed_def slug_char_def is_alnum_def)

lemma logical_id_dashed:
  "is_alnum c \<Longrightarrow> length r \<le> 127 \<Longrightarrow> list_all dashed r \<Longrightarrow> logical_id (c # r)"
  using dashed_identifier by (auto simp: logical_id_def list_all_iff)

lemma digit_char_digit: "0 \<le> d \<Longrightarrow> d \<le> 9 \<Longrightarrow> is_digit (digit_char d)"
proof -
  assume "0 \<le> d" "d \<le> 9"
  then have "d = 0 \<or> d = 1 \<or> d = 2 \<or> d = 3 \<or> d = 4 \<or> d = 5 \<or> d = 6 \<or> d = 7 \<or> d = 8 \<or> d = 9" by arith
  then show ?thesis by (elim disjE) (hypsubst, code_simp)+
qed

lemma pad_digits_shape:
  "0 \<le> n \<Longrightarrow> length (pad_digits k n) = k \<and> list_all slug_char (pad_digits k n)"
proof (induction k arbitrary: n)
  case (Suc k)
  from Suc.prems have "0 \<le> n div 10" by simp
  from Suc.IH [OF this] Suc.prems show ?case
    by (simp add: slug_char_def digit_char_digit)
qed simp

lemma ordinal_string_shape:
  "0 \<le> n \<Longrightarrow> length (ordinal_string n) \<le> 3 \<and> list_all slug_char (ordinal_string n)"
  using pad_digits_shape unfolding ordinal_string_def by (auto simp del: pad_digits.simps)

lemma slug_dashed: "list_all slug_char s \<Longrightarrow> list_all dashed s"
  by (auto simp: list_all_iff dashed_def)

lemma digest12_shape:
  "hex_digest h \<Longrightarrow> length (digest12 h s) = 12 \<and> list_all dashed (digest12 h s)"
  by (auto simp: hex_digest_def digest12_def list_all_iff hex_dashed dest!: in_set_takeD)

text \<open>
  Instance identities: for every Provider and deployment identifier and every ordinal from 0 to
  999 an identity is derived (and for nothing else), and together with any port it is a process
  identity that process.ts accepts. The PM2 name keeps its shape whatever characters the Provider
  identifier is made of.
\<close>

theorem derived_identity_accepted:
  assumes "hex_digest sha256_hex"
  shows "(is_ok (deriveRuntimeInstanceIdentity sha256_hex provider deployment ordinal) \<longleftrightarrow>
            logical_id provider \<and> logical_id deployment \<and> 0 \<le> ordinal \<and> ordinal \<le> 999)
    \<and> (deriveRuntimeInstanceIdentity sha256_hex provider deployment ordinal = Inr identity \<longrightarrow>
         runtimeProcessIdentity identity port = Inr pid \<longrightarrow>
         validateIdentity parse_url pid = Inr () \<and> pi_deploymentId pid = deployment)"
proof -
  let ?dd = "digest12 sha256_hex deployment"
  let ?id = "digest12 sha256_hex (provider @ CHR 0x00 # deployment)"
  have inst: "logical_id (''runtime-'' @ ?dd @ ''-'' @ ordinal_string ordinal)" if "0 \<le> ordinal"
    using digest12_shape [OF assms, of deployment] ordinal_string_shape [OF that]
    by (auto intro!: logical_id_dashed dest!: slug_dashed
        simp: is_alnum_def is_lower_def dashed_def slug_char_def)
  have pm2: "pm2_name (''sdar-runtime-'' @ slug provider @ ''-'' @ ?id @ ''-'' @ ordinal_string ordinal)"
    if "0 \<le> ordinal"
  proof -
    obtain c r where "slug provider = c # r" "slug_char c" "list_all dashed r" "length r \<le> 47"
      using slug_shape by blast
    then show ?thesis
      using digest12_shape [OF assms, of "provider @ CHR 0x00 # deployment"]
        slug_dashed ordinal_string_shape [OF that]
      by (auto simp: pm2_name_def list_all_iff dashed_def)
  qed
  let ?identity = "\<lparr>ii_instanceId = ''runtime-'' @ ?dd @ ''-'' @ ordinal_string ordinal,
    ii_deploymentId = deployment,
    ii_pm2Name = ''sdar-runtime-'' @ slug provider @ ''-'' @ ?id @ ''-'' @ ordinal_string ordinal,
    ii_ordinal = ordinal\<rparr>"
  have ids: "with_id (parseIdentifier v k logical_id) = Inr w \<longleftrightarrow> logical_id v \<and> w = v" for v k w
    by (auto simp: with_id_def parseIdentifier_def)
  have derived: "deriveRuntimeInstanceIdentity sha256_hex provider deployment ordinal = Inr i \<longleftrightarrow>
      logical_id provider \<and> logical_id deployment \<and> 0 \<le> ordinal \<and> ordinal \<le> 999 \<and> i = ?identity" for i
    unfolding deriveRuntimeInstanceIdentity_def runtimeProviderId_def runtimeDeploymentId_def
      runtimeInstanceId_def Let_def bind_r_Inr ids
    using inst by (auto simp: bind_r_Inr ids is_safe_integer_def MAX_SAFE_def split: if_splits)
  show ?thesis
  proof (intro conjI impI)
    show "is_ok (deriveRuntimeInstanceIdentity sha256_hex provider deployment ordinal) \<longleftrightarrow>
        logical_id provider \<and> logical_id deployment \<and> 0 \<le> ordinal \<and> ordinal \<le> 999"
      by (simp add: is_ok_iff derived)
  next
    assume d: "deriveRuntimeInstanceIdentity sha256_hex provider deployment ordinal = Inr identity"
      and p: "runtimeProcessIdentity identity port = Inr pid"
    have i: "0 \<le> ordinal" "identity = ?identity" using d by (simp_all add: derived)
    show "pi_deploymentId pid = deployment"
      using p i(2) by (auto simp: runtimeProcessIdentity_def split: if_splits)
    from p have "pi_pm2Name pid = Some (ii_pm2Name identity)" "pi_processManager pid = Some ''pm2''"
      "pi_port pid = Some port" "is_safe_integer port" "1 \<le> port" "port \<le> 65535"
      by (auto simp: runtimeProcessIdentity_def split: if_splits)
    then show "validateIdentity parse_url pid = Inr ()"
      using pm2 [OF i(1)] i(2) by (simp add: validateIdentity_def)
  qed
qed

text \<open>A digest function of the documented shape, for the witness.\<close>

definition sample_hex :: "string \<Rightarrow> string" where
  "sample_hex s = replicate 64 (if s = [] then CHR ''0'' else CHR ''a'')"

theorem derived_identity_accepted_witness:
  "validateIdentity (\<lambda>_. None)
     (case deriveRuntimeInstanceIdentity sample_hex ''ACME..Robots'' ''dep-7'' 12 of
        Inr identity \<Rightarrow> (case runtimeProcessIdentity identity 8080 of Inr pid \<Rightarrow> pid)) = Inr ()"
proof -
  have hex: "hex_digest sample_hex"
    by (auto simp: hex_digest_def sample_hex_def hex_char_def list_all_iff is_digit_def digit_val_def)
  have ids: "logical_id ''ACME..Robots''" "logical_id ''dep-7''" by code_simp+
  have "is_ok (deriveRuntimeInstanceIdentity sample_hex ''ACME..Robots'' ''dep-7'' 12)"
    using derived_identity_accepted [OF hex] ids by simp
  then obtain identity where
    i: "deriveRuntimeInstanceIdentity sample_hex ''ACME..Robots'' ''dep-7'' 12 = Inr identity"
    unfolding is_ok_iff by blast
  moreover obtain pid where p: "runtimeProcessIdentity identity 8080 = Inr pid"
    by (auto simp: runtimeProcessIdentity_def is_safe_integer_def MAX_SAFE_def)
  ultimately show ?thesis
    using derived_identity_accepted [OF hex, of "''ACME..Robots''" "''dep-7''" 12 identity 8080 pid
        "\<lambda>_. None"] by simp
qed

subsection \<open>database-switch.ts\<close>

datatype switch_outcome = Unchanged | Allowed

definition guardRuntimeDatabaseSwitch ::
  "string \<Rightarrow> string \<Rightarrow> string \<Rightarrow> int \<Rightarrow> process_state list
    \<Rightarrow> (string \<times> int \<times> nat \<times> nat) + switch_outcome" where
  "guardRuntimeDatabaseSwitch current target desiredState desiredReplicas processStates =
     (if current = target then Inr Unchanged
      else
        (let allStopped = list_all (\<lambda>p. p \<in> {Missing, Stopped}) processStates
         in if desiredState \<noteq> ''stopped'' \<or> desiredReplicas \<noteq> 0 \<or> \<not> allStopped
            then Inl (desiredState, desiredReplicas, length processStates,
                      length (filter (\<lambda>p. p \<in> {Missing, Stopped}) processStates))
            else Inr Allowed))"

end
