(* ===== verification/Tracks.thy ===== *)
theory Tracks
  imports Prelude
begin

text \<open>
  packages/vehicle-provider-core/src/track-arbiter.ts (which task owns which track of a vehicle)
  and task-state-mapper.ts (device codes to execution states, monotone progress). The private
  field \<open>#owners\<close> is an insertion-ordered map of insertion-ordered maps.
\<close>

subsection \<open>track-arbiter.ts\<close>

datatype track = Chassis | Eo | Weapon

definition INSPECTION_OPERATION :: string where
  "INSPECTION_OPERATION = ''vehicle_inspect_area''"

definition isReconOperation :: "string \<Rightarrow> bool" where
  "isReconOperation operationName \<longleftrightarrow>
     operationName = ''vehicle_area_recon'' \<or> operationName = INSPECTION_OPERATION"

definition OPERATION_TRACKS :: "(string \<times> track list) list" where
  "OPERATION_TRACKS =
     [(''vehicle_get_state'', []), (''vehicle_get_capabilities'', []),
      (''vehicle_get_payload_status'', []), (''vehicle_get_targets'', []),
      (''vehicle_laser_range'', []), (''vehicle_navigate'', [Chassis]),
      (''vehicle_area_recon'', [Eo]), (''vehicle_inspect_area'', [Eo]),
      (''vehicle_track_target'', [Eo]), (''vehicle_control_gimbal'', [Eo]),
      (''vehicle_fire_weapon'', [Eo, Weapon]),
      (''vehicle_emergency_stop'', [Chassis, Eo, Weapon])]"

record holder =
  h_taskId :: string
  h_operationName :: string
  h_targetId :: "string option"

record arbiter_config =
  ac_allowNavigationWithRecon :: bool
  ac_reasonPrefix :: string
  ac_operationTracks :: "(string \<times> track list) list"
  ac_allowReconChain :: bool

definition default_config :: arbiter_config where
  "default_config =
     \<lparr>ac_allowNavigationWithRecon = True, ac_reasonPrefix = ''UGV'',
      ac_operationTracks = OPERATION_TRACKS, ac_allowReconChain = False\<rparr>"

type_synonym owners = "(track, (string, holder) jsmap) jsmap"

definition occupied :: "owners \<Rightarrow> track list" where
  "occupied owners = js_keys owners"

definition owner :: "owners \<Rightarrow> track \<Rightarrow> string option" where
  "owner owners t =
     (case js_get owners t of
        None \<Rightarrow> None
      | Some holders \<Rightarrow> (case js_keys holders of [] \<Rightarrow> None | k # _ \<Rightarrow> Some k))"

text \<open>The one case in which a second task may join a held track.\<close>

definition reconChain :: "arbiter_config \<Rightarrow> track \<Rightarrow> holder \<Rightarrow> string \<Rightarrow> string option \<Rightarrow> bool" where
  "reconChain cfg t h operationName targetId \<longleftrightarrow>
     ac_allowReconChain cfg \<and> t = Eo \<and> targetId \<noteq> None \<and>
     ((isReconOperation (h_operationName h) \<and>
       (operationName = ''vehicle_track_target'' \<or> operationName = ''vehicle_fire_weapon'')) \<or>
      (h_operationName h = ''vehicle_track_target'' \<and> operationName = ''vehicle_fire_weapon'' \<and>
       h_targetId h = targetId))"

definition occupiedFor ::
  "arbiter_config \<Rightarrow> owners \<Rightarrow> string \<Rightarrow> string option \<Rightarrow> string option \<Rightarrow> track list" where
  "occupiedFor cfg owners operationName targetId ignoreTaskId =
     map fst (filter (\<lambda>(t, holders).
       list_ex (\<lambda>h. Some (h_taskId h) \<noteq> ignoreTaskId \<and> \<not> reconChain cfg t h operationName targetId)
         (js_values holders)) owners)"

fun busy_name :: "track \<Rightarrow> string" where
  "busy_name Chassis = ''CHASSIS''"
| "busy_name Eo = ''EO''"
| "busy_name Weapon = ''WEAPON''"

definition busy :: "arbiter_config \<Rightarrow> track \<Rightarrow> string" where
  "busy cfg t = ac_reasonPrefix cfg @ ''_'' @ busy_name t @ ''_TRACK_BUSY''"

definition add_holder :: "track \<Rightarrow> holder \<Rightarrow> owners \<Rightarrow> owners" where
  "add_holder t h owners =
     (case js_get owners t of
        None \<Rightarrow> js_set t [(h_taskId h, h)] owners
      | Some holders \<Rightarrow> js_set t (js_set (h_taskId h) h holders) owners)"

definition tracks_of :: "arbiter_config \<Rightarrow> string \<Rightarrow> track list" where
  "tracks_of cfg operationName =
     (case map_of (ac_operationTracks cfg) operationName of None \<Rightarrow> [] | Some ts \<Rightarrow> ts)"

definition conflictingTrack :: "string \<Rightarrow> track option" where
  "conflictingTrack operationName =
     (if operationName = ''vehicle_navigate'' then Some Eo
      else if isReconOperation operationName then Some Chassis
      else None)"

definition acquire ::
  "arbiter_config \<Rightarrow> owners \<Rightarrow> string \<Rightarrow> string \<Rightarrow> string option \<Rightarrow> owners \<times> bool \<times> string" where
  "acquire cfg owners taskId operationName targetId =
     (let ts = tracks_of cfg operationName
      in if operationName = ''vehicle_emergency_stop''
         then (fold (\<lambda>t. js_set t [(taskId, \<lparr>h_taskId = taskId, h_operationName = operationName,
                                             h_targetId = None\<rparr>)]) ts owners,
               True, ac_reasonPrefix cfg @ ''_EMERGENCY_PREEMPTED_TRACKS'')
         else
           (let occ = occupiedFor cfg owners operationName targetId (Some taskId);
                conflict = (if ac_allowNavigationWithRecon cfg then None
                            else conflictingTrack operationName)
            in if (case conflict of None \<Rightarrow> False | Some t \<Rightarrow> t \<in> set occ)
               then (owners, False, busy cfg (the conflict))
               else
                 (case find (\<lambda>t. t \<in> set occ) ts of
                    Some t \<Rightarrow> (owners, False, busy cfg t)
                  | None \<Rightarrow>
                      (fold (\<lambda>t. add_holder t \<lparr>h_taskId = taskId, h_operationName = operationName,
                                               h_targetId = targetId\<rparr>) ts owners,
                       True, ac_reasonPrefix cfg @ ''_TRACKS_ACQUIRED''))))"

definition release :: "owners \<Rightarrow> string \<Rightarrow> owners" where
  "release owners taskId =
     filter (\<lambda>(_, holders). holders \<noteq> [])
       (map (\<lambda>(t, holders). (t, js_delete taskId holders)) owners)"

definition restore ::
  "arbiter_config \<Rightarrow> owners \<Rightarrow> string \<Rightarrow> track list \<Rightarrow> string \<Rightarrow> string option \<Rightarrow> owners" where
  "restore cfg owners taskId ts operationName targetId =
     fold (\<lambda>t acc.
       if ac_allowReconChain cfg \<or> \<not> js_has acc t
       then add_holder t \<lparr>h_taskId = taskId, h_operationName = operationName,
                          h_targetId = targetId\<rparr> acc
       else acc) ts owners"

subsection \<open>Who holds what\<close>

text \<open>\<open>holds owners t k h\<close>: the entry \<open>h\<close> of task \<open>k\<close> on track \<open>t\<close>.\<close>

definition holding :: "owners \<Rightarrow> track \<Rightarrow> string \<Rightarrow> holder option" where
  "holding owners t k = (case js_get owners t of None \<Rightarrow> None | Some hs \<Rightarrow> js_get hs k)"

definition owners_wf :: "owners \<Rightarrow> bool" where
  "owners_wf owners \<longleftrightarrow>
     distinct (js_keys owners) \<and>
     (\<forall>(t, hs) \<in> set owners. hs \<noteq> [] \<and> distinct (js_keys hs) \<and> (\<forall>(k, h) \<in> set hs. h_taskId h = k))"

lemma owners_wf_get:
  "owners_wf owners \<Longrightarrow> js_get owners t = Some hs \<Longrightarrow>
     hs \<noteq> [] \<and> distinct (js_keys hs) \<and> (\<forall>k h. js_get hs k = Some h \<longrightarrow> h_taskId h = k)"
  by (fastforce simp: owners_wf_def dest: map_of_SomeD)

lemma owners_wf_set:
  assumes "owners_wf owners" "hs \<noteq> []" "distinct (js_keys hs)" "\<forall>(k, h) \<in> set hs. h_taskId h = k"
  shows "owners_wf (js_set t hs owners)"
  using assms unfolding owners_wf_def by (fastforce simp: distinct_update dest: in_js_set)

lemma holding_add:
  "holding (add_holder t h owners) t' k =
     (if t' = t \<and> k = h_taskId h then Some h else holding owners t' k)"
  by (auto simp: holding_def add_holder_def split: option.splits)

lemma add_holder_wf: "owners_wf owners \<Longrightarrow> owners_wf (add_holder t h owners)"
proof (cases "js_get owners t")
  case (Some hs)
  assume wf: "owners_wf owners"
  from owners_wf_get [OF wf Some] have hs: "distinct (js_keys hs)"
    "\<forall>(k, g) \<in> set hs. h_taskId g = k" by auto
  have "\<forall>(k, g) \<in> set (js_set (h_taskId h) h hs). h_taskId g = k"
    using hs by (auto dest: in_js_set)
  then show ?thesis
    unfolding add_holder_def using Some wf hs by (simp add: owners_wf_set distinct_update)
qed (simp add: add_holder_def owners_wf_set)

lemma fold_add_wf: "owners_wf owners \<Longrightarrow> owners_wf (fold (\<lambda>t. add_holder t h) ts owners)"
  by (induction ts arbitrary: owners) (auto simp: add_holder_wf)

lemma holding_fold_add:
  "holding (fold (\<lambda>t. add_holder t h) ts owners) t' k =
     (if t' \<in> set ts \<and> k = h_taskId h then Some h else holding owners t' k)"
  by (induction ts arbitrary: owners) (auto simp: holding_add)

lemma fold_preempt_wf:
  "owners_wf owners \<Longrightarrow> h_taskId h = k \<Longrightarrow> owners_wf (fold (\<lambda>t. js_set t [(k, h)]) ts owners)"
  by (induction ts arbitrary: owners) (auto simp: owners_wf_set)

lemma holding_fold_preempt:
  "holding (fold (\<lambda>t. js_set t [(k, h)]) ts owners) t' k' =
     (if t' \<in> set ts then (if k' = k then Some h else None) else holding owners t' k')"
  by (induction ts arbitrary: owners) (auto simp: holding_def)

lemma release_get:
  "js_get (release owners k) t =
     (case js_get owners t of None \<Rightarrow> None
      | Some hs \<Rightarrow> if js_delete k hs = [] then None else Some (js_delete k hs))"
  if "distinct (js_keys owners)"
  using that unfolding release_def
proof (induction owners)
  case (Cons p owners)
  then show ?case
    by (cases p) (auto split: option.splits simp: map_of_eq_None_iff image_iff)
qed simp

lemma holding_release:
  "owners_wf owners \<Longrightarrow>
     holding (release owners k) t k' = (if k' = k then None else holding owners t k')"
proof -
  assume wf: "owners_wf owners"
  then have d: "distinct (js_keys owners)" by (simp add: owners_wf_def)
  show ?thesis
  proof (cases "js_get owners t")
    case (Some hs)
    have "js_get hs k' = None" if "js_delete k hs = []" "k' \<noteq> k"
      using js_get_delete [of k hs k'] that by simp
    then show ?thesis
      using Some by (auto simp: holding_def release_get [OF d])
  qed (simp add: holding_def release_get [OF d])
qed

lemma release_wf: "owners_wf owners \<Longrightarrow> owners_wf (release owners k)"
  unfolding owners_wf_def release_def
  by (auto simp: distinct_map_filter distinct_delete comp_def case_prod_unfold in_js_delete
      intro!: distinct_map_filter) fastforce

lemma blocked_iff:
  assumes "owners_wf owners"
  shows "t \<in> set (occupiedFor cfg owners op target (Some me)) \<longleftrightarrow>
    (\<exists>k h. k \<noteq> me \<and> holding owners t k = Some h \<and> \<not> reconChain cfg t h op target)"
proof
  assume "t \<in> set (occupiedFor cfg owners op target (Some me))"
  then obtain hs k h where hs: "(t, hs) \<in> set owners" "(k, h) \<in> set hs"
    "h_taskId h \<noteq> me" "\<not> reconChain cfg t h op target"
    by (auto simp: occupiedFor_def list_ex_iff)
  from hs assms have "js_get owners t = Some hs" "js_get hs k = Some h" "h_taskId h = k"
    by (auto simp: owners_wf_def)
  then show "\<exists>k h. k \<noteq> me \<and> holding owners t k = Some h \<and> \<not> reconChain cfg t h op target"
    using hs by (intro exI [of _ k] exI [of _ h]) (simp add: holding_def)
next
  assume "\<exists>k h. k \<noteq> me \<and> holding owners t k = Some h \<and> \<not> reconChain cfg t h op target"
  then obtain k h hs where "k \<noteq> me" "js_get owners t = Some hs" "js_get hs k = Some h"
    "\<not> reconChain cfg t h op target"
    by (auto simp: holding_def split: option.splits)
  then show "t \<in> set (occupiedFor cfg owners op target (Some me))"
    using owners_wf_get [OF assms] unfolding occupiedFor_def
    by (force simp: list_ex_iff dest: map_of_SomeD)
qed

subsection \<open>Exclusive tracks\<close>

text \<open>Another task may hold the same track only by joining a reconnaissance chain on \<open>eo\<close>.\<close>

definition joins :: "arbiter_config \<Rightarrow> track \<Rightarrow> holder \<Rightarrow> holder \<Rightarrow> bool" where
  "joins cfg t h new \<longleftrightarrow> reconChain cfg t h (h_operationName new) (h_targetId new)"

definition tracks_ok :: "arbiter_config \<Rightarrow> owners \<Rightarrow> bool" where
  "tracks_ok cfg owners \<longleftrightarrow>
     owners_wf owners \<and>
     (\<forall>t k h k' h'. holding owners t k = Some h \<longrightarrow> holding owners t k' = Some h' \<longrightarrow> k \<noteq> k' \<longrightarrow>
        joins cfg t h h' \<or> joins cfg t h' h)"

lemma tracks_ok_empty: "tracks_ok cfg []"
  by (simp add: tracks_ok_def owners_wf_def holding_def)

lemma find_None_set: "find P xs = None \<longleftrightarrow> (\<forall>x \<in> set xs. \<not> P x)"
  by (induction xs) auto

lemma acquire_accepted:
  assumes "acquire cfg owners k op target = (owners', True, r)" and "op \<noteq> ''vehicle_emergency_stop''"
  shows "owners' = fold (\<lambda>t. add_holder t \<lparr>h_taskId = k, h_operationName = op, h_targetId = target\<rparr>)
                     (tracks_of cfg op) owners
    \<and> (\<forall>t \<in> set (tracks_of cfg op). t \<notin> set (occupiedFor cfg owners op target (Some k)))"
  using assms
  by (auto simp: acquire_def Let_def find_None_set split: if_splits option.splits)

lemma acquire_emergency:
  "acquire cfg owners k ''vehicle_emergency_stop'' target =
     (fold (\<lambda>t. js_set t [(k, \<lparr>h_taskId = k, h_operationName = ''vehicle_emergency_stop'',
                                 h_targetId = None\<rparr>)])
        (tracks_of cfg ''vehicle_emergency_stop'') owners,
      True, ac_reasonPrefix cfg @ ''_EMERGENCY_PREEMPTED_TRACKS'')"
  by (simp add: acquire_def Let_def)

lemma acquire_refused: "acquire cfg owners k op target = (owners', False, r) \<Longrightarrow> owners' = owners"
  by (auto simp: acquire_def Let_def split: if_splits option.splits)

lemma add_tracks_ok:
  assumes ok: "tracks_ok cfg owners"
    and free: "\<And>t k' h'. t \<in> set ts \<Longrightarrow> k' \<noteq> h_taskId h \<Longrightarrow> holding owners t k' = Some h' \<Longrightarrow>
                 joins cfg t h' h \<or> joins cfg t h h'"
  shows "tracks_ok cfg (fold (\<lambda>t. add_holder t h) ts owners)"
  using ok free unfolding tracks_ok_def holding_fold_add
  by (auto simp: fold_add_wf split: if_splits)

lemma acquire_tracks_ok:
  assumes ok: "tracks_ok cfg owners" and step: "acquire cfg owners k op target = (owners', b, r)"
  shows "tracks_ok cfg owners'"
proof (cases b)
  case False
  with step have "acquire cfg owners k op target = (owners', False, r)" by simp
  from acquire_refused [OF this] ok show ?thesis by simp
next
  case True
  note wf = ok [unfolded tracks_ok_def, THEN conjunct1]
  show ?thesis
  proof (cases "op = ''vehicle_emergency_stop''")
    case True
    with ok step show ?thesis
      using fold_preempt_wf [OF wf] unfolding tracks_ok_def
      by (auto simp: holding_fold_preempt acquire_emergency split: if_splits) blast
  next
    case False
    let ?h = "\<lparr>h_taskId = k, h_operationName = op, h_targetId = target\<rparr>"
    from acquire_accepted [OF step [unfolded \<open>b\<close> [THEN eqTrueI]] False]
    have o: "owners' = fold (\<lambda>t. add_holder t ?h) (tracks_of cfg op) owners"
      and free: "\<And>t. t \<in> set (tracks_of cfg op) \<Longrightarrow> t \<notin> set (occupiedFor cfg owners op target (Some k))"
      by auto
    show ?thesis
      unfolding o
      by (rule add_tracks_ok [OF ok])
        (use free blocked_iff [OF wf] in \<open>auto simp: joins_def\<close>)
  qed
qed

lemma release_tracks_ok: "tracks_ok cfg owners \<Longrightarrow> tracks_ok cfg (release owners k)"
  unfolding tracks_ok_def using holding_release release_wf by (auto split: if_splits)

lemma restore_step_ok:
  assumes "\<not> ac_allowReconChain cfg" "tracks_ok cfg owners" "\<not> js_has owners t"
  shows "tracks_ok cfg (add_holder t h owners)"
  using add_tracks_ok [OF assms(2), of "[t]" h] assms(3) by (simp add: holding_def js_has_def)

lemma restore_tracks_ok:
  assumes "\<not> ac_allowReconChain cfg"
  shows "tracks_ok cfg owners \<Longrightarrow> tracks_ok cfg (restore cfg owners k ts op target)"
  unfolding restore_def
  by (induction ts arbitrary: owners) (use assms in \<open>auto simp: restore_step_ok\<close>)

text \<open>Restoring, on a chain-enabled arbiter, a holder that is compatible with those present.\<close>

lemma restore_compatible_ok:
  assumes "ac_allowReconChain cfg" "tracks_ok cfg owners"
    and "\<And>t k' h'. t \<in> set ts \<Longrightarrow> k' \<noteq> k \<Longrightarrow> holding owners t k' = Some h' \<Longrightarrow>
           joins cfg t h' \<lparr>h_taskId = k, h_operationName = op, h_targetId = target\<rparr> \<or>
           joins cfg t \<lparr>h_taskId = k, h_operationName = op, h_targetId = target\<rparr> h'"
  shows "tracks_ok cfg (restore cfg owners k ts op target)"
  using add_tracks_ok [OF assms(2), of ts "\<lparr>h_taskId = k, h_operationName = op, h_targetId = target\<rparr>"]
    assms unfolding restore_def by simp

subsection \<open>Runs of the arbiter\<close>

text \<open>
  The states an arbiter can get into. Where the chain is enabled \<open>restore\<close> adds without a check;
  it is called at start-up with the executions of the store, so what is restored must have been
  able to hold its tracks beside what is already restored.
\<close>

inductive arbiter_reach :: "arbiter_config \<Rightarrow> owners \<Rightarrow> bool" for cfg where
  start: "arbiter_reach cfg []"
| acquired: "arbiter_reach cfg s \<Longrightarrow> acquire cfg s k op target = (s', b, r) \<Longrightarrow> arbiter_reach cfg s'"
| released: "arbiter_reach cfg s \<Longrightarrow> arbiter_reach cfg (release s k)"
| restored: "arbiter_reach cfg s \<Longrightarrow>
     \<not> ac_allowReconChain cfg \<or>
     (\<forall>t \<in> set ts. \<forall>k' h'. k' \<noteq> k \<longrightarrow> holding s t k' = Some h' \<longrightarrow>
        joins cfg t h' \<lparr>h_taskId = k, h_operationName = op, h_targetId = target\<rparr> \<or>
        joins cfg t \<lparr>h_taskId = k, h_operationName = op, h_targetId = target\<rparr> h') \<Longrightarrow>
     arbiter_reach cfg (restore cfg s k ts op target)"

lemma reach_tracks_ok: "arbiter_reach cfg s \<Longrightarrow> tracks_ok cfg s"
proof (induction rule: arbiter_reach.induct)
  case (restored s ts k op target)
  then show ?case
    using restore_tracks_ok [of cfg s k ts op target] restore_compatible_ok [of cfg s ts k op target]
    by (cases "ac_allowReconChain cfg") blast+
qed (simp_all add: tracks_ok_empty acquire_tracks_ok release_tracks_ok)

text \<open>
  A track has one owner. Whatever the order of acquisitions, releases and restorations, two
  different tasks hold the same track only if the chain is enabled, the track is \<open>eo\<close>, and one of
  them is a reconnaissance beside a lock or fire task, or a lock beside a fire task on the very
  same target.
\<close>

theorem tracks_exclusive:
  assumes "arbiter_reach cfg s"
    and "holding s t k = Some h" "holding s t k' = Some h'" "k \<noteq> k'"
  shows "ac_allowReconChain cfg \<and> t = Eo \<and>
    (\<exists>(a, b) \<in> {(h, h'), (h', h)}.
       (isReconOperation (h_operationName a) \<and>
          h_operationName b \<in> {''vehicle_track_target'', ''vehicle_fire_weapon''}) \<or>
       (h_operationName a = ''vehicle_track_target'' \<and> h_operationName b = ''vehicle_fire_weapon'' \<and>
          h_targetId a = h_targetId b))"
proof -
  have "joins cfg t h h' \<or> joins cfg t h' h"
    using reach_tracks_ok [OF assms(1)] assms(2-4) unfolding tracks_ok_def by blast
  then show ?thesis by (auto simp: joins_def reconChain_def)
qed

text \<open>
  Emergency stop preempts: it is always accepted, and afterwards its task is the only holder of
  every track of the operation; with the table of the code these are all the tracks.
\<close>

theorem emergency_preempts:
  "case acquire cfg s k ''vehicle_emergency_stop'' target of (s', accepted, reason) \<Rightarrow>
     accepted \<and> reason = ac_reasonPrefix cfg @ ''_EMERGENCY_PREEMPTED_TRACKS'' \<and>
     (\<forall>t. t \<in> set (tracks_of cfg ''vehicle_emergency_stop'') \<longrightarrow>
        (\<forall>k'. (holding s' t k' \<noteq> None) = (k' = k)) \<and> owner s' t = Some k) \<and>
     (ac_operationTracks cfg = OPERATION_TRACKS \<longrightarrow>
        set (tracks_of cfg ''vehicle_emergency_stop'') = UNIV)"
proof -
  let ?h = "\<lparr>h_taskId = k, h_operationName = ''vehicle_emergency_stop'', h_targetId = None\<rparr>"
  have get: "js_get (fold (\<lambda>t. js_set t [(k, h)]) ts s) t =
      (if t \<in> set ts then Some [(k, h)] else js_get s t)" for t ts h
    by (induction ts arbitrary: s) auto
  have all: "set (tracks_of cfg ''vehicle_emergency_stop'') = UNIV"
    if "ac_operationTracks cfg = OPERATION_TRACKS"
    using that track.exhaust by (auto simp: tracks_of_def OPERATION_TRACKS_def)
  show ?thesis
    by (auto simp: acquire_emergency get holding_def owner_def all)
qed

lemma acquire_result:
  assumes "op \<noteq> ''vehicle_emergency_stop''"
  shows "fst (snd (acquire cfg s k op target)) \<longleftrightarrow>
    (\<forall>t \<in> set (tracks_of cfg op) \<union>
        (if ac_allowNavigationWithRecon cfg then {} else set_option (conflictingTrack op)).
      t \<notin> set (occupiedFor cfg s op target (Some k)))"
  using assms find_None_set [of "\<lambda>t. t \<in> set (occupiedFor cfg s op target (Some k))" "tracks_of cfg op"]
  by (auto simp: acquire_def Let_def split: option.splits)

text \<open>
  The decision of \<open>acquire\<close>: every operation but the emergency stop is refused, and nothing
  changes, when a track it needs (or, where navigation may not run beside reconnaissance, the
  conflicting track) has another holder that is not part of its chain; otherwise it is accepted and
  its task is recorded on exactly the tracks of the operation, nobody else's entry changing.
\<close>

theorem acquire_decides:
  assumes "arbiter_reach cfg s" and "op \<noteq> ''vehicle_emergency_stop''"
    and "acquire cfg s k op target = (s', accepted, reason)"
  shows "(accepted \<longleftrightarrow>
      (\<forall>t k' h. holding s t k' = Some h \<longrightarrow> k' \<noteq> k \<longrightarrow>
         t \<in> set (tracks_of cfg op) \<or> \<not> ac_allowNavigationWithRecon cfg \<and> conflictingTrack op = Some t \<longrightarrow>
         reconChain cfg t h op target))
    \<and> (\<forall>t k'. holding s' t k' =
         (if accepted \<and> t \<in> set (tracks_of cfg op) \<and> k' = k
          then Some \<lparr>h_taskId = k, h_operationName = op, h_targetId = target\<rparr>
          else holding s t k'))"
proof
  have wf: "owners_wf s" using reach_tracks_ok [OF assms(1)] by (simp add: tracks_ok_def)
  show "accepted \<longleftrightarrow>
      (\<forall>t k' h. holding s t k' = Some h \<longrightarrow> k' \<noteq> k \<longrightarrow>
         t \<in> set (tracks_of cfg op) \<or> \<not> ac_allowNavigationWithRecon cfg \<and> conflictingTrack op = Some t \<longrightarrow>
         reconChain cfg t h op target)"
  proof -
    have "accepted \<longleftrightarrow>
        (\<forall>t. t \<in> set (tracks_of cfg op) \<or> \<not> ac_allowNavigationWithRecon cfg \<and> conflictingTrack op = Some t \<longrightarrow>
           t \<notin> set (occupiedFor cfg s op target (Some k)))"
      using acquire_result [OF assms(2), of cfg s k target] assms(3) by (auto split: if_splits)
    then show ?thesis unfolding blocked_iff [OF wf] by blast
  qed
  show "\<forall>t k'. holding s' t k' =
         (if accepted \<and> t \<in> set (tracks_of cfg op) \<and> k' = k
          then Some \<lparr>h_taskId = k, h_operationName = op, h_targetId = target\<rparr>
          else holding s t k')"
  proof (cases accepted)
    case True
    with acquire_accepted [of cfg s k op target s' reason] assms(2,3) show ?thesis
      by (simp add: holding_fold_add)
  next
    case False
    with acquire_refused [of cfg s k op target s' reason] assms(3) show ?thesis by simp
  qed
qed

text \<open>A reconnaissance, a lock on target 7 and the fire task on it share \<open>eo\<close>.\<close>

definition chain_config :: arbiter_config where
  "chain_config = default_config\<lparr>ac_allowReconChain := True\<rparr>"

definition chain_owners :: owners where
  "chain_owners =
     fst (acquire chain_config
       (fst (acquire chain_config
         (fst (acquire chain_config [] ''t1'' ''vehicle_area_recon'' None))
          ''t2'' ''vehicle_track_target'' (Some ''7'')))
        ''t3'' ''vehicle_fire_weapon'' (Some ''7''))"

lemma reach_acquire: "arbiter_reach cfg s \<Longrightarrow> arbiter_reach cfg (fst (acquire cfg s k op target))"
  using arbiter_reach.acquired by (metis prod.collapse)

lemma chain_reached: "arbiter_reach chain_config chain_owners"
  unfolding chain_owners_def by (intro reach_acquire arbiter_reach.start)

lemma chain_holders:
  "holding chain_owners Eo ''t1'' =
     Some \<lparr>h_taskId = ''t1'', h_operationName = ''vehicle_area_recon'', h_targetId = None\<rparr>"
  "holding chain_owners Eo ''t3'' =
     Some \<lparr>h_taskId = ''t3'', h_operationName = ''vehicle_fire_weapon'', h_targetId = Some ''7''\<rparr>"
  by code_simp+

theorem tracks_exclusive_witness: "ac_allowReconChain chain_config"
  using tracks_exclusive [OF chain_reached chain_holders] by simp

theorem emergency_preempts_witness:
  "owner (fst (acquire chain_config chain_owners ''t9'' ''vehicle_emergency_stop'' None)) Eo = Some ''t9''"
proof -
  obtain s' b r where a:
    "acquire chain_config chain_owners ''t9'' ''vehicle_emergency_stop'' None = (s', b, r)"
    by (metis prod.collapse)
  have "Eo \<in> set (tracks_of chain_config ''vehicle_emergency_stop'')" by code_simp
  with emergency_preempts [where cfg = chain_config and s = chain_owners and k = "''t9''" and target = None] a
  show ?thesis by simp
qed

theorem acquire_decides_witness:
  "\<not> fst (snd (acquire chain_config chain_owners ''t4'' ''vehicle_control_gimbal'' (Some ''7'')))"
proof -
  obtain s' b r where a:
    "acquire chain_config chain_owners ''t4'' ''vehicle_control_gimbal'' (Some ''7'') = (s', b, r)"
    by (metis prod.collapse)
  have t: "Eo \<in> set (tracks_of chain_config ''vehicle_control_gimbal'')" by code_simp
  have n: "\<not> reconChain chain_config Eo
      \<lparr>h_taskId = ''t1'', h_operationName = ''vehicle_area_recon'', h_targetId = None\<rparr>
      ''vehicle_control_gimbal'' (Some ''7'')" by code_simp
  have "''t1'' \<noteq> ''t4''" by simp
  with acquire_decides [OF chain_reached _ a] t n chain_holders(1) have "\<not> b" by fastforce
  with a show ?thesis by simp
qed

subsection \<open>task-state-mapper.ts\<close>

text \<open>A device code is a number; \<open>None\<close> is \<open>unknown\<close>.\<close>

type_synonym device_code = "rat option"

datatype mapped_state = STARTING | RUNNING | PAUSED | RESUMING | STOPPING | CANCELLED | SUCCEEDED
  | BUSINESS_FAILED | ACCEPTED | RECONCILE

definition mapVehicleTaskState :: "device_code \<Rightarrow> bool \<Rightarrow> string \<Rightarrow> mapped_state \<times> string" where
  "mapVehicleTaskState state hasActiveExecution reasonPrefix =
     (if state = Some 0 then (STARTING, reasonPrefix @ ''_WAITING_START_CONFIRMATION'')
      else if state = Some 1 then (RUNNING, reasonPrefix @ ''_DEVICE_TASK_RUNNING'')
      else if state = Some 2 then (PAUSED, reasonPrefix @ ''_DEVICE_TASK_PAUSED'')
      else if state = Some 3 then (CANCELLED, reasonPrefix @ ''_DEVICE_TASK_CANCELLED'')
      else if state = Some 4 then (SUCCEEDED, reasonPrefix @ ''_DEVICE_TASK_COMPLETED'')
      else if state = Some 5 then (BUSINESS_FAILED, reasonPrefix @ ''_DEVICE_TASK_FAILED'')
      else if state = Some (-1) then
        (if hasActiveExecution then (RECONCILE, ''UNCERTAIN_EXECUTION_STATE'')
         else (ACCEPTED, reasonPrefix @ ''_DEVICE_IDLE''))
      else (RECONCILE, ''UNCERTAIN_EXECUTION_STATE''))"

definition mapReconMotionStatus :: "device_code \<Rightarrow> bool \<Rightarrow> string \<Rightarrow> mapped_state \<times> string" where
  "mapReconMotionStatus status hasActiveExecution reasonPrefix =
     (if status = Some 1 then
        (if hasActiveExecution then (RECONCILE, reasonPrefix @ ''_RECON_IDLE_UNCONFIRMED'')
         else (ACCEPTED, reasonPrefix @ ''_RECON_IDLE''))
      else if status = Some 2 then (STARTING, reasonPrefix @ ''_RECON_CONFIGURING'')
      else if status = Some 3 then (STARTING, reasonPrefix @ ''_RECON_READY'')
      else if status = Some 4 then (STARTING, reasonPrefix @ ''_RECON_STARTING'')
      else if status = Some 5 then (RUNNING, reasonPrefix @ ''_RECON_RUNNING'')
      else if status = Some 6 then (RESUMING, reasonPrefix @ ''_RECON_RECOVERING'')
      else if status = Some 7 then (RUNNING, reasonPrefix @ ''_RECON_PAUSING'')
      else if status = Some 8 then (PAUSED, reasonPrefix @ ''_RECON_PAUSED'')
      else if status = Some 9 then (CANCELLED, reasonPrefix @ ''_RECON_TERMINATED'')
      else if status = Some 10 then (BUSINESS_FAILED, reasonPrefix @ ''_RECON_FAILED'')
      else if status = Some 11 then (SUCCEEDED, reasonPrefix @ ''_RECON_FINISHED'')
      else if status = Some 12 then (STOPPING, reasonPrefix @ ''_RECON_STOPPING'')
      else if status = Some 13 then (RECONCILE, reasonPrefix @ ''_RECON_MANUAL_INTERVENTION'')
      else (RECONCILE, ''UNCERTAIN_EXECUTION_STATE''))"

definition projectReconMotionStatus :: "device_code \<Rightarrow> device_code" where
  "projectReconMotionStatus status =
     (if status = Some 1 then Some (-1)
      else if status \<in> {Some 2, Some 3, Some 4} then Some 0
      else if status \<in> {Some 5, Some 6, Some 7, Some 12} then Some 1
      else if status = Some 8 then Some 2
      else if status = Some 9 then Some 3
      else if status = Some 10 then Some 5
      else if status = Some 11 then Some 4
      else None)"

text \<open>What the coarser vehicle codes can express.\<close>

fun coarse :: "mapped_state \<Rightarrow> mapped_state" where
  "coarse RESUMING = RUNNING"
| "coarse STOPPING = RUNNING"
| "coarse s = s"

text \<open>
  The two readings of a reconnaissance status agree: mapping it directly and projecting it to a
  vehicle task code first give the same execution state, except that \<open>RESUMING\<close> and \<open>STOPPING\<close>
  are seen as \<open>RUNNING\<close>. In particular no status is terminal in one reading and active in the
  other, and every status that is not known must be reconciled in both.
\<close>

theorem recon_readings_agree:
  "fst (mapVehicleTaskState (projectReconMotionStatus status) active p) =
     coarse (fst (mapReconMotionStatus status active q))"
  by (auto simp: mapVehicleTaskState_def projectReconMotionStatus_def mapReconMotionStatus_def)

definition monotonicProgress :: "rat option \<Rightarrow> json \<Rightarrow> rat option" where
  "monotonicProgress previous next =
     (case next of
        JNum n \<Rightarrow>
          if n < 0 \<or> n > 100 then previous
          else (case previous of None \<Rightarrow> Some n | Some p \<Rightarrow> Some (max p n))
      | _ \<Rightarrow> previous)"

text \<open>The reports that count.\<close>

fun valid_progress :: "json list \<Rightarrow> rat list" where
  "valid_progress [] = []"
| "valid_progress (JNum n # rs) = (if 0 \<le> n \<and> n \<le> 100 then n # valid_progress rs else valid_progress rs)"
| "valid_progress (r # rs) = valid_progress rs"

text \<open>
  Progress never goes back: after any sequence of reports the progress is the maximum of what it
  was and of the reports that are numbers from 0 to 100, and it is absent only if there was none.
\<close>

theorem progress_is_maximum:
  "foldl monotonicProgress previous reports =
     (case previous of
        None \<Rightarrow> (case valid_progress reports of [] \<Rightarrow> None | n # ns \<Rightarrow> Some (fold max ns n))
      | Some p \<Rightarrow> Some (fold max (valid_progress reports) p))"
proof (induction reports arbitrary: previous rule: valid_progress.induct)
  case (2 n rs)
  then show ?case by (cases previous) (auto simp: monotonicProgress_def max.commute)
qed (auto simp: monotonicProgress_def split: option.splits)

end
