(* ===== verification/CanonicalJson.thy ===== *)
theory CanonicalJson
  imports JsTime "HOL-Library.Multiset"
begin

text \<open>
  packages/adapter-protocol/src/business-events.ts: the canonical JSON text that hashes and
  signatures are computed over. Unicode normalisation and the printing of a number are the
  parameters \<open>nfc\<close> and \<open>num_string\<close>.
\<close>

subsection \<open>JSON text\<close>

definition hex_digit :: "nat \<Rightarrow> char" where
  "hex_digit n = (char_of (if n < 10 then n + 48 else n + 87) :: char)"

text \<open>The escapes of \<open>JSON.stringify\<close> in a string.\<close>

definition escape_char :: "char \<Rightarrow> string" where
  "escape_char c =
     (let n = (of_char c :: nat)
      in if n = 34 then [CHR 0x5C, CHR 0x22]
         else if n = 92 then [CHR 0x5C, CHR 0x5C]
         else if n = 8 then [CHR 0x5C, CHR ''b'']
         else if n = 9 then [CHR 0x5C, CHR ''t'']
         else if n = 10 then [CHR 0x5C, CHR ''n'']
         else if n = 12 then [CHR 0x5C, CHR ''f'']
         else if n = 13 then [CHR 0x5C, CHR ''r'']
         else if n < 32
         then [CHR 0x5C, CHR ''u'', CHR ''0'', CHR ''0'', hex_digit (n div 16), hex_digit (n mod 16)]
         else [c])"

definition json_string :: "string \<Rightarrow> string" where
  "json_string s = CHR 0x22 # concat (map escape_char s) @ [CHR 0x22]"

fun join :: "string \<Rightarrow> string list \<Rightarrow> string" where
  "join sep [] = []"
| "join sep [s] = s"
| "join sep (s # t # ss) = s @ sep @ join sep (t # ss)"

text \<open>\<open>Object.entries(value).sort\<close> by key, code unit by code unit.\<close>

fun insert_entry :: "string \<times> 'a \<Rightarrow> (string \<times> 'a) list \<Rightarrow> (string \<times> 'a) list" where
  "insert_entry e [] = [e]"
| "insert_entry e (f # fs) =
     (if string_less (fst f) (fst e) then f # insert_entry e fs else e # f # fs)"

definition sort_entries :: "(string \<times> 'a) list \<Rightarrow> (string \<times> 'a) list" where
  "sort_entries kvs = foldr insert_entry kvs []"

fun serialize :: "(rat \<Rightarrow> string) \<Rightarrow> json \<Rightarrow> string" where
  "serialize num_string JNull = ''null''"
| "serialize num_string (JBool b) = (if b then ''true'' else ''false'')"
| "serialize num_string (JStr s) = json_string s"
| "serialize num_string (JNum n) = num_string n"
| "serialize num_string (JArr vs) = ''['' @ join '','' (map (serialize num_string) vs) @ '']''"
| "serialize num_string (JObj kvs) =
     CHR 0x7B # join '','' (map (\<lambda>(k, t). json_string k @ '':'' @ t)
       (sort_entries (map (\<lambda>(k, v). (k, serialize num_string v)) kvs))) @ [CHR 0x7D]"

text \<open>
  One round of the loop over the members. Assigning to \<open>result["__proto__"]\<close> sets the prototype of
  the new object and makes no member.
\<close>

definition add_member :: "jobj \<Rightarrow> string \<times> json result \<Rightarrow> jobj result" where
  "add_member r m =
     (if fst m \<in> set (map fst r) then Inl ''BUSINESS_EVENT_UNICODE_KEY_COLLISION''
      else bind_r (snd m) (\<lambda>v. Inr (if fst m = ''__proto__'' then r else r @ [(fst m, v)])))"

fun normalizeUnicode :: "(string \<Rightarrow> string) \<Rightarrow> json \<Rightarrow> json result" where
  "normalizeUnicode nfc (JStr s) = Inr (JStr (nfc s))"
| "normalizeUnicode nfc (JArr vs) =
     bind_r (map_r id (map (normalizeUnicode nfc) vs)) (\<lambda>ws. Inr (JArr ws))"
| "normalizeUnicode nfc (JObj kvs) =
     bind_r (fold_r add_member [] (map (\<lambda>(k, v). (nfc k, normalizeUnicode nfc v)) kvs))
       (\<lambda>r. Inr (JObj r))"
| "normalizeUnicode nfc v = Inr v"

definition canonicalJson :: "(string \<Rightarrow> string) \<Rightarrow> (rat \<Rightarrow> string) \<Rightarrow> json \<Rightarrow> string result" where
  "canonicalJson nfc num_string v =
     bind_r (normalizeUnicode nfc v) (\<lambda>w. Inr (serialize num_string w))"

definition canonicalSha256 ::
  "(string \<Rightarrow> string) \<Rightarrow> (rat \<Rightarrow> string) \<Rightarrow> (string \<Rightarrow> string) \<Rightarrow> json \<Rightarrow> string result" where
  "canonicalSha256 nfc num_string sha256_hex v =
     bind_r (canonicalJson nfc num_string v) (\<lambda>t. Inr (''sha256:'' @ sha256_hex t))"

lemma canonical_example:
  "canonicalJson (\<lambda>s. s) (\<lambda>_. ''1'') (JObj [(''b'', JArr [JNum 1, JNull]), (''a'', JStr [CHR 0x22])])
   = Inr (concat [[CHR 0x7B], json_string ''a'', '':'', json_string [CHR 0x22], '','', json_string ''b'',
                  '':[1,null]'', [CHR 0x7D]])"
  by code_simp

subsection \<open>Sorting\<close>

lemma insert_entry_mset: "mset (insert_entry e fs) = add_mset e (mset fs)"
  by (induction fs) auto

lemma sort_entries_mset: "mset (sort_entries kvs) = mset kvs"
  by (induction kvs) (auto simp: sort_entries_def insert_entry_mset)

abbreviation key_sorted :: "(string \<times> 'a) list \<Rightarrow> bool" where
  "key_sorted \<equiv> sorted_wrt (\<lambda>e f. string_less (fst e) (fst f))"

lemma insert_entry_sorted:
  "key_sorted fs \<Longrightarrow> fst e \<notin> fst ` set fs \<Longrightarrow> key_sorted (insert_entry e fs)"
proof (induction fs)
  case (Cons f fs)
  have set: "set (insert_entry e fs) = insert e (set fs)"
    using arg_cong [OF insert_entry_mset [of e fs], of set_mset] by simp
  show ?case
  proof (cases "string_less (fst f) (fst e)")
    case False
    then have "string_less (fst e) (fst f)" using Cons.prems string_less_total by fastforce
    then show ?thesis using Cons.prems False string_less_trans by fastforce
  qed (use Cons set in auto)
qed simp

lemma sort_entries_sorted: "distinct (map fst kvs) \<Longrightarrow> key_sorted (sort_entries kvs)"
proof (induction kvs)
  case (Cons e kvs)
  have "set (sort_entries kvs) = set kvs"
    using arg_cong [OF sort_entries_mset [of kvs], of set_mset] by simp
  with Cons show ?case by (auto simp: sort_entries_def intro: insert_entry_sorted)
qed (simp add: sort_entries_def)

lemma key_sorted_unique: "key_sorted xs \<Longrightarrow> key_sorted ys \<Longrightarrow> set xs = set ys \<Longrightarrow> xs = ys"
proof (induction xs arbitrary: ys)
  case (Cons x xs)
  then obtain y ys' where ys: "ys = y # ys'" by (cases ys) auto
  have "x = y"
  proof (rule ccontr)
    assume "x \<noteq> y"
    with Cons.prems ys have "string_less (fst y) (fst x)" "string_less (fst x) (fst y)" by auto
    then show False using string_less_asym by blast
  qed
  moreover have "x \<notin> set xs" "y \<notin> set ys'" using Cons.prems ys by auto
  then have "set xs = set ys'" using Cons.prems(3) ys \<open>x = y\<close> by auto
  ultimately show ?case using Cons ys by simp
qed simp

lemma sort_entries_perm:
  assumes "distinct (map fst xs)" "mset xs = mset ys"
  shows "sort_entries xs = sort_entries ys"
proof (rule key_sorted_unique)
  have "mset (map fst xs) = mset (map fst ys)" using assms(2) by (simp add: mset_map)
  then have "distinct (map fst ys)" using assms(1) mset_eq_imp_distinct_iff by blast
  then show "key_sorted (sort_entries ys)" by (rule sort_entries_sorted)
  show "set (sort_entries xs) = set (sort_entries ys)"
    using assms(2) sort_entries_mset by (metis set_mset_mset)
qed (rule sort_entries_sorted [OF assms(1)])

subsection \<open>Independence of the order of members\<close>

text \<open>The same value up to the order of the members of its objects.\<close>

inductive same_json :: "json \<Rightarrow> json \<Rightarrow> bool" where
  same: "same_json v v"
| arr: "list_all2 same_json vs ws \<Longrightarrow> same_json (JArr vs) (JArr ws)"
| obj: "list_all2 (rel_prod (=) same_json) kvs lws \<Longrightarrow> mset lws = mset ws \<Longrightarrow>
        same_json (JObj kvs) (JObj ws)"

abbreviation collision :: error where
  "collision \<equiv> ''BUSINESS_EVENT_UNICODE_KEY_COLLISION''"

lemma map_r_error: "map_r f xs = Inl e \<Longrightarrow> \<exists>x \<in> set xs. f x = Inl e"
proof (induction xs)
  case (Cons x xs)
  then show ?case by (cases "f x"; cases "map_r f xs") auto
qed simp

lemma fold_error: "fold_r add_member r ms = Inl e \<Longrightarrow> e = collision \<or> (\<exists>m \<in> set ms. snd m = Inl e)"
proof (induction ms arbitrary: r)
  case (Cons m ms)
  show ?case
  proof (cases "add_member r m")
    case (Inl d)
    then show ?thesis using Cons.prems by (auto simp: add_member_def bind_r_Inl split: if_splits)
  next
    case (Inr t)
    then show ?thesis using Cons by fastforce
  qed
qed simp

lemma normalize_error: "normalizeUnicode nfc v = Inl e \<Longrightarrow> e = collision"
proof (induction v arbitrary: e)
  case (JArr vs)
  then show ?case by (fastforce simp: bind_r_Inl dest: map_r_error)
next
  case (JObj kvs)
  then show ?case by (fastforce simp: bind_r_Inl dest: fold_error)
qed auto

text \<open>The loop in closed form.\<close>

definition proper :: "string \<times> 'a \<Rightarrow> bool" where
  "proper m \<longleftrightarrow> fst m \<noteq> ''__proto__''"

lemma fold_members:
  assumes "\<forall>m \<in> set ms. \<forall>e. snd m = Inl e \<longrightarrow> e = collision" "\<forall>m \<in> set r. proper m" "distinct (map fst r)"
  shows "fold_r add_member r ms =
    (if distinct (map fst (r @ map (\<lambda>m. (fst m, projr (snd m))) (filter proper ms)))
        \<and> (\<forall>m \<in> set ms. is_ok (snd m))
     then Inr (r @ map (\<lambda>m. (fst m, projr (snd m))) (filter proper ms)) else Inl collision)"
  using assms
proof (induction ms arbitrary: r)
  case (Cons m ms)
  show ?case
  proof (cases "snd m")
    case (Inl e)
    with Cons.prems have "e = collision" by auto
    then show ?thesis using Inl by (auto simp: add_member_def)
  next
    case (Inr v)
    show ?thesis
    proof (cases "fst m \<in> fst ` set r")
      case True
      then have "proper m" using Cons.prems(2) by (force simp: proper_def)
      then show ?thesis using True by (auto simp: add_member_def)
    next
      case False
      show ?thesis
      proof (cases "proper m")
        case True
        with False Inr have "add_member r m = Inr (r @ [(fst m, v)])"
          by (simp add: add_member_def proper_def)
        moreover have "\<forall>n \<in> set (r @ [(fst m, v)]). proper n" "distinct (map fst (r @ [(fst m, v)]))"
          using Cons.prems False True by (auto simp: proper_def)
        ultimately show ?thesis
          using Cons.IH [of "r @ [(fst m, v)]"] Cons.prems(1) Inr True
          by (simp del: distinct_append map_append)
      next
        case improper: False
        with False Inr have "add_member r m = Inr r"
          by (simp add: add_member_def proper_def)
        then show ?thesis
          using Cons.IH [of r] Cons.prems Inr improper by (simp del: distinct_append map_append)
      qed
    qed
  qed
qed auto

lemma normalize_members:
  "normalizeUnicode nfc (JObj kvs) =
    (if distinct (filter (\<lambda>k. k \<noteq> ''__proto__'') (map (\<lambda>(k, v). nfc k) kvs))
        \<and> (\<forall>(k, v) \<in> set kvs. is_ok (normalizeUnicode nfc v))
     then Inr (JObj (map (\<lambda>(k, v). (nfc k, projr (normalizeUnicode nfc v)))
                 (filter (\<lambda>(k, v). nfc k \<noteq> ''__proto__'') kvs)))
     else Inl collision)"
proof -
  let ?ms = "map (\<lambda>(k, v). (nfc k, normalizeUnicode nfc v)) kvs"
  have err: "\<forall>m \<in> set ?ms. \<forall>e. snd m = Inl e \<longrightarrow> e = collision"
    by (auto dest: normalize_error)
  have names: "map fst (filter proper ?ms) = filter (\<lambda>k. k \<noteq> ''__proto__'') (map (\<lambda>(k, v). nfc k) kvs)"
    by (induction kvs) (auto simp: proper_def)
  have members: "map (\<lambda>m. (fst m, projr (snd m))) (filter proper ?ms) =
      map (\<lambda>(k, v). (nfc k, projr (normalizeUnicode nfc v))) (filter (\<lambda>(k, v). nfc k \<noteq> ''__proto__'') kvs)"
    by (induction kvs) (auto simp: proper_def)
  have ok: "(\<forall>m \<in> set ?ms. is_ok (snd m)) \<longleftrightarrow> (\<forall>(k, v) \<in> set kvs. is_ok (normalizeUnicode nfc v))"
    by auto
  have fsts: "map fst (map (\<lambda>m. (fst m, projr (snd m))) (filter proper ?ms)) = map fst (filter proper ?ms)"
    by simp
  show ?thesis
    using fold_members [OF err, of "[]"] unfolding append_Nil members [symmetric] names [symmetric] fsts ok
    by simp
qed

lemma map_r_ok: "(\<forall>v \<in> set vs. is_ok v) \<Longrightarrow> map_r id vs = Inr (map projr vs)"
proof (induction vs)
  case (Cons v vs)
  then show ?case by (cases v) auto
qed simp

lemma map_r_fail:
  "\<forall>v \<in> set vs. \<forall>e. v = Inl e \<longrightarrow> e = collision \<Longrightarrow> \<not> (\<forall>v \<in> set vs. is_ok v) \<Longrightarrow> map_r id vs = Inl collision"
proof (induction vs)
  case (Cons v vs)
  then show ?case by (cases v) auto
qed simp

lemma normalize_array:
  "normalizeUnicode nfc (JArr vs) =
    (if \<forall>v \<in> set vs. is_ok (normalizeUnicode nfc v)
     then Inr (JArr (map (\<lambda>v. projr (normalizeUnicode nfc v)) vs)) else Inl collision)"
proof -
  let ?vs = "map (normalizeUnicode nfc) vs"
  have "\<forall>v \<in> set ?vs. \<forall>e. v = Inl e \<longrightarrow> e = collision" by (auto dest: normalize_error)
  then show ?thesis using map_r_ok [of ?vs] map_r_fail [of ?vs] by (auto simp: comp_def)
qed

definition same_text :: "(string \<Rightarrow> string) \<Rightarrow> (rat \<Rightarrow> string) \<Rightarrow> json \<Rightarrow> json \<Rightarrow> bool" where
  "same_text nfc num_string v w \<longleftrightarrow>
     is_ok (normalizeUnicode nfc v) = is_ok (normalizeUnicode nfc w) \<and>
     (is_ok (normalizeUnicode nfc v) \<longrightarrow>
        serialize num_string (projr (normalizeUnicode nfc v)) =
        serialize num_string (projr (normalizeUnicode nfc w)))"

lemma same_text_array:
  assumes "list_all2 (same_text nfc num_string) vs ws"
  shows "same_text nfc num_string (JArr vs) (JArr ws)"
proof -
  have ok: "(\<forall>v \<in> set vs. is_ok (normalizeUnicode nfc v)) \<longleftrightarrow> (\<forall>w \<in> set ws. is_ok (normalizeUnicode nfc w))"
    using assms by (induction rule: list_all2_induct) (auto simp: same_text_def)
  have txts: "\<forall>v \<in> set vs. is_ok (normalizeUnicode nfc v) \<Longrightarrow>
      map (\<lambda>v. serialize num_string (projr (normalizeUnicode nfc v))) vs =
      map (\<lambda>w. serialize num_string (projr (normalizeUnicode nfc w))) ws"
    using assms by (induction rule: list_all2_induct) (auto simp: same_text_def)
  show ?thesis
    unfolding same_text_def normalize_array using ok txts by (auto simp: comp_def)
qed

text \<open>What the text of an object depends on: its normalised keys and the texts of its members.\<close>

definition member_texts ::
  "(string \<Rightarrow> string) \<Rightarrow> (rat \<Rightarrow> string) \<Rightarrow> jobj \<Rightarrow> (string \<times> string) list" where
  "member_texts nfc num_string kvs =
     map (\<lambda>(k, v). (nfc k, serialize num_string (projr (normalizeUnicode nfc v))))
       (filter (\<lambda>(k, v). nfc k \<noteq> ''__proto__'') kvs)"

lemma member_texts_fst:
  "map fst (member_texts nfc num_string kvs) =
     filter (\<lambda>k. k \<noteq> ''__proto__'') (map (\<lambda>(k, v). nfc k) kvs)"
  by (induction kvs) (auto simp: member_texts_def)

lemma object_text:
  "normalizeUnicode nfc (JObj kvs) = Inr w \<Longrightarrow>
     serialize num_string w = CHR 0x7B # join '','' (map (\<lambda>(k, t). json_string k @ '':'' @ t)
        (sort_entries (member_texts nfc num_string kvs))) @ [CHR 0x7D]"
  unfolding normalize_members
  by (auto simp: member_texts_def comp_def case_prod_unfold split: if_splits)

lemma same_text_object:
  assumes "list_all2 (rel_prod (=) (same_text nfc num_string)) kvs lws" "mset lws = mset ws"
  shows "same_text nfc num_string (JObj kvs) (JObj ws)"
proof -
  have ok1: "(\<forall>(k, v) \<in> set kvs. is_ok (normalizeUnicode nfc v)) \<longleftrightarrow>
      (\<forall>(k, v) \<in> set lws. is_ok (normalizeUnicode nfc v))"
    using assms(1) by (induction rule: list_all2_induct) (auto simp: same_text_def)
  have sets: "set lws = set ws" using assms(2) by (metis set_mset_mset)
  have keys1: "map (\<lambda>(k, v). nfc k) kvs = map (\<lambda>(k, v). nfc k) lws"
    using assms(1) by (induction rule: list_all2_induct) auto
  have texts1: "\<forall>(k, v) \<in> set kvs. is_ok (normalizeUnicode nfc v) \<Longrightarrow>
      member_texts nfc num_string kvs = member_texts nfc num_string lws"
    using assms(1) unfolding member_texts_def
    by (induction rule: list_all2_induct) (auto simp: same_text_def)
  have texts2: "mset (member_texts nfc num_string lws) = mset (member_texts nfc num_string ws)"
    unfolding member_texts_def using assms(2) by (simp add: mset_map mset_filter)
  have keys2: "mset (filter (\<lambda>k. k \<noteq> ''__proto__'') (map (\<lambda>(k, v). nfc k) lws)) =
      mset (filter (\<lambda>k. k \<noteq> ''__proto__'') (map (\<lambda>(k, v). nfc k) ws))"
    using assms(2) by (simp add: mset_map mset_filter)
  have dist: "distinct (filter (\<lambda>k. k \<noteq> ''__proto__'') (map (\<lambda>(k, v). nfc k) kvs)) \<longleftrightarrow>
      distinct (filter (\<lambda>k. k \<noteq> ''__proto__'') (map (\<lambda>(k, v). nfc k) ws))"
    unfolding keys1 using keys2 mset_eq_imp_distinct_iff by blast
  have iff: "is_ok (normalizeUnicode nfc (JObj kvs)) = is_ok (normalizeUnicode nfc (JObj ws))"
    unfolding normalize_members using dist ok1 sets by auto
  show ?thesis
    unfolding same_text_def
  proof (intro conjI impI)
    assume "is_ok (normalizeUnicode nfc (JObj kvs))"
    then obtain x y where x: "normalizeUnicode nfc (JObj kvs) = Inr x"
      and y: "normalizeUnicode nfc (JObj ws) = Inr y"
      using iff by (auto simp: is_ok_iff)
    from x have "\<forall>(k, v) \<in> set kvs. is_ok (normalizeUnicode nfc v)"
      and d: "distinct (map fst (member_texts nfc num_string kvs))"
      unfolding normalize_members member_texts_fst by (auto split: if_splits)
    then have "sort_entries (member_texts nfc num_string kvs) = sort_entries (member_texts nfc num_string ws)"
      using texts1 texts2 by (intro sort_entries_perm) auto
    then show "serialize num_string (projr (normalizeUnicode nfc (JObj kvs))) =
        serialize num_string (projr (normalizeUnicode nfc (JObj ws)))"
      using object_text [OF x] object_text [OF y] by (simp only: x y sum.sel)
  qed (rule iff)
qed

text \<open>
  The canonical text, and with it every hash over it, does not depend on the order in which the
  members of the objects of a value were written, at any depth, errors included.
\<close>

theorem canonical_order_free:
  assumes "same_json v w"
  shows "canonicalJson nfc num_string v = canonicalJson nfc num_string w"
proof -
  from assms have "same_text nfc num_string v w"
  proof (induction rule: same_json.induct)
    case (arr vs ws)
    then have "list_all2 (same_text nfc num_string) vs ws" by (auto elim: list.rel_mono_strong)
    then show ?case by (rule same_text_array)
  next
    case (obj kvs lws ws)
    then have "list_all2 (rel_prod (=) (same_text nfc num_string)) kvs lws"
      by (auto elim!: list.rel_mono_strong prod.rel_mono_strong)
    then show ?case using obj.hyps by (rule same_text_object)
  qed (simp add: same_text_def)
  then show ?thesis
    unfolding same_text_def canonicalJson_def
    by (cases "normalizeUnicode nfc v"; cases "normalizeUnicode nfc w") (auto dest: normalize_error)
qed

theorem canonical_order_free_witness:
  "canonicalJson (\<lambda>s. s) (\<lambda>_. ''2'') (JObj [(''a'', JNull), (''b'', JObj [(''x'', JNull), (''y'', JNum 2)])])
   = canonicalJson (\<lambda>s. s) (\<lambda>_. ''2'') (JObj [(''b'', JObj [(''y'', JNum 2), (''x'', JNull)]), (''a'', JNull)])"
proof (rule canonical_order_free)
  have inner: "same_json (JObj [(''x'', JNull), (''y'', JNum 2)]) (JObj [(''y'', JNum 2), (''x'', JNull)])"
    by (rule same_json.obj [of _ "[(''x'', JNull), (''y'', JNum 2)]"])
      (auto simp: same_json.same add_mset_commute)
  show "same_json (JObj [(''a'', JNull), (''b'', JObj [(''x'', JNull), (''y'', JNum 2)])])
      (JObj [(''b'', JObj [(''y'', JNum 2), (''x'', JNull)]), (''a'', JNull)])"
    by (rule same_json.obj [of _ "[(''a'', JNull), (''b'', JObj [(''y'', JNum 2), (''x'', JNull)])]"])
      (auto simp: same_json.same inner add_mset_commute)
qed

text \<open>
  C21. A member named \<open>__proto__\<close> has no part in the canonical text: a value with it and the value
  without it cannot be told apart by their hash (as long as the member itself is acceptable).
\<close>

theorem proto_member_unhashed:
  assumes "nfc ''__proto__'' = ''__proto__''" and "is_ok (normalizeUnicode nfc x)"
  shows "canonicalJson nfc num_string (JObj (kvs @ (''__proto__'', x) # tail)) =
         canonicalJson nfc num_string (JObj (kvs @ tail))"
proof -
  have "normalizeUnicode nfc (JObj (kvs @ (''__proto__'', x) # tail)) =
        normalizeUnicode nfc (JObj (kvs @ tail))"
    unfolding normalize_members using assms by auto
  then show ?thesis by (simp only: canonicalJson_def)
qed

theorem proto_member_unhashed_witness:
  "canonicalJson (\<lambda>s. s) (\<lambda>_. ''7'') (JObj [(''__proto__'', JObj [(''role'', JStr ''admin'')]), (''n'', JNum 7)])
   = canonicalJson (\<lambda>s. s) (\<lambda>_. ''7'') (JObj [(''n'', JNum 7)])"
proof -
  have "is_ok (normalizeUnicode (\<lambda>s. s) (JObj [(''role'', JStr ''admin'')]))" by code_simp
  from proto_member_unhashed [OF _ this, of "\<lambda>_. ''7''" "[]"] show ?thesis by simp
qed

end
