(* ===== verification/Protocol.thy ===== *)
theory Protocol
  imports JsTime "HOL-Library.Multiset"
begin

text \<open>
  packages/adapter-protocol/src: struct.ts (JSON to protobuf Struct and back), identity.ts (the
  identity a snapshot or an acknowledgement must carry) and business-events.ts (sequence numbers,
  canonical JSON). Unicode normalisation and the printing of numbers are the parameters \<open>nfc\<close> and
  \<open>num_string\<close>.
\<close>

subsection \<open>struct.ts\<close>

datatype proto_value =
    NullValue
  | NumberValue rat
  | StringValue string
  | BoolValue bool
  | ListValue "proto_value list"
  | StructValue "(string \<times> proto_value) list"

type_synonym proto_struct = "(string \<times> proto_value) list"

text \<open>Every value of the type \<open>json\<close> has a Struct value, so nothing is thrown on them.\<close>

fun jsonToProtoValue :: "json \<Rightarrow> proto_value" where
  "jsonToProtoValue JNull = NullValue"
| "jsonToProtoValue (JNum n) = NumberValue n"
| "jsonToProtoValue (JStr s) = StringValue s"
| "jsonToProtoValue (JBool b) = BoolValue b"
| "jsonToProtoValue (JArr vs) = ListValue (map jsonToProtoValue vs)"
| "jsonToProtoValue (JObj kvs) = StructValue (map (\<lambda>(k, v). (k, jsonToProtoValue v)) kvs)"

fun protoValueToJson :: "proto_value \<Rightarrow> json" where
  "protoValueToJson NullValue = JNull"
| "protoValueToJson (NumberValue n) = JNum n"
| "protoValueToJson (StringValue s) = JStr s"
| "protoValueToJson (BoolValue b) = JBool b"
| "protoValueToJson (ListValue vs) = JArr (map protoValueToJson vs)"
| "protoValueToJson (StructValue fs) = JObj (map (\<lambda>(k, v). (k, protoValueToJson v)) fs)"

definition jsonToProtoStruct :: "jobj \<Rightarrow> proto_struct" where
  "jsonToProtoStruct value = map (\<lambda>(k, v). (k, jsonToProtoValue v)) value"

definition protoStructToJson :: "proto_struct \<Rightarrow> jobj" where
  "protoStructToJson flds = map (\<lambda>(k, v). (k, protoValueToJson v)) flds"

lemma proto_json: "protoValueToJson (jsonToProtoValue v) = v"
proof (induction v)
  case (JArr vs)
  then show ?case by (simp add: map_idI)
next
  case (JObj kvs)
  then show ?case by (auto intro!: map_idI)
qed simp_all

lemma json_proto: "jsonToProtoValue (protoValueToJson p) = p"
proof (induction p)
  case (ListValue vs)
  then show ?case by (simp add: map_idI)
next
  case (StructValue fs)
  then show ?case by (auto intro!: map_idI)
qed simp_all

text \<open>
  Nothing is lost on the wire: encoding a JSON object as a protobuf Struct and decoding it gives
  the object back, with the order of its members, and conversely every Struct is the encoding of
  the object it decodes to.
\<close>

theorem struct_roundtrip:
  "protoStructToJson (jsonToProtoStruct value) = value
   \<and> jsonToProtoStruct (protoStructToJson flds) = flds"
  by (auto simp: jsonToProtoStruct_def protoStructToJson_def proto_json json_proto intro!: map_idI)

subsection \<open>identity.ts\<close>

record adapter_context =
  cx_authorizationContextHash :: string
  cx_executionMode :: string
  cx_simulationId :: "string option"

record expected_identity =
  xi_taskId :: string
  xi_externalExecutionId :: "string option"
  xi_operationName :: string
  xi_argumentHash :: string
  xi_authorizationContextHash :: string
  xi_executionMode :: string
  xi_simulationId :: "string option"

record execution_identity =
  ei_taskId :: string
  ei_externalExecutionId :: string
  ei_operationName :: string
  ei_argumentHash :: string
  ei_executionContext :: "adapter_context option"

definition upper_char :: "char \<Rightarrow> char" where
  "upper_char c =
     (let n = (of_char c :: nat) in if 97 \<le> n \<and> n \<le> 122 then (char_of (n - 32) :: char) else c)"

definition normalizeMode :: "string \<Rightarrow> string" where
  "normalizeMode value = map (\<lambda>c. upper_char (if c = CHR ''-'' then CHR ''_'' else c)) value"

definition matchesContext :: "adapter_context option \<Rightarrow> expected_identity \<Rightarrow> bool" where
  "matchesContext actual expected \<longleftrightarrow>
     (case actual of
        None \<Rightarrow> False
      | Some a \<Rightarrow>
          cx_authorizationContextHash a = xi_authorizationContextHash expected \<and>
          normalizeMode (cx_executionMode a) = normalizeMode (xi_executionMode expected) \<and>
          (if cx_simulationId a = Some [] then None else cx_simulationId a) = xi_simulationId expected)"

definition matchesIdentity :: "execution_identity \<Rightarrow> expected_identity \<Rightarrow> bool" where
  "matchesIdentity actual expected \<longleftrightarrow>
     \<not> (ei_taskId actual \<noteq> xi_taskId expected \<or>
        length (ei_externalExecutionId actual) = 0 \<or>
        (xi_externalExecutionId expected \<noteq> None \<and>
         xi_externalExecutionId expected \<noteq> Some (ei_externalExecutionId actual)) \<or>
        ei_operationName actual \<noteq> xi_operationName expected \<or>
        ei_argumentHash actual \<noteq> xi_argumentHash expected \<or>
        \<not> matchesContext (ei_executionContext actual) expected)"

definition validateAdapterSnapshotIdentity :: "execution_identity \<Rightarrow> expected_identity \<Rightarrow> unit result" where
  "validateAdapterSnapshotIdentity snapshot expected =
     throw_if (\<not> matchesIdentity snapshot expected) ''ADAPTER_SNAPSHOT_IDENTITY_MISMATCH''"

text \<open>
  An acknowledgement carries a command sequence of its own and one inside its identity, both
  already read by \<open>Number\<close>; \<open>None\<close> is \<open>NaN\<close>.
\<close>

record command_ack =
  ca_commandSequence :: "int option"
  ca_identity :: "(execution_identity \<times> int option) option"

definition validateCommandAckIdentity :: "command_ack \<Rightarrow> expected_identity \<Rightarrow> int \<Rightarrow> unit result" where
  "validateCommandAckIdentity ack expected commandSequence =
     throw_if
       (ca_commandSequence ack \<noteq> Some commandSequence \<or>
        (case ca_identity ack of
           None \<Rightarrow> True
         | Some (identity, sequence) \<Rightarrow>
             sequence \<noteq> Some commandSequence \<or> \<not> matchesIdentity identity expected))
       ''ADAPTER_COMMAND_ACK_IDENTITY_MISMATCH''"

subsection \<open>business-events.ts: sequence numbers\<close>

definition MAX_SIGNED_BIGINT_SEQUENCE :: int where
  "MAX_SIGNED_BIGINT_SEQUENCE = 9223372036854775807"

text \<open>\<open>BigInt(string)\<close>: white space around it is dropped, the empty string is zero, a decimal
  numeral may have a sign, a hexadecimal, octal or binary one may not.\<close>

definition radix_digit :: "int \<Rightarrow> char \<Rightarrow> int option" where
  "radix_digit radix c =
     (let n = (of_char c :: int);
          d = (if 48 \<le> n \<and> n \<le> 57 then n - 48
               else if 97 \<le> n \<and> n \<le> 102 then n - 87
               else if 65 \<le> n \<and> n \<le> 70 then n - 55
               else 16)
      in if d < radix then Some d else None)"

fun radix_value :: "int \<Rightarrow> int \<Rightarrow> string \<Rightarrow> int option" where
  "radix_value radix acc [] = Some acc"
| "radix_value radix acc (c # cs) =
     (case radix_digit radix c of None \<Rightarrow> None | Some d \<Rightarrow> radix_value radix (acc * radix + d) cs)"

definition numeral_value :: "int \<Rightarrow> string \<Rightarrow> int option" where
  "numeral_value radix s = (if s = [] then None else radix_value radix 0 s)"

definition BigInt :: "string \<Rightarrow> int option" where
  "BigInt value =
     (let s = trim value
      in if s = [] then Some 0
         else if take 2 s \<in> set [''0x'', ''0X''] then numeral_value 16 (drop 2 s)
         else if take 2 s \<in> set [''0o'', ''0O''] then numeral_value 8 (drop 2 s)
         else if take 2 s \<in> set [''0b'', ''0B''] then numeral_value 2 (drop 2 s)
         else if hd s = CHR ''-'' then map_option uminus (numeral_value 10 (tl s))
         else if hd s = CHR ''+'' then numeral_value 10 (tl s)
         else numeral_value 10 s)"

text \<open>\<open>/^[1-9][0-9]{0,18}$/\<close>\<close>

definition positive_numeral :: "string \<Rightarrow> bool" where
  "positive_numeral s \<longleftrightarrow>
     (case s of [] \<Rightarrow> False
      | c # r \<Rightarrow> is_digit c \<and> c \<noteq> CHR ''0'' \<and> length r \<le> 18 \<and> list_all is_digit r)"

text \<open>
  The condition of the source reads \<open>!(allowZero ? /regex/ : /regex/.test(value))\<close>: with
  \<open>allowZero\<close> it negates a regular expression object, which is never falsy, so nothing is tested.
\<close>

definition parseBusinessEventSequence :: "string \<Rightarrow> bool \<Rightarrow> int result" where
  "parseBusinessEventSequence value allowZero =
     (if \<not> (if allowZero then True else positive_numeral value)
      then Inl ''BUSINESS_EVENT_SEQUENCE_INVALID''
      else
        (case BigInt value of
           None \<Rightarrow> Inl ''SyntaxError''
         | Some parsed \<Rightarrow>
             if parsed > MAX_SIGNED_BIGINT_SEQUENCE then Inl ''BUSINESS_EVENT_SEQUENCE_INVALID''
             else Inr parsed))"

lemma digit_range: "digit_val c = Some d \<Longrightarrow> 0 \<le> d \<and> d \<le> 9"
  by (auto simp: digit_val_def Let_def split: if_splits)

lemma radix_digit_decimal: "is_digit c \<Longrightarrow> radix_digit 10 c = digit_val c"
  by (auto simp: is_digit_def digit_val_def radix_digit_def Let_def split: if_splits)

lemma radix_value_decimal:
  "list_all is_digit s \<Longrightarrow> \<exists>v. radix_value 10 acc s = Some v \<and> (0 \<le> acc \<longrightarrow> acc \<le> v)"
proof (induction s arbitrary: acc)
  case (Cons c s)
  then obtain d where d: "digit_val c = Some d" by (auto simp: is_digit_def)
  from Cons obtain v where "radix_value 10 (acc * 10 + d) s = Some v"
    "0 \<le> acc * 10 + d \<longrightarrow> acc * 10 + d \<le> v" by (auto simp: is_digit_def d)
  with d digit_range [OF d] Cons.prems show ?case
    by (auto simp: radix_digit_decimal)
qed simp

lemma digit_no_space: "is_digit c \<Longrightarrow> \<not> is_space c"
  by (auto simp: is_space_def is_digit_def digit_val_def Let_def split: if_splits)

lemma trim_digits: "list_all is_digit s \<Longrightarrow> trim s = s"
proof -
  assume s: "list_all is_digit s"
  have "dropWhile is_space t = t" if "list_all is_digit t" for t
    using that by (cases t) (auto simp: digit_no_space)
  then show ?thesis using s by (simp add: trim_def)
qed

lemma digit_char_not: "is_digit c \<Longrightarrow> c \<notin> set ''xXoObB-+''"
  by (auto simp: is_digit_def digit_val_def)

lemma BigInt_decimal:
  assumes "list_all is_digit s" "s \<noteq> []" shows "BigInt s = radix_value 10 0 s"
proof -
  obtain c r where s: "s = c # r" using assms(2) by (cases s) auto
  have "take 2 s \<noteq> [c1, c2]" if "c2 \<in> set ''xXoObB''" for c1 c2
    using assms(1) s that digit_char_not by (cases r) fastforce+
  moreover have "c \<noteq> CHR ''-''" "c \<noteq> CHR ''+''"
    using assms(1) s digit_char_not [of c] by auto
  ultimately show ?thesis
    using s trim_digits [OF assms(1)] by (simp add: BigInt_def Let_def numeral_value_def)
qed

text \<open>
  C39. Without \<open>allowZero\<close> a business event sequence is a plain positive decimal that fits a signed
  64-bit integer. With \<open>allowZero\<close> the pattern is never applied: whatever \<open>BigInt\<close> reads up to the
  maximum is accepted, negative numbers, the empty string and hexadecimal numerals included.
\<close>

theorem sequence_parsed:
  "(parseBusinessEventSequence value False = Inr n \<longrightarrow>
      positive_numeral value \<and> 1 \<le> n \<and> n \<le> MAX_SIGNED_BIGINT_SEQUENCE)
   \<and> (parseBusinessEventSequence value True = Inr n \<longleftrightarrow>
      BigInt value = Some n \<and> n \<le> MAX_SIGNED_BIGINT_SEQUENCE)"
proof
  show "parseBusinessEventSequence value True = Inr n \<longleftrightarrow>
      BigInt value = Some n \<and> n \<le> MAX_SIGNED_BIGINT_SEQUENCE"
    by (auto simp: parseBusinessEventSequence_def split: option.splits)
  show "parseBusinessEventSequence value False = Inr n \<longrightarrow>
      positive_numeral value \<and> 1 \<le> n \<and> n \<le> MAX_SIGNED_BIGINT_SEQUENCE"
  proof
    assume "parseBusinessEventSequence value False = Inr n"
    then have n: "positive_numeral value" "BigInt value = Some n" "n \<le> MAX_SIGNED_BIGINT_SEQUENCE"
      by (auto simp: parseBusinessEventSequence_def split: option.splits if_splits)
    then obtain c r where v: "value = c # r" "is_digit c" "c \<noteq> CHR ''0''" "list_all is_digit r"
      by (auto simp: positive_numeral_def split: list.splits)
    then obtain d where d: "digit_val c = Some d" by (auto simp: is_digit_def)
    have "d \<noteq> 0"
    proof
      assume "d = 0"
      with d have "(of_char c :: int) = of_char CHR ''0''"
        by (auto simp: digit_val_def Let_def split: if_splits)
      then have "c = CHR ''0''" by (simp only: of_char_eq_iff)
      with v(3) show False by simp
    qed
    with digit_range [OF d] have "1 \<le> d" by simp
    moreover have "radix_value 10 d r = Some n"
      using n(2) v d BigInt_decimal [of "value"] by (simp add: radix_digit_decimal)
    ultimately have "1 \<le> n" using radix_value_decimal [OF v(4), of d] by auto
    with n show "positive_numeral value \<and> 1 \<le> n \<and> n \<le> MAX_SIGNED_BIGINT_SEQUENCE" by simp
  qed
qed

theorem sequence_parsed_witness:
  "parseBusinessEventSequence ''-5'' True = Inr (-5) \<and> parseBusinessEventSequence [] True = Inr 0
   \<and> parseBusinessEventSequence ''0x1f'' True = Inr 31"
proof -
  have "BigInt ''-5'' = Some (-5)" "BigInt [] = Some 0" "BigInt ''0x1f'' = Some 31" by code_simp+
  then show ?thesis
    using sequence_parsed [of "''-5''" "-5"] sequence_parsed [of "[]" 0]
      sequence_parsed [of "''0x1f''" 31]
    by (simp add: MAX_SIGNED_BIGINT_SEQUENCE_def)
qed

end
