(* ===== verification/Journal.thy ===== *)
theory Journal
  imports JsTime Interfaces Protocol
begin

text \<open>
  packages/provider-adapter-kit/src: mutation-journal.ts (the journal of physical dispatches),
  types.ts and memory-store.ts (executions, command acknowledgements, the journal, tool calls,
  snapshots, business events). A promise that resolves is \<open>Inr\<close>, one that rejects \<open>Inl\<close>;
  \<open>structuredClone\<close> is the identity on values. Timestamps of four-digit years are modelled.
\<close>

subsection \<open>types.ts\<close>

datatype execution_state =
    ACCEPTED | STARTING | RUNNING | PAUSED | RESUMING | WAITING_INPUT | STOPPING | SUCCEEDED
  | BUSINESS_FAILED | CANCELLED | TECHNICAL_FAILED

definition TERMINAL_EXECUTION_STATES :: "execution_state list" where
  "TERMINAL_EXECUTION_STATES = [SUCCEEDED, BUSINESS_FAILED, CANCELLED, TECHNICAL_FAILED]"

text \<open>The store reads the identity and the state of an execution; the other fields are kept in
  \<open>ex_fields\<close>.\<close>

record execution =
  ex_taskId :: string
  ex_externalExecutionId :: string
  ex_operationName :: string
  ex_argumentHash :: string
  ex_state :: execution_state
  ex_revision :: int
  ex_fields :: jobj

record ack =
  ak_taskId :: string
  ak_command :: string
  ak_commandSequence :: string
  ak_response :: jobj
  ak_createdAt :: string

datatype journal_phase = PRIMARY | FOLLOWUP | PAUSE | RESUME | CANCEL | EMERGENCY_STOP | CLEANUP

datatype journal_state = INTENT_PERSISTED | DISPATCHING | Accepted | Rejected | Uncertain

record journal_entry =
  je_taskId :: string
  je_stepId :: string
  je_phase :: journal_phase
  je_toolName :: string
  je_argumentHash :: string
  je_state :: journal_state
  je_externalMissionId :: "string option"
  je_resultHash :: "string option"
  je_intentPersistedAt :: string
  je_dispatchedAt :: "string option"
  je_completedAt :: "string option"

record tool_call =
  tc_callId :: string
  tc_taskId :: "string option"
  tc_toolName :: string
  tc_argumentHash :: string
  tc_outcome :: string
  tc_durationMs :: int
  tc_occurredAt :: string

record snapshot_record =
  sr_sourceSessionKey :: "string option"
  sr_channel :: "string option"
  sr_revision :: string
  sr_observedAt :: string
  sr_snapshot :: jobj

subsection \<open>mutation-journal.ts\<close>

text \<open>\<open>/^[A-Za-z0-9._:-]{1,256}$/\<close> and \<open>/^[a-f0-9]{64}$/\<close>.\<close>

definition ident_char :: "char \<Rightarrow> bool" where
  "ident_char c \<longleftrightarrow>
     (let n = (of_char c :: int)
      in (48 \<le> n \<and> n \<le> 57) \<or> (65 \<le> n \<and> n \<le> 90) \<or> (97 \<le> n \<and> n \<le> 122) \<or> c \<in> set ''._:-'')"

definition IDENTIFIER :: "string \<Rightarrow> bool" where
  "IDENTIFIER s \<longleftrightarrow> bounded 256 s \<and> list_all ident_char s"

definition SHA256 :: "string \<Rightarrow> bool" where
  "SHA256 s \<longleftrightarrow> length s = 64 \<and> list_all (\<lambda>c. is_digit c \<or> c \<in> set ''abcdef'') s"

fun TRANSITIONS :: "journal_state \<Rightarrow> journal_state list" where
  "TRANSITIONS INTENT_PERSISTED = [DISPATCHING]"
| "TRANSITIONS DISPATCHING = [Accepted, Rejected, Uncertain]"
| "TRANSITIONS Accepted = []"
| "TRANSITIONS Rejected = []"
| "TRANSITIONS Uncertain = []"

definition timestamp :: "string \<Rightarrow> string \<Rightarrow> int result" where
  "timestamp v field =
     (case date_parse v of
        None \<Rightarrow> Inl (''MUTATION_JOURNAL_'' @ field @ ''_INVALID'')
      | Some parsed \<Rightarrow>
          if toISOString parsed \<noteq> v then Inl (''MUTATION_JOURNAL_'' @ field @ ''_INVALID'')
          else Inr parsed)"

definition optionalTimestamp :: "string option \<Rightarrow> string \<Rightarrow> int option result" where
  "optionalTimestamp v field =
     (case v of None \<Rightarrow> Inr None | Some t \<Rightarrow> bind_r (timestamp t field) (\<lambda>p. Inr (Some p)))"

definition check_times :: "journal_state \<Rightarrow> int \<Rightarrow> int option \<Rightarrow> int option \<Rightarrow> unit result" where
  "check_times state intentAt dispatchedAt completedAt =
     (if (case dispatchedAt of None \<Rightarrow> False | Some d \<Rightarrow> d < intentAt)
      then Inl ''MUTATION_JOURNAL_TIMESTAMP_ORDER_INVALID''
      else if (case completedAt of None \<Rightarrow> False
               | Some c \<Rightarrow> (case dispatchedAt of None \<Rightarrow> True | Some d \<Rightarrow> c < d))
      then Inl ''MUTATION_JOURNAL_TIMESTAMP_ORDER_INVALID''
      else if state = INTENT_PERSISTED \<and> (dispatchedAt \<noteq> None \<or> completedAt \<noteq> None)
      then Inl ''MUTATION_JOURNAL_INTENT_TIMESTAMPS_INVALID''
      else if state = DISPATCHING \<and> (dispatchedAt = None \<or> completedAt \<noteq> None)
      then Inl ''MUTATION_JOURNAL_DISPATCH_TIMESTAMPS_INVALID''
      else if state \<in> {Accepted, Rejected, Uncertain} \<and> (dispatchedAt = None \<or> completedAt = None)
      then Inl ''MUTATION_JOURNAL_COMPLETION_TIMESTAMPS_INVALID''
      else Inr ())"

definition assertMutationJournalEntry :: "journal_entry \<Rightarrow> unit result" where
  "assertMutationJournalEntry e =
     (if \<not> IDENTIFIER (je_taskId e) then Inl ''MUTATION_JOURNAL_TASK_ID_INVALID''
      else if \<not> IDENTIFIER (je_stepId e) then Inl ''MUTATION_JOURNAL_STEP_ID_INVALID''
      else if \<not> IDENTIFIER (je_toolName e) then Inl ''MUTATION_JOURNAL_TOOL_NAME_INVALID''
      else if \<not> SHA256 (je_argumentHash e) then Inl ''MUTATION_JOURNAL_ARGUMENT_HASH_INVALID''
      else if (case je_resultHash e of None \<Rightarrow> False | Some h \<Rightarrow> \<not> SHA256 h)
      then Inl ''MUTATION_JOURNAL_RESULT_HASH_INVALID''
      else if (case je_externalMissionId e of None \<Rightarrow> False | Some m \<Rightarrow> length m = 0 \<or> length m > 256)
      then Inl ''MUTATION_JOURNAL_EXTERNAL_MISSION_ID_INVALID''
      else
        bind_r (timestamp (je_intentPersistedAt e) ''INTENT_PERSISTED_AT'') (\<lambda>intentAt.
        bind_r (optionalTimestamp (je_dispatchedAt e) ''DISPATCHED_AT'') (\<lambda>dispatchedAt.
        bind_r (optionalTimestamp (je_completedAt e) ''COMPLETED_AT'') (\<lambda>completedAt.
          check_times (je_state e) intentAt dispatchedAt completedAt))))"

definition sameMutationJournalIdentity :: "journal_entry \<Rightarrow> journal_entry \<Rightarrow> bool" where
  "sameMutationJournalIdentity l r \<longleftrightarrow>
     je_taskId l = je_taskId r \<and> je_stepId l = je_stepId r \<and> je_phase l = je_phase r \<and>
     je_toolName l = je_toolName r \<and> je_argumentHash l = je_argumentHash r \<and>
     je_intentPersistedAt l = je_intentPersistedAt r"

definition assertMutationJournalTransition ::
  "journal_entry \<Rightarrow> journal_entry \<Rightarrow> journal_state \<Rightarrow> unit result" where
  "assertMutationJournalTransition current next expectedState =
     bind_r (assertMutationJournalEntry current) (\<lambda>_.
     bind_r (assertMutationJournalEntry next) (\<lambda>_.
       if je_state current \<noteq> expectedState then Inl ''MUTATION_JOURNAL_EXPECTED_STATE_MISMATCH''
       else if \<not> sameMutationJournalIdentity current next
       then Inl ''MUTATION_JOURNAL_IDENTITY_CONFLICT''
       else if je_state next \<notin> set (TRANSITIONS (je_state current))
       then Inl ''MUTATION_JOURNAL_STATE_TRANSITION_INVALID''
       else Inr ()))"

subsection \<open>sources.ts\<close>

definition BUSINESS_EVENT_SOURCE_STREAMS :: "(string \<times> string) list" where
  "BUSINESS_EVENT_SOURCE_STREAMS =
     [(''vehicle.execution'', ''018f0d4e-7b3a-7cc1-8d57-2f4d9e2a1001''),
      (''vehicle.health'', ''018f0d4e-7b3a-7cc1-8d57-2f4d9e2a1002''),
      (''vehicle.target'', ''018f0d4e-7b3a-7cc1-8d57-2f4d9e2a1003''),
      (''vehicle.business'', ''018f0d4e-7b3a-7cc1-8d57-2f4d9e2a1004'')]"

record source_capability =
  so_sourceId :: string
  so_sourceStreamId :: string
  so_deliverySemantics :: string
  so_replaySupported :: bool
  so_sourceRetentionMs :: string
  so_maxEventBytes :: string
  so_maxPayloadDepth :: int
  so_maxPayloadNodes :: int
  so_maxPayloadStringBytes :: string

definition source_of :: "string \<Rightarrow> string \<Rightarrow> bool \<Rightarrow> string \<Rightarrow> source_capability" where
  "source_of sourceId semantics replaySupported retention =
     \<lparr>so_sourceId = sourceId,
      so_sourceStreamId = the (map_of BUSINESS_EVENT_SOURCE_STREAMS sourceId),
      so_deliverySemantics = semantics, so_replaySupported = replaySupported,
      so_sourceRetentionMs = retention, so_maxEventBytes = ''65536'', so_maxPayloadDepth = 16,
      so_maxPayloadNodes = 4096, so_maxPayloadStringBytes = ''16384''\<rparr>"

definition businessEventSourceCapabilities :: "bool \<Rightarrow> source_capability list" where
  "businessEventSourceCapabilities includeTaskBusiness =
     [source_of ''vehicle.execution'' ''durable_at_least_once'' True ''604800000'',
      source_of ''vehicle.health'' ''durable_at_least_once'' True ''604800000'',
      source_of ''vehicle.target'' ''best_effort_live'' False ''0''] @
     (if includeTaskBusiness
      then [source_of ''vehicle.business'' ''durable_at_least_once'' True ''604800000''] else [])"

subsection \<open>memory-store.ts: state and keys\<close>

record event_draft =
  dr_sourceId :: string
  dr_scope :: string
  dr_occurredAt :: string
  dr_eventType :: string
  dr_description :: string
  dr_reasonCode :: string
  dr_externalExecutionId :: "string option"
  dr_resourceRef :: "string option"
  dr_severityHint :: string
  dr_rawPayload :: jobj
  dr_retainUntil :: string

text \<open>
  An appended event. The decimal strings \<open>sourceSequence\<close> and \<open>seconds\<close> are kept as numbers;
  \<open>None\<close> is the text and the number \<open>NaN\<close>.
\<close>

record business_event =
  ev_sourceEventId :: string
  ev_sourceSequence :: int
  ev_sourceStreamId :: string
  ev_scope :: string
  ev_occurredAt :: "(int \<times> int) option"
  ev_eventType :: string
  ev_description :: string
  ev_externalExecutionId :: "string option"
  ev_resourceRef :: "string option"
  ev_severityHint :: string
  ev_reasonCode :: string
  ev_rawPayload :: proto_struct

record provider_store =
  ps_executions :: "(string, execution) jsmap"
  ps_acks :: "(string, ack) jsmap"
  ps_mutationJournal :: "(string, journal_entry) jsmap"
  ps_events :: "(string, business_event list) jsmap"
  ps_toolCalls :: "tool_call list"
  ps_snapshots :: "snapshot_record list"

definition empty_store :: provider_store where
  "empty_store =
     \<lparr>ps_executions = [], ps_acks = [], ps_mutationJournal = [], ps_events = [],
      ps_toolCalls = [], ps_snapshots = []\<rparr>"

definition ack_key :: "ack \<Rightarrow> string" where
  "ack_key a = ak_taskId a @ CHR 0x00 # ak_command a @ CHR 0x00 # ak_commandSequence a"

definition journalKey :: "string \<Rightarrow> string \<Rightarrow> string" where
  "journalKey taskId stepId = taskId @ CHR 0x00 # stepId"

definition entry_key :: "journal_entry \<Rightarrow> string" where
  "entry_key e = journalKey (je_taskId e) (je_stepId e)"

subsection \<open>memory-store.ts: operations\<close>

definition getExecution :: "provider_store \<Rightarrow> string \<Rightarrow> execution option" where
  "getExecution s taskId = js_get (ps_executions s) taskId"

definition listActiveExecutions :: "provider_store \<Rightarrow> execution list" where
  "listActiveExecutions s =
     filter (\<lambda>x. ex_state x \<notin> set TERMINAL_EXECUTION_STATES) (js_values (ps_executions s))"

definition putExecution :: "provider_store \<Rightarrow> execution \<Rightarrow> provider_store result" where
  "putExecution s x =
     (if (case js_get (ps_executions s) (ex_taskId x) of
            None \<Rightarrow> False
          | Some e \<Rightarrow> ex_externalExecutionId e \<noteq> ex_externalExecutionId x \<or>
                      ex_argumentHash e \<noteq> ex_argumentHash x \<or>
                      ex_operationName e \<noteq> ex_operationName x)
      then Inl ''TASK_IDENTITY_CONFLICT''
      else Inr (s\<lparr>ps_executions := js_set (ex_taskId x) x (ps_executions s)\<rparr>))"

definition claimCommandAck :: "provider_store \<Rightarrow> ack \<Rightarrow> provider_store \<times> bool \<times> ack" where
  "claimCommandAck s a =
     (case js_get (ps_acks s) (ack_key a) of
        Some e \<Rightarrow> (s, False, e)
      | None \<Rightarrow> (s\<lparr>ps_acks := js_set (ack_key a) a (ps_acks s)\<rparr>, True, a))"

definition completeCommandAck ::
  "provider_store \<Rightarrow> ack \<Rightarrow> string option \<Rightarrow> (provider_store \<times> bool) result" where
  "completeCommandAck s a expectedReasonCode =
     (case js_get (ps_acks s) (ack_key a) of
        None \<Rightarrow> Inl ''COMMAND_ACK_CLAIM_REQUIRED''
      | Some e \<Rightarrow>
          if (case expectedReasonCode of None \<Rightarrow> False
              | Some r \<Rightarrow> map_of (ak_response e) ''reasonCode'' \<noteq> Some (JStr r))
          then Inr (s, False)
          else Inr (s\<lparr>ps_acks := js_set (ack_key a) a (ps_acks s)\<rparr>, True))"

definition putCommandAck :: "provider_store \<Rightarrow> ack \<Rightarrow> provider_store" where
  "putCommandAck s a = s\<lparr>ps_acks := js_set (ack_key a) a (ps_acks s)\<rparr>"

definition getMutationJournalEntry :: "provider_store \<Rightarrow> string \<Rightarrow> string \<Rightarrow> journal_entry option" where
  "getMutationJournalEntry s taskId stepId = js_get (ps_mutationJournal s) (journalKey taskId stepId)"

definition claimMutationJournal ::
  "provider_store \<Rightarrow> journal_entry \<Rightarrow> (provider_store \<times> bool \<times> journal_entry) result" where
  "claimMutationJournal s entry =
     bind_r (assertMutationJournalEntry entry) (\<lambda>_.
       if je_state entry \<noteq> INTENT_PERSISTED then Inl ''MUTATION_JOURNAL_INTENT_STATE_REQUIRED''
       else if \<not> js_has (ps_executions s) (je_taskId entry)
       then Inl ''MUTATION_JOURNAL_EXECUTION_REQUIRED''
       else
         (case js_get (ps_mutationJournal s) (entry_key entry) of
            Some existing \<Rightarrow>
              if \<not> sameMutationJournalIdentity existing entry
              then Inl ''MUTATION_JOURNAL_IDENTITY_CONFLICT''
              else Inr (s, False, existing)
          | None \<Rightarrow>
              Inr (s\<lparr>ps_mutationJournal := js_set (entry_key entry) entry (ps_mutationJournal s)\<rparr>,
                   True, entry)))"

definition advanceMutationJournal ::
  "provider_store \<Rightarrow> journal_entry \<Rightarrow> journal_state \<Rightarrow> (provider_store \<times> bool) result" where
  "advanceMutationJournal s entry expectedState =
     (case js_get (ps_mutationJournal s) (entry_key entry) of
        None \<Rightarrow> Inl ''MUTATION_JOURNAL_INTENT_REQUIRED''
      | Some existing \<Rightarrow>
          if \<not> sameMutationJournalIdentity existing entry
          then Inl ''MUTATION_JOURNAL_IDENTITY_CONFLICT''
          else if je_state existing \<noteq> expectedState then Inr (s, False)
          else
            bind_r (assertMutationJournalTransition existing entry expectedState) (\<lambda>_.
              Inr (s\<lparr>ps_mutationJournal := js_set (entry_key entry) entry (ps_mutationJournal s)\<rparr>,
                   True)))"

definition appendDeviceToolCall :: "provider_store \<Rightarrow> tool_call \<Rightarrow> provider_store" where
  "appendDeviceToolCall s r = s\<lparr>ps_toolCalls := ps_toolCalls s @ [r]\<rparr>"

definition putSnapshot :: "provider_store \<Rightarrow> snapshot_record \<Rightarrow> provider_store" where
  "putSnapshot s r =
     (if list_ex (\<lambda>x. sr_revision x = sr_revision r) (ps_snapshots s) then s
      else s\<lparr>ps_snapshots := ps_snapshots s @ [r]\<rparr>)"

text \<open>\<open>%\<close> of JavaScript takes the sign of the dividend.\<close>

definition js_rem :: "int \<Rightarrow> int \<Rightarrow> int" where
  "js_rem a b = (if a < 0 then - ((- a) mod b) else a mod b)"

definition event_timestamp :: "string \<Rightarrow> (int \<times> int) option" where
  "event_timestamp v =
     (case date_parse v of
        None \<Rightarrow> None
      | Some milliseconds \<Rightarrow> Some (milliseconds div 1000, js_rem milliseconds 1000 * 1000000))"

definition events_of :: "provider_store \<Rightarrow> string \<Rightarrow> business_event list" where
  "events_of s sourceId = (case js_get (ps_events s) sourceId of None \<Rightarrow> [] | Some es \<Rightarrow> es)"

text \<open>\<open>event_id\<close> is the digest of source, sequence and a fresh random identifier.\<close>

definition appendBusinessEvent ::
  "(string \<Rightarrow> int \<Rightarrow> string) \<Rightarrow> provider_store \<Rightarrow> event_draft \<Rightarrow> (provider_store \<times> business_event) result"
where
  "appendBusinessEvent event_id s draft =
     (case find (\<lambda>x. so_sourceId x = dr_sourceId draft) (businessEventSourceCapabilities False) of
        None \<Rightarrow> Inl ''SOURCE_NOT_FOUND''
      | Some source \<Rightarrow>
          (let events = events_of s (dr_sourceId draft);
               sequence = int (length events) + 1;
               event =
                 \<lparr>ev_sourceEventId = event_id (dr_sourceId draft) sequence,
                  ev_sourceSequence = sequence, ev_sourceStreamId = so_sourceStreamId source,
                  ev_scope = dr_scope draft, ev_occurredAt = event_timestamp (dr_occurredAt draft),
                  ev_eventType = dr_eventType draft, ev_description = dr_description draft,
                  ev_externalExecutionId =
                    (if dr_scope draft \<noteq> ''task'' then None else dr_externalExecutionId draft),
                  ev_resourceRef =
                    (if dr_scope draft \<noteq> ''resource'' then None else dr_resourceRef draft),
                  ev_severityHint = dr_severityHint draft, ev_reasonCode = dr_reasonCode draft,
                  ev_rawPayload = jsonToProtoStruct (dr_rawPayload draft)\<rparr>
           in Inr (s\<lparr>ps_events := js_set (dr_sourceId draft) (events @ [event]) (ps_events s)\<rparr>, event)))"

definition replayBusinessEvents ::
  "provider_store \<Rightarrow> string \<Rightarrow> string \<Rightarrow> int \<Rightarrow> business_event list result" where
  "replayBusinessEvents s sourceId sourceStreamId afterSourceSequence =
     (case find (\<lambda>x. so_sourceId x = sourceId) (businessEventSourceCapabilities False) of
        None \<Rightarrow> Inl ''SOURCE_NOT_FOUND''
      | Some source \<Rightarrow>
          if so_sourceStreamId source \<noteq> sourceStreamId then Inl ''SOURCE_STREAM_RESET''
          else if afterSourceSequence > int (length (events_of s sourceId))
          then Inl ''SOURCE_CURSOR_AHEAD''
          else Inr (filter (\<lambda>x. ev_sourceSequence x > afterSourceSequence) (events_of s sourceId)))"

subsection \<open>Runs of the store\<close>

text \<open>The mutating operations, each with the digest function of its call; the flag says whether a
  claim was won or an entry was replaced.\<close>

datatype store_op =
    PutExecution execution
  | ClaimAck ack
  | CompleteAck ack "string option"
  | PutAck ack
  | ClaimJournal journal_entry
  | AdvanceJournal journal_entry journal_state
  | AppendCall tool_call
  | PutSnapshot snapshot_record
  | AppendEvent "string \<Rightarrow> int \<Rightarrow> string" event_draft

definition claimJournal_step :: "provider_store \<Rightarrow> journal_entry \<Rightarrow> (provider_store \<times> bool) result" where
  "claimJournal_step s e = bind_r (claimMutationJournal s e) (\<lambda>(s', b, _). Inr (s', b))"

definition claimAck_step :: "provider_store \<Rightarrow> ack \<Rightarrow> (provider_store \<times> bool) result" where
  "claimAck_step s a = (case claimCommandAck s a of (s', b, _) \<Rightarrow> Inr (s', b))"

text \<open>The step that moves an entry to \<open>DISPATCHING\<close>, whatever state its caller expects.\<close>

definition dispatch_step ::
  "provider_store \<Rightarrow> journal_entry \<times> journal_state \<Rightarrow> (provider_store \<times> bool) result" where
  "dispatch_step s p =
     (if je_state (fst p) = DISPATCHING then advanceMutationJournal s (fst p) (snd p)
      else Inl ''NOT_A_DISPATCH'')"

fun store_step :: "provider_store \<Rightarrow> store_op \<Rightarrow> (provider_store \<times> bool) result" where
  "store_step s (PutExecution x) = bind_r (putExecution s x) (\<lambda>s'. Inr (s', True))"
| "store_step s (ClaimAck a) = claimAck_step s a"
| "store_step s (CompleteAck a r) = completeCommandAck s a r"
| "store_step s (PutAck a) = Inr (putCommandAck s a, True)"
| "store_step s (ClaimJournal e) = claimJournal_step s e"
| "store_step s (AdvanceJournal e st) = advanceMutationJournal s e st"
| "store_step s (AppendCall r) = Inr (appendDeviceToolCall s r, True)"
| "store_step s (PutSnapshot r) = Inr (putSnapshot s r, True)"
| "store_step s (AppendEvent h d) = bind_r (appendBusinessEvent h s d) (\<lambda>(s', _). Inr (s', True))"

definition store_rest :: "provider_store \<Rightarrow> store_op \<Rightarrow> provider_store result" where
  "store_rest s x = bind_r (store_step s x) (\<lambda>p. Inr (fst p))"

lemma store_rest_Inr: "store_rest s x = Inr s' \<longleftrightarrow> (\<exists>b. store_step s x = Inr (s', b))"
  by (auto simp: store_rest_def bind_r_Inr)

lemmas store_defs = putExecution_def claimAck_step_def claimCommandAck_def completeCommandAck_def
  putCommandAck_def claimJournal_step_def claimMutationJournal_def advanceMutationJournal_def
  appendDeviceToolCall_def putSnapshot_def appendBusinessEvent_def

text \<open>Effects of one operation on acknowledgements and journal.\<close>

lemma claimJournal_step_Inr:
  "claimJournal_step s e = Inr (s', b) \<longleftrightarrow>
     assertMutationJournalEntry e = Inr () \<and> je_state e = INTENT_PERSISTED \<and>
     js_has (ps_executions s) (je_taskId e) \<and>
     (case js_get (ps_mutationJournal s) (entry_key e) of
        None \<Rightarrow> b \<and> s' = s\<lparr>ps_mutationJournal := js_set (entry_key e) e (ps_mutationJournal s)\<rparr>
      | Some existing \<Rightarrow> \<not> b \<and> s' = s \<and> sameMutationJournalIdentity existing e)"
  by (auto simp: claimJournal_step_def claimMutationJournal_def bind_r_Inr split: option.splits)

lemma transition_Inr:
  "assertMutationJournalTransition p n x = Inr u \<longleftrightarrow>
     assertMutationJournalEntry p = Inr () \<and> assertMutationJournalEntry n = Inr () \<and>
     je_state p = x \<and> sameMutationJournalIdentity p n \<and> je_state n \<in> set (TRANSITIONS (je_state p))"
  by (auto simp: assertMutationJournalTransition_def bind_r_Inr)

lemma advance_Inr:
  "advanceMutationJournal s e x = Inr (s', b) \<longleftrightarrow>
     (\<exists>existing. js_get (ps_mutationJournal s) (entry_key e) = Some existing \<and>
        sameMutationJournalIdentity existing e \<and>
        (if je_state existing = x
         then b \<and> assertMutationJournalTransition existing e x = Inr () \<and>
              s' = s\<lparr>ps_mutationJournal := js_set (entry_key e) e (ps_mutationJournal s)\<rparr>
         else \<not> b \<and> s' = s))"
  by (auto simp: advanceMutationJournal_def bind_r_Inr split: option.splits)

lemma store_step_acks:
  "store_step s x = Inr (s', b) \<Longrightarrow> js_get (ps_acks s) k \<noteq> None \<Longrightarrow> js_get (ps_acks s') k \<noteq> None"
  by (cases x) (auto simp: store_defs bind_r_Inr Let_def split: option.splits if_splits)

lemma store_step_journal:
  assumes "store_step s x = Inr (s', b)" "js_get (ps_mutationJournal s) k = Some e"
  shows "\<exists>e'. js_get (ps_mutationJournal s') k = Some e' \<and>
    (e' = e \<or> sameMutationJournalIdentity e e' \<and> je_state e' \<in> set (TRANSITIONS (je_state e)))"
proof (cases x)
  case (ClaimJournal c)
  with assms show ?thesis by (auto simp: claimJournal_step_Inr split: option.splits)
next
  case (AdvanceJournal n y)
  with assms show ?thesis by (fastforce simp: advance_Inr transition_Inr split: if_splits)
qed (use assms in \<open>auto simp: store_defs bind_r_Inr Let_def split: option.splits if_splits\<close>)

text \<open>An entry that has left \<open>INTENT_PERSISTED\<close>: its dispatch has begun.\<close>

definition dispatched :: "provider_store \<Rightarrow> string \<Rightarrow> journal_entry option" where
  "dispatched s k =
     (case js_get (ps_mutationJournal s) k of
        None \<Rightarrow> None
      | Some e \<Rightarrow> if je_state e = INTENT_PERSISTED then None else Some e)"

lemma TRANSITIONS_forward: "INTENT_PERSISTED \<notin> set (TRANSITIONS st)"
  by (cases st) auto

lemma dispatched_keeps:
  "store_step s x = Inr (s', b) \<Longrightarrow> dispatched s k \<noteq> None \<Longrightarrow> dispatched s' k \<noteq> None"
  using store_step_journal [of s x s' b k] TRANSITIONS_forward
  by (fastforce simp: dispatched_def split: option.splits if_splits)

interpretation acks: claim_ledger "\<lambda>s k. js_get (ps_acks s) k" ack_key claimAck_step store_rest
proof unfold_locales
  show "store_rest s x = Inr s' \<Longrightarrow> js_get (ps_acks s) k \<noteq> None \<Longrightarrow> js_get (ps_acks s') k \<noteq> None"
    for s x s' k using store_step_acks by (auto simp: store_rest_Inr)
qed (auto simp: claimAck_step_def claimCommandAck_def split: option.splits)

interpretation journal: claim_ledger "\<lambda>s k. js_get (ps_mutationJournal s) k" entry_key
  claimJournal_step store_rest
proof unfold_locales
  show "store_rest s x = Inr s' \<Longrightarrow> js_get (ps_mutationJournal s) k \<noteq> None \<Longrightarrow>
      js_get (ps_mutationJournal s') k \<noteq> None" for s x s' k
    using store_step_journal by (fastforce simp: store_rest_Inr)
qed (auto simp: claimJournal_step_Inr split: option.splits)

lemma only_intent_dispatches: "DISPATCHING \<in> set (TRANSITIONS st) \<longleftrightarrow> st = INTENT_PERSISTED"
  by (cases st) auto

interpretation dispatch: claim_ledger dispatched "\<lambda>p. entry_key (fst p)" dispatch_step store_rest
proof unfold_locales
  show "store_rest s x = Inr s' \<Longrightarrow> dispatched s k \<noteq> None \<Longrightarrow> dispatched s' k \<noteq> None" for s x s' k
    using dispatched_keeps by (auto simp: store_rest_Inr)
qed (auto simp: dispatch_step_def advance_Inr transition_Inr dispatched_def only_intent_dispatches
    split: option.splits if_splits)

subsection \<open>Properties\<close>

definition is_ClaimAck :: "store_op \<Rightarrow> bool" where
  "is_ClaimAck x = (case x of ClaimAck _ \<Rightarrow> True | _ \<Rightarrow> False)"

definition is_ClaimJournal :: "store_op \<Rightarrow> bool" where
  "is_ClaimJournal x = (case x of ClaimJournal _ \<Rightarrow> True | _ \<Rightarrow> False)"

definition is_Dispatch :: "store_op \<Rightarrow> bool" where
  "is_Dispatch x = (case x of AdvanceJournal e _ \<Rightarrow> je_state e = DISPATCHING | _ \<Rightarrow> False)"

definition op_ack :: "store_op \<Rightarrow> ack" where
  "op_ack x = (case x of ClaimAck a \<Rightarrow> a)"

definition op_advance :: "store_op \<Rightarrow> journal_entry \<times> journal_state" where
  "op_advance x = (case x of AdvanceJournal e y \<Rightarrow> (e, y))"

definition op_entry :: "store_op \<Rightarrow> journal_entry" where
  "op_entry x = (case x of ClaimJournal e \<Rightarrow> e | AdvanceJournal e _ \<Rightarrow> e)"

text \<open>
  At most one physical dispatch per step. In every interleaving of the store's operations each
  journal step is claimed by at most one caller and is moved to \<open>DISPATCHING\<close> at most once, and
  each command acknowledgement is claimed by at most one caller: all other claims and dispatches
  of the same key either fail or report that nothing was claimed.
\<close>

theorem dispatched_at_most_once:
  "distinct (map (\<lambda>x. entry_key (op_entry x)) (filter is_ClaimJournal (effective store_step s xs)))
   \<and> distinct (map (\<lambda>x. entry_key (op_entry x)) (filter is_Dispatch (effective store_step s xs)))
   \<and> distinct (map (\<lambda>x. ack_key (op_ack x)) (filter is_ClaimAck (effective store_step s xs)))"
proof (intro conjI)
  show "distinct (map (\<lambda>x. entry_key (op_entry x)) (filter is_ClaimJournal (effective store_step s xs)))"
    by (rule journal.component_claims_once)
      (auto simp: is_ClaimJournal_def op_entry_def store_rest_def split: store_op.splits)
  have "distinct (map (\<lambda>x. entry_key (fst (op_advance x)))
      (filter is_Dispatch (effective store_step s xs)))"
    by (rule dispatch.component_claims_once)
      (auto simp: is_Dispatch_def op_advance_def store_rest_def dispatch_step_def
        split: store_op.splits)
  moreover have "map (\<lambda>x. entry_key (fst (op_advance x))) (filter is_Dispatch ys) =
      map (\<lambda>x. entry_key (op_entry x)) (filter is_Dispatch ys)" for ys
    by (auto simp: is_Dispatch_def op_advance_def op_entry_def split: store_op.splits)
  ultimately show "distinct (map (\<lambda>x. entry_key (op_entry x))
      (filter is_Dispatch (effective store_step s xs)))" by simp
  show "distinct (map (\<lambda>x. ack_key (op_ack x)) (filter is_ClaimAck (effective store_step s xs)))"
    by (rule acks.component_claims_once)
      (auto simp: is_ClaimAck_def op_ack_def store_rest_def split: store_op.splits)
qed

text \<open>Two valid steps share a key only if they are the same step.\<close>

lemma nul_not_ident: "\<not> ident_char (CHR 0x00)"
  by (simp add: ident_char_def)

lemma split_nul:
  "CHR 0x00 \<notin> set a \<Longrightarrow> CHR 0x00 \<notin> set c \<Longrightarrow> a @ CHR 0x00 # b = c @ CHR 0x00 # d \<longleftrightarrow> a = c \<and> b = d"
proof (induction a arbitrary: c)
  case Nil
  then show ?case by (cases c) auto
next
  case (Cons x a)
  then show ?case by (cases c) auto
qed

lemma entry_key_inj:
  assumes "assertMutationJournalEntry e = Inr ()" "assertMutationJournalEntry f = Inr ()"
  shows "entry_key e = entry_key f \<longleftrightarrow> je_taskId e = je_taskId f \<and> je_stepId e = je_stepId f"
proof -
  have "CHR 0x00 \<notin> set (je_taskId g)" if "assertMutationJournalEntry g = Inr ()" for g
    using that nul_not_ident
    by (auto simp: assertMutationJournalEntry_def IDENTIFIER_def list_all_iff split: if_splits)
  with assms show ?thesis by (auto simp: entry_key_def journalKey_def split_nul)
qed

definition journal_ok :: "provider_store \<Rightarrow> bool" where
  "journal_ok s \<longleftrightarrow>
     (\<forall>k e. js_get (ps_mutationJournal s) k = Some e \<longrightarrow>
        entry_key e = k \<and> assertMutationJournalEntry e = Inr () \<and>
        js_has (ps_executions s) (je_taskId e)) \<and>
     (\<forall>k x. js_get (ps_executions s) k = Some x \<longrightarrow> ex_taskId x = k)"

lemma journal_okD:
  "journal_ok s \<Longrightarrow> js_get (ps_mutationJournal s) k = Some e \<Longrightarrow>
     entry_key e = k \<and> assertMutationJournalEntry e = Inr () \<and> js_has (ps_executions s) (je_taskId e)"
  by (simp add: journal_ok_def)

lemma journal_ok_empty: "journal_ok empty_store"
  by (simp add: journal_ok_def empty_store_def)

lemma same_identity_fields:
  "sameMutationJournalIdentity p n \<Longrightarrow> je_taskId n = je_taskId p \<and> entry_key n = entry_key p"
  by (auto simp: sameMutationJournalIdentity_def entry_key_def)

lemma store_step_frame:
  assumes "store_step s x = Inr (s', b)"
    and "\<And>e. x \<noteq> ClaimJournal e" "\<And>e y. x \<noteq> AdvanceJournal e y" "\<And>e. x \<noteq> PutExecution e"
  shows "ps_mutationJournal s' = ps_mutationJournal s \<and> ps_executions s' = ps_executions s"
  using assms
  by (cases x) (auto simp: store_defs bind_r_Inr Let_def split: option.splits if_splits)

lemma claim_ok: "claimJournal_step s e = Inr (s', b) \<Longrightarrow> journal_ok s \<Longrightarrow> journal_ok s'"
  unfolding journal_ok_def
  by (auto simp: claimJournal_step_Inr split: option.splits if_splits)

lemma advance_ok:
  assumes "advanceMutationJournal s e y = Inr (s', b)" "journal_ok s"
  shows "journal_ok s'"
proof (cases b)
  case True
  with assms(1) obtain existing where existing:
    "js_get (ps_mutationJournal s) (entry_key e) = Some existing"
    "sameMutationJournalIdentity existing e" "assertMutationJournalEntry e = Inr ()"
    "s' = s\<lparr>ps_mutationJournal := js_set (entry_key e) e (ps_mutationJournal s)\<rparr>"
    unfolding advance_Inr transition_Inr by (metis (no_types, lifting))
  then have "js_has (ps_executions s) (je_taskId e)"
    using journal_okD [OF assms(2) existing(1)] same_identity_fields [OF existing(2)] by metis
  with existing(3,4) assms(2) show ?thesis unfolding journal_ok_def by simp
next
  case False
  with assms show ?thesis by (auto simp: advance_Inr split: if_splits)
qed

lemma put_ok: "putExecution s x = Inr s' \<Longrightarrow> journal_ok s \<Longrightarrow> journal_ok s'"
  unfolding journal_ok_def
  by (auto simp: putExecution_def split: if_splits)

lemma store_step_ok: "store_step s x = Inr (s', b) \<Longrightarrow> journal_ok s \<Longrightarrow> journal_ok s'"
proof (cases "(\<exists>e. x = ClaimJournal e) \<or> (\<exists>e y. x = AdvanceJournal e y) \<or> (\<exists>e. x = PutExecution e)")
  case True
  assume "store_step s x = Inr (s', b)" "journal_ok s"
  with True show ?thesis by (auto simp: bind_r_Inr intro: claim_ok advance_ok put_ok)
next
  case False
  assume "store_step s x = Inr (s', b)" "journal_ok s"
  moreover from this(1) False
  have "ps_mutationJournal s' = ps_mutationJournal s \<and> ps_executions s' = ps_executions s"
    by (intro store_step_frame [of s x s' b]) auto
  ultimately show ?thesis by (simp add: journal_ok_def)
qed

lemma store_run_ok: "journal_ok s \<Longrightarrow> journal_ok (after store_step s xs)"
proof (induction xs arbitrary: s)
  case (Cons x xs)
  show ?case
  proof (cases "store_step s x")
    case (Inr p)
    then obtain s' b where "store_step s x = Inr (s', b)" by (cases p) simp
    then show ?thesis using Cons store_step_ok by simp
  qed (use Cons in simp)
qed simp

text \<open>The states an entry can still reach.\<close>

definition reachable :: "journal_state \<Rightarrow> journal_state set" where
  "reachable st = {st} \<union> set (TRANSITIONS st) \<union> (\<Union>t \<in> set (TRANSITIONS st). set (TRANSITIONS t))"

lemma reachable_trans: "t \<in> set (TRANSITIONS st) \<Longrightarrow> reachable t \<subseteq> reachable st"
  by (cases st) (auto simp: reachable_def)

lemma same_identity_trans:
  "sameMutationJournalIdentity a b \<Longrightarrow> sameMutationJournalIdentity b c \<Longrightarrow> sameMutationJournalIdentity a c"
  by (simp add: sameMutationJournalIdentity_def)

lemma journal_history:
  "js_get (ps_mutationJournal s) k = Some e \<Longrightarrow>
     \<exists>e'. js_get (ps_mutationJournal (after store_step s xs)) k = Some e' \<and>
          sameMutationJournalIdentity e e' \<and> je_state e' \<in> reachable (je_state e) \<and>
          (TRANSITIONS (je_state e) = [] \<longrightarrow> e' = e)"
proof (induction xs arbitrary: s e)
  case Nil
  then show ?case by (simp add: sameMutationJournalIdentity_def reachable_def)
next
  case (Cons x xs)
  show ?case
  proof (cases "store_step s x")
    case (Inr p)
    then obtain s' b where p: "store_step s x = Inr (s', b)" by (cases p) simp
    from store_step_journal [OF p Cons.prems] obtain f where
      f: "js_get (ps_mutationJournal s') k = Some f"
        "f = e \<or> sameMutationJournalIdentity e f \<and> je_state f \<in> set (TRANSITIONS (je_state e))" by blast
    from Cons.IH [OF f(1)] obtain e' where
      e': "js_get (ps_mutationJournal (after store_step s' xs)) k = Some e'"
        "sameMutationJournalIdentity f e'" "je_state e' \<in> reachable (je_state f)"
        "TRANSITIONS (je_state f) = [] \<longrightarrow> e' = f" by blast
    from f(2) show ?thesis
    proof
      assume "f = e"
      with e' p show ?thesis by auto
    next
      assume "sameMutationJournalIdentity e f \<and> je_state f \<in> set (TRANSITIONS (je_state e))"
      then show ?thesis
        using e' p reachable_trans same_identity_trans by (intro exI [of _ e']) fastforce
    qed
  qed (use Cons in simp)
qed

text \<open>
  The journal of physical dispatches is well formed and only moves forward. After any run of the
  store from the empty one, every entry is a valid entry under its own key, of an execution that
  exists; whatever happens next its identity never changes, its state only advances
  (\<open>INTENT_PERSISTED\<close>, \<open>DISPATCHING\<close>, then one final verdict), and a verdict is never altered.
\<close>

theorem journal_only_advances:
  assumes "js_get (ps_mutationJournal (after store_step empty_store xs)) k = Some e"
  shows "k = entry_key e \<and> assertMutationJournalEntry e = Inr ()
    \<and> getExecution (after store_step empty_store xs) (je_taskId e) \<noteq> None
    \<and> (\<exists>e'. js_get (ps_mutationJournal (after store_step empty_store (xs @ ys))) k = Some e'
         \<and> sameMutationJournalIdentity e e' \<and> je_state e' \<in> reachable (je_state e)
         \<and> (je_state e \<in> {Accepted, Rejected, Uncertain} \<longrightarrow> e' = e))"
proof -
  have append: "after store_step s (xs @ ys) = after store_step (after store_step s xs) ys" for s
    by (induction xs arbitrary: s) (auto split: sum.splits)
  have "journal_ok (after store_step empty_store xs)"
    by (rule store_run_ok [OF journal_ok_empty])
  moreover have "TRANSITIONS (je_state e) = []" if "je_state e \<in> {Accepted, Rejected, Uncertain}"
    using that by auto
  ultimately show ?thesis
    using assms journal_history [OF assms, of ys] unfolding append
    by (fastforce simp: journal_ok_def getExecution_def js_has_def)
qed

text \<open>A step claimed, dispatched and accepted.\<close>

definition sample_execution :: execution where
  "sample_execution =
     \<lparr>ex_taskId = ''t1'', ex_externalExecutionId = ''x1'', ex_operationName = ''vehicle_navigate'',
      ex_argumentHash = ''h'', ex_state = RUNNING, ex_revision = 1, ex_fields = []\<rparr>"

definition sample_entry :: journal_entry where
  "sample_entry =
     \<lparr>je_taskId = ''t1'', je_stepId = ''primary'', je_phase = PRIMARY, je_toolName = ''navigate'',
      je_argumentHash = replicate 64 CHR ''a'', je_state = INTENT_PERSISTED,
      je_externalMissionId = None, je_resultHash = None,
      je_intentPersistedAt = ''2026-09-08T12:30:15.250Z'', je_dispatchedAt = None,
      je_completedAt = None\<rparr>"

definition sample_dispatching :: journal_entry where
  "sample_dispatching =
     sample_entry\<lparr>je_state := DISPATCHING, je_dispatchedAt := Some ''2026-09-08T12:30:15.300Z''\<rparr>"

definition sample_accepted :: journal_entry where
  "sample_accepted =
     sample_dispatching\<lparr>je_state := Accepted, je_completedAt := Some ''2026-09-08T12:30:16.000Z''\<rparr>"

definition sample_store_ops :: "store_op list" where
  "sample_store_ops =
     [PutExecution sample_execution, ClaimJournal sample_entry,
      AdvanceJournal sample_dispatching INTENT_PERSISTED]"

lemma sample_run:
  "js_get (ps_mutationJournal (after store_step empty_store sample_store_ops)) (entry_key sample_entry)
     = Some sample_dispatching"
  by code_simp

theorem journal_only_advances_witness:
  "assertMutationJournalEntry sample_dispatching = Inr ()
   \<and> getExecution (after store_step empty_store sample_store_ops) ''t1'' \<noteq> None"
proof -
  have "je_taskId sample_dispatching = ''t1''" by code_simp
  with journal_only_advances [OF sample_run] show ?thesis by simp
qed

subsection \<open>Replay of business events\<close>

definition numbered :: "business_event list \<Rightarrow> bool" where
  "numbered es \<longleftrightarrow> map ev_sourceSequence es = map (\<lambda>i. int i + 1) [0..<length es]"

definition events_ok :: "provider_store \<Rightarrow> bool" where
  "events_ok s \<longleftrightarrow> (\<forall>sourceId. numbered (events_of s sourceId))"

lemma numbered_snoc: "numbered es \<Longrightarrow> ev_sourceSequence e = int (length es) + 1 \<Longrightarrow> numbered (es @ [e])"
  by (simp add: numbered_def)

lemma append_event:
  assumes "appendBusinessEvent h s d = Inr (s', e)"
  shows "ev_sourceSequence e = int (length (events_of s (dr_sourceId d))) + 1
    \<and> events_of s' sourceId =
        (if sourceId = dr_sourceId d then events_of s sourceId @ [e] else events_of s sourceId)"
  using assms by (auto simp: appendBusinessEvent_def Let_def events_of_def split: option.splits)

lemma other_steps_events:
  assumes "store_step s x = Inr (s', b)" "\<And>h d. x \<noteq> AppendEvent h d"
  shows "ps_events s' = ps_events s"
  using assms by (cases x) (auto simp: store_defs bind_r_Inr Let_def split: option.splits if_splits)

lemma store_step_events:
  assumes "store_step s x = Inr (s', b)"
  shows "(\<exists>es. events_of s' sourceId = events_of s sourceId @ es) \<and> (events_ok s \<longrightarrow> events_ok s')"
proof (cases "\<exists>h d. x = AppendEvent h d")
  case True
  then obtain h d where x: "x = AppendEvent h d" by blast
  with assms obtain e where a: "appendBusinessEvent h s d = Inr (s', e)" by (auto simp: bind_r_Inr)
  from append_event [OF a] show ?thesis by (auto simp: events_ok_def numbered_snoc)
next
  case False
  then have "ps_events s' = ps_events s" by (intro other_steps_events [OF assms]) auto
  then show ?thesis by (simp add: events_of_def events_ok_def)
qed

lemma store_run_events:
  "(\<exists>es. events_of (after store_step s xs) sourceId = events_of s sourceId @ es)
   \<and> (events_ok s \<longrightarrow> events_ok (after store_step s xs))"
proof (induction xs arbitrary: s)
  case (Cons x xs)
  show ?case
  proof (cases "store_step s x")
    case (Inr p)
    then obtain s' b where p: "store_step s x = Inr (s', b)" by (cases p) simp
    from store_step_events [OF p, of sourceId] Cons.IH [of s'] p show ?thesis by auto
  qed (use Cons in simp)
qed simp

lemma numbered_suffix:
  "numbered es \<Longrightarrow> filter (\<lambda>x. ev_sourceSequence x > k) es = drop (nat k) es"
proof (induction es rule: rev_induct)
  case (snoc e es)
  then have "numbered es" "ev_sourceSequence e = int (length es) + 1"
    by (auto simp: numbered_def)
  with snoc show ?case by auto
qed simp

lemma find_source:
  "so \<in> set (businessEventSourceCapabilities False) \<Longrightarrow>
     find (\<lambda>x. so_sourceId x = so_sourceId so) (businessEventSourceCapabilities False) = Some so"
proof -
  have "list_all (\<lambda>so. find (\<lambda>x. so_sourceId x = so_sourceId so) (businessEventSourceCapabilities False) = Some so)
      (businessEventSourceCapabilities False)" by code_simp
  then show "so \<in> set (businessEventSourceCapabilities False) \<Longrightarrow> ?thesis" by (simp add: list_all_iff)
qed

text \<open>
  Replay is complete and exact. In every state the store can reach, replaying a source after
  sequence \<open>k\<close> gives precisely the events appended after the first \<open>k\<close>, in order, numbered
  consecutively from 1; a cursor past the end is an error; and no event that was appended is ever
  lost or renumbered by what happens later.
\<close>

theorem replay_is_suffix:
  assumes "so \<in> set (businessEventSourceCapabilities False)" and "s = after store_step empty_store xs"
  shows "replayBusinessEvents s (so_sourceId so) (so_sourceStreamId so) k =
      (if k > int (length (events_of s (so_sourceId so))) then Inl ''SOURCE_CURSOR_AHEAD''
       else Inr (drop (nat k) (events_of s (so_sourceId so))))
    \<and> map ev_sourceSequence (events_of s (so_sourceId so)) =
        map (\<lambda>i. int i + 1) [0..<length (events_of s (so_sourceId so))]
    \<and> prefix (events_of s (so_sourceId so)) (events_of (after store_step s ys) (so_sourceId so))"
proof -
  have "events_ok empty_store" by (simp add: events_ok_def empty_store_def events_of_def numbered_def)
  then have "numbered (events_of s (so_sourceId so))"
    using store_run_events [of empty_store xs] assms(2) by (simp add: events_ok_def)
  moreover obtain es where
    "events_of (after store_step s ys) (so_sourceId so) = events_of s (so_sourceId so) @ es"
    using store_run_events by blast
  ultimately show ?thesis
    using find_source [OF assms(1)]
    by (auto simp: replayBusinessEvents_def numbered_suffix numbered_def)
qed

definition sample_draft :: event_draft where
  "sample_draft =
     \<lparr>dr_sourceId = ''vehicle.health'', dr_scope = ''resource'',
      dr_occurredAt = ''2026-09-08T12:30:15.250Z'', dr_eventType = ''health'', dr_description = ''ok'',
      dr_reasonCode = ''OK'', dr_externalExecutionId = Some ''x'', dr_resourceRef = Some ''ugv-1'',
      dr_severityHint = ''info'', dr_rawPayload = [], dr_retainUntil = []\<rparr>"

theorem replay_is_suffix_witness:
  "\<exists>e. replayBusinessEvents
     (after store_step empty_store [AppendEvent (\<lambda>_ _. ''id1'') sample_draft,
        AppendEvent (\<lambda>_ _. ''id2'') sample_draft])
     ''vehicle.health'' ''018f0d4e-7b3a-7cc1-8d57-2f4d9e2a1002'' 1 = Inr [e] \<and> ev_sourceEventId e = ''id2''"
proof -
  let ?xs = "[AppendEvent (\<lambda>_ _. ''id1'') sample_draft, AppendEvent (\<lambda>_ _. ''id2'') sample_draft]"
  let ?so = "source_of ''vehicle.health'' ''durable_at_least_once'' True ''604800000''"
  have so: "?so \<in> set (businessEventSourceCapabilities False)"
    by (simp add: businessEventSourceCapabilities_def)
  have ids: "so_sourceId ?so = ''vehicle.health''"
    "so_sourceStreamId ?so = ''018f0d4e-7b3a-7cc1-8d57-2f4d9e2a1002''" by code_simp+
  define s where "s = after store_step empty_store ?xs"
  have len: "length (events_of s ''vehicle.health'') = 2"
    "map ev_sourceEventId (drop 1 (events_of s ''vehicle.health'')) = [''id2'']"
    unfolding s_def by code_simp+
  then obtain e where e: "drop 1 (events_of s ''vehicle.health'') = [e]" "ev_sourceEventId e = ''id2''"
    by auto
  from replay_is_suffix [OF so s_def, of 1 "[]"] len(1) e(1)
  have "replayBusinessEvents s ''vehicle.health'' ''018f0d4e-7b3a-7cc1-8d57-2f4d9e2a1002'' 1 = Inr [e]"
    unfolding ids by simp
  with e(2) show ?thesis unfolding s_def by blast
qed

text \<open>
  An event that happened before the epoch and not on a full second gets a negative number of
  nanoseconds, which no protobuf timestamp has.
\<close>

lemma event_timestamp_parts:
  assumes "date_parse v = Some ms"
  shows "\<exists>sec nanos. event_timestamp v = Some (sec, nanos) \<and>
    (0 \<le> ms \<longrightarrow> 0 \<le> nanos \<and> nanos < 1000000000 \<and> sec * 1000000000 + nanos = ms * 1000000) \<and>
    (ms < 0 \<and> ms mod 1000 \<noteq> 0 \<longrightarrow> nanos < 0)"
proof -
  define d m where "d = ms div 1000" and "m = ms mod 1000"
  have ms: "ms = 1000 * d + m" "0 \<le> m" "m < 1000" unfolding d_def m_def by simp_all
  have neg: "(- ms) mod 1000 > 0" if "m \<noteq> 0" using that ms(2,3)
    by (simp add: zmod_zminus1_eq_if m_def [symmetric])
  show ?thesis
  proof (intro exI conjI)
    show "event_timestamp v = Some (d, js_rem ms 1000 * 1000000)"
      using assms by (simp add: event_timestamp_def d_def)
    show "0 \<le> ms \<longrightarrow> 0 \<le> js_rem ms 1000 * 1000000 \<and> js_rem ms 1000 * 1000000 < 1000000000 \<and>
        d * 1000000000 + js_rem ms 1000 * 1000000 = ms * 1000000"
      using ms by (simp add: js_rem_def m_def [symmetric])
    show "ms < 0 \<and> ms mod 1000 \<noteq> 0 \<longrightarrow> js_rem ms 1000 * 1000000 < 0"
      using neg by (simp add: js_rem_def m_def [symmetric])
  qed
qed

end
