(* ===== verification/Diagnostics.thy ===== *)
theory Diagnostics
  imports Journal
begin

text \<open>
  packages/provider-adapter-kit/src/diagnostics.ts (diagnostic control requests) and the
  diagnostic leases of memory-store.ts: a lease arms one fault for one selected execution, is
  bound to it, consumed once, and ends by disarming or expiry. Random identifiers are arguments.
\<close>

subsection \<open>diagnostics.ts: types\<close>

datatype capability = RESPONSE_LOSS | PROVIDER_BUSINESS_SUCCESS

datatype lease_state = ARMED | BOUND | CONSUMED | DISARMED | EXPIRED

datatype receipt_action = Act_armed | Act_bound | Act_consumed | Act_disarmed | Act_expired

fun action_name :: "receipt_action \<Rightarrow> string" where
  "action_name Act_armed = ''armed''"
| "action_name Act_bound = ''bound''"
| "action_name Act_consumed = ''consumed''"
| "action_name Act_disarmed = ''disarmed''"
| "action_name Act_expired = ''expired''"

text \<open>\<open>lease.state.toLowerCase()\<close>\<close>

fun state_action :: "lease_state \<Rightarrow> receipt_action" where
  "state_action ARMED = Act_armed"
| "state_action BOUND = Act_bound"
| "state_action CONSUMED = Act_consumed"
| "state_action DISARMED = Act_disarmed"
| "state_action EXPIRED = Act_expired"

text \<open>The selector's operation is always \<open>vehicle_navigate\<close>.\<close>

record scope =
  sc_runId :: string
  sc_caseId :: string
  sc_caseExecutionId :: string
  sc_repetitionId :: string
  sc_argumentHash :: string
  sc_taskId :: "string option"

record lease =
  le_leaseId :: string
  le_capabilityId :: capability
  le_faultType :: string
  le_boundary :: string
  le_stableOperationKey :: string
  le_canonicalRequestHash :: string
  le_idempotencyKey :: string
  le_fence :: nat
  le_state :: lease_state
  le_scope :: scope
  le_armedAt :: string
  le_expiresAt :: string
  le_boundAt :: "string option"
  le_consumedAt :: "string option"
  le_cleanupAt :: "string option"
  le_logicalInvocationId :: "string option"
  le_taskId :: "string option"
  le_externalExecutionId :: "string option"
  le_deviceMissionId :: "string option"

record receipt_binding =
  rb_argumentHash :: string
  rb_logicalInvocationId :: string
  rb_taskId :: string
  rb_externalExecutionId :: string
  rb_deviceMissionId :: string

record receipt =
  rc_receiptId :: string
  rc_leaseId :: string
  rc_action :: receipt_action
  rc_requestHash :: string
  rc_occurredAt :: string
  rc_state :: lease_state
  rc_reasonCode :: string
  rc_binding :: "receipt_binding option"

record binding =
  bd_capabilityId :: capability
  bd_argumentHash :: string
  bd_logicalInvocationId :: string
  bd_taskId :: string
  bd_externalExecutionId :: string
  bd_deviceMissionId :: string
  bd_observedAt :: string

datatype control_request =
    Arm_request string int scope
  | Disarm_request string string
  | Status_request string

subsection \<open>diagnostics.ts: parsing of control requests\<close>

definition SMPP_DIAGNOSTIC_CONTRACT :: string where
  "SMPP_DIAGNOSTIC_CONTRACT = ''sdar.smpp-diagnostics/v1''"

text \<open>\<open>/^[A-Za-z0-9][A-Za-z0-9._:/-]{0,255}$/u\<close>\<close>

definition is_identifier :: "json option \<Rightarrow> bool" where
  "is_identifier v \<longleftrightarrow>
     (case v of
        Some (JStr (c # r)) \<Rightarrow>
          ident_char c \<and> c \<notin> set ''._:-'' \<and> length r \<le> 255 \<and>
          list_all (\<lambda>x. ident_char x \<or> x = CHR ''/'') r
      | _ \<Rightarrow> False)"

definition is_hex :: "char \<Rightarrow> bool" where
  "is_hex c \<longleftrightarrow> is_digit c \<or> c \<in> set ''abcdefABCDEF''"

text \<open>\<open>/^[0-9a-f]{8}-[0-9a-f]{4}-[1-8][0-9a-f]{3}-[89ab][0-9a-f]{3}-[0-9a-f]{12}$/iu\<close>\<close>

definition UUID :: "string \<Rightarrow> bool" where
  "UUID s \<longleftrightarrow>
     length s = 36 \<and>
     (\<forall>i < 36. if i \<in> {8, 13, 18, 23} then s ! i = CHR ''-'' else is_hex (s ! i)) \<and>
     s ! 14 \<in> set ''12345678'' \<and> s ! 19 \<in> set ''89abAB''"

definition assertKeys :: "jobj \<Rightarrow> string list \<Rightarrow> unit result" where
  "assertKeys v allowed =
     throw_if (list_ex (\<lambda>k. k \<notin> set allowed) (map fst v)) ''SMPP_DIAGNOSTIC_REQUEST_UNKNOWN_FIELD''"

record capability_contract =
  cc_faultType :: string
  cc_boundary :: string
  cc_caseId :: string

fun diagnosticCapabilityContract :: "capability \<Rightarrow> capability_contract" where
  "diagnosticCapabilityContract RESPONSE_LOSS =
     \<lparr>cc_faultType = ''drop-response-after-durable-side-effect'',
      cc_boundary = ''provider-after-durable-mission'', cc_caseId = ''UGV-MCP-003''\<rparr>"
| "diagnosticCapabilityContract PROVIDER_BUSINESS_SUCCESS =
     \<lparr>cc_faultType = ''provider-business-success'',
      cc_boundary = ''provider-terminal-business-semantics'', cc_caseId = ''UGV-XCHAIN-003''\<rparr>"

text \<open>\<open>String(value)\<close> of a field already known to be a string.\<close>

fun the_string :: "json option \<Rightarrow> string" where
  "the_string (Some (JStr s)) = s"
| "the_string _ = []"

definition parseScope :: "json option \<Rightarrow> capability \<Rightarrow> scope result" where
  "parseScope v capabilityId =
     (case v of
        Some (JObj kvs) \<Rightarrow>
          bind_r (assertKeys kvs [''runId'', ''caseId'', ''caseExecutionId'', ''repetitionId'',
                                ''selector'', ''taskId'']) (\<lambda>_.
            if map_of kvs ''caseId'' \<noteq> Some (JStr (cc_caseId (diagnosticCapabilityContract capabilityId)))
            then Inl ''SMPP_DIAGNOSTIC_CASE_SCOPE_INVALID''
            else if list_ex (\<lambda>k. \<not> is_identifier (map_of kvs k)) [''runId'', ''caseExecutionId'', ''repetitionId'']
            then Inl ''SMPP_DIAGNOSTIC_SCOPE_INVALID''
            else
              (case map_of kvs ''selector'' of
                 Some (JObj sel) \<Rightarrow>
                   bind_r (assertKeys sel [''operationName'', ''argumentHash'']) (\<lambda>_.
                     if map_of sel ''operationName'' \<noteq> Some (JStr ''vehicle_navigate'')
                        \<or> (case map_of sel ''argumentHash'' of Some (JStr h) \<Rightarrow> \<not> SHA256 h | _ \<Rightarrow> True)
                     then Inl ''SMPP_DIAGNOSTIC_SELECTOR_INVALID''
                     else if map_of kvs ''taskId'' \<noteq> None \<and> \<not> is_identifier (map_of kvs ''taskId'')
                     then Inl ''SMPP_DIAGNOSTIC_SCOPE_INVALID''
                     else Inr \<lparr>sc_runId = the_string (map_of kvs ''runId''),
                               sc_caseId = the_string (map_of kvs ''caseId''),
                               sc_caseExecutionId = the_string (map_of kvs ''caseExecutionId''),
                               sc_repetitionId = the_string (map_of kvs ''repetitionId''),
                               sc_argumentHash = the_string (map_of sel ''argumentHash''),
                               sc_taskId = (if map_of kvs ''taskId'' = None then None
                                            else Some (the_string (map_of kvs ''taskId'')))\<rparr>)
               | _ \<Rightarrow> Inl ''SMPP_DIAGNOSTIC_SELECTOR_INVALID''))
      | _ \<Rightarrow> Inl ''SMPP_DIAGNOSTIC_SCOPE_INVALID'')"

text \<open>\<open>Number.isSafeInteger\<close> on a JSON value.\<close>

definition safe_int :: "json option \<Rightarrow> int option" where
  "safe_int v =
     (case v of
        Some (JNum n) \<Rightarrow> if n = of_int (floor n) \<and> is_safe_integer (floor n) then Some (floor n) else None
      | _ \<Rightarrow> None)"

definition lease_uuid :: "json option \<Rightarrow> bool" where
  "lease_uuid v \<longleftrightarrow> (case v of Some (JStr s) \<Rightarrow> UUID s | _ \<Rightarrow> False)"

definition parseSmppDiagnosticControlRequest ::
  "json \<Rightarrow> capability \<Rightarrow> int \<Rightarrow> control_request result" where
  "parseSmppDiagnosticControlRequest v capabilityId maximumTtlMs =
     (case v of
        JObj kvs \<Rightarrow>
          if map_of kvs ''contract'' \<noteq> Some (JStr SMPP_DIAGNOSTIC_CONTRACT)
          then Inl ''SMPP_DIAGNOSTIC_CONTRACT_INVALID''
          else if map_of kvs ''action'' = Some (JStr ''arm'') then
            bind_r (assertKeys kvs [''contract'', ''action'', ''idempotencyKey'', ''ttlMs'', ''scope'']) (\<lambda>_.
              if \<not> is_identifier (map_of kvs ''idempotencyKey'')
              then Inl ''SMPP_DIAGNOSTIC_IDEMPOTENCY_INVALID''
              else
                (case safe_int (map_of kvs ''ttlMs'') of
                   None \<Rightarrow> Inl ''SMPP_DIAGNOSTIC_TTL_INVALID''
                 | Some ttl \<Rightarrow>
                     if ttl < 1000 \<or> ttl > maximumTtlMs then Inl ''SMPP_DIAGNOSTIC_TTL_INVALID''
                     else bind_r (parseScope (map_of kvs ''scope'') capabilityId) (\<lambda>sc.
                            Inr (Arm_request (the_string (map_of kvs ''idempotencyKey'')) ttl sc))))
          else if map_of kvs ''action'' = Some (JStr ''disarm'') then
            bind_r (assertKeys kvs [''contract'', ''action'', ''idempotencyKey'', ''leaseId'']) (\<lambda>_.
              if \<not> is_identifier (map_of kvs ''idempotencyKey'')
              then Inl ''SMPP_DIAGNOSTIC_IDEMPOTENCY_INVALID''
              else if \<not> lease_uuid (map_of kvs ''leaseId'') then Inl ''SMPP_DIAGNOSTIC_LEASE_ID_INVALID''
              else Inr (Disarm_request (the_string (map_of kvs ''idempotencyKey''))
                          (the_string (map_of kvs ''leaseId''))))
          else if map_of kvs ''action'' = Some (JStr ''status'') then
            bind_r (assertKeys kvs [''contract'', ''action'', ''leaseId'']) (\<lambda>_.
              if \<not> lease_uuid (map_of kvs ''leaseId'') then Inl ''SMPP_DIAGNOSTIC_LEASE_ID_INVALID''
              else Inr (Status_request (the_string (map_of kvs ''leaseId''))))
          else Inl ''SMPP_DIAGNOSTIC_ACTION_INVALID''
      | _ \<Rightarrow> Inl ''SMPP_DIAGNOSTIC_CONTRACT_INVALID'')"

subsection \<open>memory-store.ts: leases\<close>

record lease_store =
  ls_leases :: "(string, lease) jsmap"
  ls_receipts :: "(string, receipt) jsmap"
  ls_fence :: nat

definition empty_leases :: lease_store where
  "empty_leases = \<lparr>ls_leases = [], ls_receipts = [], ls_fence = 0\<rparr>"

definition receiptKey :: "string \<Rightarrow> receipt_action \<Rightarrow> string" where
  "receiptKey leaseId act = leaseId @ CHR 0x00 # action_name act"

text \<open>\<open>Date.parse(a) > Date.parse(b)\<close>; a comparison with \<open>NaN\<close> is false.\<close>

definition date_after :: "string \<Rightarrow> string \<Rightarrow> bool" where
  "date_after a b \<longleftrightarrow>
     (case (date_parse a, date_parse b) of (Some x, Some y) \<Rightarrow> x > y | _ \<Rightarrow> False)"

definition diagnosticResult :: "lease_store \<Rightarrow> lease \<Rightarrow> receipt_action \<Rightarrow> (lease \<times> receipt) result" where
  "diagnosticResult s l act =
     (case js_get (ls_receipts s) (receiptKey (le_leaseId l) act) of
        None \<Rightarrow> Inl ''SMPP_DIAGNOSTIC_RECEIPT_NOT_FOUND''
      | Some r \<Rightarrow> Inr (l, r))"

definition put_both :: "lease_store \<Rightarrow> string \<Rightarrow> lease \<Rightarrow> receipt_action \<Rightarrow> receipt \<Rightarrow> lease_store" where
  "put_both s k l act r =
     s\<lparr>ls_leases := js_set k l (ls_leases s),
       ls_receipts := js_set (receiptKey k act) r (ls_receipts s)\<rparr>"

text \<open>The flag of every operation says whether it changed the store.\<close>

definition armDiagnosticLease ::
  "lease_store \<Rightarrow> lease \<Rightarrow> receipt \<Rightarrow> (lease_store \<times> bool \<times> lease \<times> receipt) result" where
  "armDiagnosticLease s l r =
     (case find (\<lambda>c. le_stableOperationKey c = le_stableOperationKey l) (js_values (ls_leases s)) of
        Some existing \<Rightarrow>
          if le_canonicalRequestHash existing \<noteq> le_canonicalRequestHash l
          then Inl ''SMPP_DIAGNOSTIC_OPERATION_CONFLICT''
          else bind_r (diagnosticResult s existing Act_armed) (\<lambda>(e, q). Inr (s, False, e, q))
      | None \<Rightarrow>
          if list_ex (\<lambda>c. sc_argumentHash (le_scope c) = sc_argumentHash (le_scope l) \<and>
                          le_state c \<in> {ARMED, BOUND} \<and> date_after (le_expiresAt c) (le_armedAt l))
               (js_values (ls_leases s))
          then Inl ''SMPP_DIAGNOSTIC_SELECTOR_CONFLICT''
          else
            (let stored = l\<lparr>le_fence := Suc (ls_fence s)\<rparr>;
                 storedReceipt = r\<lparr>rc_state := le_state stored\<rparr>
             in Inr ((put_both s (le_leaseId stored) stored Act_armed storedReceipt)
                       \<lparr>ls_fence := Suc (ls_fence s)\<rparr>, True, stored, storedReceipt)))"

definition getDiagnosticStatus :: "lease_store \<Rightarrow> string \<Rightarrow> (lease \<times> receipt) option result" where
  "getDiagnosticStatus s leaseId =
     (case js_get (ls_leases s) leaseId of
        None \<Rightarrow> Inr None
      | Some l \<Rightarrow>
          (case js_get (ls_receipts s) (receiptKey leaseId (state_action (le_state l))) of
             None \<Rightarrow> Inl ''SMPP_DIAGNOSTIC_RECEIPT_NOT_FOUND''
           | Some r \<Rightarrow> Inr (Some (l, r))))"

definition requiredDiagnosticLease :: "lease_store \<Rightarrow> string \<Rightarrow> lease result" where
  "requiredDiagnosticLease s leaseId =
     (case js_get (ls_leases s) leaseId of
        None \<Rightarrow> Inl ''SMPP_DIAGNOSTIC_LEASE_NOT_FOUND''
      | Some l \<Rightarrow> Inr l)"

definition disarmDiagnosticLease ::
  "lease_store \<Rightarrow> string \<Rightarrow> string \<Rightarrow> string \<Rightarrow> string
    \<Rightarrow> (lease_store \<times> bool \<times> lease \<times> receipt) result" where
  "disarmDiagnosticLease s leaseId requestHash receiptId occurredAt =
     bind_r (requiredDiagnosticLease s leaseId) (\<lambda>l.
       case js_get (ls_receipts s) (receiptKey leaseId Act_disarmed) of
         Some existing \<Rightarrow>
           if rc_requestHash existing \<noteq> requestHash then Inl ''SMPP_DIAGNOSTIC_OPERATION_CONFLICT''
           else Inr (s, False, l, existing)
       | None \<Rightarrow>
           (let l' = l\<lparr>le_state := DISARMED, le_cleanupAt := Some occurredAt\<rparr>;
                r = \<lparr>rc_receiptId = receiptId, rc_leaseId = leaseId, rc_action = Act_disarmed,
                     rc_requestHash = requestHash, rc_occurredAt = occurredAt,
                     rc_state = le_state l', rc_reasonCode = ''SMPP_DIAGNOSTIC_DISARMED'',
                     rc_binding = None\<rparr>
            in Inr (put_both s leaseId l' Act_disarmed r, True, l', r)))"

definition bindable :: "binding \<Rightarrow> lease \<Rightarrow> bool" where
  "bindable b c \<longleftrightarrow>
     le_state c = ARMED \<and> le_capabilityId c = bd_capabilityId b \<and>
     sc_argumentHash (le_scope c) = bd_argumentHash b \<and>
     (sc_taskId (le_scope c) = None \<or> sc_taskId (le_scope c) = Some (bd_taskId b)) \<and>
     date_after (le_expiresAt c) (bd_observedAt b)"

text \<open>With at most one match the sort by fence has no effect.\<close>

definition bindDiagnosticLease ::
  "string \<Rightarrow> lease_store \<Rightarrow> binding \<Rightarrow> (lease_store \<times> bool \<times> (lease \<times> receipt) option) result" where
  "bindDiagnosticLease uuid s b =
     (let matches = filter (\<lambda>(_, c). bindable b c) (ls_leases s)
      in if length matches > 1 then Inl ''SMPP_DIAGNOSTIC_SELECTOR_AMBIGUOUS''
         else
           (case matches of
              [] \<Rightarrow> Inr (s, False, None)
            | (k, l) # _ \<Rightarrow>
                (let l' = l\<lparr>le_state := BOUND, le_boundAt := Some (bd_observedAt b),
                           le_logicalInvocationId := Some (bd_logicalInvocationId b),
                           le_taskId := Some (bd_taskId b),
                           le_externalExecutionId := Some (bd_externalExecutionId b),
                           le_deviceMissionId := Some (bd_deviceMissionId b)\<rparr>;
                     r = \<lparr>rc_receiptId = uuid, rc_leaseId = le_leaseId l, rc_action = Act_bound,
                          rc_requestHash = le_canonicalRequestHash l,
                          rc_occurredAt = bd_observedAt b, rc_state = le_state l',
                          rc_reasonCode = ''SMPP_DIAGNOSTIC_BOUND'',
                          rc_binding = Some
                            \<lparr>rb_argumentHash = bd_argumentHash b,
                             rb_logicalInvocationId = bd_logicalInvocationId b,
                             rb_taskId = bd_taskId b,
                             rb_externalExecutionId = bd_externalExecutionId b,
                             rb_deviceMissionId = bd_deviceMissionId b\<rparr>\<rparr>
                 in Inr (s\<lparr>ls_leases := js_set k l' (ls_leases s),
                           ls_receipts := js_set (receiptKey (le_leaseId l) Act_bound) r (ls_receipts s)\<rparr>,
                         True, Some (l', r)))))"

definition lease_binding :: "lease \<Rightarrow> receipt_binding option" where
  "lease_binding l =
     (case (le_logicalInvocationId l, le_taskId l, le_externalExecutionId l, le_deviceMissionId l) of
        (Some i, Some t, Some x, Some m) \<Rightarrow>
          Some \<lparr>rb_argumentHash = sc_argumentHash (le_scope l), rb_logicalInvocationId = i,
                rb_taskId = t, rb_externalExecutionId = x, rb_deviceMissionId = m\<rparr>
      | _ \<Rightarrow> None)"

definition consumeDiagnosticLease ::
  "lease_store \<Rightarrow> string \<Rightarrow> string \<Rightarrow> string \<Rightarrow> string
    \<Rightarrow> (lease_store \<times> bool \<times> lease \<times> receipt) result" where
  "consumeDiagnosticLease s leaseId requestHash receiptId occurredAt =
     bind_r (requiredDiagnosticLease s leaseId) (\<lambda>l.
       case js_get (ls_receipts s) (receiptKey leaseId Act_consumed) of
         Some existing \<Rightarrow> Inr (s, False, l, existing)
       | None \<Rightarrow>
           if le_state l \<noteq> BOUND then Inl ''SMPP_DIAGNOSTIC_NOT_BOUND''
           else
             (let l' = l\<lparr>le_state := CONSUMED, le_consumedAt := Some occurredAt\<rparr>;
                  r = \<lparr>rc_receiptId = receiptId, rc_leaseId = leaseId, rc_action = Act_consumed,
                       rc_requestHash = requestHash, rc_occurredAt = occurredAt,
                       rc_state = le_state l', rc_reasonCode = ''SMPP_DIAGNOSTIC_CONSUMED'',
                       rc_binding = lease_binding l\<rparr>
              in Inr (put_both s leaseId l' Act_consumed r, True, l', r)))"

definition expirable :: "string \<Rightarrow> lease \<Rightarrow> bool" where
  "expirable occurredAt l \<longleftrightarrow>
     le_state l \<in> {ARMED, BOUND} \<and> \<not> date_after (le_expiresAt l) occurredAt"

definition expire_lease :: "(string \<Rightarrow> string) \<Rightarrow> string \<Rightarrow> lease \<Rightarrow> lease \<times> receipt" where
  "expire_lease uuid occurredAt l =
     (let l' = l\<lparr>le_state := EXPIRED, le_cleanupAt := Some occurredAt\<rparr>
      in (l', \<lparr>rc_receiptId = uuid (le_leaseId l), rc_leaseId = le_leaseId l, rc_action = Act_expired,
               rc_requestHash = le_canonicalRequestHash l, rc_occurredAt = occurredAt,
               rc_state = le_state l', rc_reasonCode = ''SMPP_DIAGNOSTIC_EXPIRED'',
               rc_binding = None\<rparr>))"

text \<open>The loop mutates the leases in place, in the order of the map.\<close>

definition expireDiagnosticLeases ::
  "(string \<Rightarrow> string) \<Rightarrow> lease_store \<Rightarrow> string \<Rightarrow> lease_store \<times> (lease \<times> receipt) list" where
  "expireDiagnosticLeases uuid s occurredAt =
     (let expired = filter (\<lambda>(_, l). expirable occurredAt l) (ls_leases s);
          results = map (\<lambda>(_, l). expire_lease uuid occurredAt l) expired
      in (s\<lparr>ls_leases := map (\<lambda>(k, l). (k, if expirable occurredAt l
                                          then fst (expire_lease uuid occurredAt l) else l)) (ls_leases s),
            ls_receipts := fold (\<lambda>(_, r). js_set (receiptKey (rc_leaseId r) Act_expired) r)
                             results (ls_receipts s)\<rparr>,
          results))"

subsection \<open>Runs\<close>

datatype lease_op =
    Arm lease receipt
  | Disarm string string string string
  | Bind string binding
  | Consume string string string string
  | Expire "string \<Rightarrow> string" string

definition consume_step :: "lease_store \<Rightarrow> string \<times> string \<times> string \<times> string \<Rightarrow> (lease_store \<times> bool) result"
where
  "consume_step s a =
     (case a of (leaseId, requestHash, receiptId, occurredAt) \<Rightarrow>
        bind_r (consumeDiagnosticLease s leaseId requestHash receiptId occurredAt)
          (\<lambda>(s', b, _). Inr (s', b)))"

fun lease_step :: "lease_store \<Rightarrow> lease_op \<Rightarrow> (lease_store \<times> bool) result" where
  "lease_step s (Arm l r) = bind_r (armDiagnosticLease s l r) (\<lambda>(s', b, _). Inr (s', b))"
| "lease_step s (Disarm i h q t) =
     bind_r (disarmDiagnosticLease s i h q t) (\<lambda>(s', b, _). Inr (s', b))"
| "lease_step s (Bind u b) = bind_r (bindDiagnosticLease u s b) (\<lambda>(s', c, _). Inr (s', c))"
| "lease_step s (Consume i h q t) = consume_step s (i, h, q, t)"
| "lease_step s (Expire u t) =
     (case expireDiagnosticLeases u s t of (s', results) \<Rightarrow> Inr (s', results \<noteq> []))"

subsection \<open>Life of a lease\<close>

fun lease_next :: "lease_state \<Rightarrow> lease_state list" where
  "lease_next ARMED = [BOUND, DISARMED, EXPIRED]"
| "lease_next BOUND = [CONSUMED, DISARMED, EXPIRED]"
| "lease_next CONSUMED = [DISARMED]"
| "lease_next EXPIRED = [DISARMED]"
| "lease_next DISARMED = [DISARMED]"

text \<open>\<open>l'\<close> is the lease \<open>l\<close> or its next version.\<close>

definition later :: "lease \<Rightarrow> lease \<Rightarrow> bool" where
  "later l l' \<longleftrightarrow>
     l' = l \<or> le_scope l' = le_scope l \<and> le_expiresAt l' = le_expiresAt l \<and>
              le_fence l' = le_fence l \<and> le_state l' \<in> set (lease_next (le_state l))"

definition moved :: "lease_store \<Rightarrow> lease_store \<Rightarrow> bool" where
  "moved s s' \<longleftrightarrow>
     ls_fence s' = ls_fence s \<and> list_all2 (rel_prod (=) later) (ls_leases s) (ls_leases s')"

lemma later_refl [simp]: "later l l"
  by (simp add: later_def)

lemma list_all2_same: "list_all2 (rel_prod (=) later) m m"
  by (rule list.rel_refl) auto

lemma moved_set:
  "js_get m k = Some l \<Longrightarrow> later l l' \<Longrightarrow> list_all2 (rel_prod (=) later) m (js_set k l' m)"
  by (induction m) (auto simp: list_all2_same)

lemma to_disarmed: "DISARMED \<in> set (lease_next st)"
  by (cases st) auto

lemma disarm_moved:
  assumes "disarmDiagnosticLease s i h q t = Inr (s', b, res)" shows "moved s s'"
proof (cases b)
  case True
  with assms obtain l where "js_get (ls_leases s) i = Some l"
    "ls_leases s' = js_set i (l\<lparr>le_state := DISARMED, le_cleanupAt := Some t\<rparr>) (ls_leases s)"
    "ls_fence s' = ls_fence s"
    by (auto simp: disarmDiagnosticLease_def requiredDiagnosticLease_def bind_r_Inr Let_def
        put_both_def split: option.splits if_splits)
  then show ?thesis
    by (auto simp: moved_def later_def to_disarmed intro!: moved_set)
next
  case False
  with assms have "s' = s"
    by (auto simp: disarmDiagnosticLease_def bind_r_Inr Let_def split: option.splits if_splits)
  then show ?thesis by (simp add: moved_def list_all2_same)
qed

lemma consume_moved:
  assumes "consumeDiagnosticLease s i h q t = Inr (s', b, res)" shows "moved s s'"
proof (cases b)
  case True
  with assms obtain l where "js_get (ls_leases s) i = Some l" "le_state l = BOUND"
    "ls_leases s' = js_set i (l\<lparr>le_state := CONSUMED, le_consumedAt := Some t\<rparr>) (ls_leases s)"
    "ls_fence s' = ls_fence s"
    by (auto simp: consumeDiagnosticLease_def requiredDiagnosticLease_def bind_r_Inr Let_def
        put_both_def split: option.splits if_splits)
  then show ?thesis
    by (auto simp: moved_def later_def intro!: moved_set)
next
  case False
  with assms have "s' = s"
    by (auto simp: consumeDiagnosticLease_def bind_r_Inr Let_def split: option.splits if_splits)
  then show ?thesis by (simp add: moved_def list_all2_same)
qed

lemma bind_moved:
  assumes "bindDiagnosticLease u s b = Inr (s', c, res)" and "distinct (js_keys (ls_leases s))"
  shows "moved s s'"
proof (cases "filter (\<lambda>(_, l). bindable b l) (ls_leases s)")
  case Nil
  with assms(1) have "s' = s" by (simp add: bindDiagnosticLease_def)
  then show ?thesis by (simp add: moved_def list_all2_same)
next
  case (Cons p ps)
  obtain k l where p: "p = (k, l)" by (cases p) simp
  then have "(k, l) \<in> set (ls_leases s)" "bindable b l"
    using Cons by (auto simp: filter_eq_Cons_iff)
  then have l: "js_get (ls_leases s) k = Some l" "le_state l = ARMED"
    using assms(2) by (simp_all add: bindable_def)
  from assms(1) Cons p obtain l' where
    "ls_leases s' = js_set k l' (ls_leases s)" "ls_fence s' = ls_fence s" "le_scope l' = le_scope l"
    "le_expiresAt l' = le_expiresAt l" "le_fence l' = le_fence l" "le_state l' = BOUND"
    by (auto simp: bindDiagnosticLease_def Let_def split: if_splits)
  with l show ?thesis
    by (auto simp: moved_def later_def intro!: moved_set)
qed

lemma expire_later:
  "later l (if expirable t l then fst (expire_lease u t l) else l)"
  by (cases "le_state l") (auto simp: later_def expirable_def expire_lease_def)

lemma pointwise_later:
  "(\<And>l. later l (f l)) \<Longrightarrow> list_all2 (rel_prod (=) later) m (map (\<lambda>(k, l). (k, f l)) m)"
  by (induction m) auto

lemma expire_moved:
  assumes "expireDiagnosticLeases u s t = (s', res)" shows "moved s s'"
proof -
  from assms have "ls_leases s' =
      map (\<lambda>(k, l). (k, if expirable t l then fst (expire_lease u t l) else l)) (ls_leases s)"
    "ls_fence s' = ls_fence s"
    by (auto simp: expireDiagnosticLeases_def Let_def)
  then show ?thesis unfolding moved_def by (simp add: pointwise_later expire_later)
qed

lemma arm_effect:
  assumes "armDiagnosticLease s l r = Inr (s', b, res)"
  shows "(\<not> b \<and> s' = s) \<or>
    (b \<and> ls_fence s' = Suc (ls_fence s) \<and>
     ls_leases s' = js_set (le_leaseId l) (l\<lparr>le_fence := Suc (ls_fence s)\<rparr>) (ls_leases s) \<and>
     (\<forall>c \<in> set (js_values (ls_leases s)).
        sc_argumentHash (le_scope c) = sc_argumentHash (le_scope l) \<longrightarrow> le_state c \<in> {ARMED, BOUND} \<longrightarrow>
        \<not> date_after (le_expiresAt c) (le_armedAt l)))"
  using assms
  by (auto simp: armDiagnosticLease_def bind_r_Inr Let_def put_both_def list_ex_iff
      split: option.splits if_splits)

lemma lease_step_effect:
  assumes "lease_step s x = Inr (s', b)" "distinct (js_keys (ls_leases s))"
  shows "moved s s' \<or> (\<exists>l r res. x = Arm l r \<and> b \<and> armDiagnosticLease s l r = Inr (s', b, res))"
proof (cases x)
  case (Arm l r)
  with assms(1) obtain res where a: "armDiagnosticLease s l r = Inr (s', b, res)"
    by (auto simp: bind_r_Inr)
  from arm_effect [OF a] show ?thesis
    using Arm a by (auto simp: moved_def list_all2_same)
next
  case (Expire u t)
  then show ?thesis using assms(1) expire_moved by (auto split: prod.splits)
qed (use assms disarm_moved consume_moved bind_moved in
    \<open>fastforce simp: bind_r_Inr consume_step_def split: prod.splits\<close>)+

subsection \<open>One active lease per selector\<close>

definition live :: "lease \<Rightarrow> int \<Rightarrow> bool" where
  "live l t \<longleftrightarrow> le_state l \<in> {ARMED, BOUND} \<and> (\<exists>e. date_parse (le_expiresAt l) = Some e \<and> e > t)"

definition exclusive :: "lease_store \<Rightarrow> int \<Rightarrow> bool" where
  "exclusive s now \<longleftrightarrow>
     distinct (js_keys (ls_leases s)) \<and>
     (\<forall>t k l k' l'. now \<le> t \<longrightarrow> (k, l) \<in> set (ls_leases s) \<longrightarrow> (k', l') \<in> set (ls_leases s) \<longrightarrow>
        k \<noteq> k' \<longrightarrow> sc_argumentHash (le_scope l) = sc_argumentHash (le_scope l') \<longrightarrow>
        \<not> (live l t \<and> live l' t))"

lemma exclusive_later: "exclusive s now \<Longrightarrow> now \<le> t \<Longrightarrow> exclusive s t"
  unfolding exclusive_def by (meson order_trans)

lemma later_live: "later l l' \<Longrightarrow> live l' t \<Longrightarrow> live l t"
  by (cases "le_state l") (auto simp: later_def live_def)

lemma later_hash: "later l l' \<Longrightarrow> sc_argumentHash (le_scope l') = sc_argumentHash (le_scope l)"
  by (auto simp: later_def)

lemma moved_keys: "list_all2 (rel_prod (=) later) m m' \<Longrightarrow> js_keys m' = js_keys m"
  by (induction rule: list_all2_induct) auto

lemma moved_in:
  "list_all2 (rel_prod (=) later) m m' \<Longrightarrow> (k, l') \<in> set m' \<Longrightarrow> \<exists>l. (k, l) \<in> set m \<and> later l l'"
  by (induction rule: list_all2_induct) auto

lemma moved_exclusive: "moved s s' \<Longrightarrow> exclusive s now \<Longrightarrow> exclusive s' now"
proof -
  assume m: "moved s s'" and e: "exclusive s now"
  note m' = m [unfolded moved_def, THEN conjunct2]
  have "\<not> (live l t \<and> live l' t)"
    if "now \<le> t" "(k, l) \<in> set (ls_leases s')" "(k', l') \<in> set (ls_leases s')" "k \<noteq> k'"
      "sc_argumentHash (le_scope l) = sc_argumentHash (le_scope l')" for t k l k' l'
  proof -
    from moved_in [OF m' that(2)] moved_in [OF m' that(3)] obtain a b where
      ab: "(k, a) \<in> set (ls_leases s)" "later a l" "(k', b) \<in> set (ls_leases s)" "later b l'" by blast
    then have "sc_argumentHash (le_scope a) = sc_argumentHash (le_scope b)"
      using that(5) later_hash by metis
    then have "\<not> (live a t \<and> live b t)" using e that(1,4) ab(1,3) unfolding exclusive_def by blast
    then show ?thesis using ab(2,4) later_live by blast
  qed
  then show "exclusive s' now"
    using e moved_keys [OF m'] unfolding exclusive_def by metis
qed

lemma arm_exclusive:
  assumes a: "armDiagnosticLease s l r = Inr (s', b, res)" and e: "exclusive s now"
    and t: "date_parse (le_armedAt l) = Some t" "now \<le> t"
  shows "exclusive s' t"
proof (cases b)
  case False
  with arm_effect [OF a] e t(2) exclusive_later show ?thesis by auto
next
  case True
  let ?n = "l\<lparr>le_fence := Suc (ls_fence s)\<rparr>"
  from True arm_effect [OF a] have n: "ls_leases s' = js_set (le_leaseId l) ?n (ls_leases s)"
    and free: "\<And>k c. (k, c) \<in> set (ls_leases s) \<Longrightarrow>
      sc_argumentHash (le_scope c) = sc_argumentHash (le_scope l) \<Longrightarrow> le_state c \<in> {ARMED, BOUND} \<Longrightarrow>
      \<not> date_after (le_expiresAt c) (le_armedAt l)" by force+
  have dead: "\<not> live c u" if "(k, c) \<in> set (ls_leases s)" "t \<le> u"
    "sc_argumentHash (le_scope c) = sc_argumentHash (le_scope l)" for k c u
    using free [OF that(1,3)] that(2) t(1) by (auto simp: live_def date_after_def)
  have d: "distinct (js_keys (ls_leases s'))" using e by (simp add: n exclusive_def)
  have "\<not> (live x u \<and> live y u)"
    if "t \<le> u" "(k, x) \<in> set (ls_leases s')" "(k', y) \<in> set (ls_leases s')" "k \<noteq> k'"
      "sc_argumentHash (le_scope x) = sc_argumentHash (le_scope y)" for u k x k' y
  proof -
    note new = that
    consider "k = le_leaseId l" "x = ?n" | "(k, x) \<in> set (ls_leases s)"
      using in_js_set [OF new(2) [unfolded n]] by auto
    then show ?thesis
    proof cases
      case 1
      then have "(k', y) \<in> set (ls_leases s)" using in_js_set [OF new(3) [unfolded n]] new(4) by auto
      then show ?thesis using dead that(1,5) 1 by auto
    next
      case 2
      consider "k' = le_leaseId l" "y = ?n" | "(k', y) \<in> set (ls_leases s)"
        using in_js_set [OF new(3) [unfolded n]] by auto
      then show ?thesis
      proof cases
        case 1
        then show ?thesis using dead [OF 2 that(1)] that(5) by auto
      next
        case both: 2
        from that(1) t(2) have "now \<le> u" by simp
        then show ?thesis using e both 2 that(4,5) unfolding exclusive_def by blast
      qed
    qed
  qed
  with d show ?thesis unfolding exclusive_def by blast
qed

text \<open>The instant an operation is issued at, as the store reads it.\<close>

fun op_time :: "lease_op \<Rightarrow> int option" where
  "op_time (Arm l r) = date_parse (le_armedAt l)"
| "op_time (Disarm i h q t) = date_parse t"
| "op_time (Bind u b) = date_parse (bd_observedAt b)"
| "op_time (Consume i h q t) = date_parse t"
| "op_time (Expire u t) = date_parse t"

fun timed :: "int \<Rightarrow> lease_op list \<Rightarrow> bool" where
  "timed now [] = True"
| "timed now (x # xs) =
     (case op_time x of None \<Rightarrow> False | Some t \<Rightarrow> now \<le> t \<and> timed t xs)"

lemma lease_step_exclusive:
  assumes "lease_step s x = Inr (s', b)" "exclusive s now" "op_time x = Some t" "now \<le> t"
  shows "exclusive s' t"
proof -
  have "distinct (js_keys (ls_leases s))" using assms(2) by (simp add: exclusive_def)
  with lease_step_effect [OF assms(1)] consider "moved s s'"
    | l r res where "x = Arm l r" "armDiagnosticLease s l r = Inr (s', b, res)" by blast
  then show ?thesis
  proof cases
    case 1
    from exclusive_later [OF moved_exclusive [OF 1 assms(2)] assms(4)] show ?thesis .
  next
    case 2
    then show ?thesis using arm_exclusive [OF 2(2) assms(2)] assms(3,4) by simp
  qed
qed

lemma timed_run_exclusive:
  "exclusive s now \<Longrightarrow> timed now (xs @ [y]) \<Longrightarrow>
     \<exists>t. exclusive (after lease_step s xs) t \<and> timed t [y]"
proof (induction xs arbitrary: s now)
  case (Cons x xs)
  from Cons.prems(2) obtain t where t: "op_time x = Some t" "now \<le> t" "timed t (xs @ [y])"
    by (auto split: option.splits)
  show ?case
  proof (cases "lease_step s x")
    case (Inl e)
    then show ?thesis
      using Cons.IH [OF exclusive_later [OF Cons.prems(1) t(2)] t(3)] by simp
  next
    case (Inr p)
    then obtain s' b where p: "lease_step s x = Inr (s', b)" by (cases p) simp
    then show ?thesis
      using Cons.IH [OF lease_step_exclusive [OF p Cons.prems(1) t(1,2)] t(3)] by simp
  qed
qed auto

text \<open>
  Binding is never ambiguous. If the operations on the leases carry readable, non-decreasing
  times, then at every moment at most one lease can be bound to an execution, and binding always
  succeeds: either it finds the one armed, unexpired lease of that selector or there is none.
\<close>

theorem bind_never_ambiguous:
  assumes "timed now (xs @ [Bind u b])" and "s = after lease_step empty_leases xs"
  shows "length (filter (\<lambda>(_, l). bindable b l) (ls_leases s)) \<le> 1
    \<and> is_ok (bindDiagnosticLease u s b)"
proof -
  have "exclusive empty_leases now" by (simp add: exclusive_def empty_leases_def)
  from timed_run_exclusive [OF this assms(1)] obtain t where
    t: "exclusive s t" "timed t [Bind u b]" unfolding assms(2) by blast
  then obtain v where v: "date_parse (bd_observedAt b) = Some v" "t \<le> v"
    by (auto split: option.splits)
  have one: "length (filter (\<lambda>(_, l). bindable b l) (ls_leases s)) \<le> 1"
  proof (rule ccontr)
    let ?m = "filter (\<lambda>(_, l). bindable b l) (ls_leases s)"
    assume "\<not> length ?m \<le> 1"
    then obtain k l k' l' ps where m: "?m = (k, l) # (k', l') # ps"
      by (cases ?m rule: remdups_adj.cases) auto
    have "distinct (js_keys (ls_leases s))" using t(1) by (simp add: exclusive_def)
    then have "distinct (map fst ?m)" by (simp add: distinct_map_filter)
    then have "k \<noteq> k'" using m by simp
    moreover have "(k, l) \<in> set ?m" "(k', l') \<in> set ?m" using m by simp_all
    then have "(k, l) \<in> set (ls_leases s)" "(k', l') \<in> set (ls_leases s)" "bindable b l" "bindable b l'"
      by auto
    moreover have "live x v" if "bindable b x" for x
      using that v(1) by (auto simp: bindable_def live_def date_after_def split: option.splits)
    ultimately show False
      using t(1) v(2) unfolding exclusive_def bindable_def by metis
  qed
  then show ?thesis
    by (auto simp: bindDiagnosticLease_def Let_def is_ok_iff split: list.splits)
qed

subsection \<open>One injection per lease\<close>

definition consumed_receipt :: "lease_store \<Rightarrow> string \<Rightarrow> receipt option" where
  "consumed_receipt s k = js_get (ls_receipts s) (receiptKey k Act_consumed)"

definition lease_rest :: "lease_store \<Rightarrow> lease_op \<Rightarrow> lease_store result" where
  "lease_rest s x = bind_r (lease_step s x) (\<lambda>p. Inr (fst p))"

lemma fold_set_keeps:
  "js_get m k \<noteq> None \<Longrightarrow> js_get (fold (\<lambda>(_, r). js_set (f r) r) xs m) k \<noteq> None"
  by (induction xs arbitrary: m) auto

lemma receipts_kept:
  assumes "lease_step s x = Inr (s', b)" "js_get (ls_receipts s) k \<noteq> None"
  shows "js_get (ls_receipts s') k \<noteq> None"
proof (cases x)
  case (Expire u t)
  have "ls_receipts (fst (expireDiagnosticLeases u s t)) =
      fold (\<lambda>(_, r). js_set (receiptKey (rc_leaseId r) Act_expired) r)
        (snd (expireDiagnosticLeases u s t)) (ls_receipts s)"
    by (simp add: expireDiagnosticLeases_def Let_def)
  moreover have "s' = fst (expireDiagnosticLeases u s t)"
    using assms(1) Expire by (cases "expireDiagnosticLeases u s t") simp
  ultimately show ?thesis using fold_set_keeps [OF assms(2)] by simp
qed (use assms in \<open>auto simp: bind_r_Inr armDiagnosticLease_def disarmDiagnosticLease_def
      bindDiagnosticLease_def consume_step_def consumeDiagnosticLease_def put_both_def Let_def
      split: option.splits list.splits if_splits\<close>)

interpretation consumed: claim_ledger consumed_receipt fst consume_step lease_rest
proof unfold_locales
  show "lease_rest s x = Inr s' \<Longrightarrow> consumed_receipt s k \<noteq> None \<Longrightarrow> consumed_receipt s' k \<noteq> None"
    for s x s' k using receipts_kept by (fastforce simp: lease_rest_def consumed_receipt_def bind_r_Inr)
qed (auto simp: consume_step_def consumeDiagnosticLease_def requiredDiagnosticLease_def bind_r_Inr
      consumed_receipt_def put_both_def receiptKey_def Let_def split: option.splits if_splits)

definition is_Consume :: "lease_op \<Rightarrow> bool" where
  "is_Consume x = (case x of Consume _ _ _ _ \<Rightarrow> True | _ \<Rightarrow> False)"

definition consume_args :: "lease_op \<Rightarrow> string \<times> string \<times> string \<times> string" where
  "consume_args x = (case x of Consume i h q t \<Rightarrow> (i, h, q, t))"

text \<open>
  A diagnostic fault is injected at most once. However the operations on the leases interleave,
  and from whatever state they start, each lease is consumed at most once, and only a bound lease
  is.
\<close>

theorem injected_at_most_once:
  "distinct (map (\<lambda>x. fst (consume_args x)) (filter is_Consume (effective lease_step s xs)))
   \<and> (consumeDiagnosticLease t i h q at' = Inr (t', True, l, r) \<longrightarrow>
        map_option le_state (js_get (ls_leases t) i) = Some BOUND \<and> le_state l = CONSUMED)"
proof
  show "distinct (map (\<lambda>x. fst (consume_args x)) (filter is_Consume (effective lease_step s xs)))"
    by (rule consumed.component_claims_once)
      (auto simp: is_Consume_def consume_args_def lease_rest_def split: lease_op.splits)
  show "consumeDiagnosticLease t i h q at' = Inr (t', True, l, r) \<longrightarrow>
      map_option le_state (js_get (ls_leases t) i) = Some BOUND \<and> le_state l = CONSUMED"
    by (auto simp: consumeDiagnosticLease_def requiredDiagnosticLease_def bind_r_Inr Let_def
        split: option.splits if_splits)
qed

subsection \<open>A lease on one navigation\<close>

definition sample_lease :: lease where
  "sample_lease =
     \<lparr>le_leaseId = ''l1'', le_capabilityId = RESPONSE_LOSS,
      le_faultType = cc_faultType (diagnosticCapabilityContract RESPONSE_LOSS),
      le_boundary = cc_boundary (diagnosticCapabilityContract RESPONSE_LOSS),
      le_stableOperationKey = ''k1'', le_canonicalRequestHash = ''h1'', le_idempotencyKey = ''i1'',
      le_fence = 0, le_state = ARMED,
      le_scope = \<lparr>sc_runId = ''r'', sc_caseId = ''UGV-MCP-003'', sc_caseExecutionId = ''c'',
                  sc_repetitionId = ''1'', sc_argumentHash = ''args'', sc_taskId = None\<rparr>,
      le_armedAt = ''2026-09-08T12:00:00.000Z'', le_expiresAt = ''2026-09-08T13:00:00.000Z'',
      le_boundAt = None, le_consumedAt = None, le_cleanupAt = None, le_logicalInvocationId = None,
      le_taskId = None, le_externalExecutionId = None, le_deviceMissionId = None\<rparr>"

definition sample_receipt :: receipt where
  "sample_receipt =
     \<lparr>rc_receiptId = ''q1'', rc_leaseId = ''l1'', rc_action = Act_armed, rc_requestHash = ''h1'',
      rc_occurredAt = ''2026-09-08T12:00:00.000Z'', rc_state = ARMED, rc_reasonCode = [],
      rc_binding = None\<rparr>"

definition sample_binding :: binding where
  "sample_binding =
     \<lparr>bd_capabilityId = RESPONSE_LOSS, bd_argumentHash = ''args'', bd_logicalInvocationId = ''li'',
      bd_taskId = ''t1'', bd_externalExecutionId = ''x1'', bd_deviceMissionId = ''m1'',
      bd_observedAt = ''2026-09-08T12:30:00.000Z''\<rparr>"

theorem bind_never_ambiguous_witness:
  "is_ok (bindDiagnosticLease ''u''
     (after lease_step empty_leases [Arm sample_lease sample_receipt]) sample_binding)"
proof -
  have "timed 0 ([Arm sample_lease sample_receipt] @ [Bind ''u'' sample_binding])" by code_simp
  from bind_never_ambiguous [OF this refl] show ?thesis by blast
qed

definition sample_bound :: lease_store where
  "sample_bound =
     after lease_step empty_leases [Arm sample_lease sample_receipt, Bind ''u'' sample_binding]"

theorem injected_at_most_once_witness:
  "map_option le_state (js_get (ls_leases sample_bound) ''l1'') = Some BOUND"
proof -
  define r where "r = consumeDiagnosticLease sample_bound ''l1'' ''h1'' ''q2'' ''2026-09-08T12:31:00.000Z''"
  have "(case r of Inl e \<Rightarrow> False | Inr (t', b, l, q) \<Rightarrow> b)" unfolding r_def by code_simp
  then obtain t' l q where "r = Inr (t', True, l, q)" by (auto split: sum.splits prod.splits)
  then show ?thesis
    unfolding r_def
    using injected_at_most_once [of sample_bound "[]" sample_bound "''l1''" "''h1''" "''q2''"
        "''2026-09-08T12:31:00.000Z''" t' l q] by blast
qed

end
