(* ===== verification/BusinessTypes.thy ===== *)
theory BusinessTypes
  imports JsTime
begin

text \<open>
  packages/vehicle-provider-core/src/task-business-contract.ts: identities, object references,
  the Context of a task and the feedback bodies about it, as typed records, each with the
  conditions its zod schema checks on values of that type. A strict object has no other members,
  which holds of every record. What the schema library decides about a string that is to be a
  date-time is the parameter \<open>iso_datetime\<close> of these conditions; the numbers are integers, and
  an integer accepted by the library is a safe one.
\<close>

subsection \<open>Scalars\<close>

definition identifier_ok :: "string \<Rightarrow> bool" where
  "identifier_ok s \<longleftrightarrow> bounded 256 s"

definition revision_ok :: "int \<Rightarrow> bool" where
  "revision_ok n \<longleftrightarrow> is_safe_integer n \<and> 0 < n"

definition contextRevision_ok :: "int \<Rightarrow> bool" where
  "contextRevision_ok n \<longleftrightarrow> is_safe_integer n \<and> 0 \<le> n"

text \<open>A condition on an optional member.\<close>

definition opt_all :: "('a \<Rightarrow> bool) \<Rightarrow> 'a option \<Rightarrow> bool" where
  "opt_all P x \<longleftrightarrow> (case x of None \<Rightarrow> True | Some v \<Rightarrow> P v)"

lemma opt_all_simps [simp]: "opt_all P None" "opt_all P (Some v) \<longleftrightarrow> P v"
  by (simp_all add: opt_all_def)

text \<open>\<open>/^[1-9][0-9]{0,18}$/\<close> and \<open>/^(0|[1-9][0-9]{0,18})$/\<close>.\<close>

definition positiveSequence :: "string \<Rightarrow> bool" where
  "positiveSequence s \<longleftrightarrow>
     (case s of [] \<Rightarrow> False
      | c # r \<Rightarrow> is_digit c \<and> c \<noteq> CHR ''0'' \<and> length r \<le> 18 \<and> list_all is_digit r)"

definition afterSequence_ok :: "string \<Rightarrow> bool" where
  "afterSequence_ok s \<longleftrightarrow> s = ''0'' \<or> positiveSequence s"

text \<open>\<open>BigInt\<close> of a decimal numeral.\<close>

definition big_int :: "string \<Rightarrow> int" where
  "big_int s = (case num (length s) s of None \<Rightarrow> 0 | Some (n, _) \<Rightarrow> n)"

text \<open>What \<open>parse\<close> throws, and the issues a refinement adds.\<close>

definition zod :: "bool \<Rightarrow> unit result" where
  "zod ok = throw_if (\<not> ok) ''ZodError''"

lemma zod_Inr [simp, result_simps]: "zod ok = Inr u \<longleftrightarrow> ok"
  by (simp add: zod_def)

definition issue_if :: "bool \<Rightarrow> string \<Rightarrow> string list" where
  "issue_if c m = (if c then [m] else [])"

lemma issue_if_Nil [simp]: "issue_if c m = [] \<longleftrightarrow> \<not> c"
  by (simp add: issue_if_def)

subsection \<open>Cursors, identities and references\<close>

record source_cursor =
  sc_sourceId :: string
  sc_sourceStreamId :: string
  sc_sourceSequence :: string

definition SourceBusinessCursorSchema :: "source_cursor \<Rightarrow> bool" where
  "SourceBusinessCursorSchema c \<longleftrightarrow>
     identifier_ok (sc_sourceId c) \<and> identifier_ok (sc_sourceStreamId c) \<and>
     positiveSequence (sc_sourceSequence c)"

record runtime_cursor =
  rc_streamId :: string
  rc_afterSequence :: string

definition RuntimeBusinessCursorSchema :: "runtime_cursor \<Rightarrow> bool" where
  "RuntimeBusinessCursorSchema c \<longleftrightarrow>
     identifier_ok (rc_streamId c) \<and> afterSequence_ok (rc_afterSequence c)"

record business_identity =
  bi_taskId :: string
  bi_executionId :: string
  bi_providerId :: string
  bi_resourceId :: string
  bi_operationName :: string
  bi_correlationId :: "string option"
  bi_simulationId :: "string option"

definition TaskBusinessIdentitySchema :: "business_identity \<Rightarrow> bool" where
  "TaskBusinessIdentitySchema i \<longleftrightarrow>
     identifier_ok (bi_taskId i) \<and> identifier_ok (bi_executionId i) \<and> identifier_ok (bi_providerId i) \<and>
     identifier_ok (bi_resourceId i) \<and> identifier_ok (bi_operationName i) \<and>
     opt_all identifier_ok (bi_correlationId i) \<and> opt_all identifier_ok (bi_simulationId i)"

text \<open>The comparison that the checks of interactions and artifacts share.\<close>

definition sameExecution :: "business_identity \<Rightarrow> business_identity \<Rightarrow> bool" where
  "sameExecution a b \<longleftrightarrow>
     bi_taskId a = bi_taskId b \<and> bi_executionId a = bi_executionId b \<and>
     bi_providerId a = bi_providerId b \<and> bi_resourceId a = bi_resourceId b \<and>
     bi_operationName a = bi_operationName b"

lemma sameExecution_trans: "sameExecution a b \<Longrightarrow> sameExecution b c \<Longrightarrow> sameExecution a c"
  by (simp add: sameExecution_def)

datatype object_kind = Artifact | Action | InputRequest | Intervention

record object_ref =
  ref_kind :: object_kind
  ref_id :: string
  ref_revision :: int

definition BusinessObjectRefSchema :: "object_ref \<Rightarrow> bool" where
  "BusinessObjectRefSchema r \<longleftrightarrow> identifier_ok (ref_id r) \<and> revision_ok (ref_revision r)"

text \<open>\<open>BusinessObjectRefSchema.extend({ kind: z.literal(...) })\<close>.\<close>

definition kindRef :: "object_kind \<Rightarrow> object_ref \<Rightarrow> bool" where
  "kindRef k r \<longleftrightarrow> ref_kind r = k \<and> BusinessObjectRefSchema r"

subsection \<open>The Context\<close>

record business_phase =
  ph_code :: string
  ph_label :: "string option"
  ph_since :: string
  ph_reasonCode :: "string option"

definition BusinessPhaseSchema :: "(string \<Rightarrow> bool) \<Rightarrow> business_phase \<Rightarrow> bool" where
  "BusinessPhaseSchema iso_datetime p \<longleftrightarrow>
     identifier_ok (ph_code p) \<and> iso_datetime (ph_since p) \<and> opt_all identifier_ok (ph_reasonCode p)"

datatype summary_status = InProgress | Finalized

record business_summary =
  su_status :: summary_status
  su_resultCode :: "string option"
  su_properties :: "jobj option"

definition BusinessSummarySchema :: "business_summary \<Rightarrow> bool" where
  "BusinessSummarySchema s \<longleftrightarrow> opt_all identifier_ok (su_resultCode s)"

type_synonym active_refs = "(string, object_ref) jsmap"

definition BusinessActiveRefsSchema :: "active_refs \<Rightarrow> bool" where
  "BusinessActiveRefsSchema rs \<longleftrightarrow>
     list_all (\<lambda>(k, r). identifier_ok k \<and> BusinessObjectRefSchema r) rs"

text \<open>\<open>de_phase = Some None\<close> is the explicit \<open>null\<close>.\<close>

record context_delta =
  de_phase :: "business_phase option option"
  de_summary :: "business_summary option"
  de_activeRefs :: "active_refs option"
  de_effectivePlanRevision :: "int option"

definition BusinessContextDeltaSchema :: "(string \<Rightarrow> bool) \<Rightarrow> context_delta \<Rightarrow> bool" where
  "BusinessContextDeltaSchema iso_datetime d \<longleftrightarrow>
     opt_all (opt_all (BusinessPhaseSchema iso_datetime)) (de_phase d) \<and>
     opt_all BusinessSummarySchema (de_summary d) \<and>
     opt_all BusinessActiveRefsSchema (de_activeRefs d) \<and>
     opt_all contextRevision_ok (de_effectivePlanRevision d)"

record task_context =
  tc_identity :: business_identity
  tc_contextRevision :: int
  tc_effectivePlanRevision :: int
  tc_phase :: "business_phase option"
  tc_summary :: business_summary
  tc_activeRefs :: active_refs
  tc_artifactRefs :: "object_ref list"
  tc_actionRefs :: "object_ref list"
  tc_requiredInputRefs :: "object_ref list"
  tc_interventionRefs :: "object_ref list"
  tc_updatedAt :: string
  tc_finalizedAt :: "string option"

definition TaskBusinessContextSchema :: "(string \<Rightarrow> bool) \<Rightarrow> task_context \<Rightarrow> bool" where
  "TaskBusinessContextSchema iso_datetime c \<longleftrightarrow>
     TaskBusinessIdentitySchema (tc_identity c) \<and>
     contextRevision_ok (tc_contextRevision c) \<and> contextRevision_ok (tc_effectivePlanRevision c) \<and>
     opt_all (BusinessPhaseSchema iso_datetime) (tc_phase c) \<and>
     BusinessSummarySchema (tc_summary c) \<and> BusinessActiveRefsSchema (tc_activeRefs c) \<and>
     list_all (kindRef Artifact) (tc_artifactRefs c) \<and>
     list_all (kindRef Action) (tc_actionRefs c) \<and>
     list_all (kindRef InputRequest) (tc_requiredInputRefs c) \<and>
     list_all (kindRef Intervention) (tc_interventionRefs c) \<and>
     iso_datetime (tc_updatedAt c) \<and> opt_all iso_datetime (tc_finalizedAt c)"

subsection \<open>Feedback bodies\<close>

datatype severity = Info | Warning | Critical

record legacy_alias =
  la_sourceId :: string
  la_sourceStreamId :: string
  la_sourceSequence :: string
  la_sourceEventId :: string

record event_change =
  ev_eventType :: string
  ev_severity :: severity
  ev_reasonCode :: string
  ev_description :: string
  ev_subjects :: "object_ref list option"
  ev_data :: "jobj option"
  ev_contextDelta :: "context_delta option"
  ev_legacyAlias :: "legacy_alias option"

definition BusinessEventChangeSchema :: "(string \<Rightarrow> bool) \<Rightarrow> event_change \<Rightarrow> bool" where
  "BusinessEventChangeSchema iso_datetime e \<longleftrightarrow>
     identifier_ok (ev_eventType e) \<and> identifier_ok (ev_reasonCode e) \<and>
     opt_all (list_all BusinessObjectRefSchema) (ev_subjects e) \<and>
     opt_all (BusinessContextDeltaSchema iso_datetime) (ev_contextDelta e) \<and>
     opt_all (\<lambda>a. identifier_ok (la_sourceId a) \<and> identifier_ok (la_sourceStreamId a) \<and>
                  positiveSequence (la_sourceSequence a) \<and> identifier_ok (la_sourceEventId a))
             (ev_legacyAlias e)"

datatype change_kind = Create | Update | Invalidate | Archive

record artifact_change =
  ar_change :: change_kind
  ar_artifactRef :: object_ref
  ar_previousRevision :: "int option"
  ar_reasonCode :: string
  ar_changedFields :: "string list option"

definition ArtifactChangedSchema :: "artifact_change \<Rightarrow> bool" where
  "ArtifactChangedSchema c \<longleftrightarrow>
     kindRef Artifact (ar_artifactRef c) \<and> opt_all revision_ok (ar_previousRevision c) \<and>
     identifier_ok (ar_reasonCode c) \<and> opt_all (list_all identifier_ok) (ar_changedFields c)"

text \<open>The change of an action, a required input or an intervention: \<open>Create\<close> or \<open>Update\<close>.\<close>

record object_change =
  oc_change :: change_kind
  oc_ref :: object_ref
  oc_previousRevision :: "int option"
  oc_reasonCode :: string

definition changedSchema :: "object_kind \<Rightarrow> object_change \<Rightarrow> bool" where
  "changedSchema k c \<longleftrightarrow>
     (oc_change c = Create \<or> oc_change c = Update) \<and> kindRef k (oc_ref c) \<and>
     opt_all revision_ok (oc_previousRevision c) \<and> identifier_ok (oc_reasonCode c)"

record context_finalized =
  fi_reasonCode :: string
  fi_finalContextRevision :: int
  fi_summary :: business_summary
  fi_artifactRefs :: "object_ref list"
  fi_actionRefs :: "object_ref list"
  fi_finalizedAt :: string

definition BusinessContextFinalizedSchema :: "(string \<Rightarrow> bool) \<Rightarrow> context_finalized \<Rightarrow> bool" where
  "BusinessContextFinalizedSchema iso_datetime f \<longleftrightarrow>
     identifier_ok (fi_reasonCode f) \<and> contextRevision_ok (fi_finalContextRevision f) \<and>
     su_status (fi_summary f) = Finalized \<and> BusinessSummarySchema (fi_summary f) \<and>
     list_all (kindRef Artifact) (fi_artifactRefs f) \<and> list_all (kindRef Action) (fi_actionRefs f) \<and>
     iso_datetime (fi_finalizedAt f)"

datatype payload =
    BUSINESS_EVENT event_change
  | ARTIFACT_CHANGED artifact_change
  | ACTION_CHANGED object_change
  | REQUIRED_INPUT_CHANGED object_change
  | INTERVENTION_CHANGED object_change
  | CONTEXT_FINALIZED context_finalized

fun payload_ok :: "(string \<Rightarrow> bool) \<Rightarrow> payload \<Rightarrow> bool" where
  "payload_ok iso_datetime (BUSINESS_EVENT e) = BusinessEventChangeSchema iso_datetime e"
| "payload_ok iso_datetime (ARTIFACT_CHANGED c) = ArtifactChangedSchema c"
| "payload_ok iso_datetime (ACTION_CHANGED c) = changedSchema Action c"
| "payload_ok iso_datetime (REQUIRED_INPUT_CHANGED c) = changedSchema InputRequest c"
| "payload_ok iso_datetime (INTERVENTION_CHANGED c) = changedSchema Intervention c"
| "payload_ok iso_datetime (CONTEXT_FINALIZED f) = BusinessContextFinalizedSchema iso_datetime f"

text \<open>The known bodies and the opaque extensions; \<open>required\<close> is \<open>false\<close> on an extension.\<close>

datatype body_payload = Known payload | Opaque string json

record feedback_body =
  fb_schemaVersion :: string
  fb_contextRevision :: int
  fb_providerRecordedAt :: string
  fb_payload :: body_payload

definition TASK_BUSINESS_FEEDBACK_SCHEMA_VERSION :: string where
  "TASK_BUSINESS_FEEDBACK_SCHEMA_VERSION = ''sdar.task-business-feedback/1.0-rc2''"

definition knownFeedbackKinds :: "string list" where
  "knownFeedbackKinds =
     [''BUSINESS_EVENT'', ''ARTIFACT_CHANGED'', ''ACTION_CHANGED'', ''REQUIRED_INPUT_CHANGED'',
      ''INTERVENTION_CHANGED'', ''CONTEXT_FINALIZED'']"

definition feedbackCommon :: "(string \<Rightarrow> bool) \<Rightarrow> feedback_body \<Rightarrow> bool" where
  "feedbackCommon iso_datetime b \<longleftrightarrow>
     fb_schemaVersion b = TASK_BUSINESS_FEEDBACK_SCHEMA_VERSION \<and>
     contextRevision_ok (fb_contextRevision b) \<and> iso_datetime (fb_providerRecordedAt b)"

definition TaskBusinessFeedbackBodySchema :: "(string \<Rightarrow> bool) \<Rightarrow> feedback_body \<Rightarrow> bool" where
  "TaskBusinessFeedbackBodySchema iso_datetime b \<longleftrightarrow>
     feedbackCommon iso_datetime b \<and>
     (case fb_payload b of Known p \<Rightarrow> payload_ok iso_datetime p | Opaque _ _ \<Rightarrow> False)"

definition OptionalTaskBusinessExtensionSchema :: "(string \<Rightarrow> bool) \<Rightarrow> feedback_body \<Rightarrow> bool" where
  "OptionalTaskBusinessExtensionSchema iso_datetime b \<longleftrightarrow>
     feedbackCommon iso_datetime b \<and>
     (case fb_payload b of
        Known _ \<Rightarrow> False
      | Opaque kind _ \<Rightarrow> identifier_ok kind \<and> kind \<notin> set knownFeedbackKinds)"

definition parseTaskBusinessFeedbackBody :: "(string \<Rightarrow> bool) \<Rightarrow> feedback_body \<Rightarrow> feedback_body result" where
  "parseTaskBusinessFeedbackBody iso_datetime b =
     (if fb_schemaVersion b \<noteq> TASK_BUSINESS_FEEDBACK_SCHEMA_VERSION
      then Inl ''UNSUPPORTED_BUSINESS_SCHEMA_VERSION''
      else if TaskBusinessFeedbackBodySchema iso_datetime b then Inr b
      else if OptionalTaskBusinessExtensionSchema iso_datetime b then Inr b
      else Inl ''BUSINESS_PAYLOAD_INVALID'')"

lemma parsed_body_Inr [result_simps]:
  "parseTaskBusinessFeedbackBody iso_datetime b = Inr b' \<longleftrightarrow>
     b' = b \<and> (TaskBusinessFeedbackBodySchema iso_datetime b \<or>
                OptionalTaskBusinessExtensionSchema iso_datetime b)"
  by (auto simp: parseTaskBusinessFeedbackBody_def TaskBusinessFeedbackBodySchema_def
      OptionalTaskBusinessExtensionSchema_def feedbackCommon_def)

end
