(* ===== verification/Interaction.thy ===== *)
theory Interaction
  imports BusinessTypes Interfaces DomainTiming
begin

text \<open>
  packages/vehicle-provider-core/src/task-business-interaction.ts: Actions, Required Inputs and
  Runtime Interventions, the versions each may take, and the preflight of the commands that answer
  an input or submit an intervention. Parameters: \<open>iso_datetime\<close>, what the schema library
  decides about date-times, and \<open>ajv\<close>, the JSON Schema compiler: \<open>ajv schema\<close> is \<open>None\<close>
  when the schema does not compile and its validator otherwise. The cache of validators is keyed
  by the content of the schema and does not show.
\<close>

subsection \<open>Actions\<close>

text \<open>Truthiness of an optional string.\<close>

definition truthy :: "string option \<Rightarrow> bool" where
  "truthy s \<longleftrightarrow> (case s of None \<Rightarrow> False | Some t \<Rightarrow> t \<noteq> [])"

text \<open>A condition on an optional time that is there: \<open>time && cond\<close>.\<close>

definition at_time :: "string option \<Rightarrow> (string \<Rightarrow> bool) \<Rightarrow> bool" where
  "at_time t P \<longleftrightarrow> (case t of None \<Rightarrow> False | Some s \<Rightarrow> s \<noteq> [] \<and> P s)"

datatype actor_type = Device | Provider | Agent | User | Operator | System

record actor_ref =
  at_type :: actor_type
  at_actorId :: "string option"

datatype action_type = Visual_lock | Visual_reacquire | Navigation_replan | Recon_resume_scan

datatype trigger_origin =
  device_automatic | provider_policy | agent_command | user_command | operator_command | unknown_origin

datatype action_state = Requested | Active | Completed | Failed | Cancelled

record action_cause =
  ca_messageId :: "string option"
  ca_eventType :: "string option"
  ca_policyRef :: "string option"

record business_action =
  ba_schemaVersion :: string
  ba_actionId :: string
  ba_actionType :: action_type
  ba_identity :: business_identity
  ba_revision :: int
  ba_state :: action_state
  ba_actor :: actor_ref
  ba_triggerOrigin :: trigger_origin
  ba_subjectRefs :: "object_ref list option"
  ba_cause :: "action_cause option"
  ba_reasonCode :: string
  ba_requestedAt :: "string option"
  ba_startedAt :: "string option"
  ba_endedAt :: "string option"
  ba_endReason :: "string option"
  ba_properties :: "jobj option"

definition objectRefs :: "object_ref list \<Rightarrow> bool" where
  "objectRefs rs \<longleftrightarrow> length rs \<le> 100 \<and> list_all BusinessObjectRefSchema rs"

definition id_record :: "jobj \<Rightarrow> bool" where
  "id_record kvs \<longleftrightarrow> list_all (\<lambda>(k, _). identifier_ok k) kvs"

text \<open>The members of an action, and the issues that \<open>superRefine\<close> adds.\<close>

definition action_members :: "(string \<Rightarrow> bool) \<Rightarrow> business_action \<Rightarrow> bool" where
  "action_members iso_datetime a \<longleftrightarrow>
     ba_schemaVersion a = ''sdar.business-action/1.0-rc2'' \<and>
     identifier_ok (ba_actionId a) \<and> TaskBusinessIdentitySchema (ba_identity a) \<and>
     revision_ok (ba_revision a) \<and> opt_all identifier_ok (at_actorId (ba_actor a)) \<and>
     opt_all objectRefs (ba_subjectRefs a) \<and>
     opt_all (\<lambda>c. opt_all identifier_ok (ca_messageId c) \<and> opt_all identifier_ok (ca_eventType c) \<and>
                  opt_all identifier_ok (ca_policyRef c)) (ba_cause a) \<and>
     identifier_ok (ba_reasonCode a) \<and>
     opt_all iso_datetime (ba_requestedAt a) \<and> opt_all iso_datetime (ba_startedAt a) \<and>
     opt_all iso_datetime (ba_endedAt a) \<and> opt_all identifier_ok (ba_endReason a) \<and>
     opt_all id_record (ba_properties a)"

definition started_or_requested :: "business_action \<Rightarrow> string option" where
  "started_or_requested a =
     (case ba_startedAt a of Some s \<Rightarrow> Some s | None \<Rightarrow> ba_requestedAt a)"

definition action_issues :: "business_action \<Rightarrow> string list" where
  "action_issues a =
     issue_if (at_time (ba_startedAt a) (\<lambda>s.
                at_time (ba_requestedAt a) (\<lambda>r. compareIsoTimestamps s r < 0)))
       ''ACTION_TIME_ORDER_INVALID'' @
     issue_if (at_time (ba_endedAt a) (\<lambda>e.
                at_time (started_or_requested a) (\<lambda>s. compareIsoTimestamps e s < 0)))
       ''ACTION_TIME_ORDER_INVALID'' @
     issue_if (ba_state a = Requested \<and>
               (\<not> truthy (ba_requestedAt a) \<or> truthy (ba_startedAt a) \<or> truthy (ba_endedAt a) \<or>
                truthy (ba_endReason a)))
       ''ACTION_NOT_STARTED'' @
     issue_if (\<not> truthy (ba_requestedAt a) \<and>
               (at_type (ba_actor a) \<noteq> Device \<or>
                ba_triggerOrigin a \<notin> {device_automatic, unknown_origin}))
       ''ACTION_REQUEST_TIME_REQUIRED'' @
     issue_if (ba_state a = Active \<and>
               (\<not> truthy (ba_startedAt a) \<or> truthy (ba_endedAt a) \<or> truthy (ba_endReason a)))
       ''ACTION_ACTIVE_TIME_INVALID'' @
     issue_if (ba_state a \<in> {Completed, Failed, Cancelled} \<and>
               (\<not> truthy (ba_endedAt a) \<or> \<not> truthy (ba_endReason a) \<or>
                (\<not> truthy (ba_startedAt a) \<and> \<not> truthy (ba_requestedAt a))))
       ''ACTION_TERMINAL_REASON_REQUIRED'' @
     issue_if (ba_actionType a = Visual_lock \<and> ba_endReason a = Some ''VISUAL_LOCK_LOST'' \<and>
               ba_state a \<noteq> Failed)
       ''VISUAL_LOSS_MUST_FAIL''"

definition BusinessActionSchema :: "(string \<Rightarrow> bool) \<Rightarrow> business_action \<Rightarrow> bool" where
  "BusinessActionSchema iso_datetime a \<longleftrightarrow> action_members iso_datetime a \<and> action_issues a = []"

fun action_allowed :: "action_state \<Rightarrow> action_state list" where
  "action_allowed Requested = [Requested, Active, Failed, Cancelled]"
| "action_allowed Active = [Active, Completed, Failed, Cancelled]"
| "action_allowed Completed = []"
| "action_allowed Failed = []"
| "action_allowed Cancelled = []"

definition assertActionTransition ::
    "(string \<Rightarrow> bool) \<Rightarrow> business_action \<Rightarrow> business_action \<Rightarrow> unit result" where
  "assertActionTransition iso_datetime previous new =
     bind_r (zod (BusinessActionSchema iso_datetime new)) (\<lambda>_.
     if \<not> sameExecution (ba_identity previous) (ba_identity new) \<or>
        ba_actionId previous \<noteq> ba_actionId new \<or> ba_actionType previous \<noteq> ba_actionType new
     then Inl ''ACTION_IDENTITY_CHANGED''
     else if ba_revision new \<noteq> ba_revision previous + 1 then Inl ''ACTION_REVISION_CONFLICT''
     else if ba_requestedAt new \<noteq> ba_requestedAt previous \<or>
        (ba_startedAt previous \<noteq> None \<and> ba_startedAt new \<noteq> ba_startedAt previous)
     then Inl ''ACTION_OBSERVATION_TIME_CHANGED''
     else if ba_state new \<notin> set (action_allowed (ba_state previous))
     then Inl ''ACTION_STATE_TRANSITION_INVALID''
     else Inr ())"

subsection \<open>Required Inputs\<close>

datatype subject_binding =
    Lock_binding string string object_ref
  | Artifact_binding object_ref

fun InputSubjectBindingSchema :: "subject_binding \<Rightarrow> bool" where
  "InputSubjectBindingSchema (Lock_binding targetId lockSessionId actionRef) \<longleftrightarrow>
     identifier_ok targetId \<and> identifier_ok lockSessionId \<and> kindRef Action actionRef"
| "InputSubjectBindingSchema (Artifact_binding artifactRef) \<longleftrightarrow> kindRef Artifact artifactRef"

datatype input_state = Pending | Answered | Declined | Cancelled_input | Expired

datatype responder_type = User_responder | Agent_responder | Operator_responder

datatype disposition = release_and_resume_scan | end_observation | reissue_request

datatype response_action = Accept | Decline | Cancel

record input_response =
  rs_action :: response_action
  rs_value :: "json option"

record required_input =
  ri_schemaVersion :: string
  ri_requestId :: string
  ri_requestKey :: string
  ri_inputType :: string
  ri_identity :: business_identity
  ri_revision :: int
  ri_blocking :: bool
  ri_state :: input_state
  ri_requiredResponder :: responder_type
  ri_subjectBinding :: subject_binding
  ri_waitingPolicy :: string
  ri_onExpire :: disposition
  ri_onDismiss :: disposition
  ri_onDecline :: disposition
  ri_title :: string
  ri_description :: "string option"
  ri_inputSchema :: jobj
  ri_reasonCode :: string
  ri_requestedAt :: string
  ri_deadlineAt :: "string option"
  ri_resolvedAt :: "string option"
  ri_responseCommandId :: "string option"
  ri_response :: "input_response option"

definition input_members :: "(string \<Rightarrow> bool) \<Rightarrow> required_input \<Rightarrow> bool" where
  "input_members iso_datetime r \<longleftrightarrow>
     ri_schemaVersion r = ''sdar.required-input/1.0-rc2'' \<and>
     identifier_ok (ri_requestId r) \<and> identifier_ok (ri_requestKey r) \<and>
     identifier_ok (ri_inputType r) \<and> TaskBusinessIdentitySchema (ri_identity r) \<and>
     revision_ok (ri_revision r) \<and> ri_blocking r \<and>
     InputSubjectBindingSchema (ri_subjectBinding r) \<and> ri_waitingPolicy r = ''pause_execution'' \<and>
     identifier_ok (ri_title r) \<and> opt_all (\<lambda>d. length d \<le> 2000) (ri_description r) \<and>
     id_record (ri_inputSchema r) \<and> identifier_ok (ri_reasonCode r) \<and>
     iso_datetime (ri_requestedAt r) \<and> opt_all iso_datetime (ri_deadlineAt r) \<and>
     opt_all iso_datetime (ri_resolvedAt r) \<and> opt_all identifier_ok (ri_responseCommandId r)"

definition response_action_of :: "required_input \<Rightarrow> response_action option" where
  "response_action_of r = map_option rs_action (ri_response r)"

definition input_issues :: "required_input \<Rightarrow> string list" where
  "input_issues r =
     issue_if (at_time (ri_deadlineAt r) (\<lambda>d. compareIsoTimestamps d (ri_requestedAt r) \<le> 0))
       ''INPUT_DEADLINE_INVALID'' @
     issue_if (ri_state r = Pending \<and>
               (ri_response r \<noteq> None \<or> truthy (ri_resolvedAt r) \<or> truthy (ri_responseCommandId r)))
       ''PENDING_INPUT_HAS_RESULT'' @
     issue_if (ri_state r \<noteq> Pending \<and> \<not> truthy (ri_resolvedAt r))
       ''INPUT_RESOLUTION_TIME_REQUIRED'' @
     issue_if (at_time (ri_resolvedAt r) (\<lambda>d. compareIsoTimestamps d (ri_requestedAt r) < 0))
       ''INPUT_RESOLUTION_BEFORE_REQUEST'' @
     issue_if (ri_state r = Answered \<and> response_action_of r \<noteq> Some Accept \<or>
               ri_state r = Declined \<and> response_action_of r \<noteq> Some Decline)
       ''INPUT_STATE_RESPONSE_MISMATCH'' @
     issue_if (ri_state r = Expired \<and> ri_response r \<noteq> None) ''EXPIRED_INPUT_HAS_RESPONSE'' @
     issue_if (ri_state r = Cancelled_input \<and> response_action_of r \<notin> {None, Some Cancel})
       ''INPUT_STATE_RESPONSE_MISMATCH'' @
     issue_if (ri_response r \<noteq> None \<and> \<not> truthy (ri_responseCommandId r))
       ''INPUT_RESPONSE_COMMAND_REQUIRED'' @
     issue_if (ri_response r = None \<and> truthy (ri_responseCommandId r))
       ''INPUT_RESPONSE_COMMAND_UNEXPECTED''"

definition RequiredInputSchema :: "(string \<Rightarrow> bool) \<Rightarrow> required_input \<Rightarrow> bool" where
  "RequiredInputSchema iso_datetime r \<longleftrightarrow> input_members iso_datetime r \<and> input_issues r = []"

text \<open>\<open>isDeepStrictEqual\<close> on JSON values: the order of the members does not matter.\<close>

fun deep_equal :: "json \<Rightarrow> json \<Rightarrow> bool" where
  "deep_equal (JObj kvs) w =
     (case w of
        JObj us \<Rightarrow>
          length kvs = length us \<and>
          list_all (\<lambda>(k, v). case map_of us k of None \<Rightarrow> False | Some u \<Rightarrow> deep_equal v u) kvs
      | _ \<Rightarrow> False)"
| "deep_equal (JArr vs) w =
     (case w of JArr us \<Rightarrow> list_all2 deep_equal vs us | _ \<Rightarrow> False)"
| "deep_equal v w = (v = w)"

definition assertRequiredInputTransition ::
    "(string \<Rightarrow> bool) \<Rightarrow> required_input \<Rightarrow> required_input \<Rightarrow> unit result" where
  "assertRequiredInputTransition iso_datetime previous new =
     bind_r (zod (RequiredInputSchema iso_datetime new)) (\<lambda>_.
     if \<not> sameExecution (ri_identity previous) (ri_identity new) \<or>
        ri_requestId previous \<noteq> ri_requestId new \<or> ri_requestKey previous \<noteq> ri_requestKey new \<or>
        ri_inputType previous \<noteq> ri_inputType new
     then Inl ''INPUT_IDENTITY_CHANGED''
     else if ri_revision new \<noteq> ri_revision previous + 1 then Inl ''REQUEST_REVISION_CONFLICT''
     else if \<not> deep_equal (JObj (ri_inputSchema previous)) (JObj (ri_inputSchema new)) \<or>
        ri_subjectBinding previous \<noteq> ri_subjectBinding new \<or>
        ri_requiredResponder previous \<noteq> ri_requiredResponder new \<or>
        ri_onExpire previous \<noteq> ri_onExpire new \<or> ri_onDismiss previous \<noteq> ri_onDismiss new \<or>
        ri_onDecline previous \<noteq> ri_onDecline new \<or> ri_requestedAt previous \<noteq> ri_requestedAt new \<or>
        ri_deadlineAt previous \<noteq> ri_deadlineAt new
     then Inl ''NEW_REQUEST_REQUIRED''
     else if ri_state previous \<noteq> Pending then Inl ''INPUT_STATE_TRANSITION_INVALID''
     else Inr ())"

subsection \<open>Runtime Interventions\<close>

datatype intervention_type =
  Adjust_plan | Change_destination | Adjust_area | Adjust_scan | Change_visual_lock

datatype intervention_state = Available | Submitted | Applying | Applied | Failed_intervention
  | Expired_intervention | Withdrawn

record intervention =
  iv_schemaVersion :: string
  iv_interventionId :: string
  iv_interventionType :: intervention_type
  iv_identity :: business_identity
  iv_revision :: int
  iv_effectivePlanRevision :: int
  iv_blocking :: bool
  iv_state :: intervention_state
  iv_title :: string
  iv_description :: "string option"
  iv_inputSchema :: jobj
  iv_appliesTo :: "object_ref list option"
  iv_reasonCode :: string
  iv_createdAt :: string
  iv_validUntil :: "string option"
  iv_acceptedCommandId :: "string option"
  iv_resultRefs :: "object_ref list option"

definition intervention_members :: "(string \<Rightarrow> bool) \<Rightarrow> intervention \<Rightarrow> bool" where
  "intervention_members iso_datetime v \<longleftrightarrow>
     iv_schemaVersion v = ''sdar.runtime-intervention/1.0-rc2'' \<and>
     identifier_ok (iv_interventionId v) \<and> TaskBusinessIdentitySchema (iv_identity v) \<and>
     revision_ok (iv_revision v) \<and> contextRevision_ok (iv_effectivePlanRevision v) \<and>
     \<not> iv_blocking v \<and> identifier_ok (iv_title v) \<and>
     opt_all (\<lambda>d. length d \<le> 2000) (iv_description v) \<and> id_record (iv_inputSchema v) \<and>
     opt_all objectRefs (iv_appliesTo v) \<and> identifier_ok (iv_reasonCode v) \<and>
     iso_datetime (iv_createdAt v) \<and> opt_all iso_datetime (iv_validUntil v) \<and>
     opt_all identifier_ok (iv_acceptedCommandId v) \<and> opt_all objectRefs (iv_resultRefs v)"

definition intervention_issues :: "intervention \<Rightarrow> string list" where
  "intervention_issues v =
     issue_if (at_time (iv_validUntil v) (\<lambda>u. compareIsoTimestamps u (iv_createdAt v) \<le> 0))
       ''INTERVENTION_EXPIRY_INVALID'' @
     issue_if (iv_state v = Available \<and> truthy (iv_acceptedCommandId v))
       ''AVAILABLE_INTERVENTION_ALREADY_ACCEPTED'' @
     issue_if (iv_state v \<in> {Submitted, Applying, Applied, Failed_intervention} \<and>
               \<not> truthy (iv_acceptedCommandId v))
       ''ACCEPTED_COMMAND_REQUIRED'' @
     issue_if (iv_state v = Applied \<and>
               (case iv_resultRefs v of None \<Rightarrow> True | Some rs \<Rightarrow> rs = []))
       ''APPLIED_RESULT_REQUIRED''"

definition RuntimeInterventionSchema :: "(string \<Rightarrow> bool) \<Rightarrow> intervention \<Rightarrow> bool" where
  "RuntimeInterventionSchema iso_datetime v \<longleftrightarrow>
     intervention_members iso_datetime v \<and> intervention_issues v = []"

fun intervention_allowed :: "intervention_state \<Rightarrow> intervention_state list" where
  "intervention_allowed Available = [Available, Submitted, Expired_intervention, Withdrawn]"
| "intervention_allowed Submitted = [Applying, Failed_intervention, Withdrawn]"
| "intervention_allowed Applying = [Applied, Failed_intervention, Withdrawn]"
| "intervention_allowed Applied = []"
| "intervention_allowed Failed_intervention = []"
| "intervention_allowed Expired_intervention = []"
| "intervention_allowed Withdrawn = []"

definition assertInterventionTransition ::
    "(string \<Rightarrow> bool) \<Rightarrow> intervention \<Rightarrow> intervention \<Rightarrow> unit result" where
  "assertInterventionTransition iso_datetime previous new =
     bind_r (zod (RuntimeInterventionSchema iso_datetime new)) (\<lambda>_.
     if \<not> sameExecution (iv_identity previous) (iv_identity new) \<or>
        iv_interventionId previous \<noteq> iv_interventionId new \<or>
        iv_interventionType previous \<noteq> iv_interventionType new
     then Inl ''INTERVENTION_IDENTITY_CHANGED''
     else if iv_revision new \<noteq> iv_revision previous + 1
     then Inl ''INTERVENTION_REVISION_CONFLICT''
     else if iv_effectivePlanRevision new \<noteq> iv_effectivePlanRevision previous
     then Inl ''NEW_INTERVENTION_REQUIRED''
     else if \<not> deep_equal (JObj (iv_inputSchema previous)) (JObj (iv_inputSchema new)) \<or>
        iv_appliesTo previous \<noteq> iv_appliesTo new \<or> iv_createdAt previous \<noteq> iv_createdAt new \<or>
        iv_validUntil previous \<noteq> iv_validUntil new
     then Inl ''NEW_INTERVENTION_REQUIRED''
     else if truthy (iv_acceptedCommandId previous) \<and>
        iv_acceptedCommandId new \<noteq> iv_acceptedCommandId previous
     then Inl ''INTERVENTION_COMMAND_CHANGED''
     else if iv_state new \<notin> set (intervention_allowed (iv_state previous))
     then Inl ''INTERVENTION_STATE_TRANSITION_INVALID''
     else Inr ())"

subsection \<open>Responders and commands\<close>

text \<open>The value the Runtime passes on, and the schema it is checked with.\<close>

definition taskBusinessResponder :: "responder_value \<Rightarrow> json" where
  "taskBusinessResponder responder =
     (if rv_source responder = JStr ''development''
      then JObj [(''source'', JStr ''runtime_development_policy''),
                 (''actorType'', JStr ''development_anonymous''), (''verified'', JBool False)]
      else JObj [(''source'', JStr ''runtime_authorization_context''),
                 (''actorType'', rv_actorType responder), (''verified'', JBool True)])"

datatype trusted_responder = Authorization_context responder_type | Development_policy

definition responder_names :: "(string \<times> responder_type) list" where
  "responder_names =
     [(''user'', User_responder), (''agent'', Agent_responder), (''operator'', Operator_responder)]"

definition responder_named :: "json option \<Rightarrow> responder_type option" where
  "responder_named v = (case v of Some (JStr s) \<Rightarrow> map_of responder_names s | _ \<Rightarrow> None)"

definition TrustedResponderSchema :: "json \<Rightarrow> trusted_responder option" where
  "TrustedResponderSchema v =
     (case v of
        JObj kvs \<Rightarrow>
          if \<not> list_all (\<lambda>(k, _). k \<in> set [''source'', ''actorType'', ''verified'']) kvs then None
          else if map_of kvs ''source'' = Some (JStr ''runtime_authorization_context'')
          then (if map_of kvs ''verified'' = Some (JBool True)
                then map_option Authorization_context (responder_named (map_of kvs ''actorType''))
                else None)
          else if map_of kvs ''source'' = Some (JStr ''runtime_development_policy'') \<and>
                  map_of kvs ''actorType'' = Some (JStr ''development_anonymous'') \<and>
                  map_of kvs ''verified'' = Some (JBool False)
          then Some Development_policy
          else None
      | _ \<Rightarrow> None)"

datatype business_guard = Semantic int | Legacy_strict int

fun BusinessGuardSchema :: "business_guard \<Rightarrow> bool" where
  "BusinessGuardSchema (Semantic n) \<longleftrightarrow> revision_ok n"
| "BusinessGuardSchema (Legacy_strict n) \<longleftrightarrow> contextRevision_ok n"

datatype intervention_guard = Semantic_plan int int | Legacy_plan int

fun InterventionGuardSchema :: "intervention_guard \<Rightarrow> bool" where
  "InterventionGuardSchema (Semantic_plan n p) \<longleftrightarrow> revision_ok n \<and> contextRevision_ok p"
| "InterventionGuardSchema (Legacy_plan n) \<longleftrightarrow> contextRevision_ok n"

record input_command =
  ic_schemaVersion :: string
  ic_commandId :: string
  ic_taskId :: string
  ic_executionId :: string
  ic_requestId :: string
  ic_requestKey :: string
  ic_guard :: business_guard
  ic_result :: input_response

definition RequiredInputResponseCommandSchema :: "input_command \<Rightarrow> bool" where
  "RequiredInputResponseCommandSchema c \<longleftrightarrow>
     ic_schemaVersion c = ''sdar.required-input-response/1.0-rc2'' \<and>
     identifier_ok (ic_commandId c) \<and> identifier_ok (ic_taskId c) \<and>
     identifier_ok (ic_executionId c) \<and> identifier_ok (ic_requestId c) \<and>
     identifier_ok (ic_requestKey c) \<and> BusinessGuardSchema (ic_guard c)"

record intervention_command =
  vc_schemaVersion :: string
  vc_commandId :: string
  vc_taskId :: string
  vc_executionId :: string
  vc_interventionId :: string
  vc_guard :: intervention_guard
  vc_input :: jobj

definition RuntimeInterventionCommandSchema :: "intervention_command \<Rightarrow> bool" where
  "RuntimeInterventionCommandSchema c \<longleftrightarrow>
     vc_schemaVersion c = ''sdar.runtime-intervention-command/1.0-rc2'' \<and>
     identifier_ok (vc_commandId c) \<and> identifier_ok (vc_taskId c) \<and>
     identifier_ok (vc_executionId c) \<and> identifier_ok (vc_interventionId c) \<and>
     InterventionGuardSchema (vc_guard c) \<and> id_record (vc_input c)"

subsection \<open>Preflight\<close>

text \<open>\<open>limit && now.getTime() >= Date.parse(limit)\<close>; no comparison holds with NaN.\<close>

definition past :: "int \<Rightarrow> string option \<Rightarrow> bool" where
  "past now limit \<longleftrightarrow>
     at_time limit (\<lambda>s. case date_parse s of None \<Rightarrow> False | Some t \<Rightarrow> t \<le> now)"

text \<open>An instant is \<open>None\<close> when the \<open>Date\<close> is invalid.\<close>

definition assertRequiredInputOpenAt ::
    "(string \<Rightarrow> bool) \<Rightarrow> required_input \<Rightarrow> int option \<Rightarrow> unit result" where
  "assertRequiredInputOpenAt iso_datetime request now =
     bind_r (zod (RequiredInputSchema iso_datetime request)) (\<lambda>_.
     case now of
       None \<Rightarrow> Inl ''BUSINESS_COMMAND_TIME_INVALID''
     | Some t \<Rightarrow>
         if ri_state request \<noteq> Pending then Inl ''INPUT_NOT_PENDING''
         else if past t (ri_deadlineAt request) then Inl ''INPUT_DEADLINE_EXPIRED''
         else Inr ())"

definition assertInterventionAvailableAt ::
    "(string \<Rightarrow> bool) \<Rightarrow> intervention \<Rightarrow> int option \<Rightarrow> unit result" where
  "assertInterventionAvailableAt iso_datetime intervention now =
     bind_r (zod (RuntimeInterventionSchema iso_datetime intervention)) (\<lambda>_.
     case now of
       None \<Rightarrow> Inl ''BUSINESS_COMMAND_TIME_INVALID''
     | Some t \<Rightarrow>
         if iv_state intervention \<noteq> Available then Inl ''INTERVENTION_NOT_AVAILABLE''
         else if past t (iv_validUntil intervention) then Inl ''INTERVENTION_EXPIRED''
         else Inr ())"

type_synonym schema_compiler = "jobj \<Rightarrow> (json option \<Rightarrow> bool) option"

definition compileBusinessEntryInputSchema ::
    "schema_compiler \<Rightarrow> jobj \<Rightarrow> string \<Rightarrow> (json option \<Rightarrow> bool) result" where
  "compileBusinessEntryInputSchema ajv schema errorCode =
     (case ajv schema of None \<Rightarrow> Inl errorCode | Some validate \<Rightarrow> Inr validate)"

definition assertBusinessEntryInputSchema ::
    "schema_compiler \<Rightarrow> jobj \<Rightarrow> string \<Rightarrow> unit result" where
  "assertBusinessEntryInputSchema ajv schema errorCode =
     bind_r (compileBusinessEntryInputSchema ajv schema errorCode) (\<lambda>_. Inr ())"

definition assertCommandInputSchema ::
    "schema_compiler \<Rightarrow> jobj \<Rightarrow> json option \<Rightarrow> string \<Rightarrow> string \<Rightarrow> unit result" where
  "assertCommandInputSchema ajv schema v schemaError inputError =
     bind_r (compileBusinessEntryInputSchema ajv schema schemaError) (\<lambda>validate.
       throw_if (\<not> validate v) inputError)"

definition responder_authorized :: "trusted_responder option \<Rightarrow> responder_type \<Rightarrow> bool" where
  "responder_authorized responder required \<longleftrightarrow>
     (case responder of
        None \<Rightarrow> False
      | Some Development_policy \<Rightarrow> True
      | Some (Authorization_context t) \<Rightarrow> t = required)"

datatype next_disposition = Await_result | Dispose disposition

definition assessRequiredInputResponse ::
    "(string \<Rightarrow> bool) \<Rightarrow> schema_compiler \<Rightarrow> required_input \<Rightarrow> input_command \<Rightarrow> json \<Rightarrow> int \<Rightarrow>
       subject_binding \<Rightarrow> int option \<Rightarrow> (response_action \<times> next_disposition) result" where
  "assessRequiredInputResponse iso_datetime ajv request command responder currentContextRevision
       currentSubjectBinding now =
     bind_r (zod (RequiredInputSchema iso_datetime request)) (\<lambda>_.
     bind_r (zod (RequiredInputResponseCommandSchema command)) (\<lambda>_.
     if bi_taskId (ri_identity request) \<noteq> ic_taskId command \<or>
        bi_executionId (ri_identity request) \<noteq> ic_executionId command \<or>
        ri_requestId request \<noteq> ic_requestId command \<or>
        ri_requestKey request \<noteq> ic_requestKey command
     then Inl ''INPUT_BINDING_INVALID''
     else
       bind_r (assertRequiredInputOpenAt iso_datetime request now) (\<lambda>_.
       if \<not> responder_authorized (TrustedResponderSchema responder) (ri_requiredResponder request)
       then Inl ''RESPONDER_NOT_AUTHORIZED''
       else if ri_subjectBinding request \<noteq> currentSubjectBinding
       then Inl ''SUBJECT_NO_LONGER_VALID''
       else
         bind_r (case ic_guard command of
                   Semantic n \<Rightarrow> throw_if (n \<noteq> ri_revision request) ''REQUEST_REVISION_CONFLICT''
                 | Legacy_strict n \<Rightarrow>
                     throw_if (n \<noteq> currentContextRevision) ''CONTEXT_REVISION_CONFLICT'') (\<lambda>_.
         bind_r (if rs_action (ic_result command) = Accept
                 then assertCommandInputSchema ajv (ri_inputSchema request) (rs_value (ic_result command))
                        ''INVALID_INPUT_SCHEMA'' ''INVALID_INPUT_RESPONSE''
                 else Inr ()) (\<lambda>_.
         Inr (rs_action (ic_result command),
              if rs_action (ic_result command) = Accept then Await_result
              else if rs_action (ic_result command) = Cancel then Dispose (ri_onDismiss request)
              else Dispose (ri_onDecline request)))))))"

definition assertInterventionCommand ::
    "(string \<Rightarrow> bool) \<Rightarrow> schema_compiler \<Rightarrow> intervention \<Rightarrow> intervention_command \<Rightarrow> int \<Rightarrow> int \<Rightarrow>
       int option \<Rightarrow> unit result" where
  "assertInterventionCommand iso_datetime ajv intervention command currentContextRevision
       currentEffectivePlanRevision now =
     bind_r (zod (RuntimeInterventionSchema iso_datetime intervention)) (\<lambda>_.
     bind_r (zod (RuntimeInterventionCommandSchema command)) (\<lambda>_.
     if bi_taskId (iv_identity intervention) \<noteq> vc_taskId command \<or>
        bi_executionId (iv_identity intervention) \<noteq> vc_executionId command \<or>
        iv_interventionId intervention \<noteq> vc_interventionId command
     then Inl ''INTERVENTION_BINDING_INVALID''
     else
       bind_r (assertInterventionAvailableAt iso_datetime intervention now) (\<lambda>_.
       if iv_effectivePlanRevision intervention \<noteq> currentEffectivePlanRevision
       then Inl ''PLAN_REVISION_CONFLICT''
       else
         bind_r (case vc_guard command of
                   Semantic_plan n plan \<Rightarrow>
                     if n \<noteq> iv_revision intervention then Inl ''INTERVENTION_REVISION_CONFLICT''
                     else if plan \<noteq> currentEffectivePlanRevision \<or>
                             iv_effectivePlanRevision intervention \<noteq> currentEffectivePlanRevision
                     then Inl ''PLAN_REVISION_CONFLICT''
                     else Inr ()
                 | Legacy_plan n \<Rightarrow>
                     throw_if (n \<noteq> currentContextRevision) ''CONTEXT_REVISION_CONFLICT'') (\<lambda>_.
         assertCommandInputSchema ajv (iv_inputSchema intervention) (Some (JObj (vc_input command)))
           ''INVALID_INTERVENTION_SCHEMA'' ''INVALID_INTERVENTION_INPUT''))))"

subsection \<open>Histories\<close>

lemma deep_equal_trans: "deep_equal a b \<Longrightarrow> deep_equal b c \<Longrightarrow> deep_equal a c"
proof (induction a arbitrary: b c)
  case (JObj kvs)
  from JObj.prems(1) obtain us where us: "b = JObj us" by (cases b) auto
  with JObj.prems(2) obtain ws where ws: "c = JObj ws" by (cases c) auto
  have "case map_of ws k of None \<Rightarrow> False | Some w \<Rightarrow> deep_equal v w" if kv: "(k, v) \<in> set kvs" for k v
  proof -
    from JObj.prems(1) kv us obtain u where u: "map_of us k = Some u" "deep_equal v u"
      by (fastforce simp: list_all_iff split: option.splits)
    from JObj.prems(2) us ws map_of_SomeD [OF u(1)] obtain w where w: "map_of ws k = Some w" "deep_equal u w"
      by (fastforce simp: list_all_iff split: option.splits)
    have "deep_equal v w" by (rule JObj.IH [OF kv _ u(2) w(2)]) simp
    with w show ?thesis by simp
  qed
  with JObj.prems us ws show ?case by (auto simp: list_all_iff)
next
  case (JArr vs)
  from JArr.prems(1) obtain us where us: "b = JArr us" by (cases b) auto
  with JArr.prems(2) obtain ws where ws: "c = JArr ws" by (cases c) auto
  have "deep_equal (vs ! i) (ws ! i)" if "i < length vs" for i
    using JArr.IH [of "vs ! i" "us ! i" "ws ! i"] JArr.prems us ws that by (simp add: list_all2_conv_all_nth)
  with JArr.prems us ws show ?case by (auto simp: list_all2_conv_all_nth)
qed auto

lemma action_transition_Inr [result_simps]:
  "assertActionTransition iso_datetime p n = Inr u \<longleftrightarrow>
     BusinessActionSchema iso_datetime n \<and> sameExecution (ba_identity p) (ba_identity n) \<and>
     ba_actionId p = ba_actionId n \<and> ba_actionType p = ba_actionType n \<and>
     ba_revision n = ba_revision p + 1 \<and> ba_requestedAt n = ba_requestedAt p \<and>
     (ba_startedAt p = None \<or> ba_startedAt n = ba_startedAt p) \<and>
     ba_state n \<in> set (action_allowed (ba_state p))"
  by (auto simp: assertActionTransition_def bind_r_Inr)

lemma input_transition_Inr [result_simps]:
  "assertRequiredInputTransition iso_datetime p n = Inr u \<longleftrightarrow>
     RequiredInputSchema iso_datetime n \<and> sameExecution (ri_identity p) (ri_identity n) \<and>
     ri_requestId p = ri_requestId n \<and> ri_requestKey p = ri_requestKey n \<and>
     ri_inputType p = ri_inputType n \<and> ri_revision n = ri_revision p + 1 \<and>
     deep_equal (JObj (ri_inputSchema p)) (JObj (ri_inputSchema n)) \<and>
     ri_subjectBinding p = ri_subjectBinding n \<and> ri_requiredResponder p = ri_requiredResponder n \<and>
     ri_onExpire p = ri_onExpire n \<and> ri_onDismiss p = ri_onDismiss n \<and>
     ri_onDecline p = ri_onDecline n \<and> ri_requestedAt p = ri_requestedAt n \<and>
     ri_deadlineAt p = ri_deadlineAt n \<and> ri_state p = Pending"
  by (auto simp: assertRequiredInputTransition_def bind_r_Inr simp del: deep_equal.simps)

lemma intervention_transition_Inr [result_simps]:
  "assertInterventionTransition iso_datetime p n = Inr u \<longleftrightarrow>
     RuntimeInterventionSchema iso_datetime n \<and> sameExecution (iv_identity p) (iv_identity n) \<and>
     iv_interventionId p = iv_interventionId n \<and> iv_interventionType p = iv_interventionType n \<and>
     iv_revision n = iv_revision p + 1 \<and>
     iv_effectivePlanRevision n = iv_effectivePlanRevision p \<and>
     deep_equal (JObj (iv_inputSchema p)) (JObj (iv_inputSchema n)) \<and>
     iv_appliesTo p = iv_appliesTo n \<and> iv_createdAt p = iv_createdAt n \<and>
     iv_validUntil p = iv_validUntil n \<and>
     (truthy (iv_acceptedCommandId p) \<longrightarrow> iv_acceptedCommandId n = iv_acceptedCommandId p) \<and>
     iv_state n \<in> set (intervention_allowed (iv_state p))"
  by (auto simp: assertInterventionTransition_def bind_r_Inr simp del: deep_equal.simps)

text \<open>What no accepted version changes.\<close>

definition same_action :: "business_action \<Rightarrow> business_action \<Rightarrow> bool" where
  "same_action p n \<longleftrightarrow>
     sameExecution (ba_identity p) (ba_identity n) \<and> ba_actionId n = ba_actionId p \<and>
     ba_actionType n = ba_actionType p \<and> ba_requestedAt n = ba_requestedAt p \<and>
     (ba_startedAt p \<noteq> None \<longrightarrow> ba_startedAt n = ba_startedAt p)"

definition same_question :: "required_input \<Rightarrow> required_input \<Rightarrow> bool" where
  "same_question p n \<longleftrightarrow>
     sameExecution (ri_identity p) (ri_identity n) \<and> ri_requestId n = ri_requestId p \<and>
     ri_requestKey n = ri_requestKey p \<and> ri_inputType n = ri_inputType p \<and>
     deep_equal (JObj (ri_inputSchema p)) (JObj (ri_inputSchema n)) \<and>
     ri_subjectBinding n = ri_subjectBinding p \<and> ri_requiredResponder n = ri_requiredResponder p \<and>
     ri_onExpire n = ri_onExpire p \<and> ri_onDismiss n = ri_onDismiss p \<and>
     ri_onDecline n = ri_onDecline p \<and> ri_requestedAt n = ri_requestedAt p \<and>
     ri_deadlineAt n = ri_deadlineAt p"

definition same_offer :: "intervention \<Rightarrow> intervention \<Rightarrow> bool" where
  "same_offer p n \<longleftrightarrow>
     sameExecution (iv_identity p) (iv_identity n) \<and> iv_interventionId n = iv_interventionId p \<and>
     iv_interventionType n = iv_interventionType p \<and>
     iv_effectivePlanRevision n = iv_effectivePlanRevision p \<and>
     deep_equal (JObj (iv_inputSchema p)) (JObj (iv_inputSchema n)) \<and>
     iv_appliesTo n = iv_appliesTo p \<and> iv_createdAt n = iv_createdAt p \<and>
     iv_validUntil n = iv_validUntil p \<and>
     (truthy (iv_acceptedCommandId p) \<longrightarrow> iv_acceptedCommandId n = iv_acceptedCommandId p)"

fun input_allowed :: "input_state \<Rightarrow> input_state list" where
  "input_allowed Pending = [Pending, Answered, Declined, Cancelled_input, Expired]"
| "input_allowed _ = []"

interpretation actions: guarded_history ba_state action_allowed
    "assertActionTransition iso_datetime" ba_revision same_action
  for iso_datetime
proof unfold_locales
  show "same_action u v \<Longrightarrow> same_action v w \<Longrightarrow> same_action u w" for u v w
    by (auto simp: same_action_def intro: sameExecution_trans)
qed (auto simp: action_transition_Inr same_action_def)

interpretation inputs: guarded_history ri_state input_allowed
    "assertRequiredInputTransition iso_datetime" ri_revision same_question
  for iso_datetime
proof unfold_locales
  show "same_question u v \<Longrightarrow> same_question v w \<Longrightarrow> same_question u w" for u v w
    unfolding same_question_def
    by (auto intro: sameExecution_trans deep_equal_trans simp del: deep_equal.simps)
  show "assertRequiredInputTransition iso_datetime p n = Inr () \<Longrightarrow>
      ri_state n \<in> set (input_allowed (ri_state p))" for p n
    by (cases "ri_state n") (simp_all add: input_transition_Inr del: deep_equal.simps)
qed (auto simp: input_transition_Inr same_question_def simp del: deep_equal.simps)

interpretation interventions: guarded_history iv_state intervention_allowed
    "assertInterventionTransition iso_datetime" iv_revision same_offer
  for iso_datetime
proof unfold_locales
  show "same_offer u v \<Longrightarrow> same_offer v w \<Longrightarrow> same_offer u w" for u v w
    unfolding same_offer_def
    by (auto intro: sameExecution_trans deep_equal_trans simp del: deep_equal.simps)
qed (auto simp: intervention_transition_Inr same_offer_def simp del: deep_equal.simps)

text \<open>
  In a history of an Action whose versions were each accepted against the one before, revisions
  are consecutive, execution, identifier, type, request time and an observed start time never
  change, and only the last version can be in a terminal state.
\<close>

theorem action_history:
  assumes "accepted_chain (assertActionTransition iso_datetime) a vs" and "i < length vs"
  shows "ba_revision (vs ! i) = ba_revision a + 1 + int i \<and> same_action a (vs ! i) \<and>
    (action_allowed (ba_state (vs ! i)) = [] \<longrightarrow> Suc i = length vs)"
  using actions.chain_revisions actions.chain_same actions.terminal_is_last assms by (simp add: nth_mem)

definition example_identity :: business_identity where
  "example_identity =
     \<lparr>bi_taskId = ''t'', bi_executionId = ''e'', bi_providerId = ''p'', bi_resourceId = ''r'',
      bi_operationName = ''o'', bi_correlationId = None, bi_simulationId = None\<rparr>"

definition example_action :: business_action where
  "example_action =
     \<lparr>ba_schemaVersion = ''sdar.business-action/1.0-rc2'', ba_actionId = ''a'',
      ba_actionType = Visual_lock, ba_identity = example_identity, ba_revision = 1,
      ba_state = Requested, ba_actor = \<lparr>at_type = Agent, at_actorId = None\<rparr>,
      ba_triggerOrigin = agent_command, ba_subjectRefs = None, ba_cause = None,
      ba_reasonCode = ''R'', ba_requestedAt = Some ''2026-01-01T00:00:00Z'', ba_startedAt = None,
      ba_endedAt = None, ba_endReason = None, ba_properties = None\<rparr>"

definition example_dates :: "string \<Rightarrow> bool" where
  "example_dates s \<longleftrightarrow> date_parse s \<noteq> None"

theorem action_history_witness:
  "let started = example_action\<lparr>ba_revision := 2, ba_state := Active,
         ba_startedAt := Some ''2026-01-01T00:00:01Z''\<rparr>;
       lost = started\<lparr>ba_revision := 3, ba_state := Failed,
         ba_endedAt := Some ''2026-01-01T00:00:02Z'', ba_endReason := Some ''VISUAL_LOCK_LOST''\<rparr>
   in same_action example_action lost \<and> ba_revision lost = 3"
proof -
  define started where "started = example_action\<lparr>ba_revision := 2, ba_state := Active,
         ba_startedAt := Some ''2026-01-01T00:00:01Z''\<rparr>"
  define lost where "lost = started\<lparr>ba_revision := 3, ba_state := Failed,
         ba_endedAt := Some ''2026-01-01T00:00:02Z'', ba_endReason := Some ''VISUAL_LOCK_LOST''\<rparr>"
  have "accepted_chain (assertActionTransition example_dates) example_action [started, lost]"
    unfolding started_def lost_def by code_simp
  from action_history [OF this, of 1] show ?thesis
    by (simp add: started_def lost_def example_action_def)
qed

lemma input_terminal: "input_allowed s = [] \<longleftrightarrow> s \<noteq> Pending"
  by (cases s) simp_all

text \<open>
  In a history of a Required Input whose versions were each accepted against the one before,
  revisions are consecutive, the question (schema, subject, responder, deadline and the
  dispositions) never changes under the responder, and a version that is no longer pending is the
  last one: a request is resolved at most once.
\<close>

theorem input_history:
  assumes "accepted_chain (assertRequiredInputTransition iso_datetime) r vs" and "i < length vs"
  shows "ri_revision (vs ! i) = ri_revision r + 1 + int i \<and> same_question r (vs ! i) \<and>
    (ri_state (vs ! i) \<noteq> Pending \<longrightarrow> Suc i = length vs) \<and> ri_state r = Pending"
proof -
  from assms have "ri_state r = Pending" by (cases vs) (auto simp: input_transition_Inr)
  then show ?thesis
    using inputs.chain_revisions [OF assms] inputs.chain_same [OF assms(1) nth_mem [OF assms(2)]]
      inputs.terminal_is_last [OF assms] by (simp add: input_terminal)
qed

definition example_input :: required_input where
  "example_input =
     \<lparr>ri_schemaVersion = ''sdar.required-input/1.0-rc2'', ri_requestId = ''q'', ri_requestKey = ''k'',
      ri_inputType = ''confirm'', ri_identity = example_identity, ri_revision = 1, ri_blocking = True,
      ri_state = Pending, ri_requiredResponder = Operator_responder,
      ri_subjectBinding = Artifact_binding \<lparr>ref_kind = Artifact, ref_id = ''target'', ref_revision = 4\<rparr>,
      ri_waitingPolicy = ''pause_execution'', ri_onExpire = end_observation,
      ri_onDismiss = reissue_request, ri_onDecline = release_and_resume_scan, ri_title = ''T'',
      ri_description = None,
      ri_inputSchema = [(''type'', JStr ''object''), (''required'', JArr [JStr ''decision''])],
      ri_reasonCode = ''R'', ri_requestedAt = ''2026-01-01T00:00:00Z'',
      ri_deadlineAt = Some ''2026-01-01T00:05:00Z'', ri_resolvedAt = None,
      ri_responseCommandId = None, ri_response = None\<rparr>"

theorem input_history_witness:
  "same_question example_input
     (example_input\<lparr>ri_revision := 3, ri_state := Expired, ri_resolvedAt := Some ''2026-01-01T00:05:00Z'',
        ri_inputSchema := [(''required'', JArr [JStr ''decision'']), (''type'', JStr ''object'')]\<rparr>)"
proof -
  define n where "n = example_input\<lparr>ri_revision := 2, ri_title := ''U''\<rparr>"
  define m where "m = example_input\<lparr>ri_revision := 3, ri_state := Expired,
     ri_resolvedAt := Some ''2026-01-01T00:05:00Z'',
     ri_inputSchema := [(''required'', JArr [JStr ''decision'']), (''type'', JStr ''object'')]\<rparr>"
  have "accepted_chain (assertRequiredInputTransition example_dates) example_input [n, m]"
    unfolding n_def m_def by code_simp
  from input_history [OF this, of 1] show ?thesis by (simp add: m_def del: deep_equal.simps)
qed

text \<open>
  In a history of a Runtime Intervention whose versions were each accepted against the one
  before, revisions are consecutive, the offer (schema, plan revision, subjects, validity) never
  changes, the command that was accepted for it is never replaced by another, and only the last
  version can be in a terminal state.
\<close>

theorem intervention_history:
  assumes "accepted_chain (assertInterventionTransition iso_datetime) v vs" and "i < length vs"
  shows "iv_revision (vs ! i) = iv_revision v + 1 + int i \<and> same_offer v (vs ! i) \<and>
    (intervention_allowed (iv_state (vs ! i)) = [] \<longrightarrow> Suc i = length vs)"
  using interventions.chain_revisions interventions.chain_same interventions.terminal_is_last assms
  by (simp add: nth_mem)

definition example_offer :: intervention where
  "example_offer =
     \<lparr>iv_schemaVersion = ''sdar.runtime-intervention/1.0-rc2'', iv_interventionId = ''v'',
      iv_interventionType = Adjust_plan, iv_identity = example_identity, iv_revision = 1,
      iv_effectivePlanRevision = 7, iv_blocking = False, iv_state = Available, iv_title = ''T'',
      iv_description = None, iv_inputSchema = [(''type'', JStr ''object'')], iv_appliesTo = None,
      iv_reasonCode = ''R'', iv_createdAt = ''2026-01-01T00:00:00Z'',
      iv_validUntil = Some ''2026-01-01T00:05:00Z'', iv_acceptedCommandId = None,
      iv_resultRefs = None\<rparr>"

theorem intervention_history_witness:
  "same_offer
     (example_offer\<lparr>iv_revision := 2, iv_state := Submitted, iv_acceptedCommandId := Some ''c''\<rparr>)
     (example_offer\<lparr>iv_revision := 4, iv_state := Withdrawn, iv_acceptedCommandId := Some ''c''\<rparr>)"
proof -
  define s where "s = example_offer\<lparr>iv_revision := 2, iv_state := Submitted,
    iv_acceptedCommandId := Some ''c''\<rparr>"
  define n where "n = s\<lparr>iv_revision := 3, iv_state := Applying\<rparr>"
  define m where "m = example_offer\<lparr>iv_revision := 4, iv_state := Withdrawn,
    iv_acceptedCommandId := Some ''c''\<rparr>"
  have "accepted_chain (assertInterventionTransition example_dates) s [n, m]"
    unfolding n_def m_def s_def by code_simp
  from intervention_history [OF this, of 1] show ?thesis
    by (simp add: m_def s_def del: deep_equal.simps)
qed

subsection \<open>Admission of commands\<close>

lemma command_schema_Inr [result_simps]:
  "assertCommandInputSchema ajv schema v e1 e2 = Inr u \<longleftrightarrow>
     (case ajv schema of None \<Rightarrow> False | Some validate \<Rightarrow> validate v)"
  by (auto simp: assertCommandInputSchema_def compileBusinessEntryInputSchema_def split: option.splits)

lemma input_open_Inr [result_simps]:
  "assertRequiredInputOpenAt iso_datetime r now = Inr u \<longleftrightarrow>
     RequiredInputSchema iso_datetime r \<and> ri_state r = Pending \<and>
     (case now of None \<Rightarrow> False | Some t \<Rightarrow> \<not> past t (ri_deadlineAt r))"
  by (auto simp: assertRequiredInputOpenAt_def bind_r_Inr split: option.splits)

lemma intervention_available_Inr [result_simps]:
  "assertInterventionAvailableAt iso_datetime v now = Inr u \<longleftrightarrow>
     RuntimeInterventionSchema iso_datetime v \<and> iv_state v = Available \<and>
     (case now of None \<Rightarrow> False | Some t \<Rightarrow> \<not> past t (iv_validUntil v))"
  by (auto simp: assertInterventionAvailableAt_def bind_r_Inr split: option.splits)

text \<open>
  A response to a Required Input is admitted exactly when the request and the command are well
  formed and bound to each other, the request is pending and before its deadline, the responder is
  of the required type (or the development policy), the subject is still the one asked about, the
  revision guard matches, and an accepted value satisfies the schema of the request; the
  disposition that follows is the one the request fixed.
\<close>

theorem response_admitted:
  "assessRequiredInputResponse iso_datetime ajv r c responder context_revision subject now = Inr out \<longleftrightarrow>
     RequiredInputSchema iso_datetime r \<and> RequiredInputResponseCommandSchema c \<and>
     (ic_taskId c, ic_executionId c, ic_requestId c, ic_requestKey c) =
       (bi_taskId (ri_identity r), bi_executionId (ri_identity r), ri_requestId r, ri_requestKey r) \<and>
     ri_state r = Pending \<and>
     (case now of None \<Rightarrow> False | Some t \<Rightarrow> \<not> past t (ri_deadlineAt r)) \<and>
     responder_authorized (TrustedResponderSchema responder) (ri_requiredResponder r) \<and>
     subject = ri_subjectBinding r \<and>
     (case ic_guard c of Semantic n \<Rightarrow> n = ri_revision r | Legacy_strict n \<Rightarrow> n = context_revision) \<and>
     out = (rs_action (ic_result c),
            case rs_action (ic_result c) of
              Accept \<Rightarrow> Await_result | Cancel \<Rightarrow> Dispose (ri_onDismiss r)
            | Decline \<Rightarrow> Dispose (ri_onDecline r)) \<and>
     (case rs_action (ic_result c) of
        Accept \<Rightarrow> (case ajv (ri_inputSchema r) of
                     None \<Rightarrow> False | Some validate \<Rightarrow> validate (rs_value (ic_result c)))
      | _ \<Rightarrow> True)"
  by (cases "ic_guard c"; cases "rs_action (ic_result c)")
    (auto simp: assessRequiredInputResponse_def bind_r_Inr input_open_Inr command_schema_Inr)

text \<open>
  A command for a Runtime Intervention is admitted exactly when both are well formed and bound to
  each other, the intervention is available and still valid, the effective plan is the one it was
  offered for, the guard names the current revisions and the input satisfies its schema.
\<close>

lemma intervention_command_Inr:
  "assertInterventionCommand iso_datetime ajv v c context_revision plan now = Inr () \<longleftrightarrow>
     RuntimeInterventionSchema iso_datetime v \<and> RuntimeInterventionCommandSchema c \<and>
     (vc_taskId c, vc_executionId c, vc_interventionId c) =
       (bi_taskId (iv_identity v), bi_executionId (iv_identity v), iv_interventionId v) \<and>
     iv_state v = Available \<and>
     (case now of None \<Rightarrow> False | Some t \<Rightarrow> \<not> past t (iv_validUntil v)) \<and>
     iv_effectivePlanRevision v = plan \<and>
     (case vc_guard c of
        Semantic_plan n p \<Rightarrow> n = iv_revision v \<and> p = plan | Legacy_plan n \<Rightarrow> n = context_revision) \<and>
     (case ajv (iv_inputSchema v) of
        None \<Rightarrow> False | Some validate \<Rightarrow> validate (Some (JObj (vc_input c))))"
  by (cases "vc_guard c")
    (auto simp: assertInterventionCommand_def bind_r_Inr intervention_available_Inr command_schema_Inr)

text \<open>The version that records an admitted response, and the one that records a command.\<close>

definition resolved :: "required_input \<Rightarrow> input_command \<Rightarrow> string \<Rightarrow> required_input" where
  "resolved r c resolvedAt =
     r\<lparr>ri_revision := ri_revision r + 1,
       ri_state := (case rs_action (ic_result c) of
                      Accept \<Rightarrow> Answered | Decline \<Rightarrow> Declined | Cancel \<Rightarrow> Cancelled_input),
       ri_resolvedAt := Some resolvedAt, ri_responseCommandId := Some (ic_commandId c),
       ri_response := Some (ic_result c)\<rparr>"

definition submitted :: "intervention \<Rightarrow> intervention_command \<Rightarrow> intervention" where
  "submitted v c =
     v\<lparr>iv_revision := iv_revision v + 1, iv_state := Submitted,
       iv_acceptedCommandId := Some (vc_commandId c)\<rparr>"

lemma truthy_simps [simp]: "\<not> truthy None" "truthy (Some s) \<longleftrightarrow> s \<noteq> []"
  by (simp_all add: truthy_def)

lemma at_time_simps [simp]: "\<not> at_time None P" "at_time (Some s) P \<longleftrightarrow> s \<noteq> [] \<and> P s"
  by (simp_all add: at_time_def)

lemma identifier_not_Nil: "identifier_ok s \<Longrightarrow> s \<noteq> []"
  by (auto simp: identifier_ok_def bounded_def)

lemma resolved_valid:
  assumes "RequiredInputSchema iso_datetime r" "ri_state r = Pending" "identifier_ok (ic_commandId c)"
    and "iso_datetime tm" "0 \<le> compareIsoTimestamps tm (ri_requestedAt r)" "tm \<noteq> []"
    and "ri_revision r < MAX_SAFE"
  shows "RequiredInputSchema iso_datetime (resolved r c tm)"
proof -
  have "input_members iso_datetime (resolved r c tm)"
    using assms by (simp add: RequiredInputSchema_def input_members_def resolved_def revision_ok_def
        is_safe_integer_def)
  moreover have "input_issues (resolved r c tm) = []"
    using assms by (cases "rs_action (ic_result c)")
      (simp_all add: RequiredInputSchema_def input_issues_def resolved_def response_action_of_def
        identifier_not_Nil)
  ultimately show ?thesis by (simp add: RequiredInputSchema_def)
qed

text \<open>
  Every admitted response can be recorded, and only once: the resolved version is an accepted
  successor of the request, and any response to it is refused as no longer pending, whatever guard,
  responder and instant come with it.
\<close>

theorem response_recorded_once:
  assumes "assessRequiredInputResponse iso_datetime ajv r c responder context_revision subject now = Inr out"
    and "iso_datetime tm" "0 \<le> compareIsoTimestamps tm (ri_requestedAt r)" "tm \<noteq> []"
    and "ri_revision r < MAX_SAFE" "deep_equal (JObj (ri_inputSchema r)) (JObj (ri_inputSchema r))"
  shows "assertRequiredInputTransition iso_datetime r (resolved r c tm) = Inr () \<and>
    assertRequiredInputOpenAt iso_datetime (resolved r c tm) (Some later) = Inl ''INPUT_NOT_PENDING'' \<and>
    (\<forall>d responder' n subject' now' out'.
       assessRequiredInputResponse iso_datetime ajv (resolved r c tm) d responder' n subject' now' \<noteq> Inr out')"
proof -
  from assms(1) have r: "RequiredInputSchema iso_datetime r" "ri_state r = Pending"
      "identifier_ok (ic_commandId c)"
    by (auto simp: assessRequiredInputResponse_def bind_r_Inr input_open_Inr
        RequiredInputResponseCommandSchema_def split: if_splits)
  have v: "RequiredInputSchema iso_datetime (resolved r c tm)"
    by (rule resolved_valid [OF r assms(2-5)])
  have st: "ri_state (resolved r c tm) \<noteq> Pending"
    by (cases "rs_action (ic_result c)") (simp_all add: resolved_def)
  have "assertRequiredInputTransition iso_datetime r (resolved r c tm) = Inr ()"
    using v r(2) assms(6)
    by (simp add: input_transition_Inr resolved_def sameExecution_def del: deep_equal.simps)
  moreover have "assertRequiredInputOpenAt iso_datetime (resolved r c tm) (Some later) = Inl ''INPUT_NOT_PENDING''"
    using v st by (simp add: assertRequiredInputOpenAt_def zod_def throw_if_def)
  moreover have "assessRequiredInputResponse iso_datetime ajv (resolved r c tm) d responder' n subject' now' \<noteq> Inr out'"
    for d responder' n subject' now' out'
    using st by (auto simp: assessRequiredInputResponse_def bind_r_Inr input_open_Inr)
  ultimately show ?thesis by blast
qed

definition example_answer :: input_command where
  "example_answer =
     \<lparr>ic_schemaVersion = ''sdar.required-input-response/1.0-rc2'', ic_commandId = ''c'',
      ic_taskId = ''t'', ic_executionId = ''e'', ic_requestId = ''q'', ic_requestKey = ''k'',
      ic_guard = Semantic 1,
      ic_result = \<lparr>rs_action = Accept, rs_value = Some (JObj [(''decision'', JStr ''go'')])\<rparr>\<rparr>"

definition example_ajv :: schema_compiler where
  "example_ajv schema = Some (\<lambda>v. case v of Some (JObj _) \<Rightarrow> True | _ \<Rightarrow> False)"

definition example_operator :: json where
  "example_operator = taskBusinessResponder
     \<lparr>rv_source = JStr ''jwt_hs256'', rv_actorType = JStr ''operator'', rv_actorId = JStr ''me''\<rparr>"

theorem response_recorded_once_witness:
  "assertRequiredInputTransition example_dates example_input
     (resolved example_input example_answer ''2026-01-01T00:01:00Z'') = Inr ()"
proof -
  have "assessRequiredInputResponse example_dates example_ajv example_input example_answer
      example_operator 9 (ri_subjectBinding example_input) (Some 0) = Inr (Accept, Await_result)"
    by code_simp
  moreover have "example_dates ''2026-01-01T00:01:00Z''"
      "0 \<le> compareIsoTimestamps ''2026-01-01T00:01:00Z'' (ri_requestedAt example_input)"
      "ri_revision example_input < MAX_SAFE"
      "deep_equal (JObj (ri_inputSchema example_input)) (JObj (ri_inputSchema example_input))"
    by code_simp+
  ultimately show ?thesis using response_recorded_once [of example_dates example_ajv example_input] by simp
qed

text \<open>
  Every admitted intervention command can be recorded, and only once: the submitted version
  is an accepted successor, no other command is admitted on it, and every version accepted after it
  carries this command.
\<close>

theorem command_recorded_once:
  assumes "assertInterventionCommand iso_datetime ajv v c context_revision plan now = Inr ()"
    and "iv_revision v < MAX_SAFE" "deep_equal (JObj (iv_inputSchema v)) (JObj (iv_inputSchema v))"
  shows "assertInterventionTransition iso_datetime v (submitted v c) = Inr () \<and>
    (\<forall>d n plan' now'.
       assertInterventionCommand iso_datetime ajv (submitted v c) d n plan' now' \<noteq> Inr ()) \<and>
    (\<forall>vs i. accepted_chain (assertInterventionTransition iso_datetime) (submitted v c) vs \<longrightarrow>
       i < length vs \<longrightarrow> iv_acceptedCommandId (vs ! i) = Some (vc_commandId c))"
proof -
  from assms(1) have v: "RuntimeInterventionSchema iso_datetime v" "iv_state v = Available"
      "identifier_ok (vc_commandId c)"
    by (auto simp: intervention_command_Inr RuntimeInterventionCommandSchema_def)
  have id: "vc_commandId c \<noteq> []" by (rule identifier_not_Nil [OF v(3)])
  have "RuntimeInterventionSchema iso_datetime (submitted v c)"
    using v assms(2) id
    by (simp add: RuntimeInterventionSchema_def intervention_members_def intervention_issues_def
        submitted_def revision_ok_def is_safe_integer_def)
  then have "assertInterventionTransition iso_datetime v (submitted v c) = Inr ()"
    using v assms(3)
    by (auto simp: intervention_transition_Inr submitted_def sameExecution_def
        RuntimeInterventionSchema_def intervention_issues_def simp del: deep_equal.simps)
  moreover have "assertInterventionCommand iso_datetime ajv (submitted v c) d n plan' now' \<noteq> Inr ()"
    for d n plan' now' by (simp add: intervention_command_Inr submitted_def)
  moreover have "iv_acceptedCommandId (vs ! i) = Some (vc_commandId c)"
    if "accepted_chain (assertInterventionTransition iso_datetime) (submitted v c) vs" "i < length vs" for vs i
    using interventions.chain_same [OF that(1) nth_mem [OF that(2)]] id
    by (simp add: same_offer_def submitted_def)
  ultimately show ?thesis by blast
qed

definition example_command :: intervention_command where
  "example_command =
     \<lparr>vc_schemaVersion = ''sdar.runtime-intervention-command/1.0-rc2'', vc_commandId = ''c'',
      vc_taskId = ''t'', vc_executionId = ''e'', vc_interventionId = ''v'',
      vc_guard = Semantic_plan 1 7, vc_input = []\<rparr>"

theorem command_recorded_once_witness:
  "assertInterventionTransition example_dates example_offer (submitted example_offer example_command) = Inr ()"
proof -
  have "assertInterventionCommand example_dates example_ajv example_offer example_command 9 7 (Some 0) = Inr ()"
    by code_simp
  moreover have "iv_revision example_offer < MAX_SAFE"
      "deep_equal (JObj (iv_inputSchema example_offer)) (JObj (iv_inputSchema example_offer))"
    by code_simp+
  ultimately show ?thesis using command_recorded_once [of example_dates example_ajv example_offer] by blast
qed

text \<open>
  A responder that the Runtime verified reaches the preflight as one of the same type, and only
  the development identity as the development policy: the projection of a responder whose type is a
  string passes the schema, and authorises exactly the requests that ask for its type.
\<close>

theorem responder_projected:
  assumes "isRuntimeBusinessResponder f" and "rv_actorType f = JStr name"
  shows "if rv_source f = JStr ''development''
         then TrustedResponderSchema (taskBusinessResponder f) = Some Development_policy
         else \<exists>t. map_of responder_names name = Some t \<and>
              TrustedResponderSchema (taskBusinessResponder f) = Some (Authorization_context t) \<and>
              (\<forall>required. responder_authorized
                 (TrustedResponderSchema (taskBusinessResponder f)) required \<longleftrightarrow> t = required)"
proof (cases "rv_source f = JStr ''development''")
  case True
  then show ?thesis by (simp add: taskBusinessResponder_def TrustedResponderSchema_def)
next
  case False
  with assms have "name = ''user'' \<or> name = ''agent'' \<or> name = ''operator''"
    by (auto simp: isRuntimeBusinessResponder_def)
  then obtain t where "map_of responder_names name = Some t" by (auto simp: responder_names_def)
  with False assms(2) show ?thesis
    by (simp add: taskBusinessResponder_def TrustedResponderSchema_def responder_named_def
        responder_authorized_def)
qed

theorem responder_projected_witness:
  "TrustedResponderSchema example_operator = Some (Authorization_context Operator_responder)"
proof -
  have "isRuntimeBusinessResponder
      \<lparr>rv_source = JStr ''jwt_hs256'', rv_actorType = JStr ''operator'', rv_actorId = JStr ''me''\<rparr>"
    by (simp add: isRuntimeBusinessResponder_def)
  from responder_projected [OF this, of "''operator''"] show ?thesis
    by (auto simp: example_operator_def responder_names_def)
qed

end
