(* ===== verification/Artifact.thy ===== *)
theory Artifact
  imports BusinessTypes
begin

text \<open>
  packages/vehicle-provider-core/src/task-business-artifact.ts: the artifacts a task publishes (routes,
  areas, targets), the conditions of their schema and the preparation of a content read. As in
  BusinessTypes a schema is a condition on values of the type; coordinates are rational numbers,
  which every finite double is, and \<open>iso_datetime\<close> decides date-times.
\<close>

subsection \<open>Geometry\<close>

type_synonym position = "rat list"

definition GeoPositionSchema :: "position \<Rightarrow> bool" where
  "GeoPositionSchema p \<longleftrightarrow>
     (case p of
        lon # lat # rest \<Rightarrow>
          length rest \<le> 1 \<and> -180 \<le> lon \<and> lon \<le> 180 \<and> -90 \<le> lat \<and> lat \<le> 90
      | _ \<Rightarrow> False)"

definition LocalPositionSchema :: "position \<Rightarrow> bool" where
  "LocalPositionSchema p \<longleftrightarrow> length p = 2 \<or> length p = 3"

text \<open>
  A ring is closed and has at least three distinct positions; two positions print alike exactly
  when they are equal.
\<close>

definition polygonRing :: "(position \<Rightarrow> bool) \<Rightarrow> position list \<Rightarrow> bool" where
  "polygonRing pos ring \<longleftrightarrow>
     4 \<le> length ring \<and> length ring \<le> 10000 \<and> list_all pos ring \<and> hd ring = last ring \<and>
     3 \<le> length (remdups (butlast ring))"

datatype geometry =
    Point position
  | MultiPoint "position list"
  | LineString "position list"
  | MultiLineString "position list list"
  | Polygon "position list list"
  | MultiPolygon "position list list list"

definition line_ok :: "(position \<Rightarrow> bool) \<Rightarrow> position list \<Rightarrow> bool" where
  "line_ok pos l \<longleftrightarrow> 2 \<le> length l \<and> length l \<le> 10000 \<and> list_all pos l"

definition polygon_ok :: "(position \<Rightarrow> bool) \<Rightarrow> position list list \<Rightarrow> bool" where
  "polygon_ok pos rs \<longleftrightarrow> 1 \<le> length rs \<and> length rs \<le> 100 \<and> list_all (polygonRing pos) rs"

fun geometry_ok :: "(position \<Rightarrow> bool) \<Rightarrow> geometry \<Rightarrow> bool" where
  "geometry_ok pos (Point p) \<longleftrightarrow> pos p"
| "geometry_ok pos (MultiPoint ps) \<longleftrightarrow> 1 \<le> length ps \<and> length ps \<le> 10000 \<and> list_all pos ps"
| "geometry_ok pos (LineString l) \<longleftrightarrow> line_ok pos l"
| "geometry_ok pos (MultiLineString ls) \<longleftrightarrow>
     1 \<le> length ls \<and> length ls \<le> 100 \<and> list_all (line_ok pos) ls"
| "geometry_ok pos (Polygon rs) \<longleftrightarrow> polygon_ok pos rs"
| "geometry_ok pos (MultiPolygon ps) \<longleftrightarrow>
     1 \<le> length ps \<and> length ps \<le> 100 \<and> list_all (polygon_ok pos) ps"

datatype geometry_kind =
  Point_type | MultiPoint_type | LineString_type | MultiLineString_type | Polygon_type | MultiPolygon_type

fun geometry_type :: "geometry \<Rightarrow> geometry_kind" where
  "geometry_type (Point _) = Point_type"
| "geometry_type (MultiPoint _) = MultiPoint_type"
| "geometry_type (LineString _) = LineString_type"
| "geometry_type (MultiLineString _) = MultiLineString_type"
| "geometry_type (Polygon _) = Polygon_type"
| "geometry_type (MultiPolygon _) = MultiPolygon_type"

subsection \<open>Times and images\<close>

datatype clock_domain = simulator_relative | device_monotonic

datatype observation_time =
    Utc string
  | Elapsed clock_domain rat string

fun ObservationTimeSchema :: "(string \<Rightarrow> bool) \<Rightarrow> observation_time \<Rightarrow> bool" where
  "ObservationTimeSchema iso_datetime (Utc observedAt) \<longleftrightarrow> iso_datetime observedAt"
| "ObservationTimeSchema iso_datetime (Elapsed _ elapsed clockId) \<longleftrightarrow>
     0 \<le> elapsed \<and> identifier_ok clockId"

datatype coordinate_mode = pixel | normalized

record image_point =
  ip_mode :: coordinate_mode
  ip_x :: rat
  ip_y :: rat

definition imagePoint :: "image_point \<Rightarrow> bool" where
  "imagePoint p \<longleftrightarrow>
     0 \<le> ip_x p \<and> 0 \<le> ip_y p \<and> (ip_mode p = pixel \<or> ip_x p \<le> 1 \<and> ip_y p \<le> 1)"

record image_box =
  ib_mode :: coordinate_mode
  ib_x :: rat
  ib_y :: rat
  ib_width :: rat
  ib_height :: rat

definition imageBox :: "image_box \<Rightarrow> bool" where
  "imageBox b \<longleftrightarrow>
     0 \<le> ib_x b \<and> 0 \<le> ib_y b \<and> 0 < ib_width b \<and> 0 < ib_height b \<and>
     (ib_mode b = pixel \<or>
      ib_x b \<le> 1 \<and> ib_y b \<le> 1 \<and> ib_width b \<le> 1 \<and> ib_height b \<le> 1 \<and>
      ib_x b + ib_width b \<le> 1 \<and> ib_y b + ib_height b \<le> 1)"

subsection \<open>Content\<close>

datatype length_unit = metre | centimetre | millimetre

record content_ref =
  cr_artifactId :: string
  cr_revision :: int
  cr_handle :: string
  cr_mediaType :: string
  cr_sizeBytes :: int
  cr_sha256 :: string
  cr_expiresAt :: "string option"

record local_frame =
  lf_frameId :: string
  lf_unit :: length_unit
  lf_axisConvention :: string
  lf_transformRef :: "string option"

record image_observation =
  im_imageRef :: "string option"
  im_frameId :: string
  im_bbox :: "image_box option"
  im_point :: "image_point option"

datatype artifact_content =
    Geojson geometry
  | Local_geometry local_frame geometry
  | Image_observation image_observation
  | Structured jobj
  | Content_ref content_ref

text \<open>\<open>/^[A-Za-z0-9_-]{1,256}$/\<close> and \<open>/^[a-f0-9]{64}$/\<close>.\<close>

definition handle_char :: "char \<Rightarrow> bool" where
  "handle_char c \<longleftrightarrow>
     (let n = (of_char c :: int)
      in (48 \<le> n \<and> n \<le> 57) \<or> (65 \<le> n \<and> n \<le> 90) \<or> (97 \<le> n \<and> n \<le> 122) \<or> c \<in> set ''_-'')"

definition handle_ok :: "string \<Rightarrow> bool" where
  "handle_ok s \<longleftrightarrow> bounded 256 s \<and> list_all handle_char s"

definition sha256_hex_ok :: "string \<Rightarrow> bool" where
  "sha256_hex_ok s \<longleftrightarrow> length s = 64 \<and> list_all (\<lambda>c. is_digit c \<or> c \<in> set ''abcdef'') s"

fun ArtifactContentSchema :: "(string \<Rightarrow> bool) \<Rightarrow> artifact_content \<Rightarrow> bool" where
  "ArtifactContentSchema iso_datetime (Geojson g) \<longleftrightarrow> geometry_ok GeoPositionSchema g"
| "ArtifactContentSchema iso_datetime (Local_geometry f g) \<longleftrightarrow>
     identifier_ok (lf_frameId f) \<and> identifier_ok (lf_axisConvention f) \<and>
     opt_all identifier_ok (lf_transformRef f) \<and> geometry_ok LocalPositionSchema g"
| "ArtifactContentSchema iso_datetime (Image_observation i) \<longleftrightarrow>
     opt_all identifier_ok (im_imageRef i) \<and> identifier_ok (im_frameId i) \<and>
     opt_all imageBox (im_bbox i) \<and> opt_all imagePoint (im_point i) \<and>
     (im_imageRef i \<noteq> None \<or> im_bbox i \<noteq> None \<or> im_point i \<noteq> None)"
| "ArtifactContentSchema iso_datetime (Structured kvs) \<longleftrightarrow> list_all (\<lambda>(k, _). identifier_ok k) kvs"
| "ArtifactContentSchema iso_datetime (Content_ref c) \<longleftrightarrow>
     identifier_ok (cr_artifactId c) \<and> revision_ok (cr_revision c) \<and> handle_ok (cr_handle c) \<and>
     identifier_ok (cr_mediaType c) \<and> 0 \<le> cr_sizeBytes c \<and> cr_sizeBytes c \<le> 1000000000 \<and>
     sha256_hex_ok (cr_sha256 c) \<and> opt_all iso_datetime (cr_expiresAt c)"

subsection \<open>Properties by artifact type\<close>

datatype artifact_type =
    Destination | Route | Trajectory | Waypoints
  | Recon_area | Coverage_plan | Current_footprint | Covered_area
  | Target_object | Target_track

datatype adoption = candidate | adopted | retired

datatype route_purpose = for_navigation | for_recon | for_return

record route_properties =
  rp_adoption :: adoption
  rp_purpose :: route_purpose
  rp_routeSource :: string
  rp_routePlanId :: "string option"
  rp_distanceM :: "rat option"
  rp_estimatedDurationSec :: "rat option"
  rp_replanReasonCode :: "string option"

definition routeProperties :: "route_properties \<Rightarrow> bool" where
  "routeProperties p \<longleftrightarrow>
     identifier_ok (rp_routeSource p) \<and> opt_all identifier_ok (rp_routePlanId p) \<and>
     opt_all (\<lambda>d. 0 \<le> d) (rp_distanceM p) \<and> opt_all (\<lambda>d. 0 \<le> d) (rp_estimatedDurationSec p) \<and>
     opt_all identifier_ok (rp_replanReasonCode p)"

record grid =
  gr_frameId :: string
  gr_origin :: "rat \<times> rat"
  gr_cellSizeM :: rat
  gr_denominatorCellCount :: int

definition grid_ok :: "grid \<Rightarrow> bool" where
  "grid_ok g \<longleftrightarrow>
     identifier_ok (gr_frameId g) \<and> 0 < gr_cellSizeM g \<and> revision_ok (gr_denominatorCellCount g)"

datatype visibility = visible | lost_from_view | unknown_visibility

datatype tracking_state = unlocked | locking | locked | lost_track | unknown_tracking

datatype position_quality = observed_position | derived_position | unknown_position

record target_properties =
  tp_targetId :: string
  tp_targetType :: "string option"
  tp_confidence :: "rat option"
  tp_visibility :: visibility
  tp_trackingState :: tracking_state
  tp_firstSeen :: observation_time
  tp_lastSeen :: observation_time
  tp_sensorId :: string
  tp_observationSessionId :: string
  tp_lastSeenPositionQuality :: position_quality

definition targetProperties :: "(string \<Rightarrow> bool) \<Rightarrow> target_properties \<Rightarrow> bool" where
  "targetProperties iso_datetime p \<longleftrightarrow>
     identifier_ok (tp_targetId p) \<and> opt_all identifier_ok (tp_targetType p) \<and>
     opt_all (\<lambda>c. 0 \<le> c \<and> c \<le> 1) (tp_confidence p) \<and>
     ObservationTimeSchema iso_datetime (tp_firstSeen p) \<and>
     ObservationTimeSchema iso_datetime (tp_lastSeen p) \<and>
     identifier_ok (tp_sensorId p) \<and> identifier_ok (tp_observationSessionId p)"

datatype footprint_quality = observed_quality | nominal | estimated

text \<open>
  The property objects. No two of the ten strict schemas accept the same object (their required
  members differ), so the constructor tells which one does.
\<close>

datatype destination_intent = requested_intent | adopted_intent

datatype artifact_properties =
    Destination_props destination_intent
  | Route_props route_properties
  | Trajectory_props int
  | Waypoints_props int
  | Area_props int
  | Plan_props int grid adoption
  | Footprint_props int footprint_quality "string option"
  | Covered_props int grid int
  | Target_props target_properties
  | Track_props string int

fun property_type :: "artifact_properties \<Rightarrow> artifact_type" where
  "property_type (Destination_props _) = Destination"
| "property_type (Route_props _) = Route"
| "property_type (Trajectory_props _) = Trajectory"
| "property_type (Waypoints_props _) = Waypoints"
| "property_type (Area_props _) = Recon_area"
| "property_type (Plan_props _ _ _) = Coverage_plan"
| "property_type (Footprint_props _ _ _) = Current_footprint"
| "property_type (Covered_props _ _ _) = Covered_area"
| "property_type (Target_props _) = Target_object"
| "property_type (Track_props _ _) = Target_track"

fun ArtifactPropertiesSchema :: "(string \<Rightarrow> bool) \<Rightarrow> artifact_properties \<Rightarrow> bool" where
  "ArtifactPropertiesSchema iso_datetime (Destination_props _) \<longleftrightarrow> True"
| "ArtifactPropertiesSchema iso_datetime (Route_props p) \<longleftrightarrow> routeProperties p"
| "ArtifactPropertiesSchema iso_datetime (Trajectory_props sampleCount) \<longleftrightarrow> contextRevision_ok sampleCount"
| "ArtifactPropertiesSchema iso_datetime (Waypoints_props waypointCount) \<longleftrightarrow>
     contextRevision_ok waypointCount"
| "ArtifactPropertiesSchema iso_datetime (Area_props areaRevision) \<longleftrightarrow> revision_ok areaRevision"
| "ArtifactPropertiesSchema iso_datetime (Plan_props areaRevision g _) \<longleftrightarrow>
     revision_ok areaRevision \<and> grid_ok g"
| "ArtifactPropertiesSchema iso_datetime (Footprint_props areaRevision _ model) \<longleftrightarrow>
     revision_ok areaRevision \<and> opt_all identifier_ok model"
| "ArtifactPropertiesSchema iso_datetime (Covered_props areaRevision g numerator) \<longleftrightarrow>
     revision_ok areaRevision \<and> grid_ok g \<and> contextRevision_ok numerator"
| "ArtifactPropertiesSchema iso_datetime (Target_props p) \<longleftrightarrow> targetProperties iso_datetime p"
| "ArtifactPropertiesSchema iso_datetime (Track_props targetId sampleCount) \<longleftrightarrow>
     identifier_ok targetId \<and> contextRevision_ok sampleCount"

text \<open>\<open>propertySchemas[artifactType].safeParse(properties).success\<close>.\<close>

definition property_schema :: "(string \<Rightarrow> bool) \<Rightarrow> artifact_type \<Rightarrow> artifact_properties option \<Rightarrow> bool" where
  "property_schema iso_datetime t props \<longleftrightarrow>
     (case props of None \<Rightarrow> False
      | Some p \<Rightarrow> property_type p = t \<and> ArtifactPropertiesSchema iso_datetime p)"

subsection \<open>Artifacts\<close>

datatype semantics = requested | planned | observed | derived

datatype lifecycle = active | invalidated | superseded | archived

datatype producer = device | device_planner | provider | agent | simulator_sensor

record artifact_source =
  as_producer :: producer
  as_sourceRecordRef :: "string option"
  as_sourceRevision :: "string option"
  as_method :: "string option"

datatype relation_target = Object_target object_ref | External_target string string

record relation =
  rl_relationType :: string
  rl_target :: relation_target

fun relation_target_ok :: "relation_target \<Rightarrow> bool" where
  "relation_target_ok (Object_target r) \<longleftrightarrow> BusinessObjectRefSchema r"
| "relation_target_ok (External_target t i) \<longleftrightarrow> identifier_ok t \<and> identifier_ok i"

text \<open>The three members of the union, discriminated by \<open>availability\<close>.\<close>

datatype absence = not_produced_yet | unavailable | not_supported

datatype availability =
    Available artifact_content artifact_properties "(string, artifact_content) jsmap option"
  | Empty string string "artifact_properties option"
  | Absent absence string "artifact_properties option"

record task_artifact =
  ta_schemaVersion :: string
  ta_artifactId :: string
  ta_artifactType :: artifact_type
  ta_revision :: int
  ta_semantics :: semantics
  ta_lifecycle :: lifecycle
  ta_identity :: business_identity
  ta_source :: artifact_source
  ta_createdAt :: string
  ta_updatedAt :: string
  ta_validUntil :: "string option"
  ta_relations :: "relation list option"
  ta_evidenceRefs :: "string list option"
  ta_availability :: availability

definition common_members :: "(string \<Rightarrow> bool) \<Rightarrow> task_artifact \<Rightarrow> bool" where
  "common_members iso_datetime a \<longleftrightarrow>
     ta_schemaVersion a = ''sdar.task-artifact/1.0-rc2'' \<and> identifier_ok (ta_artifactId a) \<and>
     revision_ok (ta_revision a) \<and> TaskBusinessIdentitySchema (ta_identity a) \<and>
     opt_all identifier_ok (as_sourceRecordRef (ta_source a)) \<and>
     opt_all identifier_ok (as_sourceRevision (ta_source a)) \<and>
     opt_all identifier_ok (as_method (ta_source a)) \<and>
     iso_datetime (ta_createdAt a) \<and> iso_datetime (ta_updatedAt a) \<and>
     opt_all iso_datetime (ta_validUntil a) \<and>
     opt_all (\<lambda>rs. length rs \<le> 100 \<and>
        list_all (\<lambda>r. identifier_ok (rl_relationType r) \<and> relation_target_ok (rl_target r)) rs)
       (ta_relations a) \<and>
     opt_all (\<lambda>es. length es \<le> 100 \<and> list_all identifier_ok es) (ta_evidenceRefs a)"

fun availability_members :: "(string \<Rightarrow> bool) \<Rightarrow> availability \<Rightarrow> bool" where
  "availability_members iso_datetime (Available content props reps) \<longleftrightarrow>
     ArtifactContentSchema iso_datetime content \<and> ArtifactPropertiesSchema iso_datetime props \<and>
     opt_all (list_all (\<lambda>(k, c). identifier_ok k \<and> ArtifactContentSchema iso_datetime c)) reps"
| "availability_members iso_datetime (Empty reasonCode readPerformedAt props) \<longleftrightarrow>
     identifier_ok reasonCode \<and> iso_datetime readPerformedAt \<and>
     opt_all (ArtifactPropertiesSchema iso_datetime) props"
| "availability_members iso_datetime (Absent _ reasonCode props) \<longleftrightarrow>
     identifier_ok reasonCode \<and> opt_all (ArtifactPropertiesSchema iso_datetime) props"

fun properties_of :: "availability \<Rightarrow> artifact_properties option" where
  "properties_of (Available _ props _) = Some props"
| "properties_of (Empty _ _ props) = props"
| "properties_of (Absent _ _ props) = props"

fun expectedGeometry :: "artifact_type \<Rightarrow> geometry_kind list" where
  "expectedGeometry Destination = [Point_type]"
| "expectedGeometry Route = [LineString_type, MultiLineString_type]"
| "expectedGeometry Trajectory = [Point_type, LineString_type, MultiLineString_type]"
| "expectedGeometry Waypoints = [MultiPoint_type]"
| "expectedGeometry Recon_area = [Polygon_type, MultiPolygon_type]"
| "expectedGeometry Coverage_plan = [Polygon_type, MultiPolygon_type]"
| "expectedGeometry Current_footprint = [Polygon_type, MultiPolygon_type]"
| "expectedGeometry Covered_area = [Polygon_type, MultiPolygon_type]"
| "expectedGeometry Target_object = [Point_type]"
| "expectedGeometry Target_track = [LineString_type, MultiLineString_type, MultiPoint_type]"

fun semanticsByType :: "artifact_type \<Rightarrow> semantics list" where
  "semanticsByType Destination = [requested, planned]"
| "semanticsByType Route = [planned]"
| "semanticsByType Trajectory = [observed]"
| "semanticsByType Waypoints = [requested, planned]"
| "semanticsByType Recon_area = [requested, planned]"
| "semanticsByType Coverage_plan = [planned]"
| "semanticsByType Current_footprint = [observed, derived]"
| "semanticsByType Covered_area = [derived]"
| "semanticsByType Target_object = [observed, derived]"
| "semanticsByType Target_track = [observed, derived]"

text \<open>The issues that \<open>superRefine\<close> adds; the properties tested are those that parse.\<close>

definition parsed_properties :: "(string \<Rightarrow> bool) \<Rightarrow> task_artifact \<Rightarrow> artifact_properties option" where
  "parsed_properties iso_datetime a =
     (if property_schema iso_datetime (ta_artifactType a) (properties_of (ta_availability a))
      then properties_of (ta_availability a) else None)"

definition property_issues :: "(string \<Rightarrow> bool) \<Rightarrow> task_artifact \<Rightarrow> string list" where
  "property_issues iso_datetime a =
     issue_if (properties_of (ta_availability a) \<noteq> None \<and> parsed_properties iso_datetime a = None)
       ''ARTIFACT_PROPERTIES_INVALID'' @
     issue_if (ta_semantics a \<notin> set (semanticsByType (ta_artifactType a)))
       ''ARTIFACT_SEMANTICS_INVALID'' @
     (case parsed_properties iso_datetime a of
        Some (Footprint_props _ quality model) \<Rightarrow>
          issue_if (quality \<noteq> observed_quality \<and> model = None) ''FOOTPRINT_MODEL_REQUIRED'' @
          issue_if (quality = observed_quality \<and> ta_semantics a \<noteq> observed \<or>
                    quality \<noteq> observed_quality \<and> ta_semantics a \<noteq> derived)
            ''FOOTPRINT_SEMANTICS_MISMATCH''
      | Some (Covered_props _ g numerator) \<Rightarrow>
          issue_if (numerator > gr_denominatorCellCount g) ''COVERAGE_EXCEEDS_DENOMINATOR''
      | _ \<Rightarrow> [])"

fun content_geometry :: "artifact_content \<Rightarrow> geometry_kind option" where
  "content_geometry (Geojson g) = Some (geometry_type g)"
| "content_geometry (Local_geometry _ g) = Some (geometry_type g)"
| "content_geometry _ = None"

fun content_issues :: "task_artifact \<Rightarrow> artifact_content \<Rightarrow> string list" where
  "content_issues a (Content_ref c) =
     issue_if (cr_artifactId c \<noteq> ta_artifactId a \<or> cr_revision c \<noteq> ta_revision a)
       ''CONTENT_REF_VERSION_MISMATCH''"
| "content_issues a (Geojson g) =
     issue_if (geometry_type g \<notin> set (expectedGeometry (ta_artifactType a)))
       ''ARTIFACT_GEOMETRY_TYPE_INVALID''"
| "content_issues a (Local_geometry _ g) =
     issue_if (geometry_type g \<notin> set (expectedGeometry (ta_artifactType a)))
       ''ARTIFACT_GEOMETRY_TYPE_INVALID''"
| "content_issues a (Image_observation _) =
     issue_if (ta_artifactType a \<noteq> Target_object) ''IMAGE_CONTENT_ONLY_FOR_TARGET''"
| "content_issues a (Structured _) = [''SPATIAL_ARTIFACT_REQUIRES_SPATIAL_CONTENT'']"

fun representation_issue :: "task_artifact \<Rightarrow> artifact_content \<Rightarrow> string list" where
  "representation_issue a (Content_ref c) =
     issue_if (cr_artifactId c \<noteq> ta_artifactId a \<or> cr_revision c \<noteq> ta_revision a)
       ''REPRESENTATION_REF_VERSION_MISMATCH''"
| "representation_issue a _ = []"

fun available_issues :: "(string \<Rightarrow> bool) \<Rightarrow> task_artifact \<Rightarrow> availability \<Rightarrow> string list" where
  "available_issues iso_datetime a (Available content _ reps) =
     (case parsed_properties iso_datetime a of
        Some (Target_props p) \<Rightarrow> issue_if (tp_targetId p \<noteq> ta_artifactId a) ''TARGET_ID_MISMATCH''
      | Some (Trajectory_props sampleCount) \<Rightarrow>
          issue_if (content_geometry content = Some Point_type \<and> sampleCount \<noteq> 1 \<or>
                    content_geometry content \<noteq> Some Point_type \<and> sampleCount < 2)
            ''TRAJECTORY_SAMPLE_GEOMETRY_MISMATCH''
      | Some (Track_props _ sampleCount) \<Rightarrow>
          issue_if (sampleCount < 2) ''TARGET_TRACK_TOO_FEW_SAMPLES''
      | Some (Waypoints_props waypointCount) \<Rightarrow> issue_if (waypointCount < 1) ''WAYPOINTS_EMPTY''
      | _ \<Rightarrow> []) @
     content_issues a content @ 
     concat (map (\<lambda>(_, c). representation_issue a c) (case reps of None \<Rightarrow> [] | Some rs \<Rightarrow> rs))"
| "available_issues iso_datetime a _ = []"

definition TaskArtifactSchema :: "(string \<Rightarrow> bool) \<Rightarrow> task_artifact \<Rightarrow> bool" where
  "TaskArtifactSchema iso_datetime a \<longleftrightarrow>
     common_members iso_datetime a \<and> availability_members iso_datetime (ta_availability a) \<and>
     property_issues iso_datetime a = [] \<and> available_issues iso_datetime a (ta_availability a) = []"

subsection \<open>Reading content\<close>

text \<open>
  \<open>representations?.[name]\<close> reads a property of a plain object, so it also finds the members inherited
  from \<open>Object.prototype\<close>; such a member is no \<open>content_ref\<close> and is returned as inline content.
\<close>

datatype found_content = No_content | Own_content artifact_content | Inherited_member string

definition representation ::
    "(string, artifact_content) jsmap option \<Rightarrow> string \<Rightarrow> found_content" where
  "representation reps name =
     (case reps of
        None \<Rightarrow> No_content
      | Some rs \<Rightarrow>
          (case js_get rs name of
             Some c \<Rightarrow> Own_content c
           | None \<Rightarrow>
               if name \<in> set OBJECT_PROTOTYPE_MEMBERS then Inherited_member name else No_content))"

datatype prepared_read =
    Inline artifact_content
  | Inline_member string
  | Stored string string int string

record read_request =
  rq_identity :: business_identity
  rq_artifactId :: string
  rq_revision :: int

text \<open>
  An instant is \<open>None\<close> when the \<open>Date\<close> is invalid, and no comparison with an expiry that does not
  parse holds.
\<close>

definition expired_at :: "int \<Rightarrow> string option \<Rightarrow> bool" where
  "expired_at now limit \<longleftrightarrow>
     (case limit of
        None \<Rightarrow> False
      | Some s \<Rightarrow> s \<noteq> [] \<and> (case date_parse s of None \<Rightarrow> False | Some t \<Rightarrow> t \<le> now))"

fun prepare_content :: "int option \<Rightarrow> artifact_content \<Rightarrow> prepared_read result" where
  "prepare_content now (Content_ref c) =
     (case now of
        None \<Rightarrow> Inl ''ARTIFACT_READ_TIME_INVALID''
      | Some t \<Rightarrow>
          if expired_at t (cr_expiresAt c) then Inl ''ARTIFACT_CONTENT_EXPIRED''
          else Inr (Stored (cr_handle c) (cr_mediaType c) (cr_sizeBytes c) (cr_sha256 c)))"
| "prepare_content now content = Inr (Inline content)"

definition prepareArtifactContentRead ::
    "(string \<Rightarrow> bool) \<Rightarrow> task_artifact \<Rightarrow> read_request \<Rightarrow> int option \<Rightarrow> string option \<Rightarrow> prepared_read result"
where
  "prepareArtifactContentRead iso_datetime a request now representationName =
     bind_r (zod (TaskArtifactSchema iso_datetime a)) (\<lambda>_.
     bind_r (zod (TaskBusinessIdentitySchema (rq_identity request))) (\<lambda>_.
     if \<not> sameExecution (ta_identity a) (rq_identity request) then Inl ''ARTIFACT_SCOPE_MISMATCH''
     else if ta_artifactId a \<noteq> rq_artifactId request \<or> ta_revision a \<noteq> rq_revision request
     then Inl ''ARTIFACT_REVISION_NOT_FOUND''
     else
       (case ta_availability a of
          Available content _ reps \<Rightarrow>
            (case (case representationName of
                     None \<Rightarrow> Own_content content | Some n \<Rightarrow> representation reps n) of
               No_content \<Rightarrow> Inl ''ARTIFACT_REPRESENTATION_NOT_FOUND''
             | Own_content c \<Rightarrow> prepare_content now c
             | Inherited_member n \<Rightarrow> Inr (Inline_member n))
        | _ \<Rightarrow> Inl ''ARTIFACT_NOT_AVAILABLE'')))"

lemma prepare_content_Inr [result_simps]:
  "prepare_content now c = Inr r \<longleftrightarrow>
     (case c of
        Content_ref x \<Rightarrow>
          (case now of None \<Rightarrow> False
           | Some t \<Rightarrow> \<not> expired_at t (cr_expiresAt x) \<and>
               r = Stored (cr_handle x) (cr_mediaType x) (cr_sizeBytes x) (cr_sha256 x))
      | _ \<Rightarrow> r = Inline c)"
  by (cases c) (auto split: option.splits)

text \<open>The content and the representations of an artifact.\<close>

fun contents_of :: "availability \<Rightarrow> artifact_content list" where
  "contents_of (Available content _ reps) =
     content # map snd (case reps of None \<Rightarrow> [] | Some rs \<Rightarrow> rs)"
| "contents_of _ = []"

lemma reference_names_version:
  assumes "TaskArtifactSchema iso_datetime a" "Content_ref c \<in> set (contents_of (ta_availability a))"
  shows "cr_artifactId c = ta_artifactId a \<and> cr_revision c = ta_revision a"
proof (cases "ta_availability a")
  case (Available content props reps)
  with assms have none: "content_issues a content = []"
      "\<forall>x \<in> set (case reps of None \<Rightarrow> [] | Some rs \<Rightarrow> rs). representation_issue a (snd x) = []"
    by (auto simp: TaskArtifactSchema_def split: option.splits)
  from assms(2) Available consider "content = Content_ref c"
    | x where "x \<in> set (case reps of None \<Rightarrow> [] | Some rs \<Rightarrow> rs)" "snd x = Content_ref c"
    by auto
  then show ?thesis
  proof cases
    case 1
    then show ?thesis using none(1) by simp
  next
    case (2 x)
    then have "representation_issue a (Content_ref c) = []" using none(2) by metis
    then show ?thesis by simp
  qed
qed (use assms in auto)

lemma content_read_facts:
  assumes "prepareArtifactContentRead iso_datetime a request now name = Inr r"
  shows "sameExecution (ta_identity a) (rq_identity request) \<and>
    ta_artifactId a = rq_artifactId request \<and> ta_revision a = rq_revision request \<and>
    (case r of
       Inline c \<Rightarrow> c \<in> set (contents_of (ta_availability a)) \<and> (\<forall>x. c \<noteq> Content_ref x)
     | Stored handle mediaType sizeBytes sha256 \<Rightarrow>
         (\<exists>c t. Content_ref c \<in> set (contents_of (ta_availability a)) \<and>
            cr_artifactId c = rq_artifactId request \<and> cr_revision c = rq_revision request \<and>
            (handle, mediaType, sizeBytes, sha256) =
              (cr_handle c, cr_mediaType c, cr_sizeBytes c, cr_sha256 c) \<and>
            now = Some t \<and> \<not> expired_at t (cr_expiresAt c))
     | Inline_member m \<Rightarrow> name = Some m \<and> m \<in> set OBJECT_PROTOTYPE_MEMBERS)"
proof -
  from assms obtain content props reps where
    a: "TaskArtifactSchema iso_datetime a" "sameExecution (ta_identity a) (rq_identity request)"
      "ta_artifactId a = rq_artifactId request" "ta_revision a = rq_revision request"
      "ta_availability a = Available content props reps"
    by (auto simp: prepareArtifactContentRead_def bind_r_Inr split: if_splits availability.splits)
  define found where
    "found = (case name of None \<Rightarrow> Own_content content | Some m \<Rightarrow> representation reps m)"
  have r: "case found of
      No_content \<Rightarrow> False | Own_content c \<Rightarrow> prepare_content now c = Inr r
    | Inherited_member m \<Rightarrow> r = Inline_member m"
    using assms a(5)
    by (auto simp: prepareArtifactContentRead_def bind_r_Inr found_def
        split: if_splits found_content.splits)
  show ?thesis
  proof (cases found)
    case (Own_content c)
    then have c: "c \<in> set (contents_of (ta_availability a))"
      using a(5) by (auto simp: found_def representation_def dest: js_value_in
          split: option.splits if_splits)
    have rc: "prepare_content now c = Inr r" using r Own_content by simp
    show ?thesis
    proof (cases c)
      case (Content_ref x)
      with c reference_names_version [OF a(1), of x] a rc show ?thesis
        by (auto simp del: contents_of.simps split: option.splits if_splits)
    qed (use rc c a(2-4) in \<open>auto simp del: contents_of.simps\<close>)
  next
    case (Inherited_member m)
    then have "name = Some m \<and> m \<in> set OBJECT_PROTOTYPE_MEMBERS"
      by (auto simp: found_def representation_def split: option.splits if_splits)
    with a r Inherited_member show ?thesis by simp
  qed (use r in simp)
qed

text \<open>
  C38. A content read never crosses a version or an execution: when a read is prepared, the artifact is
  the requested revision of the requested artifact of the same execution and available; inline content
  is content of this version and no reference; stored content is named by a reference of this version
  that carries the requested identifier and revision and has not expired. The one other answer is the
  defect of the lookup: a representation named like a member of \<open>Object.prototype\<close> is found without
  being there.
\<close>

theorem content_read_bound:
  assumes "prepareArtifactContentRead iso_datetime a request now name = Inr r"
  shows "sameExecution (ta_identity a) (rq_identity request) \<and>
    ta_artifactId a = rq_artifactId request \<and> ta_revision a = rq_revision request \<and>
    (case r of
       Inline c \<Rightarrow> c \<in> set (contents_of (ta_availability a)) \<and> (\<forall>x. c \<noteq> Content_ref x)
     | Stored handle mediaType sizeBytes sha256 \<Rightarrow>
         (\<exists>c t. Content_ref c \<in> set (contents_of (ta_availability a)) \<and>
            cr_artifactId c = rq_artifactId request \<and> cr_revision c = rq_revision request \<and>
            (handle, mediaType, sizeBytes, sha256) =
              (cr_handle c, cr_mediaType c, cr_sizeBytes c, cr_sha256 c) \<and>
            now = Some t \<and> \<not> expired_at t (cr_expiresAt c))
     | Inline_member m \<Rightarrow> name = Some m \<and> m \<in> set OBJECT_PROTOTYPE_MEMBERS)"
  by (rule content_read_facts [OF assms])

definition example_scope_identity :: business_identity where
  "example_scope_identity =
     \<lparr>bi_taskId = ''t'', bi_executionId = ''e'', bi_providerId = ''p'', bi_resourceId = ''r'',
      bi_operationName = ''o'', bi_correlationId = None, bi_simulationId = None\<rparr>"

definition example_reference :: content_ref where
  "example_reference =
     \<lparr>cr_artifactId = ''route'', cr_revision = 2, cr_handle = ''h-1'', cr_mediaType = ''application/json'',
      cr_sizeBytes = 120, cr_sha256 = replicate 64 (CHR ''a''),
      cr_expiresAt = Some ''2026-01-01T01:00:00Z''\<rparr>"

definition example_artifact :: task_artifact where
  "example_artifact =
     \<lparr>ta_schemaVersion = ''sdar.task-artifact/1.0-rc2'', ta_artifactId = ''route'',
      ta_artifactType = Route, ta_revision = 2, ta_semantics = planned, ta_lifecycle = active,
      ta_identity = example_scope_identity,
      ta_source = \<lparr>as_producer = provider, as_sourceRecordRef = None, as_sourceRevision = None,
                   as_method = None\<rparr>,
      ta_createdAt = ''2026-01-01T00:00:00Z'', ta_updatedAt = ''2026-01-01T00:00:00Z'',
      ta_validUntil = None, ta_relations = None, ta_evidenceRefs = None,
      ta_availability = Available (Geojson (LineString [[1, 2], [3, 4]]))
        (Route_props \<lparr>rp_adoption = adopted, rp_purpose = for_navigation, rp_routeSource = ''planner'',
           rp_routePlanId = None, rp_distanceM = Some 12, rp_estimatedDurationSec = None,
           rp_replanReasonCode = None\<rparr>)
        (Some [(''dense'', Content_ref example_reference)])\<rparr>"

definition example_read :: read_request where
  "example_read = \<lparr>rq_identity = example_scope_identity, rq_artifactId = ''route'', rq_revision = 2\<rparr>"

theorem content_read_bound_witness:
  "prepareArtifactContentRead (\<lambda>s. date_parse s \<noteq> None) example_artifact example_read (Some 0)
     (Some ''dense'') = Inr (Stored ''h-1'' ''application/json'' 120 (replicate 64 (CHR ''a'')))
   \<and> cr_artifactId example_reference = rq_artifactId example_read"
proof -
  have p: "prepareArtifactContentRead (\<lambda>s. date_parse s \<noteq> None) example_artifact example_read (Some 0)
     (Some ''dense'') = Inr (Stored ''h-1'' ''application/json'' 120 (replicate 64 (CHR ''a'')))"
    by code_simp
  from content_read_bound [OF p] p show ?thesis
    by (simp add: example_artifact_def example_reference_def example_read_def)
qed

text \<open>The defect on an artifact with a representation: \<open>constructor\<close> is found.\<close>

lemma inherited_representation:
  "prepareArtifactContentRead (\<lambda>s. date_parse s \<noteq> None) example_artifact example_read (Some 0)
     (Some ''constructor'') = Inr (Inline_member ''constructor'')"
  by code_simp

end
