(* ===== verification/BusinessStore.thy ===== *)
theory BusinessStore
  imports Interaction Artifact CanonicalJson
begin

text \<open>
  packages/provider-adapter-kit/src/task-business-store.ts: the scope of an execution, the object
  versions and command records of the task-business store, and the checks that a change set has to
  pass. The record \<open>env\<close> holds what the code takes from libraries: the date-time check of the schema
  library, the JSON Schema compiler, SHA-256 (hexadecimal), Unicode normalisation, the printing of
  numbers and the parsing of JSON text. Texts that the code builds with \<open>JSON.stringify\<close> only to
  compare or look up (keys of objects and scopes) are represented by what they are built from.
\<close>

record env =
  en_iso_datetime :: "string \<Rightarrow> bool"
  en_ajv :: schema_compiler
  en_sha256 :: "string \<Rightarrow> string"
  en_nfc :: "string \<Rightarrow> string"
  en_num_string :: "rat \<Rightarrow> string"
  en_json_parse :: "string \<Rightarrow> json option"

text \<open>\<open>createHash("sha256").update(canonicalJson(value)).digest("hex")\<close>.\<close>

definition canonical_hash :: "env \<Rightarrow> json \<Rightarrow> string result" where
  "canonical_hash E v =
     bind_r (canonicalJson (en_nfc E) (en_num_string E) v) (\<lambda>t. Inr (en_sha256 E t))"

text \<open>\<open>Date.parse(a) < Date.parse(b)\<close>; no comparison holds with NaN.\<close>

definition date_before :: "string \<Rightarrow> string \<Rightarrow> bool" where
  "date_before a b \<longleftrightarrow>
     (case (date_parse a, date_parse b) of (Some l, Some r) \<Rightarrow> l < r | _ \<Rightarrow> False)"

subsection \<open>Scopes\<close>

datatype business_mode = Live | Simulation

record device_context =
  dx_deviceId :: string
  dx_dataScopeKey :: string
  dx_bindingId :: string
  dx_smppServiceKey :: string
  dx_providerId :: string
  dx_resourceId :: string
  dx_sourceSessionKey :: string

record bound_scope =
  bs_taskId :: string
  bs_executionId :: string
  bs_providerId :: string
  bs_resourceId :: string
  bs_operationName :: string
  bs_authorizationContextHash :: string
  bs_executionMode :: business_mode
  bs_simulationId :: string
  bs_correlationId :: string
  bs_deviceContext :: "device_context option"

text \<open>The members of the admitted execution that the scope is made of.\<close>

record admitted_execution =
  ad_taskId :: string
  ad_externalExecutionId :: string
  ad_providerId :: "string option"
  ad_resourceId :: string
  ad_operationName :: string
  ad_authorizationContextHash :: string
  ad_executionMode :: string
  ad_simulationId :: string
  ad_correlationId :: string
  ad_deviceContext :: "device_context option"

definition normalizeBusinessExecutionMode :: "string \<Rightarrow> business_mode result" where
  "normalizeBusinessExecutionMode v =
     (if v = ''live'' \<or> v = ''LIVE'' \<or> v = ''1'' then Inr Live
      else if v = ''simulation'' \<or> v = ''SIMULATION'' \<or> v = ''2'' then Inr Simulation
      else Inl ''BUSINESS_EXECUTION_MODE_INVALID'')"

definition device_values :: "device_context \<Rightarrow> string list" where
  "device_values d =
     [dx_deviceId d, dx_dataScopeKey d, dx_bindingId d, dx_smppServiceKey d, dx_providerId d,
      dx_resourceId d, dx_sourceSessionKey d]"

definition fromExecution :: "admitted_execution \<Rightarrow> bound_scope result" where
  "fromExecution x =
     (case ad_providerId x of
        None \<Rightarrow> Inl ''BUSINESS_EXECUTION_SCOPE_INCOMPLETE''
      | Some providerId \<Rightarrow>
          if [] \<in> set [ad_taskId x, ad_externalExecutionId x, providerId, ad_resourceId x,
                       ad_operationName x, ad_authorizationContextHash x]
          then Inl ''BUSINESS_EXECUTION_SCOPE_INCOMPLETE''
          else
            bind_r (normalizeBusinessExecutionMode (ad_executionMode x)) (\<lambda>executionMode.
            if (case ad_deviceContext x of None \<Rightarrow> False
                | Some d \<Rightarrow> dx_providerId d \<noteq> providerId \<or> dx_resourceId d \<noteq> ad_resourceId x)
            then Inl ''BUSINESS_DEVICE_BINDING_MISMATCH''
            else if (case ad_deviceContext x of None \<Rightarrow> False | Some d \<Rightarrow> [] \<in> set (device_values d))
            then Inl ''BUSINESS_DEVICE_SCOPE_INCOMPLETE''
            else
              Inr \<lparr>bs_taskId = ad_taskId x, bs_executionId = ad_externalExecutionId x,
                   bs_providerId = providerId, bs_resourceId = ad_resourceId x,
                   bs_operationName = ad_operationName x,
                   bs_authorizationContextHash = ad_authorizationContextHash x,
                   bs_executionMode = executionMode, bs_simulationId = ad_simulationId x,
                   bs_correlationId = ad_correlationId x,
                   bs_deviceContext = ad_deviceContext x\<rparr>))"

fun mode_name :: "business_mode \<Rightarrow> string" where
  "mode_name Live = ''live''"
| "mode_name Simulation = ''simulation''"

definition scope_key :: "bound_scope \<Rightarrow> string option list" where
  "scope_key s =
     map Some [bs_taskId s, bs_executionId s, bs_providerId s, bs_resourceId s, bs_operationName s,
       bs_authorizationContextHash s, mode_name (bs_executionMode s), bs_simulationId s,
       bs_correlationId s] @
     map (\<lambda>f. map_option f (bs_deviceContext s))
       [dx_deviceId, dx_dataScopeKey, dx_bindingId, dx_smppServiceKey, dx_sourceSessionKey]"

definition assertBusinessIdentity :: "bound_scope \<Rightarrow> business_identity \<Rightarrow> unit result" where
  "assertBusinessIdentity s i =
     bind_r (zod (TaskBusinessIdentitySchema i)) (\<lambda>_.
     throw_if
       (bi_taskId i \<noteq> bs_taskId s \<or> bi_executionId i \<noteq> bs_executionId s \<or>
        bi_providerId i \<noteq> bs_providerId s \<or> bi_resourceId i \<noteq> bs_resourceId s \<or>
        bi_operationName i \<noteq> bs_operationName s \<or>
        (bi_correlationId i \<noteq> None \<and> bi_correlationId i \<noteq> Some (bs_correlationId s)) \<or>
        (bi_simulationId i \<noteq> None \<and> bi_simulationId i \<noteq> Some (bs_simulationId s)))
       ''BUSINESS_SCOPE_IDENTITY_MISMATCH'')"

definition scopeBusinessIdentity :: "bound_scope \<Rightarrow> business_identity" where
  "scopeBusinessIdentity s =
     \<lparr>bi_taskId = bs_taskId s, bi_executionId = bs_executionId s, bi_providerId = bs_providerId s,
      bi_resourceId = bs_resourceId s, bi_operationName = bs_operationName s,
      bi_correlationId = None, bi_simulationId = None\<rparr>"

subsection \<open>Contexts and their references\<close>

definition listed_refs :: "task_context \<Rightarrow> object_ref list" where
  "listed_refs c =
     tc_artifactRefs c @ tc_actionRefs c @ tc_requiredInputRefs c @ tc_interventionRefs c"

text \<open>One entry for each reference, in the order of the first.\<close>

definition contextObjectRefs :: "task_context \<Rightarrow> object_ref list" where
  "contextObjectRefs c =
     js_values (fold (\<lambda>r. js_set r r) (listed_refs c @ js_values (tc_activeRefs c)) [])"

definition parseBusinessContext :: "env \<Rightarrow> bound_scope \<Rightarrow> task_context \<Rightarrow> task_context result" where
  "parseBusinessContext E s c =
     bind_r (zod (TaskBusinessContextSchema (en_iso_datetime E) c)) (\<lambda>_.
     bind_r (assertBusinessIdentity s (tc_identity c)) (\<lambda>_.
     if su_status (tc_summary c) = Finalized
     then (if \<not> truthy (tc_finalizedAt c) \<or> tc_activeRefs c \<noteq> []
           then Inl ''BUSINESS_CONTEXT_FINALIZATION_INVALID'' else Inr c)
     else if truthy (tc_finalizedAt c) then Inl ''BUSINESS_CONTEXT_FINALIZATION_INVALID''
     else Inr c))"

definition assertBusinessContextTimeProgression :: "task_context option \<Rightarrow> task_context \<Rightarrow> unit result" where
  "assertBusinessContextTimeProgression current new =
     throw_if (case current of None \<Rightarrow> False | Some c \<Rightarrow> date_before (tc_updatedAt new) (tc_updatedAt c))
       ''BUSINESS_CONTEXT_TIME_REGRESSION''"

subsection \<open>Object versions\<close>

datatype object_version =
    Artifact_version task_artifact
  | Action_version business_action
  | Input_version required_input
  | Intervention_version intervention

fun businessObjectRef :: "object_version \<Rightarrow> object_ref" where
  "businessObjectRef (Artifact_version a) =
     \<lparr>ref_kind = Artifact, ref_id = ta_artifactId a, ref_revision = ta_revision a\<rparr>"
| "businessObjectRef (Action_version a) =
     \<lparr>ref_kind = Action, ref_id = ba_actionId a, ref_revision = ba_revision a\<rparr>"
| "businessObjectRef (Input_version r) =
     \<lparr>ref_kind = InputRequest, ref_id = ri_requestId r, ref_revision = ri_revision r\<rparr>"
| "businessObjectRef (Intervention_version v) =
     \<lparr>ref_kind = Intervention, ref_id = iv_interventionId v, ref_revision = iv_revision v\<rparr>"

fun version_identity :: "object_version \<Rightarrow> business_identity" where
  "version_identity (Artifact_version a) = ta_identity a"
| "version_identity (Action_version a) = ba_identity a"
| "version_identity (Input_version r) = ri_identity r"
| "version_identity (Intervention_version v) = iv_identity v"

fun version_schema :: "env \<Rightarrow> object_version \<Rightarrow> unit result" where
  "version_schema E (Artifact_version a) = zod (TaskArtifactSchema (en_iso_datetime E) a)"
| "version_schema E (Action_version a) = zod (BusinessActionSchema (en_iso_datetime E) a)"
| "version_schema E (Input_version r) =
     bind_r (zod (RequiredInputSchema (en_iso_datetime E) r)) (\<lambda>_.
       assertBusinessEntryInputSchema (en_ajv E) (ri_inputSchema r) ''INVALID_INPUT_SCHEMA'')"
| "version_schema E (Intervention_version v) =
     bind_r (zod (RuntimeInterventionSchema (en_iso_datetime E) v)) (\<lambda>_.
       assertBusinessEntryInputSchema (en_ajv E) (iv_inputSchema v) ''INVALID_INTERVENTION_SCHEMA'')"

definition parseBusinessObjectVersion :: "env \<Rightarrow> bound_scope \<Rightarrow> object_version \<Rightarrow> object_version result" where
  "parseBusinessObjectVersion E s v =
     bind_r (version_schema E v) (\<lambda>_.
     bind_r (assertBusinessIdentity s (version_identity v)) (\<lambda>_. Inr v))"

subsection \<open>Command records\<close>

datatype command_type = Input_response | Intervention_submission

datatype command_state = Command_accepted | Command_applied | Command_rejected

record command_record =
  cm_commandId :: string
  cm_commandType :: command_type
  cm_entryKey :: "string option"
  cm_runtimeCommandSequence :: "string option"
  cm_responder :: "trusted_responder option"
  cm_identity :: business_identity
  cm_requestHash :: string
  cm_responseHash :: "string option"
  cm_inputResponse :: "input_response option"
  cm_interventionRequest :: "intervention_command option"
  cm_state :: command_state
  cm_resultCode :: "string option"
  cm_resultRefs :: "object_ref list option"
  cm_createdAt :: string
  cm_updatedAt :: string

fun response_action_name :: "response_action \<Rightarrow> string" where
  "response_action_name Accept = ''accept''"
| "response_action_name Decline = ''decline''"
| "response_action_name Cancel = ''cancel''"

definition response_json :: "input_response \<Rightarrow> json" where
  "response_json r =
     JObj ((''action'', JStr (response_action_name (rs_action r))) #
           (case rs_value r of None \<Rightarrow> [] | Some v \<Rightarrow> [(''value'', v)]))"

definition taskBusinessInputResponseHash :: "env \<Rightarrow> input_response \<Rightarrow> string result" where
  "taskBusinessInputResponseHash E r = canonical_hash E (response_json r)"

fun intervention_guard_json :: "intervention_guard \<Rightarrow> json" where
  "intervention_guard_json (Semantic_plan n plan) =
     JObj [(''mode'', JStr ''semantic''), (''expectedInterventionRevision'', JNum (of_int n)),
           (''expectedEffectivePlanRevision'', JNum (of_int plan))]"
| "intervention_guard_json (Legacy_plan n) =
     JObj [(''mode'', JStr ''legacy_strict''), (''expectedContextRevision'', JNum (of_int n))]"

fun business_guard_json :: "business_guard \<Rightarrow> json" where
  "business_guard_json (Semantic n) =
     JObj [(''mode'', JStr ''semantic''), (''expectedRequestRevision'', JNum (of_int n))]"
| "business_guard_json (Legacy_strict n) =
     JObj [(''mode'', JStr ''legacy_strict''), (''expectedContextRevision'', JNum (of_int n))]"

text \<open>The commands without their identifier, as the JSON objects that are hashed.\<close>

definition intervention_semantic :: "intervention_command \<Rightarrow> json" where
  "intervention_semantic c =
     JObj [(''schemaVersion'', JStr (vc_schemaVersion c)), (''taskId'', JStr (vc_taskId c)),
           (''executionId'', JStr (vc_executionId c)),
           (''interventionId'', JStr (vc_interventionId c)),
           (''guard'', intervention_guard_json (vc_guard c)), (''input'', JObj (vc_input c))]"

definition input_semantic :: "input_command \<Rightarrow> json" where
  "input_semantic c =
     JObj [(''schemaVersion'', JStr (ic_schemaVersion c)), (''taskId'', JStr (ic_taskId c)),
           (''executionId'', JStr (ic_executionId c)), (''requestId'', JStr (ic_requestId c)),
           (''requestKey'', JStr (ic_requestKey c)), (''guard'', business_guard_json (ic_guard c)),
           (''result'', response_json (ic_result c))]"

definition command_members :: "env \<Rightarrow> command_record \<Rightarrow> bool" where
  "command_members E c \<longleftrightarrow>
     identifier_ok (cm_commandId c) \<and> opt_all identifier_ok (cm_entryKey c) \<and>
     opt_all positiveSequence (cm_runtimeCommandSequence c) \<and>
     TaskBusinessIdentitySchema (cm_identity c) \<and> sha256_hex_ok (cm_requestHash c) \<and>
     opt_all sha256_hex_ok (cm_responseHash c) \<and>
     opt_all RuntimeInterventionCommandSchema (cm_interventionRequest c) \<and>
     opt_all identifier_ok (cm_resultCode c) \<and>
     opt_all (list_all BusinessObjectRefSchema) (cm_resultRefs c) \<and>
     en_iso_datetime E (cm_createdAt c) \<and> en_iso_datetime E (cm_updatedAt c)"

text \<open>
  The refinement of the schema. Hashing a request may throw, which the schema library passes on;
  the conditions before the hash are tested first.
\<close>

definition request_binding :: "env \<Rightarrow> command_record \<Rightarrow> bool result" where
  "request_binding E c =
     (case cm_interventionRequest c of
        None \<Rightarrow> Inr True
      | Some r \<Rightarrow>
          if cm_commandType c \<noteq> Intervention_submission \<or> vc_commandId r \<noteq> cm_commandId c \<or>
             vc_taskId r \<noteq> bi_taskId (cm_identity c) \<or>
             vc_executionId r \<noteq> bi_executionId (cm_identity c) \<or>
             cm_entryKey c \<noteq> Some (''intervention:'' @ vc_interventionId r)
          then Inr False
          else bind_r (canonical_hash E (intervention_semantic r)) (\<lambda>h. Inr (h = cm_requestHash c)))"

definition response_binding :: "env \<Rightarrow> command_record \<Rightarrow> bool result" where
  "response_binding E c =
     (case cm_inputResponse c of
        None \<Rightarrow> Inr True
      | Some r \<Rightarrow>
          bind_r (taskBusinessInputResponseHash E r) (\<lambda>h. Inr (cm_responseHash c = Some h)))"

definition command_issue_free :: "command_record \<Rightarrow> bool" where
  "command_issue_free c \<longleftrightarrow>
     \<not> (cm_commandType c = Input_response \<and> \<not> truthy (cm_responseHash c)) \<and>
     \<not> (cm_commandType c = Intervention_submission \<and> truthy (cm_responseHash c)) \<and>
     \<not> (cm_inputResponse c \<noteq> None \<and> cm_commandType c \<noteq> Input_response) \<and>
     \<not> date_before (cm_updatedAt c) (cm_createdAt c) \<and>
     \<not> (cm_state c = Command_accepted \<and> (truthy (cm_resultCode c) \<or> cm_resultRefs c \<noteq> None)) \<and>
     \<not> (cm_state c \<noteq> Command_accepted \<and> \<not> truthy (cm_resultCode c))"

definition BusinessCommandRecordSchema :: "env \<Rightarrow> command_record \<Rightarrow> unit result" where
  "BusinessCommandRecordSchema E c =
     bind_r (zod (command_members E c)) (\<lambda>_.
     bind_r (request_binding E c) (\<lambda>request.
     bind_r (response_binding E c) (\<lambda>response.
       zod (request \<and> response \<and> command_issue_free c))))"

definition parseBusinessCommandRecord :: "env \<Rightarrow> bound_scope \<Rightarrow> command_record \<Rightarrow> command_record result" where
  "parseBusinessCommandRecord E s c =
     bind_r (BusinessCommandRecordSchema E c) (\<lambda>_.
     bind_r (assertBusinessIdentity s (cm_identity c)) (\<lambda>_. Inr c))"

subsection \<open>Entries\<close>

fun entry_kind :: "command_type \<Rightarrow> object_kind" where
  "entry_kind Input_response = InputRequest"
| "entry_kind Intervention_submission = Intervention"

text \<open>The largest revision that a list of references has for an identifier, 0 without one.\<close>

definition latest_revision :: "object_ref list \<Rightarrow> string \<Rightarrow> int" where
  "latest_revision refs i =
     fold (\<lambda>r n. max n (ref_revision r)) (filter (\<lambda>r. ref_id r = i) refs) 0"

definition assertBusinessCommandEntryCurrent ::
    "task_context option \<Rightarrow> object_ref \<Rightarrow> command_type \<Rightarrow> unit result" where
  "assertBusinessCommandEntryCurrent ctx ref commandType =
     bind_r (zod (BusinessObjectRefSchema ref)) (\<lambda>_.
     case ctx of
       None \<Rightarrow> Inl ''BUSINESS_ENTRY_NOT_CURRENT''
     | Some c \<Rightarrow>
         if su_status (tc_summary c) \<noteq> InProgress \<or> ref_kind ref \<noteq> entry_kind commandType
         then Inl ''BUSINESS_ENTRY_NOT_CURRENT''
         else
           (let history = (if ref_kind ref = InputRequest then tc_requiredInputRefs c
                           else tc_interventionRefs c)
            in throw_if
                 (latest_revision history (ref_id ref) \<noteq> ref_revision ref \<or>
                  ref \<notin> set (js_values (tc_activeRefs c)))
                 ''BUSINESS_ENTRY_NOT_CURRENT''))"

definition assertBusinessCommandEntryOpenAt ::
    "env \<Rightarrow> object_version option \<Rightarrow> command_type \<Rightarrow> int option \<Rightarrow> int option \<Rightarrow> unit result" where
  "assertBusinessCommandEntryOpenAt E version commandType now currentEffectivePlanRevision =
     (case commandType of
        Input_response \<Rightarrow>
          (case version of
             Some (Input_version r) \<Rightarrow> assertRequiredInputOpenAt (en_iso_datetime E) r now
           | _ \<Rightarrow> Inl ''BUSINESS_ENTRY_NOT_CURRENT'')
      | Intervention_submission \<Rightarrow>
          (case version of
             Some (Intervention_version v) \<Rightarrow>
               bind_r (assertInterventionAvailableAt (en_iso_datetime E) v now) (\<lambda>_.
                 throw_if (Some (iv_effectivePlanRevision v) \<noteq> currentEffectivePlanRevision)
                   ''PLAN_REVISION_CONFLICT'')
           | _ \<Rightarrow> Inl ''BUSINESS_ENTRY_NOT_CURRENT''))"

subsection \<open>Event drafts\<close>

record event_draft =
  dr_body :: feedback_body
  dr_description :: string
  dr_reasonCode :: string
  dr_severityHint :: severity

text \<open>\<open>isDeepStrictEqual\<close> on summaries and on the active references, whose order does not matter.\<close>

definition summary_equal :: "business_summary \<Rightarrow> business_summary \<Rightarrow> bool" where
  "summary_equal a b \<longleftrightarrow>
     su_status a = su_status b \<and> su_resultCode a = su_resultCode b \<and>
     (case (su_properties a, su_properties b) of
        (None, None) \<Rightarrow> True | (Some p, Some q) \<Rightarrow> deep_equal (JObj p) (JObj q) | _ \<Rightarrow> False)"

definition active_equal :: "active_refs \<Rightarrow> active_refs \<Rightarrow> bool" where
  "active_equal a b \<longleftrightarrow>
     length a = length b \<and> list_all (\<lambda>(k, r). js_get b k = Some r) a"

definition finalization_matches :: "task_context \<Rightarrow> context_finalized \<Rightarrow> bool" where
  "finalization_matches c f \<longleftrightarrow>
     su_status (tc_summary c) = Finalized \<and> fi_finalContextRevision f = tc_contextRevision c \<and>
     summary_equal (fi_summary f) (tc_summary c) \<and> fi_artifactRefs f = tc_artifactRefs c \<and>
     fi_actionRefs f = tc_actionRefs c \<and> Some (fi_finalizedAt f) = tc_finalizedAt c"

definition parseTaskBusinessEventDraft :: "env \<Rightarrow> task_context \<Rightarrow> event_draft \<Rightarrow> event_draft result" where
  "parseTaskBusinessEventDraft E c d =
     bind_r (zod (TaskBusinessFeedbackBodySchema (en_iso_datetime E) (dr_body d))) (\<lambda>_.
     if fb_contextRevision (dr_body d) \<noteq> tc_contextRevision c
     then Inl ''BUSINESS_EVENT_CONTEXT_REVISION_MISMATCH''
     else if (case fb_payload (dr_body d) of
                Known (CONTEXT_FINALIZED f) \<Rightarrow> \<not> finalization_matches c f | _ \<Rightarrow> False)
     then Inl ''BUSINESS_EVENT_FINALIZATION_MISMATCH''
     else if dr_description d = [] \<or> dr_reasonCode d = [] then Inl ''BUSINESS_EVENT_DRAFT_INVALID''
     else Inr d)"

subsection \<open>Submission of an intervention\<close>

definition replace_exact :: "object_ref \<Rightarrow> object_ref \<Rightarrow> object_ref \<Rightarrow> object_ref" where
  "replace_exact prior ref r = (if r = prior then ref else r)"

text \<open>\<open>new Date(Math.max(now.getTime(), Date.parse(updatedAt))).toISOString()\<close>.\<close>

definition recorded_at :: "int option \<Rightarrow> string \<Rightarrow> string result" where
  "recorded_at now updatedAt =
     (case (now, date_parse updatedAt) of
        (Some n, Some u) \<Rightarrow> Inr (toISOString (max n u))
      | _ \<Rightarrow> Inl ''RangeError'')"

definition submission_events ::
    "task_context \<Rightarrow> object_ref \<Rightarrow> object_ref \<Rightarrow> string \<Rightarrow> event_draft list" where
  "submission_events c prior ref recordedAt =
     (let body = (\<lambda>p. \<lparr>fb_schemaVersion = TASK_BUSINESS_FEEDBACK_SCHEMA_VERSION,
                        fb_contextRevision = tc_contextRevision c,
                        fb_providerRecordedAt = recordedAt, fb_payload = Known p\<rparr>);
          draft = (\<lambda>p. \<lparr>dr_body = body p, dr_description = ''Intervention command accepted'',
                         dr_reasonCode = ''INTERVENTION_SUBMITTED'', dr_severityHint = Info\<rparr>)
      in [draft (BUSINESS_EVENT
            \<lparr>ev_eventType = ''business.intervention_submitted'', ev_severity = Info,
             ev_reasonCode = ''INTERVENTION_SUBMITTED'',
             ev_description = ''Intervention command accepted'', ev_subjects = Some [ref],
             ev_data = None,
             ev_contextDelta = Some \<lparr>de_phase = None, de_summary = None,
               de_activeRefs = Some (tc_activeRefs c),
               de_effectivePlanRevision = Some (tc_effectivePlanRevision c)\<rparr>,
             ev_legacyAlias = None\<rparr>),
          draft (INTERVENTION_CHANGED
            \<lparr>oc_change = Update, oc_ref = ref, oc_previousRevision = Some (ref_revision prior),
             oc_reasonCode = ''INTERVENTION_SUBMITTED''\<rparr>)])"

definition submitted_version :: "intervention \<Rightarrow> command_record \<Rightarrow> intervention" where
  "submitted_version v c =
     v\<lparr>iv_revision := iv_revision v + 1, iv_state := Submitted,
       iv_acceptedCommandId := Some (cm_commandId c), iv_reasonCode := ''INTERVENTION_SUBMITTED''\<rparr>"

definition submitted_context :: "task_context \<Rightarrow> object_ref \<Rightarrow> object_ref \<Rightarrow> string \<Rightarrow> task_context" where
  "submitted_context c prior ref recordedAt =
     c\<lparr>tc_contextRevision := tc_contextRevision c + 1,
       tc_activeRefs := map (\<lambda>(k, r). (k, replace_exact prior ref r)) (tc_activeRefs c),
       tc_interventionRefs := map (replace_exact prior ref) (tc_interventionRefs c),
       tc_updatedAt := recordedAt\<rparr>"

definition prepareInterventionSubmission ::
    "env \<Rightarrow> bound_scope \<Rightarrow> task_context \<Rightarrow> object_version \<Rightarrow> command_record \<Rightarrow> int option
       \<Rightarrow> (task_context \<times> object_version \<times> event_draft list) result" where
  "prepareInterventionSubmission E s c previous command now =
     (case previous of
        Intervention_version v \<Rightarrow>
          if cm_commandType command \<noteq> Intervention_submission \<or>
             cm_entryKey command \<noteq> Some (''intervention:'' @ iv_interventionId v)
          then Inl ''BUSINESS_INTERVENTION_SUBMISSION_INVALID''
          else
            (let v' = submitted_version v command;
                 prior = businessObjectRef previous;
                 ref = businessObjectRef (Intervention_version v')
             in bind_r (parseBusinessObjectVersion E s (Intervention_version v')) (\<lambda>version.
                bind_r (assertInterventionTransition (en_iso_datetime E) v v') (\<lambda>_.
                bind_r (recorded_at now (tc_updatedAt c)) (\<lambda>recordedAt.
                bind_r (parseBusinessContext E s (submitted_context c prior ref recordedAt)) (\<lambda>c'.
                bind_r (map_r (parseTaskBusinessEventDraft E c')
                          (submission_events c' prior ref recordedAt)) (\<lambda>events.
                  Inr (c', version, events)))))))
      | _ \<Rightarrow> Inl ''BUSINESS_INTERVENTION_SUBMISSION_INVALID'')"

subsection \<open>Facts of a change set\<close>

text \<open>A version of a Required Input that is the fact of a reply.\<close>

definition reply_fact :: "required_input \<Rightarrow> bool" where
  "reply_fact r \<longleftrightarrow>
     ri_state r = Answered \<or> ri_state r = Declined \<or>
     ri_state r = Cancelled_input \<and> response_action_of r = Some Cancel"

definition assertRequiredInputReplyClaim ::
    "env \<Rightarrow> task_context option \<Rightarrow> task_context \<Rightarrow> required_input \<Rightarrow> command_record option \<Rightarrow> unit result"
where
  "assertRequiredInputReplyClaim E previous new r claimed =
     (if \<not> reply_fact r then Inr ()
      else
        (case claimed of
           None \<Rightarrow> Inl ''BUSINESS_INPUT_RESPONSE_CLAIM_REQUIRED''
         | Some c \<Rightarrow>
             (let ref = (\<lambda>n. \<lparr>ref_kind = InputRequest, ref_id = ri_requestId r, ref_revision = n\<rparr>)
              in if (case previous of None \<Rightarrow> True
                     | Some p \<Rightarrow> ref (ri_revision r - 1) \<notin> set (js_values (tc_activeRefs p))) \<or>
                    ref (ri_revision r) \<notin> set (tc_requiredInputRefs new) \<or>
                    \<not> truthy (ri_responseCommandId r) \<or>
                    Some (cm_commandId c) \<noteq> ri_responseCommandId r \<or>
                    cm_commandType c \<noteq> Input_response \<or>
                    cm_entryKey c \<noteq> Some (''input:'' @ ri_requestKey r)
                 then Inl ''BUSINESS_INPUT_RESPONSE_CLAIM_REQUIRED''
                 else
                   (case ri_response r of
                      None \<Rightarrow> Inl ''BUSINESS_INPUT_RESPONSE_MISMATCH''
                    | Some response \<Rightarrow>
                        bind_r (taskBusinessInputResponseHash E response) (\<lambda>h.
                          throw_if (cm_responseHash c \<noteq> Some h) ''BUSINESS_INPUT_RESPONSE_MISMATCH'')))))"

definition version_interventions :: "object_version list \<Rightarrow> intervention list" where
  "version_interventions vs =
     concat (map (\<lambda>x. case x of Intervention_version v \<Rightarrow> [v] | _ \<Rightarrow> []) vs)"

text \<open>\<open>entryKey?.startsWith("intervention:") ? entryKey.slice(...) : undefined\<close>.\<close>

definition entry_id :: "command_record \<Rightarrow> string option" where
  "entry_id c =
     (case cm_entryKey c of
        None \<Rightarrow> None
      | Some k \<Rightarrow> if take 13 k = ''intervention:'' then Some (drop 13 k) else None)"

definition result_refs :: "command_record \<Rightarrow> object_ref list" where
  "result_refs c = (case cm_resultRefs c of None \<Rightarrow> [] | Some rs \<Rightarrow> rs)"

definition intervention_result_refs :: "intervention \<Rightarrow> object_ref list" where
  "intervention_result_refs v = (case iv_resultRefs v of None \<Rightarrow> [] | Some rs \<Rightarrow> rs)"

definition navigation_changing :: "intervention \<Rightarrow> bool" where
  "navigation_changing v \<longleftrightarrow> iv_interventionType v \<in> {Adjust_plan, Change_destination}"

definition recon_area_changing :: "intervention \<Rightarrow> bool" where
  "recon_area_changing v \<longleftrightarrow> iv_interventionType v = Adjust_area"

definition plan_changing :: "intervention \<Rightarrow> bool" where
  "plan_changing v \<longleftrightarrow> iv_interventionType v \<noteq> Change_visual_lock"

fun artifact_of :: "object_version \<Rightarrow> task_artifact option" where
  "artifact_of (Artifact_version a) = Some a"
| "artifact_of _ = None"

definition adopted_route :: "task_artifact \<Rightarrow> bool" where
  "adopted_route a \<longleftrightarrow>
     ta_artifactType a = Route \<and>
     (case properties_of (ta_availability a) of
        Some (Route_props p) \<Rightarrow> rp_adoption p = adopted \<and> rp_purpose p = for_navigation
      | _ \<Rightarrow> False)"

text \<open>The new route is active, was not before, is a result and is written as an adopted route.\<close>

definition navigation_facts ::
    "task_context \<Rightarrow> task_context \<Rightarrow> object_version list \<Rightarrow> object_ref list \<Rightarrow> bool" where
  "navigation_facts p n published results \<longleftrightarrow>
     (case js_get (tc_activeRefs n) ''route'' of
        None \<Rightarrow> False
      | Some route \<Rightarrow>
          ref_kind route = Artifact \<and> js_get (tc_activeRefs p) ''route'' \<noteq> Some route \<and>
          route \<in> set results \<and>
          (case find (\<lambda>x. artifact_of x \<noteq> None \<and> businessObjectRef x = route) published of
             Some (Artifact_version a) \<Rightarrow> adopted_route a
           | _ \<Rightarrow> False))"

definition covered_area_reset :: "object_version list \<Rightarrow> task_artifact option" where
  "covered_area_reset published =
     (case find (\<lambda>x. case x of Artifact_version a \<Rightarrow> ta_artifactId a = ''recon-covered-area''
                     | _ \<Rightarrow> False) published of
        Some x \<Rightarrow> artifact_of x
      | None \<Rightarrow> None)"

definition recon_area_facts ::
    "task_context \<Rightarrow> task_context \<Rightarrow> object_version list \<Rightarrow> object_ref list \<Rightarrow> bool" where
  "recon_area_facts p n published results \<longleftrightarrow>
     (case js_get (tc_activeRefs n) ''reconEffectiveArea'' of
        None \<Rightarrow> False
      | Some area \<Rightarrow>
          ref_kind area = Artifact \<and> js_get (tc_activeRefs p) ''reconEffectiveArea'' \<noteq> Some area \<and>
          area \<in> set results \<and>
          (case covered_area_reset published of
             None \<Rightarrow> False
           | Some a \<Rightarrow> businessObjectRef (Artifact_version a) \<in> set results))"

text \<open>What both outcomes of a claimed intervention require.\<close>

definition outcome_facts ::
    "task_context \<Rightarrow> task_context \<Rightarrow> intervention \<Rightarrow> command_record \<Rightarrow> bool" where
  "outcome_facts p n v c \<longleftrightarrow>
     2 \<le> iv_revision v \<and> iv_acceptedCommandId v = Some (cm_commandId c) \<and>
     iv_effectivePlanRevision v = tc_effectivePlanRevision p \<and>
     businessObjectRef (Intervention_version v) \<in> set (tc_interventionRefs n) \<and>
     list_all (\<lambda>r. \<not> (ref_kind r = Intervention \<and> Some (ref_id r) = entry_id c))
       (js_values (tc_activeRefs n)) \<and>
     distinct (result_refs c) \<and> mset (result_refs c) = mset (intervention_result_refs v) \<and>
     set (result_refs c) \<subseteq> set (contextObjectRefs n)"

definition applied_facts ::
    "task_context option \<Rightarrow> task_context \<Rightarrow> object_version list \<Rightarrow> command_record \<Rightarrow> bool" where
  "applied_facts previous n published c \<longleftrightarrow>
     (case (previous, find (\<lambda>v. Some (iv_interventionId v) = entry_id c) (version_interventions published)) of
        (Some p, Some v) \<Rightarrow>
          truthy (entry_id c) \<and> iv_state v = Applied \<and> outcome_facts p n v c \<and>
          result_refs c \<noteq> [] \<and>
          list_ex (\<lambda>r. r \<in> set (map businessObjectRef published) \<and>
                      r \<noteq> businessObjectRef (Intervention_version v)) (result_refs c) \<and>
          (plan_changing v \<longrightarrow> tc_effectivePlanRevision n = tc_effectivePlanRevision p + 1) \<and>
          (navigation_changing v \<longrightarrow> navigation_facts p n published (result_refs c)) \<and>
          (recon_area_changing v \<longrightarrow> recon_area_facts p n published (result_refs c))
      | _ \<Rightarrow> False)"

definition is_outcome :: "command_record option \<Rightarrow> command_state \<Rightarrow> bool" where
  "is_outcome command st \<longleftrightarrow>
     (case command of None \<Rightarrow> False
      | Some c \<Rightarrow> cm_commandType c = Intervention_submission \<and> cm_state c = st)"

definition assertInterventionAppliedFacts ::
    "task_context option \<Rightarrow> task_context \<Rightarrow> object_version list \<Rightarrow> command_record option \<Rightarrow> unit result"
where
  "assertInterventionAppliedFacts previous n published command =
     (let applied = filter (\<lambda>v. iv_state v = Applied) (version_interventions published)
      in if applied \<noteq> [] \<and> (length applied \<noteq> 1 \<or> \<not> is_outcome command Command_applied)
         then Inl ''BUSINESS_INTERVENTION_APPLIED_FACTS_INCOMPLETE''
         else
           throw_if (is_outcome command Command_applied \<and>
                     \<not> applied_facts previous n published (the command))
             ''BUSINESS_INTERVENTION_APPLIED_FACTS_INCOMPLETE'')"

definition rejected_version :: "intervention \<Rightarrow> bool" where
  "rejected_version v \<longleftrightarrow>
     iv_acceptedCommandId v \<noteq> None \<and> iv_state v \<in> {Failed_intervention, Withdrawn}"

definition rejected_facts ::
    "task_context option \<Rightarrow> task_context \<Rightarrow> intervention list \<Rightarrow> command_record \<Rightarrow> bool" where
  "rejected_facts previous n rejected c \<longleftrightarrow>
     (case (previous, find (\<lambda>v. Some (iv_interventionId v) = entry_id c) rejected) of
        (Some p, Some v) \<Rightarrow>
          truthy (entry_id c) \<and> outcome_facts p n v c \<and>
          tc_effectivePlanRevision n = tc_effectivePlanRevision p \<and>
          (navigation_changing v \<and> su_status (tc_summary n) = InProgress \<longrightarrow>
             js_get (tc_activeRefs n) ''route'' = js_get (tc_activeRefs p) ''route'') \<and>
          (recon_area_changing v \<longrightarrow>
             js_get (tc_activeRefs n) ''reconEffectiveArea'' =
             js_get (tc_activeRefs p) ''reconEffectiveArea'')
      | _ \<Rightarrow> False)"

definition assertInterventionRejectedFacts ::
    "task_context option \<Rightarrow> task_context \<Rightarrow> object_version list \<Rightarrow> command_record option \<Rightarrow> unit result"
where
  "assertInterventionRejectedFacts previous n published command =
     (let rejected = filter rejected_version (version_interventions published)
      in if rejected \<noteq> [] \<and> (length rejected \<noteq> 1 \<or> \<not> is_outcome command Command_rejected)
         then Inl ''BUSINESS_INTERVENTION_REJECTED_FACTS_INCOMPLETE''
         else
           throw_if (is_outcome command Command_rejected \<and>
                     \<not> rejected_facts previous n rejected (the command))
             ''BUSINESS_INTERVENTION_REJECTED_FACTS_INCOMPLETE'')"

text \<open>The reference that a feedback body announces as changed.\<close>

fun changed_ref :: "body_payload \<Rightarrow> object_ref option" where
  "changed_ref (Known (ARTIFACT_CHANGED c)) = Some (ar_artifactRef c)"
| "changed_ref (Known (ACTION_CHANGED c)) = Some (oc_ref c)"
| "changed_ref (Known (REQUIRED_INPUT_CHANGED c)) = Some (oc_ref c)"
| "changed_ref (Known (INTERVENTION_CHANGED c)) = Some (oc_ref c)"
| "changed_ref _ = None"

fun announced_kind :: "body_payload \<Rightarrow> object_kind option" where
  "announced_kind (Known (ARTIFACT_CHANGED _)) = Some Artifact"
| "announced_kind (Known (ACTION_CHANGED _)) = Some Action"
| "announced_kind (Known (REQUIRED_INPUT_CHANGED _)) = Some InputRequest"
| "announced_kind (Known (INTERVENTION_CHANGED _)) = Some Intervention"
| "announced_kind _ = None"

fun event_delta :: "body_payload \<Rightarrow> context_delta option" where
  "event_delta (Known (BUSINESS_EVENT e)) = ev_contextDelta e"
| "event_delta _ = None"

definition terminal_state :: "command_state \<Rightarrow> intervention_state \<Rightarrow> bool" where
  "terminal_state st v \<longleftrightarrow>
     (if st = Command_applied then v = Applied else v = Failed_intervention \<or> v = Withdrawn)"

definition intervention_announced :: "intervention \<Rightarrow> event_draft list \<Rightarrow> bool" where
  "intervention_announced v events \<longleftrightarrow>
     (case filter (\<lambda>d. announced_kind (fb_payload (dr_body d)) = Some Intervention \<and>
                      changed_ref (fb_payload (dr_body d)) =
                        Some (businessObjectRef (Intervention_version v))) events of
        [d] \<Rightarrow>
          (case fb_payload (dr_body d) of
             Known (INTERVENTION_CHANGED c) \<Rightarrow>
               oc_change c = Update \<and> oc_previousRevision c = Some (iv_revision v - 1)
           | _ \<Rightarrow> False)
      | _ \<Rightarrow> False)"

definition metadata_announced :: "task_context \<Rightarrow> event_draft list \<Rightarrow> bool" where
  "metadata_announced c events \<longleftrightarrow>
     list_ex (\<lambda>d. case event_delta (fb_payload (dr_body d)) of
        None \<Rightarrow> False
      | Some delta \<Rightarrow>
          de_effectivePlanRevision delta = Some (tc_effectivePlanRevision c) \<and>
          (case de_activeRefs delta of None \<Rightarrow> False | Some a \<Rightarrow> active_equal a (tc_activeRefs c)))
       events"

definition results_announced :: "command_record \<Rightarrow> object_version list \<Rightarrow> event_draft list \<Rightarrow> bool" where
  "results_announced c published events \<longleftrightarrow>
     list_all (\<lambda>x. list_ex (\<lambda>d.
          announced_kind (fb_payload (dr_body d)) = Some (ref_kind (businessObjectRef x)) \<and>
          changed_ref (fb_payload (dr_body d)) = Some (businessObjectRef x)) events)
       (filter (\<lambda>x. businessObjectRef x \<in> set (result_refs c)) published)"

definition assertInterventionTerminalPublicEvents ::
    "task_context \<Rightarrow> object_version list \<Rightarrow> command_record option \<Rightarrow> event_draft list \<Rightarrow> unit result"
where
  "assertInterventionTerminalPublicEvents ctx published command events =
     (case command of
        None \<Rightarrow> Inr ()
      | Some c \<Rightarrow>
          if cm_commandType c \<noteq> Intervention_submission \<or> cm_state c = Command_accepted then Inr ()
          else
            (case find (\<lambda>v. iv_acceptedCommandId v = Some (cm_commandId c) \<and>
                            terminal_state (cm_state c) (iv_state v)) (version_interventions published) of
               None \<Rightarrow> Inl ''BUSINESS_INTERVENTION_PUBLIC_EVENT_REQUIRED''
             | Some v \<Rightarrow>
                 throw_if (\<not> intervention_announced v events \<or> \<not> metadata_announced ctx events \<or>
                           \<not> results_announced c published events)
                   ''BUSINESS_INTERVENTION_PUBLIC_EVENT_REQUIRED''))"

subsection \<open>Adoption of a reconnaissance area\<close>

fun area_revision :: "artifact_properties \<Rightarrow> int option" where
  "area_revision (Area_props n) = Some n"
| "area_revision (Plan_props n _ _) = Some n"
| "area_revision (Footprint_props n _ _) = Some n"
| "area_revision (Covered_props n _ _) = Some n"
| "area_revision _ = None"

fun available_area_revision :: "task_artifact \<Rightarrow> int option" where
  "available_area_revision a =
     (case ta_availability a of Available _ props _ \<Rightarrow> area_revision props | _ \<Rightarrow> None)"

definition retired_properties :: "string list" where
  "retired_properties =
     [''reconCoverage'', ''reconCoverageCursorHash'', ''reconCoverageSignature'',
      ''reconCoverageMissionId'']"

definition artifact_version_of :: "object_version list \<Rightarrow> object_ref \<Rightarrow> task_artifact option" where
  "artifact_version_of published ref =
     (case find (\<lambda>x. case artifact_of x of None \<Rightarrow> False
              | Some a \<Rightarrow> ta_artifactId a = ref_id ref \<and> ta_revision a = ref_revision ref) published of
        None \<Rightarrow> None | Some x \<Rightarrow> artifact_of x)"

definition coverage_reset :: "task_artifact \<Rightarrow> bool" where
  "coverage_reset a \<longleftrightarrow>
     ta_artifactType a = Covered_area \<and>
     (case ta_availability a of
        Absent not_produced_yet reasonCode _ \<Rightarrow> reasonCode = ''COVERAGE_RESET_FOR_NEW_AREA''
      | _ \<Rightarrow> False)"

definition adoption_facts ::
    "task_context option \<Rightarrow> task_context \<Rightarrow> object_ref \<Rightarrow> task_artifact option \<Rightarrow> task_artifact option \<Rightarrow> bool"
where
  "adoption_facts previous n ref area reset \<longleftrightarrow>
     (case (previous, area, reset) of
        (Some p, Some a, Some r) \<Rightarrow>
          ref_kind ref = Artifact \<and> ref_id ref = ''recon-requested-area'' \<and>
          ta_artifactType a = Recon_area \<and> ta_semantics a = planned \<and>
          (case ta_availability a of Available _ _ _ \<Rightarrow> True | _ \<Rightarrow> False) \<and>
          coverage_reset r \<and> \<not> date_before (ta_updatedAt r) (ta_updatedAt a) \<and>
          \<not> date_before (tc_updatedAt n) (ta_updatedAt r) \<and>
          tc_effectivePlanRevision n = tc_effectivePlanRevision p + 1 \<and>
          ref \<in> set (tc_artifactRefs n) \<and>
          businessObjectRef (Artifact_version r) \<in> set (tc_artifactRefs n) \<and>
          list_all (\<lambda>k. \<not> js_has (case su_properties (tc_summary n) of None \<Rightarrow> [] | Some q \<Rightarrow> q) k)
            retired_properties
      | _ \<Rightarrow> False)"

text \<open>The revision of the area that was effective; \<open>Inl\<close> when the version has none.\<close>

definition previous_area_revision :: "object_version option \<Rightarrow> int option result" where
  "previous_area_revision previousEffectiveArea =
     (case previousEffectiveArea of
        None \<Rightarrow> Inr None
      | Some x \<Rightarrow>
          (case artifact_of x of
             None \<Rightarrow> Inl ''RECON_PREVIOUS_EFFECTIVE_AREA_INVALID''
           | Some a \<Rightarrow>
               (case (if ta_artifactType a = Recon_area then available_area_revision a else None) of
                  None \<Rightarrow> Inl ''RECON_PREVIOUS_EFFECTIVE_AREA_INVALID''
                | Some n \<Rightarrow>
                    if n < 1 then Inl ''RECON_PREVIOUS_EFFECTIVE_AREA_INVALID'' else Inr (Some n))))"

definition change_announced :: "event_draft list \<Rightarrow> object_ref \<Rightarrow> bool" where
  "change_announced events target \<longleftrightarrow>
     list_ex (\<lambda>d. case fb_payload (dr_body d) of
        Known (ARTIFACT_CHANGED c) \<Rightarrow>
          ar_change c = Update \<and> ar_previousRevision c = Some (ref_revision target - 1) \<and>
          ar_artifactRef c = target
      | _ \<Rightarrow> False) events"

definition adoption_announced :: "task_context \<Rightarrow> event_draft list \<Rightarrow> bool" where
  "adoption_announced n events \<longleftrightarrow>
     list_ex (\<lambda>d. case event_delta (fb_payload (dr_body d)) of
        None \<Rightarrow> False
      | Some delta \<Rightarrow>
          (case de_activeRefs delta of None \<Rightarrow> False | Some a \<Rightarrow> active_equal a (tc_activeRefs n)) \<and>
          de_effectivePlanRevision delta = Some (tc_effectivePlanRevision n) \<and>
          (case de_summary delta of None \<Rightarrow> False | Some u \<Rightarrow> summary_equal u (tc_summary n)))
       events"

definition assertReconAreaAdoptionFacts ::
    "task_context option \<Rightarrow> task_context \<Rightarrow> object_version list \<Rightarrow> event_draft list
       \<Rightarrow> object_version option \<Rightarrow> unit result" where
  "assertReconAreaAdoptionFacts previous n published events previousEffectiveArea =
     (let effective_area = (\<lambda>c. js_get (tc_activeRefs c) ''reconEffectiveArea'');
          earlier = (case previous of None \<Rightarrow> None | Some p \<Rightarrow> effective_area p)
      in if effective_area n = earlier then Inr ()
         else
           (case effective_area n of
              None \<Rightarrow> Inl ''RECON_EFFECTIVE_AREA_REF_REMOVED''
            | Some ref \<Rightarrow>
                (let area = artifact_version_of published ref;
                     reset = covered_area_reset published
                 in if \<not> adoption_facts previous n ref area reset
                    then Inl ''RECON_AREA_ADOPTION_FACTS_INCOMPLETE''
                    else if earlier \<noteq> None \<and> previousEffectiveArea = None
                    then Inl ''RECON_PREVIOUS_EFFECTIVE_AREA_INVALID''
                    else
                      bind_r (previous_area_revision previousEffectiveArea) (\<lambda>previousRevision.
                      if (case available_area_revision (the area) of
                            None \<Rightarrow> True
                          | Some k \<Rightarrow>
                              k < 1 \<or>
                              (case previousRevision of None \<Rightarrow> False | Some q \<Rightarrow> k \<le> q))
                      then Inl ''RECON_AREA_REVISION_NOT_ADVANCED''
                      else if js_get (tc_activeRefs n) ''currentFootprint'' \<noteq> None
                      then Inl ''RECON_AREA_ADOPTION_FOOTPRINT_STALE''
                      else
                        throw_if
                          (\<not> change_announced events ref \<or>
                           \<not> change_announced events (businessObjectRef (Artifact_version (the reset))) \<or>
                           \<not> adoption_announced n events)
                          ''RECON_AREA_ADOPTION_PUBLIC_EVENTS_REQUIRED''))))"

subsection \<open>Content of artifacts\<close>

record content_write =
  cw_artifactId :: string
  cw_revision :: int
  cw_handle :: string
  cw_bytes :: string

record stored_content =
  st_reference :: content_ref
  st_bytes :: string

text \<open>The references of the available artifacts in a change set, by handle.\<close>

fun version_references :: "object_version \<Rightarrow> (task_artifact \<times> content_ref) list" where
  "version_references (Artifact_version a) =
     concat (map (\<lambda>c. case c of Content_ref r \<Rightarrow> [(a, r)] | _ \<Rightarrow> []) (contents_of (ta_availability a)))"
| "version_references _ = []"

definition expected_content :: "task_artifact \<Rightarrow> content_ref \<Rightarrow> content_ref" where
  "expected_content a r = r\<lparr>cr_artifactId := ta_artifactId a, cr_revision := ta_revision a\<rparr>"

definition require_content ::
    "(string, content_ref) jsmap \<Rightarrow> task_artifact \<times> content_ref \<Rightarrow> (string, content_ref) jsmap result"
where
  "require_content required ar =
     (let expected = expected_content (fst ar) (snd ar)
      in case js_get required (cr_handle expected) of
           Some existing \<Rightarrow>
             if existing \<noteq> expected then Inl ''ARTIFACT_CONTENT_HANDLE_CONFLICT''
             else Inr (js_set (cr_handle expected) expected required)
         | None \<Rightarrow> Inr (js_set (cr_handle expected) expected required))"

definition json_content_ok :: "env \<Rightarrow> string \<Rightarrow> unit result" where
  "json_content_ok E bytes =
     (case en_json_parse E bytes of
        None \<Rightarrow> Inl ''ARTIFACT_CONTENT_JSON_INVALID''
      | Some (JObj kvs) \<Rightarrow>
          throw_if (map_of kvs ''kind'' = Some (JStr ''content_ref'')) ''ARTIFACT_CONTENT_RECURSIVE_REF''
      | Some _ \<Rightarrow> Inr ())"

definition prepare_write ::
    "env \<Rightarrow> (string, content_ref) jsmap \<Rightarrow> stored_content list \<Rightarrow> content_write \<Rightarrow> stored_content list result"
where
  "prepare_write E required prepared w =
     (case js_get required (cw_handle w) of
        None \<Rightarrow> Inl ''ARTIFACT_CONTENT_UNREFERENCED''
      | Some r \<Rightarrow>
          if cr_artifactId r \<noteq> cw_artifactId w \<or> cr_revision r \<noteq> cw_revision w
          then Inl ''ARTIFACT_CONTENT_UNREFERENCED''
          else if cw_handle w \<in> set (map (\<lambda>p. cr_handle (st_reference p)) prepared)
          then Inl ''ARTIFACT_CONTENT_DUPLICATE''
          else if int (length (cw_bytes w)) \<noteq> cr_sizeBytes r then Inl ''ARTIFACT_CONTENT_SIZE_MISMATCH''
          else if en_sha256 E (cw_bytes w) \<noteq> cr_sha256 r then Inl ''ARTIFACT_CONTENT_HASH_MISMATCH''
          else
            bind_r (if sublist ''json'' (cr_mediaType r) then json_content_ok E (cw_bytes w) else Inr ()) (\<lambda>_.
              Inr (prepared @ [\<lparr>st_reference = r, st_bytes = cw_bytes w\<rparr>])))"

definition validateBusinessContentWrites ::
    "env \<Rightarrow> object_version list \<Rightarrow> content_write list \<Rightarrow> stored_content list result" where
  "validateBusinessContentWrites E versions writes =
     bind_r (fold_r require_content [] (concat (map version_references versions))) (\<lambda>required.
     bind_r (fold_r (prepare_write E required) [] writes) (\<lambda>prepared.
     if length prepared \<noteq> length required then Inl ''ARTIFACT_CONTENT_BYTES_REQUIRED''
     else Inr prepared))"

end
