(* ===== verification/MemoryBusinessStore.thy ===== *)
theory MemoryBusinessStore
  imports BusinessStore Interfaces
begin

text \<open>
  packages/provider-adapter-kit/src/memory-task-business-store.ts: for each scope one Context, the
  immutable versions of its objects, a ledger of commands and the bytes of its content, changed only
  by \<open>claimCommand\<close> and by change sets. The optional trajectory evidence of a change set is not
  modelled. A scope is looked up by its key; \<open>objectKey\<close> is the pair it is built from; what a
  reader gets is a value, so \<open>structuredClone\<close> does not show.
\<close>

subsection \<open>State\<close>

type_synonym object_key = "object_kind \<times> string"

type_synonym version_map = "(int, object_version) jsmap"

record scope_state =
  ss_context :: "task_context option"
  ss_versions :: "(object_key, version_map) jsmap"
  ss_latest :: "(object_key, int) jsmap"
  ss_commands :: "(string, command_record) jsmap"
  ss_contents :: "(string, stored_content) jsmap"

definition emptyState :: scope_state where
  "emptyState = \<lparr>ss_context = None, ss_versions = [], ss_latest = [], ss_commands = [], ss_contents = []\<rparr>"

record source_event =
  sv_sourceEventId :: string
  sv_sourceSequence :: int
  sv_occurredAt :: "(int \<times> int) option"
  sv_externalExecutionId :: string
  sv_resourceRef :: string
  sv_description :: string
  sv_severityHint :: severity
  sv_reasonCode :: string
  sv_body :: feedback_body

record business_store =
  bt_scopes :: "(string option list, scope_state) jsmap"
  bt_events :: "source_event list"

definition objectKey :: "object_ref \<Rightarrow> object_key" where
  "objectKey r = (ref_kind r, ref_id r)"

definition state_of :: "business_store \<Rightarrow> bound_scope \<Rightarrow> scope_state" where
  "state_of s scope = (case js_get (bt_scopes s) (scope_key scope) of None \<Rightarrow> emptyState | Some st \<Rightarrow> st)"

definition put_state :: "business_store \<Rightarrow> bound_scope \<Rightarrow> scope_state \<Rightarrow> business_store" where
  "put_state s scope st = s\<lparr>bt_scopes := js_set (scope_key scope) st (bt_scopes s)\<rparr>"

definition versions_of :: "scope_state \<Rightarrow> object_key \<Rightarrow> version_map" where
  "versions_of st k = (case js_get (ss_versions st) k of None \<Rightarrow> [] | Some m \<Rightarrow> m)"

definition version_at :: "scope_state \<Rightarrow> object_ref \<Rightarrow> object_version option" where
  "version_at st r = js_get (versions_of st (objectKey r)) (ref_revision r)"

text \<open>\<open>versions.set(revision, version); latest.set(key, revision)\<close> on a copy of the maps.\<close>

definition put_version :: "scope_state \<Rightarrow> object_version \<Rightarrow> scope_state" where
  "put_version st v =
     (let r = businessObjectRef v; k = objectKey r
      in st\<lparr>ss_versions := js_set k (js_set (ref_revision r) v (versions_of st k)) (ss_versions st),
            ss_latest := js_set k (ref_revision r) (ss_latest st)\<rparr>)"

subsection \<open>Reads\<close>

definition getContext :: "business_store \<Rightarrow> bound_scope \<Rightarrow> task_context option" where
  "getContext s scope = ss_context (state_of s scope)"

definition getObjectVersion :: "business_store \<Rightarrow> bound_scope \<Rightarrow> object_ref \<Rightarrow> object_version option result" where
  "getObjectVersion s scope r =
     bind_r (zod (BusinessObjectRefSchema r)) (\<lambda>_. Inr (version_at (state_of s scope) r))"

definition getArtifactVersion :: "business_store \<Rightarrow> bound_scope \<Rightarrow> string \<Rightarrow> int \<Rightarrow> task_artifact option result" where
  "getArtifactVersion s scope artifactId revision =
     bind_r (getObjectVersion s scope
               \<lparr>ref_kind = Artifact, ref_id = artifactId, ref_revision = revision\<rparr>) (\<lambda>v.
       Inr (case v of None \<Rightarrow> None | Some x \<Rightarrow> artifact_of x))"

definition getArtifactLatest :: "business_store \<Rightarrow> bound_scope \<Rightarrow> string \<Rightarrow> task_artifact option result" where
  "getArtifactLatest s scope artifactId =
     (case js_get (ss_latest (state_of s scope)) (Artifact, artifactId) of
        None \<Rightarrow> Inr None
      | Some revision \<Rightarrow> getArtifactVersion s scope artifactId revision)"

definition getCommand :: "business_store \<Rightarrow> bound_scope \<Rightarrow> string \<Rightarrow> command_record option" where
  "getCommand s scope commandId = js_get (ss_commands (state_of s scope)) commandId"

definition getAcceptedInputCommand ::
    "business_store \<Rightarrow> bound_scope \<Rightarrow> string \<Rightarrow> command_record option result" where
  "getAcceptedInputCommand s scope requestKey =
     (if requestKey = [] \<or> length requestKey > 256 then Inl ''BUSINESS_INPUT_REQUEST_KEY_INVALID''
      else
        (case filter (\<lambda>c. cm_commandType c = Input_response \<and>
                cm_entryKey c = Some (''input:'' @ requestKey) \<and> cm_state c = Command_accepted)
              (js_values (ss_commands (state_of s scope))) of
           [] \<Rightarrow> Inr None
         | [c] \<Rightarrow> Inr (Some c)
         | _ \<Rightarrow> Inl ''BUSINESS_ENTRY_CLAIM_CONFLICT''))"

text \<open>\<open>snapshot_bytes\<close> is the length of the JSON text of the snapshot.\<close>

definition snapshot_object :: "scope_state \<Rightarrow> object_ref \<Rightarrow> object_version result" where
  "snapshot_object st r =
     (case version_at st r of None \<Rightarrow> Inl ''BUSINESS_CONTEXT_REF_NOT_FOUND'' | Some v \<Rightarrow> Inr v)"

definition getContextSnapshot ::
    "(task_context \<Rightarrow> object_version list \<Rightarrow> int) \<Rightarrow> business_store \<Rightarrow> bound_scope
       \<Rightarrow> (task_context \<times> object_version list) option result" where
  "getContextSnapshot snapshot_bytes s scope =
     (let st = state_of s scope
      in case ss_context st of
           None \<Rightarrow> Inr None
         | Some c \<Rightarrow>
             bind_r (map_r (snapshot_object st) (contextObjectRefs c)) (\<lambda>objects.
               if snapshot_bytes c objects > 1048576 then Inl ''BUSINESS_SNAPSHOT_TOO_LARGE''
               else Inr (Some (c, objects))))"

definition readArtifactContent ::
    "env \<Rightarrow> business_store \<Rightarrow> bound_scope \<Rightarrow> string \<Rightarrow> int \<Rightarrow> int option \<Rightarrow> string option \<Rightarrow> prepared_read result"
where
  "readArtifactContent E s scope artifactId revision now representationName =
     bind_r (getArtifactVersion s scope artifactId revision) (\<lambda>artifact.
     case artifact of
       None \<Rightarrow> Inl ''ARTIFACT_REVISION_NOT_FOUND''
     | Some a \<Rightarrow>
         prepareArtifactContentRead (en_iso_datetime E) a
           \<lparr>rq_identity = scopeBusinessIdentity scope, rq_artifactId = artifactId,
            rq_revision = revision\<rparr> now representationName)"

definition readArtifactContentBytes ::
    "env \<Rightarrow> business_store \<Rightarrow> bound_scope \<Rightarrow> string \<Rightarrow> int \<Rightarrow> int option \<Rightarrow> string option \<Rightarrow> stored_content result"
where
  "readArtifactContentBytes E s scope artifactId revision now representationName =
     bind_r (readArtifactContent E s scope artifactId revision now representationName) (\<lambda>prepared.
     case prepared of
       Stored handle mediaType sizeBytes sha256 \<Rightarrow>
         (case js_get (ss_contents (state_of s scope)) handle of
            None \<Rightarrow> Inl ''ARTIFACT_CONTENT_NOT_FOUND''
          | Some content \<Rightarrow>
              if cr_artifactId (st_reference content) \<noteq> artifactId \<or>
                 cr_revision (st_reference content) \<noteq> revision
              then Inl ''ARTIFACT_CONTENT_NOT_FOUND''
              else if cr_sha256 (st_reference content) \<noteq> sha256 \<or>
                 cr_sizeBytes (st_reference content) \<noteq> sizeBytes \<or>
                 int (length (st_bytes content)) \<noteq> sizeBytes \<or>
                 en_sha256 E (st_bytes content) \<noteq> sha256
              then Inl ''ARTIFACT_CONTENT_HASH_MISMATCH''
              else Inr content)
     | _ \<Rightarrow> Inl ''ARTIFACT_CONTENT_INLINE'')"

subsection \<open>Claims\<close>

definition same_command :: "command_record \<Rightarrow> command_record \<Rightarrow> bool" where
  "same_command a b \<longleftrightarrow>
     cm_commandType a = cm_commandType b \<and> cm_requestHash a = cm_requestHash b \<and>
     cm_responseHash a = cm_responseHash b \<and> cm_entryKey a = cm_entryKey b \<and>
     cm_runtimeCommandSequence a = cm_runtimeCommandSequence b"

definition claim_conflict :: "command_record \<Rightarrow> command_record \<Rightarrow> unit result" where
  "claim_conflict command other =
     (if truthy (cm_entryKey command) \<and> cm_entryKey other = cm_entryKey command \<and>
         cm_state other \<in> {Command_accepted, Command_applied}
      then Inl ''BUSINESS_ENTRY_ALREADY_CLAIMED''
      else if cm_commandType command = Intervention_submission \<and>
         cm_commandType other = Intervention_submission \<and> cm_state other = Command_accepted
      then Inl ''BUSINESS_CHANGE_IN_PROGRESS''
      else if truthy (cm_runtimeCommandSequence command) \<and>
         cm_commandType other = cm_commandType command \<and>
         cm_runtimeCommandSequence other = cm_runtimeCommandSequence command
      then Inl ''RUNTIME_COMMAND_SEQUENCE_CONFLICT''
      else Inr ())"

definition js_remainder :: "int \<Rightarrow> int \<Rightarrow> int" where
  "js_remainder a b = (if 0 \<le> a then a mod b else - ((- a) mod b))"

definition memoryTaskBusinessEvent ::
    "(int \<Rightarrow> string) \<Rightarrow> bound_scope \<Rightarrow> event_draft \<Rightarrow> int \<Rightarrow> source_event" where
  "memoryTaskBusinessEvent event_id scope draft sequenceNumber =
     \<lparr>sv_sourceEventId = event_id sequenceNumber, sv_sourceSequence = sequenceNumber,
      sv_occurredAt = map_option (\<lambda>ms. (ms div 1000, js_remainder ms 1000 * 1000000))
        (date_parse (fb_providerRecordedAt (dr_body draft))),
      sv_externalExecutionId = bs_executionId scope, sv_resourceRef = bs_resourceId scope,
      sv_description = dr_description draft, sv_severityHint = dr_severityHint draft,
      sv_reasonCode = dr_reasonCode draft, sv_body = dr_body draft\<rparr>"

text \<open>The events of drafts, numbered after the \<open>n\<close> that there are.\<close>

definition number_events ::
    "(int \<Rightarrow> string) \<Rightarrow> bound_scope \<Rightarrow> nat \<Rightarrow> event_draft list \<Rightarrow> source_event list" where
  "number_events event_id scope n drafts =
     map (\<lambda>(i, d). memoryTaskBusinessEvent event_id scope d (int (n + i + 1))) (List.enumerate 0 drafts)"

record claim_request =
  rq_command :: command_record
  rq_expectedEntryRef :: "object_ref option"
  rq_now :: "int option"
  rq_expectedContextRevision :: "int option"
  rq_publishSubmission :: bool

text \<open>The part of a new claim that publishes the submission of an intervention.\<close>

definition publish_submission ::
    "env \<Rightarrow> bound_scope \<Rightarrow> scope_state \<Rightarrow> claim_request \<Rightarrow> (scope_state \<times> event_draft list) result" where
  "publish_submission E scope st q =
     (if \<not> rq_publishSubmission q then Inr (st, [])
      else
        (case (rq_expectedEntryRef q, ss_context st) of
           (Some ref, Some c) \<Rightarrow>
             (case version_at st ref of
                None \<Rightarrow> Inl ''BUSINESS_ENTRY_NOT_CURRENT''
              | Some previous \<Rightarrow>
                  if js_get (ss_latest st) (objectKey ref) \<noteq> Some (ref_revision ref)
                  then Inl ''BUSINESS_ENTRY_NOT_CURRENT''
                  else
                    bind_r (prepareInterventionSubmission E scope c previous (rq_command q) (rq_now q))
                      (\<lambda>(c', version, drafts).
                        Inr ((put_version st version)\<lparr>ss_context := Some c'\<rparr>, drafts)))
         | _ \<Rightarrow> Inl ''BUSINESS_INTERVENTION_SUBMISSION_INVALID''))"

definition check_entry :: "env \<Rightarrow> scope_state \<Rightarrow> claim_request \<Rightarrow> unit result" where
  "check_entry E st q =
     (case rq_expectedEntryRef q of
        None \<Rightarrow> Inr ()
      | Some ref \<Rightarrow>
          bind_r (assertBusinessCommandEntryCurrent (ss_context st) ref (cm_commandType (rq_command q)))
            (\<lambda>_. assertBusinessCommandEntryOpenAt E (version_at st ref) (cm_commandType (rq_command q))
                   (rq_now q) (map_option tc_effectivePlanRevision (ss_context st))))"

definition claimCommand ::
    "env \<Rightarrow> (int \<Rightarrow> string) \<Rightarrow> business_store \<Rightarrow> bound_scope \<Rightarrow> claim_request
       \<Rightarrow> (business_store \<times> bool \<times> command_record \<times> source_event list) result" where
  "claimCommand E event_id s scope q =
     bind_r (parseBusinessCommandRecord E scope (rq_command q)) (\<lambda>command.
     if cm_state command \<noteq> Command_accepted then Inl ''BUSINESS_COMMAND_CLAIM_STATE_INVALID''
     else
       (let st = state_of s scope
        in case js_get (ss_commands st) (cm_commandId command) of
             Some existing \<Rightarrow>
               if same_command existing command then Inr (s, False, existing, [])
               else Inl ''COMMAND_ID_CONFLICT''
           | None \<Rightarrow>
               if rq_expectedContextRevision q \<noteq> None \<and>
                  map_option tc_contextRevision (ss_context st) \<noteq> rq_expectedContextRevision q
               then Inl ''CONTEXT_REVISION_CONFLICT''
               else
                 bind_r (check_entry E st q) (\<lambda>_.
                 bind_r (each_r (claim_conflict command) (js_values (ss_commands st))) (\<lambda>_.
                 bind_r (publish_submission E scope st q) (\<lambda>(staged, drafts).
                   (let events = number_events event_id scope (length (bt_events s)) drafts
                    in Inr ((put_state s scope
                               (staged\<lparr>ss_commands := js_set (cm_commandId command) command
                                        (ss_commands staged)\<rparr>))
                              \<lparr>bt_events := bt_events s @ events\<rparr>, True, command, events)))))))"

subsection \<open>Change sets\<close>

record change_set =
  ch_expectedContextRevision :: "int option"
  ch_context :: task_context
  ch_objects :: "object_version list"
  ch_contents :: "content_write list"
  ch_command :: "command_record option"

fun version_transition :: "env \<Rightarrow> object_version \<Rightarrow> object_version \<Rightarrow> unit result" where
  "version_transition E (Artifact_version p) (Artifact_version n) =
     throw_if (ta_artifactType p \<noteq> ta_artifactType n) ''BUSINESS_ARTIFACT_TYPE_CHANGED''"
| "version_transition E (Action_version p) (Action_version n) =
     assertActionTransition (en_iso_datetime E) p n"
| "version_transition E (Input_version p) (Input_version n) =
     assertRequiredInputTransition (en_iso_datetime E) p n"
| "version_transition E (Intervention_version p) (Intervention_version n) =
     assertInterventionTransition (en_iso_datetime E) p n"
| "version_transition E p n = Inr ()"

text \<open>One round of the loop over the objects: the staged state, the keys changed, the versions published.\<close>

definition stage_object ::
    "env \<Rightarrow> bound_scope \<Rightarrow> scope_state \<times> object_version list \<Rightarrow> object_version
       \<Rightarrow> (scope_state \<times> object_version list) result" where
  "stage_object E scope p v =
     bind_r (parseBusinessObjectVersion E scope v) (\<lambda>version.
       (let st = fst p; ref = businessObjectRef version; key = objectKey ref;
            latestRevision = js_get (ss_latest st) key
        in if key \<in> set (map (\<lambda>x. objectKey (businessObjectRef x)) (snd p))
           then Inl ''BUSINESS_OBJECT_DUPLICATE_IN_CHANGESET''
           else if ref_revision ref \<noteq> (case latestRevision of None \<Rightarrow> 0 | Some n \<Rightarrow> n) + 1
           then Inl ''BUSINESS_OBJECT_REVISION_CONFLICT''
           else
             bind_r (case latestRevision of
                       None \<Rightarrow> Inr ()
                     | Some n \<Rightarrow>
                         (case js_get (versions_of st key) n of
                            None \<Rightarrow> Inr () | Some prior \<Rightarrow> version_transition E prior version)) (\<lambda>_.
               Inr (put_version st version, snd p @ [version]))))"

definition check_revision :: "scope_state \<Rightarrow> change_set \<Rightarrow> unit result" where
  "check_revision st ch =
     (let n = ch_context ch
      in if map_option tc_contextRevision (ss_context st) \<noteq> ch_expectedContextRevision ch
         then Inl ''BUSINESS_CONTEXT_REVISION_CONFLICT''
         else if (case ss_context st of
                    None \<Rightarrow> tc_contextRevision n \<notin> {0, 1}
                  | Some c \<Rightarrow> tc_contextRevision n \<noteq> tc_contextRevision c + 1)
         then Inl ''BUSINESS_CONTEXT_REVISION_INVALID''
         else if (case ss_context st of None \<Rightarrow> False
                  | Some c \<Rightarrow> tc_effectivePlanRevision n < tc_effectivePlanRevision c)
         then Inl ''BUSINESS_PLAN_REVISION_REGRESSION''
         else
           bind_r (assertBusinessContextTimeProgression (ss_context st) n) (\<lambda>_.
             throw_if (case ss_context st of None \<Rightarrow> False
                       | Some c \<Rightarrow> su_status (tc_summary c) = Finalized) ''BUSINESS_CONTEXT_FINALIZED''))"

definition check_refs :: "scope_state \<Rightarrow> task_context \<Rightarrow> unit result" where
  "check_refs staged c =
     bind_r (each_r (\<lambda>r. throw_if (r \<notin> set (listed_refs c)) ''BUSINESS_ACTIVE_REF_NOT_LISTED'')
               (js_values (tc_activeRefs c))) (\<lambda>_.
       each_r (\<lambda>r. throw_if (version_at staged r = None) ''BUSINESS_CONTEXT_REF_NOT_FOUND'')
         (js_values (tc_activeRefs c) @ listed_refs c))"

definition check_reply ::
    "env \<Rightarrow> task_context option \<Rightarrow> task_context \<Rightarrow> (string, command_record) jsmap \<Rightarrow> object_version \<Rightarrow> unit result"
where
  "check_reply E current c commands v =
     (case v of
        Input_version r \<Rightarrow>
          if \<not> reply_fact r then Inr ()
          else
            assertRequiredInputReplyClaim E current c r
              (case ri_responseCommandId r of
                 None \<Rightarrow> None | Some i \<Rightarrow> if i = [] then None else js_get commands i)
      | _ \<Rightarrow> Inr ())"

definition same_claim :: "command_record \<Rightarrow> command_record \<Rightarrow> bool" where
  "same_claim a b \<longleftrightarrow>
     same_command a b \<and> cm_createdAt a = cm_createdAt b \<and> cm_responder a = cm_responder b \<and>
     (case (cm_interventionRequest a, cm_interventionRequest b) of
        (None, None) \<Rightarrow> True
      | (Some p, Some q) \<Rightarrow>
          p = q\<lparr>vc_input := vc_input p\<rparr> \<and> deep_equal (JObj (vc_input p)) (JObj (vc_input q))
      | _ \<Rightarrow> False)"

definition settle_command ::
    "scope_state \<Rightarrow> command_record option \<Rightarrow> scope_state result" where
  "settle_command staged command =
     (case command of
        None \<Rightarrow> Inr staged
      | Some c \<Rightarrow>
          (case js_get (ss_commands staged) (cm_commandId c) of
             None \<Rightarrow> Inl ''BUSINESS_COMMAND_CLAIM_REQUIRED''
           | Some claimed \<Rightarrow>
               if \<not> same_claim claimed c then Inl ''COMMAND_ID_CONFLICT''
               else if date_before (cm_updatedAt c) (cm_updatedAt claimed)
               then Inl ''BUSINESS_COMMAND_TIME_REGRESSION''
               else if cm_state claimed \<noteq> Command_accepted \<or> cm_state c = Command_accepted
               then Inl ''BUSINESS_COMMAND_TRANSITION_INVALID''
               else
                 bind_r (each_r (\<lambda>r. throw_if (version_at staged r = None)
                           ''BUSINESS_COMMAND_RESULT_REF_NOT_FOUND'') (result_refs c)) (\<lambda>_.
                   Inr (staged\<lparr>ss_commands := js_set (cm_commandId c) c (ss_commands staged)\<rparr>))))"

definition store_content :: "scope_state \<Rightarrow> stored_content \<Rightarrow> scope_state result" where
  "store_content staged x =
     (if js_has (ss_contents staged) (cr_handle (st_reference x))
      then Inl ''ARTIFACT_CONTENT_HANDLE_CONFLICT''
      else Inr (staged\<lparr>ss_contents := js_set (cr_handle (st_reference x)) x (ss_contents staged)\<rparr>))"

definition prior_area :: "scope_state \<Rightarrow> task_context option \<Rightarrow> object_version option" where
  "prior_area staged current =
     version_at staged
       (case (case current of None \<Rightarrow> None
              | Some c \<Rightarrow> js_get (tc_activeRefs c) ''reconEffectiveArea'') of
          Some r \<Rightarrow> r
        | None \<Rightarrow> \<lparr>ref_kind = Artifact, ref_id = ''recon-requested-area'', ref_revision = 1\<rparr>)"

text \<open>The state that a change set leads to from the state of its scope.\<close>

definition stage_change_set ::
    "env \<Rightarrow> bound_scope \<Rightarrow> scope_state \<Rightarrow> change_set \<Rightarrow> event_draft list \<Rightarrow> scope_state result" where
  "stage_change_set E scope previous ch drafts =
     bind_r (parseBusinessContext E scope (ch_context ch)) (\<lambda>context.
     bind_r (validateBusinessContentWrites E (ch_objects ch) (ch_contents ch)) (\<lambda>contents.
     bind_r (check_revision previous ch) (\<lambda>_.
     bind_r (fold_r (stage_object E scope) (previous\<lparr>ss_context := Some context\<rparr>, []) (ch_objects ch))
       (\<lambda>(staged, published).
     bind_r (check_refs staged context) (\<lambda>_.
     bind_r (case ch_command ch of None \<Rightarrow> Inr None
             | Some c \<Rightarrow> bind_r (parseBusinessCommandRecord E scope c) (\<lambda>c'. Inr (Some c'))) (\<lambda>command.
     bind_r (each_r (check_reply E (ss_context previous) context (ss_commands staged)) published) (\<lambda>_.
     bind_r (assertInterventionAppliedFacts (ss_context previous) context published command) (\<lambda>_.
     bind_r (assertInterventionRejectedFacts (ss_context previous) context published command) (\<lambda>_.
     bind_r (assertInterventionTerminalPublicEvents context published command drafts) (\<lambda>_.
     bind_r (assertReconAreaAdoptionFacts (ss_context previous) context published drafts
               (prior_area staged (ss_context previous))) (\<lambda>_.
     bind_r (settle_command staged command) (\<lambda>settled.
       fold_r store_content settled contents))))))))))))"

definition commitChangeSet ::
    "env \<Rightarrow> business_store \<Rightarrow> bound_scope \<Rightarrow> change_set \<Rightarrow> event_draft list
       \<Rightarrow> (business_store \<times> task_context) result" where
  "commitChangeSet E s scope ch drafts =
     bind_r (stage_change_set E scope (state_of s scope) ch drafts) (\<lambda>staged.
       Inr (put_state s scope staged, ch_context ch))"

definition commitBusinessChangeSet ::
    "env \<Rightarrow> (int \<Rightarrow> string) \<Rightarrow> business_store \<Rightarrow> bound_scope \<Rightarrow> change_set \<Rightarrow> event_draft list
       \<Rightarrow> (business_store \<times> task_context \<times> source_event list) result" where
  "commitBusinessChangeSet E event_id s scope ch drafts =
     bind_r (parseBusinessContext E scope (ch_context ch)) (\<lambda>context.
     bind_r (map_r (parseTaskBusinessEventDraft E context) drafts) (\<lambda>prepared.
     bind_r (commitChangeSet E s scope ch prepared) (\<lambda>(s', committed).
       (let events = number_events event_id scope (length (bt_events s')) prepared
        in Inr (s'\<lparr>bt_events := bt_events s' @ events\<rparr>, committed, events)))))"

end
