(* ===== verification/StoreInvariant.thy ===== *)
theory StoreInvariant
  imports MemoryBusinessStore
begin

text \<open>
  The invariant of the task-business store (MemoryBusinessStore) and what it promises: immutable
  consecutive versions, references that resolve, a ledger in which every entry and, within a command type, every Runtime
  sequence has one claim, and stored bytes that are those the artifacts name.
\<close>

subsection \<open>Inversion of the operations\<close>

lemma parse_context_Inr [result_simps]:
  "parseBusinessContext E s c = Inr c' \<longleftrightarrow>
     c' = c \<and> TaskBusinessContextSchema (en_iso_datetime E) c \<and>
     assertBusinessIdentity s (tc_identity c) = Inr () \<and>
     (if su_status (tc_summary c) = Finalized
      then truthy (tc_finalizedAt c) \<and> tc_activeRefs c = []
      else \<not> truthy (tc_finalizedAt c))"
  by (auto simp: parseBusinessContext_def bind_r_Inr)

lemma parse_version_Inr [result_simps]:
  "parseBusinessObjectVersion E s v = Inr v' \<longleftrightarrow>
     v' = v \<and> version_schema E v = Inr () \<and> assertBusinessIdentity s (version_identity v) = Inr ()"
  by (auto simp: parseBusinessObjectVersion_def bind_r_Inr)

lemma parse_command_Inr [result_simps]:
  "parseBusinessCommandRecord E s c = Inr c' \<longleftrightarrow>
     c' = c \<and> BusinessCommandRecordSchema E c = Inr () \<and>
     assertBusinessIdentity s (cm_identity c) = Inr ()"
  by (auto simp: parseBusinessCommandRecord_def bind_r_Inr)

lemma submission_Inr:
  assumes "prepareInterventionSubmission E s c previous command now = Inr (c', version, events)"
  obtains v t where "previous = Intervention_version v"
    "version = Intervention_version (submitted_version v command)"
    "assertInterventionTransition (en_iso_datetime E) v (submitted_version v command) = Inr ()"
    "c' = submitted_context c (businessObjectRef previous) (businessObjectRef version) t"
    "parseBusinessContext E s c' = Inr c'" "parseBusinessObjectVersion E s version = Inr version"
    "cm_commandType command = Intervention_submission"
    "cm_entryKey command = Some (''intervention:'' @ iv_interventionId v)"
  using assms
  by (cases previous)
    (auto simp: prepareInterventionSubmission_def Let_def bind_r_Inr parse_version_Inr parse_context_Inr
      split: if_splits)

lemma stage_object_Inr [result_simps]:
  "stage_object E scope (st, pub) v = Inr (st', pub') \<longleftrightarrow>
     (let ref = businessObjectRef v; key = objectKey ref; latest = js_get (ss_latest st) key
      in version_schema E v = Inr () \<and> assertBusinessIdentity scope (version_identity v) = Inr () \<and>
         key \<notin> set (map (\<lambda>x. objectKey (businessObjectRef x)) pub) \<and>
         ref_revision ref = (case latest of None \<Rightarrow> 0 | Some n \<Rightarrow> n) + 1 \<and>
         (\<forall>n p. latest = Some n \<longrightarrow> js_get (versions_of st key) n = Some p \<longrightarrow>
            version_transition E p v = Inr ()) \<and>
         st' = put_version st v \<and> pub' = pub @ [v])"
  by (auto simp: stage_object_def Let_def bind_r_Inr parse_version_Inr split: if_splits option.splits)

subsection \<open>Versions\<close>

text \<open>The versions of one object: exactly the revisions up to the latest, each under its own
  reference and accepted against the one before.\<close>

definition history_ok :: "env \<Rightarrow> bound_scope \<Rightarrow> object_key \<Rightarrow> version_map \<Rightarrow> int option \<Rightarrow> bool" where
  "history_ok E scope k m latest \<longleftrightarrow>
     (\<forall>i. js_get m i \<noteq> None \<longleftrightarrow> 1 \<le> i \<and> i \<le> (case latest of None \<Rightarrow> 0 | Some n \<Rightarrow> n)) \<and>
     (\<forall>i v. js_get m i = Some v \<longrightarrow>
        businessObjectRef v = \<lparr>ref_kind = fst k, ref_id = snd k, ref_revision = i\<rparr> \<and>
        parseBusinessObjectVersion E scope v = Inr v) \<and>
     (\<forall>i v w. js_get m i = Some v \<longrightarrow> js_get m (i + 1) = Some w \<longrightarrow> version_transition E v w = Inr ()) \<and>
     (case latest of None \<Rightarrow> True | Some n \<Rightarrow> 1 \<le> n)"

definition versions_ok :: "env \<Rightarrow> bound_scope \<Rightarrow> scope_state \<Rightarrow> bool" where
  "versions_ok E scope st \<longleftrightarrow> (\<forall>k. history_ok E scope k (versions_of st k) (js_get (ss_latest st) k))"

lemma versions_okD: "versions_ok E scope st \<Longrightarrow> history_ok E scope k (versions_of st k) (js_get (ss_latest st) k)"
  by (simp add: versions_ok_def del: split_paired_All)

lemma history_dom:
  "history_ok E scope k m latest \<Longrightarrow>
     js_get m i = None \<longleftrightarrow> i < 1 \<or> (case latest of None \<Rightarrow> 0 | Some n \<Rightarrow> n) < i"
  unfolding history_ok_def by (metis linorder_not_le)

lemma history_put:
  assumes h: "history_ok E scope k m latest"
    and r: "businessObjectRef v = \<lparr>ref_kind = fst k, ref_id = snd k, ref_revision = n\<rparr>"
    and n: "n = (case latest of None \<Rightarrow> 0 | Some i \<Rightarrow> i) + 1"
    and s: "parseBusinessObjectVersion E scope v = Inr v"
    and t: "\<And>p. js_get m (n - 1) = Some p \<Longrightarrow> version_transition E p v = Inr ()"
  shows "history_ok E scope k (js_set n v m) (Some n)"
proof -
  let ?top = "case latest of None \<Rightarrow> 0 | Some i \<Rightarrow> i"
  have top: "0 \<le> ?top" using h by (auto simp: history_ok_def split: option.splits)
  have dom: "js_get m i \<noteq> None \<longleftrightarrow> 1 \<le> i \<and> i \<le> ?top" for i using h by (simp add: history_ok_def)
  have none: "js_get m (n + 1) = None" using dom [of "n + 1"] n by auto
  have "js_get (js_set n v m) i \<noteq> None \<longleftrightarrow> 1 \<le> i \<and> i \<le> n" for i
    using dom [of i] n top by auto
  moreover have "version_transition E a b = Inr ()"
    if "js_get (js_set n v m) i = Some a" "js_get (js_set n v m) (i + 1) = Some b" for i a b
  proof (cases "i = n")
    case False
    show ?thesis
    proof (cases "i + 1 = n")
      case True
      with that have "js_get m (n - 1) = Some a" "b = v" by (auto split: if_splits)
      then show ?thesis using t by simp
    next
      case no: False
      with that False have "js_get m i = Some a" "js_get m (i + 1) = Some b" by simp_all
      then show ?thesis using h by (simp add: history_ok_def)
    qed
  qed (use that none in simp)
  moreover have "1 \<le> n" using n top by simp
  ultimately show ?thesis using h r s by (auto simp: history_ok_def)
qed

lemma versions_of_put:
  "versions_of (put_version st v) k =
     (if k = objectKey (businessObjectRef v)
      then js_set (ref_revision (businessObjectRef v)) v (versions_of st k) else versions_of st k)"
  by (simp add: versions_of_def put_version_def Let_def)

lemma latest_put:
  "js_get (ss_latest (put_version st v)) k =
     (if k = objectKey (businessObjectRef v) then Some (ref_revision (businessObjectRef v))
      else js_get (ss_latest st) k)"
  by (simp add: put_version_def Let_def)

lemma ref_of_key:
  "businessObjectRef v =
     \<lparr>ref_kind = fst (objectKey (businessObjectRef v)), ref_id = snd (objectKey (businessObjectRef v)),
      ref_revision = ref_revision (businessObjectRef v)\<rparr>"
  by (simp add: objectKey_def)

lemma versions_put:
  assumes "versions_ok E scope st" "parseBusinessObjectVersion E scope v = Inr v"
    and "ref_revision (businessObjectRef v) =
           (case js_get (ss_latest st) (objectKey (businessObjectRef v)) of None \<Rightarrow> 0 | Some n \<Rightarrow> n) + 1"
    and "\<And>n p. js_get (ss_latest st) (objectKey (businessObjectRef v)) = Some n \<Longrightarrow>
           js_get (versions_of st (objectKey (businessObjectRef v))) n = Some p \<Longrightarrow>
           version_transition E p v = Inr ()"
  shows "versions_ok E scope (put_version st v)"
  unfolding versions_ok_def
proof
  fix k
  let ?k = "objectKey (businessObjectRef v)" and ?n = "ref_revision (businessObjectRef v)"
  have h: "history_ok E scope k (versions_of st k) (js_get (ss_latest st) k)" for k
    using assms(1) by (rule versions_okD)
  have "history_ok E scope ?k (js_set ?n v (versions_of st ?k)) (Some ?n)"
  proof (rule history_put [OF h ref_of_key assms(3) assms(2)])
    fix p
    assume p: "js_get (versions_of st ?k) (?n - 1) = Some p"
    show "version_transition E p v = Inr ()"
    proof (cases "js_get (ss_latest st) ?k")
      case None
      then have "js_get (versions_of st ?k) (?n - 1) = None"
        using history_dom [OF h [of ?k], of "?n - 1"] by simp arith
      with p show ?thesis by simp
    next
      case (Some n)
      with assms(3) p have "js_get (versions_of st ?k) n = Some p" by simp
      with Some show ?thesis by (rule assms(4))
    qed
  qed
  then show "history_ok E scope k (versions_of (put_version st v) k) (js_get (ss_latest (put_version st v)) k)"
    using h by (simp add: versions_of_put latest_put)
qed

text \<open>A version that is there stays as it is.\<close>

definition keeps_versions :: "scope_state \<Rightarrow> scope_state \<Rightarrow> bool" where
  "keeps_versions st st' \<longleftrightarrow> (\<forall>r v. version_at st r = Some v \<longrightarrow> version_at st' r = Some v)"

lemma keeps_refl [simp]: "keeps_versions st st"
  by (simp add: keeps_versions_def)

lemma keeps_trans: "keeps_versions a b \<Longrightarrow> keeps_versions b c \<Longrightarrow> keeps_versions a c"
  by (auto simp: keeps_versions_def)

lemma version_at_put:
  "version_at (put_version st v) r =
     (if r = businessObjectRef v then Some v else version_at st r)"
  by (cases r; cases "businessObjectRef v")
    (auto simp: version_at_def versions_of_put objectKey_def)

lemma put_keeps:
  assumes "versions_ok E scope st"
    and "ref_revision (businessObjectRef v) =
           (case js_get (ss_latest st) (objectKey (businessObjectRef v)) of None \<Rightarrow> 0 | Some n \<Rightarrow> n) + 1"
  shows "keeps_versions st (put_version st v)"
proof -
  let ?r = "businessObjectRef v"
  have "history_ok E scope (objectKey ?r) (versions_of st (objectKey ?r)) (js_get (ss_latest st) (objectKey ?r))"
    using assms(1) by (rule versions_okD)
  from history_dom [OF this, of "ref_revision ?r"]
  have "js_get (versions_of st (objectKey ?r)) (ref_revision ?r) = None"
    using assms(2) by simp
  then have "version_at st ?r = None" by (simp add: version_at_def)
  then show ?thesis by (auto simp: keeps_versions_def version_at_put)
qed

subsection \<open>References of the Context\<close>

definition refs_ok :: "env \<Rightarrow> bound_scope \<Rightarrow> scope_state \<Rightarrow> bool" where
  "refs_ok E scope st \<longleftrightarrow>
     (case ss_context st of
        None \<Rightarrow> True
      | Some c \<Rightarrow>
          set (js_values (tc_activeRefs c)) \<subseteq> set (listed_refs c) \<and>
          (\<forall>r \<in> set (listed_refs c). version_at st r \<noteq> None) \<and>
          parseBusinessContext E scope c = Inr c)"

lemma check_refs_Inr [result_simps]:
  "check_refs st c = Inr u \<longleftrightarrow>
     set (js_values (tc_activeRefs c)) \<subseteq> set (listed_refs c) \<and>
     (\<forall>r \<in> set (listed_refs c). version_at st r \<noteq> None)"
  by (auto simp: check_refs_def bind_r_Inr each_r_Inr)

lemma js_values_map: "js_values (map (\<lambda>(k, v). (k, f v)) m) = map f (js_values m)"
  by (induction m) auto

lemma fold_set_keys:
  "set (js_values (fold (\<lambda>r. js_set r r) rs m)) \<subseteq> set rs \<union> set (js_values m)"
proof (induction rs arbitrary: m)
  case (Cons r rs)
  have "set (js_values (js_set r r m)) \<subseteq> insert r (set (js_values m))"
    by (auto dest: in_js_set)
  then show ?case using Cons.IH [of "js_set r r m"] by (simp del: set_map) blast
qed simp

lemma context_refs_listed:
  "set (contextObjectRefs c) \<subseteq> set (listed_refs c) \<union> set (js_values (tc_activeRefs c))"
  using fold_set_keys [of "listed_refs c @ js_values (tc_activeRefs c)" "[]"]
  by (simp add: contextObjectRefs_def)

lemma listed_kind:
  assumes "TaskBusinessContextSchema iso_datetime c" "r \<in> set (listed_refs c)"
    "ref_kind r = Intervention"
  shows "r \<in> set (tc_interventionRefs c)"
  using assms
  by (auto simp: TaskBusinessContextSchema_def listed_refs_def list_all_iff kindRef_def)

lemma refs_submission:
  assumes "refs_ok E scope st" "ss_context st = Some c" "keeps_versions st st'" "version_at st' ref \<noteq> None"
    and "ref_kind prior = Intervention"
    and "ss_context st' = Some (submitted_context c prior ref t)"
    and "parseBusinessContext E scope (submitted_context c prior ref t) = Inr (submitted_context c prior ref t)"
  shows "refs_ok E scope st'"
proof -
  let ?c = "submitted_context c prior ref t"
  from assms(1,2) have c: "set (js_values (tc_activeRefs c)) \<subseteq> set (listed_refs c)"
      "\<And>r. r \<in> set (listed_refs c) \<Longrightarrow> version_at st r \<noteq> None"
    and schema: "TaskBusinessContextSchema (en_iso_datetime E) c"
    by (auto simp: refs_ok_def parse_context_Inr)
  have there: "version_at st' r \<noteq> None" if "version_at st r \<noteq> None" for r
    using that assms(3) by (auto simp: keeps_versions_def)
  have listed: "r \<in> set (listed_refs ?c) \<Longrightarrow> r \<in> set (listed_refs c) \<or> r = ref" for r
    by (auto simp: listed_refs_def submitted_context_def replace_exact_def)
  have "replace_exact prior ref r \<in> set (listed_refs ?c)" if r: "r \<in> set (listed_refs c)" for r
  proof (cases "r = prior")
    case True
    with r schema assms(5) have "prior \<in> set (tc_interventionRefs c)" using listed_kind by blast
    with True show ?thesis
      by (auto simp: listed_refs_def submitted_context_def replace_exact_def image_iff)
  next
    case False
    with r show ?thesis
      by (auto simp: listed_refs_def submitted_context_def replace_exact_def image_iff)
  qed
  with c(1) have "set (js_values (tc_activeRefs ?c)) \<subseteq> set (listed_refs ?c)"
    by (auto simp: submitted_context_def js_values_map)
  moreover have "\<forall>r \<in> set (listed_refs ?c). version_at st' r \<noteq> None"
    using listed c(2) there assms(4) by blast
  ultimately show ?thesis using assms(6,7) by (auto simp: refs_ok_def)
qed

subsection \<open>The command ledger\<close>

definition holds_entry :: "command_record \<Rightarrow> bool" where
  "holds_entry c \<longleftrightarrow> cm_state c = Command_accepted \<or> cm_state c = Command_applied"

definition compatible :: "command_record \<Rightarrow> command_record \<Rightarrow> bool" where
  "compatible a b \<longleftrightarrow>
     \<not> (truthy (cm_entryKey a) \<and> cm_entryKey b = cm_entryKey a \<and> holds_entry a \<and> holds_entry b) \<and>
     \<not> (cm_commandType a = Intervention_submission \<and> cm_commandType b = Intervention_submission \<and>
        cm_state a = Command_accepted \<and> cm_state b = Command_accepted) \<and>
     \<not> (truthy (cm_runtimeCommandSequence a) \<and> cm_commandType b = cm_commandType a \<and>
        cm_runtimeCommandSequence b = cm_runtimeCommandSequence a)"

definition ledger_ok :: "(string, command_record) jsmap \<Rightarrow> bool" where
  "ledger_ok m \<longleftrightarrow>
     distinct (js_keys m) \<and>
     (\<forall>i c. js_get m i = Some c \<longrightarrow> cm_commandId c = i) \<and>
     (\<forall>i a j b. js_get m i = Some a \<longrightarrow> js_get m j = Some b \<longrightarrow> i \<noteq> j \<longrightarrow> compatible a b)"

lemma compatible_sym: "compatible a b \<Longrightarrow> compatible b a"
  by (auto simp: compatible_def)

lemma claim_compatible:
  "claim_conflict c other = Inr () \<Longrightarrow> cm_state c = Command_accepted \<Longrightarrow> compatible c other"
  by (auto simp: claim_conflict_def compatible_def holds_entry_def split: if_splits)

lemma ledger_set:
  assumes "ledger_ok m" "cm_commandId c = i"
    and "\<And>j b. j \<noteq> i \<Longrightarrow> js_get m j = Some b \<Longrightarrow> compatible c b"
  shows "ledger_ok (js_set i c m)"
  using assms compatible_sym unfolding ledger_ok_def by auto

lemma ledger_claim:
  assumes "ledger_ok m" "each_r (claim_conflict c) (js_values m) = Inr ()"
    and "cm_state c = Command_accepted"
  shows "ledger_ok (js_set (cm_commandId c) c m)"
  using assms(1) refl
proof (rule ledger_set)
  fix j b
  assume "js_get m j = Some b"
  then have "b \<in> set (js_values m)" by (rule js_value_in)
  with assms(2,3) show "compatible c b" by (auto simp: each_r_Inr intro: claim_compatible)
qed

lemma ledger_settle:
  assumes "ledger_ok m" "js_get m (cm_commandId c) = Some claimed" "same_claim claimed c"
    "cm_state claimed = Command_accepted" "cm_state c \<noteq> Command_accepted"
  shows "ledger_ok (js_set (cm_commandId c) c m)"
  using assms(1) refl
proof (rule ledger_set)
  fix j b
  assume "j \<noteq> cm_commandId c" "js_get m j = Some b"
  with assms(1,2) have "compatible claimed b" by (auto simp: ledger_ok_def)
  with assms(3-5) show "compatible c b"
    by (auto simp: compatible_def holds_entry_def same_claim_def same_command_def)
qed

subsection \<open>Stored content\<close>

text \<open>Every reference of a stored artifact has its bytes, under its handle and with its hash.\<close>

definition content_of_ok :: "env \<Rightarrow> content_ref \<Rightarrow> stored_content \<Rightarrow> bool" where
  "content_of_ok E r x \<longleftrightarrow>
     st_reference x = r \<and> int (length (st_bytes x)) = cr_sizeBytes r \<and>
     en_sha256 E (st_bytes x) = cr_sha256 r"

definition contents_ok :: "env \<Rightarrow> scope_state \<Rightarrow> bool" where
  "contents_ok E st \<longleftrightarrow>
     (\<forall>r v. version_at st r = Some v \<longrightarrow>
        (\<forall>(a, c) \<in> set (version_references v).
           \<exists>x. js_get (ss_contents st) (cr_handle c) = Some x \<and>
             content_of_ok E (expected_content a c) x))"

lemma require_content_Inr:
  "require_content m (a, c) = Inr m' \<longleftrightarrow>
     (js_get m (cr_handle c) = None \<or> js_get m (cr_handle c) = Some (expected_content a c)) \<and>
     m' = js_set (cr_handle c) (expected_content a c) m"
  by (auto simp: require_content_def Let_def expected_content_def split: option.splits if_splits)

lemma require_keeps:
  "fold_r require_content m rs = Inr m' \<Longrightarrow> js_get m h = Some r \<Longrightarrow> js_get m' h = Some r"
proof (induction rs arbitrary: m)
  case (Cons x rs)
  obtain a c where x: "x = (a, c)" by (cases x)
  from Cons.prems(1) obtain n where n: "require_content m x = Inr n" "fold_r require_content n rs = Inr m'"
    by (auto simp: bind_r_Inr)
  with Cons.prems(2) have "js_get n h = Some r" by (auto simp: x require_content_Inr)
  then show ?case using Cons.IH n(2) by blast
qed simp

lemma require_all:
  "fold_r require_content m rs = Inr m' \<Longrightarrow> (a, c) \<in> set rs \<Longrightarrow>
     js_get m' (cr_handle c) = Some (expected_content a c)"
proof (induction rs arbitrary: m)
  case (Cons x rs)
  obtain a' c' where x: "x = (a', c')" by (cases x)
  from Cons.prems(1) obtain n where n: "require_content m x = Inr n" "fold_r require_content n rs = Inr m'"
    by (auto simp: bind_r_Inr)
  show ?case
  proof (cases "(a, c) = x")
    case True
    with n(1) have "js_get n (cr_handle c) = Some (expected_content a c)"
      by (auto simp: x require_content_Inr)
    then show ?thesis using require_keeps n(2) by blast
  next
    case False
    with Cons show ?thesis using n(2) by auto
  qed
qed simp

lemma require_distinct:
  assumes "fold_r require_content [] rs = Inr m"
  shows "distinct (js_keys m) \<and> (\<forall>h r. js_get m h = Some r \<longrightarrow> cr_handle r = h)"
proof (rule fold_r_invariant [OF assms, where P = "\<lambda>m. distinct (js_keys m) \<and>
    (\<forall>h r. js_get m h = Some r \<longrightarrow> cr_handle r = h)"])
  fix m x m'
  assume m: "distinct (js_keys m) \<and> (\<forall>h r. js_get m h = Some r \<longrightarrow> cr_handle r = h)"
    and x: "require_content m x = Inr m'"
  obtain a c where "x = (a, c)" by (cases x)
  with x have "m' = js_set (cr_handle c) (expected_content a c) m" by (simp add: require_content_Inr)
  with m show "distinct (js_keys m') \<and> (\<forall>h r. js_get m' h = Some r \<longrightarrow> cr_handle r = h)"
    by (auto simp: expected_content_def distinct_update)
qed simp

definition handle :: "stored_content \<Rightarrow> string" where
  "handle x = cr_handle (st_reference x)"

lemma prepare_write_Inr:
  "prepare_write E required prepared w = Inr p' \<longleftrightarrow>
     (\<exists>r. js_get required (cw_handle w) = Some r \<and> cr_artifactId r = cw_artifactId w \<and>
        cr_revision r = cw_revision w \<and> cw_handle w \<notin> set (map handle prepared) \<and>
        int (length (cw_bytes w)) = cr_sizeBytes r \<and> en_sha256 E (cw_bytes w) = cr_sha256 r \<and>
        (sublist ''json'' (cr_mediaType r) \<longrightarrow> json_content_ok E (cw_bytes w) = Inr ()) \<and>
        p' = prepared @ [\<lparr>st_reference = r, st_bytes = cw_bytes w\<rparr>])"
  by (auto simp: prepare_write_def bind_r_Inr handle_def [abs_def] split: option.splits)

lemma prepared_contents:
  assumes "fold_r (prepare_write E required) [] ws = Inr prepared"
    and "\<And>h r. js_get required h = Some r \<Longrightarrow> cr_handle r = h"
  shows "distinct (map handle prepared) \<and>
    (\<forall>x \<in> set prepared. js_get required (handle x) = Some (st_reference x) \<and>
       content_of_ok E (st_reference x) x)"
  by (rule fold_r_invariant [OF assms(1), where P = "\<lambda>prepared. distinct (map handle prepared) \<and>
    (\<forall>x \<in> set prepared. js_get required (handle x) = Some (st_reference x) \<and>
       content_of_ok E (st_reference x) x)"])
    (auto simp: prepare_write_Inr content_of_ok_def handle_def assms(2))

text \<open>Accepted writes cover every reference of the versions, each once and with its bytes.\<close>

lemma validated_contents:
  assumes "validateBusinessContentWrites E versions ws = Inr contents"
    and "v \<in> set versions" "(a, c) \<in> set (version_references v)"
  obtains x where "x \<in> set contents" "handle x = cr_handle c" "content_of_ok E (expected_content a c) x"
proof -
  from assms(1) obtain required where
    r: "fold_r require_content [] (concat (map version_references versions)) = Inr required"
      "fold_r (prepare_write E required) [] ws = Inr contents" "length contents = length required"
    by (auto simp: validateBusinessContentWrites_def bind_r_Inr split: if_splits)
  have keys: "distinct (js_keys required)" "\<And>h x. js_get required h = Some x \<Longrightarrow> cr_handle x = h"
    using require_distinct [OF r(1)] by auto
  have p: "distinct (map handle contents)"
      "\<And>x. x \<in> set contents \<Longrightarrow> js_get required (handle x) = Some (st_reference x) \<and>
         content_of_ok E (st_reference x) x"
    using prepared_contents [OF r(2) keys(2)] by auto
  have "set (map handle contents) \<subseteq> set (js_keys required)"
    using p(2) by (force dest: map_of_SomeD)
  moreover have "card (set (map handle contents)) = card (set (js_keys required))"
    using p(1) keys(1) r(3) by (metis distinct_card length_map)
  ultimately have all: "set (map handle contents) = set (js_keys required)"
    by (simp add: card_subset_eq)
  have "(a, c) \<in> set (concat (map version_references versions))" using assms(2,3) by auto
  then have req: "js_get required (cr_handle c) = Some (expected_content a c)"
    using require_all [OF r(1)] by blast
  then have "cr_handle c \<in> set (map handle contents)"
    unfolding all by (force dest: map_of_SomeD)
  then obtain x where "x \<in> set contents" "handle x = cr_handle c" by auto
  with p(2) [of x] req show ?thesis by (auto intro: that)
qed

lemma store_content_Inr [result_simps]:
  "store_content st x = Inr st' \<longleftrightarrow>
     js_get (ss_contents st) (handle x) = None \<and>
     st' = st\<lparr>ss_contents := js_set (handle x) x (ss_contents st)\<rparr>"
  by (auto simp: store_content_def js_has_def handle_def)

lemma store_contents:
  "fold_r store_content st xs = Inr st' \<Longrightarrow>
     (\<exists>m. st' = st\<lparr>ss_contents := m\<rparr>) \<and>
     (\<forall>h x. js_get (ss_contents st) h = Some x \<longrightarrow> js_get (ss_contents st') h = Some x) \<and>
     (\<forall>x \<in> set xs. js_get (ss_contents st') (handle x) = Some x)"
proof (induction xs arbitrary: st)
  case Nil
  then show ?case by (auto intro: exI [of _ "ss_contents st"])
next
  case (Cons y xs)
  let ?t = "st\<lparr>ss_contents := js_set (handle y) y (ss_contents st)\<rparr>"
  from Cons.prems have y: "js_get (ss_contents st) (handle y) = None" "fold_r store_content ?t xs = Inr st'"
    by (auto simp: bind_r_Inr store_content_Inr)
  note IH = Cons.IH [OF y(2)]
  have "\<exists>m. st' = st\<lparr>ss_contents := m\<rparr>" using IH by auto
  moreover have "js_get (ss_contents st') h = Some x" if h: "js_get (ss_contents st) h = Some x" for h x
  proof -
    have "h \<noteq> handle y" using h y(1) by auto
    then show ?thesis using IH h by simp
  qed
  moreover have "js_get (ss_contents st') (handle y) = Some y" using IH by simp
  ultimately show ?case using IH by auto
qed

subsection \<open>The invariant and the operations\<close>

definition scope_ok :: "env \<Rightarrow> bound_scope \<Rightarrow> scope_state \<Rightarrow> bool" where
  "scope_ok E scope st \<longleftrightarrow>
     versions_ok E scope st \<and> refs_ok E scope st \<and> ledger_ok (ss_commands st) \<and> contents_ok E st"

lemma scope_ok_empty: "scope_ok E scope emptyState"
  by (simp add: scope_ok_def versions_ok_def history_ok_def versions_of_def emptyState_def refs_ok_def
      ledger_ok_def contents_ok_def version_at_def)

text \<open>What the loop over the objects of a change set does.\<close>

definition staged_from :: "env \<Rightarrow> bound_scope \<Rightarrow> object_version list \<Rightarrow> scope_state \<Rightarrow> scope_state \<times> object_version list \<Rightarrow> bool"
where
  "staged_from E scope vs st0 p \<longleftrightarrow>
     (case p of (st, pub) \<Rightarrow>
        versions_ok E scope st \<and> keeps_versions st0 st \<and> set pub \<subseteq> set vs \<and>
        (\<forall>r v. version_at st r = Some v \<longrightarrow> version_at st0 r = Some v \<or> v \<in> set pub) \<and>
        ss_context st = ss_context st0 \<and> ss_commands st = ss_commands st0 \<and>
        ss_contents st = ss_contents st0)"

lemma staged_objects:
  assumes "fold_r (stage_object E scope) (st0, []) vs = Inr (st, pub)" and "versions_ok E scope st0"
  shows "staged_from E scope vs st0 (st, pub)"
proof (rule fold_r_invariant [OF assms(1), where P = "staged_from E scope vs st0"])
  show "staged_from E scope vs st0 (st0, [])"
    using assms(2) by (auto simp: staged_from_def)
next
  fix p v p'
  assume v: "v \<in> set vs" and p: "staged_from E scope vs st0 p" and step: "stage_object E scope p v = Inr p'"
  obtain t pub t' pub' where pp: "p = (t, pub)" "p' = (t', pub')" by (cases p; cases p')
  let ?k = "objectKey (businessObjectRef v)"
  from step have s: "parseBusinessObjectVersion E scope v = Inr v"
      "ref_revision (businessObjectRef v) =
        (case js_get (ss_latest t) ?k of None \<Rightarrow> 0 | Some n \<Rightarrow> n) + 1"
      "\<And>n q. js_get (ss_latest t) ?k = Some n \<Longrightarrow> js_get (versions_of t ?k) n = Some q \<Longrightarrow>
         version_transition E q v = Inr ()"
      "t' = put_version t v" "pub' = pub @ [v]"
    unfolding pp stage_object_Inr Let_def parse_version_Inr by blast+
  from p have t: "versions_ok E scope t" "keeps_versions st0 t" "set pub \<subseteq> set vs"
      "\<And>r v. version_at t r = Some v \<Longrightarrow> version_at st0 r = Some v \<or> v \<in> set pub"
      "ss_context t = ss_context st0" "ss_commands t = ss_commands st0" "ss_contents t = ss_contents st0"
    by (auto simp: pp staged_from_def)
  have "versions_ok E scope t'" unfolding s(4) by (rule versions_put [OF t(1) s(1-3)])
  moreover have "keeps_versions st0 t'"
    using keeps_trans [OF t(2) put_keeps [OF t(1) s(2)]] s(4) by simp
  moreover have "ss_context t' = ss_context st0 \<and> ss_commands t' = ss_commands st0 \<and>
      ss_contents t' = ss_contents st0"
    using t(5-7) by (simp add: s(4) put_version_def Let_def)
  moreover have "version_at st0 r = Some w \<or> w \<in> set pub'" if "version_at t' r = Some w" for r w
    using that t(4) [of r w] by (auto simp: s(4,5) version_at_put split: if_splits)
  ultimately show "staged_from E scope vs st0 p'"
    using t(3) v s(5) by (auto simp: pp staged_from_def)
qed

lemma settle_Inr [result_simps]:
  "settle_command st cmd = Inr st' \<longleftrightarrow>
     (case cmd of
        None \<Rightarrow> st' = st
      | Some c \<Rightarrow>
          \<exists>claimed. js_get (ss_commands st) (cm_commandId c) = Some claimed \<and> same_claim claimed c \<and>
            \<not> date_before (cm_updatedAt c) (cm_updatedAt claimed) \<and>
            cm_state claimed = Command_accepted \<and> cm_state c \<noteq> Command_accepted \<and>
            (\<forall>r \<in> set (result_refs c). version_at st r \<noteq> None) \<and>
            st' = st\<lparr>ss_commands := js_set (cm_commandId c) c (ss_commands st)\<rparr>)"
  by (auto simp: settle_command_def bind_r_Inr each_r_Inr split: option.splits if_splits)

lemma same_versions [simp]:
  "version_at (st\<lparr>ss_commands := cs\<rparr>) = version_at st"
  "version_at (st\<lparr>ss_contents := m\<rparr>) = version_at st"
  "version_at (st\<lparr>ss_context := c\<rparr>) = version_at st"
  "versions_of (st\<lparr>ss_commands := cs\<rparr>) = versions_of st"
  "versions_of (st\<lparr>ss_contents := m\<rparr>) = versions_of st"
  "versions_of (st\<lparr>ss_context := c\<rparr>) = versions_of st"
  by (auto simp: fun_eq_iff version_at_def versions_of_def)

lemma same_components [simp]:
  "versions_ok E scope (st\<lparr>ss_commands := cs\<rparr>) = versions_ok E scope st"
  "versions_ok E scope (st\<lparr>ss_contents := m\<rparr>) = versions_ok E scope st"
  "versions_ok E scope (st\<lparr>ss_context := c\<rparr>) = versions_ok E scope st"
  "refs_ok E scope (st\<lparr>ss_commands := cs\<rparr>) = refs_ok E scope st"
  "refs_ok E scope (st\<lparr>ss_contents := m\<rparr>) = refs_ok E scope st"
  "contents_ok E (st\<lparr>ss_commands := cs\<rparr>) = contents_ok E st"
  "contents_ok E (st\<lparr>ss_context := c\<rparr>) = contents_ok E st"
  by (simp_all add: versions_ok_def refs_ok_def contents_ok_def del: split_paired_All split: option.split)

text \<open>What an accepted change set leads to.\<close>

lemma stage_change_set_Inr:
  assumes "stage_change_set E scope st ch drafts = Inr st'"
  obtains staged pub contents settled where
    "parseBusinessContext E scope (ch_context ch) = Inr (ch_context ch)" "check_revision st ch = Inr ()"
    "validateBusinessContentWrites E (ch_objects ch) (ch_contents ch) = Inr contents"
    "fold_r (stage_object E scope) (st\<lparr>ss_context := Some (ch_context ch)\<rparr>, []) (ch_objects ch) =
       Inr (staged, pub)"
    "check_refs staged (ch_context ch) = Inr ()"
    "settle_command staged (ch_command ch) = Inr settled" "fold_r store_content settled contents = Inr st'"
  using assms
  by (cases "ch_command ch") (auto simp: stage_change_set_def bind_r_Inr parse_context_Inr parse_command_Inr)

lemma contents_stored:
  assumes "contents_ok E st" "\<And>h x. js_get (ss_contents st) h = Some x \<Longrightarrow> js_get (ss_contents st') h = Some x"
    and "\<And>r v. version_at st' r = Some v \<Longrightarrow>
      version_at st r = Some v \<or>
      (\<forall>(a, c) \<in> set (version_references v). \<exists>x. js_get (ss_contents st') (cr_handle c) = Some x \<and>
         content_of_ok E (expected_content a c) x)"
  shows "contents_ok E st'"
  unfolding contents_ok_def
proof (intro allI impI)
  fix r v
  assume "version_at st' r = Some v"
  from assms(3) [OF this] show "\<forall>(a, c) \<in> set (version_references v).
      \<exists>x. js_get (ss_contents st') (cr_handle c) = Some x \<and> content_of_ok E (expected_content a c) x"
  proof
    assume "version_at st r = Some v"
    with assms(1) have "\<forall>(a, c) \<in> set (version_references v).
        \<exists>x. js_get (ss_contents st) (cr_handle c) = Some x \<and> content_of_ok E (expected_content a c) x"
      by (simp add: contents_ok_def)
    then show ?thesis using assms(2) by fastforce
  qed
qed

lemma change_set_ok:
  assumes "stage_change_set E scope st ch drafts = Inr st'" and ok: "scope_ok E scope st"
  shows "scope_ok E scope st' \<and> keeps_versions st st' \<and> ss_context st' = Some (ch_context ch)"
proof -
  let ?c = "ch_context ch" and ?st0 = "st\<lparr>ss_context := Some (ch_context ch)\<rparr>"
  from assms(1) obtain staged pub contents settled where
    c: "parseBusinessContext E scope ?c = Inr ?c"
      "validateBusinessContentWrites E (ch_objects ch) (ch_contents ch) = Inr contents"
      "fold_r (stage_object E scope) (?st0, []) (ch_objects ch) = Inr (staged, pub)"
      "check_refs staged ?c = Inr ()" "settle_command staged (ch_command ch) = Inr settled"
      "fold_r store_content settled contents = Inr st'"
    by (rule stage_change_set_Inr)
  have "staged_from E scope (ch_objects ch) ?st0 (staged, pub)"
    by (rule staged_objects [OF c(3)]) (use ok in \<open>simp add: scope_ok_def\<close>)
  then have s: "versions_ok E scope staged" "keeps_versions st staged" "set pub \<subseteq> set (ch_objects ch)"
      "\<And>r v. version_at staged r = Some v \<Longrightarrow> version_at st r = Some v \<or> v \<in> set pub"
      "ss_context staged = Some ?c" "ss_commands staged = ss_commands st"
      "ss_contents staged = ss_contents st"
    by (auto simp: staged_from_def keeps_versions_def)
  have refs: "refs_ok E scope staged"
    using c(1,4) s(5) by (simp add: refs_ok_def check_refs_Inr parse_context_Inr)
  obtain cs where settled: "settled = staged\<lparr>ss_commands := cs\<rparr>" "ledger_ok cs"
  proof (cases "ch_command ch")
    case None
    have "settled = staged\<lparr>ss_commands := ss_commands st\<rparr>"
      using c(5) None s(6) by (simp add: settle_Inr)
    then show ?thesis using that ok by (simp add: scope_ok_def)
  next
    case (Some cmd)
    then have "settled = staged\<lparr>ss_commands := js_set (cm_commandId cmd) cmd (ss_commands st)\<rparr>"
      "ledger_ok (js_set (cm_commandId cmd) cmd (ss_commands st))"
      using c(5) s(6) ok by (auto simp: settle_Inr scope_ok_def intro: ledger_settle)
    then show ?thesis by (rule that)
  qed
  from store_contents [OF c(6)] obtain m where
    m: "st' = settled\<lparr>ss_contents := m\<rparr>"
      "\<And>h x. js_get (ss_contents st) h = Some x \<Longrightarrow> js_get m h = Some x"
      "\<And>x. x \<in> set contents \<Longrightarrow> js_get m (handle x) = Some x"
    by (auto simp: settled(1) s(7))
  have "contents_ok E st'"
  proof (rule contents_stored)
    show "contents_ok E st" using ok by (simp add: scope_ok_def)
    show "js_get (ss_contents st') h = Some x" if "js_get (ss_contents st) h = Some x" for h x
      using m(1,2) that by simp
    fix r v
    assume "version_at st' r = Some v"
    then have "version_at st r = Some v \<or> v \<in> set (ch_objects ch)"
      using s(3,4) by (auto simp: m(1) settled(1))
    moreover have "\<exists>x. js_get (ss_contents st') (cr_handle b) = Some x \<and>
        content_of_ok E (expected_content a b) x"
      if vb: "v \<in> set (ch_objects ch)" "(a, b) \<in> set (version_references v)" for a b
    proof -
      obtain x where x: "x \<in> set contents" "handle x = cr_handle b"
          "content_of_ok E (expected_content a b) x"
        using validated_contents [OF c(2) vb] by blast
      then have "js_get (ss_contents st') (cr_handle b) = Some x" using m(1) m(3) [OF x(1)] by simp
      with x(3) show ?thesis by blast
    qed
    ultimately show "version_at st r = Some v \<or>
      (\<forall>(a, c) \<in> set (version_references v). \<exists>x. js_get (ss_contents st') (cr_handle c) = Some x \<and>
         content_of_ok E (expected_content a c) x)"
      by blast
  qed
  then show ?thesis
    using s refs settled m(1) by (simp add: scope_ok_def keeps_versions_def)
qed

lemma submission_ok:
  assumes sub: "prepareInterventionSubmission E scope c previous command now = Inr (c', version, drafts)"
    and ok: "scope_ok E scope st" and ctx: "ss_context st = Some c"
    and prev: "version_at st r = Some previous" "js_get (ss_latest st) (objectKey r) = Some (ref_revision r)"
    and st': "st' = (put_version st version)\<lparr>ss_context := Some c'\<rparr>"
  shows "scope_ok E scope st' \<and> keeps_versions st st' \<and> ss_commands st' = ss_commands st"
proof -
  from sub obtain v t where v: "previous = Intervention_version v"
      "version = Intervention_version (submitted_version v command)"
      "assertInterventionTransition (en_iso_datetime E) v (submitted_version v command) = Inr ()"
      "c' = submitted_context c (businessObjectRef previous) (businessObjectRef version) t"
      "parseBusinessContext E scope c' = Inr c'" "parseBusinessObjectVersion E scope version = Inr version"
    by (rule submission_Inr)
  have vs: "versions_ok E scope st" using ok by (simp add: scope_ok_def)
  have "js_get (versions_of st (objectKey r)) (ref_revision r) = Some previous"
    using prev(1) by (simp add: version_at_def)
  then have "businessObjectRef previous =
      \<lparr>ref_kind = fst (objectKey r), ref_id = snd (objectKey r), ref_revision = ref_revision r\<rparr>"
    using versions_okD [OF vs, of "objectKey r"] unfolding history_ok_def by blast
  then have r: "businessObjectRef previous = r" by (cases r) (simp add: objectKey_def)
  have key: "objectKey (businessObjectRef version) = objectKey r"
      "ref_revision (businessObjectRef version) = ref_revision r + 1"
    using r v(1,2) by (auto simp: objectKey_def submitted_version_def)
  have next_rev: "ref_revision (businessObjectRef version) =
      (case js_get (ss_latest st) (objectKey (businessObjectRef version)) of None \<Rightarrow> 0 | Some n \<Rightarrow> n) + 1"
    using key prev(2) by simp
  have put: "versions_ok E scope (put_version st version)"
  proof (rule versions_put [OF vs v(6) next_rev])
    fix n p
    assume "js_get (ss_latest st) (objectKey (businessObjectRef version)) = Some n"
      and "js_get (versions_of st (objectKey (businessObjectRef version))) n = Some p"
    then have "p = previous" using prev key by (simp add: version_at_def)
    then show "version_transition E p version = Inr ()" using v(1-3) by simp
  qed
  have keeps: "keeps_versions st st'"
    using put_keeps [OF vs next_rev] by (simp add: st' keeps_versions_def)
  have same: "ss_commands st' = ss_commands st" "ss_contents st' = ss_contents st"
      "ss_context st' = Some c'"
    by (simp_all add: st' put_version_def Let_def)
  have "refs_ok E scope st'"
  proof (rule refs_submission [OF _ ctx keeps])
    show "refs_ok E scope st" using ok by (simp add: scope_ok_def)
    show "version_at st' (businessObjectRef version) \<noteq> None" by (simp add: st' version_at_put)
    show "ref_kind (businessObjectRef previous) = Intervention" by (simp add: v(1))
    show "ss_context st' = Some (submitted_context c (businessObjectRef previous) (businessObjectRef version) t)"
      using same(3) v(4) by simp
    show "parseBusinessContext E scope
        (submitted_context c (businessObjectRef previous) (businessObjectRef version) t) =
      Inr (submitted_context c (businessObjectRef previous) (businessObjectRef version) t)"
      using v(4,5) by simp
  qed
  moreover have "contents_ok E st'"
    by (rule contents_stored [of E st])
      (use ok same(2) v(2) in \<open>auto simp: st' version_at_put scope_ok_def split: if_splits\<close>)
  moreover have "versions_ok E scope st'" using put by (simp add: st')
  ultimately show ?thesis using ok same(1) keeps by (simp add: scope_ok_def)
qed

lemma publish_ok:
  assumes "publish_submission E scope st q = Inr (st', drafts)" and ok: "scope_ok E scope st"
  shows "scope_ok E scope st' \<and> keeps_versions st st' \<and> ss_commands st' = ss_commands st"
proof (cases "rq_publishSubmission q")
  case True
  with assms(1) obtain r c previous c' version where
    p: "ss_context st = Some c" "version_at st r = Some previous"
      "js_get (ss_latest st) (objectKey r) = Some (ref_revision r)"
      "prepareInterventionSubmission E scope c previous (rq_command q) (rq_now q) =
         Inr (c', version, drafts)"
      "st' = (put_version st version)\<lparr>ss_context := Some c'\<rparr>"
    by (auto simp: publish_submission_def bind_r_Inr split: option.splits if_splits)
  show ?thesis by (rule submission_ok [OF p(4) ok p(1-3,5)])
next
  case False
  with assms show ?thesis by (simp add: publish_submission_def)
qed

text \<open>A claim either finds the command in the ledger and changes nothing, or adds it.\<close>

lemma claim_Inr:
  assumes "claimCommand E event_id s scope q = Inr (s', claimed, record, events)"
  shows "BusinessCommandRecordSchema E (rq_command q) = Inr () \<and> cm_state (rq_command q) = Command_accepted \<and>
    (if claimed
     then record = rq_command q \<and> js_get (ss_commands (state_of s scope)) (cm_commandId (rq_command q)) = None \<and>
       each_r (claim_conflict (rq_command q)) (js_values (ss_commands (state_of s scope))) = Inr () \<and>
       check_entry E (state_of s scope) q = Inr () \<and>
       (\<exists>staged drafts. publish_submission E scope (state_of s scope) q = Inr (staged, drafts) \<and>
          events = number_events event_id scope (length (bt_events s)) drafts \<and>
          s' = (put_state s scope (staged\<lparr>ss_commands :=
                  js_set (cm_commandId (rq_command q)) (rq_command q) (ss_commands staged)\<rparr>))
               \<lparr>bt_events := bt_events s @ events\<rparr>)
     else s' = s \<and> events = [] \<and> same_command record (rq_command q) \<and>
       js_get (ss_commands (state_of s scope)) (cm_commandId (rq_command q)) = Some record)"
  using assms
  by (auto simp: claimCommand_def bind_r_Inr parse_command_Inr Let_def split: if_splits option.splits)

lemma scope_claim_ok:
  assumes "claimCommand E event_id s scope q = Inr (s', True, record, events)"
    and ok: "scope_ok E scope (state_of s scope)"
  obtains st' where "s' = (put_state s scope st')\<lparr>bt_events := bt_events s @ events\<rparr>"
    "scope_ok E scope st'" "keeps_versions (state_of s scope) st'"
    "ss_commands st' = js_set (cm_commandId (rq_command q)) (rq_command q) (ss_commands (state_of s scope))"
    "js_get (ss_commands (state_of s scope)) (cm_commandId (rq_command q)) = None"
    "\<exists>drafts. events = number_events event_id scope (length (bt_events s)) drafts"
proof -
  let ?st = "state_of s scope" and ?c = "rq_command q"
  note inv = claim_Inr [OF assms(1), simplified]
  from inv obtain staged drafts where p: "publish_submission E scope ?st q = Inr (staged, drafts)"
      "events = number_events event_id scope (length (bt_events s)) drafts"
      "s' = (put_state s scope (staged\<lparr>ss_commands := js_set (cm_commandId ?c) ?c (ss_commands staged)\<rparr>))
              \<lparr>bt_events := bt_events s @ events\<rparr>"
    by blast
  note pub = publish_ok [OF p(1) ok]
  let ?st' = "staged\<lparr>ss_commands := js_set (cm_commandId ?c) ?c (ss_commands staged)\<rparr>"
  have "ledger_ok (js_set (cm_commandId ?c) ?c (ss_commands ?st))"
    using ok inv by (auto simp: scope_ok_def intro: ledger_claim)
  then have "scope_ok E scope ?st'" using pub by (simp add: scope_ok_def)
  moreover have "keeps_versions ?st ?st'" using pub by (simp add: keeps_versions_def)
  ultimately show ?thesis using p(2,3) pub inv by (auto intro: that)
qed

subsection \<open>The store as a sequence of operations\<close>

text \<open>The operations that change the store; each is one synchronous step of the source. The flag of
  a step says whether it changed the store: a claim that finds its command does not.\<close>

datatype store_op =
    Claim_command bound_scope claim_request
  | Commit_change_set bound_scope change_set
  | Commit_with_events bound_scope change_set "event_draft list"

fun store_step ::
    "env \<Rightarrow> (int \<Rightarrow> string) \<Rightarrow> business_store \<Rightarrow> store_op \<Rightarrow> (business_store \<times> bool) result" where
  "store_step E event_id s (Claim_command scope q) =
     bind_r (claimCommand E event_id s scope q) (\<lambda>(s', claimed, _, _). Inr (s', claimed))"
| "store_step E event_id s (Commit_change_set scope ch) =
     bind_r (commitChangeSet E s scope ch []) (\<lambda>(s', _). Inr (s', True))"
| "store_step E event_id s (Commit_with_events scope ch drafts) =
     bind_r (commitBusinessChangeSet E event_id s scope ch drafts) (\<lambda>(s', _, _). Inr (s', True))"

definition emptyStore :: business_store where
  "emptyStore = \<lparr>bt_scopes = [], bt_events = []\<rparr>"

fun op_scope :: "store_op \<Rightarrow> bound_scope" where
  "op_scope (Claim_command scope q) = scope"
| "op_scope (Commit_change_set scope ch) = scope"
| "op_scope (Commit_with_events scope ch drafts) = scope"

text \<open>Every step replaces the state of its own scope and appends numbered events.\<close>

definition numbered :: "source_event list \<Rightarrow> bool" where
  "numbered evs \<longleftrightarrow> map sv_sourceSequence evs = map (\<lambda>i. int i + 1) [0..<length evs]"

lemma numbered_append:
  assumes "numbered evs"
  shows "numbered (evs @ number_events event_id scope (length evs) drafts)"
proof -
  let ?n = "length evs"
  have "map sv_sourceSequence (number_events event_id scope ?n drafts) =
      map (\<lambda>i. int i + 1) [?n..<?n + length drafts]"
    by (rule nth_equalityI)
      (simp_all add: number_events_def memoryTaskBusinessEvent_def nth_enumerate_eq algebra_simps
        split: prod.split)
  moreover have "[0..<?n + length drafts] = [0..<?n] @ [?n..<?n + length drafts]"
    by (rule upt_add_eq_append) simp
  ultimately show ?thesis using assms by (simp add: numbered_def number_events_def)
qed

lemma state_of_put [simp]:
  "state_of (put_state s scope st) scope' = (if scope_key scope' = scope_key scope then st else state_of s scope')"
  "state_of (s\<lparr>bt_events := evs\<rparr>) scope' = state_of s scope'"
  "bt_events (put_state s scope st) = bt_events s"
  by (simp_all add: state_of_def put_state_def)

text \<open>The identity check and so the invariant depend on the scope only through its key.\<close>

lemma scope_ok_key:
  assumes "scope_key scope' = scope_key scope"
  shows "scope_ok E scope' st = scope_ok E scope st"
proof -
  have "assertBusinessIdentity scope' = assertBusinessIdentity scope"
    using assms by (auto simp: assertBusinessIdentity_def scope_key_def fun_eq_iff)
  then have "parseBusinessContext E scope' = parseBusinessContext E scope"
    "parseBusinessObjectVersion E scope' = parseBusinessObjectVersion E scope"
    by (auto simp: parseBusinessContext_def parseBusinessObjectVersion_def fun_eq_iff)
  then show ?thesis
    by (simp add: scope_ok_def versions_ok_def history_ok_def refs_ok_def split: option.split)
qed

definition store_ok :: "env \<Rightarrow> business_store \<Rightarrow> bool" where
  "store_ok E s \<longleftrightarrow> (\<forall>scope. scope_ok E scope (state_of s scope)) \<and> numbered (bt_events s)"

lemma same_scope_state: "scope_key scope' = scope_key scope \<Longrightarrow> state_of s scope' = state_of s scope"
  by (simp add: state_of_def)

lemma commit_Inr:
  "commitChangeSet E s scope ch drafts = Inr (s', c) \<longleftrightarrow>
     (\<exists>st. stage_change_set E scope (state_of s scope) ch drafts = Inr st \<and>
        s' = put_state s scope st \<and> c = ch_context ch)"
  by (auto simp: commitChangeSet_def bind_r_Inr)

lemma commit_events_Inr:
  assumes "commitBusinessChangeSet E event_id s scope ch drafts = Inr (s', c, events)"
  obtains st prepared where "stage_change_set E scope (state_of s scope) ch prepared = Inr st"
    "c = ch_context ch" "events = number_events event_id scope (length (bt_events s)) prepared"
    "s' = (put_state s scope st)\<lparr>bt_events := bt_events s @ events\<rparr>"
  using assms by (auto simp: commitBusinessChangeSet_def bind_r_Inr commit_Inr Let_def)

text \<open>How the state of a scope changes: a change set is committed, or a command is claimed.\<close>

inductive scope_change :: "env \<Rightarrow> bound_scope \<Rightarrow> scope_state \<Rightarrow> scope_state \<Rightarrow> bool"
  for E :: env and scope :: bound_scope where
  committed: "stage_change_set E scope st ch drafts = Inr st' \<Longrightarrow> scope_change E scope st st'"
| claimed: "cm_state (rq_command q) = Command_accepted \<Longrightarrow>
    js_get (ss_commands st) (cm_commandId (rq_command q)) = None \<Longrightarrow>
    each_r (claim_conflict (rq_command q)) (js_values (ss_commands st)) = Inr () \<Longrightarrow>
    check_entry E st q = Inr () \<Longrightarrow> publish_submission E scope st q = Inr (staged, drafts) \<Longrightarrow>
    st' = staged\<lparr>ss_commands := js_set (cm_commandId (rq_command q)) (rq_command q) (ss_commands staged)\<rparr> \<Longrightarrow>
    scope_change E scope st st'"

inductive_cases scope_changeE: "scope_change E scope st st'"

lemma store_step_change:
  assumes "store_step E event_id s x = Inr (s', b)"
  shows "if b then \<exists>st drafts. scope_change E (op_scope x) (state_of s (op_scope x)) st \<and>
      s' = (put_state s (op_scope x) st)\<lparr>bt_events := bt_events s @
             number_events event_id (op_scope x) (length (bt_events s)) drafts\<rparr>
    else s' = s"
proof (cases x)
  case (Claim_command scope q)
  with assms obtain rc events where
    "claimCommand E event_id s scope q = Inr (s', b, rc, events)"
    by (auto simp: bind_r_Inr)
  from claim_Inr [OF this] Claim_command show ?thesis
    by (cases b) (auto intro: claimed)
next
  case (Commit_change_set scope ch)
  with assms obtain st where "stage_change_set E scope (state_of s scope) ch [] = Inr st" "b"
      "s' = put_state s scope st"
    by (auto simp: bind_r_Inr commit_Inr)
  moreover have "put_state s scope st = (put_state s scope st)\<lparr>bt_events := bt_events s @
      number_events event_id scope (length (bt_events s)) []\<rparr>"
    by (simp add: number_events_def put_state_def)
  ultimately show ?thesis using Commit_change_set by (auto intro: committed)
next
  case (Commit_with_events scope ch drafts)
  with assms obtain c events where
    "commitBusinessChangeSet E event_id s scope ch drafts = Inr (s', c, events)" "b"
    by (auto simp: bind_r_Inr)
  then show ?thesis using Commit_with_events
    by (auto elim!: commit_events_Inr intro: committed)
qed

lemma scope_change_ok:
  assumes "scope_change E scope st st'" "scope_ok E scope st"
  shows "scope_ok E scope st' \<and> keeps_versions st st'"
  using assms
proof cases
  case (claimed q staged drafts)
  have "ledger_ok (js_set (cm_commandId (rq_command q)) (rq_command q) (ss_commands st))"
    using assms(2) claimed by (auto simp: scope_ok_def intro: ledger_claim)
  then show ?thesis
    using publish_ok [OF claimed(5) assms(2)] claimed(6) by (simp add: scope_ok_def keeps_versions_def)
qed (use assms(2) change_set_ok in blast)

text \<open>Properties of every state that a scope can reach carry over to the store.\<close>

lemma business_step_ok:
  assumes "store_step E event_id s x = Inr (s', b)" "store_ok E s"
  shows "store_ok E s' \<and> keeps_versions (state_of s scope) (state_of s' scope)"
proof (cases b)
  case True
  with store_step_change [OF assms(1)] obtain st drafts where
    st: "scope_change E (op_scope x) (state_of s (op_scope x)) st"
      "s' = (put_state s (op_scope x) st)\<lparr>bt_events := bt_events s @
         number_events event_id (op_scope x) (length (bt_events s)) drafts\<rparr>"
    by auto
  have "scope_ok E (op_scope x) st \<and> keeps_versions (state_of s (op_scope x)) st"
    using scope_change_ok [OF st(1)] assms(2) by (simp add: store_ok_def)
  then have "scope_ok E scope' (state_of s' scope') \<and>
      keeps_versions (state_of s scope') (state_of s' scope')" for scope'
    using assms(2) st(2) same_scope_state [of scope' "op_scope x" s]
      scope_ok_key [of scope' "op_scope x" E st]
    by (simp add: store_ok_def)
  moreover have "numbered (bt_events s')" using assms(2) st(2) numbered_append by (simp add: store_ok_def)
  ultimately show ?thesis by (simp add: store_ok_def)
next
  case False
  with store_step_change [OF assms(1)] assms(2) show ?thesis by simp
qed

lemma after_ok:
  "store_ok E s \<Longrightarrow> store_ok E (after (store_step E event_id) s xs) \<and>
     keeps_versions (state_of s scope) (state_of (after (store_step E event_id) s xs) scope)"
proof (induction xs arbitrary: s)
  case (Cons x xs)
  show ?case
  proof (cases "store_step E event_id s x")
    case (Inr p)
    then obtain s' b where p: "store_step E event_id s x = Inr (s', b)" by (cases p) simp
    have step: "store_ok E s'" "keeps_versions (state_of s scope) (state_of s' scope)"
      using business_step_ok [OF p Cons.prems] by auto
    with Cons.IH [OF step(1)] p keeps_trans show ?thesis by auto
  qed (use Cons in simp)
qed simp

lemma store_ok_empty: "store_ok E emptyStore"
  by (simp add: store_ok_def emptyStore_def state_of_def scope_ok_empty numbered_def)

lemma reachable_ok: "store_ok E (after (store_step E event_id) emptyStore xs)"
  using after_ok [OF store_ok_empty] by blast

subsection \<open>The Context and the commands of a scope in one change\<close>

lemma staged_rest:
  assumes "fold_r (stage_object E scope) (st0, []) vs = Inr (st, pub)"
  shows "ss_commands st = ss_commands st0 \<and> ss_context st = ss_context st0"
proof -
  have "ss_commands (fst (st, pub)) = ss_commands st0 \<and> ss_context (fst (st, pub)) = ss_context st0"
  proof (rule fold_r_invariant [OF assms, where P = "\<lambda>p. ss_commands (fst p) = ss_commands st0 \<and>
      ss_context (fst p) = ss_context st0"])
    fix p v p'
    assume "ss_commands (fst p) = ss_commands st0 \<and> ss_context (fst p) = ss_context st0"
      and "stage_object E scope p v = Inr p'"
    then show "ss_commands (fst p') = ss_commands st0 \<and> ss_context (fst p') = ss_context st0"
      by (cases p; cases p') (auto simp: stage_object_Inr Let_def put_version_def)
  qed simp
  then show ?thesis by simp
qed

lemma change_set_rest:
  assumes "stage_change_set E scope st ch drafts = Inr st'"
  shows "ss_context st' = Some (ch_context ch) \<and> check_revision st ch = Inr () \<and>
    (\<forall>i. js_get (ss_commands st) i \<noteq> None \<longrightarrow> js_get (ss_commands st') i \<noteq> None)"
proof -
  from assms obtain staged pub contents settled where
    c: "check_revision st ch = Inr ()"
      "fold_r (stage_object E scope) (st\<lparr>ss_context := Some (ch_context ch)\<rparr>, []) (ch_objects ch) =
         Inr (staged, pub)"
      "settle_command staged (ch_command ch) = Inr settled" "fold_r store_content settled contents = Inr st'"
    by (rule stage_change_set_Inr)
  from store_contents [OF c(4)] obtain m where "st' = settled\<lparr>ss_contents := m\<rparr>" by blast
  with c(1,3) staged_rest [OF c(2)] show ?thesis
    by (auto simp: settle_Inr split: option.splits)
qed

lemma publish_rest:
  assumes "publish_submission E scope st q = Inr (staged, drafts)"
  shows "ss_commands staged = ss_commands st \<and>
    (\<not> rq_publishSubmission q \<and> staged = st \<or>
     (\<exists>ref c prior new t. rq_expectedEntryRef q = Some ref \<and> ss_context st = Some c \<and>
        ss_context staged = Some (submitted_context c prior new t)))"
proof (cases "rq_publishSubmission q")
  case True
  with assms obtain ref c previous c' version where
    p: "rq_expectedEntryRef q = Some ref" "ss_context st = Some c"
      "prepareInterventionSubmission E scope c previous (rq_command q) (rq_now q) =
         Inr (c', version, drafts)"
      "staged = (put_version st version)\<lparr>ss_context := Some c'\<rparr>"
    by (auto simp: publish_submission_def bind_r_Inr split: option.splits if_splits)
  from p(3) obtain t where "c' = submitted_context c (businessObjectRef previous) (businessObjectRef version) t"
    by (rule submission_Inr)
  then show ?thesis using p by (auto simp: put_version_def Let_def)
qed (use assms in \<open>simp add: publish_submission_def\<close>)

lemma check_revision_Inr [result_simps]:
  "check_revision st ch = Inr u \<longleftrightarrow>
     ch_expectedContextRevision ch = map_option tc_contextRevision (ss_context st) \<and>
     (case ss_context st of
        None \<Rightarrow> tc_contextRevision (ch_context ch) \<in> {0, 1}
      | Some c \<Rightarrow>
          tc_contextRevision (ch_context ch) = tc_contextRevision c + 1 \<and>
          tc_effectivePlanRevision c \<le> tc_effectivePlanRevision (ch_context ch) \<and>
          \<not> date_before (tc_updatedAt (ch_context ch)) (tc_updatedAt c) \<and>
          su_status (tc_summary c) \<noteq> Finalized)"
  by (auto simp: check_revision_def Let_def bind_r_Inr assertBusinessContextTimeProgression_def
      split: option.splits)

text \<open>The next Context of a scope: the same, or the next revision of one that is not final.\<close>

definition context_next :: "task_context option \<Rightarrow> task_context option \<Rightarrow> bool" where
  "context_next a b \<longleftrightarrow>
     (case a of
        None \<Rightarrow> True
      | Some p \<Rightarrow>
          b = Some p \<or>
          (\<exists>n. b = Some n \<and> su_status (tc_summary p) \<noteq> Finalized \<and>
             tc_contextRevision n = tc_contextRevision p + 1 \<and>
             tc_effectivePlanRevision p \<le> tc_effectivePlanRevision n))"

lemma context_next_refl [simp]: "context_next a a"
  by (simp add: context_next_def split: option.split)

lemma scope_change_context:
  assumes "scope_change E scope st st'"
  shows "context_next (ss_context st) (ss_context st')"
  using assms
proof cases
  case (committed ch drafts)
  from change_set_rest [OF this] show ?thesis
    by (auto simp: context_next_def check_revision_Inr split: option.splits)
next
  case (claimed q staged drafts)
  from publish_rest [OF claimed(5)] claimed(4,6) show ?thesis
    by (auto simp: context_next_def check_entry_def assertBusinessCommandEntryCurrent_def bind_r_Inr
        submitted_context_def split: option.splits if_splits)
qed

lemma scope_change_commands:
  assumes "scope_change E scope st st'" "js_get (ss_commands st) i \<noteq> None"
  shows "js_get (ss_commands st') i \<noteq> None"
  using assms
proof cases
  case (claimed q staged drafts)
  then show ?thesis using publish_rest [OF claimed(5)] assms(2) by auto
qed (use change_set_rest assms(2) in blast)

subsection \<open>The fences of the store\<close>

definition state_at :: "business_store \<Rightarrow> string option list \<Rightarrow> scope_state" where
  "state_at s k = (case js_get (bt_scopes s) k of None \<Rightarrow> emptyState | Some st \<Rightarrow> st)"

lemma state_at_scope: "state_at s (scope_key scope) = state_of s scope"
  by (simp add: state_at_def state_of_def)

lemma state_at_put:
  "state_at ((put_state s scope st)\<lparr>bt_events := evs\<rparr>) k =
     (if k = scope_key scope then st else state_at s k)"
  by (simp add: state_at_def put_state_def)

definition command_at :: "business_store \<Rightarrow> string option list \<times> string \<Rightarrow> command_record option" where
  "command_at s k = js_get (ss_commands (state_at s (fst k))) (snd k)"

text \<open>A revision of a Context that lies behind, and the absence of a Context once there is one.\<close>

definition passed_revision :: "business_store \<Rightarrow> string option list \<times> int option \<Rightarrow> unit option" where
  "passed_revision s k =
     (case ss_context (state_at s (fst k)) of
        None \<Rightarrow> None
      | Some c \<Rightarrow>
          (case snd k of
             None \<Rightarrow> Some ()
           | Some n \<Rightarrow> if n < tc_contextRevision c then Some () else None))"

fun is_claim :: "store_op \<Rightarrow> bool" where
  "is_claim (Claim_command _ _) = True"
| "is_claim _ = False"

fun claim_key :: "store_op \<Rightarrow> string option list \<times> string" where
  "claim_key (Claim_command scope q) = (scope_key scope, cm_commandId (rq_command q))"
| "claim_key _ = ([], [])"

fun commit_key :: "store_op \<Rightarrow> string option list \<times> int option" where
  "commit_key (Commit_change_set scope ch) = (scope_key scope, ch_expectedContextRevision ch)"
| "commit_key (Commit_with_events scope ch _) = (scope_key scope, ch_expectedContextRevision ch)"
| "commit_key _ = ([], None)"

text \<open>The claims alone and the commits alone; the other operations are refused.\<close>

definition claim_step ::
    "env \<Rightarrow> (int \<Rightarrow> string) \<Rightarrow> business_store \<Rightarrow> store_op \<Rightarrow> (business_store \<times> bool) result" where
  "claim_step E event_id s x = (if is_claim x then store_step E event_id s x else Inl ''other'')"

definition commit_step ::
    "env \<Rightarrow> (int \<Rightarrow> string) \<Rightarrow> business_store \<Rightarrow> store_op \<Rightarrow> (business_store \<times> bool) result" where
  "commit_step E event_id s x = (if is_claim x then Inl ''other'' else store_step E event_id s x)"

definition plain_step ::
    "env \<Rightarrow> (int \<Rightarrow> string) \<Rightarrow> business_store \<Rightarrow> store_op \<Rightarrow> business_store result" where
  "plain_step E event_id s x = bind_r (store_step E event_id s x) (\<lambda>p. Inr (fst p))"

lemma store_step_at:
  assumes "store_step E event_id s x = Inr (s', b)"
  shows "state_at s' k = state_at s k \<or> scope_change E (op_scope x) (state_at s k) (state_at s' k)"
  using store_step_change [OF assms] by (auto simp: state_at_put state_at_scope split: if_splits)

lemma commands_kept:
  assumes "store_step E event_id s x = Inr (s', b)" "command_at s k \<noteq> None"
  shows "command_at s' k \<noteq> None"
  using store_step_at [OF assms(1), of "fst k"] assms(2) scope_change_commands
  by (auto simp: command_at_def)

lemma context_step:
  assumes "store_step E event_id s x = Inr (s', b)"
  shows "context_next (ss_context (state_at s k)) (ss_context (state_at s' k))"
  using store_step_at [OF assms, of k] scope_change_context context_next_refl by metis

lemma revisions_kept:
  assumes "store_step E event_id s x = Inr (s', b)" "passed_revision s k \<noteq> None"
  shows "passed_revision s' k \<noteq> None"
  using context_step [OF assms(1), of "fst k"] assms(2)
  by (auto simp: passed_revision_def context_next_def split: option.splits if_splits)

lemma claim_step_new:
  assumes "claim_step E event_id s x = Inr (s', True)"
  shows "command_at s (claim_key x) = None \<and> command_at s' (claim_key x) \<noteq> None"
proof (cases x)
  case (Claim_command scope q)
  with assms obtain rc evs where "claimCommand E event_id s scope q = Inr (s', True, rc, evs)"
    by (auto simp: claim_step_def bind_r_Inr)
  from claim_Inr [OF this] Claim_command show ?thesis
    by (auto simp: command_at_def state_at_scope state_at_put)
qed (use assms in \<open>simp_all add: claim_step_def\<close>)

lemma claim_step_frame:
  assumes "claim_step E event_id s x = Inr (s', b)" "k \<noteq> claim_key x"
  shows "command_at s' k = command_at s k"
proof (cases x)
  case (Claim_command scope q)
  with assms obtain rc evs where "claimCommand E event_id s scope q = Inr (s', b, rc, evs)"
    by (auto simp: claim_step_def bind_r_Inr)
  from claim_Inr [OF this] Claim_command assms(2) show ?thesis
    by (cases k) (auto simp: command_at_def state_at_scope state_at_put dest: publish_rest split: if_splits)
qed (use assms in \<open>simp_all add: claim_step_def\<close>)

interpretation commands: claim_ledger command_at claim_key "claim_step E event_id" "plain_step E event_id"
  for E event_id
proof unfold_locales
  fix s x s'
  assume "claim_step E event_id s x = Inr (s', False)"
  then show "s' = s"
    using store_step_change [of E event_id s x s' False] by (auto simp: claim_step_def split: if_splits)
next
  fix s x s' k
  assume step: "plain_step E event_id s x = Inr s'" and k: "command_at s k \<noteq> None"
  from step obtain b where "store_step E event_id s x = Inr (s', b)" by (auto simp: plain_step_def bind_r_Inr)
  from this k show "command_at s' k \<noteq> None" by (rule commands_kept)
qed (use claim_step_new claim_step_frame in blast)+

lemma commit_step_new:
  assumes "commit_step E event_id s x = Inr (s', True)"
  shows "passed_revision s (commit_key x) = None \<and> passed_revision s' (commit_key x) \<noteq> None"
proof -
  obtain scope ch drafts st where
    "stage_change_set E scope (state_of s scope) ch drafts = Inr st"
    "state_at s' (scope_key scope) = st" "commit_key x = (scope_key scope, ch_expectedContextRevision ch)"
  proof (cases x)
    case (Commit_change_set scope ch)
    then show ?thesis using assms
      by (auto simp: commit_step_def bind_r_Inr commit_Inr state_at_scope intro: that)
  next
    case (Commit_with_events scope ch drafts)
    then show ?thesis using assms
      by (auto simp: commit_step_def bind_r_Inr state_at_put elim!: commit_events_Inr intro: that)
  qed (use assms in \<open>simp add: commit_step_def\<close>)
  with change_set_rest [of E scope "state_of s scope" ch drafts st] show ?thesis
    by (auto simp: passed_revision_def state_at_scope check_revision_Inr split: option.splits)
qed

interpretation commits: fence_ledger passed_revision commit_key "commit_step E event_id" "plain_step E event_id"
  for E event_id
proof unfold_locales
  fix s x s' b k
  assume step: "commit_step E event_id s x = Inr (s', b)" and k: "passed_revision s k \<noteq> None"
  from step have "store_step E event_id s x = Inr (s', b)" by (simp add: commit_step_def split: if_splits)
  from this k show "passed_revision s' k \<noteq> None" by (rule revisions_kept)
next
  fix s x s' k
  assume step: "plain_step E event_id s x = Inr s'" and k: "passed_revision s k \<noteq> None"
  from step obtain b where "store_step E event_id s x = Inr (s', b)" by (auto simp: plain_step_def bind_r_Inr)
  from this k show "passed_revision s' k \<noteq> None" by (rule revisions_kept)
qed (use commit_step_new in blast)+

end
