(* ===== verification/StorePromises.thy ===== *)
theory StorePromises
  imports StoreInvariant
begin

text \<open>
  What the task-business store of memory-task-business-store.ts promises to its clients, for every
  store that any sequence of claims and change sets can lead to.
\<close>

lemma reachable_scope_ok: "scope_ok E scope (state_of (after (store_step E event_id) emptyStore xs) scope)"
  using reachable_ok [of E event_id xs] by (simp add: store_ok_def)

subsection \<open>Versions\<close>

lemma version_at_ref:
  assumes "versions_ok E scope st" "version_at st r = Some v"
  shows "businessObjectRef v = r"
proof -
  from assms(2) have "js_get (versions_of st (objectKey r)) (ref_revision r) = Some v"
    by (simp add: version_at_def)
  with versions_okD [OF assms(1), of "objectKey r"] have "businessObjectRef v =
      \<lparr>ref_kind = fst (objectKey r), ref_id = snd (objectKey r), ref_revision = ref_revision r\<rparr>"
    unfolding history_ok_def by blast
  then show ?thesis by (simp add: objectKey_def)
qed

lemma version_successor:
  assumes "versions_ok E scope st" "version_at st r = Some v"
    "version_at st (r\<lparr>ref_revision := ref_revision r + 1\<rparr>) = Some w"
  shows "version_transition E v w = Inr ()"
proof -
  have "objectKey (r\<lparr>ref_revision := ref_revision r + 1\<rparr>) = objectKey r" by (simp add: objectKey_def)
  with assms(2,3) have "js_get (versions_of st (objectKey r)) (ref_revision r) = Some v"
    "js_get (versions_of st (objectKey r)) (ref_revision r + 1) = Some w"
    by (simp_all add: version_at_def)
  with versions_okD [OF assms(1), of "objectKey r"] show ?thesis
    unfolding history_ok_def by blast
qed

lemma version_revisions:
  assumes "versions_ok E scope st"
  shows "\<exists>n. \<forall>i. version_at st \<lparr>ref_kind = k, ref_id = i', ref_revision = i\<rparr> \<noteq> None \<longleftrightarrow> 1 \<le> i \<and> i \<le> n"
proof -
  have "version_at st \<lparr>ref_kind = k, ref_id = i', ref_revision = i\<rparr> = js_get (versions_of st (k, i')) i" for i
    by (simp add: version_at_def objectKey_def)
  with versions_okD [OF assms, of "(k, i')"] show ?thesis
    unfolding history_ok_def by metis
qed

text \<open>
  C1. Versions are immutable and without gaps: in every store that operations lead to, the revisions
  of an object are exactly those from 1 to its latest, the version under a reference carries that
  reference and is the one every later store has there, and each version was accepted by the
  transition check of its kind against the one before.
\<close>

theorem versions_immutable:
  "(\<exists>n. \<forall>i. version_at (state_of (after (store_step E event_id) emptyStore xs) scope)
        \<lparr>ref_kind = k, ref_id = j, ref_revision = i\<rparr> \<noteq> None \<longleftrightarrow> 1 \<le> i \<and> i \<le> n) \<and>
   (\<forall>r v. version_at (state_of (after (store_step E event_id) emptyStore xs) scope) r = Some v \<longrightarrow>
      businessObjectRef v = r \<and>
      version_at (state_of (after (store_step E event_id) emptyStore (xs @ ys)) scope) r = Some v \<and>
      (\<forall>w. version_at (state_of (after (store_step E event_id) emptyStore (xs @ ys)) scope)
             (r\<lparr>ref_revision := ref_revision r + 1\<rparr>) = Some w \<longrightarrow> version_transition E v w = Inr ()))"
proof -
  let ?s = "after (store_step E event_id) emptyStore xs"
  let ?t = "after (store_step E event_id) ?s ys"
  have app: "after (store_step E event_id) emptyStore (xs @ ys) = ?t" by (rule after_append)
  have s: "versions_ok E scope (state_of ?s scope)"
    using reachable_scope_ok [of E scope event_id xs] by (simp add: scope_ok_def)
  have t: "versions_ok E scope (state_of ?t scope)" "keeps_versions (state_of ?s scope) (state_of ?t scope)"
    using after_ok [OF reachable_ok [of E event_id xs], of event_id ys scope]
    by (simp_all add: store_ok_def scope_ok_def)
  have kept: "version_at (state_of ?t scope) r = Some v" if "version_at (state_of ?s scope) r = Some v" for r v
    using that t(2) by (simp add: keeps_versions_def)
  show ?thesis
    unfolding app
    using version_revisions [OF s] version_at_ref [OF s] version_successor [OF t(1) kept] kept by blast
qed

subsection \<open>Snapshots\<close>

lemma snapshot_objects:
  assumes "\<And>r. r \<in> set rs \<Longrightarrow> version_at st r \<noteq> None"
  shows "\<exists>vs. map_r (snapshot_object st) rs = Inr vs \<and>
    (\<forall>i < length rs. version_at st (rs ! i) = Some (vs ! i)) \<and> length vs = length rs"
  using assms
proof (induction rs)
  case (Cons r rs)
  then obtain vs v where "map_r (snapshot_object st) rs = Inr vs"
    "\<forall>i < length rs. version_at st (rs ! i) = Some (vs ! i)" "length vs = length rs"
    "version_at st r = Some v"
    by fastforce
  moreover then have "snapshot_object st r = Inr v" by (simp add: snapshot_object_def)
  ultimately show ?case
    by (auto simp: nth_Cons split: nat.split intro!: exI [of _ "v # vs"])
qed simp

text \<open>
  C4. A snapshot is complete: in every store that operations lead to, reading the snapshot of a scope
  fails only because of its size; otherwise it is the Context with, for each reference of the Context
  in order, the stored version that carries this kind, identifier and revision, and every active
  reference is among them.
\<close>

theorem snapshot_complete:
  "case getContextSnapshot snapshot_bytes (after (store_step E event_id) emptyStore xs) scope of
     Inl e \<Rightarrow> e = ''BUSINESS_SNAPSHOT_TOO_LARGE''
   | Inr None \<Rightarrow> getContext (after (store_step E event_id) emptyStore xs) scope = None
   | Inr (Some (c, objects)) \<Rightarrow>
       getContext (after (store_step E event_id) emptyStore xs) scope = Some c \<and>
       map businessObjectRef objects = contextObjectRefs c \<and>
       set (js_values (tc_activeRefs c)) \<subseteq> set (listed_refs c)"
proof -
  let ?st = "state_of (after (store_step E event_id) emptyStore xs) scope"
  have ok: "versions_ok E scope ?st" "refs_ok E scope ?st"
    using reachable_scope_ok [of E scope event_id xs] by (simp_all add: scope_ok_def)
  show ?thesis
  proof (cases "ss_context ?st")
    case (Some c)
    with ok(2) have c: "set (js_values (tc_activeRefs c)) \<subseteq> set (listed_refs c)"
      "\<And>r. r \<in> set (listed_refs c) \<Longrightarrow> version_at ?st r \<noteq> None"
      by (auto simp: refs_ok_def)
    have "\<And>r. r \<in> set (contextObjectRefs c) \<Longrightarrow> version_at ?st r \<noteq> None"
      using c context_refs_listed [of c] by blast
    from snapshot_objects [OF this] obtain vs where vs:
      "map_r (snapshot_object ?st) (contextObjectRefs c) = Inr vs"
      "\<forall>i < length (contextObjectRefs c). version_at ?st (contextObjectRefs c ! i) = Some (vs ! i)"
      "length vs = length (contextObjectRefs c)"
      by blast
    have "map businessObjectRef vs = contextObjectRefs c"
      using vs(2,3) version_at_ref [OF ok(1)] by (simp add: list_eq_iff_nth_eq)
    with c(1) vs(1) Some show ?thesis by (simp add: getContextSnapshot_def getContext_def)
  qed (simp add: getContextSnapshot_def getContext_def)
qed

subsection \<open>Content\<close>

text \<open>
  C5. Stored content is there and unaltered: whenever a read of an artifact's content is admitted to
  the store, in any store that operations lead to, the bytes are found, belong to that version and have
  the announced size and SHA-256; \<open>ARTIFACT_CONTENT_NOT_FOUND\<close> and
  \<open>ARTIFACT_CONTENT_HASH_MISMATCH\<close> are never reported.
\<close>

theorem stored_bytes_intact:
  assumes "readArtifactContent E (after (store_step E event_id) emptyStore xs) scope artifactId revision
      now name = Inr (Stored h mediaType sizeBytes sha256)"
  shows "\<exists>x. readArtifactContentBytes E (after (store_step E event_id) emptyStore xs) scope artifactId
      revision now name = Inr x \<and> cr_artifactId (st_reference x) = artifactId \<and>
    cr_revision (st_reference x) = revision \<and> int (length (st_bytes x)) = sizeBytes \<and>
    en_sha256 E (st_bytes x) = sha256"
proof -
  let ?s = "after (store_step E event_id) emptyStore xs"
  let ?r = "\<lparr>ref_kind = Artifact, ref_id = artifactId, ref_revision = revision\<rparr>"
  have ok: "versions_ok E scope (state_of ?s scope)" "contents_ok E (state_of ?s scope)"
    using reachable_scope_ok [of E scope event_id xs] by (simp_all add: scope_ok_def)
  from assms obtain v a where v: "version_at (state_of ?s scope) ?r = Some v" "artifact_of v = Some a"
    "prepareArtifactContentRead (en_iso_datetime E) a \<lparr>rq_identity = scopeBusinessIdentity scope,
       rq_artifactId = artifactId, rq_revision = revision\<rparr> now name = Inr (Stored h mediaType sizeBytes sha256)"
    by (auto simp: readArtifactContent_def getArtifactVersion_def getObjectVersion_def bind_r_Inr
        split: option.splits)
  from content_read_facts [OF v(3)] obtain c where c:
    "Content_ref c \<in> set (contents_of (ta_availability a))" "ta_artifactId a = artifactId"
    "ta_revision a = revision" "h = cr_handle c" "sizeBytes = cr_sizeBytes c" "sha256 = cr_sha256 c"
    by auto
  have "v = Artifact_version a" using v(2) by (cases v) auto
  then have "(a, c) \<in> set (version_references v)" using c(1) by force
  with ok(2) v(1) obtain x where x: "js_get (ss_contents (state_of ?s scope)) (cr_handle c) = Some x"
    "content_of_ok E (expected_content a c) x"
    by (fastforce simp: contents_ok_def)
  then have "readArtifactContentBytes E ?s scope artifactId revision now name = Inr x"
    using assms c by (simp add: readArtifactContentBytes_def content_of_ok_def expected_content_def)
  with x c show ?thesis by (auto simp: content_of_ok_def expected_content_def)
qed

subsection \<open>Commands\<close>

lemma ledger_accepted:
  assumes m: "ledger_ok m" and k: "k \<noteq> []"
  shows "length (filter (\<lambda>c. cm_commandType c = t \<and> cm_entryKey c = Some k \<and>
      cm_state c = Command_accepted) (js_values m)) \<le> 1"
proof -
  define P where "P = (\<lambda>c :: command_record. cm_commandType c = t \<and> cm_entryKey c = Some k \<and> cm_state c = Command_accepted)"
  define F where "F = filter (P \<circ> snd) m"
  have d: "distinct (map fst F)" using m by (simp add: F_def ledger_ok_def distinct_map_filter)
  have "i = j" if "i < length F" "j < length F" for i j
  proof (rule ccontr)
    assume "i \<noteq> j"
    with d that have ne: "fst (F ! i) \<noteq> fst (F ! j)"
      by (metis length_map nth_eq_iff_index_eq nth_map)
    have "F ! i \<in> set F" "F ! j \<in> set F" using that by (auto intro: nth_mem)
    then have "P (snd (F ! i))" "P (snd (F ! j))" "F ! i \<in> set m" "F ! j \<in> set m"
      unfolding F_def by auto
    moreover from this have "js_get m (fst (F ! i)) = Some (snd (F ! i))"
      "js_get m (fst (F ! j)) = Some (snd (F ! j))"
      using m by (auto simp: ledger_ok_def)
    moreover from this have "compatible (snd (F ! i)) (snd (F ! j))"
      using m ne unfolding ledger_ok_def by blast
    ultimately show False using k by (auto simp: P_def compatible_def holds_entry_def)
  qed
  from this [of 0 1] have "length F \<le> 1" by linarith
  then show ?thesis by (simp add: F_def P_def filter_map)
qed

text \<open>
  C2. One claim per entry: however claims and change sets follow each other, a command identifier of a
  scope is claimed at most once; two different commands of a scope never both hold the same entry and are
  never both accepted interventions, and two of the same command type never share a Runtime sequence
  number (an input response and an intervention may); so a lookup of the accepted response to a request
  is never ambiguous.
\<close>

theorem one_claim_per_entry:
  "distinct (map claim_key (filter is_claim (effective (store_step E event_id) emptyStore xs))) \<and>
   (\<forall>i a j b. getCommand (after (store_step E event_id) emptyStore xs) scope i = Some a \<longrightarrow>
      getCommand (after (store_step E event_id) emptyStore xs) scope j = Some b \<longrightarrow> i \<noteq> j \<longrightarrow>
      cm_commandId a = i \<and> compatible a b) \<and>
   getAcceptedInputCommand (after (store_step E event_id) emptyStore xs) scope requestKey
     \<noteq> Inl ''BUSINESS_ENTRY_CLAIM_CONFLICT''"
proof -
  let ?s = "after (store_step E event_id) emptyStore xs"
  have "distinct (map (\<lambda>x. claim_key (id x)) (filter is_claim (effective (store_step E event_id) emptyStore xs)))"
    by (rule commands.component_claims_once [where E = E and event_id = event_id])
      (simp_all add: claim_step_def plain_step_def)
  moreover have m: "ledger_ok (ss_commands (state_of ?s scope))"
    using reachable_scope_ok [of E scope event_id xs] by (simp add: scope_ok_def)
  moreover have "getAcceptedInputCommand ?s scope requestKey \<noteq> Inl ''BUSINESS_ENTRY_CLAIM_CONFLICT''"
  proof -
    define found where "found = filter (\<lambda>c. cm_commandType c = Input_response \<and>
      cm_entryKey c = Some (''input:'' @ requestKey) \<and> cm_state c = Command_accepted)
      (js_values (ss_commands (state_of ?s scope)))"
    have "length found \<le> 1" unfolding found_def by (rule ledger_accepted [OF m]) simp
    then show ?thesis
      unfolding getAcceptedInputCommand_def found_def [symmetric] by (cases found) (auto split: list.split)
  qed
  ultimately show ?thesis by (auto simp: getCommand_def ledger_ok_def)
qed

subsection \<open>The Context\<close>

definition context_later :: "task_context option \<Rightarrow> task_context option \<Rightarrow> bool" where
  "context_later a b \<longleftrightarrow>
     (case a of
        None \<Rightarrow> True
      | Some p \<Rightarrow>
          b = Some p \<or>
          (\<exists>n. b = Some n \<and> su_status (tc_summary p) \<noteq> Finalized \<and>
             tc_contextRevision p < tc_contextRevision n \<and>
             tc_effectivePlanRevision p \<le> tc_effectivePlanRevision n))"

lemma context_later_next: "context_next a b \<Longrightarrow> context_later b c \<Longrightarrow> context_later a c"
  by (auto simp: context_next_def context_later_def split: option.splits)

lemma context_progress:
  "context_later (getContext s scope) (getContext (after (store_step E event_id) s xs) scope)"
proof (induction xs arbitrary: s)
  case Nil
  then show ?case by (simp add: context_later_def split: option.split)
next
  case (Cons x xs)
  show ?case
  proof (cases "store_step E event_id s x")
    case (Inr p)
    then obtain s' b where p: "store_step E event_id s x = Inr (s', b)" by (cases p) simp
    have "context_next (getContext s scope) (getContext s' scope)"
      using context_step [OF p, of "scope_key scope"] by (simp add: getContext_def state_at_scope)
    from context_later_next [OF this Cons.IH [of s']] p show ?thesis by simp
  qed (use Cons in simp)
qed

text \<open>
  C3. No change set is lost: of all the change sets issued against one expected revision of the Context
  of a scope, or against its absence, at most one takes effect, also with claims in between; and the
  Context only moves forward: its revision grows, its plan revision never falls, and once finalized it
  stays as it is.
\<close>

theorem commits_never_lost:
  "distinct (map commit_key (filter (\<lambda>x. \<not> is_claim x) (effective (store_step E event_id) s xs))) \<and>
   (case getContext s scope of
      None \<Rightarrow> True
    | Some p \<Rightarrow>
        (\<exists>n. getContext (after (store_step E event_id) s xs) scope = Some n \<and>
           (if n = p then True
            else su_status (tc_summary p) \<noteq> Finalized \<and> tc_contextRevision p < tc_contextRevision n \<and>
              tc_effectivePlanRevision p \<le> tc_effectivePlanRevision n)))"
proof -
  have "distinct (map (\<lambda>x. commit_key (id x))
      (filter (\<lambda>x. \<not> is_claim x) (effective (store_step E event_id) s xs)))"
    by (rule commits.component_claims_once [where E = E and event_id = event_id])
      (simp_all add: commit_step_def plain_step_def)
  then show ?thesis
    using context_progress [of s scope E event_id xs] by (auto simp: context_later_def split: option.splits)
qed

subsection \<open>A concrete run\<close>

text \<open>
  One scope; a Context with a route and the bytes of the route are committed, the entry \<open>input:k\<close> is
  claimed, claimed again under the same and under another identifier, and two change sets are issued
  against revision 1.
\<close>

definition example_env :: env where
  "example_env =
     \<lparr>en_iso_datetime = (\<lambda>s. date_parse s \<noteq> None), en_ajv = (\<lambda>s. Some (\<lambda>v. True)),
      en_sha256 = (\<lambda>b. replicate 64 (CHR ''a'')), en_nfc = (\<lambda>s. s), en_num_string = (\<lambda>n. ''1''),
      en_json_parse = (\<lambda>b. Some JNull)\<rparr>"

definition example_scope :: bound_scope where
  "example_scope =
     \<lparr>bs_taskId = ''t'', bs_executionId = ''e'', bs_providerId = ''p'', bs_resourceId = ''r'',
      bs_operationName = ''o'', bs_authorizationContextHash = ''a'', bs_executionMode = Live,
      bs_simulationId = ''m'', bs_correlationId = ''c'', bs_deviceContext = None\<rparr>"

definition example_route :: "int \<Rightarrow> task_artifact" where
  "example_route n =
     example_artifact\<lparr>ta_revision := n,
       ta_availability := Available (Content_ref (example_reference\<lparr>cr_revision := n, cr_handle := ''h'',
           cr_sizeBytes := 2\<rparr>))
         (Route_props \<lparr>rp_adoption = adopted, rp_purpose = for_navigation, rp_routeSource = ''planner'',
           rp_routePlanId = None, rp_distanceM = Some 12, rp_estimatedDurationSec = None,
           rp_replanReasonCode = None\<rparr>) None\<rparr>"

definition example_route_ref :: object_ref where
  "example_route_ref = \<lparr>ref_kind = Artifact, ref_id = ''route'', ref_revision = 1\<rparr>"

definition example_context :: "int \<Rightarrow> task_context" where
  "example_context n =
     \<lparr>tc_identity = example_scope_identity, tc_contextRevision = n, tc_effectivePlanRevision = 1,
      tc_phase = None, tc_summary = \<lparr>su_status = InProgress, su_resultCode = None, su_properties = None\<rparr>,
      tc_activeRefs = [(''route'', example_route_ref)], tc_artifactRefs = [example_route_ref],
      tc_actionRefs = [], tc_requiredInputRefs = [], tc_interventionRefs = [],
      tc_updatedAt = ''2026-01-01T00:00:00Z'', tc_finalizedAt = None\<rparr>"

definition example_commit :: "int option \<Rightarrow> int \<Rightarrow> store_op" where
  "example_commit e n =
     Commit_change_set example_scope
       \<lparr>ch_expectedContextRevision = e, ch_context = example_context n,
        ch_objects = (if e = None then [Artifact_version (example_route 1)] else []),
        ch_contents = (if e = None then [\<lparr>cw_artifactId = ''route'', cw_revision = 1, cw_handle = ''h'',
           cw_bytes = ''{}''\<rparr>] else []),
        ch_command = None\<rparr>"

definition example_claim :: "string \<Rightarrow> store_op" where
  "example_claim i =
     Claim_command example_scope
       \<lparr>rq_command = \<lparr>cm_commandId = i, cm_commandType = Input_response, cm_entryKey = Some ''input:k'',
          cm_runtimeCommandSequence = None, cm_responder = None, cm_identity = example_scope_identity,
          cm_requestHash = replicate 64 (CHR ''a''), cm_responseHash = Some (replicate 64 (CHR ''b'')),
          cm_inputResponse = None, cm_interventionRequest = None, cm_state = Command_accepted,
          cm_resultCode = None, cm_resultRefs = None, cm_createdAt = ''2026-01-01T00:00:00Z'',
          cm_updatedAt = ''2026-01-01T00:00:00Z''\<rparr>,
        rq_expectedEntryRef = None, rq_now = Some 0, rq_expectedContextRevision = None,
        rq_publishSubmission = False\<rparr>"

abbreviation example_step :: "business_store \<Rightarrow> store_op \<Rightarrow> (business_store \<times> bool) result" where
  "example_step \<equiv> store_step example_env (\<lambda>n. ''event'')"

text \<open>The examples, evaluated once for the witnesses.\<close>

lemma example_facts:
  "version_at (state_of (after example_step emptyStore [example_commit None 1]) example_scope)
     example_route_ref = Some (Artifact_version (example_route 1)) \<and>
   readArtifactContent example_env (after example_step emptyStore [example_commit None 1])
      example_scope ''route'' 1 (Some 0) None =
    Inr (Stored ''h'' ''application/json'' 2 (replicate 64 (CHR ''a''))) \<and>
   map claim_key (filter is_claim (effective example_step emptyStore
      [example_claim ''i'', example_claim ''j''])) = [(scope_key example_scope, ''i'')] \<and>
   map_option (\<lambda>c. (cm_commandId c, cm_entryKey c)) (getCommand (after example_step emptyStore
      [example_claim ''i'', example_claim ''j'']) example_scope ''i'') = Some (''i'', Some ''input:k'')"
  by code_simp

theorem versions_immutable_witness:
  "version_at (state_of (after example_step emptyStore [example_commit None 1]) example_scope)
     example_route_ref = Some (Artifact_version (example_route 1)) \<and>
   version_at (state_of (after example_step emptyStore [example_commit None 1, example_commit (Some 1) 2])
     example_scope) example_route_ref = Some (Artifact_version (example_route 1))"
proof -
  have v: "version_at (state_of (after example_step emptyStore [example_commit None 1]) example_scope)
     example_route_ref = Some (Artifact_version (example_route 1))"
    using example_facts by blast
  with versions_immutable [of example_env "\<lambda>n. ''event''" "[example_commit None 1]" example_scope
      Artifact "''route''" "[example_commit (Some 1) 2]"]
  show ?thesis by auto
qed

theorem stored_bytes_intact_witness:
  "\<exists>x. readArtifactContentBytes example_env (after example_step emptyStore [example_commit None 1])
     example_scope ''route'' 1 (Some 0) None = Inr x \<and> int (length (st_bytes x)) = 2"
proof -
  have "readArtifactContent example_env (after example_step emptyStore [example_commit None 1])
      example_scope ''route'' 1 (Some 0) None =
    Inr (Stored ''h'' ''application/json'' 2 (replicate 64 (CHR ''a'')))"
    using example_facts by blast
  from stored_bytes_intact [OF this] show ?thesis by blast
qed

theorem one_claim_per_entry_witness:
  "map claim_key (filter is_claim (effective example_step emptyStore [example_claim ''i'', example_claim ''j'']))
     = [(scope_key example_scope, ''i'')] \<and>
   (\<exists>c. getCommand (after example_step emptyStore [example_claim ''i'', example_claim ''j'']) example_scope
      ''i'' = Some c \<and> cm_commandId c = ''i'' \<and> cm_entryKey c = Some ''input:k'') \<and>
   getAcceptedInputCommand (after example_step emptyStore [example_claim ''i'', example_claim ''j''])
     example_scope ''k'' \<noteq> Inl ''BUSINESS_ENTRY_CLAIM_CONFLICT''"
proof -
  have e: "map claim_key (filter is_claim (effective example_step emptyStore
      [example_claim ''i'', example_claim ''j''])) = [(scope_key example_scope, ''i'')]"
    using example_facts by blast
  have "map_option (\<lambda>c. (cm_commandId c, cm_entryKey c)) (getCommand (after example_step emptyStore
      [example_claim ''i'', example_claim ''j'']) example_scope ''i'') = Some (''i'', Some ''input:k'')"
    using example_facts by blast
  then show ?thesis
    using e one_claim_per_entry [of example_env "\<lambda>n. ''event''" "[example_claim ''i'', example_claim ''j'']"
      example_scope "''k''"] by auto
qed

end
