(* ===== verification/CommandService.thy ===== *)
theory CommandService
  imports StorePromises
begin

text \<open>
  packages/provider-adapter-kit/src/task-business-commands.ts: the admission of responses to Required
  Inputs and of interventions. A submission awaits the store several times, and other callers may run
  in between: each await is given the store it meets (\<open>vw_replay\<close>, \<open>vw_context\<close>, \<open>vw_version\<close>,
  \<open>vw_claim\<close>, \<open>vw_raced\<close>), and the three calls of the clock their values. A responder is passed on
  after its schema accepted it, which leaves it as it is.
\<close>

subsection \<open>Records and replays\<close>

definition input_request_hash :: "env \<Rightarrow> input_command \<Rightarrow> string result" where
  "input_request_hash E c =
     bind_r (zod (RequiredInputResponseCommandSchema c)) (\<lambda>_. canonical_hash E (input_semantic c))"

definition intervention_request_hash :: "env \<Rightarrow> intervention_command \<Rightarrow> string result" where
  "intervention_request_hash E c =
     bind_r (zod (RuntimeInterventionCommandSchema c)) (\<lambda>_. canonical_hash E (intervention_semantic c))"

text \<open>\<open>this.now().toISOString()\<close>.\<close>

definition iso_now :: "int option \<Rightarrow> string result" where
  "iso_now t = (case t of None \<Rightarrow> Inl ''RangeError'' | Some n \<Rightarrow> Inr (toISOString n))"

definition input_record ::
    "env \<Rightarrow> bound_scope \<Rightarrow> input_command \<Rightarrow> string \<Rightarrow> trusted_responder \<Rightarrow> int option \<Rightarrow> command_record result" where
  "input_record E scope command runtimeCommandSequence responder now =
     (if \<not> positiveSequence runtimeCommandSequence then Inl ''RUNTIME_COMMAND_SEQUENCE_INVALID''
      else
        bind_r (iso_now now) (\<lambda>timestamp.
        bind_r (input_request_hash E command) (\<lambda>requestHash.
        bind_r (taskBusinessInputResponseHash E (ic_result command)) (\<lambda>responseHash.
          Inr \<lparr>cm_commandId = ic_commandId command, cm_commandType = Input_response,
               cm_entryKey = Some (''input:'' @ ic_requestKey command),
               cm_runtimeCommandSequence = Some runtimeCommandSequence, cm_responder = Some responder,
               cm_identity = scopeBusinessIdentity scope, cm_requestHash = requestHash,
               cm_responseHash = Some responseHash, cm_inputResponse = Some (ic_result command),
               cm_interventionRequest = None, cm_state = Command_accepted, cm_resultCode = None,
               cm_resultRefs = None, cm_createdAt = timestamp, cm_updatedAt = timestamp\<rparr>))))"

definition intervention_record ::
    "env \<Rightarrow> bound_scope \<Rightarrow> intervention_command \<Rightarrow> string \<Rightarrow> trusted_responder \<Rightarrow> int option
       \<Rightarrow> command_record result" where
  "intervention_record E scope command runtimeCommandSequence responder now =
     (if \<not> positiveSequence runtimeCommandSequence then Inl ''RUNTIME_COMMAND_SEQUENCE_INVALID''
      else
        bind_r (iso_now now) (\<lambda>timestamp.
        bind_r (intervention_request_hash E command) (\<lambda>requestHash.
          Inr \<lparr>cm_commandId = vc_commandId command, cm_commandType = Intervention_submission,
               cm_entryKey = Some (''intervention:'' @ vc_interventionId command),
               cm_runtimeCommandSequence = Some runtimeCommandSequence, cm_responder = Some responder,
               cm_identity = scopeBusinessIdentity scope, cm_requestHash = requestHash,
               cm_responseHash = None, cm_inputResponse = None,
               cm_interventionRequest = Some command, cm_state = Command_accepted, cm_resultCode = None,
               cm_resultRefs = None, cm_createdAt = timestamp, cm_updatedAt = timestamp\<rparr>)))"

record acceptance =
  ac_claimed :: bool
  ac_record :: command_record
  ac_events :: "source_event list"
  ac_nextDisposition :: "next_disposition option"

definition replay :: "business_store \<Rightarrow> bound_scope \<Rightarrow> command_record \<Rightarrow> acceptance option result" where
  "replay s scope entry =
     (case getCommand s scope (cm_commandId entry) of
        None \<Rightarrow> Inr None
      | Some found \<Rightarrow>
          if \<not> same_command found entry then Inl ''COMMAND_ID_CONFLICT''
          else Inr (Some \<lparr>ac_claimed = False, ac_record = found, ac_events = [],
                          ac_nextDisposition = None\<rparr>))"

text \<open>The newest listed reference of an identifier, the first of equals.\<close>

definition latestEntryRef :: "object_ref list \<Rightarrow> string \<Rightarrow> object_ref option" where
  "latestEntryRef refs i =
     fold (\<lambda>r latest.
         if ref_id r = i \<and> (case latest of None \<Rightarrow> True | Some l \<Rightarrow> ref_revision r > ref_revision l)
         then Some r else latest)
       refs None"

definition assertScopeCommand :: "bound_scope \<Rightarrow> string \<Rightarrow> string \<Rightarrow> unit result" where
  "assertScopeCommand scope taskId executionId =
     throw_if (taskId \<noteq> bs_taskId scope \<or> executionId \<noteq> bs_executionId scope)
       ''BUSINESS_COMMAND_SCOPE_MISMATCH''"

definition parseTrustedResponder :: "json \<Rightarrow> trusted_responder result" where
  "parseTrustedResponder v =
     (case TrustedResponderSchema v of None \<Rightarrow> Inl ''RESPONDER_NOT_AUTHORIZED'' | Some r \<Rightarrow> Inr r)"

subsection \<open>Submissions\<close>

text \<open>The store at each await and the clock at each call.\<close>

record views =
  vw_replay :: business_store
  vw_context :: business_store
  vw_version :: business_store
  vw_claim :: business_store
  vw_raced :: business_store
  vw_record_time :: "int option"
  vw_assess_time :: "int option"
  vw_claim_time :: "int option"

text \<open>A submission returns the store after its claim, or none when it did not reach one.\<close>

type_synonym submission = "(business_store option \<times> acceptance) result"

text \<open>The \<open>catch\<close> of a submission: another caller may have claimed the same command.\<close>

definition or_raced :: "views \<Rightarrow> bound_scope \<Rightarrow> command_record \<Rightarrow> submission \<Rightarrow> submission" where
  "or_raced w scope entry attempt =
     (case attempt of
        Inr out \<Rightarrow> Inr out
      | Inl e \<Rightarrow>
          (case replay (vw_raced w) scope entry of
             Inl e' \<Rightarrow> Inl e' | Inr (Some a) \<Rightarrow> Inr (None, a) | Inr None \<Rightarrow> Inl e))"

definition claim_guard :: "business_guard \<Rightarrow> int option" where
  "claim_guard g = (case g of Legacy_strict n \<Rightarrow> Some n | Semantic _ \<Rightarrow> None)"

definition plan_guard :: "intervention_guard \<Rightarrow> int option" where
  "plan_guard g = (case g of Legacy_plan n \<Rightarrow> Some n | Semantic_plan _ _ \<Rightarrow> None)"

definition try_input ::
    "env \<Rightarrow> (int \<Rightarrow> string) \<Rightarrow> views \<Rightarrow> bound_scope \<Rightarrow> input_command \<Rightarrow> json \<Rightarrow> subject_binding
       \<Rightarrow> command_record \<Rightarrow> submission" where
  "try_input E event_id w scope command responder currentSubjectBinding entry =
     (case getContext (vw_context w) scope of
        None \<Rightarrow> Inl ''INPUT_NOT_AVAILABLE''
      | Some c \<Rightarrow>
          (case latestEntryRef (tc_requiredInputRefs c) (ic_requestId command) of
             None \<Rightarrow> Inl ''INPUT_NOT_AVAILABLE''
           | Some ref \<Rightarrow>
               bind_r (getObjectVersion (vw_version w) scope ref) (\<lambda>version.
               case version of
                 Some (Input_version r) \<Rightarrow>
                   bind_r (assessRequiredInputResponse (en_iso_datetime E) (en_ajv E) r command responder
                             (tc_contextRevision c) currentSubjectBinding (vw_assess_time w)) (\<lambda>assessment.
                   bind_r (assertBusinessCommandEntryCurrent (Some c) ref Input_response) (\<lambda>_.
                   bind_r (claimCommand E event_id (vw_claim w) scope
                             \<lparr>rq_command = entry, rq_expectedEntryRef = Some ref,
                              rq_now = vw_claim_time w,
                              rq_expectedContextRevision = claim_guard (ic_guard command),
                              rq_publishSubmission = False\<rparr>) (\<lambda>(s', claimed, found, events).
                     Inr (Some s', \<lparr>ac_claimed = claimed, ac_record = found, ac_events = events,
                       ac_nextDisposition = (if claimed then Some (snd assessment) else None)\<rparr>))))
               | _ \<Rightarrow> Inl ''INPUT_NOT_AVAILABLE'')))"

definition submitInputResponse ::
    "env \<Rightarrow> (int \<Rightarrow> string) \<Rightarrow> views \<Rightarrow> bound_scope \<Rightarrow> input_command \<Rightarrow> json \<Rightarrow> subject_binding
       \<Rightarrow> string \<Rightarrow> submission" where
  "submitInputResponse E event_id w scope command responder currentSubjectBinding runtimeCommandSequence =
     bind_r (zod (RequiredInputResponseCommandSchema command)) (\<lambda>_.
     bind_r (assertScopeCommand scope (ic_taskId command) (ic_executionId command)) (\<lambda>_.
     bind_r (parseTrustedResponder responder) (\<lambda>trusted.
     bind_r (input_record E scope command runtimeCommandSequence trusted (vw_record_time w)) (\<lambda>entry.
     bind_r (replay (vw_replay w) scope entry) (\<lambda>again.
     case again of
       Some a \<Rightarrow> Inr (None, a)
     | None \<Rightarrow>
         or_raced w scope entry
           (try_input E event_id w scope command responder currentSubjectBinding entry))))))"

definition try_intervention ::
    "env \<Rightarrow> (int \<Rightarrow> string) \<Rightarrow> views \<Rightarrow> bound_scope \<Rightarrow> intervention_command \<Rightarrow> command_record \<Rightarrow> submission"
where
  "try_intervention E event_id w scope command entry =
     (case getContext (vw_context w) scope of
        None \<Rightarrow> Inl ''INTERVENTION_NOT_AVAILABLE''
      | Some c \<Rightarrow>
          (case latestEntryRef (tc_interventionRefs c) (vc_interventionId command) of
             None \<Rightarrow> Inl ''INTERVENTION_NOT_AVAILABLE''
           | Some ref \<Rightarrow>
               bind_r (getObjectVersion (vw_version w) scope ref) (\<lambda>version.
               case version of
                 Some (Intervention_version v) \<Rightarrow>
                   bind_r (assertInterventionCommand (en_iso_datetime E) (en_ajv E) v command
                             (tc_contextRevision c) (tc_effectivePlanRevision c) (vw_assess_time w)) (\<lambda>_.
                   bind_r (assertBusinessCommandEntryCurrent (Some c) ref Intervention_submission) (\<lambda>_.
                   bind_r (claimCommand E event_id (vw_claim w) scope
                             \<lparr>rq_command = entry, rq_expectedEntryRef = Some ref,
                              rq_now = vw_claim_time w,
                              rq_expectedContextRevision = plan_guard (vc_guard command),
                              rq_publishSubmission = True\<rparr>) (\<lambda>(s', claimed, found, events).
                     Inr (Some s', \<lparr>ac_claimed = claimed, ac_record = found, ac_events = events,
                       ac_nextDisposition = None\<rparr>))))
               | _ \<Rightarrow> Inl ''INTERVENTION_NOT_AVAILABLE'')))"

definition submitIntervention ::
    "env \<Rightarrow> (int \<Rightarrow> string) \<Rightarrow> views \<Rightarrow> bound_scope \<Rightarrow> intervention_command \<Rightarrow> json \<Rightarrow> string \<Rightarrow> submission"
where
  "submitIntervention E event_id w scope command responder runtimeCommandSequence =
     bind_r (zod (RuntimeInterventionCommandSchema command)) (\<lambda>_.
     bind_r (assertScopeCommand scope (vc_taskId command) (vc_executionId command)) (\<lambda>_.
     bind_r (parseTrustedResponder responder) (\<lambda>trusted.
     bind_r (intervention_record E scope command runtimeCommandSequence trusted (vw_record_time w))
       (\<lambda>entry.
     bind_r (replay (vw_replay w) scope entry) (\<lambda>again.
     case again of
       Some a \<Rightarrow> Inr (None, a)
     | None \<Rightarrow>
         or_raced w scope entry (try_intervention E event_id w scope command entry))))))"

subsection \<open>Records stay\<close>

lemma same_command_refl [simp]: "same_command a a"
  by (simp add: same_command_def)

lemma same_command_trans: "same_command a b \<Longrightarrow> same_command b c \<Longrightarrow> same_command a c"
  by (simp add: same_command_def)

lemma same_command_sym: "same_command a b \<Longrightarrow> same_command b a"
  by (simp add: same_command_def)

lemma change_set_commands:
  assumes "stage_change_set E scope st ch drafts = Inr st'" "js_get (ss_commands st) i = Some a"
    and "\<And>j b. js_get (ss_commands st) j = Some b \<Longrightarrow> cm_commandId b = j"
  shows "\<exists>b. js_get (ss_commands st') i = Some b \<and> same_command a b"
proof -
  from assms(1) obtain staged pub contents settled where
    c: "fold_r (stage_object E scope) (st\<lparr>ss_context := Some (ch_context ch)\<rparr>, []) (ch_objects ch) =
         Inr (staged, pub)"
      "settle_command staged (ch_command ch) = Inr settled" "fold_r store_content settled contents = Inr st'"
    by (rule stage_change_set_Inr)
  have "ss_commands staged = ss_commands st" using staged_rest [OF c(1)] by simp
  with c(2) assms(2) have "\<exists>b. js_get (ss_commands settled) i = Some b \<and> same_command a b"
    by (cases "ch_command ch") (auto simp: settle_Inr same_claim_def)
  moreover from store_contents [OF c(3)] have "ss_commands st' = ss_commands settled" by auto
  ultimately show ?thesis by simp
qed

lemma scope_change_same_command:
  assumes "scope_change E scope st st'" "scope_ok E scope st" "js_get (ss_commands st) i = Some a"
  shows "\<exists>b. js_get (ss_commands st') i = Some b \<and> same_command a b"
  using assms
proof cases
  case (committed ch drafts)
  from change_set_commands [OF this assms(3)] assms(2) show ?thesis
    by (auto simp: scope_ok_def ledger_ok_def)
next
  case (claimed q staged drafts)
  then have "i \<noteq> cm_commandId (rq_command q)" using assms(3) by auto
  with publish_rest [OF claimed(5)] claimed(6) assms(3) show ?thesis by auto
qed

lemma command_stays:
  "store_ok E s \<Longrightarrow> getCommand s scope i = Some a \<Longrightarrow>
     \<exists>b. getCommand (after (store_step E event_id) s xs) scope i = Some b \<and> same_command a b"
proof (induction xs arbitrary: s a)
  case (Cons x xs)
  show ?case
  proof (cases "store_step E event_id s x")
    case (Inr p)
    then obtain s' b where p: "store_step E event_id s x = Inr (s', b)" by (cases p) simp
    have ok: "store_ok E s'" using business_step_ok [OF p Cons.prems(1)] by simp
    have "\<exists>b. getCommand s' scope i = Some b \<and> same_command a b"
    proof (cases "state_at s' (scope_key scope) = state_at s (scope_key scope)")
      case True
      then show ?thesis using Cons.prems(2) by (auto simp: getCommand_def state_at_scope)
    next
      case False
      then have c: "scope_change E (op_scope x) (state_of s scope) (state_of s' scope)"
          "scope_key scope = scope_key (op_scope x)"
        using store_step_at [OF p, of "scope_key scope"] store_step_change [OF p]
        by (auto simp: state_at_scope state_at_put split: if_splits)
      have "scope_ok E (op_scope x) (state_of s scope)"
        using Cons.prems(1) scope_ok_key [OF c(2), symmetric] by (simp add: store_ok_def)
      from scope_change_same_command [OF c(1) this] Cons.prems(2) show ?thesis
        by (simp add: getCommand_def)
    qed
    then obtain c where "getCommand s' scope i = Some c" "same_command a c" by blast
    with Cons.IH [OF ok] p same_command_trans show ?thesis by fastforce
  qed (use Cons in simp)
qed simp

subsection \<open>Admission\<close>

lemma input_record_Inr:
  "input_record E scope command n responder now = Inr entry \<longleftrightarrow>
     positiveSequence n \<and>
     (\<exists>timestamp requestHash responseHash. iso_now now = Inr timestamp \<and>
        input_request_hash E command = Inr requestHash \<and>
        taskBusinessInputResponseHash E (ic_result command) = Inr responseHash \<and>
        entry = \<lparr>cm_commandId = ic_commandId command, cm_commandType = Input_response,
               cm_entryKey = Some (''input:'' @ ic_requestKey command),
               cm_runtimeCommandSequence = Some n, cm_responder = Some responder,
               cm_identity = scopeBusinessIdentity scope, cm_requestHash = requestHash,
               cm_responseHash = Some responseHash, cm_inputResponse = Some (ic_result command),
               cm_interventionRequest = None, cm_state = Command_accepted, cm_resultCode = None,
               cm_resultRefs = None, cm_createdAt = timestamp, cm_updatedAt = timestamp\<rparr>)"
  by (auto simp: input_record_def bind_r_Inr)

text \<open>What a submission that reached its claim went through.\<close>

lemma or_raced_Inr: "or_raced w scope entry attempt = Inr (Some s', a) \<longleftrightarrow> attempt = Inr (Some s', a)"
  by (auto simp: or_raced_def split: sum.split option.split)

lemma submit_input_Inr:
  assumes "submitInputResponse E event_id w scope command responder binding n = Inr (Some s', a)"
  obtains trusted entry c ref r assessment where
    "RequiredInputResponseCommandSchema command"
    "assertScopeCommand scope (ic_taskId command) (ic_executionId command) = Inr ()"
    "parseTrustedResponder responder = Inr trusted"
    "input_record E scope command n trusted (vw_record_time w) = Inr entry"
    "replay (vw_replay w) scope entry = Inr None"
    "getContext (vw_context w) scope = Some c"
    "latestEntryRef (tc_requiredInputRefs c) (ic_requestId command) = Some ref"
    "version_at (state_of (vw_version w) scope) ref = Some (Input_version r)"
    "assessRequiredInputResponse (en_iso_datetime E) (en_ajv E) r command responder (tc_contextRevision c)
       binding (vw_assess_time w) = Inr assessment"
    "claimCommand E event_id (vw_claim w) scope
       \<lparr>rq_command = entry, rq_expectedEntryRef = Some ref, rq_now = vw_claim_time w,
        rq_expectedContextRevision = claim_guard (ic_guard command), rq_publishSubmission = False\<rparr>
       = Inr (s', ac_claimed a, ac_record a, ac_events a)"
    "ac_nextDisposition a = (if ac_claimed a then Some (snd assessment) else None)"
proof -
  from assms obtain trusted entry where
    h: "RequiredInputResponseCommandSchema command"
      "assertScopeCommand scope (ic_taskId command) (ic_executionId command) = Inr ()"
      "parseTrustedResponder responder = Inr trusted"
    and e: "input_record E scope command n trusted (vw_record_time w) = Inr entry"
      "replay (vw_replay w) scope entry = Inr None"
      "try_input E event_id w scope command responder binding entry = Inr (Some s', a)"
    by (auto simp: submitInputResponse_def or_raced_Inr bind_r_Inr split: option.split_asm)
  from e(3) obtain c ref where
    c: "getContext (vw_context w) scope = Some c"
      "latestEntryRef (tc_requiredInputRefs c) (ic_requestId command) = Some ref"
    by (auto simp: try_input_def split: option.split_asm)
  with e(3) obtain r where r: "version_at (state_of (vw_version w) scope) ref = Some (Input_version r)"
    by (auto simp: try_input_def bind_r_Inr getObjectVersion_def
        split: option.split_asm object_version.split_asm)
  show ?thesis
    using e(3) c r by (auto simp: try_input_def bind_r_Inr getObjectVersion_def intro: that [OF h e(1,2)])
qed

lemma submit_intervention_Inr:
  assumes "submitIntervention E event_id w scope command responder n = Inr (Some s', a)"
  obtains trusted entry c ref v where
    "RuntimeInterventionCommandSchema command"
    "assertScopeCommand scope (vc_taskId command) (vc_executionId command) = Inr ()"
    "parseTrustedResponder responder = Inr trusted"
    "intervention_record E scope command n trusted (vw_record_time w) = Inr entry"
    "replay (vw_replay w) scope entry = Inr None"
    "getContext (vw_context w) scope = Some c"
    "latestEntryRef (tc_interventionRefs c) (vc_interventionId command) = Some ref"
    "version_at (state_of (vw_version w) scope) ref = Some (Intervention_version v)"
    "assertInterventionCommand (en_iso_datetime E) (en_ajv E) v command (tc_contextRevision c)
       (tc_effectivePlanRevision c) (vw_assess_time w) = Inr ()"
    "claimCommand E event_id (vw_claim w) scope
       \<lparr>rq_command = entry, rq_expectedEntryRef = Some ref, rq_now = vw_claim_time w,
        rq_expectedContextRevision = plan_guard (vc_guard command), rq_publishSubmission = True\<rparr>
       = Inr (s', ac_claimed a, ac_record a, ac_events a)"
proof -
  from assms obtain trusted entry where
    h: "RuntimeInterventionCommandSchema command"
      "assertScopeCommand scope (vc_taskId command) (vc_executionId command) = Inr ()"
      "parseTrustedResponder responder = Inr trusted"
    and e: "intervention_record E scope command n trusted (vw_record_time w) = Inr entry"
      "replay (vw_replay w) scope entry = Inr None"
      "try_intervention E event_id w scope command entry = Inr (Some s', a)"
    by (auto simp: submitIntervention_def or_raced_Inr bind_r_Inr split: option.split_asm)
  from e(3) obtain c ref where
    c: "getContext (vw_context w) scope = Some c"
      "latestEntryRef (tc_interventionRefs c) (vc_interventionId command) = Some ref"
    by (auto simp: try_intervention_def split: option.split_asm)
  with e(3) obtain v where v: "version_at (state_of (vw_version w) scope) ref = Some (Intervention_version v)"
    by (auto simp: try_intervention_def bind_r_Inr getObjectVersion_def
        split: option.split_asm object_version.split_asm)
  show ?thesis
    using e(3) c v by (auto simp: try_intervention_def bind_r_Inr getObjectVersion_def intro: that [OF h e(1,2)])
qed

text \<open>A claim of the service as a step of the store: afterwards the command is in the ledger.\<close>

lemma claim_recorded:
  assumes "claimCommand E event_id s scope q = Inr (s', claimed, found, events)" "store_ok E s"
  shows "store_ok E s' \<and> getCommand s' scope (cm_commandId (rq_command q)) = Some found \<and>
    same_command found (rq_command q)"
proof -
  have "store_step E event_id s (Claim_command scope q) = Inr (s', claimed)"
    using assms(1) by simp
  then have "store_ok E s'" using business_step_ok assms(2) by blast
  moreover have "getCommand s' scope (cm_commandId (rq_command q)) = Some found \<and>
      same_command found (rq_command q)"
    using claim_Inr [OF assms(1)] by (cases claimed) (auto simp: getCommand_def)
  ultimately show ?thesis by blast
qed

text \<open>A command in the ledger is answered from it, whatever happened since it was recorded.\<close>

lemma replay_recorded:
  assumes "store_ok E s" "getCommand s scope (cm_commandId entry) = Some found" "same_command found entry"
    and "same_command entry entry'" "cm_commandId entry' = cm_commandId entry"
  shows "\<exists>b. replay (after (store_step E event_id) s ys) scope entry' =
      Inr (Some \<lparr>ac_claimed = False, ac_record = b, ac_events = [], ac_nextDisposition = None\<rparr>) \<and>
    same_command b found"
proof -
  from command_stays [OF assms(1,2)] obtain b where
    b: "getCommand (after (store_step E event_id) s ys) scope (cm_commandId entry) = Some b"
      "same_command found b"
    by blast
  have "same_command b entry'"
    using b(2) assms(3,4) same_command_sym same_command_trans by blast
  with b assms(5) same_command_sym show ?thesis by (auto simp: replay_def)
qed

lemma intervention_record_Inr:
  "intervention_record E scope command n responder now = Inr entry \<longleftrightarrow>
     positiveSequence n \<and>
     (\<exists>timestamp requestHash. iso_now now = Inr timestamp \<and>
        intervention_request_hash E command = Inr requestHash \<and>
        entry = \<lparr>cm_commandId = vc_commandId command, cm_commandType = Intervention_submission,
               cm_entryKey = Some (''intervention:'' @ vc_interventionId command),
               cm_runtimeCommandSequence = Some n, cm_responder = Some responder,
               cm_identity = scopeBusinessIdentity scope, cm_requestHash = requestHash,
               cm_responseHash = None, cm_inputResponse = None,
               cm_interventionRequest = Some command, cm_state = Command_accepted, cm_resultCode = None,
               cm_resultRefs = None, cm_createdAt = timestamp, cm_updatedAt = timestamp\<rparr>)"
  by (auto simp: intervention_record_def bind_r_Inr)

text \<open>
  C15. A submission takes effect once: after a response to a Required Input has reached its claim, the
  same submission is answered with the recorded command and changes nothing, at any later time,
  whatever claims and change sets came in between, with whatever clock and subject, and whichever stores
  the later awaits meet.
\<close>

theorem retried_response_replays:
  assumes "vw_claim w = after (store_step E event_id) emptyStore xs"
    and "submitInputResponse E event_id w scope command responder binding n = Inr (Some s', a)"
    and "vw_replay w' = after (store_step E event_id) s' ys" and "vw_record_time w' = Some t"
  shows "\<exists>b. submitInputResponse E event_id w' scope command responder binding' n =
      Inr (None, \<lparr>ac_claimed = False, ac_record = b, ac_events = [], ac_nextDisposition = None\<rparr>) \<and>
    same_command b (ac_record a)"
proof -
  from assms(2) obtain trusted entry ref where
    first: "RequiredInputResponseCommandSchema command"
      "assertScopeCommand scope (ic_taskId command) (ic_executionId command) = Inr ()"
      "parseTrustedResponder responder = Inr trusted"
    and entry: "input_record E scope command n trusted (vw_record_time w) = Inr entry"
    and claim: "claimCommand E event_id (vw_claim w) scope
       \<lparr>rq_command = entry, rq_expectedEntryRef = Some ref, rq_now = vw_claim_time w,
        rq_expectedContextRevision = claim_guard (ic_guard command), rq_publishSubmission = False\<rparr>
       = Inr (s', ac_claimed a, ac_record a, ac_events a)"
    by (rule submit_input_Inr)
  note rec = claim_recorded [OF claim, simplified, OF reachable_ok [of E event_id xs, folded assms(1)]]
  define entry' where "entry' = entry\<lparr>cm_createdAt := toISOString t, cm_updatedAt := toISOString t\<rparr>"
  have entry'': "input_record E scope command n trusted (vw_record_time w') = Inr entry'"
    using assms(4) entry by (auto simp: input_record_Inr entry'_def iso_now_def)
  have "same_command entry entry'" "cm_commandId entry' = cm_commandId entry"
    by (simp_all add: entry'_def same_command_def)
  from replay_recorded [OF _ _ _ this, of E s' scope "ac_record a" event_id ys] rec obtain b where
    "replay (vw_replay w') scope entry' =
       Inr (Some \<lparr>ac_claimed = False, ac_record = b, ac_events = [], ac_nextDisposition = None\<rparr>)"
    "same_command b (ac_record a)"
    using assms(3) by auto
  then show ?thesis using first entry'' by (simp add: submitInputResponse_def zod_def throw_if_def)
qed

subsection \<open>Races\<close>

lemma entry_current_Inr:
  "assertBusinessCommandEntryCurrent ctx ref t = Inr () \<longleftrightarrow>
     BusinessObjectRefSchema ref \<and>
     (case ctx of
        None \<Rightarrow> False
      | Some c \<Rightarrow>
          su_status (tc_summary c) = InProgress \<and> ref_kind ref = entry_kind t \<and>
          ref_revision ref = latest_revision
            (if ref_kind ref = InputRequest then tc_requiredInputRefs c else tc_interventionRefs c)
            (ref_id ref) \<and>
          ref \<in> set (js_values (tc_activeRefs c)))"
  by (auto simp: assertBusinessCommandEntryCurrent_def bind_r_Inr split: option.split)

lemma stored_version_kept:
  assumes "version_at (state_of (after (store_step E event_id) emptyStore xs) scope) ref = Some v"
  shows "version_at (state_of (after (store_step E event_id) (after (store_step E event_id) emptyStore xs) ys)
    scope) ref = Some v"
  using after_ok [OF reachable_ok [of E event_id xs], of event_id ys scope] assms
  by (simp add: keeps_versions_def)

lemma claim_expected:
  assumes "claimCommand E event_id s scope q = Inr (s', True, found, events)"
    "rq_expectedContextRevision q = Some k" "getContext s scope = Some c"
  shows "k = tc_contextRevision c"
  using assms
  by (auto simp: claimCommand_def bind_r_Inr Let_def getContext_def split: if_splits option.splits)

text \<open>
  C16. An admission is never stale: when a response to a Required Input is claimed, then in the very
  store that the claim met, whatever ran since the request was read, the Context is in progress and the
  request is active, its newest listed version is the one that was assessed, it is pending and before
  its deadline, the responder and the subject are the ones it asks for, and the revision guard of the
  command still holds.
\<close>

theorem claimed_response_current:
  assumes "vw_version w = after (store_step E event_id) emptyStore xs"
    and "vw_claim w = after (store_step E event_id) (vw_version w) ys"
    and "submitInputResponse E event_id w scope command responder subject n = Inr (Some s', a)"
    and "ac_claimed a"
  shows "\<exists>c ref r t. getContext (vw_claim w) scope = Some c \<and>
    version_at (state_of (vw_claim w) scope) ref = Some (Input_version r) \<and>
    su_status (tc_summary c) = InProgress \<and> ref \<in> set (js_values (tc_activeRefs c)) \<and>
    ri_revision r = latest_revision (tc_requiredInputRefs c) (ic_requestId command) \<and>
    ri_requestId r = ic_requestId command \<and> ri_requestKey r = ic_requestKey command \<and>
    vw_claim_time w = Some t \<and> ri_state r = Pending \<and> \<not> past t (ri_deadlineAt r) \<and>
    responder_authorized (TrustedResponderSchema responder) (ri_requiredResponder r) \<and>
    subject = ri_subjectBinding r \<and>
    (case ic_guard command of
       Semantic k \<Rightarrow> k = ri_revision r | Legacy_strict k \<Rightarrow> k = tc_contextRevision c)"
proof -
  from assms(3) obtain trusted entry c0 ref r assessment where
    v: "version_at (state_of (vw_version w) scope) ref = Some (Input_version r)"
      "getContext (vw_context w) scope = Some c0"
    and assessed: "assessRequiredInputResponse (en_iso_datetime E) (en_ajv E) r command responder
      (tc_contextRevision c0) subject (vw_assess_time w) = Inr assessment"
    and claim: "claimCommand E event_id (vw_claim w) scope
       \<lparr>rq_command = entry, rq_expectedEntryRef = Some ref, rq_now = vw_claim_time w,
        rq_expectedContextRevision = claim_guard (ic_guard command), rq_publishSubmission = False\<rparr>
       = Inr (s', ac_claimed a, ac_record a, ac_events a)"
    and entry: "input_record E scope command n trusted (vw_record_time w) = Inr entry"
    by (rule submit_input_Inr) blast
  have v': "version_at (state_of (vw_claim w) scope) ref = Some (Input_version r)"
    using stored_version_kept v(1) assms(1,2) by simp
  have ref: "businessObjectRef (Input_version r) = ref"
    using version_at_ref [OF _ v(1)] reachable_scope_ok [of E scope event_id xs] assms(1)
    by (auto simp: scope_ok_def)
  have type: "cm_commandType entry = Input_response" using entry by (auto simp: input_record_Inr)
  have "check_entry E (state_of (vw_claim w) scope)
       \<lparr>rq_command = entry, rq_expectedEntryRef = Some ref, rq_now = vw_claim_time w,
        rq_expectedContextRevision = claim_guard (ic_guard command), rq_publishSubmission = False\<rparr> = Inr ()"
    using claim_Inr [OF claim] assms(4) by simp
  then obtain c t where now: "getContext (vw_claim w) scope = Some c"
      "su_status (tc_summary c) = InProgress" "ref \<in> set (js_values (tc_activeRefs c))"
      "ref_revision ref = latest_revision (tc_requiredInputRefs c) (ref_id ref)"
      "vw_claim_time w = Some t" "ri_state r = Pending" "\<not> past t (ri_deadlineAt r)"
    using v' type by (auto simp: check_entry_def bind_r_Inr entry_current_Inr getContext_def
        assertBusinessCommandEntryOpenAt_def input_open_Inr split: option.splits)
  have guard: "case ic_guard command of
      Semantic k \<Rightarrow> k = ri_revision r | Legacy_strict k \<Rightarrow> k = tc_contextRevision c"
    using assessed claim_expected [OF claim [simplified assms(4)] _ now(1)] assms(4)
    by (auto simp: assessRequiredInputResponse_def bind_r_Inr claim_guard_def
        split: business_guard.splits if_splits)
  have "ri_requestId r = ic_requestId command" "ri_requestKey r = ic_requestKey command"
    "responder_authorized (TrustedResponderSchema responder) (ri_requiredResponder r)"
    "subject = ri_subjectBinding r"
    using assessed by (auto simp: assessRequiredInputResponse_def bind_r_Inr split: if_splits)
  moreover from this ref have "ref_id ref = ic_requestId command" "ref_revision ref = ri_revision r"
    by auto
  ultimately show ?thesis using now v' guard by metis
qed

text \<open>
  C20. A request whose key is longer than 250 characters can be asked and its answer passes the
  preflight, but no response to it is ever claimed: the entry key \<open>input:\<close> with the request key is
  longer than the 256 characters that a command record admits.
\<close>

theorem long_key_unanswerable:
  assumes "250 < length (ic_requestKey command)"
  shows "submitInputResponse E event_id w scope command responder subject n \<noteq> Inr (Some s', a)"
proof
  assume "submitInputResponse E event_id w scope command responder subject n = Inr (Some s', a)"
  then obtain trusted entry ref where
    entry: "input_record E scope command n trusted (vw_record_time w) = Inr entry"
    and claim: "claimCommand E event_id (vw_claim w) scope
       \<lparr>rq_command = entry, rq_expectedEntryRef = Some ref, rq_now = vw_claim_time w,
        rq_expectedContextRevision = claim_guard (ic_guard command), rq_publishSubmission = False\<rparr>
       = Inr (s', ac_claimed a, ac_record a, ac_events a)"
    by (rule submit_input_Inr) blast
  from claim_Inr [OF claim] have "command_members E entry"
    by (auto simp: BusinessCommandRecordSchema_def bind_r_Inr)
  then show False
    using entry assms by (auto simp: input_record_Inr command_members_def identifier_ok_def bounded_def)
qed

subsection \<open>A concrete submission\<close>

definition example_question_ref :: object_ref where
  "example_question_ref = \<lparr>ref_kind = InputRequest, ref_id = ''q'', ref_revision = 1\<rparr>"

definition example_ask :: store_op where
  "example_ask =
     Commit_change_set example_scope
       \<lparr>ch_expectedContextRevision = None,
        ch_context = (example_context 1)\<lparr>tc_activeRefs := [(''question'', example_question_ref)],
          tc_artifactRefs := [], tc_requiredInputRefs := [example_question_ref]\<rparr>,
        ch_objects = [Input_version example_input], ch_contents = [], ch_command = None\<rparr>"

definition example_asked :: business_store where
  "example_asked = after example_step emptyStore [example_ask]"

definition example_views :: "business_store \<Rightarrow> views" where
  "example_views s =
     \<lparr>vw_replay = s, vw_context = s, vw_version = s, vw_claim = s, vw_raced = s, vw_record_time = Some 0,
      vw_assess_time = Some 0, vw_claim_time = Some 0\<rparr>"

definition example_submit :: "business_store \<Rightarrow> submission" where
  "example_submit s = submitInputResponse example_env (\<lambda>n. ''event'') (example_views s) example_scope
     example_answer example_operator (ri_subjectBinding example_input) ''1''"

lemma example_evaluated:
  "(case example_submit example_asked of Inr (Some s', a) \<Rightarrow> ac_claimed a | _ \<Rightarrow> False) \<and>
   map_option businessObjectRef (version_at (state_of example_asked example_scope)
      example_question_ref) = Some example_question_ref \<and>
   map_option (\<lambda>c. js_values (tc_activeRefs c)) (getContext example_asked example_scope)
      = Some [example_question_ref] \<and>
   assessRequiredInputResponse example_dates example_ajv (example_input\<lparr>ri_requestKey := replicate 251 (CHR ''k'')\<rparr>)
     (example_answer\<lparr>ic_requestKey := replicate 251 (CHR ''k'')\<rparr>) example_operator 1
     (ri_subjectBinding example_input) (Some 0) = Inr (Accept, Await_result)"
  by code_simp

lemma example_submitted: "\<exists>s' a. example_submit example_asked = Inr (Some s', a) \<and> ac_claimed a"
proof -
  have "case example_submit example_asked of Inr (Some s', a) \<Rightarrow> ac_claimed a | _ \<Rightarrow> False"
    using example_evaluated by blast
  then show ?thesis by (auto split: sum.splits option.splits)
qed

theorem retried_response_replays_witness:
  "\<exists>s' a b. example_submit example_asked = Inr (Some s', a) \<and> ac_claimed a \<and>
     example_submit s' = Inr (None, b) \<and> \<not> ac_claimed b \<and> same_command (ac_record b) (ac_record a)"
proof -
  from example_submitted obtain s' a where
    a: "example_submit example_asked = Inr (Some s', a)" "ac_claimed a"
    by blast
  have v: "vw_claim (example_views example_asked) = after example_step emptyStore [example_ask]"
    "vw_replay (example_views s') = after example_step s' []" "vw_record_time (example_views s') = Some 0"
    by (simp_all only: example_views_def example_asked_def views.select_convs after.simps)
  from retried_response_replays [OF v(1) a(1) [unfolded example_submit_def] v(2,3)] a show ?thesis
    unfolding example_submit_def by fastforce
qed

theorem claimed_response_current_witness:
  "\<exists>c r. getContext example_asked example_scope = Some c \<and>
     version_at (state_of example_asked example_scope) example_question_ref = Some (Input_version r) \<and>
     ri_state r = Pending \<and> su_status (tc_summary c) = InProgress"
proof -
  from example_submitted obtain s' a where
    a: "example_submit example_asked = Inr (Some s', a)" "ac_claimed a"
    by blast
  have v: "vw_version (example_views example_asked) = after example_step emptyStore [example_ask]"
    "vw_claim (example_views example_asked) =
       after example_step (vw_version (example_views example_asked)) []"
    by (simp_all only: example_views_def example_asked_def views.select_convs after.simps)
  have r: "map_option businessObjectRef (version_at (state_of example_asked example_scope)
      example_question_ref) = Some example_question_ref"
    using example_evaluated by blast
  from claimed_response_current [OF v a(1) [unfolded example_submit_def] a(2)]
  obtain c ref w where c: "getContext example_asked example_scope = Some c"
    "version_at (state_of example_asked example_scope) ref = Some (Input_version w)"
    "su_status (tc_summary c) = InProgress" "ri_state w = Pending" "ri_requestId w = ''q''"
    "ref \<in> set (js_values (tc_activeRefs c))"
    by (auto simp: example_views_def example_answer_def simp del: set_map)
  have "map_option (\<lambda>c. js_values (tc_activeRefs c)) (getContext example_asked example_scope)
      = Some [example_question_ref]"
    using example_evaluated by blast
  with c have "ref = example_question_ref" by (simp del: set_map)
  with c show ?thesis by blast
qed

theorem long_key_unanswerable_witness:
  "assessRequiredInputResponse example_dates example_ajv (example_input\<lparr>ri_requestKey := replicate 251 (CHR ''k'')\<rparr>)
     (example_answer\<lparr>ic_requestKey := replicate 251 (CHR ''k'')\<rparr>) example_operator 1
     (ri_subjectBinding example_input) (Some 0) = Inr (Accept, Await_result) \<and>
   (\<nexists>s' a. submitInputResponse example_env (\<lambda>n. ''event'') (example_views example_asked) example_scope
     (example_answer\<lparr>ic_requestKey := replicate 251 (CHR ''k'')\<rparr>) example_operator
     (ri_subjectBinding example_input) ''1'' = Inr (Some s', a))"
proof -
  have "assessRequiredInputResponse example_dates example_ajv (example_input\<lparr>ri_requestKey := replicate 251 (CHR ''k'')\<rparr>)
     (example_answer\<lparr>ic_requestKey := replicate 251 (CHR ''k'')\<rparr>) example_operator 1
     (ri_subjectBinding example_input) (Some 0) = Inr (Accept, Await_result)"
    using example_evaluated by blast
  moreover have "250 < length (ic_requestKey (example_answer\<lparr>ic_requestKey := replicate 251 (CHR ''k'')\<rparr>))"
    by simp
  ultimately show ?thesis using long_key_unanswerable by blast
qed

end
