(* ===== verification/Reducer.thy ===== *)
theory Reducer
  imports StorePromises Protocol
begin

text \<open>
  packages/mcp-protocol/src: task-business-feedback.ts (the public form of a task-business event) and
  task-business-reducer.ts (the read model that a client builds from a snapshot and the events after
  it). A \<open>Set\<close> is a list in insertion order; the keys \<open>refKey\<close> and \<open>versionKey\<close>, whose parts are
  separated by NUL before a number or after a fixed word, are the pair and the reference they are built
  from. \<open>rawPayload\<close> is either a value of the shape of a feedback body or not, and then only its
  version member matters.
\<close>

subsection \<open>task-business-feedback.ts\<close>

definition TASK_BUSINESS_SOURCE_ID :: string where
  "TASK_BUSINESS_SOURCE_ID = ''vehicle.business''"

definition TASK_BUSINESS_EVENT_TYPE :: string where
  "TASK_BUSINESS_EVENT_TYPE = ''vehicle.business.changed''"

datatype raw_payload = Body feedback_body | Misshaped "string option"

definition parse_raw :: "(string \<Rightarrow> bool) \<Rightarrow> raw_payload \<Rightarrow> feedback_body result" where
  "parse_raw iso_datetime p =
     (case p of
        Body b \<Rightarrow> parseTaskBusinessFeedbackBody iso_datetime b
      | Misshaped v \<Rightarrow>
          if v \<noteq> None \<and> v \<noteq> Some TASK_BUSINESS_FEEDBACK_SCHEMA_VERSION
          then Inl ''UNSUPPORTED_BUSINESS_SCHEMA_VERSION'' else Inl ''BUSINESS_PAYLOAD_INVALID'')"

record finalized_event =
  fz_sourceId :: string
  fz_eventType :: string
  fz_scope :: string
  fz_taskId :: "string option"
  fz_providerId :: string
  fz_eventId :: string
  fz_streamId :: string
  fz_sequence :: string
  fz_sourceStreamId :: string
  fz_sourceSequence :: string
  fz_sourceEventId :: string
  fz_occurredAt :: "int option"
  fz_rawPayload :: raw_payload

record public_feedback =
  pf_body :: feedback_body
  pf_messageId :: string
  pf_identity :: business_identity
  pf_resumeFrom :: runtime_cursor
  pf_sourceCursor :: source_cursor
  pf_sourceEventId :: string
  pf_occurredAt :: string

definition projectTaskBusinessFeedback ::
    "(string \<Rightarrow> bool) \<Rightarrow> finalized_event \<Rightarrow> business_identity \<Rightarrow> public_feedback result" where
  "projectTaskBusinessFeedback iso_datetime e i =
     (if fz_sourceId e \<noteq> TASK_BUSINESS_SOURCE_ID \<or> fz_eventType e \<noteq> TASK_BUSINESS_EVENT_TYPE
      then Inl ''BUSINESS_EVENT_NOT_TASK_BUSINESS''
      else if fz_scope e \<noteq> ''task'' \<or> fz_taskId e \<noteq> Some (bi_taskId i) \<or> fz_providerId e \<noteq> bi_providerId i
      then Inl ''BUSINESS_EVENT_TASK_BINDING_INVALID''
      else
        bind_r (parseBusinessEventSequence (fz_sequence e) False) (\<lambda>_.
        bind_r (parseBusinessEventSequence (fz_sourceSequence e) False) (\<lambda>_.
        bind_r (parse_raw iso_datetime (fz_rawPayload e)) (\<lambda>body.
          (let resumeFrom = \<lparr>rc_streamId = fz_streamId e, rc_afterSequence = fz_sequence e\<rparr>;
               sourceCursor = \<lparr>sc_sourceId = fz_sourceId e, sc_sourceStreamId = fz_sourceStreamId e,
                               sc_sourceSequence = fz_sourceSequence e\<rparr>
           in bind_r (zod (RuntimeBusinessCursorSchema resumeFrom)) (\<lambda>_.
              bind_r (zod (SourceBusinessCursorSchema sourceCursor)) (\<lambda>_.
                case fz_occurredAt e of
                  None \<Rightarrow> Inl ''RangeError''
                | Some t \<Rightarrow>
                    Inr \<lparr>pf_body = body, pf_messageId = fz_eventId e, pf_identity = i,
                         pf_resumeFrom = resumeFrom, pf_sourceCursor = sourceCursor,
                         pf_sourceEventId = fz_sourceEventId e,
                         pf_occurredAt = toISOString t\<rparr>)))))))"

subsection \<open>The read model\<close>

type_synonym object_key = "object_kind \<times> string"

record reducer_state =
  rd_context :: task_context
  rd_bootstrapSnapshotRevision :: int
  rd_metadataRevision :: int
  rd_terminalMetadataRevision :: "int option"
  rd_objects :: "(object_key, object_version) jsmap"
  rd_objectVersions :: "(object_ref, object_version) jsmap"
  rd_objectRevisions :: "(object_key, int) jsmap"
  rd_seenMessageIds :: "string list"
  rd_opaqueDiagnostics :: "(string \<times> string \<times> json) list"
  rd_resumeFrom :: runtime_cursor

definition refKey :: "object_ref \<Rightarrow> object_key" where
  "refKey r = (ref_kind r, ref_id r)"

definition all_refs :: "task_context \<Rightarrow> object_ref list" where
  "all_refs c = listed_refs c @ js_values (tc_activeRefs c)"

definition unresolvedTaskBusinessRefs :: "reducer_state \<Rightarrow> object_ref list" where
  "unresolvedTaskBusinessRefs st =
     filter (\<lambda>r. \<not> js_has (rd_objectVersions st) r)
       (js_values (fold (\<lambda>r. js_set r r) (all_refs (rd_context st)) []))"

subsection \<open>Bootstrap\<close>

datatype page_object = Page_object object_version | Malformed_object

record snapshot_page =
  pg_contextRevision :: int
  pg_context :: task_context
  pg_objects :: "page_object list"
  pg_objectDescriptors :: "json list"
  pg_nextCursor :: "string option"

text \<open>\<open>isDeepStrictEqual\<close> on Contexts.\<close>

definition context_equal :: "task_context \<Rightarrow> task_context \<Rightarrow> bool" where
  "context_equal a b \<longleftrightarrow>
     a\<lparr>tc_activeRefs := [], tc_summary := tc_summary b\<rparr> = b\<lparr>tc_activeRefs := []\<rparr> \<and>
     active_equal (tc_activeRefs a) (tc_activeRefs b) \<and> summary_equal (tc_summary a) (tc_summary b)"

fun schema_of :: "(string \<Rightarrow> bool) \<Rightarrow> object_version \<Rightarrow> bool" where
  "schema_of iso_datetime (Artifact_version a) = TaskArtifactSchema iso_datetime a"
| "schema_of iso_datetime (Action_version a) = BusinessActionSchema iso_datetime a"
| "schema_of iso_datetime (Input_version r) = RequiredInputSchema iso_datetime r"
| "schema_of iso_datetime (Intervention_version v) = RuntimeInterventionSchema iso_datetime v"

definition same_binding :: "business_identity \<Rightarrow> business_identity \<Rightarrow> bool" where
  "same_binding bound i \<longleftrightarrow>
     bi_taskId bound = bi_taskId i \<and> bi_executionId bound = bi_executionId i \<and>
     bi_providerId bound = bi_providerId i \<and> bi_resourceId bound = bi_resourceId i \<and>
     bi_operationName bound = bi_operationName i \<and> bi_simulationId bound = bi_simulationId i"

definition validateSnapshotObject ::
    "(string \<Rightarrow> bool) \<Rightarrow> page_object \<Rightarrow> business_identity \<Rightarrow> object_version result" where
  "validateSnapshotObject iso_datetime x i =
     (case x of
        Malformed_object \<Rightarrow> Inl ''BUSINESS_SNAPSHOT_OBJECT_INVALID''
      | Page_object v \<Rightarrow>
          if \<not> schema_of iso_datetime v then Inl ''BUSINESS_SNAPSHOT_OBJECT_INVALID''
          else if \<not> same_binding (version_identity v) i then Inl ''BUSINESS_SNAPSHOT_OBJECT_INVALID''
          else Inr v)"

definition objectRef :: "object_version \<Rightarrow> object_ref result" where
  "objectRef v =
     (let r = businessObjectRef v
      in if \<not> is_safe_integer (ref_revision r) \<or> ref_revision r < 1
         then Inl ''BUSINESS_SNAPSHOT_OBJECT_INVALID'' else Inr r)"

text \<open>What the loop over the pages builds: objects, exact versions, newest revisions.\<close>

record page_maps =
  pm_objects :: "(object_key, object_version) jsmap"
  pm_versions :: "(object_ref, object_version) jsmap"
  pm_revisions :: "(object_key, int) jsmap"

definition known_revision :: "(object_key, int) jsmap \<Rightarrow> object_key \<Rightarrow> int" where
  "known_revision m k = (case js_get m k of None \<Rightarrow> 0 | Some n \<Rightarrow> n)"

definition expect_ref :: "object_ref \<Rightarrow> (object_key, int) jsmap \<Rightarrow> (object_key, int) jsmap" where
  "expect_ref r m = js_set (refKey r) (max (known_revision m (refKey r)) (ref_revision r)) m"

definition add_object ::
    "(string \<Rightarrow> bool) \<Rightarrow> task_context \<Rightarrow> page_maps \<Rightarrow> page_object \<Rightarrow> page_maps result" where
  "add_object iso_datetime c m x =
     bind_r (validateSnapshotObject iso_datetime x (tc_identity c)) (\<lambda>v.
     bind_r (objectRef v) (\<lambda>r.
     if r \<notin> set (all_refs c) \<or> js_has (pm_versions m) r then Inl ''BUSINESS_SNAPSHOT_OBJECT_INVALID''
     else
       (let m' = m\<lparr>pm_versions := js_set r v (pm_versions m)\<rparr>
        in if known_revision (pm_revisions m) (refKey r) \<le> ref_revision r
           then Inr (m'\<lparr>pm_revisions := js_set (refKey r) (ref_revision r) (pm_revisions m),
                        pm_objects := js_set (refKey r) v (pm_objects m)\<rparr>)
           else Inr m')))"

text \<open>One page; \<open>is_last\<close> tells the page at the end of the list.\<close>

definition add_page ::
    "(string \<Rightarrow> bool) \<Rightarrow> task_context \<Rightarrow> page_maps \<Rightarrow> snapshot_page \<times> bool \<Rightarrow> page_maps result" where
  "add_page iso_datetime c m p =
     (let page = fst p
      in if \<not> snd p \<and> \<not> truthy (pg_nextCursor page) then Inl ''BUSINESS_SNAPSHOT_INCOMPLETE''
         else if pg_contextRevision page \<noteq> tc_contextRevision c \<or> pg_objectDescriptors page \<noteq> []
         then Inl ''BUSINESS_SNAPSHOT_REVISION_CHANGED''
         else
           bind_r (zod (TaskBusinessContextSchema iso_datetime (pg_context page))) (\<lambda>_.
           if \<not> context_equal (pg_context page) c then Inl ''BUSINESS_SNAPSHOT_REVISION_CHANGED''
           else fold_r (add_object iso_datetime c) m (pg_objects page)))"

fun mark_last :: "'a list \<Rightarrow> ('a \<times> bool) list" where
  "mark_last [] = []"
| "mark_last [x] = [(x, True)]"
| "mark_last (x # y # ys) = (x, False) # mark_last (y # ys)"

definition bootstrapTaskBusinessReducer ::
    "(string \<Rightarrow> bool) \<Rightarrow> snapshot_page list \<Rightarrow> runtime_cursor \<Rightarrow> reducer_state result" where
  "bootstrapTaskBusinessReducer iso_datetime pages resumeFrom =
     (case pages of
        [] \<Rightarrow> Inl ''BUSINESS_SNAPSHOT_INCOMPLETE''
      | p # _ \<Rightarrow>
          if pg_nextCursor (List.last pages) \<noteq> None then Inl ''BUSINESS_SNAPSHOT_INCOMPLETE''
          else
            bind_r (zod (RuntimeBusinessCursorSchema resumeFrom)) (\<lambda>_.
            bind_r (zod (TaskBusinessContextSchema iso_datetime (pg_context p))) (\<lambda>_.
              (let c = pg_context p;
                   m0 = \<lparr>pm_objects = [], pm_versions = [], pm_revisions = fold expect_ref (all_refs c) []\<rparr>
               in bind_r (fold_r (add_page iso_datetime c) m0 (mark_last pages)) (\<lambda>m.
                  if length (pm_versions m) \<noteq> length (remdups (all_refs c))
                  then Inl ''BUSINESS_SNAPSHOT_INCOMPLETE''
                  else
                    Inr \<lparr>rd_context = c, rd_bootstrapSnapshotRevision = tc_contextRevision c,
                         rd_metadataRevision = tc_contextRevision c,
                         rd_terminalMetadataRevision = None, rd_objects = pm_objects m,
                         rd_objectVersions = pm_versions m, rd_objectRevisions = pm_revisions m,
                         rd_seenMessageIds = [], rd_opaqueDiagnostics = [],
                         rd_resumeFrom = resumeFrom\<rparr>)))))"

subsection \<open>Reduction\<close>

fun changedRef :: "payload \<Rightarrow> object_ref option" where
  "changedRef (ARTIFACT_CHANGED c) = Some (ar_artifactRef c)"
| "changedRef (ACTION_CHANGED c) = Some (oc_ref c)"
| "changedRef (REQUIRED_INPUT_CHANGED c) = Some (oc_ref c)"
| "changedRef (INTERVENTION_CHANGED c) = Some (oc_ref c)"
| "changedRef _ = None"

definition replaceRef :: "object_ref list \<Rightarrow> object_ref \<Rightarrow> object_ref list" where
  "replaceRef refs incoming = filter (\<lambda>r. ref_id r \<noteq> ref_id incoming) refs @ [incoming]"

fun replace_changed :: "payload \<Rightarrow> object_ref \<Rightarrow> task_context \<Rightarrow> task_context" where
  "replace_changed (ARTIFACT_CHANGED _) r c = c\<lparr>tc_artifactRefs := replaceRef (tc_artifactRefs c) r\<rparr>"
| "replace_changed (ACTION_CHANGED _) r c = c\<lparr>tc_actionRefs := replaceRef (tc_actionRefs c) r\<rparr>"
| "replace_changed (REQUIRED_INPUT_CHANGED _) r c =
     c\<lparr>tc_requiredInputRefs := replaceRef (tc_requiredInputRefs c) r\<rparr>"
| "replace_changed (INTERVENTION_CHANGED _) r c =
     c\<lparr>tc_interventionRefs := replaceRef (tc_interventionRefs c) r\<rparr>"
| "replace_changed _ r c = c"

definition event_bound :: "business_identity \<Rightarrow> business_identity \<Rightarrow> bool" where
  "event_bound e i \<longleftrightarrow>
     bi_taskId e = bi_taskId i \<and> bi_executionId e = bi_executionId i \<and>
     bi_providerId e = bi_providerId i \<and> bi_resourceId e = bi_resourceId i \<and>
     bi_operationName e = bi_operationName i \<and>
     (bi_simulationId i = None \<or> bi_simulationId e = bi_simulationId i)"

definition apply_delta :: "context_delta \<Rightarrow> task_context \<Rightarrow> task_context" where
  "apply_delta d c =
     c\<lparr>tc_phase := (case de_phase d of None \<Rightarrow> tc_phase c | Some p \<Rightarrow> p),
       tc_summary := (case de_summary d of None \<Rightarrow> tc_summary c | Some u \<Rightarrow> u),
       tc_activeRefs := (case de_activeRefs d of None \<Rightarrow> tc_activeRefs c | Some a \<Rightarrow> a),
       tc_effectivePlanRevision :=
         (case de_effectivePlanRevision d of None \<Rightarrow> tc_effectivePlanRevision c | Some n \<Rightarrow> n)\<rparr>"

definition finalize :: "context_finalized \<Rightarrow> bool \<Rightarrow> task_context \<Rightarrow> task_context" where
  "finalize f keepPhase c =
     c\<lparr>tc_phase := (if keepPhase then tc_phase c else None), tc_summary := fi_summary f,
       tc_activeRefs := [], tc_artifactRefs := fi_artifactRefs f, tc_actionRefs := fi_actionRefs f,
       tc_finalizedAt := Some (fi_finalizedAt f)\<rparr>"

text \<open>The metadata part: the Context, the metadata revision and that of the terminal phase.\<close>

definition apply_metadata ::
    "int \<Rightarrow> payload option \<Rightarrow> task_context \<times> int \<times> int option \<Rightarrow> task_context \<times> int \<times> int option" where
  "apply_metadata eventRevision known m =
     (case m of (c, metadataRevision, terminal) \<Rightarrow>
        (case known of
           Some (BUSINESS_EVENT e) \<Rightarrow>
             (case ev_contextDelta e of
                None \<Rightarrow> m
              | Some d \<Rightarrow>
                  (apply_delta d c, eventRevision,
                   if (case de_summary d of None \<Rightarrow> False | Some u \<Rightarrow> su_status u = Finalized) \<and>
                      (case de_phase d of Some (Some _) \<Rightarrow> True | _ \<Rightarrow> False)
                   then Some eventRevision else terminal))
         | Some (CONTEXT_FINALIZED f) \<Rightarrow>
             (finalize f (terminal = Some eventRevision) c, eventRevision, terminal)
         | _ \<Rightarrow> m))"

text \<open>The object part: a newer reference replaces the one of its identifier, and its bytes are dropped.\<close>

definition apply_change ::
    "payload option \<Rightarrow> task_context \<times> (object_key, int) jsmap \<times> (object_key, object_version) jsmap
       \<Rightarrow> task_context \<times> (object_key, int) jsmap \<times> (object_key, object_version) jsmap" where
  "apply_change known m =
     (case m of (c, revisions, objects) \<Rightarrow>
        (case known of
           None \<Rightarrow> m
         | Some p \<Rightarrow>
             (case changedRef p of
                None \<Rightarrow> m
              | Some r \<Rightarrow>
                  if known_revision revisions (refKey r) < ref_revision r
                  then (replace_changed p r c, js_set (refKey r) (ref_revision r) revisions,
                        js_delete (refKey r) objects)
                  else m)))"

definition known_payload :: "(string \<Rightarrow> bool) \<Rightarrow> feedback_body \<Rightarrow> payload option" where
  "known_payload iso_datetime b =
     (if TaskBusinessFeedbackBodySchema iso_datetime b
      then (case fb_payload b of Known p \<Rightarrow> Some p | Opaque _ _ \<Rightarrow> None) else None)"

definition opaque_of :: "public_feedback \<Rightarrow> (string \<times> string \<times> json) list" where
  "opaque_of e =
     (case fb_payload (pf_body e) of Opaque kind v \<Rightarrow> [(pf_messageId e, kind, v)] | Known _ \<Rightarrow> [])"

definition later_cursor :: "runtime_cursor \<Rightarrow> runtime_cursor \<Rightarrow> runtime_cursor" where
  "later_cursor old new =
     (if big_int (rc_afterSequence new) > big_int (rc_afterSequence old) then new else old)"

definition should_apply :: "reducer_state \<Rightarrow> int \<Rightarrow> bool" where
  "should_apply st revision \<longleftrightarrow>
     rd_bootstrapSnapshotRevision st < revision \<and> tc_contextRevision (rd_context st) \<le> revision \<and>
     tc_finalizedAt (rd_context st) = None"

definition metadata_part ::
    "reducer_state \<Rightarrow> int \<Rightarrow> payload option \<Rightarrow> task_context \<times> int \<times> int option" where
  "metadata_part st revision known =
     (let m = (rd_context st, rd_metadataRevision st, rd_terminalMetadataRevision st)
      in if should_apply st revision \<and> rd_metadataRevision st \<le> revision
         then apply_metadata revision known m else m)"

definition object_part ::
    "reducer_state \<Rightarrow> int \<Rightarrow> payload option \<Rightarrow> task_context
       \<Rightarrow> task_context \<times> (object_key, int) jsmap \<times> (object_key, object_version) jsmap" where
  "object_part st revision known c =
     (if should_apply st revision
      then
        (case apply_change known (c, rd_objectRevisions st, rd_objects st) of
           (c', revisions, objects) \<Rightarrow>
             (c'\<lparr>tc_contextRevision := max (tc_contextRevision c') revision\<rparr>, revisions, objects))
      else (c, rd_objectRevisions st, rd_objects st))"

definition reduceTaskBusinessFeedback ::
    "(string \<Rightarrow> bool) \<Rightarrow> reducer_state \<Rightarrow> public_feedback \<Rightarrow> reducer_state result" where
  "reduceTaskBusinessFeedback iso_datetime st e =
     bind_r (zod (RuntimeBusinessCursorSchema (pf_resumeFrom e))) (\<lambda>_.
     if \<not> event_bound (pf_identity e) (tc_identity (rd_context st))
     then Inl ''BUSINESS_EVENT_TASK_BINDING_INVALID''
     else if rc_streamId (pf_resumeFrom e) \<noteq> rc_streamId (rd_resumeFrom st)
     then Inl ''BUSINESS_EVENT_STREAM_RESET''
     else if pf_messageId e \<in> set (rd_seenMessageIds st) then Inr st
     else
       bind_r (parseTaskBusinessFeedbackBody iso_datetime (pf_body e)) (\<lambda>body.
         (let revision = fb_contextRevision body; known = known_payload iso_datetime body
          in if (case known of Some (CONTEXT_FINALIZED f) \<Rightarrow> fi_finalContextRevision f \<noteq> revision
                 | _ \<Rightarrow> False)
             then Inl ''BUSINESS_EVENT_FINAL_REVISION_INVALID''
             else
               (case metadata_part st revision known of (c, metadataRevision, terminal) \<Rightarrow>
                 (case object_part st revision known c of (c', revisions, objects) \<Rightarrow>
                   Inr (st\<lparr>rd_context := c', rd_metadataRevision := metadataRevision,
                           rd_terminalMetadataRevision := terminal, rd_objectRevisions := revisions,
                           rd_objects := objects,
                           rd_seenMessageIds := rd_seenMessageIds st @ [pf_messageId e],
                           rd_opaqueDiagnostics := rd_opaqueDiagnostics st @
                             (if known = None then opaque_of e else []),
                           rd_resumeFrom := later_cursor (rd_resumeFrom st) (pf_resumeFrom e)\<rparr>))))))"

subsection \<open>Repeated deliveries\<close>

text \<open>The events of a delivery without those whose message has been seen before.\<close>

fun first_deliveries :: "string set \<Rightarrow> public_feedback list \<Rightarrow> public_feedback list" where
  "first_deliveries seen [] = []"
| "first_deliveries seen (e # es) =
     (if pf_messageId e \<in> seen then first_deliveries seen es
      else e # first_deliveries (insert (pf_messageId e) seen) es)"

lemma reduce_seen:
  assumes "reduceTaskBusinessFeedback iso_datetime st e = Inr st'"
  shows "set (rd_seenMessageIds st') = insert (pf_messageId e) (set (rd_seenMessageIds st)) \<and>
    (pf_messageId e \<in> set (rd_seenMessageIds st) \<longrightarrow> st' = st)"
  using assms
  by (auto simp: reduceTaskBusinessFeedback_def bind_r_Inr Let_def split: if_splits prod.splits)

text \<open>
  C19. Events may be delivered more than once: when a sequence of events is accepted, the sequence
  without the repeated messages is accepted too and leads to the same read model.
\<close>

theorem repeated_deliveries_ignored:
  assumes "fold_r (reduceTaskBusinessFeedback iso_datetime) st es = Inr st'"
  shows "fold_r (reduceTaskBusinessFeedback iso_datetime) st
    (first_deliveries (set (rd_seenMessageIds st)) es) = Inr st'"
  using assms
proof (induction es arbitrary: st)
  case (Cons e es)
  then obtain t where t: "reduceTaskBusinessFeedback iso_datetime st e = Inr t"
    "fold_r (reduceTaskBusinessFeedback iso_datetime) t es = Inr st'"
    by (auto simp: bind_r_Inr)
  from Cons.IH [OF t(2)] reduce_seen [OF t(1)] t(1) show ?case
    by (cases "pf_messageId e \<in> set (rd_seenMessageIds st)") (auto simp: insert_absorb)
qed simp

subsection \<open>Progress of the read model\<close>

text \<open>What events never take back.\<close>

definition progress :: "reducer_state \<Rightarrow> reducer_state \<Rightarrow> bool" where
  "progress st st' \<longleftrightarrow>
     tc_identity (rd_context st') = tc_identity (rd_context st) \<and>
     rd_bootstrapSnapshotRevision st' = rd_bootstrapSnapshotRevision st \<and>
     rd_objectVersions st' = rd_objectVersions st \<and>
     tc_contextRevision (rd_context st) \<le> tc_contextRevision (rd_context st') \<and>
     rd_metadataRevision st \<le> rd_metadataRevision st' \<and>
     (\<forall>k. known_revision (rd_objectRevisions st) k \<le> known_revision (rd_objectRevisions st') k) \<and>
     rc_streamId (rd_resumeFrom st') = rc_streamId (rd_resumeFrom st) \<and>
     big_int (rc_afterSequence (rd_resumeFrom st)) \<le> big_int (rc_afterSequence (rd_resumeFrom st')) \<and>
     set (rd_seenMessageIds st) \<subseteq> set (rd_seenMessageIds st') \<and>
     (tc_finalizedAt (rd_context st) \<noteq> None \<longrightarrow> rd_context st' = rd_context st)"

lemma progress_refl: "progress st st"
  by (simp add: progress_def)

lemma progress_trans: "progress a b \<Longrightarrow> progress b c \<Longrightarrow> progress a c"
  unfolding progress_def by (metis order_trans)

lemma apply_change_keeps:
  assumes "apply_change known (c, revisions, objects) = (c', revisions', objects')"
  shows "tc_identity c' = tc_identity c \<and> tc_contextRevision c' = tc_contextRevision c \<and>
    known_revision revisions k \<le> known_revision revisions' k"
proof (cases "\<exists>p r. known = Some p \<and> changedRef p = Some r \<and>
    known_revision revisions (refKey r) < ref_revision r")
  case True
  then obtain p r where p: "known = Some p" "changedRef p = Some r"
    "known_revision revisions (refKey r) < ref_revision r"
    by blast
  then have "c' = replace_changed p r c" "revisions' = js_set (refKey r) (ref_revision r) revisions"
    using assms by (auto simp: apply_change_def)
  then show ?thesis using p(3) by (cases p) (auto simp: known_revision_def)
next
  case False
  then have "(c', revisions') = (c, revisions)"
    using assms by (auto simp: apply_change_def split: option.splits if_splits)
  then show ?thesis by simp
qed

lemma apply_metadata_keeps:
  assumes "apply_metadata n known (c, m, t) = (c', m', t')" "m \<le> n"
  shows "tc_identity c' = tc_identity c \<and> tc_contextRevision c' = tc_contextRevision c \<and> m \<le> m'"
  using assms
  by (auto simp: apply_metadata_def apply_delta_def finalize_def split: option.splits payload.splits)

lemma metadata_part_keeps:
  assumes "metadata_part st n known = (c, m, t)"
  shows "tc_identity c = tc_identity (rd_context st) \<and>
    tc_contextRevision c = tc_contextRevision (rd_context st) \<and> rd_metadataRevision st \<le> m \<and>
    (tc_finalizedAt (rd_context st) \<noteq> None \<longrightarrow> c = rd_context st)"
proof (cases "should_apply st n \<and> rd_metadataRevision st \<le> n")
  case True
  with apply_metadata_keeps [of n known "rd_context st" "rd_metadataRevision st"
      "rd_terminalMetadataRevision st" c m t] assms
  show ?thesis by (simp add: metadata_part_def should_apply_def)
qed (use assms in \<open>auto simp: metadata_part_def Let_def\<close>)

lemma object_part_keeps:
  assumes "object_part st n known c = (c', revisions, objects)"
  shows "tc_identity c' = tc_identity c \<and> tc_contextRevision c \<le> tc_contextRevision c' \<and>
    known_revision (rd_objectRevisions st) k \<le> known_revision revisions k \<and>
    (tc_finalizedAt (rd_context st) \<noteq> None \<longrightarrow> c' = c)"
proof (cases "should_apply st n")
  case True
  obtain c1 r1 o1 where a: "apply_change known (c, rd_objectRevisions st, rd_objects st) = (c1, r1, o1)"
    by (rule prod_cases3)
  with apply_change_keeps [OF a, of k] assms True show ?thesis
    by (auto simp: object_part_def should_apply_def)
qed (use assms in \<open>simp add: object_part_def\<close>)

lemma reduce_progress:
  assumes "reduceTaskBusinessFeedback iso_datetime st e = Inr st'"
  shows "progress st st'"
proof (cases "pf_messageId e \<in> set (rd_seenMessageIds st)")
  case True
  then have "st' = st" using reduce_seen [OF assms] by simp
  then show ?thesis by (simp add: progress_refl)
next
  case False
  define n where "n = fb_contextRevision (pf_body e)"
  define known where "known = known_payload iso_datetime (pf_body e)"
  obtain c m t where m: "metadata_part st n known = (c, m, t)" by (rule prod_cases3)
  obtain c' rs os where o: "object_part st n known c = (c', rs, os)" by (rule prod_cases3)
  have st': "st' = st\<lparr>rd_context := c', rd_metadataRevision := m, rd_terminalMetadataRevision := t,
      rd_objectRevisions := rs, rd_objects := os,
      rd_seenMessageIds := rd_seenMessageIds st @ [pf_messageId e],
      rd_opaqueDiagnostics := rd_opaqueDiagnostics st @ (if known = None then opaque_of e else []),
      rd_resumeFrom := later_cursor (rd_resumeFrom st) (pf_resumeFrom e)\<rparr>"
    and stream: "rc_streamId (pf_resumeFrom e) = rc_streamId (rd_resumeFrom st)"
    using assms False m o
    by (auto simp: reduceTaskBusinessFeedback_def Let_def bind_r_Inr parsed_body_Inr n_def known_def
        simp del: not_None_eq split: if_split_asm)
  show ?thesis
    using metadata_part_keeps [OF m] object_part_keeps [OF o] stream
    by (auto simp: st' progress_def later_cursor_def)
qed

text \<open>
  C18. Events only move the read model forward: the execution it is about, the snapshot it started from
  and the exact versions of that snapshot stay; the revisions of the Context, of its metadata and of
  every object, the cursor to resume from and the messages seen never go back; and once the Context is
  finalized no event changes it.
\<close>

theorem events_only_advance:
  assumes "fold_r (reduceTaskBusinessFeedback iso_datetime) st es = Inr st'"
  shows "progress st st'"
  by (rule fold_r_invariant [OF assms, where P = "progress st"])
    (auto intro: progress_refl progress_trans reduce_progress)

subsection \<open>From the store to the read model\<close>

lemma context_refs_all:
  "distinct (contextObjectRefs c) \<and> set (contextObjectRefs c) = set (all_refs c)"
proof -
  have "distinct (js_keys (fold (\<lambda>r. js_set r r) rs m)) \<and>
      (\<forall>x \<in> set (fold (\<lambda>r. js_set r r) rs m). fst x = snd x) \<and>
      set (js_keys (fold (\<lambda>r. js_set r r) rs m)) = set rs \<union> set (js_keys m)"
    if "distinct (js_keys m)" "\<forall>x \<in> set m. fst x = snd x" for rs and m :: "(object_ref, object_ref) jsmap"
    using that
  proof (induction rs arbitrary: m)
    case (Cons r rs)
    have d: "distinct (js_keys (js_set r r m))" using Cons.prems(1) by (rule distinct_update)
    have e: "\<forall>x \<in> set (js_set r r m). fst x = snd x" using Cons.prems(2) by (auto dest: in_js_set)
    have k: "set (js_keys (js_set r r m)) = insert r (set (js_keys m))"
      by (auto simp: dom_map_of_conv_image_fst [symmetric] update_conv')
    show ?case using Cons.IH [OF d e] unfolding k by (simp del: set_map)
  qed simp
  from this [of "[]" "all_refs c"]
  have f: "distinct (js_keys (fold (\<lambda>r. js_set r r) (all_refs c) []))"
    "\<forall>x \<in> set (fold (\<lambda>r. js_set r r) (all_refs c) []). fst x = snd x"
    "set (js_keys (fold (\<lambda>r. js_set r r) (all_refs c) [])) = set (all_refs c)"
    by (simp_all del: set_map)
  have "contextObjectRefs c = js_keys (fold (\<lambda>r. js_set r r) (all_refs c) [])"
    unfolding contextObjectRefs_def all_refs_def [symmetric] using f(2) by simp
  then show ?thesis using f(1,3) by (simp del: set_map)
qed

lemma version_schema_of: "version_schema E v = Inr () \<Longrightarrow> schema_of (en_iso_datetime E) v"
  by (cases v) (auto simp: bind_r_Inr)

text \<open>What adding the objects of a page does.\<close>

definition object_fits :: "(string \<Rightarrow> bool) \<Rightarrow> task_context \<Rightarrow> object_version \<Rightarrow> bool" where
  "object_fits iso_datetime c v \<longleftrightarrow>
     schema_of iso_datetime v \<and> same_binding (version_identity v) (tc_identity c) \<and>
     revision_ok (ref_revision (businessObjectRef v)) \<and> businessObjectRef v \<in> set (all_refs c)"

lemma add_object_fits:
  assumes "object_fits iso_datetime c v" "\<not> js_has (pm_versions m) (businessObjectRef v)"
  shows "\<exists>m'. add_object iso_datetime c m (Page_object v) = Inr m' \<and>
    pm_versions m' = js_set (businessObjectRef v) v (pm_versions m)"
  using assms
  by (auto simp: add_object_def validateSnapshotObject_def objectRef_def object_fits_def revision_ok_def
      Let_def)

lemma add_object_misfit:
  assumes "\<not> same_binding (version_identity v) (tc_identity c)"
  shows "add_object iso_datetime c m (Page_object v) = Inl ''BUSINESS_SNAPSHOT_OBJECT_INVALID''"
  using assms by (simp add: add_object_def validateSnapshotObject_def)

lemma js_set_new: "\<not> js_has m k \<Longrightarrow> js_set k v m = m @ [(k, v)]"
  by (induction m) (auto simp: js_has_def split: if_splits)

lemma add_objects:
  assumes "distinct (map businessObjectRef vs)"
    and "\<And>v. v \<in> set vs \<Longrightarrow> \<not> js_has (pm_versions m) (businessObjectRef v)"
    and "\<And>v. v \<in> set vs \<Longrightarrow> object_fits iso_datetime c v"
  shows "\<exists>m'. fold_r (add_object iso_datetime c) m (map Page_object vs) = Inr m' \<and>
    pm_versions m' = pm_versions m @ map (\<lambda>v. (businessObjectRef v, v)) vs"
  using assms
proof (induction vs arbitrary: m)
  case (Cons v vs)
  from add_object_fits [of iso_datetime c v m] Cons.prems(2,3) obtain n where
    n: "add_object iso_datetime c m (Page_object v) = Inr n"
      "pm_versions n = js_set (businessObjectRef v) v (pm_versions m)"
    by auto
  have "\<not> js_has (pm_versions n) (businessObjectRef w)" if "w \<in> set vs" for w
    using that Cons.prems(1,2) n(2) by (force simp: image_iff)
  from Cons.IH [OF _ this] Cons.prems(1,3) obtain m' where
    "fold_r (add_object iso_datetime c) n (map Page_object vs) = Inr m'"
    "pm_versions m' = pm_versions n @ map (\<lambda>v. (businessObjectRef v, v)) vs"
    by auto
  moreover have "pm_versions n = pm_versions m @ [(businessObjectRef v, v)]"
    using n(2) js_set_new Cons.prems(2) [of v] by simp
  ultimately show ?case using n(1) by simp
qed simp

lemma add_objects_misfit:
  assumes "distinct (map businessObjectRef vs)"
    and "\<And>v. v \<in> set vs \<Longrightarrow> \<not> js_has (pm_versions m) (businessObjectRef v)"
    and "\<And>v. v \<in> set vs \<Longrightarrow> same_binding (version_identity v) (tc_identity c) \<Longrightarrow>
      object_fits iso_datetime c v"
    and "\<exists>v \<in> set vs. \<not> same_binding (version_identity v) (tc_identity c)"
  shows "fold_r (add_object iso_datetime c) m (map Page_object vs) = Inl ''BUSINESS_SNAPSHOT_OBJECT_INVALID''"
  using assms
proof (induction vs arbitrary: m)
  case (Cons v vs)
  show ?case
  proof (cases "same_binding (version_identity v) (tc_identity c)")
    case True
    with add_object_fits [of iso_datetime c v m] Cons.prems(2,3) obtain n where
      n: "add_object iso_datetime c m (Page_object v) = Inr n"
        "pm_versions n = js_set (businessObjectRef v) v (pm_versions m)"
      by auto
    have "\<not> js_has (pm_versions n) (businessObjectRef w)" if "w \<in> set vs" for w
      using that Cons.prems(1,2) n(2) by (force simp: image_iff)
    from Cons.IH [OF _ this] Cons.prems(1,3,4) True n(1) show ?thesis by auto
  qed (simp add: add_object_misfit)
qed simp

definition snapshot_of_store :: "task_context \<Rightarrow> object_version list \<Rightarrow> snapshot_page" where
  "snapshot_of_store c objects =
     \<lparr>pg_contextRevision = tc_contextRevision c, pg_context = c, pg_objects = map Page_object objects,
      pg_objectDescriptors = [], pg_nextCursor = None\<rparr>"

lemma bootstrap_page:
  assumes "RuntimeBusinessCursorSchema cursor" "TaskBusinessContextSchema iso_datetime c"
    and "context_equal c c"
    and "fold_r (add_object iso_datetime c) \<lparr>pm_objects = [], pm_versions = [],
      pm_revisions = fold expect_ref (all_refs c) []\<rparr> (map Page_object objects) = added"
  shows "bootstrapTaskBusinessReducer iso_datetime [snapshot_of_store c objects] cursor =
    bind_r added (\<lambda>m.
      if length (pm_versions m) \<noteq> length (remdups (all_refs c)) then Inl ''BUSINESS_SNAPSHOT_INCOMPLETE''
      else Inr \<lparr>rd_context = c, rd_bootstrapSnapshotRevision = tc_contextRevision c,
        rd_metadataRevision = tc_contextRevision c, rd_terminalMetadataRevision = None,
        rd_objects = pm_objects m, rd_objectVersions = pm_versions m,
        rd_objectRevisions = pm_revisions m, rd_seenMessageIds = [], rd_opaqueDiagnostics = [],
        rd_resumeFrom = cursor\<rparr>)"
  using assms
  by (cases added) (simp_all add: bootstrapTaskBusinessReducer_def snapshot_of_store_def add_page_def
      zod_def throw_if_def Let_def)

text \<open>What a snapshot of a reachable store is made of.\<close>

lemma store_snapshot:
  assumes "getContextSnapshot snapshot_bytes (after (store_step E event_id) emptyStore xs) scope =
      Inr (Some (c, objects))"
  shows "TaskBusinessContextSchema (en_iso_datetime E) c"
    and "assertBusinessIdentity scope (tc_identity c) = Inr ()"
    and "map businessObjectRef objects = contextObjectRefs c"
    and "\<And>v. v \<in> set objects \<Longrightarrow> parseBusinessObjectVersion E scope v = Inr v"
proof -
  let ?st = "state_of (after (store_step E event_id) emptyStore xs) scope"
  have ok: "versions_ok E scope ?st" "refs_ok E scope ?st"
    using reachable_scope_ok [of E scope event_id xs] by (simp_all add: scope_ok_def)
  from assms have snap: "ss_context ?st = Some c"
    "map_r (snapshot_object ?st) (contextObjectRefs c) = Inr objects"
    by (auto simp: getContextSnapshot_def Let_def bind_r_Inr split: option.splits if_splits)
  show "TaskBusinessContextSchema (en_iso_datetime E) c"
    "assertBusinessIdentity scope (tc_identity c) = Inr ()"
    using ok(2) snap(1) by (simp_all add: refs_ok_def parse_context_Inr)
  have at: "version_at ?st (contextObjectRefs c ! i) = Some (objects ! i)"
    if "i < length (contextObjectRefs c)" for i
    using map_r_Inr_nth [OF snap(2) that] by (auto simp: snapshot_object_def split: option.splits)
  show "map businessObjectRef objects = contextObjectRefs c"
    using at map_r_Inr_length [OF snap(2)] version_at_ref [OF ok(1)] by (simp add: list_eq_iff_nth_eq)
  show "parseBusinessObjectVersion E scope v = Inr v" if "v \<in> set objects" for v
  proof -
    from that at map_r_Inr_length [OF snap(2)] obtain r where "version_at ?st r = Some v"
      by (metis in_set_conv_nth)
    then show ?thesis
      using versions_okD [OF ok(1), of "objectKey r"] unfolding history_ok_def version_at_def by blast
  qed
qed

text \<open>Objects that fit, one for each reference, start a read model that resolves every reference.\<close>

lemma bootstrap_fitting:
  assumes "RuntimeBusinessCursorSchema cursor" "TaskBusinessContextSchema iso_datetime c"
    and "context_equal c c" and refs: "map businessObjectRef objects = contextObjectRefs c"
    and "\<And>v. v \<in> set objects \<Longrightarrow> object_fits iso_datetime c v"
  shows "\<exists>st. bootstrapTaskBusinessReducer iso_datetime [snapshot_of_store c objects] cursor = Inr st \<and>
      rd_context st = c \<and> unresolvedTaskBusinessRefs st = []"
proof -
  let ?m0 = "\<lparr>pm_objects = [], pm_versions = [], pm_revisions = fold expect_ref (all_refs c) []\<rparr>"
  have "distinct (map businessObjectRef objects)" using refs context_refs_all [of c] by simp
  from add_objects [OF this _ assms(5), of ?m0] obtain m where
    m: "fold_r (add_object iso_datetime c) ?m0 (map Page_object objects) = Inr m"
      "pm_versions m = map (\<lambda>v. (businessObjectRef v, v)) objects"
    by (auto simp: js_has_def)
  have "length (pm_versions m) = length (remdups (all_refs c))"
    using refs context_refs_all [of c] m(2)
    by (metis distinct_card length_map length_remdups_card_conv)
  with bootstrap_page [OF assms(1-3) m(1)] obtain st where
    st: "bootstrapTaskBusinessReducer iso_datetime [snapshot_of_store c objects] cursor = Inr st"
      "rd_context st = c" "rd_objectVersions st = pm_versions m"
    by simp
  have "js_has (rd_objectVersions st) r" if "r \<in> set (contextObjectRefs c)" for r
  proof -
    have "r \<in> businessObjectRef ` set objects" using that refs by (metis set_map)
    then show ?thesis by (force simp: st(3) m(2) js_has_def map_of_eq_None_iff)
  qed
  then have "unresolvedTaskBusinessRefs st = []"
    by (simp add: unresolvedTaskBusinessRefs_def st(2) contextObjectRefs_def all_refs_def)
  with st show ?thesis by auto
qed

text \<open>
  C17. The store and the read model fit together but for one difference. In every store that operations
  lead to, the snapshot of a scope, sent as one page, starts a read model exactly when all its objects
  name the same simulation as the Context: then the read model has the Context and resolves every
  reference. But the store also accepts a Context that names no simulation beside objects that name the
  one of their execution, and such a snapshot is refused as invalid. The assumption on the
  Context says that its maps are those of objects: no member name twice.
\<close>

theorem snapshot_starts_read_model:
  assumes "getContextSnapshot snapshot_bytes (after (store_step E event_id) emptyStore xs) scope =
      Inr (Some (c, objects))"
    and "context_equal c c" and "RuntimeBusinessCursorSchema cursor"
  shows "if \<forall>v \<in> set objects. bi_simulationId (version_identity v) = bi_simulationId (tc_identity c)
    then \<exists>st. bootstrapTaskBusinessReducer (en_iso_datetime E) [snapshot_of_store c objects] cursor = Inr st \<and>
      rd_context st = c \<and> unresolvedTaskBusinessRefs st = []
    else bootstrapTaskBusinessReducer (en_iso_datetime E) [snapshot_of_store c objects] cursor =
      Inl ''BUSINESS_SNAPSHOT_OBJECT_INVALID''"
proof -
  let ?iso = "en_iso_datetime E"
  note snap = store_snapshot [OF assms(1)]
  have rev: "revision_ok (ref_revision r)" if "r \<in> set (all_refs c)" for r
    using that snap(1) by (auto simp: all_refs_def listed_refs_def TaskBusinessContextSchema_def
        BusinessActiveRefsSchema_def list_all_iff kindRef_def BusinessObjectRefSchema_def)
  have listed: "businessObjectRef v \<in> set (all_refs c)" if "v \<in> set objects" for v
    using that snap(3) context_refs_all [of c] by (metis imageI set_map)
  have binding: "same_binding (version_identity v) (tc_identity c) \<longleftrightarrow>
      bi_simulationId (version_identity v) = bi_simulationId (tc_identity c)" if "v \<in> set objects" for v
    using snap(4) [OF that] snap(2)
    by (auto simp: parse_version_Inr assertBusinessIdentity_def bind_r_Inr same_binding_def)
  have fits: "object_fits ?iso c v"
    if "v \<in> set objects" "same_binding (version_identity v) (tc_identity c)" for v
    using that snap(4) [OF that(1)] listed [OF that(1)] rev version_schema_of
    by (auto simp: object_fits_def parse_version_Inr)
  show ?thesis
  proof (cases "\<forall>v \<in> set objects. bi_simulationId (version_identity v) = bi_simulationId (tc_identity c)")
    case True
    then have "\<And>v. v \<in> set objects \<Longrightarrow> object_fits ?iso c v" using fits binding by blast
    from bootstrap_fitting [OF assms(3) snap(1) assms(2) snap(3) this] True show ?thesis by simp
  next
    case False
    then have "\<exists>v \<in> set objects. \<not> same_binding (version_identity v) (tc_identity c)"
      using binding by blast
    moreover have "distinct (map businessObjectRef objects)" using snap(3) context_refs_all [of c] by simp
    ultimately show ?thesis
      using bootstrap_page [OF assms(3) snap(1) assms(2) refl] False
        add_objects_misfit [OF _ _ fits, of objects "\<lparr>pm_objects = [], pm_versions = [],
          pm_revisions = fold expect_ref (all_refs c) []\<rparr>"]
      by (simp add: js_has_def)
  qed
qed

subsection \<open>A concrete read model\<close>

definition example_cursor :: runtime_cursor where
  "example_cursor = \<lparr>rc_streamId = ''s'', rc_afterSequence = ''7''\<rparr>"

text \<open>The commit of \<open>example_commit\<close> whose route names the simulation of the execution.\<close>

definition example_named :: store_op where
  "example_named =
     Commit_change_set example_scope
       \<lparr>ch_expectedContextRevision = None, ch_context = example_context 1,
        ch_objects = [Artifact_version ((example_route 1)
          \<lparr>ta_identity := example_scope_identity\<lparr>bi_simulationId := Some ''m''\<rparr>\<rparr>)],
        ch_contents = [\<lparr>cw_artifactId = ''route'', cw_revision = 1, cw_handle = ''h'', cw_bytes = ''{}''\<rparr>],
        ch_command = None\<rparr>"

definition example_snapshot :: "store_op \<Rightarrow> (task_context \<times> object_version list) option result" where
  "example_snapshot x = getContextSnapshot (\<lambda>c vs. 0) (after example_step emptyStore [x]) example_scope"

lemma example_snapshots:
  "context_equal (example_context 1) (example_context 1) \<and> RuntimeBusinessCursorSchema example_cursor \<and>
   example_snapshot (example_commit None 1) =
     Inr (Some (example_context 1, [Artifact_version (example_route 1)])) \<and>
   example_snapshot example_named =
     Inr (Some (example_context 1, [Artifact_version ((example_route 1)
       \<lparr>ta_identity := example_scope_identity\<lparr>bi_simulationId := Some ''m''\<rparr>\<rparr>)]))"
  by code_simp

theorem snapshot_starts_read_model_witness:
  "(\<exists>objects st. example_snapshot (example_commit None 1) = Inr (Some (example_context 1, objects)) \<and>
      bootstrapTaskBusinessReducer (en_iso_datetime example_env)
        [snapshot_of_store (example_context 1) objects] example_cursor = Inr st \<and>
      unresolvedTaskBusinessRefs st = []) \<and>
   (\<exists>objects. example_snapshot example_named = Inr (Some (example_context 1, objects)) \<and>
      bootstrapTaskBusinessReducer (en_iso_datetime example_env)
        [snapshot_of_store (example_context 1) objects] example_cursor =
        Inl ''BUSINESS_SNAPSHOT_OBJECT_INVALID'')"
proof -
  let ?v = "Artifact_version (example_route 1)"
  let ?w = "Artifact_version ((example_route 1)
    \<lparr>ta_identity := example_scope_identity\<lparr>bi_simulationId := Some ''m''\<rparr>\<rparr>)"
  have e: "context_equal (example_context 1) (example_context 1)"
    "RuntimeBusinessCursorSchema example_cursor"
    and a: "example_snapshot (example_commit None 1) = Inr (Some (example_context 1, [?v]))"
    and b: "example_snapshot example_named = Inr (Some (example_context 1, [?w]))"
    using example_snapshots by blast+
  have ids: "bi_simulationId (version_identity ?v) = bi_simulationId (tc_identity (example_context 1))"
    "bi_simulationId (version_identity ?w) \<noteq> bi_simulationId (tc_identity (example_context 1))"
    by (simp_all add: example_route_def example_artifact_def example_scope_identity_def example_context_def)
  from snapshot_starts_read_model [OF a [unfolded example_snapshot_def] e]
    snapshot_starts_read_model [OF b [unfolded example_snapshot_def] e] ids a b
  show ?thesis by auto
qed

definition example_feedback :: "string \<Rightarrow> string \<Rightarrow> int \<Rightarrow> public_feedback" where
  "example_feedback i afterSequence n =
     \<lparr>pf_body = \<lparr>fb_schemaVersion = TASK_BUSINESS_FEEDBACK_SCHEMA_VERSION, fb_contextRevision = n,
        fb_providerRecordedAt = ''2026-01-01T00:00:00Z'',
        fb_payload = Known (ARTIFACT_CHANGED \<lparr>ar_change = Update,
          ar_artifactRef = example_route_ref\<lparr>ref_revision := n\<rparr>, ar_previousRevision = Some (n - 1),
          ar_reasonCode = ''R'', ar_changedFields = None\<rparr>)\<rparr>,
      pf_messageId = i, pf_identity = example_scope_identity,
      pf_resumeFrom = \<lparr>rc_streamId = ''s'', rc_afterSequence = afterSequence\<rparr>,
      pf_sourceCursor = \<lparr>sc_sourceId = TASK_BUSINESS_SOURCE_ID, sc_sourceStreamId = ''x'',
        sc_sourceSequence = ''1''\<rparr>,
      pf_sourceEventId = ''y'', pf_occurredAt = ''2026-01-01T00:00:00Z''\<rparr>"

definition example_model :: reducer_state where
  "example_model =
     \<lparr>rd_context = example_context 1, rd_bootstrapSnapshotRevision = 1, rd_metadataRevision = 1,
      rd_terminalMetadataRevision = None, rd_objects = [], rd_objectVersions = [],
      rd_objectRevisions = [((Artifact, ''route''), 1)], rd_seenMessageIds = [],
      rd_opaqueDiagnostics = [], rd_resumeFrom = example_cursor\<rparr>"

abbreviation example_reduce :: "reducer_state \<Rightarrow> public_feedback list \<Rightarrow> reducer_state result" where
  "example_reduce \<equiv> fold_r (reduceTaskBusinessFeedback (\<lambda>s. date_parse s \<noteq> None))"

lemma example_reduced:
  "\<exists>st. example_reduce example_model
     [example_feedback ''a'' ''8'' 2, example_feedback ''a'' ''8'' 2, example_feedback ''b'' ''10'' 3] = Inr st
   \<and> tc_contextRevision (rd_context st) = 3"
proof -
  have "case example_reduce example_model
     [example_feedback ''a'' ''8'' 2, example_feedback ''a'' ''8'' 2, example_feedback ''b'' ''10'' 3] of
      Inl e \<Rightarrow> False | Inr st \<Rightarrow> tc_contextRevision (rd_context st) = 3"
    by code_simp
  then show ?thesis by (auto split: sum.splits)
qed

theorem repeated_deliveries_ignored_witness:
  "\<exists>st. example_reduce example_model
     [example_feedback ''a'' ''8'' 2, example_feedback ''a'' ''8'' 2, example_feedback ''b'' ''10'' 3] = Inr st
   \<and> example_reduce example_model [example_feedback ''a'' ''8'' 2, example_feedback ''b'' ''10'' 3] = Inr st"
proof -
  from example_reduced obtain st where st: "example_reduce example_model
     [example_feedback ''a'' ''8'' 2, example_feedback ''a'' ''8'' 2, example_feedback ''b'' ''10'' 3] = Inr st"
    by blast
  from repeated_deliveries_ignored [OF st] st show ?thesis
    by (auto simp: example_model_def example_feedback_def)
qed

theorem events_only_advance_witness:
  "\<exists>st. example_reduce example_model
     [example_feedback ''a'' ''8'' 2, example_feedback ''a'' ''8'' 2, example_feedback ''b'' ''10'' 3] = Inr st
   \<and> known_revision (rd_objectRevisions example_model) (Artifact, ''route'')
      \<le> known_revision (rd_objectRevisions st) (Artifact, ''route'')"
proof -
  from example_reduced obtain st where st: "example_reduce example_model
     [example_feedback ''a'' ''8'' 2, example_feedback ''a'' ''8'' 2, example_feedback ''b'' ''10'' 3] = Inr st"
    by blast
  from events_only_advance [OF st] st show ?thesis by (auto simp: progress_def)
qed

end
