(* ===== verification/PmsDomain.thy ===== *)
theory PmsDomain
  imports Allocation CanonicalJson "HOL-Library.Word"
begin

text \<open>
  packages/pms-domain/src: the domain of the control plane (identifiers, entities, state transitions,
  resource bindings, database profiles). A \<open>Date\<close> is its number of milliseconds, \<open>None\<close> when invalid;
  \<open>Object.freeze\<close> and copies leave a value as it is. Strings are of 8-bit characters.
\<close>

unbundle bit_operations_syntax

subsection \<open>errors.ts, ports/errors.ts\<close>

datatype domain_code =
    INVALID_IDENTIFIER | INVALID_DOMAIN_VALUE | INVALID_STATE_TRANSITION
  | DUPLICATE_RESOURCE_BINDING | RESOURCE_BINDING_NOT_FOUND

datatype repository_code =
    ENTITY_ALREADY_EXISTS | ENTITY_NOT_FOUND | OPTIMISTIC_CONCURRENCY_CONFLICT | LEASE_NOT_OWNED

text \<open>
  The errors of the control plane: the classes \<open>PmsDomainError\<close> (its detail is the kind, the field or
  the aggregate), \<open>PmsRepositoryError\<close>, \<open>ConfigurationCenterError\<close>, and what the database or the
  language throws.
\<close>

datatype pms_error =
    Domain_error domain_code string
  | Repository_error repository_code string
  | Center_error string
  | Range_error string
  | Database_error string

type_synonym 'a pms = "pms_error + 'a"

definition invalidValue :: "string \<Rightarrow> pms_error" where
  "invalidValue field = Domain_error INVALID_DOMAIN_VALUE field"

subsection \<open>ids.ts\<close>

fun split_on :: "char \<Rightarrow> string \<Rightarrow> string list" where
  "split_on d [] = [[]]"
| "split_on d (c # cs) =
     (if c = d then [] # split_on d cs
      else (case split_on d cs of [] \<Rightarrow> [[c]] | s # ss \<Rightarrow> (c # s) # ss))"

definition type_char :: "char \<Rightarrow> bool" where
  "type_char c \<longleftrightarrow> is_lower c \<or> is_digit c \<or> c \<in> set ''_-''"

text \<open>\<open>/^[a-z][a-z0-9_-]*(?:\.[a-z0-9_-]+)+$/\<close>.\<close>

definition ProviderTypePattern :: "string \<Rightarrow> bool" where
  "ProviderTypePattern s \<longleftrightarrow>
     (case split_on (CHR ''.'') s of
        (c # r) # p # ps \<Rightarrow>
          is_lower c \<and> list_all type_char r \<and>
          list_all (\<lambda>x. x \<noteq> [] \<and> list_all type_char x) (p # ps)
      | _ \<Rightarrow> False)"

text \<open>\<open>/^[a-z0-9][a-z0-9._-]{2,127}$/\<close>.\<close>

definition PackageIdPattern :: "string \<Rightarrow> bool" where
  "PackageIdPattern s \<longleftrightarrow>
     (case s of [] \<Rightarrow> False
      | c # r \<Rightarrow> (is_lower c \<or> is_digit c) \<and> 2 \<le> length r \<and> length r \<le> 127 \<and>
          list_all (\<lambda>x. is_lower x \<or> is_digit x \<or> x \<in> set ''._-'') r)"

definition hex_either_case :: "char \<Rightarrow> bool" where
  "hex_either_case c \<longleftrightarrow> is_digit c \<or> lower_char c \<in> set ''abcdef''"

text \<open>\<open>UuidPattern\<close>, which ignores case.\<close>

definition UuidPattern :: "string \<Rightarrow> bool" where
  "UuidPattern s \<longleftrightarrow>
     (case split_on (CHR ''-'') s of
        [a, b, c, d, e] \<Rightarrow>
          length a = 8 \<and> length b = 4 \<and> length c = 4 \<and> length d = 4 \<and> length e = 12 \<and>
          list_all hex_either_case (a @ b @ c @ d @ e) \<and>
          hd c \<in> set ''12345678'' \<and> lower_char (hd d) \<in> set ''89ab''
      | _ \<Rightarrow> False)"

definition parseId :: "string \<Rightarrow> string \<Rightarrow> (string \<Rightarrow> bool) \<Rightarrow> string pms" where
  "parseId value kind pattern =
     (if pattern value then Inr value else Inl (Domain_error INVALID_IDENTIFIER kind))"

definition providerTypeId :: "string \<Rightarrow> string pms" where
  "providerTypeId value = parseId value ''ProviderTypeId'' ProviderTypePattern"

definition providerId :: "string \<Rightarrow> string pms" where
  "providerId value = parseId value ''ProviderId'' logical_id"

definition resourceId :: "string \<Rightarrow> string pms" where
  "resourceId value = parseId value ''ResourceId'' logical_id"

definition providerPackageId :: "string \<Rightarrow> string pms" where
  "providerPackageId value = parseId value ''ProviderPackageId'' PackageIdPattern"

definition configRevisionId :: "string \<Rightarrow> string pms" where
  "configRevisionId value = parseId value ''ConfigRevisionId'' UuidPattern"

definition auditEventId :: "string \<Rightarrow> string pms" where
  "auditEventId value = parseId value ''AuditEventId'' UuidPattern"

definition environmentId :: "string \<Rightarrow> string pms" where
  "environmentId value = parseId value ''EnvironmentId'' environment_id"

subsection \<open>entities.ts\<close>

datatype hosting_mode = Vendor_managed | Platform_managed

datatype provider_type_status = Type_active | Type_deprecated

datatype package_status = Package_available | Package_quarantined | Package_retired

datatype provider_status =
    Provider_draft | Provider_active | Provider_degraded | Provider_disabled | Provider_retired

datatype resource_status = Resource_available | Resource_unavailable | Resource_retired

datatype revision_status = Draft | Validated | Published | Superseded | Rejected_revision

datatype apply_mode = Hot_reload | Reconnect_required | Restart_required | Immutable

datatype target_type =
    Environment_target | Provider_type_target | Provider_target | Deployment_target
  | Instance_target | Collector_target

type_synonym date = "int option"

record provider_type =
  pt_providerTypeId :: string
  pt_displayName :: string
  pt_status :: provider_type_status
  pt_updatedAt :: "date option"

record provider_package =
  pk_packageId :: string
  pk_packageVersion :: string
  pk_providerTypeId :: string
  pk_hostingModes :: "hosting_mode list"
  pk_checksum :: string
  pk_status :: package_status
  pk_sourceDocument :: "jobj option"
  pk_updatedAt :: "date option"

record pms_provider =
  pv_providerId :: string
  pv_providerTypeId :: string
  pv_packageId :: "string option"
  pv_packageVersion :: "string option"
  pv_hostingMode :: hosting_mode
  pv_adapterEndpoint :: "string option"
  pv_status :: provider_status
  pv_updatedAt :: "date option"

text \<open>The input of \<open>createProvider\<close>: mode and status may be absent.\<close>

record provider_input =
  pn_providerId :: string
  pn_providerTypeId :: string
  pn_packageId :: "string option"
  pn_packageVersion :: "string option"
  pn_hostingMode :: "hosting_mode option"
  pn_adapterEndpoint :: "string option"
  pn_status :: "provider_status option"
  pn_updatedAt :: "date option"

record resource =
  rs_environment :: string
  rs_resourceId :: string
  rs_resourceType :: string
  rs_metadata :: jobj
  rs_status :: resource_status
  rs_updatedAt :: "date option"

record config_target =
  tg_environment :: string
  tg_targetType :: target_type
  tg_targetId :: string
  tg_configGroup :: string
  tg_dataId :: string

record config_revision =
  rv_revisionId :: string
  rv_target :: config_target
  rv_revision :: int
  rv_checksum :: string
  rv_applyMode :: apply_mode
  rv_status :: revision_status
  rv_content :: jobj
  rv_createdAt :: date

record audit_event =
  ae_auditEventId :: string
  ae_action :: string
  ae_actorId :: string
  ae_correlationId :: string
  ae_subjectType :: string
  ae_subjectId :: string
  ae_occurredAt :: date
  ae_metadata :: jobj

text \<open>\<open>(?:0|[1-9]\d*)\<close> at the front of a string: what follows it.\<close>

definition version_number :: "string \<Rightarrow> string option" where
  "version_number s =
     (let ds = takeWhile is_digit s
      in if ds = ''0'' \<or> (ds \<noteq> [] \<and> hd ds \<noteq> CHR ''0'') then Some (dropWhile is_digit s)
         else if ds \<noteq> [] then Some (tl s) else None)"

text \<open>
  \<open>requireSemver\<close>: three numbers separated by dots, then nothing or a dash and
  \<open>[0-9A-Za-z.-]+\<close>.
\<close>

definition semver :: "string \<Rightarrow> bool" where
  "semver s \<longleftrightarrow>
     (case Option.bind (Option.bind (version_number s) (expect (CHR ''.''))) (\<lambda>s1.
           Option.bind (Option.bind (version_number s1) (expect (CHR ''.''))) version_number) of
        None \<Rightarrow> False
      | Some [] \<Rightarrow> True
      | Some (c # r) \<Rightarrow>
          c = CHR ''-'' \<and> r \<noteq> [] \<and> list_all (\<lambda>x. is_alnum x \<or> x \<in> set ''.-'') r)"

definition requireSemver :: "string \<Rightarrow> unit pms" where
  "requireSemver value = throw_if (\<not> semver value) (invalidValue ''packageVersion'')"

definition sha256_text :: "string \<Rightarrow> bool" where
  "sha256_text s \<longleftrightarrow> length s = 64 \<and> list_all (\<lambda>c. is_digit c \<or> c \<in> set ''abcdef'') s"

definition requireSha256 :: "string \<Rightarrow> unit pms" where
  "requireSha256 value = throw_if (\<not> sha256_text value) (invalidValue ''checksum'')"

definition requireNonEmpty :: "string \<Rightarrow> string \<Rightarrow> unit pms" where
  "requireNonEmpty value field = throw_if (trim value = []) (invalidValue field)"

definition requireValidDate :: "date \<Rightarrow> string \<Rightarrow> unit pms" where
  "requireValidDate value field = throw_if (value = None) (invalidValue field)"

definition require_updated :: "date option \<Rightarrow> unit pms" where
  "require_updated u = (case u of None \<Rightarrow> Inr () | Some d \<Rightarrow> requireValidDate d ''updatedAt'')"

definition createProviderType :: "provider_type \<Rightarrow> provider_type pms" where
  "createProviderType i =
     bind_r (requireNonEmpty (pt_displayName i) ''displayName'') (\<lambda>_.
     bind_r (require_updated (pt_updatedAt i)) (\<lambda>_. Inr i))"

definition createProviderPackage :: "provider_package \<Rightarrow> provider_package pms" where
  "createProviderPackage i =
     bind_r (requireSemver (pk_packageVersion i)) (\<lambda>_.
     bind_r (requireSha256 (pk_checksum i)) (\<lambda>_.
     bind_r (throw_if (pk_hostingModes i = [] \<or> \<not> distinct (pk_hostingModes i))
               (invalidValue ''hostingModes'')) (\<lambda>_.
     bind_r (require_updated (pk_updatedAt i)) (\<lambda>_. Inr i))))"

definition createProvider :: "provider_input \<Rightarrow> pms_provider pms" where
  "createProvider i =
     (let hostingMode = (case pn_hostingMode i of None \<Rightarrow> Vendor_managed | Some m \<Rightarrow> m);
          status = (case pn_status i of None \<Rightarrow> Provider_draft | Some s \<Rightarrow> s)
      in bind_r (throw_if ((pn_packageId i = None) \<noteq> (pn_packageVersion i = None))
                   (invalidValue ''providerPackage'')) (\<lambda>_.
         bind_r (case pn_packageVersion i of None \<Rightarrow> Inr () | Some v \<Rightarrow> requireSemver v) (\<lambda>_.
         bind_r (require_updated (pn_updatedAt i)) (\<lambda>_.
         bind_r (throw_if (hostingMode = Vendor_managed \<and>
                   (case pn_adapterEndpoint i of None \<Rightarrow> False | Some e \<Rightarrow> trim e = []))
                   (invalidValue ''adapterEndpoint'')) (\<lambda>_.
           Inr \<lparr>pv_providerId = pn_providerId i, pv_providerTypeId = pn_providerTypeId i,
                pv_packageId = pn_packageId i, pv_packageVersion = pn_packageVersion i,
                pv_hostingMode = hostingMode, pv_adapterEndpoint = pn_adapterEndpoint i,
                pv_status = status, pv_updatedAt = pn_updatedAt i\<rparr>)))))"

definition createResource :: "resource \<Rightarrow> resource pms" where
  "createResource i =
     bind_r (requireNonEmpty (rs_resourceType i) ''resourceType'') (\<lambda>_.
     bind_r (require_updated (rs_updatedAt i)) (\<lambda>_. Inr i))"

definition createConfigRevision :: "config_revision \<Rightarrow> config_revision pms" where
  "createConfigRevision i =
     bind_r (throw_if (\<not> is_safe_integer (rv_revision i) \<or> rv_revision i < 1)
               (invalidValue ''revision'')) (\<lambda>_.
     bind_r (requireSha256 (rv_checksum i)) (\<lambda>_.
     bind_r (requireValidDate (rv_createdAt i) ''createdAt'') (\<lambda>_.
     bind_r (each_r (\<lambda>v. requireNonEmpty v ''configurationTarget'')
               [tg_targetId (rv_target i), tg_configGroup (rv_target i), tg_dataId (rv_target i)]) (\<lambda>_.
       Inr i))))"

definition createAuditEvent :: "audit_event \<Rightarrow> audit_event pms" where
  "createAuditEvent i =
     bind_r (each_r (\<lambda>(field, v). requireNonEmpty v field)
               [(''action'', ae_action i), (''actorId'', ae_actorId i),
                (''correlationId'', ae_correlationId i), (''subjectType'', ae_subjectType i),
                (''subjectId'', ae_subjectId i)]) (\<lambda>_.
     bind_r (requireValidDate (ae_occurredAt i) ''occurredAt'') (\<lambda>_. Inr i))"

subsection \<open>transitions.ts\<close>

fun ProviderTransitions :: "provider_status \<Rightarrow> provider_status list" where
  "ProviderTransitions Provider_draft = [Provider_active, Provider_disabled, Provider_retired]"
| "ProviderTransitions Provider_active = [Provider_degraded, Provider_disabled, Provider_retired]"
| "ProviderTransitions Provider_degraded = [Provider_active, Provider_disabled, Provider_retired]"
| "ProviderTransitions Provider_disabled = [Provider_active, Provider_retired]"
| "ProviderTransitions Provider_retired = []"

fun ConfigRevisionTransitions :: "revision_status \<Rightarrow> revision_status list" where
  "ConfigRevisionTransitions Draft = [Validated, Rejected_revision]"
| "ConfigRevisionTransitions Validated = [Published, Rejected_revision]"
| "ConfigRevisionTransitions Published = [Superseded]"
| "ConfigRevisionTransitions Superseded = []"
| "ConfigRevisionTransitions Rejected_revision = []"

definition assertTransition :: "string \<Rightarrow> 'a \<Rightarrow> 'a list \<Rightarrow> unit pms" where
  "assertTransition aggregate target allowed =
     throw_if (target \<notin> set allowed) (Domain_error INVALID_STATE_TRANSITION aggregate)"

definition transitionProvider :: "pms_provider \<Rightarrow> provider_status \<Rightarrow> pms_provider pms" where
  "transitionProvider p target =
     bind_r (assertTransition ''Provider'' target (ProviderTransitions (pv_status p))) (\<lambda>_.
       Inr (p\<lparr>pv_status := target\<rparr>))"

definition transitionConfigRevision :: "config_revision \<Rightarrow> revision_status \<Rightarrow> config_revision pms" where
  "transitionConfigRevision r target =
     bind_r (assertTransition ''ConfigRevision'' target (ConfigRevisionTransitions (rv_status r))) (\<lambda>_.
       Inr (r\<lparr>rv_status := target\<rparr>))"

subsection \<open>bindings.ts\<close>

text \<open>The key of a binding is the triple that its parts, which hold no NUL, are joined from.\<close>

record resource_binding =
  bd_providerId :: string
  bd_environment :: string
  bd_resourceId :: string
  bd_boundAt :: date

type_synonym bindings = "(string \<times> string \<times> string, resource_binding) jsmap"

definition bindingKey :: "resource_binding \<Rightarrow> string \<times> string \<times> string" where
  "bindingKey b = (bd_providerId b, bd_environment b, bd_resourceId b)"

definition bind_resource :: "bindings \<Rightarrow> resource_binding \<Rightarrow> bindings pms" where
  "bind_resource m b =
     (if js_has m (bindingKey b) then Inl (Domain_error DUPLICATE_RESOURCE_BINDING (bd_providerId b))
      else if bd_boundAt b = None then Inl (invalidValue ''boundAt'')
      else Inr (js_set (bindingKey b) b m))"

definition constructBindings :: "resource_binding list \<Rightarrow> bindings pms" where
  "constructBindings initial = fold_r bind_resource [] initial"

definition unbind :: "bindings \<Rightarrow> string \<times> string \<times> string \<Rightarrow> bindings pms" where
  "unbind m k =
     (if js_has m k then Inr (js_delete k m)
      else Inl (Domain_error RESOURCE_BINDING_NOT_FOUND (fst k)))"

definition forProvider :: "bindings \<Rightarrow> string \<Rightarrow> resource_binding list" where
  "forProvider m p = filter (\<lambda>b. bd_providerId b = p) (js_values m)"

definition forResource :: "bindings \<Rightarrow> string \<Rightarrow> string \<Rightarrow> resource_binding list" where
  "forResource m e r = filter (\<lambda>b. bd_environment b = e \<and> bd_resourceId b = r) (js_values m)"

subsection \<open>database-profile.ts\<close>

datatype database_mode = Provisioned | Preexisting

datatype ssl_mode = Ssl_disable | Ssl_require | Verify_ca | Verify_full

record database_profile =
  dp_profileId :: string
  dp_providerId :: string
  dp_environment :: string
  dp_clusterRef :: string
  dp_host :: string
  dp_port :: int
  dp_databaseMode :: database_mode
  dp_databaseName :: string
  dp_runtimeRoleName :: string
  dp_sslMode :: ssl_mode
  dp_adminSecretRef :: string
  dp_runtimeSecretRef :: string

text \<open>A mode or a reference that has no value of its type is \<open>Some None\<close> and \<open>None\<close>.\<close>

record profile_input =
  di_profileId :: string
  di_providerId :: string
  di_environment :: string
  di_clusterRef :: string
  di_host :: string
  di_port :: "int option"
  di_databaseMode :: "database_mode option option"
  di_databaseName :: "string option"
  di_sslMode :: "ssl_mode option option"
  di_adminSecretRef :: "string option"
  di_runtimeSecretRef :: "string option"

text \<open>\<open>SECRET_REF\<close>: \<open>/^[A-Za-z0-9][A-Za-z0-9._:/-]{0,255}$/\<close>.\<close>

definition secret_text :: "nat \<Rightarrow> string \<Rightarrow> bool" where
  "secret_text n s \<longleftrightarrow>
     (case s of [] \<Rightarrow> False
      | c # r \<Rightarrow> is_alnum c \<and> length r \<le> n \<and> list_all (\<lambda>x. is_alnum x \<or> x \<in> set ''._:/-'') r)"

text \<open>\<open>HOST\<close>: up to 253 characters, the first and the last alphanumeric.\<close>

definition host_text :: "string \<Rightarrow> bool" where
  "host_text s \<longleftrightarrow>
     s \<noteq> [] \<and> length s \<le> 253 \<and> is_alnum (hd s) \<and> is_alnum (last s) \<and>
     list_all (\<lambda>x. is_alnum x \<or> x \<in> set ''.-'') s"

text \<open>\<open>POSTGRES_IDENTIFIER\<close>: \<open>/^[a-z][a-z0-9_]{0,62}$/\<close>.\<close>

definition name_char :: "char \<Rightarrow> bool" where
  "name_char c \<longleftrightarrow> is_lower c \<or> is_digit c \<or> c = CHR ''_''"

definition postgres_identifier :: "string \<Rightarrow> bool" where
  "postgres_identifier s \<longleftrightarrow>
     (case s of [] \<Rightarrow> False | c # r \<Rightarrow> is_lower c \<and> length r \<le> 62 \<and> list_all name_char r)"

definition invalid_profile :: "string \<Rightarrow> pms_error" where
  "invalid_profile field = Domain_error INVALID_DOMAIN_VALUE field"

definition parse_text :: "string \<Rightarrow> string \<Rightarrow> (string \<Rightarrow> bool) \<Rightarrow> string pms" where
  "parse_text value field pattern = (if pattern value then Inr value else Inl (invalid_profile field))"

definition databaseProfileId :: "string \<Rightarrow> string pms" where
  "databaseProfileId value = parse_text value ''profileId'' logical_id"

definition databaseClusterRef :: "string \<Rightarrow> string pms" where
  "databaseClusterRef value = parse_text value ''clusterRef'' logical_id"

definition secretRef :: "string \<Rightarrow> string pms" where
  "secretRef value = parse_text value ''secretRef'' (secret_text 255)"

text \<open>The bytes of \<open>new TextEncoder().encode(value)\<close>.\<close>

definition utf8_bytes :: "char \<Rightarrow> int list" where
  "utf8_bytes c =
     (let n = (of_char c :: int) in if n < 128 then [n] else [192 + n div 64, 128 + n mod 64])"

text \<open>FNV-1a over 64 bits; \<open>BigInt.asUintN(64, ...)\<close> is the product of words.\<close>

definition fnv_step :: "64 word \<Rightarrow> int \<Rightarrow> 64 word" where
  "fnv_step h b = (h XOR word_of_int b) * 0x100000001b3"

definition fnv_hash :: "string \<Rightarrow> 64 word" where
  "fnv_hash value = foldl fnv_step 0xcbf29ce484222325 (concat (map utf8_bytes value))"

text \<open>\<open>toString(16).padStart(16, "0")\<close>: the 16 hexadecimal digits of a word.\<close>

definition hex_text :: "nat \<Rightarrow> string" where
  "hex_text n = map (\<lambda>i. hex_digit (n div 16 ^ (15 - i) mod 16)) [0..<16]"

definition stableDigest :: "string \<Rightarrow> string" where
  "stableDigest value = take 12 (hex_text (unat (fnv_hash value)))"

text \<open>\<open>replace(/[^a-z0-9]+/g, "_")\<close> and the trimming of underscores at both ends.\<close>

fun join_words :: "bool \<Rightarrow> string \<Rightarrow> string" where
  "join_words gap [] = []"
| "join_words gap (c # cs) =
     (if is_lower c \<or> is_digit c then c # join_words False cs
      else if gap then join_words True cs
      else CHR ''_'' # join_words True cs)"

definition trim_underscores :: "string \<Rightarrow> string" where
  "trim_underscores s =
     rev (dropWhile ((=) (CHR ''_'')) (rev (dropWhile ((=) (CHR ''_'')) s)))"

definition providerDatabaseNames :: "string \<Rightarrow> string \<times> string" where
  "providerDatabaseNames provider =
     (let slug = or_string (take 30 (trim_underscores (join_words False (map lower_char provider))))
                   ''provider'';
          suffix = stableDigest provider
      in (''sdar_rt_'' @ slug @ ''_'' @ suffix, ''sdar_rt_'' @ slug @ ''_'' @ suffix @ ''_app''))"

definition preexistingDatabaseNames :: "string \<Rightarrow> (string \<times> string) pms" where
  "preexistingDatabaseNames databaseName =
     bind_r (parse_text databaseName ''databaseName'' postgres_identifier) (\<lambda>name.
       Inr (name,
            if length (name @ ''_app'') \<le> 63 then name @ ''_app''
            else take 46 name @ ''_'' @ stableDigest name @ ''_app''))"

definition normalizeHost :: "string \<Rightarrow> string pms" where
  "normalizeHost value =
     (let host = map lower_char (trim value)
      in if \<not> host_text host \<or> sublist ''..'' host then Inl (invalid_profile ''host'') else Inr host)"

definition createDatabaseProfile :: "profile_input \<Rightarrow> database_profile pms" where
  "createDatabaseProfile i =
     bind_r (databaseProfileId (di_profileId i)) (\<lambda>profileId.
     bind_r (databaseClusterRef (di_clusterRef i)) (\<lambda>clusterRef.
     bind_r (normalizeHost (di_host i)) (\<lambda>host.
       (let port = (case di_port i of None \<Rightarrow> 5432 | Some n \<Rightarrow> n);
            mode = (case di_databaseMode i of None \<Rightarrow> Some Provisioned | Some m \<Rightarrow> m);
            ssl = (case di_sslMode i of None \<Rightarrow> Some Verify_full | Some m \<Rightarrow> m)
        in if \<not> is_safe_integer port \<or> port < 1 \<or> port > 65535 then Inl (invalid_profile ''port'')
           else
             (case (mode, ssl, di_adminSecretRef i, di_runtimeSecretRef i) of
                (None, _, _, _) \<Rightarrow> Inl (invalid_profile ''databaseMode'')
              | (_, None, _, _) \<Rightarrow> Inl (invalid_profile ''sslMode'')
              | (Some m, Some l, Some adminRef, Some runtimeRef) \<Rightarrow>
                  if adminRef = runtimeRef then Inl (invalid_profile ''secretSeparation'')
                  else
                    bind_r (case di_databaseName i of
                              None \<Rightarrow> Inr (providerDatabaseNames (di_providerId i))
                            | Some n \<Rightarrow>
                                if m = Preexisting then preexistingDatabaseNames n
                                else Inl (invalid_profile ''databaseName'')) (\<lambda>names.
                    bind_r (secretRef adminRef) (\<lambda>a.
                    bind_r (secretRef runtimeRef) (\<lambda>r.
                      Inr \<lparr>dp_profileId = profileId, dp_providerId = di_providerId i,
                           dp_environment = di_environment i, dp_clusterRef = clusterRef,
                           dp_host = host, dp_port = port, dp_databaseMode = m,
                           dp_databaseName = fst names, dp_runtimeRoleName = snd names,
                           dp_sslMode = l, dp_adminSecretRef = a, dp_runtimeSecretRef = r\<rparr>)))
              | _ \<Rightarrow> Inl (invalid_profile ''secretRef''))))))"

lemma digest_examples:
  "fnv_hash [] = 0xcbf29ce484222325"
  "fnv_hash ''a'' = 0xaf63dc4c8601ec8c"
  by (simp_all add: fnv_hash_def fnv_step_def utf8_bytes_def)

subsection \<open>Names of databases and roles\<close>

lemma hex_digit_name: "n < 16 \<Longrightarrow> name_char (hex_digit n)"
proof -
  have "list_all (\<lambda>k. name_char (hex_digit k)) [0..<16]" by code_simp
  then show "n < 16 \<Longrightarrow> name_char (hex_digit n)" by (simp add: list_all_iff)
qed

lemma stableDigest_shape: "length (stableDigest s) = 12 \<and> list_all name_char (stableDigest s)"
proof -
  have "list_all name_char (hex_text n)" for n
    by (auto simp: hex_text_def list_all_iff intro: hex_digit_name)
  then show ?thesis by (simp add: stableDigest_def take_all hex_text_def)
qed

lemma join_words_names: "list_all name_char (join_words gap s)"
  by (induction gap s rule: join_words.induct) (auto simp: name_char_def)

lemma trim_underscores_all: "list_all P s \<Longrightarrow> list_all P (trim_underscores s)"
  by (simp add: trim_underscores_def dropWhile_all list_all_rev)

lemma provider_names_valid:
  "postgres_identifier (fst (providerDatabaseNames p)) \<and>
   snd (providerDatabaseNames p) = fst (providerDatabaseNames p) @ ''_app'' \<and>
   length (fst (providerDatabaseNames p)) \<le> 51"
proof -
  define words where
    "words = or_string (take 30 (trim_underscores (join_words False (map lower_char p)))) ''provider''"
  have w: "list_all name_char words" "length words \<le> 30"
    by (simp_all add: words_def or_string_def take_all trim_underscores_all join_words_names
        name_char_def is_lower_def)
  have "providerDatabaseNames p =
      (''sdar_rt_'' @ words @ ''_'' @ stableDigest p, ''sdar_rt_'' @ words @ ''_'' @ stableDigest p @ ''_app'')"
    by (simp add: providerDatabaseNames_def words_def Let_def)
  then show ?thesis using w stableDigest_shape [of p]
    by (simp add: postgres_identifier_def is_lower_def name_char_def)
qed

lemma postgres_name: "postgres_identifier s \<longleftrightarrow> s \<noteq> [] \<and> is_lower (hd s) \<and> length s \<le> 63 \<and> list_all name_char s"
  by (cases s) (auto simp: postgres_identifier_def name_char_def)

lemma preexisting_names_valid:
  assumes "preexistingDatabaseNames n = Inr names"
  shows "postgres_identifier (fst names) \<and> postgres_identifier (snd names) \<and> fst names = n \<and>
    (length n \<le> 59 \<longrightarrow> snd names = n @ ''_app'')"
proof -
  from assms have n: "postgres_identifier n"
    "names = (n, if length (n @ ''_app'') \<le> 63 then n @ ''_app''
                 else take 46 n @ ''_'' @ stableDigest n @ ''_app'')"
    by (auto simp: preexistingDatabaseNames_def parse_text_def bind_r_Inr split: if_splits)
  have "hd (take 46 n) = hd n" using n(1) by (cases n) (simp_all add: postgres_identifier_def)
  then show ?thesis using n stableDigest_shape [of n]
    by (auto simp: postgres_name take_all name_char_def is_lower_def hd_append)
qed

text \<open>
  Every accepted database profile names a database and a Runtime role that PostgreSQL takes as they
  are: both start with a letter, hold only lower-case letters, digits and underscores, and are not longer
  than the 63 bytes at which PostgreSQL cuts a name off. The role is the database name with \<open>_app\<close>
  except for names of 60 to 63 characters, names are only chosen for databases that exist already, the
  two secrets differ and the port is one.
\<close>

theorem database_names_valid:
  assumes "createDatabaseProfile i = Inr p"
  shows "postgres_identifier (dp_databaseName p) \<and> postgres_identifier (dp_runtimeRoleName p) \<and>
    (length (dp_databaseName p) \<le> 59 \<longrightarrow> dp_runtimeRoleName p = dp_databaseName p @ ''_app'') \<and>
    (case di_databaseName i of
       None \<Rightarrow> (dp_databaseName p, dp_runtimeRoleName p) = providerDatabaseNames (dp_providerId p)
     | Some n \<Rightarrow> dp_databaseMode p = Preexisting \<and> dp_databaseName p = n) \<and>
    dp_adminSecretRef p \<noteq> dp_runtimeSecretRef p \<and> 1 \<le> dp_port p \<and> dp_port p \<le> 65535"
proof -
  from assms obtain m l a r names where p:
    "di_adminSecretRef i = Some a" "di_runtimeSecretRef i = Some r" "a \<noteq> r"
    "secretRef a = Inr (dp_adminSecretRef p)" "secretRef r = Inr (dp_runtimeSecretRef p)"
    "(case di_databaseName i of None \<Rightarrow> Inr (providerDatabaseNames (di_providerId i))
      | Some n \<Rightarrow> if m = Preexisting then preexistingDatabaseNames n
                  else Inl (invalid_profile ''databaseName'')) = Inr names"
    "dp_databaseMode p = m" "dp_providerId p = di_providerId i"
    "dp_databaseName p = fst names" "dp_runtimeRoleName p = snd names"
    "1 \<le> dp_port p" "dp_port p \<le> 65535"
    by (auto simp: createDatabaseProfile_def bind_r_Inr Let_def not_less split: if_splits option.splits)
  have "dp_adminSecretRef p \<noteq> dp_runtimeSecretRef p"
    using p(3-5) by (auto simp: secretRef_def parse_text_def split: if_splits)
  moreover have "postgres_identifier (fst names) \<and> postgres_identifier (snd names) \<and>
      (length (fst names) \<le> 59 \<longrightarrow> snd names = fst names @ ''_app'')"
  proof (cases "di_databaseName i")
    case None
    then show ?thesis using p(6) provider_names_valid [of "di_providerId i"]
      by (auto simp: postgres_name name_char_def is_lower_def hd_append)
  next
    case (Some n)
    then have "preexistingDatabaseNames n = Inr names" using p(6) by (auto split: if_splits)
    from preexisting_names_valid [OF this] show ?thesis by metis
  qed
  moreover have "m = Preexisting \<and> fst names = n" if "di_databaseName i = Some n" for n
    using that p(6) preexisting_names_valid [of n names] by (auto split: if_splits)
  ultimately show ?thesis using p by (auto split: option.splits)
qed

definition example_profile :: profile_input where
  "example_profile =
     \<lparr>di_profileId = ''p1'', di_providerId = ''Provider:1'', di_environment = ''prod'',
      di_clusterRef = ''c1'', di_host = ''DB.example.org'', di_port = None, di_databaseMode = Some (Some Preexisting),
      di_databaseName = Some (replicate 63 (CHR ''d'')), di_sslMode = None,
      di_adminSecretRef = Some ''a'', di_runtimeSecretRef = Some ''r''\<rparr>"

theorem database_names_valid_witness:
  "\<exists>p. createDatabaseProfile example_profile = Inr p \<and>
     length (dp_databaseName p) = 63 \<and> length (dp_runtimeRoleName p) = 63 \<and>
     postgres_identifier (dp_runtimeRoleName p)"
proof -
  let ?n = "replicate 63 (CHR ''d'')"
  have n: "preexistingDatabaseNames ?n = Inr (?n, take 46 ?n @ ''_'' @ stableDigest ?n @ ''_app'')"
    by (simp add: preexistingDatabaseNames_def parse_text_def postgres_name name_char_def is_lower_def
        list_all_iff)
  have "databaseProfileId ''p1'' = Inr ''p1''" "databaseClusterRef ''c1'' = Inr ''c1''"
    "normalizeHost ''DB.example.org'' = Inr ''db.example.org''"
    "secretRef ''a'' = Inr ''a''" "secretRef ''r'' = Inr ''r''"
    by code_simp+
  then obtain p where p: "createDatabaseProfile example_profile = Inr p" "dp_databaseName p = ?n"
      "dp_runtimeRoleName p = take 46 ?n @ ''_'' @ stableDigest ?n @ ''_app''"
    using n by (simp add: createDatabaseProfile_def example_profile_def is_safe_integer_def MAX_SAFE_def)
  from database_names_valid [OF p(1)] p stableDigest_shape [of ?n] show ?thesis by auto
qed

end
