(* ===== verification/PmsStore.thy ===== *)
theory PmsStore
  imports PmsDomain Interfaces
begin

text \<open>
  packages/pms-persistence-postgres/src: shared.ts, catalog-repositories.ts and the audit of
  audit-job-repositories.ts, over the tables of migrations/pms/001 to 003. A table is the list of its
  rows in insertion order; a statement is one step on it. Beside each row stands its \<open>updated_at\<close> in
  microseconds; the driver reads it as a \<open>Date\<close> of whole milliseconds. Modelled of the constraints are
  the keys, the references and those checks that the domain does not make itself. The order of texts in
  the database is the parameter \<open>collate\<close>; a \<open>jsonb\<close> value is kept as it was written; the clock of the
  database is an argument of each statement that reads it.
\<close>

subsection \<open>shared.ts\<close>

text \<open>The cursor of a request is given by its \<open>Number\<close>, \<open>None\<close> when that is no safe integer.\<close>

record page_request =
  pr_limit :: int
  pr_cursor :: "int option option"

record 'a page =
  pg_items :: "'a list"
  pg_nextCursor :: "int option"

definition pageLimit :: "page_request \<Rightarrow> nat pms" where
  "pageLimit p =
     (if \<not> is_safe_integer (pr_limit p) \<or> pr_limit p < 1 \<or> pr_limit p > 500
      then Inl (Range_error ''PMS_PAGE_LIMIT_INVALID'') else Inr (nat (pr_limit p)))"

definition pageOffset :: "page_request \<Rightarrow> nat pms" where
  "pageOffset p =
     (case pr_cursor p of
        None \<Rightarrow> Inr 0
      | Some None \<Rightarrow> Inl (Range_error ''PMS_PAGE_CURSOR_INVALID'')
      | Some (Some n) \<Rightarrow>
          if n < 0 then Inl (Range_error ''PMS_PAGE_CURSOR_INVALID'') else Inr (nat n))"

definition toPage :: "'a list \<Rightarrow> page_request \<Rightarrow> 'a page pms" where
  "toPage rows p =
     bind_r (pageLimit p) (\<lambda>limit.
     bind_r (pageOffset p) (\<lambda>offset.
       Inr \<lparr>pg_items = take limit rows,
            pg_nextCursor = (if length rows > limit then Some (int (offset + limit)) else None)\<rparr>))"

text \<open>\<open>OFFSET\<close> and \<open>LIMIT\<close> of a query that asks for one row more than the page holds.\<close>

definition select_page :: "('a \<Rightarrow> 'b pms) \<Rightarrow> 'a list \<Rightarrow> page_request \<Rightarrow> 'b page pms" where
  "select_page from_row rows p =
     bind_r (pageOffset p) (\<lambda>offset.
     bind_r (pageLimit p) (\<lambda>limit.
     bind_r (map_r from_row (take (limit + 1) (drop offset rows))) (\<lambda>values. toPage values p)))"

definition already_exists :: "string \<Rightarrow> pms_error" where
  "already_exists aggregate = Repository_error ENTITY_ALREADY_EXISTS aggregate"

definition concurrencyConflict :: "string \<Rightarrow> pms_error" where
  "concurrencyConflict aggregate = Repository_error OPTIMISTIC_CONCURRENCY_CONFLICT aggregate"

text \<open>The text of an \<open>uuid\<close> is compared without its case.\<close>

definition uuid :: "string \<Rightarrow> string" where
  "uuid s = map lower_char s"

subsection \<open>Tables\<close>

type_synonym ('k, 'v) rows = "('k, 'v \<times> int) jsmap"

record catalog =
  db_types :: "(string, provider_type) rows"
  db_packages :: "(string \<times> string, provider_package) rows"
  db_providers :: "(string, pms_provider) rows"
  db_resources :: "(string \<times> string, resource) rows"
  db_bindings :: "(string \<times> string \<times> string, resource_binding) jsmap"
  db_audit :: "audit_event list"

definition read_time :: "int \<Rightarrow> date option" where
  "read_time t = Some (Some (t div 1000))"

text \<open>
  The optimistic update of a row: it must carry the expected time to the millisecond, and gets the time
  \<open>GREATEST(clock_timestamp(), date_trunc('milliseconds', updated_at) + interval '1 millisecond')\<close>.
\<close>

definition matches_time :: "int \<Rightarrow> int \<Rightarrow> bool" where
  "matches_time expected t \<longleftrightarrow> expected * 1000 \<le> t \<and> t < expected * 1000 + 1000"

definition next_time :: "int \<Rightarrow> int \<Rightarrow> int" where
  "next_time clock t = max clock (t div 1000 * 1000 + 1000)"

definition update_row ::
    "string \<Rightarrow> ('v \<Rightarrow> bool) \<Rightarrow> 'k \<Rightarrow> 'v \<Rightarrow> date \<Rightarrow> int \<Rightarrow> ('k, 'v) rows \<Rightarrow> ('k, 'v) rows pms" where
  "update_row aggregate where_also k v expected clock m =
     (case expected of
        None \<Rightarrow> Inl (Database_error ''22007'')
      | Some e \<Rightarrow>
          (case js_get m k of
             None \<Rightarrow> Inl (concurrencyConflict aggregate)
           | Some (old, t) \<Rightarrow>
               if where_also old \<and> matches_time e t then Inr (js_set k (v, next_time clock t) m)
               else Inl (concurrencyConflict aggregate)))"

definition insert_unique :: "string \<Rightarrow> 'k \<Rightarrow> 'v \<Rightarrow> ('k, 'v) jsmap \<Rightarrow> ('k, 'v) jsmap pms" where
  "insert_unique aggregate k v m =
     (if js_has m k then Inl (already_exists aggregate) else Inr (js_set k v m))"

text \<open>\<open>expectedUpdatedAt\<close> of a \<open>SavePrecondition\<close>, or an insertion.\<close>

datatype save_precondition = Save_insert | Save_update date

subsection \<open>Provider types\<close>

definition providerTypeFromRow :: "provider_type \<times> int \<Rightarrow> provider_type pms" where
  "providerTypeFromRow r =
     bind_r (providerTypeId (pt_providerTypeId (fst r))) (\<lambda>_.
       createProviderType ((fst r)\<lparr>pt_updatedAt := read_time (snd r)\<rparr>))"

definition get_type :: "catalog \<Rightarrow> string \<Rightarrow> provider_type option pms" where
  "get_type db i =
     (case js_get (db_types db) i of
        None \<Rightarrow> Inr None | Some r \<Rightarrow> bind_r (providerTypeFromRow r) (\<lambda>v. Inr (Some v)))"

definition list_types ::
    "(string \<Rightarrow> string \<Rightarrow> bool) \<Rightarrow> catalog \<Rightarrow> page_request \<Rightarrow> provider_type_status option \<Rightarrow> provider_type page pms"
where
  "list_types collate db p status =
     select_page providerTypeFromRow
       (order_by (\<lambda>x y. collate (pt_providerTypeId (fst x)) (pt_providerTypeId (fst y)))
         (filter (\<lambda>r. status = None \<or> status = Some (pt_status (fst r))) (js_values (db_types db)))) p"

definition save_type :: "catalog \<Rightarrow> provider_type \<Rightarrow> save_precondition \<Rightarrow> int \<Rightarrow> catalog pms" where
  "save_type db v precondition clock =
     bind_r
       (case precondition of
          Save_insert \<Rightarrow> insert_unique ''ProviderType'' (pt_providerTypeId v) (v, clock) (db_types db)
        | Save_update expected \<Rightarrow>
            update_row ''ProviderType'' (\<lambda>_. True) (pt_providerTypeId v) v expected clock (db_types db))
       (\<lambda>m. Inr (db\<lparr>db_types := m\<rparr>))"

subsection \<open>Provider packages\<close>

definition objectField :: "jobj \<Rightarrow> string \<Rightarrow> jobj" where
  "objectField kvs k = (case js_get kvs k of Some (JObj m) \<Rightarrow> m | _ \<Rightarrow> [])"

definition stringField :: "jobj \<Rightarrow> string \<Rightarrow> string option" where
  "stringField kvs k = (case js_get kvs k of Some (JStr s) \<Rightarrow> Some s | _ \<Rightarrow> None)"

text \<open>\<open>btrim(t) <> ''\<close>: some character is no space.\<close>

definition not_blank :: "string \<Rightarrow> bool" where
  "not_blank s \<longleftrightarrow> list_ex (\<lambda>c. c \<noteq> CHR '' '') s"

definition migrationSet :: "provider_package \<Rightarrow> string option" where
  "migrationSet v =
     (case pk_sourceDocument v of
        None \<Rightarrow> None | Some d \<Rightarrow> stringField (objectField d ''adapter'') ''migrationSet'')"

definition package_checks :: "provider_package \<Rightarrow> unit pms" where
  "package_checks v =
     throw_if (case migrationSet v of None \<Rightarrow> False | Some s \<Rightarrow> \<not> not_blank s) (Database_error ''23514'')"

text \<open>The column \<open>source_document\<close> is never null: an absent document is written as an empty one.\<close>

definition package_row :: "provider_package \<Rightarrow> provider_package" where
  "package_row v = v\<lparr>pk_sourceDocument := Some (case pk_sourceDocument v of None \<Rightarrow> [] | Some d \<Rightarrow> d)\<rparr>"

definition providerPackageFromRow :: "provider_package \<times> int \<Rightarrow> provider_package pms" where
  "providerPackageFromRow r =
     bind_r (providerPackageId (pk_packageId (fst r))) (\<lambda>_.
     bind_r (providerTypeId (pk_providerTypeId (fst r))) (\<lambda>_.
       createProviderPackage ((fst r)\<lparr>pk_updatedAt := read_time (snd r)\<rparr>)))"

definition get_package :: "catalog \<Rightarrow> string \<times> string \<Rightarrow> provider_package option pms" where
  "get_package db k =
     (case js_get (db_packages db) k of
        None \<Rightarrow> Inr None | Some r \<Rightarrow> bind_r (providerPackageFromRow r) (\<lambda>v. Inr (Some v)))"

definition list_packages ::
    "(string \<Rightarrow> string \<Rightarrow> bool) \<Rightarrow> catalog \<Rightarrow> page_request \<Rightarrow> string option \<Rightarrow> package_status option
       \<Rightarrow> provider_package page pms" where
  "list_packages collate db p typeId status =
     select_page providerPackageFromRow
       (order_by (then_by (\<lambda>x y. collate (pk_packageId (fst x)) (pk_packageId (fst y)))
                          (\<lambda>x y. collate (pk_packageVersion (fst x)) (pk_packageVersion (fst y))))
         (filter (\<lambda>r. (typeId = None \<or> typeId = Some (pk_providerTypeId (fst r))) \<and>
                      (status = None \<or> status = Some (pk_status (fst r)))) (js_values (db_packages db)))) p"

definition save_package :: "catalog \<Rightarrow> provider_package \<Rightarrow> save_precondition \<Rightarrow> int \<Rightarrow> catalog pms" where
  "save_package db v precondition clock =
     (let k = (pk_packageId v, pk_packageVersion v)
      in bind_r
           (case precondition of
              Save_insert \<Rightarrow>
                bind_r (package_checks v) (\<lambda>_.
                if list_ex (\<lambda>r. pk_providerTypeId (fst r) = pk_providerTypeId v \<and>
                       pk_packageVersion (fst r) = pk_packageVersion v) (js_values (db_packages db))
                then Inl (already_exists ''ProviderPackage'')
                else
                  bind_r (insert_unique ''ProviderPackage'' k (package_row v, clock) (db_packages db)) (\<lambda>m.
                  bind_r (throw_if (\<not> js_has (db_types db) (pk_providerTypeId v)) (Database_error ''23503''))
                    (\<lambda>_. Inr m)))
            | Save_update expected \<Rightarrow>
                bind_r (update_row ''ProviderPackage'' (\<lambda>old. pk_providerTypeId old = pk_providerTypeId v)
                          k (package_row v) expected clock (db_packages db)) (\<lambda>m.
                bind_r (package_checks v) (\<lambda>_. Inr m)))
           (\<lambda>m. Inr (db\<lparr>db_packages := m\<rparr>)))"

subsection \<open>Providers\<close>

definition provider_checks :: "pms_provider \<Rightarrow> unit pms" where
  "provider_checks v =
     throw_if (case pv_adapterEndpoint v of None \<Rightarrow> False | Some e \<Rightarrow> \<not> not_blank e)
       (Database_error ''23514'')"

definition provider_references :: "catalog \<Rightarrow> pms_provider \<Rightarrow> unit pms" where
  "provider_references db v =
     throw_if
       (\<not> js_has (db_types db) (pv_providerTypeId v) \<or>
        (case (pv_packageId v, pv_packageVersion v) of
           (Some i, Some n) \<Rightarrow> \<not> js_has (db_packages db) (i, n) | _ \<Rightarrow> False))
       (Database_error ''23503'')"

definition providerFromRow :: "pms_provider \<times> int \<Rightarrow> pms_provider pms" where
  "providerFromRow r =
     (let v = fst r
      in bind_r (throw_if ((pv_packageId v = None) \<noteq> (pv_packageVersion v = None))
                   (Center_error ''PMS_PROVIDER_PACKAGE_IDENTITY_CORRUPT'')) (\<lambda>_.
         bind_r (case pv_packageId v of None \<Rightarrow> Inr [] | Some i \<Rightarrow> providerPackageId i) (\<lambda>_.
         bind_r (providerId (pv_providerId v)) (\<lambda>_.
         bind_r (providerTypeId (pv_providerTypeId v)) (\<lambda>_.
           createProvider
             \<lparr>pn_providerId = pv_providerId v, pn_providerTypeId = pv_providerTypeId v,
              pn_packageId = pv_packageId v, pn_packageVersion = pv_packageVersion v,
              pn_hostingMode = Some (pv_hostingMode v), pn_adapterEndpoint = pv_adapterEndpoint v,
              pn_status = Some (pv_status v), pn_updatedAt = read_time (snd r)\<rparr>)))))"

definition get_provider :: "catalog \<Rightarrow> string \<Rightarrow> pms_provider option pms" where
  "get_provider db i =
     (case js_get (db_providers db) i of
        None \<Rightarrow> Inr None | Some r \<Rightarrow> bind_r (providerFromRow r) (\<lambda>v. Inr (Some v)))"

definition list_providers ::
    "(string \<Rightarrow> string \<Rightarrow> bool) \<Rightarrow> catalog \<Rightarrow> page_request \<Rightarrow> string option \<Rightarrow> hosting_mode option
       \<Rightarrow> provider_status option \<Rightarrow> pms_provider page pms" where
  "list_providers collate db p typeId mode status =
     select_page providerFromRow
       (order_by (\<lambda>x y. collate (pv_providerId (fst x)) (pv_providerId (fst y)))
         (filter (\<lambda>r. (typeId = None \<or> typeId = Some (pv_providerTypeId (fst r))) \<and>
                      (mode = None \<or> mode = Some (pv_hostingMode (fst r))) \<and>
                      (status = None \<or> status = Some (pv_status (fst r)))) (js_values (db_providers db)))) p"

definition insert_provider :: "catalog \<Rightarrow> pms_provider \<Rightarrow> int \<Rightarrow> catalog pms" where
  "insert_provider db v clock =
     bind_r (provider_checks v) (\<lambda>_.
     bind_r (insert_unique ''Provider'' (pv_providerId v) (v, clock) (db_providers db)) (\<lambda>m.
     bind_r (provider_references db v) (\<lambda>_. Inr (db\<lparr>db_providers := m\<rparr>))))"

definition update_provider :: "catalog \<Rightarrow> pms_provider \<Rightarrow> date \<Rightarrow> int \<Rightarrow> catalog pms" where
  "update_provider db v expected clock =
     bind_r (update_row ''Provider'' (\<lambda>_. True) (pv_providerId v) v expected clock (db_providers db)) (\<lambda>m.
     bind_r (provider_checks v) (\<lambda>_.
     bind_r (provider_references db v) (\<lambda>_. Inr (db\<lparr>db_providers := m\<rparr>))))"

subsection \<open>Resources\<close>

definition resource_key :: "resource \<Rightarrow> string \<times> string" where
  "resource_key v = (rs_environment v, rs_resourceId v)"

definition resourceFromRow :: "resource \<times> int \<Rightarrow> resource pms" where
  "resourceFromRow r =
     bind_r (environmentId (rs_environment (fst r))) (\<lambda>_.
     bind_r (resourceId (rs_resourceId (fst r))) (\<lambda>_.
       createResource ((fst r)\<lparr>rs_updatedAt := read_time (snd r)\<rparr>)))"

definition get_resource :: "catalog \<Rightarrow> string \<times> string \<Rightarrow> resource option pms" where
  "get_resource db k =
     (case js_get (db_resources db) k of
        None \<Rightarrow> Inr None | Some r \<Rightarrow> bind_r (resourceFromRow r) (\<lambda>v. Inr (Some v)))"

definition list_resources ::
    "(string \<Rightarrow> string \<Rightarrow> bool) \<Rightarrow> catalog \<Rightarrow> page_request \<Rightarrow> string \<Rightarrow> string option
       \<Rightarrow> resource_status option \<Rightarrow> resource page pms" where
  "list_resources collate db p environment type status =
     select_page resourceFromRow
       (order_by (\<lambda>x y. collate (rs_resourceId (fst x)) (rs_resourceId (fst y)))
         (filter (\<lambda>r. rs_environment (fst r) = environment \<and>
                      (type = None \<or> type = Some (rs_resourceType (fst r))) \<and>
                      (status = None \<or> status = Some (rs_status (fst r)))) (js_values (db_resources db)))) p"

definition insert_resource :: "catalog \<Rightarrow> resource \<Rightarrow> int \<Rightarrow> catalog pms" where
  "insert_resource db v clock =
     bind_r (insert_unique ''Resource'' (resource_key v) (v, clock) (db_resources db)) (\<lambda>m.
       Inr (db\<lparr>db_resources := m\<rparr>))"

definition update_resource :: "catalog \<Rightarrow> resource \<Rightarrow> date \<Rightarrow> int \<Rightarrow> catalog pms" where
  "update_resource db v expected clock =
     bind_r (update_row ''Resource'' (\<lambda>_. True) (resource_key v) v expected clock (db_resources db)) (\<lambda>m.
       Inr (db\<lparr>db_resources := m\<rparr>))"

subsection \<open>Bindings\<close>

definition bind_row :: "catalog \<Rightarrow> resource_binding \<Rightarrow> catalog pms" where
  "bind_row db b =
     bind_r (insert_unique ''ProviderResourceBinding'' (bindingKey b) b (db_bindings db)) (\<lambda>m.
     bind_r (throw_if (\<not> js_has (db_providers db) (bd_providerId b) \<or>
               \<not> js_has (db_resources db) (bd_environment b, bd_resourceId b)) (Database_error ''23503'')) (\<lambda>_.
       Inr (db\<lparr>db_bindings := m\<rparr>)))"

definition unbind_row :: "catalog \<Rightarrow> string \<Rightarrow> string \<times> string \<Rightarrow> catalog pms" where
  "unbind_row db provider k =
     (if js_has (db_bindings db) (provider, k)
      then Inr (db\<lparr>db_bindings := js_delete (provider, k) (db_bindings db)\<rparr>)
      else Inl (concurrencyConflict ''ProviderResourceBinding''))"

definition bindingFromRow :: "resource_binding \<Rightarrow> resource_binding pms" where
  "bindingFromRow b =
     bind_r (providerId (bd_providerId b)) (\<lambda>_.
     bind_r (environmentId (bd_environment b)) (\<lambda>_.
     bind_r (resourceId (bd_resourceId b)) (\<lambda>_. Inr b)))"

definition listByProvider ::
    "(string \<Rightarrow> string \<Rightarrow> bool) \<Rightarrow> catalog \<Rightarrow> string \<Rightarrow> resource_binding list pms" where
  "listByProvider collate db provider =
     map_r bindingFromRow
       (order_by (then_by (\<lambda>x y. collate (bd_environment x) (bd_environment y))
                          (\<lambda>x y. collate (bd_resourceId x) (bd_resourceId y)))
         (forProvider (db_bindings db) provider))"

definition listByResource ::
    "(string \<Rightarrow> string \<Rightarrow> bool) \<Rightarrow> catalog \<Rightarrow> string \<times> string \<Rightarrow> resource_binding list pms" where
  "listByResource collate db k =
     map_r bindingFromRow
       (order_by (\<lambda>x y. collate (bd_providerId x) (bd_providerId y))
         (forResource (db_bindings db) (fst k) (snd k)))"

subsection \<open>Audit\<close>

definition audit_row :: "audit_event \<Rightarrow> audit_event" where
  "audit_row e = e\<lparr>ae_auditEventId := uuid (ae_auditEventId e)\<rparr>"

definition append_audit :: "catalog \<Rightarrow> audit_event \<Rightarrow> catalog pms" where
  "append_audit db e =
     (if uuid (ae_auditEventId e) \<in> set (map ae_auditEventId (db_audit db))
      then Inl (already_exists ''AuditEvent'')
      else Inr (db\<lparr>db_audit := db_audit db @ [audit_row e]\<rparr>))"

record audit_query =
  aq_page :: page_request
  aq_subjectType :: "string option"
  aq_subjectId :: "string option"
  aq_correlationId :: "string option"
  aq_occurredBefore :: "int option"

definition auditFromRow :: "audit_event \<Rightarrow> audit_event pms" where
  "auditFromRow e = bind_r (auditEventId (ae_auditEventId e)) (\<lambda>_. createAuditEvent e)"

definition audit_later :: "audit_event \<Rightarrow> audit_event \<Rightarrow> bool" where
  "audit_later x y \<longleftrightarrow>
     (case (ae_occurredAt x, ae_occurredAt y) of (Some a, Some b) \<Rightarrow> b < a | _ \<Rightarrow> False)"

definition list_audit :: "catalog \<Rightarrow> audit_query \<Rightarrow> audit_event page pms" where
  "list_audit db q =
     select_page auditFromRow
       (order_by (then_by audit_later (\<lambda>x y. string_less (ae_auditEventId y) (ae_auditEventId x)))
         (filter (\<lambda>e. (aq_subjectType q = None \<or> aq_subjectType q = Some (ae_subjectType e)) \<and>
                      (aq_subjectId q = None \<or> aq_subjectId q = Some (ae_subjectId e)) \<and>
                      (aq_correlationId q = None \<or> aq_correlationId q = Some (ae_correlationId e)) \<and>
                      (case (aq_occurredBefore q, ae_occurredAt e) of
                         (Some b, Some t) \<Rightarrow> t < b | _ \<Rightarrow> True))
           (db_audit db))) (aq_page q)"


subsection \<open>Lemmas on rows\<close>

lemma insert_row_mset: "mset (insert_row f x xs) = add_mset x (mset xs)"
  by (induction xs) auto

lemma order_by_mset: "mset (order_by f xs) = mset xs"
proof -
  have "mset (foldr (insert_row f) xs []) = mset xs" by (induction xs) (auto simp: insert_row_mset)
  then show ?thesis by (simp add: order_by_def)
qed

lemma order_by_set [simp]: "set (order_by f xs) = set xs"
  by (metis order_by_mset set_mset_mset)

lemma map_r_total: "(\<And>x. x \<in> set xs \<Longrightarrow> is_ok (f x)) \<Longrightarrow> is_ok (map_r f xs)"
  by (induction xs) (fastforce simp: is_ok_iff)+

lemma map_r_id: "(\<And>x. x \<in> set xs \<Longrightarrow> f x = Inr x) \<Longrightarrow> map_r f xs = Inr xs"
  by (induction xs) auto

lemma map_r_set: "map_r f xs = Inr ys \<Longrightarrow> y \<in> set ys \<longleftrightarrow> (\<exists>x \<in> set xs. f x = Inr y)"
  by (induction xs arbitrary: ys) (auto simp: result_simps)

end
