(* ===== verification/PmsProviders.thy ===== *)
theory PmsProviders
  imports PmsStore
begin

text \<open>
  packages/pms-application/src: audit-service.ts, provider-management.ts and
  provider-package-sync.ts, over the tables of PmsStore. A service operation is one transaction: it returns
  the tables it leaves, and an error leaves them as they were; transactions run one after the other. A
  call brings the clock of the database, the clock of the process and the identifiers it draws.
\<close>

subsection \<open>audit-service.ts\<close>

record audit_context =
  au_actorId :: string
  au_correlationId :: string

record call =
  cl_clock :: int
  cl_now :: int
  cl_uuid :: string

definition requireAuditContext :: "audit_context \<Rightarrow> unit pms" where
  "requireAuditContext c =
     throw_if (trim (au_actorId c) = [] \<or> trim (au_correlationId c) = [])
       (Range_error ''PMS_AUDIT_CONTEXT_INVALID'')"

definition audit_entry ::
    "audit_context \<Rightarrow> call \<Rightarrow> string \<Rightarrow> string \<Rightarrow> string \<Rightarrow> jobj \<Rightarrow> audit_event" where
  "audit_entry c k action subjectType subjectId metadata =
     \<lparr>ae_auditEventId = cl_uuid k, ae_action = action, ae_actorId = au_actorId c,
      ae_correlationId = au_correlationId c, ae_subjectType = subjectType, ae_subjectId = subjectId,
      ae_occurredAt = Some (cl_now k), ae_metadata = metadata\<rparr>"

definition appendAudit ::
    "catalog \<Rightarrow> audit_context \<Rightarrow> call \<Rightarrow> string \<Rightarrow> string \<Rightarrow> string \<Rightarrow> jobj \<Rightarrow> catalog pms" where
  "appendAudit db c k action subjectType subjectId metadata =
     bind_r (auditEventId (cl_uuid k)) (\<lambda>_.
     bind_r (createAuditEvent (audit_entry c k action subjectType subjectId metadata)) (\<lambda>e.
       append_audit db e))"

text \<open>\<open>AuditService.record\<close>, whose clock may be given by the caller.\<close>

definition record_audit ::
    "catalog \<Rightarrow> audit_context \<Rightarrow> string \<Rightarrow> date \<Rightarrow> string \<Rightarrow> string \<Rightarrow> string \<Rightarrow> jobj option
       \<Rightarrow> (catalog \<times> audit_event) pms" where
  "record_audit db c newId now action subjectType subjectId metadata =
     bind_r (requireAuditContext c) (\<lambda>_.
     bind_r (auditEventId newId) (\<lambda>i.
     bind_r (createAuditEvent
               \<lparr>ae_auditEventId = i, ae_action = action, ae_actorId = au_actorId c,
                ae_correlationId = au_correlationId c, ae_subjectType = subjectType,
                ae_subjectId = subjectId, ae_occurredAt = now,
                ae_metadata = (case metadata of None \<Rightarrow> [] | Some m \<Rightarrow> m)\<rparr>) (\<lambda>e.
     bind_r (append_audit db e) (\<lambda>db'. Inr (db', e)))))"

subsection \<open>provider-management.ts\<close>

definition required :: "'a option pms \<Rightarrow> string \<Rightarrow> 'a pms" where
  "required m aggregate =
     bind_r m (\<lambda>v. case v of None \<Rightarrow> Inl (Repository_error ENTITY_NOT_FOUND aggregate) | Some x \<Rightarrow> Inr x)"

definition invalidTransition :: pms_error where
  "invalidTransition = Domain_error INVALID_STATE_TRANSITION []"

definition create_provider_type ::
    "catalog \<Rightarrow> call \<Rightarrow> audit_context \<Rightarrow> string \<Rightarrow> string \<Rightarrow> (catalog \<times> provider_type) pms" where
  "create_provider_type db k c typeId displayName =
     bind_r (requireAuditContext c) (\<lambda>_.
     bind_r (providerTypeId typeId) (\<lambda>i.
     bind_r (createProviderType
               \<lparr>pt_providerTypeId = i, pt_displayName = displayName, pt_status = Type_active,
                pt_updatedAt = None\<rparr>) (\<lambda>v.
     bind_r (save_type db v Save_insert (cl_clock k)) (\<lambda>db1.
     bind_r (required (get_type db1 i) ''ProviderType'') (\<lambda>persisted.
     bind_r (appendAudit db1 c k ''provider_type.created'' ''provider_type'' i []) (\<lambda>db2.
       Inr (db2, persisted)))))))"

definition update_provider_type_status ::
    "catalog \<Rightarrow> call \<Rightarrow> audit_context \<Rightarrow> string \<Rightarrow> provider_type_status \<Rightarrow> date \<Rightarrow> (catalog \<times> provider_type) pms"
where
  "update_provider_type_status db k c typeId status expected =
     bind_r (requireAuditContext c) (\<lambda>_.
     bind_r (providerTypeId typeId) (\<lambda>i.
     bind_r (required (get_type db i) ''ProviderType'') (\<lambda>existing.
     bind_r (throw_if (pt_status existing \<noteq> Type_active \<or> status \<noteq> Type_deprecated) invalidTransition) (\<lambda>_.
     bind_r (createProviderType (existing\<lparr>pt_status := status\<rparr>)) (\<lambda>updated.
     bind_r (save_type db updated (Save_update expected) (cl_clock k)) (\<lambda>db1.
     bind_r (required (get_type db1 (pt_providerTypeId updated)) ''ProviderType'') (\<lambda>persisted.
     bind_r (appendAudit db1 c k ''provider_type.status_updated'' ''provider_type''
               (pt_providerTypeId updated)
               [(''status'', JStr (if status = Type_active then ''active'' else ''deprecated''))]) (\<lambda>db2.
       Inr (db2, persisted)))))))))"

fun hosting_name :: "hosting_mode \<Rightarrow> string" where
  "hosting_name Vendor_managed = ''vendor_managed''"
| "hosting_name Platform_managed = ''platform_managed''"

fun provider_status_name :: "provider_status \<Rightarrow> string" where
  "provider_status_name Provider_draft = ''draft''"
| "provider_status_name Provider_active = ''active''"
| "provider_status_name Provider_degraded = ''degraded''"
| "provider_status_name Provider_disabled = ''disabled''"
| "provider_status_name Provider_retired = ''retired''"

fun resource_status_name :: "resource_status \<Rightarrow> string" where
  "resource_status_name Resource_available = ''available''"
| "resource_status_name Resource_unavailable = ''unavailable''"
| "resource_status_name Resource_retired = ''retired''"

definition optional :: "('a \<Rightarrow> 'b pms) \<Rightarrow> 'a option \<Rightarrow> 'b option pms" where
  "optional f v = (case v of None \<Rightarrow> Inr None | Some x \<Rightarrow> bind_r (f x) (\<lambda>y. Inr (Some y)))"

text \<open>The input has no status and no time.\<close>

definition create_provider ::
    "catalog \<Rightarrow> call \<Rightarrow> audit_context \<Rightarrow> provider_input \<Rightarrow> (catalog \<times> pms_provider) pms" where
  "create_provider db k c i =
     bind_r (requireAuditContext c) (\<lambda>_.
     bind_r (providerId (pn_providerId i)) (\<lambda>_.
     bind_r (providerTypeId (pn_providerTypeId i)) (\<lambda>_.
     bind_r (optional providerPackageId (pn_packageId i)) (\<lambda>_.
     bind_r (createProvider (i\<lparr>pn_status := None, pn_updatedAt := None\<rparr>)) (\<lambda>v.
     bind_r (required (get_type db (pv_providerTypeId v)) ''ProviderType'') (\<lambda>_.
     bind_r (case (pv_packageId v, pv_packageVersion v) of
               (Some p, Some n) \<Rightarrow> bind_r (required (get_package db (p, n)) ''ProviderPackage'') (\<lambda>_. Inr ())
             | _ \<Rightarrow> Inr ()) (\<lambda>_.
     bind_r (insert_provider db v (cl_clock k)) (\<lambda>db1.
     bind_r (required (get_provider db1 (pv_providerId v)) ''Provider'') (\<lambda>persisted.
     bind_r (appendAudit db1 c k ''provider.created'' ''provider'' (pv_providerId v)
               [(''hostingMode'', JStr (hosting_name (pv_hostingMode v)))]) (\<lambda>db2.
       Inr (db2, persisted)))))))))))"

definition update_provider_status ::
    "catalog \<Rightarrow> call \<Rightarrow> audit_context \<Rightarrow> string \<Rightarrow> provider_status \<Rightarrow> date \<Rightarrow> (catalog \<times> pms_provider) pms"
where
  "update_provider_status db k c i status expected =
     bind_r (requireAuditContext c) (\<lambda>_.
     bind_r (providerId i) (\<lambda>_.
     bind_r (required (get_provider db i) ''Provider'') (\<lambda>existing.
     bind_r (transitionProvider existing status) (\<lambda>updated.
     bind_r (update_provider db updated expected (cl_clock k)) (\<lambda>db1.
     bind_r (required (get_provider db1 (pv_providerId updated)) ''Provider'') (\<lambda>persisted.
     bind_r (appendAudit db1 c k ''provider.status_updated'' ''provider'' (pv_providerId updated)
               [(''status'', JStr (provider_status_name status))]) (\<lambda>db2.
       Inr (db2, persisted))))))))"

definition resourceKey :: "string \<Rightarrow> string \<Rightarrow> (string \<times> string) pms" where
  "resourceKey environment i =
     bind_r (environmentId environment) (\<lambda>e. bind_r (resourceId i) (\<lambda>r. Inr (e, r)))"

definition subject_of :: "resource \<Rightarrow> string" where
  "subject_of v = rs_environment v @ '':'' @ rs_resourceId v"

definition create_resource ::
    "catalog \<Rightarrow> call \<Rightarrow> audit_context \<Rightarrow> string \<Rightarrow> string \<Rightarrow> string \<Rightarrow> jobj \<Rightarrow> (catalog \<times> resource) pms" where
  "create_resource db k c environment i resourceType metadata =
     bind_r (requireAuditContext c) (\<lambda>_.
     bind_r (resourceKey environment i) (\<lambda>key.
     bind_r (createResource
               \<lparr>rs_environment = fst key, rs_resourceId = snd key, rs_resourceType = resourceType,
                rs_metadata = metadata, rs_status = Resource_available, rs_updatedAt = None\<rparr>) (\<lambda>v.
     bind_r (insert_resource db v (cl_clock k)) (\<lambda>db1.
     bind_r (required (get_resource db1 key) ''Resource'') (\<lambda>persisted.
     bind_r (appendAudit db1 c k ''resource.created'' ''resource'' (subject_of v) []) (\<lambda>db2.
       Inr (db2, persisted)))))))"

fun resource_allowed :: "resource_status \<Rightarrow> resource_status list" where
  "resource_allowed Resource_available = [Resource_unavailable, Resource_retired]"
| "resource_allowed Resource_unavailable = [Resource_available, Resource_retired]"
| "resource_allowed Resource_retired = []"

definition assertResourceTransition :: "resource_status \<Rightarrow> resource_status \<Rightarrow> unit pms" where
  "assertResourceTransition current target =
     throw_if (target \<notin> set (resource_allowed current)) invalidTransition"

definition update_resource_status ::
    "catalog \<Rightarrow> call \<Rightarrow> audit_context \<Rightarrow> string \<Rightarrow> string \<Rightarrow> resource_status \<Rightarrow> date \<Rightarrow> (catalog \<times> resource) pms"
where
  "update_resource_status db k c environment i status expected =
     bind_r (requireAuditContext c) (\<lambda>_.
     bind_r (resourceKey environment i) (\<lambda>key.
     bind_r (required (get_resource db key) ''Resource'') (\<lambda>existing.
     bind_r (assertResourceTransition (rs_status existing) status) (\<lambda>_.
     bind_r (createResource (existing\<lparr>rs_status := status\<rparr>)) (\<lambda>updated.
     bind_r (update_resource db updated expected (cl_clock k)) (\<lambda>db1.
     bind_r (required (get_resource db1 key) ''Resource'') (\<lambda>persisted.
     bind_r (appendAudit db1 c k ''resource.status_updated'' ''resource'' (subject_of updated)
               [(''status'', JStr (resource_status_name status))]) (\<lambda>db2.
       Inr (db2, persisted)))))))))"

text \<open>\<open>Object.keys(metadata).sort()\<close>.\<close>

definition sorted_keys :: "jobj \<Rightarrow> string list" where
  "sorted_keys kvs = map fst (sort_entries kvs)"

definition update_resource_metadata ::
    "catalog \<Rightarrow> call \<Rightarrow> audit_context \<Rightarrow> string \<Rightarrow> string \<Rightarrow> jobj \<Rightarrow> date \<Rightarrow> (catalog \<times> resource) pms" where
  "update_resource_metadata db k c environment i metadata expected =
     bind_r (requireAuditContext c) (\<lambda>_.
     bind_r (resourceKey environment i) (\<lambda>key.
     bind_r (required (get_resource db key) ''Resource'') (\<lambda>existing.
     bind_r (createResource (existing\<lparr>rs_metadata := metadata\<rparr>)) (\<lambda>updated.
     bind_r (update_resource db updated expected (cl_clock k)) (\<lambda>db1.
     bind_r (required (get_resource db1 key) ''Resource'') (\<lambda>persisted.
     bind_r (appendAudit db1 c k ''resource.metadata_updated'' ''resource'' (subject_of updated)
               [(''updatedFields'', JArr (map JStr (sorted_keys metadata)))]) (\<lambda>db2.
       Inr (db2, persisted))))))))"

definition binding_metadata :: "string \<times> string \<Rightarrow> jobj" where
  "binding_metadata key = [(''environment'', JStr (fst key)), (''resourceId'', JStr (snd key))]"

definition bindResource ::
    "catalog \<Rightarrow> call \<Rightarrow> audit_context \<Rightarrow> string \<Rightarrow> string \<Rightarrow> string \<Rightarrow> (catalog \<times> resource_binding) pms" where
  "bindResource db k c provider environment i =
     bind_r (requireAuditContext c) (\<lambda>_.
     bind_r (providerId provider) (\<lambda>p.
     bind_r (resourceKey environment i) (\<lambda>key.
     bind_r (required (get_provider db p) ''Provider'') (\<lambda>_.
     bind_r (required (get_resource db key) ''Resource'') (\<lambda>_.
       (let b = \<lparr>bd_providerId = p, bd_environment = fst key, bd_resourceId = snd key,
                 bd_boundAt = Some (cl_now k)\<rparr>
        in bind_r (bind_row db b) (\<lambda>db1.
           bind_r (appendAudit db1 c k ''provider.resource_bound'' ''provider'' p (binding_metadata key))
             (\<lambda>db2. Inr (db2, b)))))))))"

definition unbindResource ::
    "catalog \<Rightarrow> call \<Rightarrow> audit_context \<Rightarrow> string \<Rightarrow> string \<Rightarrow> string \<Rightarrow> catalog pms" where
  "unbindResource db k c provider environment i =
     bind_r (requireAuditContext c) (\<lambda>_.
     bind_r (providerId provider) (\<lambda>p.
     bind_r (resourceKey environment i) (\<lambda>key.
     bind_r (unbind_row db p key) (\<lambda>db1.
       appendAudit db1 c k ''provider.resource_unbound'' ''provider'' p (binding_metadata key)))))"

subsection \<open>provider-package-sync.ts\<close>

record sync_counts =
  sy_inserted :: nat
  sy_updated :: nat
  sy_unchanged :: nat

text \<open>
  A package that \<open>validateProviderPackage\<close> accepted, with its document as JSON. The document is stored
  with sorted members; its checksum is that of its canonical text, hashed by the parameter \<open>sha256_hex\<close>.
\<close>

record registry_package =
  rp_packageId :: string
  rp_packageVersion :: string
  rp_providerType :: string
  rp_hostingModes :: "hosting_mode list"
  rp_componentStatus :: string
  rp_document :: jobj

fun sorted_json :: "json \<Rightarrow> json" where
  "sorted_json (JArr vs) = JArr (map sorted_json vs)"
| "sorted_json (JObj kvs) = JObj (sort_entries (map (\<lambda>(k, v). (k, sorted_json v)) kvs))"
| "sorted_json v = v"

definition packageStatus :: "registry_package \<Rightarrow> package_status" where
  "packageStatus p =
     (if rp_componentStatus p = ''failed'' then Package_quarantined else Package_available)"

definition projectPackage ::
    "(rat \<Rightarrow> string) \<Rightarrow> (string \<Rightarrow> string) \<Rightarrow> registry_package \<Rightarrow> provider_package pms" where
  "projectPackage num_string sha256_hex p =
     bind_r (providerPackageId (rp_packageId p)) (\<lambda>i.
     bind_r (providerTypeId (rp_providerType p)) (\<lambda>t.
       createProviderPackage
         \<lparr>pk_packageId = i, pk_packageVersion = rp_packageVersion p, pk_providerTypeId = t,
          pk_hostingModes = rp_hostingModes p,
          pk_checksum = sha256_hex (serialize num_string (JObj (rp_document p))),
          pk_status = packageStatus p,
          pk_sourceDocument = Some (case sorted_json (JObj (rp_document p)) of JObj d \<Rightarrow> d | _ \<Rightarrow> []),
          pk_updatedAt = None\<rparr>))"

text \<open>One round of the loop over the projected packages; each draws its own identifier and clocks.\<close>

definition sync_type :: "catalog \<Rightarrow> string \<Rightarrow> int \<Rightarrow> catalog pms" where
  "sync_type db typeId clock =
     bind_r (get_type db typeId) (\<lambda>existing.
     case existing of
       Some _ \<Rightarrow> Inr db
     | None \<Rightarrow>
         bind_r (createProviderType
                   \<lparr>pt_providerTypeId = typeId, pt_displayName = typeId, pt_status = Type_active,
                    pt_updatedAt = None\<rparr>) (\<lambda>t.
           save_type db t Save_insert clock))"

definition write_package ::
    "catalog \<Rightarrow> sync_counts \<Rightarrow> provider_package \<Rightarrow> provider_package option \<Rightarrow> int \<Rightarrow> (catalog \<times> sync_counts) pms"
where
  "write_package db n v existing clock =
     (case existing of
        None \<Rightarrow>
          bind_r (save_package db v Save_insert clock) (\<lambda>db'.
            Inr (db', n\<lparr>sy_inserted := Suc (sy_inserted n)\<rparr>))
      | Some e \<Rightarrow>
          (case pk_updatedAt e of
             None \<Rightarrow> Inl (Center_error ''PMS_PROVIDER_PACKAGE_UPDATED_AT_MISSING'')
           | Some expected \<Rightarrow>
               bind_r (save_package db v (Save_update expected) clock) (\<lambda>db'.
                 Inr (db', n\<lparr>sy_updated := Suc (sy_updated n)\<rparr>))))"

definition sync_package ::
    "audit_context \<Rightarrow> catalog \<times> sync_counts \<Rightarrow> provider_package \<times> call \<Rightarrow> (catalog \<times> sync_counts) pms" where
  "sync_package c s p =
     (let v = fst p; k = snd p; n = snd s
      in bind_r (sync_type (fst s) (pk_providerTypeId v) (cl_clock k)) (\<lambda>db.
         bind_r (get_package db (pk_packageId v, pk_packageVersion v)) (\<lambda>existing.
         if map_option pk_checksum existing = Some (pk_checksum v)
         then Inr (db, n\<lparr>sy_unchanged := Suc (sy_unchanged n)\<rparr>)
         else
           bind_r (write_package db n v existing (cl_clock k)) (\<lambda>r.
           bind_r (appendAudit (fst r) c k
                     (if existing = None then ''provider_package.imported'' else ''provider_package.updated'')
                     ''provider_package'' (pk_packageId v @ ''@'' @ pk_packageVersion v)
                     [(''checksum'', JStr (pk_checksum v))]) (\<lambda>db2.
             Inr (db2, snd r))))))"

definition synchronize ::
    "(rat \<Rightarrow> string) \<Rightarrow> (string \<Rightarrow> string) \<Rightarrow> catalog \<Rightarrow> audit_context \<Rightarrow> (registry_package \<times> call) list
       \<Rightarrow> (catalog \<times> sync_counts) pms" where
  "synchronize num_string sha256_hex db c inputs =
     bind_r (throw_if (trim (au_actorId c) = [] \<or> trim (au_correlationId c) = [])
               (Range_error ''PMS_PACKAGE_SYNC_AUDIT_CONTEXT_INVALID'')) (\<lambda>_.
     bind_r (map_r (\<lambda>p. projectPackage num_string sha256_hex (fst p)) inputs) (\<lambda>projections.
       fold_r (sync_package c) (db, \<lparr>sy_inserted = 0, sy_updated = 0, sy_unchanged = 0\<rparr>)
         (zip projections (map snd inputs))))"

end
