(* ===== verification/PmsCatalog.thy ===== *)
theory PmsCatalog
  imports PmsProviders
begin

text \<open>
  The catalog of the control plane under every sequence of its service operations. \<open>pms_step\<close> is one call
  of provider-management.ts or provider-package-sync.ts, \<open>change\<close> what a call may do to the tables;
  every call is a sequence of changes, from which the invariants, the life cycles and the fencing of
  updates follow.
\<close>

subsection \<open>Calls\<close>

datatype pms_op =
    Create_provider_type string string
  | Set_provider_type_status string provider_type_status date
  | Create_provider provider_input
  | Set_provider_status string provider_status date
  | Create_resource string string string jobj
  | Set_resource_status string string resource_status date
  | Set_resource_metadata string string jobj date
  | Bind_resource string string string
  | Unbind_resource string string string
  | Synchronize "(registry_package \<times> call) list"

type_synonym request = "audit_context \<times> call \<times> pms_op"

fun perform ::
    "(rat \<Rightarrow> string) \<Rightarrow> (string \<Rightarrow> string) \<Rightarrow> catalog \<Rightarrow> audit_context \<Rightarrow> call \<Rightarrow> pms_op \<Rightarrow> catalog pms" where
  "perform ns sh db c k (Create_provider_type i n) = bind_r (create_provider_type db k c i n) (\<lambda>r. Inr (fst r))"
| "perform ns sh db c k (Set_provider_type_status i s e) =
     bind_r (update_provider_type_status db k c i s e) (\<lambda>r. Inr (fst r))"
| "perform ns sh db c k (Create_provider i) = bind_r (create_provider db k c i) (\<lambda>r. Inr (fst r))"
| "perform ns sh db c k (Set_provider_status i s e) =
     bind_r (update_provider_status db k c i s e) (\<lambda>r. Inr (fst r))"
| "perform ns sh db c k (Create_resource n i t m) =
     bind_r (create_resource db k c n i t m) (\<lambda>r. Inr (fst r))"
| "perform ns sh db c k (Set_resource_status n i s e) =
     bind_r (update_resource_status db k c n i s e) (\<lambda>r. Inr (fst r))"
| "perform ns sh db c k (Set_resource_metadata n i m e) =
     bind_r (update_resource_metadata db k c n i m e) (\<lambda>r. Inr (fst r))"
| "perform ns sh db c k (Bind_resource p n i) = bind_r (bindResource db k c p n i) (\<lambda>r. Inr (fst r))"
| "perform ns sh db c k (Unbind_resource p n i) = unbindResource db k c p n i"
| "perform ns sh db c k (Synchronize ps) = bind_r (synchronize ns sh db c ps) (\<lambda>r. Inr (fst r))"

definition pms_step ::
    "(rat \<Rightarrow> string) \<Rightarrow> (string \<Rightarrow> string) \<Rightarrow> catalog \<Rightarrow> request \<Rightarrow> (catalog \<times> bool) pms" where
  "pms_step ns sh db r = bind_r (perform ns sh db (fst r) (fst (snd r)) (snd (snd r))) (\<lambda>db'. Inr (db', True))"

definition empty_catalog :: catalog where
  "empty_catalog =
     \<lparr>db_types = [], db_packages = [], db_providers = [], db_resources = [], db_bindings = [], db_audit = []\<rparr>"

subsection \<open>What a row may become\<close>

definition type_moves :: "provider_type \<Rightarrow> provider_type \<Rightarrow> bool" where
  "type_moves v w \<longleftrightarrow>
     pt_status v = Type_active \<and> pt_status w = Type_deprecated \<and>
     pt_providerTypeId w = pt_providerTypeId v \<and> pt_displayName w = pt_displayName v"

definition package_moves :: "provider_package \<Rightarrow> provider_package \<Rightarrow> bool" where
  "package_moves v w \<longleftrightarrow>
     pk_packageId w = pk_packageId v \<and> pk_packageVersion w = pk_packageVersion v \<and>
     pk_providerTypeId w = pk_providerTypeId v"

definition provider_identity ::
    "pms_provider \<Rightarrow> string \<times> string \<times> string option \<times> string option \<times> hosting_mode \<times> string option" where
  "provider_identity v =
     (pv_providerId v, pv_providerTypeId v, pv_packageId v, pv_packageVersion v, pv_hostingMode v,
      pv_adapterEndpoint v)"

definition provider_moves :: "pms_provider \<Rightarrow> pms_provider \<Rightarrow> bool" where
  "provider_moves v w \<longleftrightarrow>
     pv_status w \<in> set (ProviderTransitions (pv_status v)) \<and> provider_identity w = provider_identity v"

definition resource_moves :: "resource \<Rightarrow> resource \<Rightarrow> bool" where
  "resource_moves v w \<longleftrightarrow>
     resource_key w = resource_key v \<and> rs_resourceType w = rs_resourceType v \<and>
     (rs_status w \<in> set (resource_allowed (rs_status v)) \<and> rs_metadata w = rs_metadata v \<or>
      rs_status w = rs_status v)"

text \<open>A row is written: a new one, or one that moves and whose time passes to a later millisecond.\<close>

definition written ::
    "('v \<Rightarrow> 'v \<Rightarrow> bool) \<Rightarrow> ('k, 'v) rows \<Rightarrow> 'k \<Rightarrow> 'v \<Rightarrow> int \<Rightarrow> bool" where
  "written moves m k v t \<longleftrightarrow>
     (case js_get m k of None \<Rightarrow> True | Some (old, t0) \<Rightarrow> moves old v \<and> t0 div 1000 < t div 1000)"

inductive change :: "catalog \<Rightarrow> catalog \<Rightarrow> bool" where
  type_written:
    "written type_moves (db_types db) (pt_providerTypeId v) v t \<Longrightarrow> is_ok (providerTypeFromRow (v, t)) \<Longrightarrow>
     change db (db\<lparr>db_types := js_set (pt_providerTypeId v) (v, t) (db_types db)\<rparr>)"
| package_written:
    "written package_moves (db_packages db) (pk_packageId v, pk_packageVersion v) v t \<Longrightarrow>
     is_ok (providerPackageFromRow (v, t)) \<Longrightarrow> js_has (db_types db) (pk_providerTypeId v) \<Longrightarrow>
     change db (db\<lparr>db_packages := js_set (pk_packageId v, pk_packageVersion v) (v, t) (db_packages db)\<rparr>)"
| provider_written:
    "written provider_moves (db_providers db) (pv_providerId v) v t \<Longrightarrow>
     is_ok (providerFromRow (v, t)) \<Longrightarrow> provider_references db v = Inr () \<Longrightarrow>
     change db (db\<lparr>db_providers := js_set (pv_providerId v) (v, t) (db_providers db)\<rparr>)"
| resource_written:
    "written resource_moves (db_resources db) (resource_key v) v t \<Longrightarrow> is_ok (resourceFromRow (v, t)) \<Longrightarrow>
     change db (db\<lparr>db_resources := js_set (resource_key v) (v, t) (db_resources db)\<rparr>)"
| bound:
    "bind_row db b = Inr db' \<Longrightarrow> bindingFromRow b = Inr b \<Longrightarrow> change db db'"
| unbound: "unbind_row db p k = Inr db' \<Longrightarrow> change db db'"
| audited: "append_audit db e = Inr db' \<Longrightarrow> createAuditEvent e = Inr e \<Longrightarrow>
     auditEventId (ae_auditEventId e) = Inr i \<Longrightarrow> change db db'"

abbreviation changes :: "catalog \<Rightarrow> catalog \<Rightarrow> bool" where
  "changes \<equiv> change\<^sup>*\<^sup>*"

inductive_cases change_cases: "change db db'"

subsection \<open>The invariant\<close>

definition catalog_ok :: "catalog \<Rightarrow> bool" where
  "catalog_ok db \<longleftrightarrow>
     distinct (js_keys (db_types db)) \<and> distinct (js_keys (db_packages db)) \<and>
     distinct (js_keys (db_providers db)) \<and> distinct (js_keys (db_resources db)) \<and>
     distinct (js_keys (db_bindings db)) \<and>
     (\<forall>i v t. js_get (db_types db) i = Some (v, t) \<longrightarrow>
        pt_providerTypeId v = i \<and> is_ok (providerTypeFromRow (v, t))) \<and>
     (\<forall>k v t. js_get (db_packages db) k = Some (v, t) \<longrightarrow>
        (pk_packageId v, pk_packageVersion v) = k \<and> is_ok (providerPackageFromRow (v, t)) \<and>
        js_has (db_types db) (pk_providerTypeId v)) \<and>
     (\<forall>i v t. js_get (db_providers db) i = Some (v, t) \<longrightarrow>
        pv_providerId v = i \<and> is_ok (providerFromRow (v, t)) \<and> provider_references db v = Inr ()) \<and>
     (\<forall>k v t. js_get (db_resources db) k = Some (v, t) \<longrightarrow>
        resource_key v = k \<and> is_ok (resourceFromRow (v, t))) \<and>
     (\<forall>k b. js_get (db_bindings db) k = Some b \<longrightarrow>
        bindingKey b = k \<and> bindingFromRow b = Inr b \<and> js_has (db_providers db) (bd_providerId b) \<and>
        js_has (db_resources db) (bd_environment b, bd_resourceId b)) \<and>
     distinct (map ae_auditEventId (db_audit db)) \<and>
     (\<forall>e \<in> set (db_audit db). auditFromRow e = Inr e)"

lemma empty_catalog_ok: "catalog_ok empty_catalog"
  by (simp add: catalog_ok_def empty_catalog_def)

lemma references_kept:
  assumes "provider_references db v = Inr ()"
    and "\<And>i. js_has (db_types db) i \<Longrightarrow> js_has (db_types db') i"
    and "\<And>k. js_has (db_packages db) k \<Longrightarrow> js_has (db_packages db') k"
  shows "provider_references db' v = Inr ()"
  using assms by (auto simp: provider_references_def split: option.splits)

lemma upper_lowered: "is_upper c \<Longrightarrow> \<not> is_upper (char_of ((of_char c :: nat) + 32))"
  by (simp add: is_upper_def Let_def)

lemma lower_idem [simp]: "lower_char (lower_char c) = lower_char c"
  using upper_lowered [of c] by (simp add: lower_char_def)

lemma lower_dash [simp]: "lower_char c = CHR ''-'' \<longleftrightarrow> c = CHR ''-''"
proof
  assume l: "lower_char c = CHR ''-''"
  show "c = CHR ''-''"
  proof (cases "is_upper c")
    case True
    with l have "(char_of ((of_char c :: nat) + 32) :: char) = CHR ''-''" by (simp add: lower_char_def)
    then have "of_char (char_of ((of_char c :: nat) + 32) :: char) = (of_char CHR ''-'' :: nat)" by (rule arg_cong)
    then show ?thesis using True by (simp add: is_upper_def Let_def)
  qed (use l in \<open>simp add: lower_char_def\<close>)
qed (simp add: lower_char_def is_upper_def)

lemma split_on_lower:
  "split_on (CHR ''-'') (map lower_char s) = map (map lower_char) (split_on (CHR ''-'') s)"
  by (induction s) (auto split: list.splits)

lemma lower_digit: "is_digit c \<Longrightarrow> lower_char c = c"
  using of_nat_of_char [of c, where ?'a = int]
  by (auto simp: is_digit_def digit_val_def lower_char_def is_upper_def Let_def split: if_splits)

lemma hex_lower: "hex_either_case c \<Longrightarrow> hex_either_case (lower_char c)"
  by (auto simp: hex_either_case_def lower_digit)

lemma lower_in: "c \<in> set ''12345678'' \<Longrightarrow> lower_char c \<in> set ''12345678''"
  by (auto simp: lower_char_def is_upper_def)

lemma uuid_valid:
  assumes "UuidPattern s" shows "UuidPattern (uuid s)"
proof -
  from assms obtain a b c d e where p: "split_on (CHR ''-'') s = [a, b, c, d, e]"
    "length a = 8" "length b = 4" "length c = 4" "length d = 4" "length e = 12"
    "list_all hex_either_case (a @ b @ c @ d @ e)" "hd c \<in> set ''12345678''"
    "lower_char (hd d) \<in> set ''89ab''"
    unfolding UuidPattern_def by (auto split: list.splits simp del: set_simps)
  have "hd (map lower_char c) = lower_char (hd c)" "hd (map lower_char d) = lower_char (hd d)"
    using p by (auto intro!: hd_map)
  with p show ?thesis
    using lower_in [of "hd c"] hex_lower
    by (simp add: UuidPattern_def uuid_def split_on_lower list_all_iff del: set_simps)
      (fastforce simp del: set_simps)
qed

lemma uuid_idem [simp]: "uuid (uuid s) = uuid s"
  by (simp add: uuid_def)

subsection \<open>Statements as changes\<close>

lemma insert_written:
  "insert_unique a k (v, t) m = Inr m' \<Longrightarrow> m' = js_set k (v, t) m \<and> written moves m k v t"
  by (auto simp: insert_unique_def js_has_def written_def split: if_splits option.split)

lemma next_time_later: "t div 1000 < next_time clock t div 1000"
  by (simp add: next_time_def max_def) linarith

lemma matches_time_ms: "matches_time e t \<longleftrightarrow> t div 1000 = e"
  unfolding matches_time_def by linarith

lemma update_row_Inr:
  "update_row a w k v expected clock m = Inr m' \<longleftrightarrow>
     (\<exists>old t. js_get m k = Some (old, t) \<and> w old \<and> expected = Some (t div 1000) \<and>
        m' = js_set k (v, next_time clock t) m)"
  by (auto simp: update_row_def matches_time_ms split: option.splits if_splits)

lemma update_written:
  assumes "update_row a w k v expected clock m = Inr m'"
    and "\<And>old t. js_get m k = Some (old, t) \<Longrightarrow> w old \<Longrightarrow> moves old v"
  obtains t where "m' = js_set k (v, t) m" "written moves m k v t"
  using assms next_time_later by (fastforce simp: update_row_Inr written_def)


subsection \<open>Changes keep the invariant\<close>

lemma append_audit_Inr:
  "append_audit db e = Inr db' \<longleftrightarrow>
     uuid (ae_auditEventId e) \<notin> ae_auditEventId ` set (db_audit db) \<and>
     db' = db\<lparr>db_audit := db_audit db @ [audit_row e]\<rparr>"
  by (auto simp: append_audit_def)

lemma audit_row_read:
  assumes "createAuditEvent e = Inr e" and "auditEventId (ae_auditEventId e) = Inr i"
  shows "auditFromRow (audit_row e) = Inr (audit_row e)"
  using assms uuid_valid
  by (auto simp: auditFromRow_def audit_row_def createAuditEvent_def auditEventId_def parseId_def result_simps
      split: if_splits)

lemma written_keeps:
  "js_get m i = Some (v, t) \<Longrightarrow> written moves m k w u \<Longrightarrow>
     \<exists>v' t'. js_get (js_set k (w, u) m) i = Some (v', t') \<and>
       ((v', t') = (v, t) \<or> i = k \<and> moves v v' \<and> t div 1000 < t' div 1000)"
  by (auto simp: written_def)

lemma references_kept_types:
  "provider_references db v = Inr () \<Longrightarrow> provider_references (db\<lparr>db_types := js_set i r (db_types db)\<rparr>) v = Inr ()"
  by (rule references_kept) auto

lemma references_kept_packages:
  "provider_references db v = Inr () \<Longrightarrow>
     provider_references (db\<lparr>db_packages := js_set k r (db_packages db)\<rparr>) v = Inr ()"
  by (rule references_kept) auto

lemma references_frame:
  "provider_references (db\<lparr>db_providers := a\<rparr>) v = provider_references db v"
  "provider_references (db\<lparr>db_resources := b\<rparr>) v = provider_references db v"
  "provider_references (db\<lparr>db_bindings := c\<rparr>) v = provider_references db v"
  "provider_references (db\<lparr>db_audit := d\<rparr>) v = provider_references db v"
  by (simp_all add: provider_references_def cong: option.case_cong)

lemma change_ok: "change db db' \<Longrightarrow> catalog_ok db \<Longrightarrow> catalog_ok db'"
proof (induction rule: change.induct)
  case (type_written db v t)
  then show ?case
    by (simp add: catalog_ok_def references_kept_types)
next
  case (package_written db v t)
  then show ?case
    by (simp add: catalog_ok_def references_kept_packages)
next
  case (provider_written db v t)
  then show ?case
    by (simp add: catalog_ok_def references_frame)
next
  case (resource_written db v t)
  then show ?case
    by (simp add: catalog_ok_def references_frame)
next
  case (bound db b db')
  then have "db' = db\<lparr>db_bindings := js_set (bindingKey b) b (db_bindings db)\<rparr>"
    "js_has (db_providers db) (bd_providerId b)" "js_has (db_resources db) (bd_environment b, bd_resourceId b)"
    by (auto simp: bind_row_def insert_unique_def result_simps split: if_splits)
  with bound show ?case by (simp add: catalog_ok_def references_frame)
next
  case (unbound db p k db')
  then have "db' = db\<lparr>db_bindings := js_delete (p, k) (db_bindings db)\<rparr>"
    by (auto simp: unbind_row_def split: if_splits)
  with unbound show ?case by (simp add: catalog_ok_def references_frame distinct_delete)
next
  case (audited db e db' i)
  then have "db' = db\<lparr>db_audit := db_audit db @ [audit_row e]\<rparr>"
    "uuid (ae_auditEventId e) \<notin> ae_auditEventId ` set (db_audit db)" by (auto simp: append_audit_Inr)
  with audited audit_row_read [OF audited(2,3)] show ?case
    by (simp add: catalog_ok_def references_frame audit_row_def)
qed

lemma changes_ok: "changes db db' \<Longrightarrow> catalog_ok db \<Longrightarrow> catalog_ok db'"
  by (induction rule: rtranclp_induct) (auto intro: change_ok)

subsection \<open>Operations as changes\<close>

lemma ok_type: "catalog_ok db \<Longrightarrow> js_get (db_types db) i = Some (v, t) \<Longrightarrow>
    pt_providerTypeId v = i \<and> is_ok (providerTypeFromRow (v, t))"
  and ok_package: "catalog_ok db \<Longrightarrow> js_get (db_packages db) k = Some (p, t) \<Longrightarrow>
    (pk_packageId p, pk_packageVersion p) = k \<and> is_ok (providerPackageFromRow (p, t)) \<and>
    js_has (db_types db) (pk_providerTypeId p)"
  and ok_provider: "catalog_ok db \<Longrightarrow> js_get (db_providers db) i = Some (a, t) \<Longrightarrow>
    pv_providerId a = i \<and> is_ok (providerFromRow (a, t)) \<and> provider_references db a = Inr ()"
  and ok_resource: "catalog_ok db \<Longrightarrow> js_get (db_resources db) n = Some (r, t) \<Longrightarrow>
    resource_key r = n \<and> is_ok (resourceFromRow (r, t))"
  unfolding catalog_ok_def by blast+

text \<open>What a call does to the tables and its one audit event.\<close>

definition recorded :: "audit_context \<Rightarrow> call \<Rightarrow> catalog \<Rightarrow> catalog \<Rightarrow> bool" where
  "recorded c k db db' \<longleftrightarrow>
     (\<exists>db1 a st si m. change db db1 \<and> db_audit db1 = db_audit db \<and> appendAudit db1 c k a st si m = Inr db')"

lemma recordedI:
  "change db db1 \<Longrightarrow> db_audit db1 = db_audit db \<Longrightarrow> appendAudit db1 c k a st si m = Inr db' \<Longrightarrow>
     recorded c k db db'"
  unfolding recorded_def by blast

lemma required_Inr [result_simps]: "required m a = Inr x \<longleftrightarrow> m = Inr (Some x)"
  by (auto simp: required_def bind_r_Inr split: option.splits)

lemma id_parsed [result_simps]: "parseId i kind pattern = Inr j \<longleftrightarrow> j = i \<and> pattern i"
  by (auto simp: parseId_def)

lemmas parsed_ids = providerTypeId_def providerId_def resourceId_def providerPackageId_def
  environmentId_def auditEventId_def id_parsed

lemma get_type_Inr:
  "get_type db i = Inr (Some v) \<longleftrightarrow>
     (\<exists>w t. js_get (db_types db) i = Some (w, t) \<and> providerTypeFromRow (w, t) = Inr v)"
  by (auto simp: get_type_def bind_r_Inr split: option.splits)

lemma get_provider_Inr:
  "get_provider db i = Inr (Some v) \<longleftrightarrow>
     (\<exists>w t. js_get (db_providers db) i = Some (w, t) \<and> providerFromRow (w, t) = Inr v)"
  by (auto simp: get_provider_def bind_r_Inr split: option.splits)

lemma get_resource_Inr:
  "get_resource db k = Inr (Some v) \<longleftrightarrow>
     (\<exists>w t. js_get (db_resources db) k = Some (w, t) \<and> resourceFromRow (w, t) = Inr v)"
  by (auto simp: get_resource_def bind_r_Inr split: option.splits)

lemma get_package_Inr:
  "get_package db k = Inr (Some v) \<longleftrightarrow>
     (\<exists>w t. js_get (db_packages db) k = Some (w, t) \<and> providerPackageFromRow (w, t) = Inr v)"
  by (auto simp: get_package_def bind_r_Inr split: option.splits)

lemma type_row: "providerTypeFromRow (w, t) = Inr v \<Longrightarrow> v = w\<lparr>pt_updatedAt := read_time t\<rparr>"
  by (auto simp: providerTypeFromRow_def createProviderType_def bind_r_Inr)

lemma package_row_read:
  "providerPackageFromRow (w, t) = Inr v \<Longrightarrow> v = w\<lparr>pk_updatedAt := read_time t\<rparr>"
  by (auto simp: providerPackageFromRow_def createProviderPackage_def bind_r_Inr)

lemma provider_row: "providerFromRow (w, t) = Inr v \<Longrightarrow> v = w\<lparr>pv_updatedAt := read_time t\<rparr>"
  by (auto simp: providerFromRow_def createProvider_def bind_r_Inr Let_def)

lemma resource_row: "resourceFromRow (w, t) = Inr v \<Longrightarrow> v = w\<lparr>rs_updatedAt := read_time t\<rparr>"
  by (auto simp: resourceFromRow_def createResource_def bind_r_Inr)

lemma type_saved:
  assumes saved: "save_type db v p clock = Inr db1" and read: "get_type db1 (pt_providerTypeId v) = Inr (Some x)"
    and moves: "\<And>w t. p \<noteq> Save_insert \<Longrightarrow> js_get (db_types db) (pt_providerTypeId v) = Some (w, t) \<Longrightarrow>
      type_moves w v"
  shows "change db db1 \<and> db_audit db1 = db_audit db"
proof -
  have "\<exists>t. db1 = db\<lparr>db_types := js_set (pt_providerTypeId v) (v, t) (db_types db)\<rparr> \<and>
    written type_moves (db_types db) (pt_providerTypeId v) v t"
  proof (cases p)
    case Save_insert
    then show ?thesis using saved insert_written by (fastforce simp: save_type_def bind_r_Inr)
  next
    case (Save_update e)
    with saved obtain m where m: "update_row ''ProviderType'' (\<lambda>_. True) (pt_providerTypeId v) v e clock
      (db_types db) = Inr m" "db1 = db\<lparr>db_types := m\<rparr>" by (auto simp: save_type_def bind_r_Inr)
    from update_written [OF m(1), where moves = type_moves] moves Save_update m(2) show ?thesis by auto
  qed
  then obtain t where t: "db1 = db\<lparr>db_types := js_set (pt_providerTypeId v) (v, t) (db_types db)\<rparr>"
    "written type_moves (db_types db) (pt_providerTypeId v) v t" by blast
  from read t(1) have "is_ok (providerTypeFromRow (v, t))" by (auto simp: get_type_Inr is_ok_iff)
  with t show ?thesis by (auto intro: type_written)
qed

lemma create_provider_type_recorded:
  assumes "create_provider_type db k c i n = Inr (db', v)"
  shows "recorded c k db db'"
proof -
  from assms obtain t db1 where s: "save_type db t Save_insert (cl_clock k) = Inr db1"
    "get_type db1 (pt_providerTypeId t) = Inr (Some v)"
    "appendAudit db1 c k ''provider_type.created'' ''provider_type'' i [] = Inr db'"
    by (auto simp: create_provider_type_def createProviderType_def parsed_ids result_simps)
  then show ?thesis using type_saved [OF s(1,2)] by (auto intro: recordedI)
qed

lemma update_provider_type_recorded:
  assumes "update_provider_type_status db k c i s e = Inr (db', v)" and ok: "catalog_ok db"
  shows "recorded c k db db'"
proof -
  from assms(1) obtain x y db1 m where s: "get_type db i = Inr (Some x)" "pt_status x = Type_active"
    "s = Type_deprecated" "y = x\<lparr>pt_status := s\<rparr>"
    "save_type db y (Save_update e) (cl_clock k) = Inr db1"
    "get_type db1 (pt_providerTypeId y) = Inr (Some v)"
    "appendAudit db1 c k ''provider_type.status_updated'' ''provider_type'' (pt_providerTypeId y) m = Inr db'"
    by (auto simp: update_provider_type_status_def createProviderType_def parsed_ids result_simps)
  from s(1) obtain w t where w: "js_get (db_types db) i = Some (w, t)" "x = w\<lparr>pt_updatedAt := read_time t\<rparr>"
    by (auto simp: get_type_Inr dest: type_row)
  with ok_type [OF ok w(1)] s(4) have i: "pt_providerTypeId y = i" by simp
  have "change db db1 \<and> db_audit db1 = db_audit db"
    using s w i by (intro type_saved [OF s(5,6)]) (auto simp: type_moves_def)
  with s show ?thesis by (auto intro: recordedI)
qed


lemma provider_saved:
  assumes row: "db1 = db\<lparr>db_providers := js_set (pv_providerId v) (v, t) (db_providers db)\<rparr>"
    "written provider_moves (db_providers db) (pv_providerId v) v t"
    and refs: "provider_references db v = Inr ()"
    and read: "get_provider db1 (pv_providerId v) = Inr (Some x)"
  shows "change db db1 \<and> db_audit db1 = db_audit db"
proof -
  from read row(1) have "is_ok (providerFromRow (v, t))" by (auto simp: get_provider_Inr is_ok_iff)
  with row refs show ?thesis by (auto intro: provider_written)
qed

lemma create_provider_recorded:
  assumes "create_provider db k c i = Inr (db', v)"
  shows "recorded c k db db'"
proof -
  from assms obtain p db1 m where s: "insert_provider db p (cl_clock k) = Inr db1"
    "get_provider db1 (pv_providerId p) = Inr (Some v)"
    "appendAudit db1 c k ''provider.created'' ''provider'' (pv_providerId p) m = Inr db'"
    by (auto simp: create_provider_def result_simps)
  from s(1) obtain t where "db1 = db\<lparr>db_providers := js_set (pv_providerId p) (p, t) (db_providers db)\<rparr>"
    "written provider_moves (db_providers db) (pv_providerId p) p t" "provider_references db p = Inr ()"
    by (auto simp: insert_provider_def result_simps dest!: insert_written [where moves = provider_moves])
  from provider_saved [OF this s(2)] s(3) show ?thesis by (auto intro: recordedI)
qed

lemma update_provider_status_recorded:
  assumes "update_provider_status db k c i s e = Inr (db', v)" and ok: "catalog_ok db"
  shows "recorded c k db db'"
proof -
  from assms(1) obtain x y db1 m where s: "get_provider db i = Inr (Some x)"
    "s \<in> set (ProviderTransitions (pv_status x))" "y = x\<lparr>pv_status := s\<rparr>"
    "update_provider db y e (cl_clock k) = Inr db1" "get_provider db1 (pv_providerId y) = Inr (Some v)"
    "appendAudit db1 c k ''provider.status_updated'' ''provider'' (pv_providerId y) m = Inr db'"
    by (auto simp: update_provider_status_def transitionProvider_def assertTransition_def result_simps)
  from s(1) obtain w t where w: "js_get (db_providers db) i = Some (w, t)"
    "x = w\<lparr>pv_updatedAt := read_time t\<rparr>"
    by (auto simp: get_provider_Inr dest: provider_row)
  with ok_provider [OF ok w(1)] s(3) have i: "pv_providerId y = i" by simp
  from s(4) obtain r where r: "update_row ''Provider'' (\<lambda>_. True) (pv_providerId y) y e (cl_clock k)
      (db_providers db) = Inr r" "db1 = db\<lparr>db_providers := r\<rparr>" "provider_references db y = Inr ()"
    by (auto simp: update_provider_def result_simps)
  have "provider_moves w y" using s w by (simp add: provider_moves_def provider_identity_def)
  then obtain t' where "r = js_set (pv_providerId y) (y, t') (db_providers db)"
    "written provider_moves (db_providers db) (pv_providerId y) y t'"
    using update_written [OF r(1), where moves = provider_moves] w(1) i by auto
  from provider_saved [OF _ this(2) r(3) s(5)] this(1) r(2) s(6) show ?thesis by (auto intro: recordedI)
qed

lemma resource_saved:
  assumes row: "db1 = db\<lparr>db_resources := js_set (resource_key v) (v, t) (db_resources db)\<rparr>"
    "written resource_moves (db_resources db) (resource_key v) v t"
    and read: "get_resource db1 (resource_key v) = Inr (Some x)"
  shows "change db db1 \<and> db_audit db1 = db_audit db"
proof -
  from read row(1) have "is_ok (resourceFromRow (v, t))" by (auto simp: get_resource_Inr is_ok_iff)
  with row show ?thesis by (auto intro: resource_written)
qed

lemma create_resource_recorded:
  assumes "create_resource db k c n i ty m = Inr (db', v)"
  shows "recorded c k db db'"
proof -
  from assms obtain p db1 st where s: "insert_resource db p (cl_clock k) = Inr db1"
    "get_resource db1 (resource_key p) = Inr (Some v)"
    "appendAudit db1 c k ''resource.created'' ''resource'' st [] = Inr db'"
    by (auto simp: create_resource_def createResource_def resourceKey_def parsed_ids resource_key_def
        result_simps)
  from s(1) obtain t where "db1 = db\<lparr>db_resources := js_set (resource_key p) (p, t) (db_resources db)\<rparr>"
    "written resource_moves (db_resources db) (resource_key p) p t"
    by (auto simp: insert_resource_def result_simps dest!: insert_written [where moves = resource_moves])
  from resource_saved [OF this s(2)] s(3) show ?thesis by (auto intro: recordedI)
qed

lemma update_resource_recorded:
  assumes read: "get_resource db key = Inr (Some x)" and ok: "catalog_ok db"
    and upd: "update_resource db y e clock = Inr db1" "get_resource db1 key = Inr (Some v)"
    and moves: "\<And>w t. x = w\<lparr>rs_updatedAt := read_time t\<rparr> \<Longrightarrow> resource_moves w y"
    and key: "resource_key y = resource_key x"
    and app: "appendAudit db1 c k a st si m = Inr db'"
  shows "recorded c k db db'"
proof -
  from read obtain w t where w: "js_get (db_resources db) key = Some (w, t)"
    "x = w\<lparr>rs_updatedAt := read_time t\<rparr>"
    by (auto simp: get_resource_Inr dest: resource_row)
  with ok_resource [OF ok w(1)] key have i: "resource_key y = key" by (simp add: resource_key_def)
  from upd(1) obtain r where r: "update_row ''Resource'' (\<lambda>_. True) key y e clock (db_resources db) = Inr r"
    "db1 = db\<lparr>db_resources := r\<rparr>" by (auto simp: update_resource_def i result_simps)
  obtain t' where t: "r = js_set (resource_key y) (y, t') (db_resources db)"
    "written resource_moves (db_resources db) (resource_key y) y t'"
    using update_written [OF r(1), where moves = resource_moves] w(1) moves [OF w(2)] i by auto
  have "change db db1 \<and> db_audit db1 = db_audit db"
    by (rule resource_saved [where v = y and t = t' and x = v]) (use t r(2) upd(2) i in simp_all)
  with app show ?thesis by (auto intro: recordedI)
qed

lemma update_resource_status_recorded:
  assumes "update_resource_status db k c n i s e = Inr (db', v)" and ok: "catalog_ok db"
  shows "recorded c k db db'"
proof -
  from assms(1) obtain x y db1 st m where s: "get_resource db (n, i) = Inr (Some x)"
    "s \<in> set (resource_allowed (rs_status x))" "y = x\<lparr>rs_status := s\<rparr>"
    "update_resource db y e (cl_clock k) = Inr db1" "get_resource db1 (n, i) = Inr (Some v)"
    "appendAudit db1 c k ''resource.status_updated'' ''resource'' st m = Inr db'"
    by (auto simp: update_resource_status_def assertResourceTransition_def createResource_def resourceKey_def
        parsed_ids result_simps)
  show ?thesis
    by (rule update_resource_recorded [OF s(1) ok s(4,5) _ _ s(6)])
      (use s in \<open>auto simp: resource_moves_def resource_key_def\<close>)
qed

lemma update_resource_metadata_recorded:
  assumes "update_resource_metadata db k c n i m e = Inr (db', v)" and ok: "catalog_ok db"
  shows "recorded c k db db'"
proof -
  from assms(1) obtain x y db1 st u where s: "get_resource db (n, i) = Inr (Some x)"
    "y = x\<lparr>rs_metadata := m\<rparr>"
    "update_resource db y e (cl_clock k) = Inr db1" "get_resource db1 (n, i) = Inr (Some v)"
    "appendAudit db1 c k ''resource.metadata_updated'' ''resource'' st u = Inr db'"
    by (auto simp: update_resource_metadata_def createResource_def resourceKey_def parsed_ids result_simps)
  show ?thesis
    by (rule update_resource_recorded [OF s(1) ok s(3,4) _ _ s(5)])
      (use s in \<open>auto simp: resource_moves_def resource_key_def\<close>)
qed

lemma bindResource_recorded:
  assumes "bindResource db k c p n i = Inr (db', b)"
  shows "recorded c k db db'"
proof -
  from assms obtain db1 m where s: "bind_row db b = Inr db1" "bindingFromRow b = Inr b"
    "appendAudit db1 c k ''provider.resource_bound'' ''provider'' p m = Inr db'"
    by (auto simp: bindResource_def resourceKey_def bindingFromRow_def parsed_ids result_simps Let_def)
  from s(1) have "db_audit db1 = db_audit db" by (auto simp: bind_row_def result_simps)
  with s show ?thesis by (auto intro: recordedI bound)
qed

lemma unbindResource_recorded:
  assumes "unbindResource db k c p n i = Inr db'"
  shows "recorded c k db db'"
proof -
  from assms obtain db1 m where s: "unbind_row db p (n, i) = Inr db1"
    "appendAudit db1 c k ''provider.resource_unbound'' ''provider'' p m = Inr db'"
    by (auto simp: unbindResource_def resourceKey_def parsed_ids result_simps)
  from s(1) have "db_audit db1 = db_audit db" by (auto simp: unbind_row_def split: if_splits)
  with s show ?thesis by (auto intro: recordedI unbound)
qed


lemma type_text: "ProviderTypePattern i \<Longrightarrow> trim i \<noteq> []"
proof -
  assume "ProviderTypePattern i"
  then obtain c r where c: "i = c # r" "is_lower c"
    by (cases i) (auto simp: ProviderTypePattern_def split: list.splits if_splits)
  have "\<not> is_space c" using c(2) of_nat_of_char [of c, where ?'a = int]
    by (auto simp: is_space_def is_lower_def Let_def)
  then show ?thesis by (auto simp: c(1) trim_def dropWhile_eq_Nil_conv)
qed

lemma sync_type_changes:
  assumes "sync_type db i clock = Inr db'" and "ProviderTypePattern i"
  shows "changes db db' \<and> db' = db\<lparr>db_types := db_types db'\<rparr> \<and> js_has (db_types db') i \<and>
    (js_has (db_types db) i \<longrightarrow> db' = db)"
proof (cases "js_get (db_types db) i")
  case None
  let ?t = "\<lparr>pt_providerTypeId = i, pt_displayName = i, pt_status = Type_active, pt_updatedAt = None\<rparr>"
  from None assms(1) have "save_type db ?t Save_insert clock = Inr db'"
    by (auto simp: sync_type_def get_type_def createProviderType_def result_simps)
  then have d: "db' = db\<lparr>db_types := js_set i (?t, clock) (db_types db)\<rparr>"
    "written type_moves (db_types db) i ?t clock"
    by (auto simp: save_type_def result_simps dest!: insert_written [where moves = type_moves])
  have "providerTypeFromRow (?t, clock) = Inr (?t\<lparr>pt_updatedAt := read_time clock\<rparr>)"
    using assms(2) type_text [OF assms(2)]
    by (simp add: providerTypeFromRow_def createProviderType_def providerTypeId_def parseId_def
        requireNonEmpty_def require_updated_def requireValidDate_def read_time_def throw_if_def)
  then have "change db db'" using d type_written [of db ?t clock] by simp
  then show ?thesis using d None by (auto simp: js_has_def)
next
  case (Some r)
  with assms(1) show ?thesis
    by (auto simp: sync_type_def get_type_def js_has_def result_simps split: option.splits)
qed

text \<open>A package that \<open>projectPackage\<close> made.\<close>

definition projected :: "provider_package \<Rightarrow> bool" where
  "projected v \<longleftrightarrow>
     PackageIdPattern (pk_packageId v) \<and> ProviderTypePattern (pk_providerTypeId v) \<and>
     createProviderPackage v = Inr v \<and> pk_updatedAt v = None \<and> pk_sourceDocument v \<noteq> None"

lemma projectPackage_projected: "projectPackage ns sh p = Inr v \<Longrightarrow> projected v"
  by (auto simp: projectPackage_def projected_def parsed_ids createProviderPackage_def result_simps
      split: json.splits)

lemma projected_read:
  assumes "projected v"
  shows "package_row v = v" and "providerPackageFromRow (v, t) = Inr (v\<lparr>pk_updatedAt := read_time t\<rparr>)"
  using assms
  by (auto simp: projected_def package_row_def providerPackageFromRow_def parsed_ids createProviderPackage_def
      require_updated_def requireValidDate_def read_time_def throw_if_def result_simps providerPackageId_def
      providerTypeId_def parseId_def)

lemma package_saved:
  assumes ok: "catalog_ok db" and saved: "save_package db v p clock = Inr db'" and v: "projected v"
    and type: "js_has (db_types db) (pk_providerTypeId v)"
  obtains t where "db' = db\<lparr>db_packages :=
      js_set (pk_packageId v, pk_packageVersion v) (v, t) (db_packages db)\<rparr>" "change db db'"
proof -
  let ?k = "(pk_packageId v, pk_packageVersion v)"
  have "\<exists>t. db' = db\<lparr>db_packages := js_set ?k (v, t) (db_packages db)\<rparr> \<and>
    written package_moves (db_packages db) ?k v t"
  proof (cases p)
    case Save_insert
    with saved show ?thesis
      by (auto simp: save_package_def projected_read(1) [OF v] result_simps Let_def split: if_splits
          dest!: insert_written [where moves = package_moves])
  next
    case (Save_update e)
    with saved obtain m where m: "update_row ''ProviderPackage''
        (\<lambda>old. pk_providerTypeId old = pk_providerTypeId v) ?k v e clock (db_packages db) = Inr m"
      "db' = db\<lparr>db_packages := m\<rparr>"
      by (auto simp: save_package_def projected_read(1) [OF v] result_simps Let_def)
    show ?thesis
      by (rule update_written [OF m(1), where moves = package_moves])
        (use ok_package [OF ok] m(2) in \<open>auto simp: package_moves_def\<close>)
  qed
  then obtain t where t: "db' = db\<lparr>db_packages := js_set ?k (v, t) (db_packages db)\<rparr>"
    "written package_moves (db_packages db) ?k v t" by blast
  have "change db db'"
    using package_written [OF t(2) _ type] projected_read(2) [OF v] t(1) by simp
  with t(1) show thesis by (rule that)
qed


lemma appendAudit_change:
  assumes "appendAudit db c k a st si m = Inr db'"
  shows "change db db'" and "db' = db\<lparr>db_audit := db_audit db @ [audit_row (audit_entry c k a st si m)]\<rparr>"
proof -
  from assms have a: "append_audit db (audit_entry c k a st si m) = Inr db'"
    "createAuditEvent (audit_entry c k a st si m) = Inr (audit_entry c k a st si m)"
    "auditEventId (ae_auditEventId (audit_entry c k a st si m)) = Inr (cl_uuid k)"
    by (auto simp: appendAudit_def createAuditEvent_def auditEventId_def parseId_def audit_entry_def
        result_simps split: if_splits)
  from PmsCatalog.change.audited [OF this] show "change db db'" .
  from a(1) show "db' = db\<lparr>db_audit := db_audit db @ [audit_row (audit_entry c k a st si m)]\<rparr>"
    by (simp add: append_audit_Inr)
qed

text \<open>The events a call appends are its actor's.\<close>

definition by_actor :: "audit_context \<Rightarrow> audit_event list \<Rightarrow> bool" where
  "by_actor c es \<longleftrightarrow> (\<forall>e \<in> set es. ae_actorId e = au_actorId c \<and> ae_correlationId e = au_correlationId c)"

lemma by_actor_simps [simp]:
  "by_actor c []" "by_actor c (es @ fs) \<longleftrightarrow> by_actor c es \<and> by_actor c fs"
  "by_actor c [audit_row (audit_entry c k a st si m)]"
  by (auto simp: by_actor_def audit_row_def audit_entry_def)

lemma recorded_changes:
  assumes "recorded c k db db'"
  shows "changes db db'" and "\<exists>e. db_audit db' = db_audit db @ [e] \<and> by_actor c [e]"
proof -
  from assms obtain db1 a st si m where r: "change db db1" "db_audit db1 = db_audit db"
    "appendAudit db1 c k a st si m = Inr db'" unfolding recorded_def by blast
  note a = appendAudit_change [OF r(3)]
  from r(1) a(1) show "changes db db'" by (meson rtranclp.simps)
  from r(2) a(2) show "\<exists>e. db_audit db' = db_audit db @ [e] \<and> by_actor c [e]" by auto
qed

text \<open>One package: it is stored with the checksum it is projected with, and other packages are left.\<close>

definition stored_checksum :: "catalog \<Rightarrow> string \<times> string \<Rightarrow> string option" where
  "stored_checksum db k = map_option (\<lambda>r. pk_checksum (fst r)) (js_get (db_packages db) k)"

lemma write_package_changes:
  assumes run: "write_package db n v existing clock = Inr (db', n')" and ok: "catalog_ok db"
    and v: "projected v" and type: "js_has (db_types db) (pk_providerTypeId v)"
  obtains t where "db' = db\<lparr>db_packages :=
      js_set (pk_packageId v, pk_packageVersion v) (v, t) (db_packages db)\<rparr>" "change db db'"
    "Suc (sy_inserted n + sy_updated n) = sy_inserted n' + sy_updated n'"
proof -
  from run obtain p where p: "save_package db v p clock = Inr db'"
    "Suc (sy_inserted n + sy_updated n) = sy_inserted n' + sy_updated n'"
    by (auto simp: write_package_def result_simps split: option.splits)
  show thesis by (rule package_saved [OF ok p(1) v type]) (use p(2) that in blast)
qed

lemma stored_checksum_get:
  assumes "catalog_ok db" and "get_package db k = Inr existing"
  shows "map_option pk_checksum existing = stored_checksum db k"
  using assms package_row_read
  by (fastforce simp: get_package_def stored_checksum_def result_simps split: option.splits)

lemma sync_package_synced:
  assumes run: "sync_package c (db, n) (v, k) = Inr (db', n')" and ok: "catalog_ok db" and v: "projected v"
  shows "changes db db' \<and> js_has (db_types db') (pk_providerTypeId v) \<and>
    stored_checksum db' = (stored_checksum db)((pk_packageId v, pk_packageVersion v) := Some (pk_checksum v)) \<and>
    (\<exists>es. db_audit db' = db_audit db @ es \<and> by_actor c es \<and>
       length es + (sy_inserted n + sy_updated n) = sy_inserted n' + sy_updated n' \<and>
       (es = [] \<longrightarrow> db' = db\<lparr>db_types := db_types db'\<rparr>))"
proof -
  let ?k = "(pk_packageId v, pk_packageVersion v)"
  from run obtain db0 existing where s: "sync_type db (pk_providerTypeId v) (cl_clock k) = Inr db0"
    "get_package db0 ?k = Inr existing"
    by (auto simp: sync_package_def Let_def result_simps)
  from sync_type_changes [OF s(1)] v have t: "changes db db0" "db0 = db\<lparr>db_types := db_types db0\<rparr>"
    "js_has (db_types db0) (pk_providerTypeId v)"
    by (auto simp: projected_def)
  have frame: "db_audit db0 = db_audit db" "stored_checksum db0 = stored_checksum db"
    by (subst t(2), simp add: stored_checksum_def fun_eq_iff)+
  have ok0: "catalog_ok db0" using t(1) ok by (rule changes_ok)
  show ?thesis
  proof (cases "stored_checksum db0 ?k = Some (pk_checksum v)")
    case True
    then have "db' = db0" "n' = n\<lparr>sy_unchanged := Suc (sy_unchanged n)\<rparr>"
      using run s stored_checksum_get [OF ok0 s(2)] by (auto simp: sync_package_def Let_def)
    then show ?thesis using t True frame by (auto simp: fun_eq_iff)
  next
    case False
    then obtain db1 a st si m where w: "write_package db0 n v existing (cl_clock k) = Inr (db1, n')"
      "appendAudit db1 c k a st si m = Inr db'"
      using run s stored_checksum_get [OF ok0 s(2)]
      by (auto simp: sync_package_def Let_def result_simps simp del: map_option_eq_Some)
    obtain u where u: "db1 = db0\<lparr>db_packages := js_set ?k (v, u) (db_packages db0)\<rparr>" "change db0 db1"
      "Suc (sy_inserted n + sy_updated n) = sy_inserted n' + sy_updated n'"
      by (rule write_package_changes [OF w(1) ok0 v t(3)])
    note a = appendAudit_change [OF w(2)]
    have "changes db db'" using t(1) u(2) a(1) by (meson rtranclp.simps)
    moreover have "stored_checksum db' = (stored_checksum db0)(?k := Some (pk_checksum v))"
      using u(1) a(2) by (auto simp: stored_checksum_def fun_eq_iff)
    moreover have "db_audit db' = db_audit db @ [audit_row (audit_entry c k a st si m)]"
      using a(2) u(1) frame by simp
    moreover have "js_has (db_types db') (pk_providerTypeId v)" using a(2) u(1) t(3) by simp
    ultimately show ?thesis using u(3) frame by auto
  qed
qed


lemma synchronized:
  assumes "fold_r (sync_package c) (db, n) (zip vs ks) = Inr (db', n')" and "catalog_ok db"
    and "\<And>v. v \<in> set vs \<Longrightarrow> projected v"
  shows "changes db db' \<and>
    (\<exists>es. db_audit db' = db_audit db @ es \<and> by_actor c es \<and>
       length es + (sy_inserted n + sy_updated n) = sy_inserted n' + sy_updated n' \<and>
       (es = [] \<longrightarrow> db' = db\<lparr>db_types := db_types db'\<rparr>))"
  using assms
proof (induction "zip vs ks" arbitrary: db n vs ks)
  case (Cons p ps)
  then obtain v k vs' ks' where z: "vs = v # vs'" "ks = k # ks'" "p = (v, k)" "ps = zip vs' ks'"
    by (cases vs; cases ks) auto
  from Cons.prems(1) z obtain db1 n1 where r: "sync_package c (db, n) (v, k) = Inr (db1, n1)"
    "fold_r (sync_package c) (db1, n1) (zip vs' ks') = Inr (db', n')"
    by (auto simp: result_simps)
  from sync_package_synced [OF r(1) Cons.prems(2)] Cons.prems(3) [of v] z obtain es where
    a: "changes db db1" "db_audit db1 = db_audit db @ es" "by_actor c es"
    "length es + (sy_inserted n + sy_updated n) = sy_inserted n1 + sy_updated n1"
    "es = [] \<longrightarrow> db1 = db\<lparr>db_types := db_types db1\<rparr>" by auto
  from Cons.hyps(1) [OF z(4) r(2) changes_ok [OF a(1) Cons.prems(2)]] Cons.prems(3) z
  obtain fs where b: "changes db1 db'" "db_audit db' = db_audit db1 @ fs" "by_actor c fs"
    "length fs + (sy_inserted n1 + sy_updated n1) = sy_inserted n' + sy_updated n'"
    "fs = [] \<longrightarrow> db' = db1\<lparr>db_types := db_types db'\<rparr>" by auto
  have "db' = db\<lparr>db_types := db_types db'\<rparr>" if "es @ fs = []"
    using that a(5) b(5) by (metis append_is_Nil_conv catalog.surjective catalog.update_convs(1))
  moreover have "changes db db'" using a(1) b(1) by simp
  moreover have "db_audit db' = db_audit db @ (es @ fs)" "by_actor c (es @ fs)"
    "length (es @ fs) + (sy_inserted n + sy_updated n) = sy_inserted n' + sy_updated n'"
    using a b by simp_all
  ultimately show ?case by blast
qed auto

lemma projections:
  "map_r (\<lambda>p. projectPackage ns sh (fst p)) inputs = Inr vs \<Longrightarrow> v \<in> set vs \<Longrightarrow> projected v"
  by (induction inputs arbitrary: vs) (auto simp: result_simps projectPackage_projected)

text \<open>A call changes the tables by changes only and appends its events.\<close>

lemma synchronize_changes:
  assumes "synchronize ns sh db c ps = Inr (db', n)" and "catalog_ok db"
  shows "changes db db' \<and>
    (\<exists>es. db_audit db' = db_audit db @ es \<and> by_actor c es \<and> length es = sy_inserted n + sy_updated n \<and>
       (es = [] \<longrightarrow> db' = db\<lparr>db_types := db_types db'\<rparr>))"
proof -
  from assms(1) obtain vs where v: "map_r (\<lambda>p. projectPackage ns sh (fst p)) ps = Inr vs"
    "fold_r (sync_package c) (db, \<lparr>sy_inserted = 0, sy_updated = 0, sy_unchanged = 0\<rparr>)
       (zip vs (map snd ps)) = Inr (db', n)"
    by (auto simp: synchronize_def result_simps)
  from synchronized [OF v(2) assms(2) projections [OF v(1)]] show ?thesis by simp
qed

lemma perform_changes:
  assumes "perform ns sh db c k x = Inr db'" and ok: "catalog_ok db"
  shows "changes db db'"
    and "\<nexists>ps. x = Synchronize ps \<Longrightarrow> \<exists>e. db_audit db' = db_audit db @ [e] \<and> by_actor c [e]"
proof -
  have "recorded c k db db' \<or> (\<exists>ps. x = Synchronize ps) \<and> changes db db'"
    using assms
    by (cases x)
      (auto simp: result_simps synchronize_changes dest: create_provider_type_recorded
        update_provider_type_recorded create_provider_recorded update_provider_status_recorded
        create_resource_recorded update_resource_status_recorded update_resource_metadata_recorded
        bindResource_recorded unbindResource_recorded)
  then show "changes db db'" "\<nexists>ps. x = Synchronize ps \<Longrightarrow> \<exists>e. db_audit db' = db_audit db @ [e] \<and> by_actor c [e]"
    using recorded_changes by blast+
qed

lemma pms_step_changes:
  "pms_step ns sh db r = Inr (db', b) \<Longrightarrow> catalog_ok db \<Longrightarrow> changes db db'"
  by (auto simp: pms_step_def result_simps dest: perform_changes(1))

lemma run_changes:
  "catalog_ok db \<Longrightarrow> changes db (after (pms_step ns sh) db rs)"
proof (induction rs arbitrary: db)
  case (Cons r rs)
  show ?case
  proof (cases "pms_step ns sh db r")
    case (Inl e)
    with Cons show ?thesis by simp
  next
    case (Inr p)
    then obtain db1 b where p: "pms_step ns sh db r = Inr (db1, b)" by (cases p) simp
    note c = pms_step_changes [OF p Cons.prems]
    with p Cons.IH [OF changes_ok [OF c Cons.prems]] show ?thesis by simp
  qed
qed simp

lemma run_ok: "catalog_ok (after (pms_step ns sh) empty_catalog rs)"
  using run_changes [OF empty_catalog_ok] changes_ok [OF _ empty_catalog_ok] by blast

end
