(* ===== verification/CatalogPromises.thy ===== *)
theory CatalogPromises
  imports PmsCatalog
begin

text \<open>
  What the catalog of the control plane promises, over the changes of PmsCatalog: rows only advance,
  updates are fenced, every change is audited, the tables can be read and refer to rows that exist, and
  synchronising twice changes nothing.
\<close>

subsection \<open>Rows only advance\<close>

definition advances :: "('v \<Rightarrow> 'v \<Rightarrow> bool) \<Rightarrow> 'v \<times> int \<Rightarrow> 'v \<times> int \<Rightarrow> bool" where
  "advances moves r r' \<longleftrightarrow> r' = r \<or> snd r div 1000 < snd r' div 1000 \<and> moves\<^sup>+\<^sup>+ (fst r) (fst r')"

lemma advances_refl: "advances moves r r"
  by (simp add: advances_def)

lemma advances_trans: "advances moves r s \<Longrightarrow> advances moves s u \<Longrightarrow> advances moves r u"
  unfolding advances_def by (auto intro: tranclp_trans)

lemma written_advances:
  assumes "js_get m i = Some r" and "written moves m k w u"
  shows "\<exists>r'. js_get (js_set k (w, u) m) i = Some r' \<and> advances moves r r'"
proof (cases "i = k")
  case True
  with assms obtain v t where r: "r = (v, t)" "moves v w" "t div 1000 < u div 1000"
    by (cases r) (auto simp: written_def)
  then have "advances moves r (w, u)" unfolding advances_def by auto
  with True show ?thesis by simp
next
  case False
  then show ?thesis using assms(1) advances_refl [of moves r] by simp
qed

lemma change_tables:
  assumes "change db db'"
  obtains
    (types) v t where "written type_moves (db_types db) (pt_providerTypeId v) v t"
      "db' = db\<lparr>db_types := js_set (pt_providerTypeId v) (v, t) (db_types db)\<rparr>"
  | (packages) v t where "written package_moves (db_packages db) (pk_packageId v, pk_packageVersion v) v t"
      "db' = db\<lparr>db_packages := js_set (pk_packageId v, pk_packageVersion v) (v, t) (db_packages db)\<rparr>"
  | (providers) v t where "written provider_moves (db_providers db) (pv_providerId v) v t"
      "db' = db\<lparr>db_providers := js_set (pv_providerId v) (v, t) (db_providers db)\<rparr>"
  | (resources) v t where "written resource_moves (db_resources db) (resource_key v) v t"
      "db' = db\<lparr>db_resources := js_set (resource_key v) (v, t) (db_resources db)\<rparr>"
  | (rest) b e where "db' = db\<lparr>db_bindings := b, db_audit := db_audit db @ e\<rparr>"
  using assms
proof cases
  case (bound b)
  then have "db' = db\<lparr>db_bindings := db_bindings db', db_audit := db_audit db @ []\<rparr>"
    by (auto simp: bind_row_def result_simps)
  then show thesis by (rule rest)
next
  case (unbound p k)
  then have "db' = db\<lparr>db_bindings := db_bindings db', db_audit := db_audit db @ []\<rparr>"
    by (auto simp: unbind_row_def split: if_splits)
  then show thesis by (rule rest)
next
  case (audited e i)
  then have "db' = db\<lparr>db_bindings := db_bindings db, db_audit := db_audit db @ [audit_row e]\<rparr>"
    by (auto simp: append_audit_Inr)
  then show thesis by (rule rest)
qed (use that in blast)+

text \<open>Every table but the bindings only advances, row by row.\<close>

definition table_advances :: "('v \<Rightarrow> 'v \<Rightarrow> bool) \<Rightarrow> ('k, 'v) rows \<Rightarrow> ('k, 'v) rows \<Rightarrow> bool" where
  "table_advances moves m m' \<longleftrightarrow>
     (\<forall>k r. js_get m k = Some r \<longrightarrow> (\<exists>r'. js_get m' k = Some r' \<and> advances moves r r'))"

lemma table_advances_refl [simp]: "table_advances moves m m"
  using advances_refl unfolding table_advances_def by blast

lemma table_advances_trans:
  "table_advances moves m m' \<Longrightarrow> table_advances moves m' m'' \<Longrightarrow> table_advances moves m m''"
  unfolding table_advances_def by (meson advances_trans)

lemma table_written: "written moves m k w u \<Longrightarrow> table_advances moves m (js_set k (w, u) m)"
  unfolding table_advances_def by (intro allI impI written_advances)

definition catalog_advances :: "catalog \<Rightarrow> catalog \<Rightarrow> bool" where
  "catalog_advances db db' \<longleftrightarrow>
     table_advances type_moves (db_types db) (db_types db') \<and>
     table_advances package_moves (db_packages db) (db_packages db') \<and>
     table_advances provider_moves (db_providers db) (db_providers db') \<and>
     table_advances resource_moves (db_resources db) (db_resources db') \<and>
     prefix (db_audit db) (db_audit db')"

lemma change_advances: "change db db' \<Longrightarrow> catalog_advances db db'"
  by (erule change_tables) (simp_all add: catalog_advances_def table_written)

lemma changes_advance: "changes db db' \<Longrightarrow> catalog_advances db db'"
proof (induction rule: rtranclp_induct)
  case (step db1 db2)
  from step.IH change_advances [OF step.hyps(2)] show ?case
    unfolding catalog_advances_def by (auto intro: table_advances_trans prefix_order.trans)
qed (simp add: catalog_advances_def)


lemma provider_same:
  "provider_moves\<^sup>+\<^sup>+ v w \<Longrightarrow>
     provider_identity w = provider_identity v \<and> pv_status v \<noteq> Provider_retired \<and> pv_status w \<noteq> Provider_draft \<and>
     (\<lambda>a b. b \<in> set (ProviderTransitions a))\<^sup>*\<^sup>* (pv_status v) (pv_status w)"
proof (induction rule: tranclp_induct)
  case (base w)
  then show ?case by (cases "pv_status v") (auto simp: provider_moves_def)
next
  case (step u w)
  then show ?case
    by (cases "pv_status u") (auto simp: provider_moves_def intro: rtranclp.rtrancl_into_rtrancl)
qed

lemma resource_same:
  "resource_moves\<^sup>+\<^sup>+ v w \<Longrightarrow> resource_key w = resource_key v \<and> rs_resourceType w = rs_resourceType v \<and>
     (rs_status v = Resource_retired \<longrightarrow> rs_status w = Resource_retired)"
  by (induction rule: tranclp_induct) (auto simp: resource_moves_def)

lemma type_same:
  "type_moves\<^sup>+\<^sup>+ v w \<Longrightarrow> pt_displayName w = pt_displayName v \<and> pt_status v = Type_active \<and> pt_status w = Type_deprecated"
  by (induction rule: tranclp_induct) (auto simp: type_moves_def)

lemma package_same: "package_moves\<^sup>+\<^sup>+ v w \<Longrightarrow> pk_providerTypeId w = pk_providerTypeId v"
  by (induction rule: tranclp_induct) (auto simp: package_moves_def)

lemma table_row:
  "table_advances moves m m' \<Longrightarrow> js_get m k = Some (v, t) \<Longrightarrow>
     \<exists>v' t'. js_get m' k = Some (v', t') \<and> ((v', t') = (v, t) \<or> t div 1000 < t' div 1000 \<and> moves\<^sup>+\<^sup>+ v v')"
  unfolding table_advances_def advances_def by (metis fst_conv snd_conv surj_pair)

text \<open>
  C22. Rows of the catalog only advance. From any state that calls lead to, whatever calls follow, every
  provider, resource, provider type and package is still there, and either it is as it was or its time
  stands on a later millisecond. A provider keeps its type, package, hosting mode and endpoint; its status
  has come along transitions of \<open>ProviderTransitions\<close>, has not returned to draft, and a retired provider
  is not touched any more. A resource keeps its key and type, and a retired one stays retired. A provider
  type keeps its name and changes only from active to deprecated. A package keeps its identifier, version
  and provider type. No audit event is changed or removed.
\<close>

theorem catalog_only_advances:
  assumes "db = after (pms_step ns sh) empty_catalog rs" and "db' = after (pms_step ns sh) db rs'"
  shows "(\<forall>i v t. js_get (db_providers db) i = Some (v, t) \<longrightarrow>
      (\<exists>v' t'. js_get (db_providers db') i = Some (v', t') \<and>
         provider_identity v' = provider_identity v \<and>
         (\<lambda>a b. b \<in> set (ProviderTransitions a))\<^sup>*\<^sup>* (pv_status v) (pv_status v') \<and>
         ((v', t') = (v, t) \<or>
          t div 1000 < t' div 1000 \<and> pv_status v \<noteq> Provider_retired \<and> pv_status v' \<noteq> Provider_draft))) \<and>
    (\<forall>k v t. js_get (db_resources db) k = Some (v, t) \<longrightarrow>
      (\<exists>v' t'. js_get (db_resources db') k = Some (v', t') \<and> resource_key v' = k \<and>
         rs_resourceType v' = rs_resourceType v \<and> ((v', t') = (v, t) \<or> t div 1000 < t' div 1000) \<and>
         (rs_status v = Resource_retired \<longrightarrow> rs_status v' = Resource_retired))) \<and>
    (\<forall>i v t. js_get (db_types db) i = Some (v, t) \<longrightarrow>
      (\<exists>v' t'. js_get (db_types db') i = Some (v', t') \<and> pt_displayName v' = pt_displayName v \<and>
         ((v', t') = (v, t) \<or>
          t div 1000 < t' div 1000 \<and> pt_status v = Type_active \<and> pt_status v' = Type_deprecated))) \<and>
    (\<forall>k v t. js_get (db_packages db) k = Some (v, t) \<longrightarrow>
      (\<exists>v' t'. js_get (db_packages db') k = Some (v', t') \<and> (pk_packageId v', pk_packageVersion v') = k \<and>
         pk_providerTypeId v' = pk_providerTypeId v \<and> ((v', t') = (v, t) \<or> t div 1000 < t' div 1000))) \<and>
    prefix (db_audit db) (db_audit db')"
proof (intro conjI allI impI)
  have ok: "catalog_ok db" "catalog_ok db'" using run_ok assms run_changes changes_ok by blast+
  have "catalog_advances db db'" using changes_advance run_changes ok assms(2) by blast
  then have adv: "table_advances provider_moves (db_providers db) (db_providers db')"
    "table_advances resource_moves (db_resources db) (db_resources db')"
    "table_advances type_moves (db_types db) (db_types db')"
    "table_advances package_moves (db_packages db) (db_packages db')"
    and "prefix (db_audit db) (db_audit db')" unfolding catalog_advances_def by blast+
  then show "prefix (db_audit db) (db_audit db')" by blast
  {
    fix i v t assume "js_get (db_providers db) i = Some (v, t)"
    from table_row [OF adv(1) this] show "\<exists>v' t'. js_get (db_providers db') i = Some (v', t') \<and>
         provider_identity v' = provider_identity v \<and>
         (\<lambda>a b. b \<in> set (ProviderTransitions a))\<^sup>*\<^sup>* (pv_status v) (pv_status v') \<and>
         ((v', t') = (v, t) \<or>
          t div 1000 < t' div 1000 \<and> pv_status v \<noteq> Provider_retired \<and> pv_status v' \<noteq> Provider_draft)"
      using provider_same [of v] by fastforce
  next
    fix k v t assume "js_get (db_resources db) k = Some (v, t)"
    from table_row [OF adv(2) this] show "\<exists>v' t'. js_get (db_resources db') k = Some (v', t') \<and> resource_key v' = k \<and>
         rs_resourceType v' = rs_resourceType v \<and> ((v', t') = (v, t) \<or> t div 1000 < t' div 1000) \<and>
         (rs_status v = Resource_retired \<longrightarrow> rs_status v' = Resource_retired)"
      using resource_same [of v] ok_resource [OF ok(2)] by fastforce
  next
    fix i v t assume "js_get (db_types db) i = Some (v, t)"
    from table_row [OF adv(3) this] show "\<exists>v' t'. js_get (db_types db') i = Some (v', t') \<and> pt_displayName v' = pt_displayName v \<and>
         ((v', t') = (v, t) \<or>
          t div 1000 < t' div 1000 \<and> pt_status v = Type_active \<and> pt_status v' = Type_deprecated)"
      using type_same [of v] by fastforce
  next
    fix k v t assume "js_get (db_packages db) k = Some (v, t)"
    from table_row [OF adv(4) this] show "\<exists>v' t'. js_get (db_packages db') k = Some (v', t') \<and>
         (pk_packageId v', pk_packageVersion v') = k \<and>
         pk_providerTypeId v' = pk_providerTypeId v \<and> ((v', t') = (v, t) \<or> t div 1000 < t' div 1000)"
      using package_same [of v] ok_package [OF ok(2)] by fastforce
  }
qed


subsection \<open>Updates are fenced\<close>

text \<open>What an update is issued against: a row and the millisecond its caller expects it to carry.\<close>

datatype row_version =
    Type_version string int | Provider_version string int | Resource_version string string int

fun expected_version :: "pms_op \<Rightarrow> row_version option" where
  "expected_version (Set_provider_type_status i s (Some e)) = Some (Type_version i e)"
| "expected_version (Set_provider_status i s (Some e)) = Some (Provider_version i e)"
| "expected_version (Set_resource_status n i s (Some e)) = Some (Resource_version n i e)"
| "expected_version (Set_resource_metadata n i m (Some e)) = Some (Resource_version n i e)"
| "expected_version _ = None"

definition row_passed :: "('k, 'v) rows \<Rightarrow> 'k \<Rightarrow> int \<Rightarrow> bool" where
  "row_passed m k e \<longleftrightarrow> (case js_get m k of None \<Rightarrow> False | Some (v, t) \<Rightarrow> e < t div 1000)"

fun version_passed :: "catalog \<Rightarrow> row_version \<Rightarrow> bool" where
  "version_passed db (Type_version i e) = row_passed (db_types db) i e"
| "version_passed db (Provider_version i e) = row_passed (db_providers db) i e"
| "version_passed db (Resource_version n i e) = row_passed (db_resources db) (n, i) e"

lemma row_passed_kept: "table_advances moves m m' \<Longrightarrow> row_passed m k e \<Longrightarrow> row_passed m' k e"
  by (fastforce simp: row_passed_def table_advances_def advances_def split: option.splits prod.splits)

lemma version_passed_kept: "catalog_advances db db' \<Longrightarrow> version_passed db v \<Longrightarrow> version_passed db' v"
  by (cases v) (auto simp: catalog_advances_def intro: row_passed_kept)

lemma update_passes:
  assumes "update_row a w k v e clock m = Inr m'"
  shows "\<exists>t. e = Some t \<and> \<not> row_passed m k t \<and> row_passed m' k t"
  using assms next_time_later by (auto simp: update_row_Inr row_passed_def)

lemma audit_keeps_rows:
  assumes "appendAudit db c k a st si m = Inr db'"
  shows "db_types db' = db_types db" "db_providers db' = db_providers db" "db_resources db' = db_resources db"
  using appendAudit_change(2) [OF assms] by simp_all

lemma update_provider_type_passes:
  assumes "update_provider_type_status db k c i s e = Inr (db', v)" and ok: "catalog_ok db"
  shows "\<exists>t. e = Some t \<and> \<not> row_passed (db_types db) i t \<and> row_passed (db_types db') i t"
proof -
  from assms(1) obtain x db1 m where s: "get_type db i = Inr (Some x)"
    "save_type db (x\<lparr>pt_status := s\<rparr>) (Save_update e) (cl_clock k) = Inr db1"
    "appendAudit db1 c k ''provider_type.status_updated'' ''provider_type'' (pt_providerTypeId x) m = Inr db'"
    by (auto simp: update_provider_type_status_def createProviderType_def parsed_ids result_simps)
  from s(1) have "pt_providerTypeId x = i" using ok_type [OF ok] by (auto simp: get_type_Inr dest: type_row)
  with s(2) obtain m where "update_row ''ProviderType'' (\<lambda>_. True) i (x\<lparr>pt_status := s\<rparr>) e (cl_clock k)
      (db_types db) = Inr m" "db_types db1 = m" by (auto simp: save_type_def result_simps)
  with update_passes audit_keeps_rows(1) [OF s(3)] show ?thesis by metis
qed

lemma update_provider_passes:
  assumes "update_provider_status db k c i s e = Inr (db', v)" and ok: "catalog_ok db"
  shows "\<exists>t. e = Some t \<and> \<not> row_passed (db_providers db) i t \<and> row_passed (db_providers db') i t"
proof -
  from assms(1) obtain x db1 m where s: "get_provider db i = Inr (Some x)"
    "update_provider db (x\<lparr>pv_status := s\<rparr>) e (cl_clock k) = Inr db1"
    "appendAudit db1 c k ''provider.status_updated'' ''provider'' (pv_providerId x) m = Inr db'"
    by (auto simp: update_provider_status_def transitionProvider_def result_simps)
  from s(1) have "pv_providerId x = i"
    using ok_provider [OF ok] by (auto simp: get_provider_Inr dest: provider_row)
  with s(2) obtain m where "update_row ''Provider'' (\<lambda>_. True) i (x\<lparr>pv_status := s\<rparr>) e (cl_clock k)
      (db_providers db) = Inr m" "db_providers db1 = m" by (auto simp: update_provider_def result_simps)
  with update_passes audit_keeps_rows(2) [OF s(3)] show ?thesis by metis
qed

lemma update_resource_passes:
  assumes read: "get_resource db (n, i) = Inr (Some x)" and ok: "catalog_ok db"
    and key: "resource_key y = resource_key x" and upd: "update_resource db y e clock = Inr db1"
    and app: "appendAudit db1 c k a st si m = Inr db'"
  shows "\<exists>t. e = Some t \<and> \<not> row_passed (db_resources db) (n, i) t \<and> row_passed (db_resources db') (n, i) t"
proof -
  from read have "resource_key y = (n, i)"
    using ok_resource [OF ok] key by (auto simp: get_resource_Inr resource_key_def dest!: resource_row)
  with upd obtain m where "update_row ''Resource'' (\<lambda>_. True) (n, i) y e clock (db_resources db) = Inr m"
    "db_resources db1 = m" by (auto simp: update_resource_def result_simps)
  with update_passes audit_keeps_rows(3) [OF app] show ?thesis by metis
qed

lemma update_resource_status_passes:
  assumes "update_resource_status db k c n i s e = Inr (db', v)" and ok: "catalog_ok db"
  shows "\<exists>t. e = Some t \<and> \<not> row_passed (db_resources db) (n, i) t \<and> row_passed (db_resources db') (n, i) t"
proof -
  from assms(1) obtain x db1 st d where s: "get_resource db (n, i) = Inr (Some x)"
    "update_resource db (x\<lparr>rs_status := s\<rparr>) e (cl_clock k) = Inr db1"
    "appendAudit db1 c k ''resource.status_updated'' ''resource'' st d = Inr db'"
    by (auto simp: update_resource_status_def createResource_def resourceKey_def parsed_ids result_simps)
  show ?thesis by (rule update_resource_passes [OF s(1) ok _ s(2,3)]) (simp add: resource_key_def)
qed

lemma update_resource_metadata_passes:
  assumes "update_resource_metadata db k c n i m e = Inr (db', v)" and ok: "catalog_ok db"
  shows "\<exists>t. e = Some t \<and> \<not> row_passed (db_resources db) (n, i) t \<and> row_passed (db_resources db') (n, i) t"
proof -
  from assms(1) obtain x db1 st d where s: "get_resource db (n, i) = Inr (Some x)"
    "update_resource db (x\<lparr>rs_metadata := m\<rparr>) e (cl_clock k) = Inr db1"
    "appendAudit db1 c k ''resource.metadata_updated'' ''resource'' st d = Inr db'"
    by (auto simp: update_resource_metadata_def createResource_def resourceKey_def parsed_ids result_simps)
  show ?thesis by (rule update_resource_passes [OF s(1) ok _ s(2,3)]) (simp add: resource_key_def)
qed

lemma versioned_step_passes:
  assumes "pms_step ns sh db r = Inr (db', b)" and ok: "catalog_ok db"
    and v: "expected_version (snd (snd r)) = Some v"
  shows "\<not> version_passed db v \<and> version_passed db' v"
proof -
  from assms(1) have p: "perform ns sh db (fst r) (fst (snd r)) (snd (snd r)) = Inr db'"
    by (auto simp: pms_step_def result_simps)
  from v show ?thesis
    using p ok update_provider_type_passes update_provider_passes update_resource_status_passes
      update_resource_metadata_passes
    by (cases "snd (snd r)" rule: expected_version.cases) (fastforce simp: result_simps)+
qed


definition has_version :: "request \<Rightarrow> bool" where
  "has_version r \<longleftrightarrow> expected_version (snd (snd r)) \<noteq> None"

definition version_of :: "request \<Rightarrow> row_version" where
  "version_of r = the (expected_version (snd (snd r)))"

text \<open>The updates alone, the other calls, and both under the invariant.\<close>

definition refused :: pms_error where
  "refused = Center_error []"

definition update_step ::
    "(rat \<Rightarrow> string) \<Rightarrow> (string \<Rightarrow> string) \<Rightarrow> catalog \<Rightarrow> request \<Rightarrow> (catalog \<times> bool) pms" where
  "update_step ns sh db r = (if has_version r then under catalog_ok refused (pms_step ns sh) db r else Inl refused)"

definition call_step ::
    "(rat \<Rightarrow> string) \<Rightarrow> (string \<Rightarrow> string) \<Rightarrow> catalog \<Rightarrow> request \<Rightarrow> catalog pms" where
  "call_step ns sh db r = bind_r (under catalog_ok refused (pms_step ns sh) db r) (\<lambda>p. Inr (fst p))"

lemma step_keeps_versions:
  "pms_step ns sh db r = Inr (db', b) \<Longrightarrow> catalog_ok db \<Longrightarrow> version_passed db v \<Longrightarrow> version_passed db' v"
  using pms_step_changes changes_advance version_passed_kept by blast

interpretation updates: fence_ledger "\<lambda>db v. if version_passed db v then Some () else None" version_of
    "update_step ns sh" "call_step ns sh"
  for ns sh
proof unfold_locales
  fix db r db' b v
  assume "update_step ns sh db r = Inr (db', b)"
    and "(if version_passed db v then Some () else None) \<noteq> None"
  then show "(if version_passed db' v then Some () else None) \<noteq> None"
    using step_keeps_versions [of ns sh db r db' b v]
    by (auto simp: update_step_def under_Inr split: if_splits)
next
  fix db r db' v
  assume "call_step ns sh db r = Inr db'" and "(if version_passed db v then Some () else None) \<noteq> None"
  then show "(if version_passed db' v then Some () else None) \<noteq> None"
    using step_keeps_versions [of ns sh db r db' _ v]
    by (auto simp: call_step_def under_Inr result_simps split: if_splits)
qed (auto simp: update_step_def has_version_def version_of_def under_Inr
    dest: versioned_step_passes split: if_splits)

text \<open>
  C23. No update of the catalog is lost: of all updates that are issued against one version of a provider
  type, a provider or a resource, the row as it stood at some millisecond, at most one succeeds, whatever
  calls run before and in between; the others are refused.
\<close>

theorem updates_never_lost:
  "distinct (map version_of
     (filter has_version (effective (pms_step ns sh) (after (pms_step ns sh) empty_catalog rs) rs')))"
proof -
  let ?db = "after (pms_step ns sh) empty_catalog rs"
  have "effective (under catalog_ok refused (pms_step ns sh)) ?db rs' = effective (pms_step ns sh) ?db rs'"
    using run_ok pms_step_changes changes_ok by (intro effective_under) blast+
  moreover have "distinct (map (\<lambda>r. version_of (id r))
      (filter has_version (effective (under catalog_ok refused (pms_step ns sh)) ?db rs')))"
    by (rule updates.component_claims_once [where ns = ns and sh = sh])
      (simp_all add: update_step_def call_step_def)
  ultimately show ?thesis by simp
qed


subsection \<open>Every change is audited\<close>

fun written_packages :: "(rat \<Rightarrow> string) \<Rightarrow> (string \<Rightarrow> string) \<Rightarrow> catalog \<Rightarrow> audit_context \<Rightarrow> pms_op \<Rightarrow> nat" where
  "written_packages ns sh db c (Synchronize ps) =
     (case synchronize ns sh db c ps of Inl e \<Rightarrow> 0 | Inr (db', n) \<Rightarrow> sy_inserted n + sy_updated n)"
| "written_packages ns sh db c x = 1"

text \<open>
  C24. Whatever a successful call changes in the catalog stands in the audit: it appends one event, and a
  synchronisation one for each package that it inserts or updates, all with the actor and the correlation
  of the call and after all earlier events; a call that appends none has at most created provider types
  (which the synchronisation does without an event of their own).
\<close>

theorem every_change_audited:
  assumes "db = after (pms_step ns sh) empty_catalog rs" and "pms_step ns sh db (c, k, x) = Inr (db', b)"
  shows "\<exists>es. db_audit db' = db_audit db @ es \<and> length es = written_packages ns sh db c x \<and>
    (\<forall>e \<in> set es. ae_actorId e = au_actorId c \<and> ae_correlationId e = au_correlationId c) \<and>
    (es = [] \<longrightarrow> db' = db\<lparr>db_types := db_types db'\<rparr>)"
proof -
  have ok: "catalog_ok db" using assms(1) run_ok by simp
  from assms(2) have p: "perform ns sh db c k x = Inr db'" by (auto simp: pms_step_def result_simps)
  show ?thesis
  proof (cases "\<exists>ps. x = Synchronize ps")
    case True
    then obtain ps n where s: "x = Synchronize ps" "synchronize ns sh db c ps = Inr (db', n)"
      using p by (auto simp: result_simps)
    then show ?thesis using synchronize_changes [OF s(2) ok] by (auto simp: by_actor_def)
  next
    case False
    then have "written_packages ns sh db c x = 1" by (cases x) auto
    moreover obtain e where "db_audit db' = db_audit db @ [e]" "by_actor c [e]"
      using perform_changes(2) [OF p ok] False by blast
    ultimately show ?thesis by (auto simp: by_actor_def)
  qed
qed

subsection \<open>The catalog can be read\<close>

lemma row_found:
  assumes "\<And>v t. js_get m k = Some (v, t) \<Longrightarrow> is_ok (f (v, t))"
  shows "\<exists>w. (case js_get m k of None \<Rightarrow> Inr None | Some r \<Rightarrow> bind_r (f r) (\<lambda>v. Inr (Some v))) = Inr w \<and>
    (w = None \<longleftrightarrow> \<not> js_has m k)"
proof (cases "js_get m k")
  case (Some r)
  with assms obtain w where "f r = Inr w" by (cases r) (auto simp: is_ok_iff)
  with Some show ?thesis by (simp add: js_has_def)
qed (simp add: js_has_def)

lemma get_all:
  assumes "catalog_ok db"
  shows "\<exists>w. get_type db i = Inr w \<and> (w = None \<longleftrightarrow> \<not> js_has (db_types db) i)"
    and "\<exists>w. get_package db k = Inr w \<and> (w = None \<longleftrightarrow> \<not> js_has (db_packages db) k)"
    and "\<exists>w. get_provider db i = Inr w \<and> (w = None \<longleftrightarrow> \<not> js_has (db_providers db) i)"
    and "\<exists>w. get_resource db k = Inr w \<and> (w = None \<longleftrightarrow> \<not> js_has (db_resources db) k)"
  unfolding get_type_def get_package_def get_provider_def get_resource_def
  using ok_type [OF assms] ok_package [OF assms] ok_provider [OF assms] ok_resource [OF assms]
  by (blast intro!: row_found)+

lemma get_found:
  assumes "catalog_ok db"
  shows "js_has (db_types db) i \<Longrightarrow> \<exists>w. get_type db i = Inr (Some w)"
    and "js_has (db_packages db) k \<Longrightarrow> \<exists>w. get_package db k = Inr (Some w)"
    and "js_has (db_providers db) i \<Longrightarrow> \<exists>w. get_provider db i = Inr (Some w)"
    and "js_has (db_resources db) k \<Longrightarrow> \<exists>w. get_resource db k = Inr (Some w)"
  using get_all [OF assms] by (metis option.exhaust)+

text \<open>A page of rows that can all be read fails only for its cursor or its limit.\<close>

lemma select_page_reads:
  assumes "\<And>r. r \<in> set rows \<Longrightarrow> is_ok (f r)" and "is_ok (pageLimit p)" and "is_ok (pageOffset p)"
  shows "is_ok (select_page f rows p)"
proof -
  from assms(2,3) obtain l n where ln: "pageLimit p = Inr l" "pageOffset p = Inr n" by (auto simp: is_ok_iff)
  have "is_ok (map_r f (take (l + 1) (drop n rows)))"
    by (rule map_r_total) (meson assms(1) in_set_takeD in_set_dropD)
  with ln show ?thesis by (auto simp: select_page_def toPage_def is_ok_iff)
qed

lemma row_values:
  assumes "catalog_ok db"
  shows "r \<in> set (js_values (db_types db)) \<Longrightarrow> is_ok (providerTypeFromRow r)"
    and "s \<in> set (js_values (db_packages db)) \<Longrightarrow> is_ok (providerPackageFromRow s)"
    and "t \<in> set (js_values (db_providers db)) \<Longrightarrow> is_ok (providerFromRow t)"
    and "u \<in> set (js_values (db_resources db)) \<Longrightarrow> is_ok (resourceFromRow u)"
    and "b \<in> set (js_values (db_bindings db)) \<Longrightarrow> bindingFromRow b = Inr b \<and>
      js_has (db_providers db) (bd_providerId b) \<and> js_has (db_resources db) (bd_environment b, bd_resourceId b)"
    and "e \<in> set (db_audit db) \<Longrightarrow> is_ok (auditFromRow e)"
proof -
  from assms have d: "distinct (js_keys (db_types db))" "distinct (js_keys (db_packages db))"
    "distinct (js_keys (db_providers db))" "distinct (js_keys (db_resources db))"
    "distinct (js_keys (db_bindings db))" unfolding catalog_ok_def by blast+
  show "r \<in> set (js_values (db_types db)) \<Longrightarrow> is_ok (providerTypeFromRow r)"
    using js_values_get [OF d(1)] ok_type [OF assms] by (metis surj_pair)
  show "s \<in> set (js_values (db_packages db)) \<Longrightarrow> is_ok (providerPackageFromRow s)"
    using js_values_get [OF d(2)] ok_package [OF assms] by (metis surj_pair)
  show "t \<in> set (js_values (db_providers db)) \<Longrightarrow> is_ok (providerFromRow t)"
    using js_values_get [OF d(3)] ok_provider [OF assms] by (metis surj_pair)
  show "u \<in> set (js_values (db_resources db)) \<Longrightarrow> is_ok (resourceFromRow u)"
    using js_values_get [OF d(4)] ok_resource [OF assms] by (metis surj_pair)
  show "b \<in> set (js_values (db_bindings db)) \<Longrightarrow> bindingFromRow b = Inr b \<and>
      js_has (db_providers db) (bd_providerId b) \<and> js_has (db_resources db) (bd_environment b, bd_resourceId b)"
    using js_values_get [OF d(5), of b] assms unfolding catalog_ok_def by blast
  show "e \<in> set (db_audit db) \<Longrightarrow> is_ok (auditFromRow e)"
    using assms unfolding catalog_ok_def is_ok_iff by blast
qed

lemma bindings_read:
  assumes "catalog_ok db"
  obtains bs where "listByProvider collate db p = Inr bs" "set bs = set (forProvider (db_bindings db) p)"
proof -
  let ?bs = "order_by (then_by (\<lambda>x y. collate (bd_environment x) (bd_environment y))
      (\<lambda>x y. collate (bd_resourceId x) (bd_resourceId y))) (forProvider (db_bindings db) p)"
  have "map_r bindingFromRow ?bs = Inr ?bs"
    using row_values(5) [OF assms] by (intro map_r_id) (auto simp: forProvider_def)
  then show thesis by (intro that [of ?bs]) (simp_all add: listByProvider_def)
qed

text \<open>
  C25. The catalog that calls lead to can always be read and is consistent: no row fails the checks of its
  entity, so that a read fails only for the limit or the cursor of its page; a provider that is read
  carries the identifier it was asked by and names a provider type and a package that can be read too;
  and every binding of a provider that is listed connects a stored provider with a stored resource.
\<close>

theorem catalog_consistent:
  assumes "db = after (pms_step ns sh) empty_catalog rs"
  shows "(\<forall>i v. get_provider db i = Inr (Some v) \<longrightarrow> pv_providerId v = i \<and>
      (\<exists>t. get_type db (pv_providerTypeId v) = Inr (Some t)) \<and>
      (\<forall>p n. pv_packageId v = Some p \<and> pv_packageVersion v = Some n \<longrightarrow>
         (\<exists>w. get_package db (p, n) = Inr (Some w)))) \<and>
    (\<forall>i k. is_ok (get_provider db i) \<and> is_ok (get_type db i) \<and> is_ok (get_package db k) \<and>
       is_ok (get_resource db k)) \<and>
    (\<forall>q. is_ok (pageLimit q) \<and> is_ok (pageOffset q) \<longrightarrow>
       (\<forall>a b c n m. is_ok (list_types collate db q a) \<and> is_ok (list_packages collate db q n b) \<and>
          is_ok (list_providers collate db q n m c))) \<and>
    (\<forall>q. is_ok (pageLimit (aq_page q)) \<and> is_ok (pageOffset (aq_page q)) \<longrightarrow> is_ok (list_audit db q)) \<and>
    (\<forall>p. \<exists>bs. listByProvider collate db p = Inr bs \<and>
       (\<forall>b \<in> set bs. bd_providerId b = p \<and> (\<exists>v. get_provider db p = Inr (Some v)) \<and>
          (\<exists>r. get_resource db (bd_environment b, bd_resourceId b) = Inr (Some r))))"
proof -
  have ok: "catalog_ok db" using assms run_ok by simp
  have "pv_providerId v = i \<and> (\<exists>t. get_type db (pv_providerTypeId v) = Inr (Some t)) \<and>
      (\<forall>p n. pv_packageId v = Some p \<and> pv_packageVersion v = Some n \<longrightarrow>
         (\<exists>w. get_package db (p, n) = Inr (Some w)))" if h: "get_provider db i = Inr (Some v)" for i v
  proof -
    from h obtain w t where "js_get (db_providers db) i = Some (w, t)" "v = w\<lparr>pv_updatedAt := read_time t\<rparr>"
      by (auto simp: get_provider_Inr dest: provider_row)
    then show ?thesis using ok_provider [OF ok] get_found(1,2) [OF ok]
      by (fastforce simp: provider_references_def split: option.splits)
  qed
  moreover have "is_ok (get_provider db i)" "is_ok (get_type db i)" "is_ok (get_package db k)"
    "is_ok (get_resource db k)" for i k
    using get_all [OF ok] unfolding is_ok_iff by blast+
  moreover have "is_ok (list_types collate db q a)" "is_ok (list_packages collate db q n b)"
    "is_ok (list_providers collate db q n m c)" if "is_ok (pageLimit q)" "is_ok (pageOffset q)" for q a b c n m
    using that row_values [OF ok] unfolding list_types_def list_packages_def list_providers_def
    by (auto intro!: select_page_reads simp del: set_map)
  moreover have "is_ok (list_audit db q)" if "is_ok (pageLimit (aq_page q))" "is_ok (pageOffset (aq_page q))" for q
    using that row_values(6) [OF ok] unfolding list_audit_def by (auto intro!: select_page_reads)
  moreover have "\<exists>bs. listByProvider collate db p = Inr bs \<and>
       (\<forall>b \<in> set bs. bd_providerId b = p \<and> (\<exists>v. get_provider db p = Inr (Some v)) \<and>
          (\<exists>r. get_resource db (bd_environment b, bd_resourceId b) = Inr (Some r)))" for p
  proof -
    obtain bs where bs: "listByProvider collate db p = Inr bs"
      "set bs = set (forProvider (db_bindings db) p)" by (rule bindings_read [OF ok])
    then show ?thesis using row_values(5) [OF ok] get_found(3,4) [OF ok]
      by (fastforce simp: forProvider_def simp del: set_map)
  qed
  ultimately show ?thesis by blast
qed


subsection \<open>Synchronising again\<close>

definition package_key :: "provider_package \<Rightarrow> string \<times> string" where
  "package_key v = (pk_packageId v, pk_packageVersion v)"

lemma types_stay: "changes db db' \<Longrightarrow> js_has (db_types db) i \<Longrightarrow> js_has (db_types db') i"
  using changes_advance [of db db'] by (fastforce simp: catalog_advances_def table_advances_def js_has_def)

lemma fold_synced:
  assumes "fold_r (sync_package c) (db, n) ps = Inr (db', n')" and "catalog_ok db"
    and "\<And>p. p \<in> set ps \<Longrightarrow> projected (fst p)" and "distinct (map (\<lambda>p. package_key (fst p)) ps)"
  shows "changes db db' \<and>
    (\<forall>p \<in> set ps. js_has (db_types db') (pk_providerTypeId (fst p)) \<and>
       stored_checksum db' (package_key (fst p)) = Some (pk_checksum (fst p))) \<and>
    (\<forall>k. k \<notin> (\<lambda>p. package_key (fst p)) ` set ps \<longrightarrow> stored_checksum db' k = stored_checksum db k)"
  using assms
proof (induction ps arbitrary: db n)
  case (Cons p ps)
  obtain v k where p: "p = (v, k)" by (cases p)
  from Cons.prems(1) obtain db1 n1 where r: "sync_package c (db, n) (v, k) = Inr (db1, n1)"
    "fold_r (sync_package c) (db1, n1) ps = Inr (db', n')" by (auto simp: p result_simps)
  have "projected v" using Cons.prems(3) [of p] by (simp add: p)
  from sync_package_synced [OF r(1) Cons.prems(2) this] have a: "changes db db1"
    "js_has (db_types db1) (pk_providerTypeId v)"
    "stored_checksum db1 = (stored_checksum db)(package_key v := Some (pk_checksum v))"
    by (simp_all add: package_key_def)
  from Cons.IH [OF r(2) changes_ok [OF a(1) Cons.prems(2)]] Cons.prems(3,4) have b: "changes db1 db'"
    "\<forall>p \<in> set ps. js_has (db_types db') (pk_providerTypeId (fst p)) \<and>
       stored_checksum db' (package_key (fst p)) = Some (pk_checksum (fst p))"
    "\<forall>k. k \<notin> (\<lambda>p. package_key (fst p)) ` set ps \<longrightarrow> stored_checksum db' k = stored_checksum db1 k"
    by auto
  moreover have "package_key v \<notin> (\<lambda>p. package_key (fst p)) ` set ps" using Cons.prems(4) by (simp add: p)
  moreover have "js_has (db_types db') (pk_providerTypeId v)" using types_stay [OF b(1) a(2)] .
  moreover have "stored_checksum db' (package_key v) = Some (pk_checksum v)"
    using calculation(3,4) a(3) by (simp del: split_paired_All)
  moreover have "changes db db'" using a(1) b(1) by simp
  ultimately show ?case using a(3) by (simp add: p del: split_paired_All)
qed simp

lemma sync_package_unchanged:
  assumes "catalog_ok db" and "js_has (db_types db) (pk_providerTypeId v)"
    and "stored_checksum db (package_key v) = Some (pk_checksum v)"
  shows "sync_package c (db, n) (v, k) = Inr (db, n\<lparr>sy_unchanged := Suc (sy_unchanged n)\<rparr>)"
proof -
  obtain t where "get_type db (pk_providerTypeId v) = Inr (Some t)" using get_found(1) [OF assms(1,2)] by blast
  moreover obtain e where e: "get_package db (package_key v) = Inr e" using get_all(2) [OF assms(1)] by blast
  moreover have "map_option pk_checksum e = Some (pk_checksum v)"
    using stored_checksum_get [OF assms(1) e] assms(3) by simp
  ultimately show ?thesis by (simp add: sync_package_def sync_type_def package_key_def Let_def)
qed

lemma fold_unchanged:
  assumes "catalog_ok db" and "\<And>p. p \<in> set ps \<Longrightarrow> js_has (db_types db) (pk_providerTypeId (fst p)) \<and>
       stored_checksum db (package_key (fst p)) = Some (pk_checksum (fst p))"
  shows "fold_r (sync_package c) (db, n) ps = Inr (db, n\<lparr>sy_unchanged := sy_unchanged n + length ps\<rparr>)"
  using assms(2)
proof (induction ps arbitrary: n)
  case (Cons p ps)
  have "sync_package c (db, n) p = Inr (db, n\<lparr>sy_unchanged := Suc (sy_unchanged n)\<rparr>)"
    using sync_package_unchanged [OF assms(1), of "fst p" c n "snd p"] Cons.prems [of p] by simp
  with Cons show ?case by simp
qed simp

lemma projected_keys:
  "map_r (\<lambda>p. projectPackage ns sh (fst p)) ps = Inr vs \<Longrightarrow>
     map package_key vs = map (\<lambda>p. (rp_packageId (fst p), rp_packageVersion (fst p))) ps"
  by (induction ps arbitrary: vs)
    (auto simp: result_simps projectPackage_def createProviderPackage_def package_key_def parsed_ids)

lemma map_r_fst:
  "map fst ps = map fst qs \<Longrightarrow> map_r (\<lambda>p. f (fst p)) ps = map_r (\<lambda>p. f (fst p)) qs"
proof (induction ps arbitrary: qs)
  case (Cons p ps)
  then obtain q qs' where "qs = q # qs'" by (cases qs) auto
  with Cons show ?case by auto
qed simp

text \<open>
  C26. Synchronising the same packages again, by whomever, changes nothing and succeeds with every package
  counted as unchanged, when no two of them share identifier and version, which the package registry
  promises.
\<close>

theorem synchronize_idempotent:
  assumes "db = after (pms_step ns sh) empty_catalog rs"
    and "synchronize ns sh db c ps = Inr (db', n)"
    and "distinct (map (\<lambda>p. (rp_packageId (fst p), rp_packageVersion (fst p))) ps)"
    and "map fst qs = map fst ps" and "requireAuditContext c' = Inr ()"
  shows "synchronize ns sh db' c' qs =
    Inr (db', \<lparr>sy_inserted = 0, sy_updated = 0, sy_unchanged = length ps\<rparr>)"
proof -
  have ok: "catalog_ok db" using assms(1) run_ok by simp
  from assms(2) obtain vs where v: "map_r (\<lambda>p. projectPackage ns sh (fst p)) ps = Inr vs"
    "fold_r (sync_package c) (db, \<lparr>sy_inserted = 0, sy_updated = 0, sy_unchanged = 0\<rparr>)
       (zip vs (map snd ps)) = Inr (db', n)"
    by (auto simp: synchronize_def result_simps)
  have l: "length vs = length ps" "length qs = length ps"
    using map_r_Inr_length [OF v(1)] map_eq_imp_length_eq [OF assms(4)] by simp_all
  have "map (\<lambda>p. package_key (fst p)) (zip vs (map snd ps)) = map package_key (map fst (zip vs (map snd ps)))"
    by simp
  also have "\<dots> = map (\<lambda>p. (rp_packageId (fst p), rp_packageVersion (fst p))) ps"
    using projected_keys [OF v(1)] l by simp
  finally have d: "distinct (map (\<lambda>p. package_key (fst p)) (zip vs (map snd ps)))" using assms(3) by simp
  have "projected (fst p)" if "p \<in> set (zip vs (map snd ps))" for p
    using that projections [OF v(1)] by (metis prod.collapse set_zip_leftD)
  note s = fold_synced [OF v(2) ok this d]
  have ok': "catalog_ok db'" using s changes_ok ok by blast
  have "js_has (db_types db') (pk_providerTypeId v) \<and> stored_checksum db' (package_key v) = Some (pk_checksum v)"
    if h: "v \<in> set vs" for v
  proof -
    from h l obtain p where "p \<in> set (zip vs (map snd ps))" "fst p = v"
      by (metis in_set_impl_in_set_zip1 length_map fst_conv)
    with s show ?thesis by blast
  qed
  then have "fold_r (sync_package c') (db', \<lparr>sy_inserted = 0, sy_updated = 0, sy_unchanged = 0\<rparr>)
      (zip vs (map snd qs)) = Inr (db', \<lparr>sy_inserted = 0, sy_updated = 0, sy_unchanged = length ps\<rparr>)"
    using fold_unchanged [OF ok', of "zip vs (map snd qs)"] l by (force dest: set_zip_leftD)
  moreover have "map_r (\<lambda>p. projectPackage ns sh (fst p)) qs = Inr vs"
    using map_r_fst [OF assms(4), where f = "projectPackage ns sh"] v(1) by simp
  ultimately show ?thesis using assms(5) by (simp add: synchronize_def requireAuditContext_def throw_if_def split: if_splits)
qed


subsection \<open>A concrete run\<close>

text \<open>A provider type and a provider are created; the provider is activated and retired.\<close>

definition example_caller :: audit_context where
  "example_caller = \<lparr>au_actorId = ''operator'', au_correlationId = ''c1''\<rparr>"

definition example_call :: "char \<Rightarrow> int \<Rightarrow> call" where
  "example_call d t =
     \<lparr>cl_clock = t * 1000, cl_now = t, cl_uuid = d # ''0000000-0000-4000-8000-000000000000''\<rparr>"

definition example_request :: "char \<Rightarrow> int \<Rightarrow> pms_op \<Rightarrow> request" where
  "example_request d t x = (example_caller, example_call d t, x)"

definition example_provider :: provider_input where
  "example_provider =
     \<lparr>pn_providerId = ''p1'', pn_providerTypeId = ''sdar.ugv'', pn_packageId = None, pn_packageVersion = None,
      pn_hostingMode = None, pn_adapterEndpoint = None, pn_status = None, pn_updatedAt = None\<rparr>"

definition example_run :: "request list" where
  "example_run =
     [example_request (CHR ''1'') 10 (Create_provider_type ''sdar.ugv'' ''UGV''),
      example_request (CHR ''2'') 20 (Create_provider example_provider),
      example_request (CHR ''3'') 30 (Set_provider_status ''p1'' Provider_active (Some 20))]"

definition example_later :: "request list" where
  "example_later =
     [example_request (CHR ''4'') 30 (Set_provider_status ''p1'' Provider_disabled (Some 20)),
      example_request (CHR ''5'') 30 (Set_provider_status ''p1'' Provider_retired (Some 30)),
      example_request (CHR ''6'') 40 (Set_provider_status ''p1'' Provider_active (Some 31))]"

abbreviation example_step :: "catalog \<Rightarrow> request \<Rightarrow> (catalog \<times> bool) pms" where
  "example_step \<equiv> pms_step (\<lambda>_. ''1'') (\<lambda>_. replicate 64 (CHR ''a''))"

text \<open>The examples, evaluated once for the witnesses.\<close>

lemma catalog_examples:
  "map_option (\<lambda>r. (pv_status (fst r), snd r))
     (js_get (db_providers (after example_step empty_catalog example_run)) ''p1'') = Some (Provider_active, 30000) \<and>
   map_option (\<lambda>r. (pv_status (fst r), snd r))
     (js_get (db_providers (after example_step (after example_step empty_catalog example_run) example_later)) ''p1'')
   = Some (Provider_retired, 31000) \<and>
   is_ok (example_step (after example_step empty_catalog (take 2 example_run)) (example_run ! 2)) \<and>
   requireAuditContext example_caller = Inr ()"
  by code_simp

lemma example_rows:
  "map_option (\<lambda>r. (pv_status (fst r), snd r))
     (js_get (db_providers (after example_step empty_catalog example_run)) ''p1'') = Some (Provider_active, 30000)"
  "map_option (\<lambda>r. (pv_status (fst r), snd r))
     (js_get (db_providers (after example_step (after example_step empty_catalog example_run) example_later)) ''p1'')
   = Some (Provider_retired, 31000)"
  using catalog_examples by blast+


lemma example_provider_row:
  obtains v where "js_get (db_providers (after example_step empty_catalog example_run)) ''p1'' = Some (v, 30000)"
    "pv_status v = Provider_active"
  using example_rows(1) by auto

theorem catalog_only_advances_witness:
  "\<exists>v v'. js_get (db_providers (after example_step empty_catalog example_run)) ''p1'' = Some (v, 30000) \<and>
     js_get (db_providers (after example_step (after example_step empty_catalog example_run) example_later)) ''p1''
       = Some (v', 31000) \<and> provider_identity v' = provider_identity v \<and>
     (\<lambda>a b. b \<in> set (ProviderTransitions a))\<^sup>*\<^sup>* Provider_active (pv_status v')"
proof -
  obtain v where v: "js_get (db_providers (after example_step empty_catalog example_run)) ''p1'' = Some (v, 30000)"
    "pv_status v = Provider_active" by (rule example_provider_row)
  from v(1) catalog_only_advances [OF refl refl, THEN conjunct1, rule_format, OF v(1), of example_later]
  show ?thesis using example_rows(2) v(2) by auto
qed

lemma step_result:
  assumes "is_ok (pms_step ns sh db r)" obtains db' where "pms_step ns sh db r = Inr (db', True)"
  using assms by (auto simp: is_ok_iff pms_step_def result_simps)

lemma example_activation:
  "is_ok (example_step (after example_step empty_catalog (take 2 example_run)) (example_run ! 2))"
  using catalog_examples by blast

theorem every_change_audited_witness:
  "\<exists>db' e. example_step (after example_step empty_catalog (take 2 example_run)) (example_run ! 2) = Inr (db', True) \<and>
     db_audit db' = db_audit (after example_step empty_catalog (take 2 example_run)) @ [e] \<and>
     ae_actorId e = ''operator''"
proof -
  let ?db = "after example_step empty_catalog (take 2 example_run)"
  obtain db' where s: "example_step ?db (example_run ! 2) = Inr (db', True)"
    using example_activation by (rule step_result)
  have e: "example_run ! 2 = (example_caller, example_call (CHR ''3'') 30,
      Set_provider_status ''p1'' Provider_active (Some 20))"
    by (simp add: example_run_def example_request_def)
  from every_change_audited [OF refl s [unfolded e]]
  obtain es where es: "db_audit db' = db_audit ?db @ es" "length es = 1"
    "\<forall>e \<in> set es. ae_actorId e = au_actorId example_caller" by auto
  then obtain x where "es = [x]" by (auto simp: length_Suc_conv)
  with es s show ?thesis by (auto simp: example_caller_def)
qed

theorem catalog_consistent_witness:
  "\<exists>v t. get_provider (after example_step empty_catalog example_run) ''p1'' = Inr (Some v) \<and>
     get_type (after example_step empty_catalog example_run) (pv_providerTypeId v) = Inr (Some t)"
proof -
  let ?db = "after example_step empty_catalog example_run"
  obtain v where v: "js_get (db_providers ?db) ''p1'' = Some (v, 30000)" by (rule example_provider_row)
  note c = catalog_consistent [OF refl, where ns = "\<lambda>_. ''1''" and sh = "\<lambda>_. replicate 64 (CHR ''a'')"
      and rs = example_run]
  have "is_ok (get_provider ?db ''p1'')" using c by blast
  then obtain w where w: "get_provider ?db ''p1'' = Inr (Some w)"
    using v by (auto simp: is_ok_iff get_provider_def result_simps)
  have "\<exists>t. get_type ?db (pv_providerTypeId w) = Inr (Some t)"
    using c [THEN conjunct1, rule_format, OF w] by blast
  with w show ?thesis by blast
qed

definition example_package :: registry_package where
  "example_package =
     \<lparr>rp_packageId = ''ugv-package'', rp_packageVersion = ''1.0.0'', rp_providerType = ''sdar.ugv'',
      rp_hostingModes = [Vendor_managed], rp_componentStatus = ''failed'',
      rp_document = [(''packageId'', JStr ''ugv-package''), (''adapter'', JObj [])]\<rparr>"

abbreviation example_sync :: "catalog \<Rightarrow> (registry_package \<times> call) list \<Rightarrow> (catalog \<times> sync_counts) pms" where
  "example_sync db ps \<equiv>
     synchronize (\<lambda>_. ''1'') (\<lambda>_. replicate 64 (CHR ''a'')) db example_caller ps"

lemma example_synchronized: "is_ok (example_sync empty_catalog [(example_package, example_call (CHR ''7'') 50)])"
  by code_simp

theorem synchronize_idempotent_witness:
  "\<exists>db' n. example_sync empty_catalog [(example_package, example_call (CHR ''7'') 50)] = Inr (db', n) \<and>
     example_sync db' [(example_package, example_call (CHR ''8'') 60)] =
       Inr (db', \<lparr>sy_inserted = 0, sy_updated = 0, sy_unchanged = 1\<rparr>)"
proof -
  obtain db' n where s: "example_sync empty_catalog [(example_package, example_call (CHR ''7'') 50)] = Inr (db', n)"
    using example_synchronized by (auto simp: is_ok_iff)
  have "requireAuditContext example_caller = Inr ()" using catalog_examples by blast
  from synchronize_idempotent [OF _ s _ _ this, where rs = "[]" and qs = "[(example_package, example_call (CHR ''8'') 60)]"]
  have "example_sync db' [(example_package, example_call (CHR ''8'') 60)] =
       Inr (db', \<lparr>sy_inserted = 0, sy_updated = 0, sy_unchanged = 1\<rparr>)" by simp
  with s show ?thesis by blast
qed

end
