(* ===== verification/PmsJobs.thy ===== *)
theory PmsJobs
  imports PmsProviders
begin

text \<open>
  The durable jobs of the control plane: the table \<open>job_lease\<close> with the statements of
  audit-job-repositories.ts (packages/pms-persistence-postgres), and one round of the worker of
  apps/pms-worker/src (worker.ts, job-execution.ts, job-registry.ts). A statement reads the clock of the
  database once; times in the table are microseconds, those that come from the process milliseconds.
  The jobs whose rows other transactions hold locked, and the tokens that \<open>gen_random_uuid\<close> draws, are
  arguments.
\<close>

subsection \<open>job-lease.ts and the table\<close>

datatype job_status = Job_pending | Job_leased | Job_succeeded | Job_failed

text \<open>The owner, the token and the expiry of a leased row; the table holds all of them or none.\<close>

record lease_part =
  lp_owner :: string
  lp_token :: string
  lp_expires :: int

record job_row =
  jr_jobId :: string
  jr_jobType :: string
  jr_payload :: jobj
  jr_status :: job_status
  jr_lease :: "lease_part option"
  jr_fencing :: int
  jr_attempt :: int
  jr_available :: int
  jr_created :: int
  jr_updated :: int

type_synonym jobs = "(string, job_row) jsmap"

record enqueue_job =
  nj_jobId :: string
  nj_jobType :: string
  nj_payload :: jobj
  nj_availableAt :: "date option"

record claim_jobs =
  cj_owner :: string
  cj_jobTypes :: "string list"
  cj_limit :: int
  cj_leaseDurationMs :: int

record lease_identity =
  li_jobId :: string
  li_owner :: string
  li_token :: string
  li_fencing :: int

record pms_job =
  pj_jobId :: string
  pj_jobType :: string
  pj_payload :: jobj
  pj_status :: job_status
  pj_attempt :: int
  pj_availableAt :: int
  pj_createdAt :: int
  pj_updatedAt :: int

record job_lease =
  jl_job :: pms_job
  jl_owner :: string
  jl_token :: string
  jl_fencing :: int
  jl_expiresAt :: int

subsection \<open>audit-job-repositories.ts\<close>

definition leaseNotOwned :: "string \<Rightarrow> pms_error" where
  "leaseNotOwned jobId = Repository_error LEASE_NOT_OWNED jobId"

definition assertLeaseRequest :: "int \<Rightarrow> int \<Rightarrow> unit pms" where
  "assertLeaseRequest limit leaseDurationMs =
     throw_if
       (\<not> is_safe_integer limit \<or> limit < 1 \<or> limit > 500 \<or>
        \<not> is_safe_integer leaseDurationMs \<or> leaseDurationMs < 1 \<or> leaseDurationMs > 86400000)
       (Range_error ''PMS_JOB_LEASE_BOUNDS_INVALID'')"

text \<open>A \<open>Date\<close> given to a statement, or the clock in its place.\<close>

definition or_clock :: "date option \<Rightarrow> int \<Rightarrow> int pms" where
  "or_clock t clock =
     (case t of None \<Rightarrow> Inr clock | Some None \<Rightarrow> Inl (Database_error ''22007'') | Some (Some ms) \<Rightarrow> Inr (ms * 1000))"

definition enqueue :: "jobs \<Rightarrow> enqueue_job \<Rightarrow> int \<Rightarrow> jobs pms" where
  "enqueue m j clock =
     bind_r (or_clock (nj_availableAt j) clock) (\<lambda>available.
     bind_r (throw_if (\<not> not_blank (nj_jobId j) \<or> \<not> not_blank (nj_jobType j)) (Database_error ''23514'')) (\<lambda>_.
       insert_unique ''PmsJob'' (nj_jobId j)
         \<lparr>jr_jobId = nj_jobId j, jr_jobType = nj_jobType j, jr_payload = nj_payload j,
          jr_status = Job_pending, jr_lease = None, jr_fencing = 0, jr_attempt = 0,
          jr_available = available, jr_created = clock, jr_updated = clock\<rparr> m))"

definition expired :: "int \<Rightarrow> job_row \<Rightarrow> bool" where
  "expired clock r = (case jr_lease r of None \<Rightarrow> False | Some p \<Rightarrow> lp_expires p \<le> clock)"

definition claimable :: "string list \<Rightarrow> int \<Rightarrow> job_row \<Rightarrow> bool" where
  "claimable types clock r \<longleftrightarrow>
     jr_jobType r \<in> set types \<and>
     (jr_status r \<in> {Job_pending, Job_failed} \<and> jr_available r \<le> clock \<or>
      jr_status r = Job_leased \<and> expired clock r)"

definition job_order :: "(string \<Rightarrow> string \<Rightarrow> bool) \<Rightarrow> job_row \<Rightarrow> job_row \<Rightarrow> bool" where
  "job_order collate =
     then_by (\<lambda>x y. jr_available x < jr_available y)
       (then_by (\<lambda>x y. jr_created x < jr_created y) (\<lambda>x y. collate (jr_jobId x) (jr_jobId y)))"

definition candidates ::
    "(string \<Rightarrow> string \<Rightarrow> bool) \<Rightarrow> jobs \<Rightarrow> claim_jobs \<Rightarrow> string list \<Rightarrow> int \<Rightarrow> job_row list" where
  "candidates collate m c locked clock =
     take (nat (cj_limit c))
       (order_by (job_order collate)
         (filter (\<lambda>r. claimable (cj_jobTypes c) clock r \<and> jr_jobId r \<notin> set locked) (js_values m)))"

text \<open>The row after \<open>UPDATE job_lease SET status='leased', ...\<close>; an integer column may overflow.\<close>

definition leased_row :: "claim_jobs \<Rightarrow> (string \<Rightarrow> string) \<Rightarrow> int \<Rightarrow> job_row \<Rightarrow> job_row pms" where
  "leased_row c token clock r =
     (if jr_fencing r + 1 \<ge> 2 ^ 63 \<or> jr_attempt r + 1 \<ge> 2 ^ 31 then Inl (Database_error ''22003'')
      else
        Inr (r\<lparr>jr_status := Job_leased,
               jr_lease := Some \<lparr>lp_owner = cj_owner c, lp_token = uuid (token (jr_jobId r)),
                                 lp_expires = clock + cj_leaseDurationMs c * 1000\<rparr>,
               jr_fencing := jr_fencing r + 1, jr_attempt := jr_attempt r + 1, jr_updated := clock\<rparr>))"

definition jobFromRow :: "job_row \<Rightarrow> pms_job" where
  "jobFromRow r =
     \<lparr>pj_jobId = jr_jobId r, pj_jobType = jr_jobType r, pj_payload = jr_payload r, pj_status = jr_status r,
      pj_attempt = jr_attempt r, pj_availableAt = jr_available r div 1000,
      pj_createdAt = jr_created r div 1000, pj_updatedAt = jr_updated r div 1000\<rparr>"

text \<open>Only rows that \<open>claim\<close> and \<open>renew\<close> leave are read as leases; those are leased.\<close>

definition leaseFromRow :: "job_row \<Rightarrow> job_lease" where
  "leaseFromRow r =
     (case jr_lease r of
        Some p \<Rightarrow>
          \<lparr>jl_job = jobFromRow r, jl_owner = lp_owner p, jl_token = lp_token p, jl_fencing = jr_fencing r,
           jl_expiresAt = lp_expires p div 1000\<rparr>
      | None \<Rightarrow>
          \<lparr>jl_job = jobFromRow r, jl_owner = [], jl_token = [], jl_fencing = jr_fencing r, jl_expiresAt = 0\<rparr>)"

definition put_row :: "job_row \<Rightarrow> jobs \<Rightarrow> jobs" where
  "put_row r m = js_set (jr_jobId r) r m"

definition claim ::
    "(string \<Rightarrow> string \<Rightarrow> bool) \<Rightarrow> jobs \<Rightarrow> claim_jobs \<Rightarrow> string list \<Rightarrow> (string \<Rightarrow> string) \<Rightarrow> int
       \<Rightarrow> (jobs \<times> job_lease list) pms" where
  "claim collate m c locked token clock =
     bind_r (assertLeaseRequest (cj_limit c) (cj_leaseDurationMs c)) (\<lambda>_.
     bind_r (throw_if (trim (cj_owner c) = [] \<or> cj_jobTypes c = []) (Range_error ''PMS_JOB_CLAIM_INVALID'')) (\<lambda>_.
     bind_r (map_r (leased_row c token clock) (candidates collate m c locked clock)) (\<lambda>rows.
       Inr (fold put_row rows m, map leaseFromRow rows))))"

text \<open>The row that a lease identity names, as long as it is leased under it.\<close>

definition held :: "lease_identity \<Rightarrow> job_row \<Rightarrow> bool" where
  "held i r \<longleftrightarrow>
     jr_status r = Job_leased \<and> jr_fencing r = li_fencing i \<and>
     (case jr_lease r of None \<Rightarrow> False | Some p \<Rightarrow> lp_owner p = li_owner i \<and> lp_token p = uuid (li_token i))"

text \<open>An \<open>UPDATE\<close> of that row, which \<open>assertLeaseResult\<close> wants to find.\<close>

definition update_held :: "jobs \<Rightarrow> lease_identity \<Rightarrow> (job_row \<Rightarrow> bool) \<Rightarrow> (job_row \<Rightarrow> job_row) \<Rightarrow> (jobs \<times> job_row) pms" where
  "update_held m i where_also f =
     (case js_get m (li_jobId i) of
        None \<Rightarrow> Inl (leaseNotOwned (li_jobId i))
      | Some r \<Rightarrow>
          if held i r \<and> where_also r then Inr (js_set (li_jobId i) (f r) m, f r)
          else Inl (leaseNotOwned (li_jobId i)))"

definition renew :: "jobs \<Rightarrow> lease_identity \<Rightarrow> int \<Rightarrow> int \<Rightarrow> (jobs \<times> job_lease) pms" where
  "renew m i leaseDurationMs clock =
     bind_r (assertLeaseRequest 1 leaseDurationMs) (\<lambda>_.
     bind_r (update_held m i (\<lambda>r. \<not> expired clock r)
               (\<lambda>r. r\<lparr>jr_lease := map_option (\<lambda>p. p\<lparr>lp_expires := clock + leaseDurationMs * 1000\<rparr>) (jr_lease r),
                       jr_updated := clock\<rparr>)) (\<lambda>x.
       Inr (fst x, leaseFromRow (snd x))))"

definition unleased :: "job_status \<Rightarrow> int \<Rightarrow> job_row \<Rightarrow> job_row" where
  "unleased status clock r = r\<lparr>jr_status := status, jr_lease := None, jr_updated := clock\<rparr>"

definition release :: "jobs \<Rightarrow> lease_identity \<Rightarrow> date option \<Rightarrow> int \<Rightarrow> jobs pms" where
  "release m i availableAt clock =
     bind_r (or_clock availableAt clock) (\<lambda>t.
     bind_r (update_held m i (\<lambda>_. True) (\<lambda>r. (unleased Job_pending clock r)\<lparr>jr_available := t\<rparr>)) (\<lambda>x. Inr (fst x)))"

definition complete :: "jobs \<Rightarrow> lease_identity \<Rightarrow> int \<Rightarrow> jobs pms" where
  "complete m i clock =
     bind_r (update_held m i (\<lambda>_. True) (unleased Job_succeeded clock)) (\<lambda>x. Inr (fst x))"

definition fail_job :: "jobs \<Rightarrow> lease_identity \<Rightarrow> date \<Rightarrow> int \<Rightarrow> jobs pms" where
  "fail_job m i availableAt clock =
     bind_r (or_clock (Some availableAt) clock) (\<lambda>t.
     bind_r (update_held m i (\<lambda>_. True) (\<lambda>r. (unleased Job_failed clock r)\<lparr>jr_available := t\<rparr>)) (\<lambda>x. Inr (fst x)))"

definition list_jobs ::
    "(string \<Rightarrow> string \<Rightarrow> bool) \<Rightarrow> jobs \<Rightarrow> page_request \<Rightarrow> string option \<Rightarrow> job_status option \<Rightarrow> pms_job page pms"
where
  "list_jobs collate m p type status =
     select_page (\<lambda>r. Inr (jobFromRow r))
       (order_by (then_by (\<lambda>x y. jr_created x < jr_created y) (\<lambda>x y. collate (jr_jobId x) (jr_jobId y)))
         (filter (\<lambda>r. (type = None \<or> type = Some (jr_jobType r)) \<and> (status = None \<or> status = Some (jr_status r)))
           (js_values m))) p"

subsection \<open>runtime-reconcile-scheduler-repository.ts\<close>

text \<open>What the scheduler reads of a Runtime deployment, and its parameters.\<close>

record due_deployment =
  dd_providerId :: string
  dd_deploymentId :: string
  dd_status :: deployment_status
  dd_updated :: int

record schedule_jobs =
  sj_limit :: int
  sj_minimumAgeMs :: int

definition RUNTIME_RECONCILE_JOB_TYPE :: string where
  "RUNTIME_RECONCILE_JOB_TYPE = ''runtime_deployment.reconcile''"

definition check_schedule :: "schedule_jobs \<Rightarrow> unit pms" where
  "check_schedule c =
     throw_if
       (\<not> is_safe_integer (sj_limit c) \<or> sj_limit c < 1 \<or> sj_limit c > 500 \<or>
        \<not> is_safe_integer (sj_minimumAgeMs c) \<or> sj_minimumAgeMs c < 0 \<or> sj_minimumAgeMs c > 300000)
       (Range_error ''PMS_RUNTIME_RECONCILE_SCHEDULER_BOUNDS'')"

definition in_work :: "jobs \<Rightarrow> due_deployment \<Rightarrow> bool" where
  "in_work m d \<longleftrightarrow>
     list_ex (\<lambda>r. jr_jobType r = RUNTIME_RECONCILE_JOB_TYPE \<and> jr_status r \<in> {Job_pending, Job_leased} \<and>
       js_get (jr_payload r) ''providerId'' = Some (JStr (dd_providerId d)) \<and>
       js_get (jr_payload r) ''deploymentId'' = Some (JStr (dd_deploymentId d))) (js_values m)"

definition due ::
    "(string \<Rightarrow> string \<Rightarrow> bool) \<Rightarrow> jobs \<Rightarrow> due_deployment list \<Rightarrow> schedule_jobs \<Rightarrow> int \<Rightarrow> due_deployment list"
where
  "due collate m ds c clock =
     take (nat (sj_limit c))
       (order_by (then_by (\<lambda>x y. dd_updated x < dd_updated y) (\<lambda>x y. collate (dd_deploymentId x) (dd_deploymentId y)))
         (filter (\<lambda>d. dd_status d \<notin> {STOPPED, FAILED} \<and> dd_updated d \<le> clock - sj_minimumAgeMs c * 1000 \<and>
                      \<not> in_work m d) ds))"

definition periodic_job :: "string \<Rightarrow> due_deployment \<Rightarrow> enqueue_job" where
  "periodic_job drawn d =
     \<lparr>nj_jobId = ''runtime-reconcile-periodic:'' @ drawn, nj_jobType = RUNTIME_RECONCILE_JOB_TYPE,
      nj_payload = [(''providerId'', JStr (dd_providerId d)), (''deploymentId'', JStr (dd_deploymentId d)),
                    (''correlationId'', JStr (''runtime-reconcile-periodic:'' @ dd_deploymentId d))],
      nj_availableAt = None\<rparr>"

text \<open>\<open>lock\<close> says whether the advisory lock of the scheduler was free; \<open>drawn\<close> are the random identifiers.\<close>

definition enqueueDue ::
    "(string \<Rightarrow> string \<Rightarrow> bool) \<Rightarrow> jobs \<Rightarrow> due_deployment list \<Rightarrow> schedule_jobs \<Rightarrow> bool \<Rightarrow> (nat \<Rightarrow> string) \<Rightarrow> int
       \<Rightarrow> (jobs \<times> nat) pms" where
  "enqueueDue collate m ds c lock drawn clock =
     bind_r (check_schedule c) (\<lambda>_.
     if \<not> lock then Inr (m, 0)
     else
       (let found = due collate m ds c clock
        in bind_r (fold_r (\<lambda>m (i, d). enqueue m (periodic_job i d) clock) m
                  (zip (map drawn [0..<length found]) found)) (\<lambda>m'.
             Inr (m', length found))))"


subsection \<open>job-execution.ts\<close>

definition MINIMUM_LEASE_RENEWAL_INTERVAL_MS :: int where
  "MINIMUM_LEASE_RENEWAL_INTERVAL_MS = 100"

definition renewalInterval :: "int \<Rightarrow> int pms" where
  "renewalInterval leaseDurationMs =
     (let interval = leaseDurationMs div 3
      in if interval < MINIMUM_LEASE_RENEWAL_INTERVAL_MS
         then Inl (Range_error ''PMS_WORKER_LEASE_DURATION_TOO_SHORT'') else Inr interval)"

definition identity_of :: "job_lease \<Rightarrow> lease_identity" where
  "identity_of l =
     \<lparr>li_jobId = pj_jobId (jl_job l), li_owner = jl_owner l, li_token = jl_token l, li_fencing = jl_fencing l\<rparr>"

fun decimal :: "nat \<Rightarrow> string" where
  "decimal n =
     (if n < 10 then [char_of (48 + n)] else decimal (n div 10) @ [char_of (48 + n mod 10)])"

declare decimal.simps [simp del]

text \<open>The key of an execution: no two claims of a job get the same fencing token, which is positive.\<close>

definition operationId :: "lease_identity \<Rightarrow> string" where
  "operationId i = ''job:'' @ li_jobId i @ '':fence:'' @ decimal (nat (li_fencing i))"

definition idempotencyKey :: "lease_identity \<Rightarrow> string" where
  "idempotencyKey i = li_jobId i @ '':'' @ decimal (nat (li_fencing i))"

text \<open>
  What the world decides of one execution: the times at which the renewal loop fires before the handler
  settles, whether the worker was stopped meanwhile, whether the handler threw, the clock of the database
  and of the process at the end.
\<close>

record execution =
  ex_renewals :: "int list"
  ex_stopped :: bool
  ex_failed :: bool
  ex_clock :: int
  ex_now :: int

fun renewUntilSettled :: "jobs \<Rightarrow> lease_identity \<Rightarrow> int \<Rightarrow> int list \<Rightarrow> jobs \<times> bool" where
  "renewUntilSettled m i leaseDurationMs [] = (m, False)"
| "renewUntilSettled m i leaseDurationMs (t # ts) =
     (case renew m i leaseDurationMs t of
        Inl e \<Rightarrow> (m, True)
      | Inr (m', l) \<Rightarrow> renewUntilSettled m' i leaseDurationMs ts)"

definition settle :: "jobs \<Rightarrow> jobs pms \<Rightarrow> jobs \<times> pms_error option" where
  "settle m r = (case r of Inl e \<Rightarrow> (m, Some e) | Inr m' \<Rightarrow> (m', None))"

definition executePmsJob ::
    "jobs \<Rightarrow> job_lease \<Rightarrow> bool \<Rightarrow> int \<Rightarrow> int \<Rightarrow> execution \<Rightarrow> jobs \<times> pms_error option" where
  "executePmsJob m lease handler leaseDurationMs retryDelayMs x =
     (let i = identity_of lease;
          retryAt = Some (ex_now x + retryDelayMs)
      in if \<not> handler then settle m (fail_job m i retryAt (ex_clock x))
         else
           (case renewalInterval leaseDurationMs of
              Inl e \<Rightarrow> (m, Some e)
            | Inr _ \<Rightarrow>
                (case renewUntilSettled m i leaseDurationMs (ex_renewals x) of
                   (m', lost) \<Rightarrow>
                     if lost \<or> ex_stopped x then (m', None)
                     else if ex_failed x then settle m' (fail_job m' i retryAt (ex_clock x))
                     else settle m' (complete m' i (ex_clock x)))))"

subsection \<open>worker.ts\<close>

record worker_config =
  wc_workerId :: string
  wc_claimLimit :: int
  wc_leaseDurationMs :: int
  wc_retryDelayMs :: int

definition worker_claim :: "worker_config \<Rightarrow> string list \<Rightarrow> claim_jobs" where
  "worker_claim w types =
     \<lparr>cj_owner = wc_workerId w, cj_jobTypes = types, cj_limit = wc_claimLimit w,
      cj_leaseDurationMs = wc_leaseDurationMs w\<rparr>"

text \<open>
  The executions of one round run side by side; each writes only the row of its job, so that they are
  modelled one after the other. \<open>types\<close> are the types of the registered handlers.
\<close>

definition execute_next ::
    "worker_config \<Rightarrow> string list \<Rightarrow> (job_lease \<Rightarrow> execution) \<Rightarrow> job_lease \<Rightarrow> jobs \<times> pms_error option
       \<Rightarrow> jobs \<times> pms_error option" where
  "execute_next w types runs lease s =
     (case executePmsJob (fst s) lease (pj_jobType (jl_job lease) \<in> set types) (wc_leaseDurationMs w)
             (wc_retryDelayMs w) (runs lease) of
        (m', e) \<Rightarrow> (m', if snd s = None then e else snd s))"

definition runOnce ::
    "(string \<Rightarrow> string \<Rightarrow> bool) \<Rightarrow> worker_config \<Rightarrow> string list \<Rightarrow> (job_lease \<Rightarrow> execution) \<Rightarrow> string list
       \<Rightarrow> (string \<Rightarrow> string) \<Rightarrow> int \<Rightarrow> jobs \<Rightarrow> jobs \<times> nat pms" where
  "runOnce collate w types runs locked token clock m =
     (case claim collate m (worker_claim w types) locked token clock of
        Inl e \<Rightarrow> (m, Inl e)
      | Inr (m', leases) \<Rightarrow>
          (case fold (execute_next w types runs) leases (m', None) of
             (m'', None) \<Rightarrow> (m'', Inr (length leases))
           | (m'', Some e) \<Rightarrow> (m'', Inl e)))"

end
