(* ===== verification/JobPromises.thy ===== *)
theory JobPromises
  imports PmsJobs CatalogPromises
begin

text \<open>
  What the durable jobs promise under every interleaving of the statements of several workers: stale
  leases are refused, and a lease that has not run out excludes everyone else.
\<close>

declare map_of_eq_Some_iff [simp del]

subsection \<open>The table\<close>

definition job_ok :: "job_row \<Rightarrow> bool" where
  "job_ok r \<longleftrightarrow> 0 \<le> jr_fencing r \<and> (jr_status r = Job_leased \<longleftrightarrow> jr_lease r \<noteq> None)"

definition jobs_ok :: "jobs \<Rightarrow> bool" where
  "jobs_ok m \<longleftrightarrow> distinct (js_keys m) \<and> (\<forall>k r. js_get m k = Some r \<longrightarrow> jr_jobId r = k \<and> job_ok r)"

lemma jobs_okD: "jobs_ok m \<Longrightarrow> js_get m k = Some r \<Longrightarrow> jr_jobId r = k \<and> job_ok r"
  by (simp add: jobs_ok_def)

lemma jobs_ok_put: "jobs_ok m \<Longrightarrow> jr_jobId r = k \<Longrightarrow> job_ok r \<Longrightarrow> jobs_ok (js_set k r m)"
  by (simp add: jobs_ok_def)

lemma row_stored: "jobs_ok m \<Longrightarrow> r \<in> set (js_values m) \<Longrightarrow> js_get m (jr_jobId r) = Some r"
  using js_values_get [of m r] by (fastforce simp: jobs_ok_def)

lemma ids_distinct:
  assumes "jobs_ok m" shows "distinct (map jr_jobId (js_values m))"
proof -
  have "jr_jobId (snd x) = fst x" if "x \<in> set m" for x
    using assms that unfolding jobs_ok_def by (cases x) (metis fst_conv snd_conv map_of_is_SomeI)
  then have "map jr_jobId (js_values m) = js_keys m" by simp
  moreover have "distinct (js_keys m)" using assms by (simp add: jobs_ok_def)
  ultimately show ?thesis by (simp only:)
qed

lemma candidates_stored:
  assumes ok: "jobs_ok m"
  shows "distinct (map jr_jobId (candidates collate m c locked clock))"
    and "r \<in> set (candidates collate m c locked clock) \<Longrightarrow>
      js_get m (jr_jobId r) = Some r \<and> claimable (cj_jobTypes c) clock r \<and> jr_jobId r \<notin> set locked"
proof -
  define P where "P = (\<lambda>r. claimable (cj_jobTypes c) clock r \<and> jr_jobId r \<notin> set locked)"
  define all where "all = order_by (job_order collate) (filter P (js_values m))"
  have c: "candidates collate m c locked clock = take (nat (cj_limit c)) all"
    by (simp add: candidates_def all_def P_def)
  have "mset (map jr_jobId all) = mset (map jr_jobId (filter P (js_values m)))"
    unfolding all_def by (simp only: mset_map order_by_mset)
  moreover have "distinct (map jr_jobId (filter P (js_values m)))"
    using ids_distinct [OF ok] by (rule distinct_map_filter)
  ultimately have "distinct (map jr_jobId all)" by (metis mset_eq_imp_distinct_iff)
  then show "distinct (map jr_jobId (candidates collate m c locked clock))"
    unfolding c take_map [symmetric] by (rule distinct_take)
  assume "r \<in> set (candidates collate m c locked clock)"
  then have "r \<in> set all" unfolding c by (rule in_set_takeD)
  then have "r \<in> set (js_values m)" "P r" by (simp_all add: all_def)
  then show "js_get m (jr_jobId r) = Some r \<and> claimable (cj_jobTypes c) clock r \<and> jr_jobId r \<notin> set locked"
    using row_stored [OF ok] by (simp add: P_def)
qed

subsection \<open>Statements\<close>

lemma leased_row_Inr:
  "leased_row c token clock r = Inr s \<longleftrightarrow>
     jr_fencing r + 1 < 2 ^ 63 \<and> jr_attempt r + 1 < 2 ^ 31 \<and>
     s = r\<lparr>jr_status := Job_leased,
           jr_lease := Some \<lparr>lp_owner = cj_owner c, lp_token = uuid (token (jr_jobId r)),
                             lp_expires = clock + cj_leaseDurationMs c * 1000\<rparr>,
           jr_fencing := jr_fencing r + 1, jr_attempt := jr_attempt r + 1, jr_updated := clock\<rparr>"
  by (auto simp: leased_row_def)

lemma leased_rows_ids: "map_r (leased_row c token clock) rs = Inr ss \<Longrightarrow> map jr_jobId ss = map jr_jobId rs"
  by (induction rs arbitrary: ss) (auto simp: result_simps leased_row_Inr)

text \<open>Rows are written one after the other; each identifier once.\<close>

lemma fold_put:
  "distinct (map jr_jobId rs) \<Longrightarrow>
     js_get (fold put_row rs m) k = (case find (\<lambda>r. jr_jobId r = k) rs of Some r \<Rightarrow> Some r | None \<Rightarrow> js_get m k)"
proof (induction rs arbitrary: m)
  case (Cons r rs)
  have "jr_jobId r \<notin> jr_jobId ` set rs" using Cons.prems by simp
  then have "find (\<lambda>s. jr_jobId s = jr_jobId r) rs = None"
    unfolding find_None_iff by (metis imageI)
  with Cons show ?case by (cases "jr_jobId r = k") (simp_all add: put_row_def split: option.split)
qed simp

lemma fold_put_keys: "distinct (js_keys m) \<Longrightarrow> distinct (js_keys (fold put_row rs m))"
  by (induction rs arbitrary: m) (auto simp: put_row_def)

text \<open>What a claim does: it raises the fencing token of each job it returns and leaves all other rows.\<close>

lemma claim_Inr_rows:
  assumes run: "claim collate m c locked token clock = Inr (m', leases)" and ok: "jobs_ok m"
  obtains rows where "map jr_jobId rows = map jr_jobId (candidates collate m c locked clock)"
    "leases = map leaseFromRow rows" "distinct (map jr_jobId rows)"
    "\<And>s. s \<in> set rows \<Longrightarrow> \<exists>r. r \<in> set (candidates collate m c locked clock) \<and> leased_row c token clock r = Inr s"
    "\<And>k. js_get m' k = (case find (\<lambda>r. jr_jobId r = k) rows of Some r \<Rightarrow> Some r | None \<Rightarrow> js_get m k)"
    "distinct (js_keys m')"
proof -
  from run obtain rows where r: "map_r (leased_row c token clock) (candidates collate m c locked clock) = Inr rows"
    "m' = fold put_row rows m" "leases = map leaseFromRow rows" by (auto simp: claim_def result_simps)
  have d: "distinct (map jr_jobId rows)"
    using leased_rows_ids [OF r(1)] candidates_stored(1) [OF ok] by simp
  show thesis
  proof (rule that [of rows])
    show "js_get m' k = (case find (\<lambda>r. jr_jobId r = k) rows of Some r \<Rightarrow> Some r | None \<Rightarrow> js_get m k)" for k
      using fold_put [OF d] r(2) by simp
    show "distinct (js_keys m')" using fold_put_keys ok r(2) by (simp add: jobs_ok_def)
  qed (use r d leased_rows_ids [OF r(1)] map_r_set [OF r(1)] in auto)
qed

lemma job_claim_ok:
  assumes "claim collate m c locked token clock = Inr (m', leases)" and ok: "jobs_ok m"
  shows "jobs_ok m'"
proof -
  obtain rows where r: "\<And>s. s \<in> set rows \<Longrightarrow> \<exists>r. r \<in> set (candidates collate m c locked clock) \<and> leased_row c token clock r = Inr s"
    "\<And>k. js_get m' k = (case find (\<lambda>r. jr_jobId r = k) rows of Some r \<Rightarrow> Some r | None \<Rightarrow> js_get m k)"
    "distinct (js_keys m')" by (rule claim_Inr_rows [OF assms]) blast
  have "jr_jobId s = k \<and> job_ok s" if "js_get m' k = Some s" for k s
  proof (cases "find (\<lambda>r. jr_jobId r = k) rows")
    case None
    with that r(2) jobs_okD [OF ok] show ?thesis by simp
  next
    case (Some s')
    with that r(2) have s: "s \<in> set rows" "jr_jobId s = k" by (auto simp: find_Some_iff in_set_conv_nth)
    from r(1) [OF s(1)] obtain u where "u \<in> set (candidates collate m c locked clock)"
      "leased_row c token clock u = Inr s" by blast
    then show ?thesis using s(2) candidates_stored(2) [OF ok] jobs_okD [OF ok]
      by (fastforce simp: leased_row_Inr job_ok_def)
  qed
  with r(3) show ?thesis by (simp add: jobs_ok_def)
qed

lemma update_held_Inr:
  "update_held m i P f = Inr (m', s) \<longleftrightarrow>
     (\<exists>r. js_get m (li_jobId i) = Some r \<and> held i r \<and> P r \<and> s = f r \<and> m' = js_set (li_jobId i) (f r) m)"
  by (auto simp: update_held_def split: option.splits)


abbreviation lease_job :: "job_lease \<Rightarrow> string" where
  "lease_job l \<equiv> pj_jobId (jl_job l)"

lemma leaseFromRow_fields:
  "jr_lease r = Some p \<Longrightarrow> lease_job (leaseFromRow r) = jr_jobId r \<and> jl_fencing (leaseFromRow r) = jr_fencing r \<and>
     jl_owner (leaseFromRow r) = lp_owner p \<and> jl_token (leaseFromRow r) = lp_token p"
  by (simp add: leaseFromRow_def jobFromRow_def)

lemma leaseFromRow_job [simp]: "lease_job (leaseFromRow r) = jr_jobId r"
  by (simp add: leaseFromRow_def jobFromRow_def split: option.split)

lemma leaseFromRow_type [simp]: "pj_jobType (jl_job (leaseFromRow r)) = jr_jobType r"
  by (simp add: leaseFromRow_def jobFromRow_def split: option.split)

lemma uuid_again [simp]: "uuid (uuid t) = uuid t"
  by (simp add: uuid_def)

lemma claim_leases:
  assumes run: "claim collate m c locked token clock = Inr (m', leases)" and ok: "jobs_ok m"
  shows "distinct (map lease_job leases)"
    and "l \<in> set leases \<Longrightarrow> \<exists>r r'. js_get m (lease_job l) = Some r \<and> claimable (cj_jobTypes c) clock r \<and>
      leased_row c token clock r = Inr r' \<and> js_get m' (lease_job l) = Some r' \<and> l = leaseFromRow r' \<and>
      held (identity_of l) r' \<and> jl_fencing l = jr_fencing r + 1"
    and "k \<notin> lease_job ` set leases \<Longrightarrow> js_get m' k = js_get m k"
proof -
  obtain rows where r: "map jr_jobId rows = map jr_jobId (candidates collate m c locked clock)"
    "leases = map leaseFromRow rows" "distinct (map jr_jobId rows)"
    "\<And>s. s \<in> set rows \<Longrightarrow> \<exists>r. r \<in> set (candidates collate m c locked clock) \<and> leased_row c token clock r = Inr s"
    "\<And>k. js_get m' k = (case find (\<lambda>r. jr_jobId r = k) rows of Some r \<Rightarrow> Some r | None \<Rightarrow> js_get m k)"
    by (rule claim_Inr_rows [OF assms]) blast
  have id: "lease_job (leaseFromRow s) = jr_jobId s \<and> held (identity_of (leaseFromRow s)) s \<and>
      jl_fencing (leaseFromRow s) = jr_fencing s" if "s \<in> set rows" for s
    using r(4) [OF that] by (auto simp: leased_row_Inr leaseFromRow_def jobFromRow_def held_def identity_of_def)
  then have ids: "map lease_job leases = map jr_jobId rows" by (simp add: r(2))
  then show "distinct (map lease_job leases)" using r(3) by simp
  show "\<exists>r r'. js_get m (lease_job l) = Some r \<and> claimable (cj_jobTypes c) clock r \<and>
      leased_row c token clock r = Inr r' \<and> js_get m' (lease_job l) = Some r' \<and> l = leaseFromRow r' \<and>
      held (identity_of l) r' \<and> jl_fencing l = jr_fencing r + 1" if "l \<in> set leases"
  proof -
    from that r(2) obtain s where s: "s \<in> set rows" "l = leaseFromRow s" by auto
    from r(4) [OF s(1)] obtain u where u: "u \<in> set (candidates collate m c locked clock)"
      "leased_row c token clock u = Inr s" by blast
    have "find (\<lambda>r. jr_jobId r = jr_jobId s) rows = Some s"
      using r(3) s(1) by (induction rows) auto
    then have "js_get m' (lease_job l) = Some s" using r(5) id [OF s(1)] s(2) by simp
    moreover have "jr_jobId s = jr_jobId u" "jr_fencing s = jr_fencing u + 1" using u(2) by (simp_all add: leased_row_Inr)
    ultimately show ?thesis using candidates_stored(2) [OF ok u(1)] u(2) id [OF s(1)] s(2) by auto
  qed
  show "js_get m' k = js_get m k" if "k \<notin> lease_job ` set leases"
  proof -
    have "k \<notin> set (map jr_jobId rows)" using that ids by (metis list.set_map)
    then have "find (\<lambda>r. jr_jobId r = k) rows = None" by (auto simp: find_None_iff)
    then show ?thesis using r(5) by simp
  qed
qed

subsection \<open>Interleaved statements\<close>

datatype job_op =
    Enqueue enqueue_job int
  | Claim claim_jobs "string list" "string \<Rightarrow> string" int
  | Renew lease_identity int int
  | Release lease_identity "date option" int
  | Complete lease_identity int
  | Fail lease_identity date int
  | Schedule "due_deployment list" schedule_jobs bool "nat \<Rightarrow> string" int

text \<open>The leases are those of claims.\<close>

fun job_step ::
    "(string \<Rightarrow> string \<Rightarrow> bool) \<Rightarrow> jobs \<Rightarrow> job_op \<Rightarrow> (jobs \<times> job_lease list) pms" where
  "job_step collate m (Enqueue j t) = bind_r (enqueue m j t) (\<lambda>m'. Inr (m', []))"
| "job_step collate m (Claim c locked token t) = claim collate m c locked token t"
| "job_step collate m (Renew i d t) = bind_r (renew m i d t) (\<lambda>x. Inr (fst x, []))"
| "job_step collate m (Release i a t) = bind_r (release m i a t) (\<lambda>m'. Inr (m', []))"
| "job_step collate m (Complete i t) = bind_r (complete m i t) (\<lambda>m'. Inr (m', []))"
| "job_step collate m (Fail i a t) = bind_r (fail_job m i a t) (\<lambda>m'. Inr (m', []))"
| "job_step collate m (Schedule ds c lock drawn t) =
     bind_r (enqueueDue collate m ds c lock drawn t) (\<lambda>x. Inr (fst x, []))"

definition job_run :: "(string \<Rightarrow> string \<Rightarrow> bool) \<Rightarrow> jobs \<Rightarrow> job_op list \<Rightarrow> jobs \<times> job_lease list" where
  "job_run collate = grants (job_step collate)"

fun op_identity :: "job_op \<Rightarrow> lease_identity option" where
  "op_identity (Renew i d t) = Some i"
| "op_identity (Release i a t) = Some i"
| "op_identity (Complete i t) = Some i"
| "op_identity (Fail i a t) = Some i"
| "op_identity _ = None"

text \<open>Every statement leaves each row, or works under the lease of its row, or claims it.\<close>

definition row_effect :: "job_op \<Rightarrow> job_row \<Rightarrow> job_row \<Rightarrow> job_lease list \<Rightarrow> bool" where
  "row_effect x r r' ls \<longleftrightarrow>
     r' = r \<and> jr_jobId r \<notin> lease_job ` set ls \<or>
     (\<exists>i. op_identity x = Some i \<and> li_jobId i = jr_jobId r \<and> held i r \<and> jr_fencing r' = jr_fencing r \<and>
          jr_jobType r' = jr_jobType r \<and> jr_payload r' = jr_payload r \<and> ls = []) \<or>
     (\<exists>c locked token t. x = Claim c locked token t \<and> claimable (cj_jobTypes c) t r \<and>
          leased_row c token t r = Inr r' \<and> leaseFromRow r' \<in> set ls)"

lemma update_held_effect:
  assumes "update_held m i P f = Inr (m', s)" and ok: "jobs_ok m" and k: "js_get m k = Some r"
    and f: "\<And>r. jr_jobId (f r) = jr_jobId r \<and> jr_fencing (f r) = jr_fencing r \<and> jr_jobType (f r) = jr_jobType r \<and>
      jr_payload (f r) = jr_payload r" and x: "op_identity x = Some i"
  shows "\<exists>r'. js_get m' k = Some r' \<and> row_effect x r r' []"
proof (cases "k = li_jobId i")
  case True
  with assms(1) k have "js_get m' k = Some (f r)" "held i r" by (auto simp: update_held_Inr)
  then show ?thesis using f x True jobs_okD [OF ok k] by (auto simp: row_effect_def)
next
  case False
  with assms(1) k show ?thesis by (auto simp: update_held_Inr row_effect_def)
qed

lemma update_held_ok:
  assumes "update_held m i P f = Inr (m', s)" and ok: "jobs_ok m"
    and f: "\<And>r. held i r \<Longrightarrow> job_ok r \<Longrightarrow> job_ok (f r) \<and> jr_jobId (f r) = jr_jobId r"
  shows "jobs_ok m'"
  using assms(1) jobs_okD [OF ok] f jobs_ok_put [OF ok] by (fastforce simp: update_held_Inr)

lemma enqueue_effect:
  assumes "enqueue m j t = Inr m'" and ok: "jobs_ok m"
  shows "jobs_ok m'" and "js_get m k = Some r \<Longrightarrow> js_get m' k = Some r"
  using assms by (auto simp: enqueue_def insert_unique_def js_has_def job_ok_def result_simps
      intro!: jobs_ok_put split: if_splits)

lemma enqueue_all_effect:
  assumes "fold_r (\<lambda>m (i, d). enqueue m (periodic_job i d) t) m ps = Inr m'" and ok: "jobs_ok m"
  shows "jobs_ok m' \<and> (\<forall>k r. js_get m k = Some r \<longrightarrow> js_get m' k = Some r)"
  using assms
proof (induction ps arbitrary: m)
  case (Cons p ps)
  then obtain i d m1 where "p = (i, d)" "enqueue m (periodic_job i d) t = Inr m1"
    "fold_r (\<lambda>m (i, d). enqueue m (periodic_job i d) t) m1 ps = Inr m'" by (cases p) (auto simp: result_simps)
  with Cons.IH [of m1] Cons.prems(2) enqueue_effect [of m "periodic_job i d" t m1] show ?case by blast
qed simp

lemma enqueueDue_effect:
  assumes "enqueueDue collate m ds c lock drawn t = Inr (m', n)" and "jobs_ok m"
  shows "jobs_ok m' \<and> (\<forall>k r. js_get m k = Some r \<longrightarrow> js_get m' k = Some r)"
  using assms enqueue_all_effect unfolding enqueueDue_def
  by (auto simp: result_simps Let_def split: if_splits)

lemma job_step_ok:
  assumes "job_step collate m x = Inr (m', ls)" and ok: "jobs_ok m"
  shows "jobs_ok m'"
  using assms
  by (cases x)
    (auto simp: result_simps renew_def release_def complete_def fail_job_def job_ok_def unleased_def held_def
      dest: enqueue_effect job_claim_ok enqueueDue_effect elim!: update_held_ok)

lemma job_step_effect:
  assumes step: "job_step collate m x = Inr (m', ls)" and ok: "jobs_ok m" and k: "js_get m k = Some r"
  shows "\<exists>r'. js_get m' k = Some r' \<and> row_effect x r r' ls"
proof (cases "op_identity x")
  case None
  show ?thesis
  proof (cases x)
    case (Claim c locked token t)
    with step have cl: "claim collate m c locked token t = Inr (m', ls)" by simp
    show ?thesis
    proof (cases "k \<in> lease_job ` set ls")
      case True
      then obtain l where "l \<in> set ls" "k = lease_job l" by blast
      with claim_leases(2) [OF cl ok this(1)] k Claim show ?thesis unfolding row_effect_def by auto
    next
      case False
      with claim_leases(3) [OF cl ok this] k jobs_okD [OF ok k] show ?thesis by (auto simp: row_effect_def)
    qed
  qed (use None step k enqueue_effect(2) [OF _ ok] enqueueDue_effect [OF _ ok] in
      \<open>auto simp: row_effect_def result_simps\<close>)
next
  case (Some i)
  with step obtain P f s where "update_held m i P f = Inr (m', s)" "ls = []"
    "\<forall>r. jr_jobId (f r) = jr_jobId r \<and> jr_fencing (f r) = jr_fencing r \<and> jr_jobType (f r) = jr_jobType r \<and>
      jr_payload (f r) = jr_payload r"
    by (cases x) (auto simp: result_simps renew_def release_def complete_def fail_job_def unleased_def)
  with update_held_effect [OF this(1) ok k _ Some] show ?thesis by blast
qed

subsection \<open>Fencing of the jobs\<close>

definition fence_level :: "jobs \<Rightarrow> string \<Rightarrow> int" where
  "fence_level m k = (case js_get m k of None \<Rightarrow> 0 | Some r \<Rightarrow> jr_fencing r)"

lemma job_step_leases:
  assumes step: "job_step collate m x = Inr (m', ls)" and ok: "jobs_ok m"
  shows "distinct (map lease_job ls)"
    and "l \<in> set ls \<Longrightarrow> fence_level m (lease_job l) < jl_fencing l \<and> jl_fencing l = fence_level m' (lease_job l)"
proof -
  consider (claim) c locked token t where "x = Claim c locked token t" | (other) "ls = []"
    using step by (cases x) (auto simp: result_simps)
  note cases = this
  show "distinct (map lease_job ls)" using cases step claim_leases(1) [OF _ ok] by cases auto
  show "fence_level m (lease_job l) < jl_fencing l \<and> jl_fencing l = fence_level m' (lease_job l)" if "l \<in> set ls"
    using cases
  proof cases
    case claim
    then have "claim collate m c locked token t = Inr (m', ls)" using step by simp
    from claim_leases(2) [OF this ok that] obtain r r' where "js_get m (lease_job l) = Some r"
      "js_get m' (lease_job l) = Some r'" "held (identity_of l) r'" "jl_fencing l = jr_fencing r + 1" by blast
    then show ?thesis by (simp add: fence_level_def held_def identity_of_def)
  qed (use that in simp)
qed

lemma job_step_level:
  assumes step: "job_step collate m x = Inr (m', ls)" and ok: "jobs_ok m"
  shows "fence_level m k \<le> fence_level m' k"
proof (cases "js_get m k")
  case None
  have "jobs_ok m'" using step ok by (rule job_step_ok)
  then show ?thesis using None by (auto simp: fence_level_def job_ok_def dest: jobs_okD split: option.split)
next
  case (Some r)
  from job_step_effect [OF step ok Some] obtain r' where "js_get m' k = Some r'" "row_effect x r r' ls" by blast
  with Some show ?thesis by (auto simp: fence_level_def row_effect_def leased_row_Inr)
qed

interpretation jb: fencing jobs_ok fence_level lease_job jl_fencing "job_step collate"
proof (unfold_locales, goal_cases)
  case 1 then show ?case using job_step_ok by blast
next
  case 2 then show ?case using job_step_level by blast
next
  case (3 s x s' ls l) then show ?case using job_step_leases(2) [OF 3(2,1,3)] by simp
next
  case 4 then show ?case using job_step_leases(1) by blast
qed

text \<open>A statement under a lease is refused once the token of its job has moved on.\<close>

lemma behind_refused:
  assumes "li_fencing i < fence_level m (li_jobId i)" and "op_identity x = Some i"
  shows "\<exists>e. job_step collate m x = Inl e"
proof -
  have "update_held m i P f \<noteq> Inr y" for P f y
    using assms(1) by (auto simp: fence_level_def update_held_def held_def split: option.splits)
  then have "job_step collate m x \<noteq> Inr y" for y
    using assms(2) by (cases x) (auto simp: renew_def release_def complete_def fail_job_def result_simps)
  then show ?thesis by (metis sum.exhaust)
qed

lemma decimal_digits: "c \<in> set (decimal n) \<Longrightarrow> 48 \<le> (of_char c :: nat) \<and> (of_char c :: nat) < 58"
proof (induction n rule: decimal.induct)
  case (1 n)
  have d: "48 \<le> (of_char (char_of (48 + d) :: char) :: nat) \<and> (of_char (char_of (48 + d) :: char) :: nat) < 58"
    if "d < 10" for d :: nat using that by simp
  show ?case
  proof (cases "n < 10")
    case True
    with 1(2) d [of n] show ?thesis by (simp add: decimal.simps [of n])
  next
    case False
    with 1(2) have "c \<in> set (decimal (n div 10)) \<or> c = char_of (48 + n mod 10)" by (auto simp: decimal.simps [of n])
    with 1(1) [OF False] d [of "n mod 10"] show ?thesis by auto
  qed
qed

lemma decimal_no_colon: "CHR '':'' \<notin> set (decimal n)"
  using decimal_digits [of "CHR '':''" n] by auto

lemma decimal_inject [simp]: "decimal m = decimal n \<longleftrightarrow> m = n"
proof (induction m arbitrary: n rule: decimal.induct)
  case (1 m)
  have c: "char_of (48 + d) = (char_of (48 + e) :: char) \<longleftrightarrow> d = e" if "d < 10" "e < 10" for d e :: nat
  proof
    assume "char_of (48 + d) = (char_of (48 + e) :: char)"
    then have "of_char (char_of (48 + d) :: char) = (of_char (char_of (48 + e) :: char) :: nat)" by simp
    then show "d = e" using that by simp
  qed simp
  have "decimal k \<noteq> []" for k by (simp add: decimal.simps [of k])
  note ne = this this [symmetric]
  show ?case
  proof (cases "m < 10")
    case True
    then show ?thesis using c [of m n] ne by (auto simp: decimal.simps [of m] decimal.simps [of n] split: if_splits)
  next
    case False
    then show ?thesis using 1 [OF False, of "n div 10"] c [of "m mod 10" "n mod 10"] ne
      by (auto simp: decimal.simps [of m] decimal.simps [of n] split: if_splits) (metis mult_div_mod_eq)
  qed
qed

text \<open>A key is split at its last colon.\<close>

lemma split_last:
  "c \<notin> set ys \<Longrightarrow> c \<notin> set ys' \<Longrightarrow> xs @ c # ys = xs' @ c # ys' \<Longrightarrow> xs = xs' \<and> ys = ys'"
proof (induction xs arbitrary: xs')
  case Nil
  then show ?case by (cases xs') auto
next
  case (Cons x xs)
  then show ?case by (cases xs') auto
qed

lemma idempotencyKey_inject:
  assumes "idempotencyKey i = idempotencyKey j" and "0 \<le> li_fencing i" "0 \<le> li_fencing j"
  shows "li_jobId i = li_jobId j \<and> li_fencing i = li_fencing j"
proof -
  have "li_jobId i = li_jobId j \<and> decimal (nat (li_fencing i)) = decimal (nat (li_fencing j))"
    by (rule split_last [of "CHR '':''"]) (use assms(1) in \<open>simp_all add: idempotencyKey_def decimal_no_colon\<close>)
  with assms(2,3) show ?thesis by (simp add: eq_nat_nat_iff)
qed

lemma jobs_ok_Nil: "jobs_ok []"
  by (simp add: jobs_ok_def)

text \<open>C27. Several workers share the table, each statement a transaction; a lease may run out and its job be
  claimed again while the handler of the first claim is still at work. Of two claims of a job the later has
  the greater token, whatever came between them. From then on, no statement under the earlier lease is
  accepted, also when the job was released or finished, and no two executions share an idempotency key.\<close>

theorem stale_leases_refused:
  assumes "job_run collate [] ops = (m, L)"
  shows "distinct (map (\<lambda>l. idempotencyKey (identity_of l)) L) \<and>
    (\<forall>i j x. i < j \<and> j < length L \<and> lease_job (L ! i) = lease_job (L ! j) \<and> op_identity x = Some (identity_of (L ! i)) \<longrightarrow>
      (\<exists>e. job_step collate m x = Inl e))"
proof -
  have run: "grants (job_step collate) [] ops = (m, L)" using assms by (simp add: job_run_def)
  note levels = jb.run_levels [OF jobs_ok_Nil run]
  have inc: "sorted_wrt (\<lambda>x y. lease_job x = lease_job y \<longrightarrow> jl_fencing x < jl_fencing y) L"
    using jb.tokens_increase [OF jobs_ok_Nil run] .
  have pos: "0 < jl_fencing l" if "l \<in> set L" for l using levels [of _ l] that by (simp add: fence_level_def)
  have "idempotencyKey (identity_of (L ! a)) \<noteq> idempotencyKey (identity_of (L ! b))" if "a < b" "b < length L" for a b
  proof
    assume "idempotencyKey (identity_of (L ! a)) = idempotencyKey (identity_of (L ! b))"
    then have "lease_job (L ! a) = lease_job (L ! b)" "jl_fencing (L ! a) = jl_fencing (L ! b)"
      using idempotencyKey_inject [of "identity_of (L ! a)" "identity_of (L ! b)"] pos [of "L ! a"] pos [of "L ! b"] that
      by (auto simp: identity_of_def)
    then show False using sorted_wrt_nth_less [OF inc that] by simp
  qed
  then have d: "distinct (map (\<lambda>l. idempotencyKey (identity_of l)) L)"
    by (simp add: distinct_conv_nth) (metis linorder_neqE_nat)
  have "\<exists>e. job_step collate m x = Inl e"
    if ij: "i < j" "j < length L" "lease_job (L ! i) = lease_job (L ! j)" and x: "op_identity x = Some (identity_of (L ! i))"
    for i j x
  proof -
    have "jl_fencing (L ! i) < jl_fencing (L ! j)" using sorted_wrt_nth_less [OF inc ij(1,2)] ij(3) by simp
    also have "\<dots> \<le> fence_level m (lease_job (L ! i))" using levels [of _ "L ! j"] ij by simp
    finally show ?thesis using x by (intro behind_refused) (simp_all add: identity_of_def)
  qed
  with d show ?thesis by blast
qed

subsection \<open>Exclusion\<close>

fun op_clock :: "job_op \<Rightarrow> int" where
  "op_clock (Enqueue j t) = t"
| "op_clock (Claim c locked token t) = t"
| "op_clock (Renew i d t) = t"
| "op_clock (Release i a t) = t"
| "op_clock (Complete i t) = t"
| "op_clock (Fail i a t) = t"
| "op_clock (Schedule ds c lock drawn t) = t"

definition leased_until :: "int \<Rightarrow> job_row \<Rightarrow> bool" where
  "leased_until t r \<longleftrightarrow> jr_status r = Job_leased \<and> (case jr_lease r of None \<Rightarrow> False | Some p \<Rightarrow> t = lp_expires p)"

lemma leased_step_kept:
  assumes step: "job_step collate m x = Inr (m', ls)" and ok: "jobs_ok m" and k: "js_get m k = Some r"
    and until: "leased_until E r" "op_clock x < E"
    and i: "\<And>i. op_identity x = Some i \<Longrightarrow> li_jobId i = k \<Longrightarrow> \<not> held i r"
  shows "js_get m' k = Some r \<and> k \<notin> lease_job ` set ls"
proof -
  obtain r' where r': "js_get m' k = Some r'" "row_effect x r r' ls" using job_step_effect [OF step ok k] by blast
  have id: "jr_jobId r = k" using jobs_okD [OF ok k] by simp
  have "\<not> claimable types t r" if "t < E" for types t
    using until(1) that by (auto simp: leased_until_def claimable_def expired_def split: option.splits)
  then have "r' = r \<and> jr_jobId r \<notin> lease_job ` set ls"
    using r'(2) until(2) i id unfolding row_effect_def by (cases x) auto
  with r' id show ?thesis by simp
qed

lemma leased_run_kept:
  assumes "jobs_ok m" and "js_get m k = Some r" and "leased_until E r"
    and "\<And>x. x \<in> set xs \<Longrightarrow> op_clock x < E"
    and "\<And>x i. x \<in> set xs \<Longrightarrow> op_identity x = Some i \<Longrightarrow> li_jobId i = k \<Longrightarrow> \<not> held i r"
    and "job_run collate m xs = (m', ls)"
  shows "jobs_ok m' \<and> js_get m' k = Some r \<and> k \<notin> lease_job ` set ls"
  using assms(1,2,4-)
proof (induction xs arbitrary: m ls)
  case (Cons x xs)
  show ?case
  proof (cases "job_step collate m x")
    case (Inl e)
    then have "job_run collate m xs = (m', ls)" using Cons.prems(5) by (simp add: job_run_def)
    from Cons.IH [OF Cons.prems(1,2) _ _ this] Cons.prems(3,4) show ?thesis by auto
  next
    case (Inr p)
    then obtain m1 l1 where p: "job_step collate m x = Inr (m1, l1)" by (cases p) simp
    obtain l2 where l2: "job_run collate m1 xs = (m', l2)" "ls = l1 @ l2"
      using Cons.prems(5) p by (auto simp: job_run_def split: prod.splits)
    have "js_get m1 k = Some r \<and> k \<notin> lease_job ` set l1"
      by (rule leased_step_kept [OF p Cons.prems(1,2) assms(3)]) (use Cons.prems(3,4) in auto)
    moreover have "jobs_ok m1" using job_step_ok [OF p Cons.prems(1)] .
    ultimately show ?thesis using Cons.IH [of m1 l2] Cons.prems(3,4) l2 by auto
  qed
qed (simp add: job_run_def)

text \<open>C28. While a lease lasts, its owner has the job to itself: as long as the clock of every statement is before
  the expiry and nobody else presents the lease itself, the row stays as the owner left it, no claim returns
  the job, and the owner can finish it, also after the expiry.\<close>

theorem lease_exclusive:
  assumes run: "job_run collate [] xs = (m, L)" and k: "js_get m (li_jobId i) = Some r"
    and lease: "held i r" "leased_until E r"
    and others: "\<forall>x \<in> set ys. op_clock x < E \<and>
      (\<forall>i'. op_identity x = Some i' \<longrightarrow> li_jobId i' = li_jobId i \<longrightarrow> \<not> held i' r)"
    and rest: "job_run collate m ys = (m', L')"
  shows "js_get m' (li_jobId i) = Some r \<and> li_jobId i \<notin> lease_job ` set L' \<and>
    (\<exists>m''. complete m' i t = Inr m'' \<and> js_get m'' (li_jobId i) = Some (unleased Job_succeeded t r))"
proof -
  have "jobs_ok m" using jb.run_levels [OF jobs_ok_Nil] run unfolding job_run_def by blast
  from leased_run_kept [OF this k lease(2) _ _ rest] others
  have "jobs_ok m' \<and> js_get m' (li_jobId i) = Some r \<and> li_jobId i \<notin> lease_job ` set L'" by blast
  then show ?thesis using lease(1) by (simp add: complete_def update_held_def)
qed

subsection \<open>Examples\<close>

definition example_claim :: "string \<Rightarrow> claim_jobs" where
  "example_claim owner = \<lparr>cj_owner = owner, cj_jobTypes = [''t''], cj_limit = 10, cj_leaseDurationMs = 1\<rparr>"

definition example_ops :: "job_op list" where
  "example_ops =
     [Enqueue \<lparr>nj_jobId = ''j'', nj_jobType = ''t'', nj_payload = [], nj_availableAt = None\<rparr> 1,
      Claim (example_claim ''A'') [] (\<lambda>_. ''x'') 2,
      Claim (example_claim ''B'') [] (\<lambda>_. ''y'') 2000]"

definition example_jobs :: jobs where
  "example_jobs = fst (job_run (\<lambda>_ _. False) [] example_ops)"

definition example_leases :: "job_lease list" where
  "example_leases = snd (job_run (\<lambda>_ _. False) [] example_ops)"

lemma example_run: "job_run (\<lambda>_ _. False) [] example_ops = (example_jobs, example_leases)"
  by (simp add: example_jobs_def example_leases_def)

lemma example_leases_two: "length example_leases = 2 \<and> lease_job (example_leases ! 0) = lease_job (example_leases ! 1)"
  by code_simp

lemma stale_leases_refused_witness:
  "\<exists>e. job_step (\<lambda>_ _. False) example_jobs (Complete (identity_of (example_leases ! 0)) 5) = Inl e"
  using stale_leases_refused [OF example_run] example_leases_two
  by (elim conjE) (drule spec [of _ 0], drule spec [of _ 1],
      drule spec [of _ "Complete (identity_of (example_leases ! 0)) 5"], simp del: job_step.simps)

definition one_leased :: jobs where
  "one_leased = fst (job_run (\<lambda>_ _. False) [] (take 2 example_ops))"

definition one_row :: job_row where
  "one_row = the (js_get one_leased ''j'')"

definition one_identity :: lease_identity where
  "one_identity = identity_of (hd (snd (job_run (\<lambda>_ _. False) [] (take 2 example_ops))))"

definition other_claims :: "job_op list" where
  "other_claims = [Claim (example_claim ''B'') [] (\<lambda>_. ''y'') 1000, Renew (one_identity\<lparr>li_owner := ''B''\<rparr>) 1 1001]"

lemma one_leased_run:
  "job_run (\<lambda>_ _. False) [] (take 2 example_ops) = (one_leased, snd (job_run (\<lambda>_ _. False) [] (take 2 example_ops)))"
  by (simp add: one_leased_def)

lemma one_leased_evaluated:
  "js_get one_leased (li_jobId one_identity) = Some one_row \<and> held one_identity one_row \<and> leased_until 1002 one_row \<and>
   li_jobId one_identity = ''j'' \<and> \<not> held (one_identity\<lparr>li_owner := ''B''\<rparr>) one_row"
  by code_simp

lemma one_leased_facts:
  "js_get one_leased (li_jobId one_identity) = Some one_row" "held one_identity one_row" "leased_until 1002 one_row"
  "li_jobId one_identity = ''j''" "\<not> held (one_identity\<lparr>li_owner := ''B''\<rparr>) one_row"
  using one_leased_evaluated by blast+

lemma lease_exclusive_witness:
  "js_get (fst (job_run (\<lambda>_ _. False) one_leased other_claims)) ''j'' = Some one_row"
proof -
  have "\<forall>x \<in> set other_claims. op_clock x < 1002 \<and>
      (\<forall>i'. op_identity x = Some i' \<longrightarrow> li_jobId i' = li_jobId one_identity \<longrightarrow> \<not> held i' one_row)"
    using one_leased_facts(5) by (simp add: other_claims_def)
  from lease_exclusive [OF one_leased_run one_leased_facts(1-3) this prod.collapse [symmetric]] show ?thesis
    by (simp add: one_leased_facts(4))
qed

end
