(* ===== verification/WorkerPromises.thy ===== *)
theory WorkerPromises
  imports JobPromises
begin

text \<open>
  What the rounds of a worker promise: an execution whose renewals come in time keeps its lease and
  finishes its job, the executions of a round do not disturb each other, and repeated rounds finish all
  the jobs that are due.
\<close>

declare map_of_eq_Some_iff [simp del]

subsection \<open>Rounds of a worker\<close>

text \<open>Each renewal comes before the lease it renews runs out.\<close>

fun in_time :: "int \<Rightarrow> int \<Rightarrow> int list \<Rightarrow> bool" where
  "in_time E d [] = True"
| "in_time E d (t # ts) = (t < E \<and> in_time (t + d * 1000) d ts)"

definition serves :: "worker_config \<Rightarrow> int \<Rightarrow> execution \<Rightarrow> bool" where
  "serves w clock x \<longleftrightarrow>
     \<not> ex_stopped x \<and> \<not> ex_failed x \<and> in_time (clock + wc_leaseDurationMs w * 1000) (wc_leaseDurationMs w) (ex_renewals x)"

definition worker_ok :: "worker_config \<Rightarrow> bool" where
  "worker_ok w \<longleftrightarrow>
     trim (wc_workerId w) \<noteq> [] \<and> 1 \<le> wc_claimLimit w \<and> wc_claimLimit w \<le> 500 \<and>
     300 \<le> wc_leaseDurationMs w \<and> wc_leaseDurationMs w \<le> 86400000"

lemma worker_lease: "worker_ok w \<Longrightarrow> limit \<in> {1, wc_claimLimit w} \<Longrightarrow> assertLeaseRequest limit (wc_leaseDurationMs w) = Inr ()"
  by (auto simp: worker_ok_def assertLeaseRequest_def throw_if_def is_safe_integer_def MAX_SAFE_def)

lemma renewals_succeed:
  assumes "js_get m (li_jobId i) = Some r" "held i r" "leased_until E r" "worker_ok w"
    and "in_time E (wc_leaseDurationMs w) ts" "jobs_ok m"
  shows "\<exists>m' r'. renewUntilSettled m i (wc_leaseDurationMs w) ts = (m', False) \<and> js_get m' (li_jobId i) = Some r' \<and>
    held i r' \<and> jr_jobType r' = jr_jobType r \<and> jr_jobId r' = jr_jobId r \<and> (\<forall>k. k \<noteq> li_jobId i \<longrightarrow> js_get m' k = js_get m k) \<and>
    jobs_ok m'"
  using assms(1-3,5,6)
proof (induction ts arbitrary: m r E)
  case (Cons t ts)
  let ?r = "r\<lparr>jr_lease := map_option (\<lambda>p. p\<lparr>lp_expires := t + wc_leaseDurationMs w * 1000\<rparr>) (jr_lease r), jr_updated := t\<rparr>"
  let ?m = "js_set (li_jobId i) ?r m"
  have "\<not> expired t r" using Cons.prems(3,4) by (auto simp: leased_until_def expired_def split: option.splits)
  then have "renew m i (wc_leaseDurationMs w) t = Inr (?m, leaseFromRow ?r)"
    using Cons.prems(1,2) worker_lease [OF assms(4), of 1] by (simp add: renew_def update_held_def)
  moreover have "js_get ?m (li_jobId i) = Some ?r" "held i ?r" "leased_until (t + wc_leaseDurationMs w * 1000) ?r"
    using Cons.prems(2,3) by (auto simp: held_def leased_until_def split: option.splits)
  moreover have "jobs_ok ?m"
    using job_step_ok [of _ m "Renew i (wc_leaseDurationMs w) t" ?m "[]"] calculation(1) Cons.prems(5) by simp
  ultimately show ?case using Cons.IH [of ?m ?r] Cons.prems(4) by auto
qed auto

lemma execute_completes:
  assumes "js_get m (lease_job l) = Some r" "held (identity_of l) r" "leased_until (clock + wc_leaseDurationMs w * 1000) r"
    and "worker_ok w" "serves w clock x" "jobs_ok m"
  shows "\<exists>m' r'. executePmsJob m l True (wc_leaseDurationMs w) d x = (m', None) \<and> js_get m' (lease_job l) = Some r' \<and>
    jr_status r' = Job_succeeded \<and> (\<forall>k. k \<noteq> lease_job l \<longrightarrow> js_get m' k = js_get m k) \<and> jobs_ok m'"
proof -
  have id: "li_jobId (identity_of l) = lease_job l" by (simp add: identity_of_def)
  obtain m1 r1 where r1: "renewUntilSettled m (identity_of l) (wc_leaseDurationMs w) (ex_renewals x) = (m1, False)"
    "js_get m1 (lease_job l) = Some r1" "held (identity_of l) r1" "\<forall>k. k \<noteq> lease_job l \<longrightarrow> js_get m1 k = js_get m k" "jobs_ok m1"
    using renewals_succeed [of m "identity_of l" r] assms unfolding id serves_def by blast
  have "100 \<le> wc_leaseDurationMs w div 3" using assms(4) zdiv_mono1 [of 300 "wc_leaseDurationMs w" 3] by (simp add: worker_ok_def)
  then have "renewalInterval (wc_leaseDurationMs w) = Inr (wc_leaseDurationMs w div 3)"
    by (simp add: renewalInterval_def MINIMUM_LEASE_RENEWAL_INTERVAL_MS_def Let_def)
  moreover have "jobs_ok m'" if "complete m1 (identity_of l) (ex_clock x) = Inr m'" for m'
    using job_step_ok [of _ m1 "Complete (identity_of l) (ex_clock x)" m' "[]"] that r1(5) by simp
  ultimately show ?thesis using r1 assms(5)
    by (auto simp: executePmsJob_def serves_def complete_def update_held_def settle_def id unleased_def)
qed

text \<open>All executions of a round.\<close>

lemma executions_complete:
  assumes "distinct (map lease_job ls)"
    and "\<And>l. l \<in> set ls \<Longrightarrow> \<exists>r. js_get m (lease_job l) = Some r \<and> held (identity_of l) r \<and>
      leased_until (clock + wc_leaseDurationMs w * 1000) r"
    and "worker_ok w" and "\<And>l. l \<in> set ls \<Longrightarrow> serves w clock (runs l) \<and> pj_jobType (jl_job l) \<in> set types"
    and "jobs_ok m"
  shows "\<exists>m'. fold (execute_next w types runs) ls (m, None) = (m', None) \<and>
    (\<forall>k. if k \<in> lease_job ` set ls then \<exists>r. js_get m' k = Some r \<and> jr_status r = Job_succeeded
         else js_get m' k = js_get m k) \<and> jobs_ok m'"
  using assms(1,2,4,5)
proof (induction ls arbitrary: m)
  case (Cons l ls)
  from Cons.prems(2) [of l] obtain r where r: "js_get m (lease_job l) = Some r" "held (identity_of l) r"
      "leased_until (clock + wc_leaseDurationMs w * 1000) r" by auto
  from execute_completes [OF r assms(3) _ Cons.prems(4)] Cons.prems(3) [of l] obtain m1 r1 where m1:
    "executePmsJob m l True (wc_leaseDurationMs w) (wc_retryDelayMs w) (runs l) = (m1, None)"
    "js_get m1 (lease_job l) = Some r1" "jr_status r1 = Job_succeeded" "\<forall>k. k \<noteq> lease_job l \<longrightarrow> js_get m1 k = js_get m k"
    "jobs_ok m1"
    by force
  then have e: "execute_next w types runs l (m, None) = (m1, None)"
    using Cons.prems(3) [of l] by (simp add: execute_next_def)
  have "l' \<in> set ls \<Longrightarrow> lease_job l' \<noteq> lease_job l" for l'
    using Cons.prems(1) by simp (metis imageI)
  then have "\<exists>r. js_get m1 (lease_job l') = Some r \<and> held (identity_of l') r \<and>
      leased_until (clock + wc_leaseDurationMs w * 1000) r" if "l' \<in> set ls" for l'
    using m1(4) Cons.prems(2) [of l'] that by auto
  with Cons.IH [of m1] Cons.prems(1,3) obtain m' where "fold (execute_next w types runs) ls (m1, None) = (m', None)"
    "\<forall>k. if k \<in> lease_job ` set ls then \<exists>r. js_get m' k = Some r \<and> jr_status r = Job_succeeded
         else js_get m' k = js_get m1 k" "jobs_ok m'" using m1(5) by auto
  moreover have "lease_job l \<notin> lease_job ` set ls" using Cons.prems(1) by simp
  ultimately show ?case using e m1 by (intro exI [of _ m']) auto
qed simp

subsection \<open>Progress\<close>

record round =
  rd_clock :: int
  rd_token :: "string \<Rightarrow> string"
  rd_runs :: "job_lease \<Rightarrow> execution"

fun rounds :: "(string \<Rightarrow> string \<Rightarrow> bool) \<Rightarrow> worker_config \<Rightarrow> string list \<Rightarrow> round list \<Rightarrow> jobs \<Rightarrow> jobs" where
  "rounds collate w types [] m = m"
| "rounds collate w types (x # xs) m =
     rounds collate w types xs (fst (runOnce collate w types (rd_runs x) [] (rd_token x) (rd_clock x) m))"

text \<open>No counter of a row is at the end of its column.\<close>

definition countable_row :: "job_row \<Rightarrow> bool" where
  "countable_row r \<longleftrightarrow> jr_fencing r + 1 < 2 ^ 63 \<and> jr_attempt r + 1 < 2 ^ 31"

definition due_count :: "string list \<Rightarrow> int \<Rightarrow> jobs \<Rightarrow> nat" where
  "due_count types t m = length (filter (claimable types t) (js_values m))"

lemma map_r_leased:
  "(\<forall>r \<in> set rs. countable_row r) \<Longrightarrow> \<exists>ss. map_r (leased_row c token t) rs = Inr ss"
  by (induction rs) (auto simp: leased_row_def countable_row_def)

lemma round_claim:
  assumes ok: "jobs_ok m" and w: "worker_ok w" "types \<noteq> []"
    and rows: "\<And>k r. js_get m k = Some r \<Longrightarrow> claimable types t r \<Longrightarrow> countable_row r"
  obtains m' ls where "claim collate m (worker_claim w types) [] token t = Inr (m', ls)"
    "map lease_job ls = map jr_jobId (candidates collate m (worker_claim w types) [] t)"
proof -
  let ?c = "worker_claim w types"
  have "countable_row r" if "r \<in> set (candidates collate m ?c [] t)" for r
    using candidates_stored(2) [OF ok that] rows by (auto simp: worker_claim_def)
  then obtain rs where rs: "map_r (leased_row ?c token t) (candidates collate m ?c [] t) = Inr rs"
    using map_r_leased by blast
  have c: "claim collate m ?c [] token t = Inr (fold put_row rs m, map leaseFromRow rs)"
    using w worker_lease [of w "wc_claimLimit w"] rs by (simp add: claim_def worker_claim_def worker_ok_def throw_if_def)
  have "map lease_job (map leaseFromRow rs) = map jr_jobId (candidates collate m ?c [] t)"
    using leased_rows_ids [OF rs] by (simp add: comp_def)
  with c show thesis using that by blast
qed

lemma claimable_later: "claimable types t r \<Longrightarrow> t \<le> t' \<Longrightarrow> claimable types t' r"
  by (auto simp: claimable_def expired_def split: option.splits)

lemma round_effect:
  assumes ok: "jobs_ok m" and w: "worker_ok w" "types \<noteq> []"
    and rows: "\<And>k r. js_get m k = Some r \<Longrightarrow> claimable types t r \<Longrightarrow> countable_row r"
    and runs: "\<And>l. serves w t (runs l)"
    and m': "m' = fst (runOnce collate w types runs [] token t m)"
  shows "jobs_ok m' \<and>
    (\<forall>k. if k \<in> jr_jobId ` set (candidates collate m (worker_claim w types) [] t)
         then \<exists>r. js_get m' k = Some r \<and> jr_status r = Job_succeeded else js_get m' k = js_get m k)"
proof -
  obtain m1 ls where c: "claim collate m (worker_claim w types) [] token t = Inr (m1, ls)"
    and ids: "map lease_job ls = map jr_jobId (candidates collate m (worker_claim w types) [] t)"
    using rows by (rule round_claim [OF ok w])
  have "\<exists>r. js_get m1 (lease_job l) = Some r \<and> held (identity_of l) r \<and>
      leased_until (t + wc_leaseDurationMs w * 1000) r \<and> pj_jobType (jl_job l) \<in> set types" if l: "l \<in> set ls" for l
    using claim_leases(2) [OF c ok l]
    by (auto simp: leased_row_Inr leased_until_def claimable_def worker_claim_def)
  with executions_complete [OF claim_leases(1) [OF c ok] _ w(1) _ job_claim_ok [OF c ok], of t runs types] runs
  obtain m2 where m2: "fold (execute_next w types runs) ls (m1, None) = (m2, None)" "jobs_ok m2"
    "\<forall>k. if k \<in> lease_job ` set ls then \<exists>r. js_get m2 k = Some r \<and> jr_status r = Job_succeeded
         else js_get m2 k = js_get m1 k" by blast
  have "m' = m2" unfolding m' runOnce_def using c m2(1) by simp
  moreover have "lease_job ` set ls = jr_jobId ` set (candidates collate m (worker_claim w types) [] t)"
    using ids by (metis list.set_map)
  ultimately show ?thesis using m2 claim_leases(3) [OF c ok] by metis
qed

lemma succeeded_not_claimable: "jr_status r = Job_succeeded \<Longrightarrow> \<not> claimable types t r"
  by (simp add: claimable_def)

definition due_ids :: "string list \<Rightarrow> int \<Rightarrow> jobs \<Rightarrow> string set" where
  "due_ids types t m = {k. \<exists>r. js_get m k = Some r \<and> claimable types t r}"

lemma due_ids_count:
  assumes "jobs_ok m"
  shows "finite (due_ids types t m)" and "card (due_ids types t m) = due_count types t m"
proof -
  let ?rs = "filter (claimable types t) (js_values m)"
  have "due_ids types t m = jr_jobId ` set ?rs"
  proof (intro equalityI subsetI)
    fix k assume "k \<in> due_ids types t m"
    then obtain r where r: "js_get m k = Some r" "claimable types t r" by (auto simp: due_ids_def)
    then have "r \<in> set ?rs" "jr_jobId r = k" using jobs_okD [OF assms] by (auto dest: map_of_SomeD intro: image_eqI [of _ snd "(k, r)"])
    then show "k \<in> jr_jobId ` set ?rs" by blast
  next
    fix k assume "k \<in> jr_jobId ` set ?rs"
    then show "k \<in> due_ids types t m" using row_stored [OF assms] by (auto simp: due_ids_def)
  qed
  then have e: "due_ids types t m = set (map jr_jobId ?rs)" by simp
  have "distinct (map jr_jobId ?rs)" using ids_distinct [OF assms] by (rule distinct_map_filter)
  then show "card (due_ids types t m) = due_count types t m" unfolding e due_count_def by (simp only: distinct_card length_map)
  show "finite (due_ids types t m)" unfolding e by simp
qed

lemma candidates_count:
  "length (candidates collate m (worker_claim w types) [] t) = min (due_count types t m) (nat (wc_claimLimit w))"
proof -
  have "length (order_by lt xs) = length xs" for lt :: "job_row \<Rightarrow> job_row \<Rightarrow> bool" and xs
    using arg_cong [OF order_by_mset, of size lt xs] by simp
  then show ?thesis by (simp add: candidates_def worker_claim_def due_count_def)
qed

lemma rounds_keep_succeeded:
  assumes "jobs_ok m" "worker_ok w" "types \<noteq> []"
    and "\<And>k r. js_get m k = Some r \<Longrightarrow> claimable types T r \<Longrightarrow> countable_row r"
    and "\<And>x. x \<in> set xs \<Longrightarrow> rd_clock x \<le> T \<and> (\<forall>l. serves w (rd_clock x) (rd_runs x l))"
    and "js_get m k = Some r" "jr_status r = Job_succeeded"
  shows "js_get (rounds collate w types xs m) k = Some r"
  using assms(1,4-6)
proof (induction xs arbitrary: m)
  case (Cons x xs)
  let ?m = "fst (runOnce collate w types (rd_runs x) [] (rd_token x) (rd_clock x) m)"
  let ?ids = "jr_jobId ` set (candidates collate m (worker_claim w types) [] (rd_clock x))"
  have "rd_clock x \<le> T" using Cons.prems(3) by simp
  from round_effect [OF Cons.prems(1) assms(2,3) _ _ refl, of "rd_clock x" "rd_runs x" collate "rd_token x"]
  have e: "jobs_ok ?m" "\<forall>k. if k \<in> ?ids then \<exists>r. js_get ?m k = Some r \<and> jr_status r = Job_succeeded
      else js_get ?m k = js_get m k"
    using Cons.prems(2,3) claimable_later [OF _ \<open>rd_clock x \<le> T\<close>] by force+
  have "k \<notin> ?ids"
    using candidates_stored(2) [OF Cons.prems(1)] Cons.prems(4) assms(7) succeeded_not_claimable by fastforce
  then have "js_get ?m k = Some r" using e(2) Cons.prems(4) by metis
  moreover have "countable_row r'" if "js_get ?m k' = Some r'" "claimable types T r'" for k' r'
    using e(2) that Cons.prems(2) [of k' r'] succeeded_not_claimable by (metis option.inject)
  ultimately show ?case using Cons.IH [of ?m] e(1) Cons.prems(3) by simp
qed simp

lemma rounds_finish:
  assumes "jobs_ok m" "worker_ok w" "types \<noteq> []"
    and "\<And>k r. js_get m k = Some r \<Longrightarrow> claimable types T r \<Longrightarrow> countable_row r"
    and "\<And>x. x \<in> set xs \<Longrightarrow> t \<le> rd_clock x \<and> rd_clock x \<le> T \<and> (\<forall>l. serves w (rd_clock x) (rd_runs x l))"
    and "due_count types T m \<le> length xs * nat (wc_claimLimit w)" "t \<le> T"
    and "js_get m k = Some r" "claimable types t r"
  shows "\<exists>r'. js_get (rounds collate w types xs m) k = Some r' \<and> jr_status r' = Job_succeeded"
  using assms(1,4,5,6,8)
proof (induction xs arbitrary: m)
  case Nil
  have "k \<in> due_ids types T m" using Nil.prems(5) claimable_later [OF assms(9,7)] by (auto simp: due_ids_def)
  then have "due_count types T m \<noteq> 0" using due_ids_count [OF Nil.prems(1), of types T] by (metis card_0_eq empty_iff)
  with Nil.prems(4) show ?case by simp
next
  case (Cons x xs)
  let ?m = "fst (runOnce collate w types (rd_runs x) [] (rd_token x) (rd_clock x) m)"
  let ?cs = "candidates collate m (worker_claim w types) [] (rd_clock x)"
  have x: "t \<le> rd_clock x" "rd_clock x \<le> T" using Cons.prems(3) by simp_all
  from round_effect [OF Cons.prems(1) assms(2,3) _ _ refl, of "rd_clock x" "rd_runs x" collate "rd_token x"]
  have e: "jobs_ok ?m" "\<forall>k. if k \<in> jr_jobId ` set ?cs then \<exists>r. js_get ?m k = Some r \<and> jr_status r = Job_succeeded
      else js_get ?m k = js_get m k"
    using Cons.prems(2,3) claimable_later [OF _ x(2)] by force+
  have rows: "countable_row r'" if "js_get ?m k' = Some r'" "claimable types T r'" for k' r'
    using e(2) that Cons.prems(2) [of k' r'] succeeded_not_claimable by (metis option.inject)
  show ?case
  proof (cases "k \<in> jr_jobId ` set ?cs")
    case True
    then obtain r' where r': "js_get ?m k = Some r'" "jr_status r' = Job_succeeded" using e(2) by metis
    then have "js_get (rounds collate w types xs ?m) k = Some r'"
      using rounds_keep_succeeded [OF e(1) assms(2,3) rows _ r'] Cons.prems(3) by simp
    with r' show ?thesis by simp
  next
    case False
    have ids: "jr_jobId ` set ?cs \<subseteq> due_ids types t' m" if "rd_clock x \<le> t'" for t'
      using candidates_stored(2) [OF Cons.prems(1)] claimable_later [OF _ that]
      by (fastforce simp: due_ids_def worker_claim_def)
    have card: "card (jr_jobId ` set ?cs) = length ?cs"
      using distinct_card [OF candidates_stored(1) [OF Cons.prems(1)]] by (metis length_map list.set_map)
    have "k \<in> due_ids types (rd_clock x) m"
      using Cons.prems(5) claimable_later [OF assms(9) x(1)] by (auto simp: due_ids_def)
    then have "card (jr_jobId ` set ?cs) < card (due_ids types (rd_clock x) m)"
      using False ids [of "rd_clock x"] due_ids_count(1) [OF Cons.prems(1)] by (intro psubset_card_mono) auto
    then have full: "length ?cs = nat (wc_claimLimit w)"
      using card due_ids_count(2) [OF Cons.prems(1)] candidates_count [of collate m w types "rd_clock x"] by simp
    have "k' \<in> due_ids types T ?m \<longleftrightarrow> k' \<in> due_ids types T m \<and> k' \<notin> jr_jobId ` set ?cs" for k'
    proof (cases "k' \<in> jr_jobId ` set ?cs")
      case True
      then obtain r' where "js_get ?m k' = Some r'" "jr_status r' = Job_succeeded" using e(2) by metis
      with True succeeded_not_claimable show ?thesis by (simp add: due_ids_def)
    next
      case False
      then have "js_get ?m k' = js_get m k'" using e(2) by metis
      with False show ?thesis by (simp add: due_ids_def)
    qed
    then have "due_ids types T ?m = due_ids types T m - jr_jobId ` set ?cs" by blast
    then have "card (due_ids types T ?m) = card (due_ids types T m) - nat (wc_claimLimit w)"
      using card_Diff_subset [OF _ ids [OF x(2)]] card full by simp
    then have "due_count types T ?m = due_count types T m - nat (wc_claimLimit w)"
      using due_ids_count(2) [OF Cons.prems(1)] due_ids_count(2) [OF e(1)] by simp
    then have "due_count types T ?m \<le> length xs * nat (wc_claimLimit w)" using Cons.prems(4) by simp
    moreover have "js_get ?m k = Some r" using e(2) False Cons.prems(5) by metis
    ultimately show ?thesis using Cons.IH [OF e(1) rows] Cons.prems(3) by simp
  qed
qed

text \<open>C29. A worker makes progress: as long as its handlers succeed and its renewals come in time, every job that
  is due at \<open>t\<close> is finished after a number of rounds that the jobs due at the end and the limit of a claim
  give, whatever was queued, leased, failed or given up before; a failed or abandoned job counts as due.\<close>

theorem worker_finishes_due_jobs:
  assumes "job_run collate [] ops = (m, L)" and "worker_ok w" "types \<noteq> []"
    and "\<forall>k r. js_get m k = Some r \<longrightarrow> claimable types T r \<longrightarrow> countable_row r"
    and "\<forall>x \<in> set xs. t \<le> rd_clock x \<and> rd_clock x \<le> T \<and> (\<forall>l. serves w (rd_clock x) (rd_runs x l))"
    and "due_count types T m \<le> length xs * nat (wc_claimLimit w)" "t \<le> T"
    and "js_get m k = Some r" "claimable types t r"
  shows "\<exists>r'. js_get (rounds collate w types xs m) k = Some r' \<and> jr_status r' = Job_succeeded"
proof -
  have "jobs_ok m" using jb.run_levels [OF jobs_ok_Nil] assms(1) unfolding job_run_def by blast
  from rounds_finish [OF this assms(2,3) _ _ assms(6-9), of collate] assms(4,5) show ?thesis by blast
qed

subsection \<open>Example\<close>

definition example_worker :: worker_config where
  "example_worker = \<lparr>wc_workerId = ''A'', wc_claimLimit = 1, wc_leaseDurationMs = 300, wc_retryDelayMs = 1000\<rparr>"

definition example_round :: round where
  "example_round =
     \<lparr>rd_clock = 5, rd_token = (\<lambda>_. ''x''),
      rd_runs = (\<lambda>_. \<lparr>ex_renewals = [100000], ex_stopped = False, ex_failed = False, ex_clock = 100001, ex_now = 101\<rparr>)\<rparr>"

definition one_queued :: jobs where
  "one_queued = fst (job_run (\<lambda>_ _. False) [] (take 1 example_ops))"

lemma one_queued_run:
  "job_run (\<lambda>_ _. False) [] (take 1 example_ops) = (one_queued, snd (job_run (\<lambda>_ _. False) [] (take 1 example_ops)))"
  by (simp add: one_queued_def)

lemma one_queued_rows:
  "one_queued = [(''j'', \<lparr>jr_jobId = ''j'', jr_jobType = ''t'', jr_payload = [], jr_status = Job_pending,
     jr_lease = None, jr_fencing = 0, jr_attempt = 0, jr_available = 1, jr_created = 1, jr_updated = 1\<rparr>)]"
  by code_simp

lemma worker_finishes_due_jobs_witness:
  "\<exists>r'. js_get (rounds (\<lambda>_ _. False) example_worker [''t''] [example_round] one_queued) ''j'' = Some r' \<and>
     jr_status r' = Job_succeeded"
proof (rule worker_finishes_due_jobs [OF one_queued_run, of example_worker "[''t'']" 5 "[example_round]" 5 "''j''"])
  show "worker_ok example_worker" by code_simp
  show "\<forall>x \<in> set [example_round]. 5 \<le> rd_clock x \<and> rd_clock x \<le> 5 \<and>
      (\<forall>l. serves example_worker (rd_clock x) (rd_runs x l))"
    by (simp add: example_round_def example_worker_def serves_def)
  show "due_count [''t''] 5 one_queued \<le> length [example_round] * nat (wc_claimLimit example_worker)" by code_simp
qed (auto simp: one_queued_rows countable_row_def claimable_def split: if_splits)

end
