(* ===== verification/RuntimeReconcile.thy ===== *)
theory RuntimeReconcile
  imports RuntimeProcess PmsJobs
begin

text \<open>
  The reconciler of Runtime deployments: packages/pms-application/src/runtime-reconcile.ts and
  provider-identity.ts, the operation context of packages/runtime-deployment
  (ports/runtime-infrastructure-adapter.ts), the job handler of apps/pms-worker/src/runtime-reconcile-job.ts
  and the publication phase behind the reconciler (catalog-registry-phase.ts). The interfaces that the class
  takes in its constructor are the fields of \<open>reconcile_ports\<close>; each call reads and writes a world
  \<open>'w\<close> and may throw. Payloads that the reconciler only hands on (the rendered configuration apart from
  the effective values, the PMS connection) are left out.
\<close>

subsection \<open>Calls that may throw\<close>

datatype fault =
    Reconcile_fault string bool
  | Preparation_fault string bool
  | Infrastructure_fault string
  | Publication_fault string
  | Model_fault deployment_error
  | Pms_fault pms_error
  | Allocation_fault allocation_error
  | Provisioner_fault string bool
  | Lifecycle_fault string bool
  | Error_fault string
  | Abort_fault

type_synonym ('w, 'a) io = "'w \<Rightarrow> 'w \<times> (fault + 'a)"

definition ret :: "'a \<Rightarrow> ('w, 'a) io" where
  "ret x w = (w, Inr x)"

definition throw_io :: "fault \<Rightarrow> ('w, 'a) io" where
  "throw_io e w = (w, Inl e)"

definition bind_io :: "('w, 'a) io \<Rightarrow> ('a \<Rightarrow> ('w, 'b) io) \<Rightarrow> ('w, 'b) io" where
  "bind_io m f w = (case m w of (w', Inl e) \<Rightarrow> (w', Inl e) | (w', Inr x) \<Rightarrow> f x w')"

definition catch_io :: "('w, 'a) io \<Rightarrow> (fault \<Rightarrow> ('w, 'a) io) \<Rightarrow> ('w, 'a) io" where
  "catch_io m h w = (case m w of (w', Inl e) \<Rightarrow> h e w' | (w', Inr x) \<Rightarrow> (w', Inr x))"

definition lift_io :: "fault + 'a \<Rightarrow> ('w, 'a) io" where
  "lift_io r w = (w, r)"

fun each_io :: "('a \<Rightarrow> ('w, unit) io) \<Rightarrow> 'a list \<Rightarrow> ('w, unit) io" where
  "each_io f [] = ret ()"
| "each_io f (x # xs) = bind_io (f x) (\<lambda>_. each_io f xs)"

subsection \<open>provider-identity.ts\<close>

datatype mismatch_relation = Pms_bootstrap | Pms_adapter_manifest | Bootstrap_adapter_manifest

record identity_evidence =
  ev_bootstrapProviderId :: string
  ev_adapterManifestProviderId :: string
  ev_describeProviderObserved :: bool

text \<open>\<open>ProviderIdentityVerification\<close> with the result for an unreachable provider.\<close>

record verification =
  vf_valid :: bool
  vf_reasonCode :: string
  vf_mismatchRelations :: "mismatch_relation list"
  vf_retryable :: bool

definition assertProviderId :: "string \<Rightarrow> fault + unit" where
  "assertProviderId value = throw_if (\<not> logical_id value) (Error_fault ''PROVIDER_IDENTITY_EVIDENCE_INVALID'')"

definition identity_mismatches :: "string \<Rightarrow> identity_evidence \<Rightarrow> mismatch_relation list" where
  "identity_mismatches pmsProviderId e =
     (if pmsProviderId \<noteq> ev_bootstrapProviderId e then [Pms_bootstrap] else []) @
     (if pmsProviderId \<noteq> ev_adapterManifestProviderId e then [Pms_adapter_manifest] else []) @
     (if ev_bootstrapProviderId e \<noteq> ev_adapterManifestProviderId e then [Bootstrap_adapter_manifest] else [])"

definition verifyIdentity :: "string \<Rightarrow> identity_evidence \<Rightarrow> fault + verification" where
  "verifyIdentity pmsProviderId e =
     bind_r (assertProviderId pmsProviderId) (\<lambda>_.
     bind_r (assertProviderId (ev_bootstrapProviderId e)) (\<lambda>_.
     bind_r (assertProviderId (ev_adapterManifestProviderId e)) (\<lambda>_.
     bind_r (throw_if (\<not> ev_describeProviderObserved e) (Error_fault ''PROVIDER_IDENTITY_EVIDENCE_INVALID'')) (\<lambda>_.
       (let mismatches = identity_mismatches pmsProviderId e
        in if mismatches = []
           then Inr \<lparr>vf_valid = True, vf_reasonCode = ''PROVIDER_ID_VERIFIED'', vf_mismatchRelations = [],
                     vf_retryable = False\<rparr>
           else Inr \<lparr>vf_valid = False, vf_reasonCode = ''PROVIDER_ID_MISMATCH'', vf_mismatchRelations = mismatches,
                     vf_retryable = True\<rparr>)))))"

definition identity_unavailable :: verification where
  "identity_unavailable =
     \<lparr>vf_valid = False, vf_reasonCode = ''PROVIDER_IDENTITY_UNAVAILABLE'', vf_mismatchRelations = [],
      vf_retryable = True\<rparr>"

subsection \<open>runtime-infrastructure-adapter.ts\<close>

record instance_target =
  tg_providerId :: string
  tg_deploymentId :: string
  tg_environment :: string
  tg_runtimeVersion :: string
  tg_instanceId :: string
  tg_ordinal :: int
  tg_processName :: string

record operation_context =
  cx_operationId :: string
  cx_correlationId :: string
  cx_idempotencyKey :: string
  cx_timeoutMs :: int

text \<open>\<open>/^[A-Za-z0-9][A-Za-z0-9._:-]{0,255}$/\<close>\<close>

definition operation_id :: "string \<Rightarrow> bool" where
  "operation_id s \<longleftrightarrow>
     (case s of [] \<Rightarrow> False
      | c # r \<Rightarrow> is_alnum c \<and> length r \<le> 255 \<and> list_all (\<lambda>x. is_alnum x \<or> x \<in> set ''._:-'') r)"

definition runtimeInfrastructureOperationContext :: "operation_context \<Rightarrow> fault + operation_context" where
  "runtimeInfrastructureOperationContext c =
     (if \<not> operation_id (cx_operationId c) \<or> \<not> operation_id (cx_correlationId c) \<or>
         \<not> operation_id (cx_idempotencyKey c) \<or> \<not> is_safe_integer (cx_timeoutMs c) \<or>
         cx_timeoutMs c < 1 \<or> cx_timeoutMs c > 300000
      then Inl (Infrastructure_fault ''RUNTIME_INFRASTRUCTURE_INVALID_REQUEST'')
      else Inr c)"

subsection \<open>The interfaces of runtime-reconcile.ts\<close>

record reconcile_instance =
  in_target :: instance_target
  in_httpPort :: int
  in_effectiveConfig :: jobj

record direct_instance =
  dn_target :: instance_target
  dn_controlEndpoint :: string
  dn_advertisedEndpoint :: string
  dn_registrationState :: registration_state
  dn_registrationFresh :: bool

record health_result =
  hr_processState :: process_state
  hr_live :: bool
  hr_ready :: bool
  hr_reasonCode :: string

datatype adapter_tls = Tls_disabled | Tls_required string string string

record verify_request =
  vr_expectedProviderId :: string
  vr_target :: instance_target
  vr_bootstrapProviderId :: string
  vr_adapterEndpoint :: string
  vr_adapterTls :: adapter_tls

record reconcile_input =
  rc_providerId :: string
  rc_deploymentId :: string
  rc_context :: operation_context

record 'w reconcile_ports =
  rp_aborted :: "'w \<Rightarrow> bool"
  rp_getDeployment :: "string \<Rightarrow> string \<Rightarrow> ('w, deployment option) io"
  rp_transition :: "string \<Rightarrow> string \<Rightarrow> deployment_status \<Rightarrow> deployment_status \<Rightarrow> int \<Rightarrow> ('w, deployment) io"
  rp_fail :: "string \<Rightarrow> string \<Rightarrow> deployment_status \<Rightarrow> int \<Rightarrow> string \<Rightarrow> ('w, unit) io"
  rp_ensureInstance :: "snapshot \<Rightarrow> ('w, reconcile_instance) io"
  rp_getDirectInstance :: "snapshot \<Rightarrow> ('w, direct_instance) io"
  rp_listInstances :: "string \<Rightarrow> string \<Rightarrow> ('w, instance_target list) io"
  rp_recordHealth :: "instance_target \<Rightarrow> health_result \<Rightarrow> ('w, unit) io"
  rp_recordOrphans :: "string \<Rightarrow> string \<Rightarrow> string list \<Rightarrow> string \<Rightarrow> ('w, unit) io"
  rp_database :: "string \<Rightarrow> string \<Rightarrow> string \<Rightarrow> ('w, snapshot) io"
  rp_start :: "reconcile_instance \<Rightarrow> operation_context \<Rightarrow> ('w, unit) io"
  rp_stop :: "instance_target \<Rightarrow> operation_context \<Rightarrow> ('w, unit) io"
  rp_probe :: "instance_target \<Rightarrow> int \<Rightarrow> ('w, health_result) io"
  rp_inventory :: "('w, instance_target list) io"
  rp_verify :: "verify_request \<Rightarrow> ('w, verification) io"
  rp_externalHealth :: "(string \<Rightarrow> ('w, health_result) io) option"

record reconcile_result =
  rr_deployment :: snapshot
  rr_progressed :: bool
  rr_orphanProcessNames :: "string list"

subsection \<open>Helpers\<close>

definition checkpoint :: "'w reconcile_ports \<Rightarrow> ('w, unit) io" where
  "checkpoint P w = (if rp_aborted P w then (w, Inl Abort_fault) else (w, Inr ()))"

definition cancellable :: "'w reconcile_ports \<Rightarrow> ('w, 'a) io \<Rightarrow> ('w, 'a) io" where
  "cancellable P operation =
     bind_io (checkpoint P) (\<lambda>_. bind_io operation (\<lambda>x. bind_io (checkpoint P) (\<lambda>_. ret x)))"

definition config_string :: "jobj \<Rightarrow> string \<Rightarrow> string option" where
  "config_string c key = (case js_get c key of Some (JStr s) \<Rightarrow> if s = [] then None else Some s | _ \<Rightarrow> None)"

definition requireAdapterEndpoint :: "jobj \<Rightarrow> fault + string" where
  "requireAdapterEndpoint c =
     (case config_string c ''ADAPTER_ENDPOINT'' of
        None \<Rightarrow> Inl (Error_fault ''RUNTIME_ADAPTER_ENDPOINT_MISSING'') | Some e \<Rightarrow> Inr e)"

definition requireAdapterTlsConfiguration :: "jobj \<Rightarrow> fault + adapter_tls" where
  "requireAdapterTlsConfiguration c =
     (let mode = (case js_get c ''ADAPTER_TLS_MODE'' of None \<Rightarrow> JStr ''disabled'' | Some m \<Rightarrow> m)
      in if mode = JStr ''disabled'' then Inr Tls_disabled
         else if mode \<noteq> JStr ''required'' then Inl (Error_fault ''RUNTIME_ADAPTER_MTLS_CONFIGURATION_INVALID'')
         else
           (case (config_string c ''ADAPTER_TLS_CA_PATH'', config_string c ''ADAPTER_TLS_CERT_PATH'',
                  config_string c ''ADAPTER_TLS_KEY_PATH'') of
              (Some caPath, Some certPath, Some keyPath) \<Rightarrow> Inr (Tls_required caPath certPath keyPath)
            | _ \<Rightarrow> Inl (Error_fault ''RUNTIME_ADAPTER_MTLS_CONFIGURATION_INVALID'')))"

definition stepContext :: "operation_context \<Rightarrow> string \<Rightarrow> int \<Rightarrow> operation_context" where
  "stepContext c step revision =
     c\<lparr>cx_idempotencyKey := cx_idempotencyKey c @ '':'' @ step @ '':'' @ decimal (nat revision)\<rparr>"

definition isHealthy :: "health_result \<Rightarrow> bool" where
  "isHealthy r \<longleftrightarrow> hr_processState r = Online \<and> hr_live r \<and> hr_ready r"

definition isRegistered :: "direct_instance \<Rightarrow> bool" where
  "isRegistered i \<longleftrightarrow> dn_registrationState i = Registered \<and> dn_registrationFresh i"

definition canFail :: "deployment_status \<Rightarrow> bool" where
  "canFail status \<longleftrightarrow> status \<notin> {FAILED, STOPPED}"

definition requireDeployment :: "'w reconcile_ports \<Rightarrow> reconcile_input \<Rightarrow> ('w, deployment) io" where
  "requireDeployment P i =
     bind_io (cancellable P (rp_getDeployment P (rc_providerId i) (rc_deploymentId i))) (\<lambda>d.
       case d of
         None \<Rightarrow> throw_io (Reconcile_fault ''RUNTIME_RECONCILE_DEPLOYMENT_NOT_FOUND'' False)
       | Some d \<Rightarrow> ret d)"

definition move :: "'w reconcile_ports \<Rightarrow> reconcile_input \<Rightarrow> deployment \<Rightarrow> deployment_status \<Rightarrow> ('w, deployment) io" where
  "move P i d target =
     cancellable P
       (rp_transition P (rc_providerId i) (rc_deploymentId i) target (d_status d) (d_observedRevision d))"

definition fault_code :: "fault \<Rightarrow> string" where
  "fault_code e =
     (case e of Reconcile_fault code retryable \<Rightarrow> code | _ \<Rightarrow> ''RUNTIME_RECONCILE_OPERATION_FAILED'')"

definition mapped_fault :: "fault \<Rightarrow> fault" where
  "mapped_fault e =
     (case e of
        Reconcile_fault code retryable \<Rightarrow> e
      | _ \<Rightarrow> Reconcile_fault ''RUNTIME_RECONCILE_OPERATION_FAILED'' True)"

text \<open>The handler of a failed reconciliation: it tries to record the failure and throws again.\<close>

definition mapAndRecordFailure :: "'w reconcile_ports \<Rightarrow> reconcile_input \<Rightarrow> fault \<Rightarrow> ('w, 'a) io" where
  "mapAndRecordFailure P i e w =
     (if rp_aborted P w then (w, Inl (mapped_fault e))
      else
        bind_io
          (catch_io (cancellable P (rp_getDeployment P (rc_providerId i) (rc_deploymentId i)))
             (\<lambda>_. bind_io (checkpoint P) (\<lambda>_. ret None))) (\<lambda>current.
        bind_io
          (case current of
             None \<Rightarrow> ret ()
           | Some d \<Rightarrow>
               if canFail (d_status d)
               then catch_io
                      (cancellable P (rp_fail P (rc_providerId i) (rc_deploymentId i) (d_status d)
                         (d_observedRevision d) (fault_code (mapped_fault e))))
                      (\<lambda>_. checkpoint P)
               else ret ()) (\<lambda>_.
        throw_io (mapped_fault e))) w)"

definition detectOrphans :: "'w reconcile_ports \<Rightarrow> reconcile_input \<Rightarrow> ('w, string list) io" where
  "detectOrphans P i =
     bind_io
       (cancellable P
          (bind_io (rp_listInstances P (rc_providerId i) (rc_deploymentId i)) (\<lambda>known.
           bind_io (rp_inventory P) (\<lambda>observed. ret (known, observed))))) (\<lambda>(known, observed).
     let orphans =
           order_by string_less
             (map tg_processName
               (filter (\<lambda>t. tg_deploymentId t = rc_deploymentId i \<and> tg_processName t \<notin> tg_processName ` set known)
                 observed))
     in bind_io
          (if orphans = [] then ret ()
           else cancellable P
                  (rp_recordOrphans P (rc_providerId i) (rc_deploymentId i) orphans
                     (cx_correlationId (rc_context i)))) (\<lambda>_. ret orphans))"

datatype identity_outcome = Identity_verified | Identity_unavailable | Identity_mismatched deployment

definition verifyProviderIdentity ::
    "'w reconcile_ports \<Rightarrow> reconcile_input \<Rightarrow> deployment \<Rightarrow> instance_target \<Rightarrow> string \<Rightarrow> adapter_tls
       \<Rightarrow> ('w, identity_outcome) io" where
  "verifyProviderIdentity P i d target adapterEndpoint adapterTls =
     bind_io
       (cancellable P
          (rp_verify P
             \<lparr>vr_expectedProviderId = rc_providerId i, vr_target = target,
              vr_bootstrapProviderId = tg_providerId target, vr_adapterEndpoint = adapterEndpoint,
              vr_adapterTls = adapterTls\<rparr>)) (\<lambda>v.
     if vf_valid v then ret Identity_verified
     else if vf_reasonCode v = ''PROVIDER_IDENTITY_UNAVAILABLE'' then ret Identity_unavailable
     else
       bind_io
         (cancellable P
            (rp_fail P (rc_providerId i) (rc_deploymentId i) (d_status d) (d_observedRevision d) (vf_reasonCode v)))
         (\<lambda>_. bind_io (requireDeployment P i) (\<lambda>d'. ret (Identity_mismatched d'))))"

definition reconcileProviderIdentity ::
    "'w reconcile_ports \<Rightarrow> reconcile_input \<Rightarrow> deployment \<Rightarrow> reconcile_instance \<Rightarrow> ('w, identity_outcome) io" where
  "reconcileProviderIdentity P i d inst =
     bind_io (lift_io (requireAdapterEndpoint (in_effectiveConfig inst))) (\<lambda>endpoint.
     bind_io (lift_io (requireAdapterTlsConfiguration (in_effectiveConfig inst))) (\<lambda>tls.
       verifyProviderIdentity P i d (in_target inst) endpoint tls))"

definition reconcileDirectProviderIdentity ::
    "'w reconcile_ports \<Rightarrow> reconcile_input \<Rightarrow> deployment \<Rightarrow> direct_instance \<Rightarrow> ('w, identity_outcome) io" where
  "reconcileDirectProviderIdentity P i d inst =
     (case sp_adapterEndpoint (d_identity d) of
        None \<Rightarrow> throw_io (Error_fault ''RUNTIME_ADAPTER_ENDPOINT_MISSING'')
      | Some endpoint \<Rightarrow> verifyProviderIdentity P i d (dn_target inst) endpoint Tls_disabled)"

definition probeDirectHealth :: "'w reconcile_ports \<Rightarrow> direct_instance \<Rightarrow> ('w, health_result) io" where
  "probeDirectHealth P inst =
     (case rp_externalHealth P of
        None \<Rightarrow> throw_io (Error_fault ''RUNTIME_RECONCILE_EXTERNAL_HEALTH_REQUIRED'')
      | Some probe \<Rightarrow> cancellable P (probe (dn_controlEndpoint inst)))"

subsection \<open>The steps of a platform managed deployment\<close>

text \<open>A step either goes round the loop again, having progressed, or returns.\<close>

datatype outcome = Continue deployment | Return deployment bool

definition advance :: "'w reconcile_ports \<Rightarrow> reconcile_input \<Rightarrow> deployment \<Rightarrow> deployment_status \<Rightarrow> ('w, outcome) io" where
  "advance P i d target = bind_io (move P i d target) (\<lambda>d'. ret (Continue d'))"

definition finish :: "'w reconcile_ports \<Rightarrow> reconcile_input \<Rightarrow> deployment \<Rightarrow> deployment_status \<Rightarrow> ('w, outcome) io" where
  "finish P i d target = bind_io (move P i d target) (\<lambda>d'. ret (Return d' True))"

definition instance_for :: "'w reconcile_ports \<Rightarrow> deployment \<Rightarrow> ('w, reconcile_instance) io" where
  "instance_for P d = cancellable P (rp_ensureInstance P (snapshot_of d))"

definition direct_for :: "'w reconcile_ports \<Rightarrow> deployment \<Rightarrow> ('w, direct_instance) io" where
  "direct_for P d = cancellable P (rp_getDirectInstance P (snapshot_of d))"

definition start_instance ::
    "'w reconcile_ports \<Rightarrow> reconcile_input \<Rightarrow> deployment \<Rightarrow> reconcile_instance \<Rightarrow> ('w, unit) io" where
  "start_instance P i d inst =
     cancellable P (rp_start P inst (stepContext (rc_context i) ''start'' (d_observedRevision d)))"

definition probe_instance :: "'w reconcile_ports \<Rightarrow> reconcile_instance \<Rightarrow> ('w, health_result) io" where
  "probe_instance P inst =
     bind_io (cancellable P (rp_probe P (in_target inst) (in_httpPort inst))) (\<lambda>r.
     bind_io (cancellable P (rp_recordHealth P (in_target inst) r)) (\<lambda>_. ret r))"

definition step_database :: "'w reconcile_ports \<Rightarrow> reconcile_input \<Rightarrow> ('w, outcome) io" where
  "step_database P i =
     bind_io (cancellable P (rp_database P (rc_providerId i) (rc_deploymentId i) (cx_operationId (rc_context i)))) (\<lambda>_.
     bind_io (requireDeployment P i) (\<lambda>d. ret (Continue d)))"

definition step_config :: "'w reconcile_ports \<Rightarrow> reconcile_input \<Rightarrow> deployment \<Rightarrow> ('w, outcome) io" where
  "step_config P i d = bind_io (instance_for P d) (\<lambda>_. advance P i d STARTING)"

definition step_starting :: "'w reconcile_ports \<Rightarrow> reconcile_input \<Rightarrow> deployment \<Rightarrow> bool \<Rightarrow> ('w, outcome) io" where
  "step_starting P i d progressed =
     bind_io (instance_for P d) (\<lambda>inst.
     bind_io (reconcileProviderIdentity P i d inst) (\<lambda>identity.
       case identity of
         Identity_mismatched d' \<Rightarrow> ret (Return d' True)
       | Identity_unavailable \<Rightarrow> ret (Return d progressed)
       | Identity_verified \<Rightarrow> bind_io (start_instance P i d inst) (\<lambda>_. advance P i d HEALTH_CHECKING)))"

definition step_health :: "'w reconcile_ports \<Rightarrow> reconcile_input \<Rightarrow> deployment \<Rightarrow> ('w, outcome) io" where
  "step_health P i d =
     bind_io (instance_for P d) (\<lambda>inst.
     bind_io (reconcileProviderIdentity P i d inst) (\<lambda>identity.
       case identity of
         Identity_mismatched d' \<Rightarrow> ret (Return d' True)
       | Identity_unavailable \<Rightarrow> finish P i d DEGRADED
       | Identity_verified \<Rightarrow>
           bind_io (probe_instance P inst) (\<lambda>r.
             finish P i d (if isHealthy r then DISCOVERING else DEGRADED))))"

text \<open>What an active or degraded deployment turns into after its checks.\<close>

definition degrade :: "'w reconcile_ports \<Rightarrow> reconcile_input \<Rightarrow> deployment \<Rightarrow> bool \<Rightarrow> ('w, outcome) io" where
  "degrade P i d progressed =
     (if d_status d = ACTIVE then finish P i d DEGRADED else ret (Return d progressed))"

definition confirm ::
    "'w reconcile_ports \<Rightarrow> reconcile_input \<Rightarrow> deployment \<Rightarrow> bool \<Rightarrow> identity_outcome \<Rightarrow> ('w, outcome) io" where
  "confirm P i d progressed identity =
     (case identity of
        Identity_mismatched d' \<Rightarrow> ret (Return d' True)
      | Identity_unavailable \<Rightarrow> degrade P i d progressed
      | Identity_verified \<Rightarrow>
          if d_status d = DEGRADED then finish P i d DISCOVERING else ret (Return d progressed))"

definition step_active :: "'w reconcile_ports \<Rightarrow> reconcile_input \<Rightarrow> deployment \<Rightarrow> bool \<Rightarrow> ('w, outcome) io" where
  "step_active P i d progressed =
     bind_io (instance_for P d) (\<lambda>inst.
     bind_io (start_instance P i d inst) (\<lambda>_.
     bind_io (probe_instance P inst) (\<lambda>r.
       if \<not> isHealthy r then degrade P i d progressed
       else bind_io (reconcileProviderIdentity P i d inst) (confirm P i d progressed))))"

text \<open>The checks of a deployment in \<open>DISCOVERING\<close>.\<close>

definition still_discovering ::
    "'w reconcile_ports \<Rightarrow> reconcile_input \<Rightarrow> deployment \<Rightarrow> bool \<Rightarrow> identity_outcome \<Rightarrow> ('w, outcome) io" where
  "still_discovering P i d progressed identity =
     (case identity of
        Identity_mismatched d' \<Rightarrow> ret (Return d' True)
      | Identity_unavailable \<Rightarrow> finish P i d DEGRADED
      | Identity_verified \<Rightarrow> ret (Return d progressed))"

definition step_discovering :: "'w reconcile_ports \<Rightarrow> reconcile_input \<Rightarrow> deployment \<Rightarrow> bool \<Rightarrow> ('w, outcome) io" where
  "step_discovering P i d progressed =
     bind_io (instance_for P d) (\<lambda>inst.
     bind_io (reconcileProviderIdentity P i d inst) (still_discovering P i d progressed))"

definition reconcileStopped :: "'w reconcile_ports \<Rightarrow> reconcile_input \<Rightarrow> deployment \<Rightarrow> ('w, deployment) io" where
  "reconcileStopped P i d =
     (if d_status d = STOPPED then ret d
      else if d_status d \<in> {REQUESTED, FAILED} then move P i d STOPPED
      else
        bind_io (if d_status d \<noteq> DRAINING then move P i d DRAINING else ret d) (\<lambda>d.
        if identity_authority d = ''direct_container'' then move P i d STOPPED
        else
          bind_io (cancellable P (rp_listInstances P (rc_providerId i) (rc_deploymentId i))) (\<lambda>targets.
          bind_io
            (each_io (\<lambda>t. cancellable P (rp_stop P t (stepContext (rc_context i) ''stop'' (d_observedRevision d))))
               targets) (\<lambda>_.
          move P i d STOPPED))))"

definition stop_step :: "'w reconcile_ports \<Rightarrow> reconcile_input \<Rightarrow> deployment \<Rightarrow> bool \<Rightarrow> ('w, outcome) io" where
  "stop_step P i d progressed =
     bind_io (reconcileStopped P i d) (\<lambda>d'. ret (Return d' (progressed \<or> d_status d' \<noteq> d_status d)))"

definition platform_step :: "'w reconcile_ports \<Rightarrow> reconcile_input \<Rightarrow> deployment \<Rightarrow> bool \<Rightarrow> ('w, outcome) io" where
  "platform_step P i d progressed =
     bind_io (checkpoint P) (\<lambda>_.
     if d_desiredState d \<noteq> ''running'' then stop_step P i d progressed
     else
       (case d_status d of
          REQUESTED \<Rightarrow> step_database P i
        | DATABASE_PROVISIONING \<Rightarrow> step_database P i
        | MIGRATING \<Rightarrow> step_database P i
        | FAILED \<Rightarrow> step_database P i
        | CONFIG_PREPARING \<Rightarrow> step_config P i d
        | STARTING \<Rightarrow> step_starting P i d progressed
        | HEALTH_CHECKING \<Rightarrow> step_health P i d
        | ACTIVE \<Rightarrow> step_active P i d progressed
        | DEGRADED \<Rightarrow> step_active P i d progressed
        | DISCOVERING \<Rightarrow> step_discovering P i d progressed
        | STOPPED \<Rightarrow> advance P i d REQUESTED
        | DRAINING \<Rightarrow> ret (Return d progressed)))"

subsection \<open>The steps of a direct container\<close>

definition direct_starting :: "'w reconcile_ports \<Rightarrow> reconcile_input \<Rightarrow> deployment \<Rightarrow> bool \<Rightarrow> ('w, outcome) io" where
  "direct_starting P i d progressed =
     bind_io (direct_for P d) (\<lambda>inst.
       if \<not> isRegistered inst then ret (Return d progressed) else advance P i d HEALTH_CHECKING)"

definition probe_direct :: "'w reconcile_ports \<Rightarrow> direct_instance \<Rightarrow> ('w, health_result) io" where
  "probe_direct P inst =
     bind_io (probeDirectHealth P inst) (\<lambda>r.
     bind_io (cancellable P (rp_recordHealth P (dn_target inst) r)) (\<lambda>_. ret r))"

definition direct_health :: "'w reconcile_ports \<Rightarrow> reconcile_input \<Rightarrow> deployment \<Rightarrow> ('w, outcome) io" where
  "direct_health P i d =
     bind_io (direct_for P d) (\<lambda>inst.
       if \<not> isRegistered inst then finish P i d DEGRADED
       else
         bind_io (reconcileDirectProviderIdentity P i d inst) (\<lambda>identity.
           case identity of
             Identity_mismatched d' \<Rightarrow> ret (Return d' True)
           | Identity_unavailable \<Rightarrow> finish P i d DEGRADED
           | Identity_verified \<Rightarrow>
               bind_io (probe_direct P inst) (\<lambda>r.
                 finish P i d (if isHealthy r then DISCOVERING else DEGRADED))))"

definition direct_active :: "'w reconcile_ports \<Rightarrow> reconcile_input \<Rightarrow> deployment \<Rightarrow> bool \<Rightarrow> ('w, outcome) io" where
  "direct_active P i d progressed =
     bind_io (direct_for P d) (\<lambda>inst.
       if \<not> isRegistered inst then degrade P i d progressed
       else
         bind_io (probe_direct P inst) (\<lambda>r.
           if \<not> isHealthy r then degrade P i d progressed
           else bind_io (reconcileDirectProviderIdentity P i d inst) (confirm P i d progressed)))"

definition direct_discovering :: "'w reconcile_ports \<Rightarrow> reconcile_input \<Rightarrow> deployment \<Rightarrow> bool \<Rightarrow> ('w, outcome) io" where
  "direct_discovering P i d progressed =
     bind_io (direct_for P d) (\<lambda>inst.
       if \<not> isRegistered inst then finish P i d DEGRADED
       else bind_io (reconcileDirectProviderIdentity P i d inst) (still_discovering P i d progressed))"

definition direct_step :: "'w reconcile_ports \<Rightarrow> reconcile_input \<Rightarrow> deployment \<Rightarrow> bool \<Rightarrow> ('w, outcome) io" where
  "direct_step P i d progressed =
     bind_io (checkpoint P) (\<lambda>_.
     if identity_authority d \<noteq> ''direct_container'' then throw_io (Error_fault ''RUNTIME_RECONCILE_AUTHORITY_CHANGED'')
     else if d_desiredState d \<noteq> ''running'' then stop_step P i d progressed
     else
       (case d_status d of
          REQUESTED \<Rightarrow> bind_io (direct_for P d) (\<lambda>_. advance P i d CONFIG_PREPARING)
        | CONFIG_PREPARING \<Rightarrow> bind_io (direct_for P d) (\<lambda>_. advance P i d STARTING)
        | STARTING \<Rightarrow> direct_starting P i d progressed
        | HEALTH_CHECKING \<Rightarrow> direct_health P i d
        | ACTIVE \<Rightarrow> direct_active P i d progressed
        | DEGRADED \<Rightarrow> direct_active P i d progressed
        | DISCOVERING \<Rightarrow> direct_discovering P i d progressed
        | FAILED \<Rightarrow> advance P i d REQUESTED
        | STOPPED \<Rightarrow> ret (Return d progressed)
        | DRAINING \<Rightarrow> ret (Return d progressed)
        | DATABASE_PROVISIONING \<Rightarrow> throw_io (Error_fault ''DIRECT_CONTAINER_MANAGED_DATABASE_STATE_INVALID'')
        | MIGRATING \<Rightarrow> throw_io (Error_fault ''DIRECT_CONTAINER_MANAGED_DATABASE_STATE_INVALID'')))"

subsection \<open>reconcile\<close>

definition STEP_LIMIT :: nat where
  "STEP_LIMIT = 12"

text \<open>The loop, with the number of rounds that are left.\<close>

fun reconcile_loop ::
    "(deployment \<Rightarrow> bool \<Rightarrow> ('w, outcome) io) \<Rightarrow> string list \<Rightarrow> nat \<Rightarrow> deployment \<Rightarrow> bool \<Rightarrow> ('w, reconcile_result) io"
where
  "reconcile_loop step orphans 0 d progressed = throw_io (Reconcile_fault ''RUNTIME_RECONCILE_STEP_LIMIT'' True)"
| "reconcile_loop step orphans (Suc n) d progressed =
     bind_io (step d progressed) (\<lambda>next_step.
       case next_step of
         Continue d' \<Rightarrow> reconcile_loop step orphans n d' True
       | Return d' p \<Rightarrow> ret \<lparr>rr_deployment = snapshot_of d', rr_progressed = p, rr_orphanProcessNames = orphans\<rparr>)"

definition reconcileDirectContainer ::
    "nat \<Rightarrow> 'w reconcile_ports \<Rightarrow> reconcile_input \<Rightarrow> deployment \<Rightarrow> ('w, reconcile_result) io" where
  "reconcileDirectContainer limit P i d =
     catch_io (reconcile_loop (direct_step P i) [] limit d False) (mapAndRecordFailure P i)"

text \<open>The method with the bound of its loops as an argument.\<close>

definition reconcile_within :: "nat \<Rightarrow> 'w reconcile_ports \<Rightarrow> reconcile_input \<Rightarrow> ('w, reconcile_result) io" where
  "reconcile_within limit P i =
     bind_io (checkpoint P) (\<lambda>_.
     bind_io (requireDeployment P i) (\<lambda>d.
     if identity_authority d = ''direct_container'' then reconcileDirectContainer limit P i d
     else
       bind_io
         (catch_io (detectOrphans P i)
            (\<lambda>_. throw_io (Reconcile_fault ''RUNTIME_RECONCILE_OPERATION_FAILED'' True))) (\<lambda>orphans.
       catch_io (reconcile_loop (platform_step P i) orphans limit d False) (mapAndRecordFailure P i))))"

definition reconcile :: "'w reconcile_ports \<Rightarrow> reconcile_input \<Rightarrow> ('w, reconcile_result) io" where
  "reconcile = reconcile_within STEP_LIMIT"

subsection \<open>runtime-reconcile-job.ts\<close>

definition payload_string :: "jobj \<Rightarrow> string \<Rightarrow> string option" where
  "payload_string p k = (case js_get p k of Some (JStr s) \<Rightarrow> Some s | _ \<Rightarrow> None)"

definition reconcile_input_of :: "int \<Rightarrow> job_lease \<Rightarrow> fault + reconcile_input" where
  "reconcile_input_of timeoutMs lease =
     (let p = pj_payload (jl_job lease);
          i = PmsJobs.identity_of lease
      in case (payload_string p ''providerId'', payload_string p ''deploymentId'') of
           (Some provider, Some target) \<Rightarrow>
             bind_r
               (runtimeInfrastructureOperationContext
                  \<lparr>cx_operationId = operationId i,
                   cx_correlationId =
                     (case payload_string p ''correlationId'' of
                        Some c \<Rightarrow> c | None \<Rightarrow> ''job:'' @ pj_jobId (jl_job lease)),
                   cx_idempotencyKey = idempotencyKey i, cx_timeoutMs = timeoutMs\<rparr>) (\<lambda>c.
             Inr \<lparr>rc_providerId = provider, rc_deploymentId = target, rc_context = c\<rparr>)
         | _ \<Rightarrow> Inl (Error_fault ''RUNTIME_DEPLOYMENT_RECONCILE_PAYLOAD_INVALID''))"

definition reconcile_job ::
    "'w reconcile_ports \<Rightarrow> (reconcile_input \<Rightarrow> ('w, 'a) io) \<Rightarrow> int \<Rightarrow> job_lease \<Rightarrow> ('w, unit) io" where
  "reconcile_job P run timeoutMs lease =
     bind_io
       (if payload_string (pj_payload (jl_job lease)) ''providerId'' = None \<or>
           payload_string (pj_payload (jl_job lease)) ''deploymentId'' = None
        then throw_io (Error_fault ''RUNTIME_DEPLOYMENT_RECONCILE_PAYLOAD_INVALID'') else checkpoint P) (\<lambda>_.
     bind_io (lift_io (reconcile_input_of timeoutMs lease)) (\<lambda>i.
     bind_io (run i) (\<lambda>_. checkpoint P)))"

end
