(* ===== verification/RuntimeStore.thy ===== *)
theory RuntimeStore
  imports RuntimeReconcile
begin

text \<open>
  The tables behind the reconciler. runtime-deployment-repositories.ts and runtime-instance-allocator.ts
  (packages/pms-persistence-postgres), the store, the identity verifier and the retry loop of
  apps/pms-worker/src/runtime-composition.ts, lifecycle/manager.ts (packages/pm2-runtime-adapter). Every
  statement may fail; what the database, the process manager, the adapters and the clock answer depends on
  the number of questions asked before and comes from \<open>runtime_env\<close>. Waiting for a process and starting
  it is one question; the published configuration of a profile is another.
\<close>

subsection \<open>State and environment\<close>

record process_row =
  pw_projection :: projection
  pw_environment :: string

record prep_checkpoint =
  pc_completedSteps :: "string list"
  pc_revision :: int
  pc_lastErrorCode :: "string option"

record runtime_audit =
  ra_action :: string
  ra_subjectId :: string
  ra_correlationId :: string
  ra_errorCode :: "string option"

text \<open>A request to the process manager, with what became of it.\<close>

record process_call =
  pl_action :: string
  pl_processName :: string
  pl_done :: bool

record runtime_world =
  rw_deployments :: "snapshot list"
  rw_processes :: "(string, process_row) jsmap"
  rw_completed :: "string list"
  rw_checkpoints :: "(string, prep_checkpoint list) jsmap"
  rw_audit :: "runtime_audit list"
  rw_calls :: "process_call list"
  rw_provisioned :: "(string \<times> string) list"
  rw_tick :: nat

record runtime_env =
  en_parse_url :: url_parser
  en_sha256 :: "string \<Rightarrow> string"
  en_portRange :: "int \<times> int"
  en_collate :: "string \<Rightarrow> string \<Rightarrow> bool"
  en_now :: "nat \<Rightarrow> int"
  en_statement :: "nat \<Rightarrow> fault option"
  en_aborted :: "nat \<Rightarrow> bool"
  en_config :: "string \<Rightarrow> nat \<Rightarrow> fault + jobj option"
  en_credential :: "nat \<Rightarrow> fault option"
  en_fresh :: "string \<Rightarrow> nat \<Rightarrow> bool"
  en_process :: "string \<Rightarrow> nat \<Rightarrow> fault option"
  en_probe :: "nat \<Rightarrow> fault + health_result"
  en_external :: "nat \<Rightarrow> fault + health_result"
  en_inventory :: "nat \<Rightarrow> fault + instance_target list"
  en_credentials :: "adapter_tls \<Rightarrow> nat \<Rightarrow> fault option"
  en_manifest :: "nat \<Rightarrow> string option"
  en_profile :: "string \<Rightarrow> string \<Rightarrow> nat \<Rightarrow> database_profile option"
  en_secret :: "nat \<Rightarrow> fault + string"
  en_provision :: "string \<Rightarrow> nat \<Rightarrow> fault option"

type_synonym 'a rt = "(runtime_world, 'a) io"

definition ask :: "(nat \<Rightarrow> fault + 'a) \<Rightarrow> 'a rt" where
  "ask answer w = (w\<lparr>rw_tick := Suc (rw_tick w)\<rparr>, answer (rw_tick w))"

definition may_fail :: "(nat \<Rightarrow> fault option) \<Rightarrow> unit rt" where
  "may_fail f = ask (\<lambda>t. case f t of None \<Rightarrow> Inr () | Some e \<Rightarrow> Inl e)"

definition look :: "(runtime_world \<Rightarrow> 'a) \<Rightarrow> 'a rt" where
  "look f w = (w, Inr (f w))"

definition change :: "(runtime_world \<Rightarrow> runtime_world) \<Rightarrow> unit rt" where
  "change f w = (f w, Inr ())"

text \<open>A statement that reads, and one that writes.\<close>

definition read_db :: "runtime_env \<Rightarrow> (runtime_world \<Rightarrow> 'a) \<Rightarrow> 'a rt" where
  "read_db E f = bind_io (may_fail (en_statement E)) (\<lambda>_. look f)"

definition write_db :: "runtime_env \<Rightarrow> (runtime_world \<Rightarrow> runtime_world) \<Rightarrow> unit rt" where
  "write_db E f = bind_io (may_fail (en_statement E)) (\<lambda>_. change f)"

definition world_audit :: "runtime_env \<Rightarrow> runtime_audit \<Rightarrow> unit rt" where
  "world_audit E a = write_db E (\<lambda>w. w\<lparr>rw_audit := rw_audit w @ [a]\<rparr>)"

definition model_io :: "deployment_error + 'a \<Rightarrow> 'a rt" where
  "model_io r = lift_io (case r of Inl e \<Rightarrow> Inl (Model_fault e) | Inr x \<Rightarrow> Inr x)"

subsection \<open>PostgresRuntimeDeploymentRepository\<close>

definition databaseProfileId :: "string \<Rightarrow> deployment_error + string" where
  "databaseProfileId value = parseIdentifier value ''DatabaseProfileId'' logical_id"

definition runtimeConfigProfileId :: "string \<Rightarrow> deployment_error + string" where
  "runtimeConfigProfileId value = parseIdentifier value ''RuntimeConfigProfileId'' logical_id"

text \<open>A row is a snapshot; the columns of the other authority are null.\<close>

definition deploymentFromRow :: "url_parser \<Rightarrow> snapshot \<Rightarrow> fault + deployment" where
  "deploymentFromRow parse_url r =
     (let checked = (\<lambda>ids s.
            case bind_r (runtimeDeploymentId (sp_deploymentId r)) (\<lambda>_.
                 bind_r (runtimeProviderId (sp_providerId r)) (\<lambda>_.
                 bind_r (runtimeEnvironmentId (sp_environment r)) (\<lambda>_.
                 bind_r ids (\<lambda>_. rehydrateDeployment parse_url s)))) of
              Inl e \<Rightarrow> Inl (Model_fault e) | Inr d \<Rightarrow> Inr d)
      in if sp_runtimeAuthority r = Some ''direct_container'' then
           (case (sp_databaseProfileId r, sp_configProfileId r, sp_adapterEndpoint r, sp_directContainer r) of
              (None, None, Some _, Some c) \<Rightarrow> checked (bind_r (runtimeInstanceId (dc_instanceId c)) (\<lambda>_. Inr ())) r
            | _ \<Rightarrow> Inl (Error_fault ''PMS_RUNTIME_DEPLOYMENT_AUTHORITY_SPEC_INVALID''))
         else
           (case (sp_databaseProfileId r, sp_configProfileId r) of
              (Some p, Some c) \<Rightarrow>
                checked (bind_r (databaseProfileId p) (\<lambda>_. bind_r (runtimeConfigProfileId c) (\<lambda>_. Inr ())))
                  (r\<lparr>sp_runtimeAuthority := Some ''platform_managed'', sp_directContainer := None\<rparr>)
            | _ \<Rightarrow> Inl (Error_fault ''PMS_RUNTIME_DEPLOYMENT_AUTHORITY_SPEC_INVALID'')))"

definition deploymentValues :: "snapshot \<Rightarrow> snapshot" where
  "deploymentValues s =
     (if sp_runtimeAuthority s = Some ''platform_managed'' then s\<lparr>sp_directContainer := None\<rparr>
      else s\<lparr>sp_databaseProfileId := None, sp_configProfileId := None\<rparr>)"

definition row_of_provider :: "string \<Rightarrow> string \<Rightarrow> runtime_world \<Rightarrow> snapshot option" where
  "row_of_provider provider target w =
     find (\<lambda>r. sp_deploymentId r = target \<and> sp_providerId r = provider) (rw_deployments w)"

definition get_deployment :: "runtime_env \<Rightarrow> string \<Rightarrow> string \<Rightarrow> deployment option rt" where
  "get_deployment E provider target =
     bind_io (read_db E (row_of_provider provider target)) (\<lambda>row.
       case row of
         None \<Rightarrow> ret None
       | Some r \<Rightarrow> bind_io (lift_io (deploymentFromRow (en_parse_url E) r)) (\<lambda>d. ret (Some d)))"

definition insert_deployment :: "runtime_env \<Rightarrow> snapshot \<Rightarrow> unit rt" where
  "insert_deployment E s =
     bind_io (may_fail (en_statement E)) (\<lambda>_ w.
       if list_ex (\<lambda>r. sp_deploymentId r = sp_deploymentId s) (rw_deployments w)
       then (w, Inl (Pms_fault (already_exists ''RuntimeDeployment'')))
       else (w\<lparr>rw_deployments := rw_deployments w @ [deploymentValues s]\<rparr>, Inr ()))"

text \<open>The five columns that a save writes.\<close>

definition saved_row :: "snapshot \<Rightarrow> snapshot \<Rightarrow> snapshot" where
  "saved_row s r =
     r\<lparr>sp_desiredState := sp_desiredState s, sp_desiredReplicas := sp_desiredReplicas s, sn_status := sn_status s,
       sn_desiredRevision := sn_desiredRevision s, sn_observedRevision := sn_observedRevision s\<rparr>"

definition update_deployment :: "snapshot \<Rightarrow> int \<times> int \<Rightarrow> runtime_world \<Rightarrow> runtime_world \<times> bool" where
  "update_deployment s expected w =
     (case row_of_provider (sp_providerId s) (sp_deploymentId s) w of
        None \<Rightarrow> (w, False)
      | Some r \<Rightarrow>
          if (sn_desiredRevision r, sn_observedRevision r) = expected
          then
            (w\<lparr>rw_deployments :=
               map (\<lambda>r. if sp_deploymentId r = sp_deploymentId s \<and> sp_providerId r = sp_providerId s
                        then saved_row s r else r) (rw_deployments w)\<rparr>, True)
          else (w, False))"

definition save_deployment :: "runtime_env \<Rightarrow> snapshot \<Rightarrow> int \<times> int \<Rightarrow> bool rt" where
  "save_deployment E s expected =
     bind_io (may_fail (en_statement E)) (\<lambda>_.
     bind_io (\<lambda>w. case update_deployment s expected w of (w', b) \<Rightarrow> (w', Inr b)) (\<lambda>updated.
       if updated then ret True
       else
         bind_io (get_deployment E (sp_providerId s) (sp_deploymentId s)) (\<lambda>current.
           if map_option snapshot_of current = Some s then ret False
           else throw_io (Pms_fault (concurrencyConflict ''RuntimeDeployment'')))))"

subsection \<open>PostgresRuntimeProcessRepository\<close>

definition processFromRow :: "url_parser \<Rightarrow> projection \<Rightarrow> fault + projection" where
  "processFromRow parse_url p =
     (let i = pj_identity p;
          broken =
            (if pi_processManager i = Some ''direct_container''
             then pi_pm2Name i \<noteq> None \<or> pi_port i \<noteq> None \<or> pi_controlEndpoint i = None \<or> pi_advertisedEndpoint i = None
             else pi_pm2Name i = None \<or> pi_port i = None)
      in if broken then Inl (Error_fault ''PMS_RUNTIME_PROCESS_IDENTITY_INVALID'')
         else (case rehydrateRuntimeProcessProjection parse_url p of Inl e \<Rightarrow> Inl (Model_fault e) | Inr q \<Rightarrow> Inr q))"

definition process_of_provider :: "string \<Rightarrow> string \<Rightarrow> runtime_world \<Rightarrow> projection option" where
  "process_of_provider provider inst w =
     (case js_get (rw_processes w) inst of
        None \<Rightarrow> None
      | Some p \<Rightarrow>
          if row_of_provider provider (pi_deploymentId (pj_identity (pw_projection p))) w = None then None
          else Some (pw_projection p))"

definition get_process :: "runtime_env \<Rightarrow> string \<Rightarrow> string \<Rightarrow> projection option rt" where
  "get_process E provider inst =
     bind_io (read_db E (process_of_provider provider inst)) (\<lambda>row.
       case row of
         None \<Rightarrow> ret None
       | Some p \<Rightarrow> bind_io (lift_io (processFromRow (en_parse_url E) p)) (\<lambda>q. ret (Some q)))"

definition list_processes :: "runtime_env \<Rightarrow> string \<Rightarrow> string \<Rightarrow> projection list rt" where
  "list_processes E provider target =
     bind_io
       (read_db E (\<lambda>w.
          if row_of_provider provider target w = None then []
          else order_by (\<lambda>p q. en_collate E (pi_instanceId (pj_identity p)) (pi_instanceId (pj_identity q)))
                 (filter (\<lambda>p. pi_deploymentId (pj_identity p) = target) (map pw_projection (js_values (rw_processes w))))))
       (\<lambda>rows. lift_io (map_r (processFromRow (en_parse_url E)) rows))"

definition manager_of :: "process_identity \<Rightarrow> string" where
  "manager_of i = (case pi_processManager i of None \<Rightarrow> ''pm2'' | Some m \<Rightarrow> m)"

definition direct_endpoint :: "process_identity \<Rightarrow> string option \<Rightarrow> string option" where
  "direct_endpoint i e = (if pi_processManager i = Some ''direct_container'' then e else None)"

definition processIdentityEqual :: "process_identity \<Rightarrow> process_identity \<Rightarrow> bool" where
  "processIdentityEqual i j \<longleftrightarrow>
     pi_instanceId i = pi_instanceId j \<and> pi_deploymentId i = pi_deploymentId j \<and> manager_of i = manager_of j \<and>
     pi_pm2Name i = pi_pm2Name j \<and> pi_port i = pi_port j \<and>
     direct_endpoint i (pi_controlEndpoint i) = direct_endpoint j (pi_controlEndpoint j) \<and>
     direct_endpoint i (pi_advertisedEndpoint i) = direct_endpoint j (pi_advertisedEndpoint j)"

definition processesEqual :: "projection \<Rightarrow> projection \<Rightarrow> bool" where
  "processesEqual p q \<longleftrightarrow>
     processIdentityEqual (pj_identity p) (pj_identity q) \<and> observationsEqual (pj_observation p) (pj_observation q) \<and>
     pj_observedRevision p = pj_observedRevision q"

text \<open>The values of a row.\<close>

definition processValues :: "projection \<Rightarrow> projection" where
  "processValues p =
     (let i = pj_identity p
      in p\<lparr>pj_identity := i\<lparr>pi_processManager := Some (manager_of i),
              pi_controlEndpoint := direct_endpoint i (pi_controlEndpoint i),
              pi_advertisedEndpoint := direct_endpoint i (pi_advertisedEndpoint i)\<rparr>\<rparr>)"

definition same_pm2_name :: "process_identity \<Rightarrow> runtime_world \<Rightarrow> bool" where
  "same_pm2_name i w \<longleftrightarrow>
     pi_pm2Name i \<noteq> None \<and>
     list_ex (\<lambda>p. pi_pm2Name (pj_identity (pw_projection p)) = pi_pm2Name i) (js_values (rw_processes w))"

definition same_port :: "string \<Rightarrow> process_identity \<Rightarrow> runtime_world \<Rightarrow> bool" where
  "same_port environment i w \<longleftrightarrow>
     pi_port i \<noteq> None \<and>
     list_ex (\<lambda>p. pw_environment p = environment \<and> pi_port (pj_identity (pw_projection p)) = pi_port i)
       (js_values (rw_processes w))"

definition insert_process :: "runtime_env \<Rightarrow> string \<Rightarrow> projection \<Rightarrow> bool rt" where
  "insert_process E provider p =
     bind_io (may_fail (en_statement E)) (\<lambda>_ w.
       case row_of_provider provider (pi_deploymentId (pj_identity p)) w of
         None \<Rightarrow> (w, Inl (Pms_fault (concurrencyConflict ''RuntimeProcess'')))
       | Some r \<Rightarrow>
           if (sp_runtimeAuthority r, manager_of (pj_identity p)) \<notin>
                {(Some ''platform_managed'', ''pm2''), (Some ''direct_container'', ''direct_container'')}
           then (w, Inl (Pms_fault (concurrencyConflict ''RuntimeProcess'')))
           else if js_has (rw_processes w) (pi_instanceId (pj_identity p)) \<or> same_pm2_name (pj_identity p) w \<or>
                   same_port (sp_environment r) (pj_identity p) w
           then bind_io (get_process E provider (pi_instanceId (pj_identity p))) (\<lambda>current.
                  if (case current of None \<Rightarrow> False | Some c \<Rightarrow> processesEqual c p) then ret False
                  else throw_io (Pms_fault (concurrencyConflict ''RuntimeProcess''))) w
           else
             (w\<lparr>rw_processes := js_set (pi_instanceId (pj_identity p))
                  \<lparr>pw_projection = processValues p, pw_environment = sp_environment r\<rparr> (rw_processes w)\<rparr>, Inr True))"

definition update_process :: "projection \<Rightarrow> int \<Rightarrow> runtime_world \<Rightarrow> runtime_world \<times> bool" where
  "update_process p expected w =
     (case js_get (rw_processes w) (pi_instanceId (pj_identity p)) of
        None \<Rightarrow> (w, False)
      | Some q \<Rightarrow>
          if pi_deploymentId (pj_identity (pw_projection q)) = pi_deploymentId (pj_identity p) \<and>
             pj_observedRevision (pw_projection q) = expected
          then (w\<lparr>rw_processes := js_set (pi_instanceId (pj_identity p))
                  (q\<lparr>pw_projection := (pw_projection q)\<lparr>pj_observation := pj_observation p,
                     pj_observedRevision := pj_observedRevision p\<rparr>\<rparr>) (rw_processes w)\<rparr>, True)
          else (w, False))"

definition upsert_process :: "runtime_env \<Rightarrow> string \<Rightarrow> projection \<Rightarrow> int option \<Rightarrow> bool rt" where
  "upsert_process E provider p expectedRevision =
     bind_io (get_process E provider (pi_instanceId (pj_identity p))) (\<lambda>current.
       case current of
         None \<Rightarrow>
           if expectedRevision \<noteq> None \<or> pj_observedRevision p \<noteq> 0
           then throw_io (Pms_fault (concurrencyConflict ''RuntimeProcess''))
           else insert_process E provider p
       | Some c \<Rightarrow>
           if processesEqual c p then ret False
           else
             (case expectedRevision of
                None \<Rightarrow> throw_io (Pms_fault (concurrencyConflict ''RuntimeProcess''))
              | Some e \<Rightarrow>
                  if pj_observedRevision c \<noteq> e \<or> pj_observedRevision p \<noteq> e + 1 \<or>
                     \<not> processIdentityEqual (pj_identity c) (pj_identity p)
                  then throw_io (Pms_fault (concurrencyConflict ''RuntimeProcess''))
                  else
                    bind_io (may_fail (en_statement E)) (\<lambda>_.
                    bind_io (\<lambda>w. case update_process p e w of (w', b) \<Rightarrow> (w', Inr b)) (\<lambda>updated.
                      if updated then ret True
                      else
                        bind_io (get_process E provider (pi_instanceId (pj_identity p))) (\<lambda>raced.
                          if (case raced of None \<Rightarrow> False | Some c \<Rightarrow> processesEqual c p) then ret False
                          else throw_io (Pms_fault (concurrencyConflict ''RuntimeProcess'')))))))"

subsection \<open>PostgresRuntimeInstanceAllocator\<close>

definition allocation_io :: "allocation_error + 'a \<Rightarrow> 'a rt" where
  "allocation_io r = lift_io (case r of Inl e \<Rightarrow> Inl (Allocation_fault e) | Inr x \<Rightarrow> Inr x)"

definition initialObservation :: process_observation where
  "initialObservation =
     \<lparr>ob_pid = None, ob_processState = Missing, ob_livenessState = Liveness_unknown,
      ob_readinessState = Readiness_unknown, ob_registrationState = Unregistered, ob_catalogState = Catalog_unknown,
      ob_configState = Config_unknown, ob_lastHeartbeatAt = None, ob_runtimeVersion = None, ob_configRevision = None,
      ob_restartCount = 0\<rparr>"

definition assertSameIdentity :: "projection \<Rightarrow> instance_identity \<Rightarrow> unit rt" where
  "assertSameIdentity p identity =
     (if pi_deploymentId (pj_identity p) \<noteq> ii_deploymentId identity \<or>
         pi_pm2Name (pj_identity p) \<noteq> Some (ii_pm2Name identity)
      then throw_io (Error_fault ''RUNTIME_INSTANCE_ALLOCATION_CONFLICT'') else ret ())"

definition occupied_ports :: "string \<Rightarrow> runtime_world \<Rightarrow> int list" where
  "occupied_ports environment w =
     List.map_filter (\<lambda>p. if pw_environment p = environment then pi_port (pj_identity (pw_projection p)) else None)
       (js_values (rw_processes w))"

text \<open>The statement that leases the lowest free port; it returns the port when it inserted the row.\<close>

definition lease_port :: "instance_identity \<Rightarrow> string \<Rightarrow> int \<times> int \<Rightarrow> int option rt" where
  "lease_port identity environment ports w =
     (case select_from (fst ports) (snd ports) (occupied_ports environment w) of
        Inl e \<Rightarrow> (w, Inr None)
      | Inr port \<Rightarrow>
          if js_has (rw_processes w) (ii_instanceId identity) then (w, Inr None)
          else
            (case runtimeProcessIdentity identity port of
               Inl e \<Rightarrow> (w, Inl (Allocation_fault e))
             | Inr i \<Rightarrow>
                 if same_pm2_name i w then (w, Inl (Pms_fault (Database_error ''23505'')))
                 else
                   (w\<lparr>rw_processes := js_set (ii_instanceId identity)
                        \<lparr>pw_projection = \<lparr>pj_identity = i, pj_observation = initialObservation, pj_observedRevision = 0\<rparr>,
                         pw_environment = environment\<rparr> (rw_processes w)\<rparr>, Inr (Some port))))"

definition allocate :: "runtime_env \<Rightarrow> string \<Rightarrow> string \<Rightarrow> int \<Rightarrow> projection rt" where
  "allocate E provider target ordinal =
     bind_io (allocation_io (deriveRuntimeInstanceIdentity (en_sha256 E) provider target ordinal)) (\<lambda>identity.
     bind_io (allocation_io (runtimePortRange (fst (en_portRange E)) (snd (en_portRange E)))) (\<lambda>ports.
     bind_io (get_process E provider (ii_instanceId identity)) (\<lambda>replay.
       case replay of
         Some p \<Rightarrow> bind_io (assertSameIdentity p identity) (\<lambda>_. ret p)
       | None \<Rightarrow>
           bind_io (read_db E (row_of_provider provider (ii_deploymentId identity))) (\<lambda>scope.
             case scope of
               None \<Rightarrow> throw_io (Error_fault ''RUNTIME_INSTANCE_ALLOCATION_CONFLICT'')
             | Some r \<Rightarrow>
                 bind_io (may_fail (en_statement E)) (\<lambda>_.
                 bind_io (lease_port identity (sp_environment r) ports) (\<lambda>port.
                   case port of
                     Some port \<Rightarrow>
                       bind_io (allocation_io (runtimeProcessIdentity identity port)) (\<lambda>i.
                         model_io (createRuntimeProcessProjection (en_parse_url E) i initialObservation))
                   | None \<Rightarrow>
                       bind_io (get_process E provider (ii_instanceId identity)) (\<lambda>raced.
                         case raced of
                           Some p \<Rightarrow> bind_io (assertSameIdentity p identity) (\<lambda>_. ret p)
                         | None \<Rightarrow> throw_io (Allocation_fault PortRangeExhausted))))))))"

datatype port_release = Port_released | Port_missing | Port_active

definition release_port :: "runtime_env \<Rightarrow> string \<Rightarrow> string \<Rightarrow> int \<Rightarrow> json \<Rightarrow> port_release rt" where
  "release_port E provider target ordinal policy =
     bind_io (allocation_io (deriveRuntimeInstanceIdentity (en_sha256 E) provider target ordinal)) (\<lambda>identity.
     bind_io (allocation_io (assertRuntimePortReleasePolicy identity policy)) (\<lambda>_.
     if text_field policy ''providerId'' \<noteq> Some provider then throw_io (Allocation_fault (InvalidAllocation ''policy''))
     else
       bind_io (may_fail (en_statement E)) (\<lambda>_ w.
         case js_get (rw_processes w) (ii_instanceId identity) of
           Some p \<Rightarrow>
             if pi_deploymentId (pj_identity (pw_projection p)) = ii_deploymentId identity \<and>
                row_of_provider provider (ii_deploymentId identity) w \<noteq> None \<and>
                ob_processState (pj_observation (pw_projection p)) \<in> {Missing, Stopped}
             then (w\<lparr>rw_processes := js_delete (ii_instanceId identity) (rw_processes w)\<rparr>, Inr Port_released)
             else bind_io (get_process E provider (ii_instanceId identity)) (\<lambda>e.
                    ret (if e = None then Port_missing else Port_active)) w
         | None \<Rightarrow> bind_io (get_process E provider (ii_instanceId identity)) (\<lambda>e.
                    ret (if e = None then Port_missing else Port_active)) w)))"

subsection \<open>PostgresRuntimeReconcileStore\<close>

definition require_deployment :: "runtime_env \<Rightarrow> string \<Rightarrow> string \<Rightarrow> deployment rt" where
  "require_deployment E provider target =
     bind_io (get_deployment E provider target) (\<lambda>d.
       case d of None \<Rightarrow> throw_io (Error_fault ''RUNTIME_RECONCILE_DEPLOYMENT_NOT_FOUND'') | Some d \<Rightarrow> ret d)"

definition aggregate_transition ::
    "runtime_env \<Rightarrow> deployment \<Rightarrow> deployment_status \<Rightarrow> deployment_status \<times> int \<Rightarrow> deployment rt" where
  "aggregate_transition E d target precondition =
     bind_io (ask (\<lambda>t. Inr (en_now E t))) (\<lambda>now.
       model_io (bind_r (transition d target precondition (Some now)) (\<lambda>x. Inr (fst x))))"

definition store_transition ::
    "runtime_env \<Rightarrow> string \<Rightarrow> string \<Rightarrow> deployment_status \<Rightarrow> deployment_status \<Rightarrow> int \<Rightarrow> deployment rt" where
  "store_transition E provider deployment_id target expectedStatus expectedObservedRevision =
     bind_io (require_deployment E provider deployment_id) (\<lambda>d.
     bind_io (aggregate_transition E d target (expectedStatus, expectedObservedRevision)) (\<lambda>d'.
     bind_io (save_deployment E (snapshot_of d') (d_desiredRevision d, expectedObservedRevision)) (\<lambda>_.
       ret d')))"

definition store_fail ::
    "runtime_env \<Rightarrow> string \<Rightarrow> string \<Rightarrow> deployment_status \<Rightarrow> int \<Rightarrow> string \<Rightarrow> unit rt" where
  "store_fail E provider target expectedStatus expectedObservedRevision errorCode =
     bind_io (store_transition E provider target FAILED expectedStatus expectedObservedRevision) (\<lambda>_.
       world_audit E
         \<lparr>ra_action = ''runtime_deployment.reconcile_failed'', ra_subjectId = target,
          ra_correlationId = ''runtime-reconcile:'' @ target, ra_errorCode = Some errorCode\<rparr>)"

definition RUNTIME_BOOTSTRAP_RESERVED_KEYS :: "string list" where
  "RUNTIME_BOOTSTRAP_RESERVED_KEYS =
     [''PORT'', ''PROVIDER_ID'', ''DATABASE_URL'', ''DATABASE_URL_FILE'', ''RUNTIME_DEPLOYMENT_ID'',
      ''RUNTIME_INSTANCE_ID'', ''OTEL_SERVICE_INSTANCE_ID'', ''PMS_RUNTIME_CONFIG_URL'',
      ''PMS_RUNTIME_CONFIG_TOKEN_FILE'', ''PMS_RUNTIME_CONFIG_CACHE_PATH'', ''PMS_RUNTIME_REGISTRATION_URL'',
      ''PMS_RUNTIME_REGISTRATION_TOKEN_FILE'', ''PMS_BOOTSTRAP_CHECKSUM'', ''PMS_CONFIG_REVISION'',
      ''PMS_RUNTIME_VERSION'']"

definition primitiveConfiguration :: "jobj \<Rightarrow> jobj" where
  "primitiveConfiguration content =
     filter (\<lambda>(k, v). k \<notin> set RUNTIME_BOOTSTRAP_RESERVED_KEYS \<and>
                (case v of JStr _ \<Rightarrow> True | JNum _ \<Rightarrow> True | JBool _ \<Rightarrow> True | _ \<Rightarrow> False)) content"

definition effectiveConfig :: "snapshot \<Rightarrow> jobj \<Rightarrow> jobj" where
  "effectiveConfig d content =
     (let env = (case js_get content ''RUNTIME_ENV'' of Some (JStr s) \<Rightarrow> s | _ \<Rightarrow> sp_environment d);
          config = js_set ''RUNTIME_ENV'' (JStr env) (primitiveConfiguration content)
      in case sp_adapterEndpoint d of None \<Rightarrow> config | Some e \<Rightarrow> js_set ''ADAPTER_ENDPOINT'' (JStr e) config)"

definition targetFrom :: "snapshot \<Rightarrow> string \<Rightarrow> string \<Rightarrow> int \<Rightarrow> instance_target" where
  "targetFrom d inst processName ordinal =
     \<lparr>tg_providerId = sp_providerId d, tg_deploymentId = sp_deploymentId d, tg_environment = sp_environment d,
      tg_runtimeVersion = sp_runtimeVersion d, tg_instanceId = inst, tg_ordinal = ordinal,
      tg_processName = processName\<rparr>"

definition ensureInstance :: "runtime_env \<Rightarrow> int \<Rightarrow> snapshot \<Rightarrow> reconcile_instance rt" where
  "ensureInstance E ordinal d =
     (if sp_runtimeAuthority d = Some ''direct_container''
      then throw_io (Error_fault ''DIRECT_CONTAINER_INSTANCE_REQUIRES_OBSERVATION'')
      else
        bind_io (allocate E (sp_providerId d) (sp_deploymentId d) ordinal) (\<lambda>p.
          case (pi_processManager (pj_identity p) = Some ''direct_container'', pi_pm2Name (pj_identity p),
                pi_port (pj_identity p)) of
            (False, Some name, Some port) \<Rightarrow>
              bind_io (ask (en_config E (case sp_configProfileId d of None \<Rightarrow> [] | Some c \<Rightarrow> c))) (\<lambda>published.
                case published of
                  None \<Rightarrow> throw_io (Error_fault ''RUNTIME_CONFIG_PUBLISHED_REVISION_NOT_FOUND'')
                | Some content \<Rightarrow>
                    bind_io (may_fail (en_credential E)) (\<lambda>_.
                      ret \<lparr>in_target = targetFrom d (pi_instanceId (pj_identity p)) name ordinal, in_httpPort = port,
                           in_effectiveConfig = effectiveConfig d content\<rparr>))
          | _ \<Rightarrow> throw_io (Error_fault ''PLATFORM_MANAGED_INSTANCE_ALLOCATION_INVALID'')))"

definition getDirectInstance :: "runtime_env \<Rightarrow> snapshot \<Rightarrow> direct_instance rt" where
  "getDirectInstance E d =
     (case (sp_runtimeAuthority d = Some ''direct_container'', sp_directContainer d) of
        (True, Some c) \<Rightarrow>
          bind_io (get_process E (sp_providerId d) (dc_instanceId c)) (\<lambda>found.
            case found of
              None \<Rightarrow> throw_io (Error_fault ''DIRECT_CONTAINER_EXPECTED_INSTANCE_NOT_FOUND'')
            | Some p \<Rightarrow>
                if pi_processManager (pj_identity p) \<noteq> Some ''direct_container'' \<or>
                   pi_deploymentId (pj_identity p) \<noteq> sp_deploymentId d \<or>
                   pi_controlEndpoint (pj_identity p) \<noteq> Some (dc_controlEndpoint c) \<or>
                   pi_advertisedEndpoint (pj_identity p) \<noteq> Some (dc_advertisedEndpoint c)
                then throw_io (Error_fault ''DIRECT_CONTAINER_EXPECTED_INSTANCE_NOT_FOUND'')
                else
                  bind_io (may_fail (en_statement E)) (\<lambda>_.
                  bind_io (ask (\<lambda>t. Inr (en_fresh E (pi_instanceId (pj_identity p)) t))) (\<lambda>fresh.
                    ret \<lparr>dn_target =
                           targetFrom d (pi_instanceId (pj_identity p))
                             (''direct-container-'' @ pi_instanceId (pj_identity p)) 0,
                         dn_controlEndpoint = dc_controlEndpoint c, dn_advertisedEndpoint = dc_advertisedEndpoint c,
                         dn_registrationState = ob_registrationState (pj_observation p),
                         dn_registrationFresh = fresh\<rparr>)))
      | _ \<Rightarrow> throw_io (Error_fault ''DIRECT_CONTAINER_INSTANCE_INVALID''))"

fun ensure_all :: "runtime_env \<Rightarrow> int \<Rightarrow> snapshot \<Rightarrow> projection list \<Rightarrow> instance_target list rt" where
  "ensure_all E ordinal d [] = ret []"
| "ensure_all E ordinal d (p # ps) =
     bind_io (ensureInstance E ordinal d) (\<lambda>i.
     bind_io (ensure_all E (ordinal + 1) d ps) (\<lambda>ts. ret (in_target i # ts)))"

definition listInstances :: "runtime_env \<Rightarrow> string \<Rightarrow> string \<Rightarrow> instance_target list rt" where
  "listInstances E provider target =
     bind_io (require_deployment E provider target) (\<lambda>d.
       if identity_authority d = ''direct_container''
       then bind_io (getDirectInstance E (snapshot_of d)) (\<lambda>i. ret [dn_target i])
       else bind_io (list_processes E provider target) (\<lambda>ps. ensure_all E 0 (snapshot_of d) ps))"

fun updateRuntimeProcessObservationWithRetry ::
    "projection option rt \<Rightarrow> (projection \<Rightarrow> int \<Rightarrow> bool rt) \<Rightarrow> (projection \<Rightarrow> process_observation) \<Rightarrow> url_parser
       \<Rightarrow> string \<Rightarrow> nat \<Rightarrow> unit rt" where
  "updateRuntimeProcessObservationWithRetry load save patch parse_url failureCode 0 =
     throw_io (Error_fault failureCode)"
| "updateRuntimeProcessObservationWithRetry load save patch parse_url failureCode (Suc n) =
     bind_io load (\<lambda>found.
       case found of
         None \<Rightarrow> throw_io (Error_fault ''RUNTIME_PROCESS_NOT_FOUND'')
       | Some p \<Rightarrow>
           bind_io (model_io (updateRuntimeProcessObservation parse_url p (patch p) (pj_observedRevision p)))
             (\<lambda>(updated, changed).
             if \<not> changed then ret ()
             else
               (\<lambda>w. case save updated (pj_observedRevision p) w of
                  (w', Inr _) \<Rightarrow> (w', Inr ())
                | (w', Inl e) \<Rightarrow>
                    updateRuntimeProcessObservationWithRetry load save patch parse_url failureCode n w')))"

definition OBSERVATION_ATTEMPTS :: nat where
  "OBSERVATION_ATTEMPTS = 5"

definition health_observation :: "health_result \<Rightarrow> projection \<Rightarrow> process_observation" where
  "health_observation r p =
     (pj_observation p)\<lparr>ob_processState := hr_processState r,
        ob_livenessState := (if hr_live r then Live else Dead),
        ob_readinessState := (if hr_ready r then Ready else Not_ready)\<rparr>"

definition recordHealth :: "runtime_env \<Rightarrow> instance_target \<Rightarrow> health_result \<Rightarrow> unit rt" where
  "recordHealth E t r =
     updateRuntimeProcessObservationWithRetry (get_process E (tg_providerId t) (tg_instanceId t))
       (\<lambda>p expected. upsert_process E (tg_providerId t) p (Some expected)) (health_observation r) (en_parse_url E)
       ''RUNTIME_HEALTH_STATE_CONFLICT'' OBSERVATION_ATTEMPTS"

definition recordOrphans :: "runtime_env \<Rightarrow> string \<Rightarrow> string \<Rightarrow> string list \<Rightarrow> string \<Rightarrow> unit rt" where
  "recordOrphans E provider target processNames correlation =
     world_audit E
       \<lparr>ra_action = ''runtime_process.orphans_observed'', ra_subjectId = target, ra_correlationId = correlation,
        ra_errorCode = None\<rparr>"

subsection \<open>RuntimeProviderIdentityVerifier\<close>

definition signal_checked :: "runtime_env \<Rightarrow> unit rt" where
  "signal_checked E w =
     (if en_aborted E (rw_tick w) then (w, Inl (Error_fault ''RUNTIME_PROVIDER_IDENTITY_ABORTED'')) else (w, Inr ()))"

definition describe_provider :: "runtime_env \<Rightarrow> verify_request \<Rightarrow> verification rt" where
  "describe_provider E q =
     bind_io (ask (\<lambda>t. case en_manifest E t of
                Some m \<Rightarrow> Inr m | None \<Rightarrow> Inl (Error_fault ''ADAPTER_UNAVAILABLE''))) (\<lambda>manifest.
     bind_io (signal_checked E) (\<lambda>_.
       lift_io
         (verifyIdentity (vr_expectedProviderId q)
            \<lparr>ev_bootstrapProviderId = vr_bootstrapProviderId q, ev_adapterManifestProviderId = manifest,
             ev_describeProviderObserved = True\<rparr>)))"

definition verify_provider :: "runtime_env \<Rightarrow> verify_request \<Rightarrow> verification rt" where
  "verify_provider E q =
     bind_io (signal_checked E) (\<lambda>_.
     bind_io (may_fail (en_credentials E (vr_adapterTls q))) (\<lambda>_.
       catch_io (describe_provider E q) (\<lambda>_. bind_io (signal_checked E) (\<lambda>_. ret identity_unavailable))))"

end
