(* ===== verification/RuntimePorts.thy ===== *)
theory RuntimePorts
  imports RuntimeStore
begin

text \<open>
  The remaining interfaces of the reconciler over the tables of RuntimeStore: the lifecycle of a process
  (packages/pm2-runtime-adapter/src/lifecycle/manager.ts with its store in runtime-composition.ts) and the
  preparation of a database (packages/pms-application/src/runtime-database-preparation.ts with the store of
  apps/pms-worker/src/runtime-database-preparation-job.ts). \<open>reconcile_ports_of\<close> puts them together as
  \<open>createProductionRuntimeComposition\<close> does.
\<close>

subsection \<open>lifecycle/manager.ts\<close>

definition initialState :: "string \<Rightarrow> string" where
  "initialState action =
     (if action = ''start'' then ''starting'' else if action = ''stop'' then ''stopping''
      else if action = ''restart'' then ''restarting'' else ''deleting'')"

definition successState :: "string \<Rightarrow> string" where
  "successState action =
     (if action \<in> {''start'', ''restart''} then ''online'' else if action = ''stop'' then ''stopped'' else ''deleted'')"

definition process_audit :: "string \<Rightarrow> string \<Rightarrow> instance_target \<Rightarrow> operation_context \<Rightarrow> string option \<Rightarrow> runtime_audit"
where
  "process_audit action state t c errorCode =
     \<lparr>ra_action = ''runtime_process.'' @ action @ ''_'' @ state, ra_subjectId = tg_instanceId t,
      ra_correlationId = cx_correlationId c, ra_errorCode = errorCode\<rparr>"

text \<open>The abort signal of the context is the one of the reconciliation.\<close>

definition validateContext :: "runtime_env \<Rightarrow> operation_context \<Rightarrow> unit rt" where
  "validateContext E c w =
     (if en_aborted E (rw_tick w) \<or> \<not> is_safe_integer (cx_timeoutMs c) \<or> cx_timeoutMs c < 1 \<or>
         trim (cx_operationId c) = [] \<or> trim (cx_correlationId c) = [] \<or> trim (cx_idempotencyKey c) = []
      then (w, Inl (Lifecycle_fault ''RUNTIME_LIFECYCLE_CANCELLED'' False)) else (w, Inr ()))"

definition mapError :: "runtime_env \<Rightarrow> fault \<Rightarrow> runtime_world \<Rightarrow> fault" where
  "mapError E e w =
     (case e of
        Lifecycle_fault code retryable \<Rightarrow> e
      | _ \<Rightarrow>
          if en_aborted E (rw_tick w) then Lifecycle_fault ''RUNTIME_LIFECYCLE_CANCELLED'' False
          else Lifecycle_fault ''RUNTIME_LIFECYCLE_OPERATION_FAILED''
                 (case e of Provisioner_fault _ retryable \<Rightarrow> retryable | _ \<Rightarrow> True))"

definition process_operation :: "runtime_env \<Rightarrow> string \<Rightarrow> instance_target \<Rightarrow> unit rt" where
  "process_operation E action t w =
     (let answer = en_process E action (rw_tick w)
      in (w\<lparr>rw_tick := Suc (rw_tick w),
            rw_calls := rw_calls w @
              [\<lparr>pl_action = action, pl_processName = tg_processName t, pl_done = (answer = None)\<rparr>]\<rparr>,
          case answer of None \<Rightarrow> Inr () | Some e \<Rightarrow> Inl e))"

definition complete_action :: "runtime_env \<Rightarrow> string \<Rightarrow> instance_target \<Rightarrow> unit rt" where
  "complete_action E key t =
     write_db E (\<lambda>w.
       if row_of_provider (tg_providerId t) (tg_deploymentId t) w = None \<or> key \<in> set (rw_completed w) then w
       else w\<lparr>rw_completed := rw_completed w @ [key]\<rparr>)"

definition suppressed :: "unit rt \<Rightarrow> unit rt" where
  "suppressed m = catch_io m (\<lambda>_. ret ())"

definition run_lifecycle :: "runtime_env \<Rightarrow> string \<Rightarrow> instance_target \<Rightarrow> operation_context \<Rightarrow> unit rt" where
  "run_lifecycle E action t c =
     (let key = action @ '':'' @ cx_idempotencyKey c
      in bind_io (validateContext E c) (\<lambda>_.
         bind_io (read_db E (\<lambda>w. key \<in> set (rw_completed w))) (\<lambda>completed.
         if completed then ret ()
         else
           bind_io (world_audit E (process_audit action (initialState action) t c None)) (\<lambda>_.
           bind_io (world_audit E (process_audit action ''started'' t c None)) (\<lambda>_.
           catch_io
             (bind_io (process_operation E action t) (\<lambda>_.
              bind_io (world_audit E (process_audit action (successState action) t c None)) (\<lambda>_.
              bind_io (complete_action E key t) (\<lambda>_.
                world_audit E (process_audit action ''succeeded'' t c None)))))
             (\<lambda>e w.
                let mapped = mapError E e w;
                    code = (case mapped of Lifecycle_fault code _ \<Rightarrow> Some code | _ \<Rightarrow> None)
                in bind_io (suppressed (world_audit E (process_audit action ''failed'' t c code))) (\<lambda>_.
                   bind_io (suppressed (world_audit E (process_audit action ''failed'' t c code))) (\<lambda>_.
                     throw_io mapped)) w))))))"

subsection \<open>runtime-database-preparation-job.ts: the checkpoints\<close>

definition latest_checkpoint :: "prep_checkpoint list \<Rightarrow> prep_checkpoint option" where
  "latest_checkpoint cs = find (\<lambda>c. list_all (\<lambda>d. pc_revision d \<le> pc_revision c) cs) cs"

definition checkpoints_of :: "string \<Rightarrow> runtime_world \<Rightarrow> prep_checkpoint list" where
  "checkpoints_of target w = (case js_get (rw_checkpoints w) target of None \<Rightarrow> [] | Some cs \<Rightarrow> cs)"

definition getCheckpoint :: "runtime_env \<Rightarrow> string \<Rightarrow> prep_checkpoint option rt" where
  "getCheckpoint E target = read_db E (\<lambda>w. latest_checkpoint (checkpoints_of target w))"

definition insert_checkpoint :: "string \<Rightarrow> prep_checkpoint \<Rightarrow> int \<Rightarrow> runtime_world \<Rightarrow> runtime_world \<times> bool" where
  "insert_checkpoint target c expected w =
     (if \<not> list_ex (\<lambda>r. sp_deploymentId r = target) (rw_deployments w) \<or>
         list_ex (\<lambda>d. pc_revision d > expected) (checkpoints_of target w) \<or>
         list_ex (\<lambda>d. pc_revision d = pc_revision c) (checkpoints_of target w)
      then (w, False)
      else (w\<lparr>rw_checkpoints := js_set target (checkpoints_of target w @ [c]) (rw_checkpoints w)\<rparr>, True))"

definition saveCheckpoint :: "runtime_env \<Rightarrow> string \<Rightarrow> prep_checkpoint \<Rightarrow> int \<Rightarrow> unit rt" where
  "saveCheckpoint E target c expected =
     (if pc_revision c \<noteq> expected + 1
      then throw_io (Error_fault ''RUNTIME_DATABASE_CHECKPOINT_REVISION_CONFLICT'')
      else
        bind_io (may_fail (en_statement E)) (\<lambda>_.
        bind_io (\<lambda>w. case insert_checkpoint target c expected w of (w', b) \<Rightarrow> (w', Inr b)) (\<lambda>inserted.
          if inserted then ret ()
          else
            bind_io (getCheckpoint E target) (\<lambda>replay.
              if map_option pc_revision replay \<noteq> Some (pc_revision c)
              then throw_io (Error_fault ''RUNTIME_DATABASE_CHECKPOINT_REVISION_CONFLICT'') else ret ()))))"

subsection \<open>runtime-database-preparation.ts\<close>

text \<open>The job mutates its aggregate; what it did stays visible to the handler of a failure.\<close>

type_synonym 'a prep = "(runtime_world \<times> deployment, 'a) io"

definition world_of :: "'a rt \<Rightarrow> 'a prep" where
  "world_of m s = (case m (fst s) of (w, r) \<Rightarrow> ((w, snd s), r))"

definition run_prep :: "'a prep \<Rightarrow> deployment \<Rightarrow> 'a rt" where
  "run_prep m d w = (case m (w, d) of (s, r) \<Rightarrow> (fst s, r))"

definition prep_transition :: "runtime_env \<Rightarrow> deployment_status \<Rightarrow> unit prep" where
  "prep_transition E status s =
     (let d = snd s; t = rw_tick (fst s); w = (fst s)\<lparr>rw_tick := Suc t\<rparr>
      in case transition d status (d_status d, d_observedRevision d) (Some (en_now E t)) of
           Inl e \<Rightarrow> ((w, d), Inl (Model_fault e))
         | Inr (d', _) \<Rightarrow>
             (case save_deployment E (snapshot_of d') (d_desiredRevision d, d_observedRevision d) w of
                (w', Inl e) \<Rightarrow> ((w', d'), Inl e)
              | (w', Inr saved) \<Rightarrow>
                  if saved then ((w', d'), Inr ())
                  else ((w', d'), Inl (Preparation_fault ''RUNTIME_DATABASE_STATE_CONFLICT'' True))))"

definition status_now :: "deployment_status prep" where
  "status_now s = (s, Inr (d_status (snd s)))"

definition prepareState :: "runtime_env \<Rightarrow> unit prep" where
  "prepareState E =
     bind_io status_now (\<lambda>a.
     bind_io (if a = FAILED then prep_transition E REQUESTED else ret ()) (\<lambda>_.
     bind_io status_now (\<lambda>b.
       if b = REQUESTED then prep_transition E DATABASE_PROVISIONING
       else if b \<notin> {DATABASE_PROVISIONING, MIGRATING}
       then throw_io (Preparation_fault ''RUNTIME_DATABASE_STATE_CONFLICT'' False) else ret ())))"

record preparation_input =
  px_providerId :: string
  px_deploymentId :: string
  px_operationId :: string

definition prep_audit :: "runtime_env \<Rightarrow> preparation_input \<Rightarrow> string \<Rightarrow> string option \<Rightarrow> unit rt" where
  "prep_audit E i outcome errorCode =
     world_audit E
       \<lparr>ra_action = ''runtime_database_preparation.'' @ outcome, ra_subjectId = px_deploymentId i,
        ra_correlationId = px_operationId i, ra_errorCode = errorCode\<rparr>"

definition requireProfile :: "runtime_env \<Rightarrow> snapshot \<Rightarrow> database_profile rt" where
  "requireProfile E s =
     bind_io (may_fail (en_statement E)) (\<lambda>_.
     bind_io (ask (\<lambda>t. Inr (en_profile E (sp_providerId s) (sp_environment s) t))) (\<lambda>found.
       case found of
         None \<Rightarrow> throw_io (Preparation_fault ''RUNTIME_DATABASE_PROFILE_NOT_FOUND'' False)
       | Some p \<Rightarrow>
           if dp_profileId p \<noteq> (case sp_databaseProfileId s of None \<Rightarrow> ''undefined'' | Some x \<Rightarrow> x)
           then throw_io (Preparation_fault ''RUNTIME_DATABASE_PROFILE_MISMATCH'' False) else ret p))"

definition runStep :: "runtime_env \<Rightarrow> string \<Rightarrow> prep_checkpoint \<Rightarrow> string \<Rightarrow> unit rt \<Rightarrow> prep_checkpoint rt" where
  "runStep E target c step action =
     (if step \<in> set (pc_completedSteps c) then ret c
      else
        bind_io action (\<lambda>_.
          let updated = \<lparr>pc_completedSteps = pc_completedSteps c @ [step], pc_revision = pc_revision c + 1,
                         pc_lastErrorCode = None\<rparr>
          in bind_io (saveCheckpoint E target updated (pc_revision c)) (\<lambda>_. ret updated)))"

text \<open>What the provisioner and the migrations did is kept in \<open>rw_provisioned\<close>.\<close>

definition provision :: "runtime_env \<Rightarrow> string \<Rightarrow> string \<Rightarrow> unit rt" where
  "provision E target step =
     bind_io (may_fail (en_provision E step)) (\<lambda>_.
       change (\<lambda>w. w\<lparr>rw_provisioned := rw_provisioned w @ [(target, step)]\<rparr>))"

definition ensure_secret :: "runtime_env \<Rightarrow> string \<Rightarrow> database_profile \<Rightarrow> unit rt" where
  "ensure_secret E target p =
     bind_io (ask (en_secret E)) (\<lambda>reference.
       if reference \<noteq> dp_runtimeSecretRef p
       then throw_io (Preparation_fault ''RUNTIME_DATABASE_PROFILE_MISMATCH'' False)
       else change (\<lambda>w. w\<lparr>rw_provisioned := rw_provisioned w @ [(target, ''runtime_secret'')]\<rparr>))"

fun runSteps :: "runtime_env \<Rightarrow> string \<Rightarrow> prep_checkpoint \<Rightarrow> string list \<Rightarrow> prep_checkpoint rt" where
  "runSteps E target c [] = ret c"
| "runSteps E target c (step # rest) =
     bind_io (runStep E target c step (provision E target step)) (\<lambda>c'. runSteps E target c' rest)"

definition is_shared :: "database_profile \<Rightarrow> bool" where
  "is_shared p \<longleftrightarrow> prefix ''gowm-shared:'' (dp_clusterRef p)"

definition initialCheckpoint :: prep_checkpoint where
  "initialCheckpoint = \<lparr>pc_completedSteps = [], pc_revision = 0, pc_lastErrorCode = None\<rparr>"

definition prepare_steps :: "runtime_env \<Rightarrow> preparation_input \<Rightarrow> unit prep" where
  "prepare_steps E i =
     (let target = px_deploymentId i
      in bind_io (prepareState E) (\<lambda>_.
         bind_io (world_of (prep_audit E i ''started'' None)) (\<lambda>_.
         bind_io (\<lambda>s. world_of (requireProfile E (snapshot_of (snd s))) s) (\<lambda>profile.
         if is_shared profile \<and> dp_databaseMode profile \<noteq> Preexisting
         then throw_io (Preparation_fault ''RUNTIME_DATABASE_PROFILE_MISMATCH'' False)
         else
           bind_io (world_of (getCheckpoint E target)) (\<lambda>stored.
           let c = (case stored of None \<Rightarrow> initialCheckpoint | Some c \<Rightarrow> c)
           in bind_io (world_of (runStep E target c ''runtime_secret'' (ensure_secret E target profile))) (\<lambda>c.
              bind_io
                (if is_shared profile then ret c
                 else world_of (runSteps E target c [''role'', ''database'', ''grant'', ''verify''])) (\<lambda>c.
              bind_io (prep_transition E MIGRATING) (\<lambda>_.
              bind_io (world_of (runStep E target c ''migration'' (provision E target ''migration''))) (\<lambda>_.
                ret ())))))))))"

definition finish_preparation :: "runtime_env \<Rightarrow> preparation_input \<Rightarrow> snapshot prep" where
  "finish_preparation E i =
     bind_io (prep_transition E CONFIG_PREPARING) (\<lambda>_.
     bind_io (world_of (prep_audit E i ''completed'' None)) (\<lambda>_ s.
       (s, Inr (snapshot_of (snd s)))))"

definition prepare_database :: "runtime_env \<Rightarrow> preparation_input \<Rightarrow> snapshot prep" where
  "prepare_database E i = bind_io (prepare_steps E i) (\<lambda>_. finish_preparation E i)"

definition upper_char :: "char \<Rightarrow> char" where
  "upper_char c = (if is_lower c then char_of ((of_char c :: nat) - 32) else c)"

definition sanitizeCode :: "string \<Rightarrow> string" where
  "sanitizeCode code =
     (let s = map (\<lambda>c. let u = upper_char c in if is_upper u \<or> is_digit u \<or> u = CHR ''_'' then u else CHR ''_'') code
      in if s = [] then ''UNKNOWN_FAILURE'' else take 96 s)"

fun deployment_error_code :: "deployment_error \<Rightarrow> string" where
  "deployment_error_code (InvalidIdentifier k) = ''INVALID_RUNTIME_DEPLOYMENT_IDENTIFIER''"
| "deployment_error_code (InvalidSpec f) = ''INVALID_RUNTIME_DEPLOYMENT_SPEC''"
| "deployment_error_code (InvalidTransition a b) = ''INVALID_RUNTIME_DEPLOYMENT_TRANSITION''"
| "deployment_error_code (InvalidProjection f) = ''INVALID_RUNTIME_PROCESS_PROJECTION''"
| "deployment_error_code (StateConflict a b) = ''RUNTIME_DEPLOYMENT_STATE_CONFLICT''"
| "deployment_error_code (RevisionConflict k a b) = ''RUNTIME_DEPLOYMENT_REVISION_CONFLICT''"
| "deployment_error_code (ProcessRevisionConflict a b) = ''RUNTIME_PROCESS_REVISION_CONFLICT''"

fun repository_code_name :: "repository_code \<Rightarrow> string" where
  "repository_code_name ENTITY_ALREADY_EXISTS = ''ENTITY_ALREADY_EXISTS''"
| "repository_code_name ENTITY_NOT_FOUND = ''ENTITY_NOT_FOUND''"
| "repository_code_name OPTIMISTIC_CONCURRENCY_CONFLICT = ''OPTIMISTIC_CONCURRENCY_CONFLICT''"
| "repository_code_name LEASE_NOT_OWNED = ''LEASE_NOT_OWNED''"

text \<open>The member \<open>code\<close> of an error that has one, and its member \<open>retryable\<close>.\<close>

fun error_code :: "fault \<Rightarrow> (string \<times> bool) option" where
  "error_code (Model_fault e) = Some (deployment_error_code e, False)"
| "error_code (Pms_fault (Repository_error c s)) = Some (repository_code_name c, False)"
| "error_code (Pms_fault (Database_error sqlstate)) = Some (sqlstate, False)"
| "error_code (Infrastructure_fault c) = Some (c, False)"
| "error_code (Lifecycle_fault c r) = Some (c, r)"
| "error_code _ = None"

definition mapPreparationError :: "fault \<Rightarrow> string \<times> bool" where
  "mapPreparationError e =
     (case e of
        Preparation_fault code retryable \<Rightarrow> (code, retryable)
      | Provisioner_fault code retryable \<Rightarrow> (''RUNTIME_DATABASE_'' @ code, retryable)
      | _ \<Rightarrow>
          (case error_code e of
             Some (code, retryable) \<Rightarrow> (''RUNTIME_DATABASE_'' @ sanitizeCode code, retryable)
           | None \<Rightarrow> (''RUNTIME_DATABASE_SECRET_FAILED'', True)))"

definition prep_suppressed :: "unit prep \<Rightarrow> unit prep" where
  "prep_suppressed m = catch_io m (\<lambda>_. ret ())"

definition recordFailure :: "runtime_env \<Rightarrow> preparation_input \<Rightarrow> string \<Rightarrow> unit prep" where
  "recordFailure E i code =
     (let target = px_deploymentId i
      in bind_io status_now (\<lambda>status.
         bind_io
           (if status \<in> {REQUESTED, DATABASE_PROVISIONING, MIGRATING}
            then prep_suppressed (prep_transition E FAILED) else ret ()) (\<lambda>_.
         bind_io (catch_io (world_of (getCheckpoint E target)) (\<lambda>_. ret None)) (\<lambda>stored.
         let c = (case stored of None \<Rightarrow> initialCheckpoint | Some c \<Rightarrow> c)
         in bind_io
              (prep_suppressed
                (world_of (saveCheckpoint E target
                  (c\<lparr>pc_revision := pc_revision c + 1, pc_lastErrorCode := Some code\<rparr>) (pc_revision c)))) (\<lambda>_.
            prep_suppressed (world_of (prep_audit E i ''failed'' (Some code))))))))"

text \<open>The part of the method inside \<open>try\<close>, with its handler.\<close>

definition attempt_preparation :: "runtime_env \<Rightarrow> preparation_input \<Rightarrow> snapshot prep" where
  "attempt_preparation E i =
     catch_io (prepare_database E i)
       (\<lambda>e. bind_io (recordFailure E i (fst (mapPreparationError e))) (\<lambda>_.
             throw_io (Preparation_fault (fst (mapPreparationError e)) (snd (mapPreparationError e)))))"

definition execute_preparation :: "runtime_env \<Rightarrow> preparation_input \<Rightarrow> snapshot rt" where
  "execute_preparation E i =
     (if \<not> logical_id (px_providerId i) \<or> \<not> logical_id (px_deploymentId i) \<or> \<not> logical_id (px_operationId i)
      then throw_io (Error_fault ''Runtime database preparation input is invalid'')
      else
        bind_io (get_deployment E (px_providerId i) (px_deploymentId i)) (\<lambda>found.
          case found of
            None \<Rightarrow> throw_io (Preparation_fault ''RUNTIME_DATABASE_DEPLOYMENT_NOT_FOUND'' False)
          | Some d \<Rightarrow>
              if d_status d = CONFIG_PREPARING then ret (snapshot_of d)
              else run_prep (attempt_preparation E i) d))"

subsection \<open>The composition\<close>

definition reconcile_ports_of :: "runtime_env \<Rightarrow> runtime_world reconcile_ports" where
  "reconcile_ports_of E =
     \<lparr>rp_aborted = (\<lambda>w. en_aborted E (rw_tick w)),
      rp_getDeployment = get_deployment E, rp_transition = store_transition E, rp_fail = store_fail E,
      rp_ensureInstance = ensureInstance E 0, rp_getDirectInstance = getDirectInstance E,
      rp_listInstances = listInstances E, rp_recordHealth = recordHealth E, rp_recordOrphans = recordOrphans E,
      rp_database = (\<lambda>provider target operation.
        execute_preparation E \<lparr>px_providerId = provider, px_deploymentId = target, px_operationId = operation\<rparr>),
      rp_start = (\<lambda>i c. run_lifecycle E ''start'' (in_target i) c), rp_stop = run_lifecycle E ''stop'',
      rp_probe = (\<lambda>t port. ask (en_probe E)), rp_inventory = ask (en_inventory E),
      rp_verify = verify_provider E, rp_externalHealth = Some (\<lambda>endpoint. ask (en_external E))\<rparr>"

end
