(* ===== verification/ReconcileContract.thy ===== *)
theory ReconcileContract
  imports RuntimePorts
begin

text \<open>
  The loop of the reconciler ends. Proved against a contract of its interfaces (locale
  \<open>reconcile_contract\<close>): a move arrives at its target, and a prepared database is followed by the
  configuration; the tables keep the contract. The theory also holds the inversion of calls
  (\<open>io_simps\<close>) and the beginning of the rules on what a call leaves (\<open>frame\<close>).
\<close>

named_theorems io_simps "inversion of calls"

lemma bind_io_Inr [io_simps]:
  "bind_io m f w = (w', Inr y) \<longleftrightarrow> (\<exists>w1 x. m w = (w1, Inr x) \<and> f x w1 = (w', Inr y))"
  by (auto simp: bind_io_def split: prod.splits sum.splits)

lemma ret_Inr [io_simps]: "ret x w = (w', Inr y) \<longleftrightarrow> w' = w \<and> y = x"
  by (auto simp: ret_def)

lemma ret_Inl [io_simps]: "ret x w \<noteq> (w', Inl e)"
  by (simp add: ret_def)

lemma throw_io_Inr [io_simps]: "throw_io e w \<noteq> (w', Inr y)"
  by (simp add: throw_io_def)

lemma lift_io_Inr [io_simps]: "lift_io r w = (w', Inr y) \<longleftrightarrow> w' = w \<and> r = Inr y"
  by (auto simp: lift_io_def)

lemma checkpoint_Inr [io_simps]: "checkpoint P w = (w', Inr u) \<longleftrightarrow> w' = w \<and> \<not> rp_aborted P w"
  by (auto simp: checkpoint_def)

lemma cancellable_Inr [io_simps]:
  "cancellable P m w = (w', Inr y) \<longleftrightarrow> \<not> rp_aborted P w \<and> m w = (w', Inr y) \<and> \<not> rp_aborted P w'"
  by (auto simp: cancellable_def io_simps)

lemma catch_io_Inr [io_simps]:
  "catch_io m h w = (w', Inr y) \<longleftrightarrow>
     m w = (w', Inr y) \<or> (\<exists>w1 e. m w = (w1, Inl e) \<and> h e w1 = (w', Inr y))"
  by (auto simp: catch_io_def split: prod.splits sum.splits)

lemma bind_io_Inl [io_simps]:
  "bind_io m f w = (w', Inl e) \<longleftrightarrow> m w = (w', Inl e) \<or> (\<exists>w1 x. m w = (w1, Inr x) \<and> f x w1 = (w', Inl e))"
  by (auto simp: bind_io_def split: prod.splits sum.splits)

lemma catch_io_Inl [io_simps]:
  "catch_io m h w = (w', Inl e) \<longleftrightarrow> (\<exists>w1 e1. m w = (w1, Inl e1) \<and> h e1 w1 = (w', Inl e))"
  by (auto simp: catch_io_def split: prod.splits sum.splits)

lemma bind_io_step: "m w = (w', Inr x) \<Longrightarrow> f x w' = r \<Longrightarrow> bind_io m f w = r"
  by (simp add: bind_io_def)

text \<open>Equal results from the second call on make equal sequences.\<close>

lemma bind_io_cong:
  "(\<And>w1 x. m w = (w1, Inr x) \<Longrightarrow> f x w1 = g x w1) \<Longrightarrow> bind_io m f w = bind_io m g w"
  by (auto simp: bind_io_def split: prod.split sum.split)

subsection \<open>The bound of the loop\<close>

fun rank :: "deployment_status \<Rightarrow> nat" where
  "rank STOPPED = 6"
| "rank FAILED = 5"
| "rank REQUESTED = 4"
| "rank DATABASE_PROVISIONING = 4"
| "rank MIGRATING = 4"
| "rank CONFIG_PREPARING = 3"
| "rank STARTING = 2"
| "rank _ = 1"

lemma rank_bounds: "1 \<le> rank s \<and> rank s \<le> 6"
  by (cases s) simp_all

lemma rank_enough:
  assumes "\<And>w d p w' d'. step d p w = (w', Inr (Continue d')) \<Longrightarrow> rank (d_status d') < rank (d_status d)"
    and "rank (d_status d) \<le> m" "rank (d_status d) \<le> n"
  shows "reconcile_loop step orphans m d p w = reconcile_loop step orphans n d p w"
  using assms(2,3)
proof (induction m arbitrary: n d p w)
  case 0
  then show ?case using rank_bounds [of "d_status d"] by simp
next
  case (Suc m)
  then obtain k where n: "n = Suc k" using rank_bounds [of "d_status d"] by (cases n) auto
  show ?case unfolding n reconcile_loop.simps
  proof (rule bind_io_cong)
    fix w1 x assume s: "step d p w = (w1, Inr x)"
    show "(case x of Continue d' \<Rightarrow> reconcile_loop step orphans m d' True
        | Return d' p \<Rightarrow> ret \<lparr>rr_deployment = snapshot_of d', rr_progressed = p, rr_orphanProcessNames = orphans\<rparr>) w1 =
      (case x of Continue d' \<Rightarrow> reconcile_loop step orphans k d' True
        | Return d' p \<Rightarrow> ret \<lparr>rr_deployment = snapshot_of d', rr_progressed = p, rr_orphanProcessNames = orphans\<rparr>) w1"
    proof (cases x)
      case (Continue d')
      with s have "rank (d_status d') < rank (d_status d)" using assms(1) by blast
      then show ?thesis using Continue Suc.IH [of d' k] Suc.prems n by simp
    qed simp
  qed
qed

text \<open>The method without any bound: its loop goes round until a step fails or returns. A loop that never does is
  \<open>None\<close>.\<close>

partial_function (option) unbounded_loop ::
    "(deployment \<Rightarrow> bool \<Rightarrow> ('w, outcome) io) \<Rightarrow> string list \<Rightarrow> deployment \<Rightarrow> bool \<Rightarrow> 'w
      \<Rightarrow> ('w \<times> (fault + reconcile_result)) option"
where
  "unbounded_loop step orphans d progressed w =
     (case step d progressed w of (w', r) \<Rightarrow>
        (case r of
           Inl e \<Rightarrow> Some (w', Inl e)
         | Inr next_step \<Rightarrow>
             (case next_step of
                Continue d' \<Rightarrow> unbounded_loop step orphans d' True w'
              | Return d' p \<Rightarrow>
                  Some (w', Inr \<lparr>rr_deployment = snapshot_of d', rr_progressed = p, rr_orphanProcessNames = orphans\<rparr>))))"

definition then_loop ::
    "('w, 'a) io \<Rightarrow> ('a \<Rightarrow> 'w \<Rightarrow> ('w \<times> (fault + 'b)) option) \<Rightarrow> 'w \<Rightarrow> ('w \<times> (fault + 'b)) option"
where
  "then_loop m f w = (case m w of (w', Inl e) \<Rightarrow> Some (w', Inl e) | (w', Inr x) \<Rightarrow> f x w')"

definition loop_caught ::
    "(fault \<Rightarrow> ('w, 'b) io) \<Rightarrow> ('w \<times> (fault + 'b)) option \<Rightarrow> ('w \<times> (fault + 'b)) option"
where
  "loop_caught h = map_option (\<lambda>(w', r). case r of Inl e \<Rightarrow> h e w' | Inr x \<Rightarrow> (w', Inr x))"

definition reconcile_unbounded ::
    "'w reconcile_ports \<Rightarrow> reconcile_input \<Rightarrow> 'w \<Rightarrow> ('w \<times> (fault + reconcile_result)) option" where
  "reconcile_unbounded P i =
     then_loop (checkpoint P) (\<lambda>_.
     then_loop (requireDeployment P i) (\<lambda>d.
     if identity_authority d = ''direct_container''
     then (\<lambda>w. loop_caught (mapAndRecordFailure P i) (unbounded_loop (direct_step P i) [] d False w))
     else
       then_loop
         (catch_io (detectOrphans P i)
            (\<lambda>_. throw_io (Reconcile_fault ''RUNTIME_RECONCILE_OPERATION_FAILED'' True))) (\<lambda>orphans w.
       loop_caught (mapAndRecordFailure P i) (unbounded_loop (platform_step P i) orphans d False w))))"

lemma then_loop_Some: "(\<And>x w'. f x w' = Some (g x w')) \<Longrightarrow> then_loop m f w = Some (bind_io m g w)"
  by (simp add: then_loop_def bind_io_def split: prod.split sum.split)

lemma loop_caught_Some: "loop_caught h (Some (m w)) = Some (catch_io m h w)"
  by (simp add: loop_caught_def catch_io_def split: prod.split sum.split)

lemma rank_ends:
  assumes "\<And>w d p w' d'. step d p w = (w', Inr (Continue d')) \<Longrightarrow> rank (d_status d') < rank (d_status d)"
    and "rank (d_status d) \<le> n"
  shows "unbounded_loop step orphans d p w = Some (reconcile_loop step orphans n d p w)"
  using assms(2)
proof (induction n arbitrary: d p w)
  case 0
  then show ?case using rank_bounds [of "d_status d"] by simp
next
  case (Suc n)
  obtain w' r where r: "step d p w = (w', r)" by fastforce
  show ?case
  proof (cases r)
    case (Inl e)
    then show ?thesis using r by (simp add: unbounded_loop.simps [of step] bind_io_def)
  next
    case (Inr x)
    have "unbounded_loop step orphans d' True w' = Some (reconcile_loop step orphans n d' True w')" if "x = Continue d'" for d'
      using assms(1) [of d p w w' d'] Suc r Inr that by simp
    with r Inr show ?thesis
      by (cases x) (simp_all add: unbounded_loop.simps [of step orphans d p w] bind_io_def ret_def)
  qed
qed

text \<open>What the steps rely on: a move arrives at its target, and a prepared database is followed by the
  configuration.\<close>

locale reconcile_contract =
  fixes P :: "'w reconcile_ports"
  assumes moved: "rp_transition P provider target s s' r w = (w', Inr d) \<Longrightarrow> d_status d = s"
    and prepared: "rp_database P provider target oper w = (w1, Inr x) \<Longrightarrow>
      rp_getDeployment P provider target w1 = (w2, Inr (Some d)) \<Longrightarrow> d_status d = CONFIG_PREPARING"
begin

lemma move_status: "move P i d s w = (w', Inr d') \<Longrightarrow> d_status d' = s"
  using moved by (auto simp: move_def io_simps)

lemma advance_status: "advance P i d s w = (w', Inr (Continue d')) \<Longrightarrow> d_status d' = s"
  using move_status by (auto simp: advance_def io_simps)

lemma finish_returns: "finish P i d s w \<noteq> (w', Inr (Continue d'))"
  by (simp add: finish_def io_simps)

lemma degrade_returns: "degrade P i d p w \<noteq> (w', Inr (Continue d'))"
  by (simp add: degrade_def finish_returns io_simps)

lemma confirm_returns: "confirm P i d p x w \<noteq> (w', Inr (Continue d'))"
  by (simp add: confirm_def finish_returns degrade_returns io_simps split: identity_outcome.split)

lemma still_returns: "still_discovering P i d p x w \<noteq> (w', Inr (Continue d'))"
  by (simp add: still_discovering_def finish_returns io_simps split: identity_outcome.split)

lemmas returns = finish_returns degrade_returns confirm_returns still_returns

lemma step_database_status: "step_database P i w = (w', Inr (Continue d')) \<Longrightarrow> d_status d' = CONFIG_PREPARING"
  using prepared by (auto simp: step_database_def requireDeployment_def io_simps split: option.splits)

lemma stop_step_returns: "stop_step P i d p w \<noteq> (w', Inr (Continue d'))"
  by (simp add: stop_step_def io_simps)

lemma platform_progress:
  assumes "platform_step P i d p w = (w', Inr (Continue d'))"
  shows "rank (d_status d') < rank (d_status d)"
  using assms
  by (cases "d_status d")
    (auto simp: platform_step_def step_config_def step_starting_def step_health_def step_active_def
      step_discovering_def returns stop_step_returns io_simps
      dest!: advance_status step_database_status split: if_splits identity_outcome.splits,
      (metis identity_outcome.exhaust)+)

lemma direct_progress:
  assumes "direct_step P i d p w = (w', Inr (Continue d'))"
  shows "rank (d_status d') < rank (d_status d)"
  using assms
  by (cases "d_status d")
    (auto simp: direct_step_def direct_starting_def direct_health_def direct_active_def
      direct_discovering_def returns stop_step_returns io_simps
      dest!: advance_status split: if_splits identity_outcome.splits,
      (metis identity_outcome.exhaust)+)

lemma limit_irrelevant:
  assumes "6 \<le> n" shows "reconcile P i w = reconcile_within n P i w"
proof -
  have a: "reconcile_loop (platform_step P i) orphans STEP_LIMIT d False =
      reconcile_loop (platform_step P i) orphans n d False" for orphans d
    using rank_enough [of "platform_step P i"] platform_progress assms rank_bounds [of "d_status d"]
    by (intro ext) (simp add: STEP_LIMIT_def)
  have b: "reconcile_loop (direct_step P i) [] STEP_LIMIT d False =
      reconcile_loop (direct_step P i) [] n d False" for d
    using rank_enough [of "direct_step P i"] direct_progress assms rank_bounds [of "d_status d"]
    by (intro ext) (simp add: STEP_LIMIT_def)
  show ?thesis unfolding reconcile_def reconcile_within_def reconcileDirectContainer_def a b ..
qed

lemma loop_ends: "reconcile_unbounded P i w = Some (reconcile P i w)"
proof -
  have a: "unbounded_loop (platform_step P i) orphans d False w =
      Some (reconcile_loop (platform_step P i) orphans STEP_LIMIT d False w)" for orphans d w
    using rank_ends [of "platform_step P i"] platform_progress rank_bounds [of "d_status d"]
    by (simp add: STEP_LIMIT_def)
  have b: "unbounded_loop (direct_step P i) [] d False w =
      Some (reconcile_loop (direct_step P i) [] STEP_LIMIT d False w)" for d w
    using rank_ends [of "direct_step P i"] direct_progress rank_bounds [of "d_status d"]
    by (simp add: STEP_LIMIT_def)
  show ?thesis
    unfolding reconcile_unbounded_def reconcile_def reconcile_within_def reconcileDirectContainer_def a b
    by (intro then_loop_Some) (simp add: loop_caught_Some then_loop_Some)
qed

end

subsection \<open>The contract holds of the composition\<close>

lemma ask_Inr [io_simps]: "ask f w = (w', Inr y) \<longleftrightarrow> w' = w\<lparr>rw_tick := Suc (rw_tick w)\<rparr> \<and> f (rw_tick w) = Inr y"
  by (auto simp: ask_def)

lemma may_fail_Inr [io_simps]:
  "may_fail f w = (w', Inr u) \<longleftrightarrow> w' = w\<lparr>rw_tick := Suc (rw_tick w)\<rparr> \<and> f (rw_tick w) = None"
  by (auto simp: may_fail_def io_simps split: option.splits)

lemma read_db_Inr [io_simps]:
  "read_db E f w = (w', Inr y) \<longleftrightarrow>
     w' = w\<lparr>rw_tick := Suc (rw_tick w)\<rparr> \<and> en_statement E (rw_tick w) = None \<and> y = f w'"
  by (auto simp: read_db_def look_def io_simps)

lemma write_db_Inr [io_simps]:
  "write_db E f w = (w', Inr u) \<longleftrightarrow>
     en_statement E (rw_tick w) = None \<and> w' = f (w\<lparr>rw_tick := Suc (rw_tick w)\<rparr>)"
  by (auto simp: write_db_def change_def io_simps)

lemma model_io_Inr [io_simps]: "model_io r w = (w', Inr y) \<longleftrightarrow> w' = w \<and> r = Inr y"
  by (auto simp: model_io_def io_simps split: sum.splits)

lemma row_tick [simp]: "row_of_provider p t (w\<lparr>rw_tick := n\<rparr>) = row_of_provider p t w"
  by (simp add: row_of_provider_def)

lemma provider_row_found: "row_of_provider p t w = Some r \<Longrightarrow> sp_deploymentId r = t \<and> sp_providerId r = p"
  by (auto simp: row_of_provider_def find_Some_iff)

lemma transition_target:
  "transition d s pre now = Inr (d', b) \<Longrightarrow> d_status d' = s \<and> d_identity d' = d_identity d"
  by (cases b) (auto simp: transition_changed transition_unchanged)

lemma deploymentFromRow_fields:
  assumes "deploymentFromRow parse_url r = Inr d"
  shows "d_status d = sn_status r \<and> d_desiredState d = sp_desiredState r \<and>
    sp_deploymentId (d_identity d) = sp_deploymentId r \<and> sp_providerId (d_identity d) = sp_providerId r \<and>
    d_desiredRevision d = sn_desiredRevision r \<and> d_observedRevision d = sn_observedRevision r"
  using assms
  by (auto simp: deploymentFromRow_def Let_def rehydrateDeployment_def constructDeployment_def Deployment.identity_of_def
      spec_of_def deployment_spec.truncate_def result_simps split: if_splits option.splits sum.splits)

lemma get_deployment_Some:
  "get_deployment E p t w = (w', Inr (Some d)) \<longleftrightarrow>
     w' = w\<lparr>rw_tick := Suc (rw_tick w)\<rparr> \<and> en_statement E (rw_tick w) = None \<and>
     (\<exists>r. row_of_provider p t w = Some r \<and> deploymentFromRow (en_parse_url E) r = Inr d)"
  by (auto simp: get_deployment_def io_simps split: option.splits)

subsection \<open>What a call leaves\<close>

named_theorems frame "calls that leave a part of the world"

definition keeps :: "('w \<Rightarrow> 'b) \<Rightarrow> ('w, 'a) io \<Rightarrow> bool" where
  "keeps f m \<longleftrightarrow> (\<forall>w. f (fst (m w)) = f w)"

lemma keepsD: "keeps f m \<Longrightarrow> m w = (w', r) \<Longrightarrow> f w' = f w"
  unfolding keeps_def by (metis fst_conv)

lemma keeps_bind [frame]: "keeps f m \<Longrightarrow> (\<And>x. keeps f (g x)) \<Longrightarrow> keeps f (bind_io m g)"
  by (auto simp: keeps_def bind_io_def split: prod.splits sum.splits) (metis fst_conv)+

lemma keeps_catch [frame]: "keeps f m \<Longrightarrow> (\<And>e. keeps f (h e)) \<Longrightarrow> keeps f (catch_io m h)"
  by (auto simp: keeps_def catch_io_def split: prod.splits sum.splits) (metis fst_conv)+

lemma keeps_ret [frame]: "keeps f (ret x)"
  by (simp add: keeps_def ret_def)

lemma keeps_throw [frame]: "keeps f (throw_io e)"
  by (simp add: keeps_def throw_io_def)

lemma keeps_lift [frame]: "keeps f (lift_io r)"
  by (simp add: keeps_def lift_io_def)

lemma keeps_if [frame]: "(b \<Longrightarrow> keeps f m) \<Longrightarrow> (\<not> b \<Longrightarrow> keeps f n) \<Longrightarrow> keeps f (if b then m else n)"
  by simp

lemma keeps_option [frame]:
  "keeps f m \<Longrightarrow> (\<And>x. keeps f (g x)) \<Longrightarrow> keeps f (case v of None \<Rightarrow> m | Some x \<Rightarrow> g x)"
  by (cases v) auto

lemma keeps_pair [frame]: "(\<And>x y. keeps f (g x y)) \<Longrightarrow> keeps f (case p of (x, y) \<Rightarrow> g x y)"
  by (cases p) auto

lemma keeps_identity [frame]:
  "keeps f a \<Longrightarrow> keeps f b \<Longrightarrow> (\<And>d. keeps f (g d)) \<Longrightarrow>
     keeps f (case x of Identity_verified \<Rightarrow> a | Identity_unavailable \<Rightarrow> b | Identity_mismatched d \<Rightarrow> g d)"
  by (cases x) auto

lemma keeps_each [frame]: "(\<And>x. keeps f (g x)) \<Longrightarrow> keeps f (each_io g xs)"
  by (induction xs) (auto intro: frame)

lemma keeps_world_of [frame]: "keeps (\<lambda>s. f (snd s)) (world_of m)"
  by (simp add: keeps_def world_of_def split: prod.splits)

lemma prep_transition_identity [frame]: "keeps (\<lambda>s. d_identity (snd s)) (prep_transition E status)"
  by (auto simp: keeps_def prep_transition_def Let_def dest!: transition_target split: prod.splits sum.splits)

lemma status_now_keeps [frame]: "keeps f status_now"
  by (simp add: keeps_def status_now_def)

lemma prepareState_identity [frame]: "keeps (\<lambda>s. d_identity (snd s)) (prepareState E)"
  unfolding prepareState_def by (intro frame)

subsection \<open>Saves\<close>

lemma find_map_same: "(\<And>x. P (g x) = P x) \<Longrightarrow> find P (map g xs) = map_option g (find P xs)"
  by (induction xs) auto

lemma update_deployment_row:
  assumes "update_deployment s expected w = (w', True)"
  shows "\<exists>r. row_of_provider (sp_providerId s) (sp_deploymentId s) w = Some r \<and>
    row_of_provider (sp_providerId s) (sp_deploymentId s) w' = Some (saved_row s r)"
proof -
  obtain r where r: "row_of_provider (sp_providerId s) (sp_deploymentId s) w = Some r"
    using assms by (auto simp: update_deployment_def split: option.splits if_splits)
  let ?g = "\<lambda>r. if sp_deploymentId r = sp_deploymentId s \<and> sp_providerId r = sp_providerId s then saved_row s r else r"
  have w': "rw_deployments w' = map ?g (rw_deployments w)"
    using assms r by (auto simp: update_deployment_def split: if_splits)
  have "row_of_provider (sp_providerId s) (sp_deploymentId s) w' =
      map_option ?g (row_of_provider (sp_providerId s) (sp_deploymentId s) w)"
    unfolding row_of_provider_def w' by (rule find_map_same) (simp add: saved_row_def)
  then show ?thesis using r provider_row_found [OF r] by simp
qed

lemma save_deployment_True:
  assumes "save_deployment E s expected w = (w', Inr True)"
  shows "\<exists>r. row_of_provider (sp_providerId s) (sp_deploymentId s) w' = Some (saved_row s r)"
  using assms update_deployment_row [of s expected]
  by (auto simp: save_deployment_def io_simps split: prod.splits if_splits)

lemma prep_transition_saved:
  assumes "prep_transition E status s = (s', Inr u)"
  shows "d_status (snd s') = status \<and> d_identity (snd s') = d_identity (snd s) \<and>
    (\<exists>r. row_of_provider (sp_providerId (d_identity (snd s'))) (sp_deploymentId (d_identity (snd s'))) (fst s') =
       Some r \<and> sn_status r = status)"
proof -
  obtain d' b w' where t: "transition (snd s) status (d_status (snd s), d_observedRevision (snd s))
      (Some (en_now E (rw_tick (fst s)))) = Inr (d', b)"
    "save_deployment E (snapshot_of d') (d_desiredRevision (snd s), d_observedRevision (snd s))
      ((fst s)\<lparr>rw_tick := Suc (rw_tick (fst s))\<rparr>) = (w', Inr True)" "s' = (w', d')"
    using assms by (auto simp: prep_transition_def Let_def split: sum.splits prod.splits if_splits)
  from save_deployment_True [OF t(2)] transition_target [OF t(1)] t(3) show ?thesis
    by (auto simp: snapshot_of_def saved_row_def deployment_spec.extend_def snapshot.fields_def)
qed

lemma keeps_world_state [frame]: "keeps (\<lambda>s. f (snd s)) (\<lambda>s. world_of (g s) s)"
  by (simp add: keeps_def world_of_def split: prod.splits)

lemma keeps_result [frame]: "keeps f (\<lambda>s. (s, r s))"
  by (simp add: keeps_def)

lemma prepare_database_identity [frame]: "keeps (\<lambda>s. d_identity (snd s)) (prepare_database E i)"
  unfolding prepare_database_def prepare_steps_def finish_preparation_def Let_def by (intro frame)

lemma world_of_Inr [io_simps]:
  "world_of m s = (s', Inr x) \<longleftrightarrow> snd s' = snd s \<and> m (fst s) = (fst s', Inr x)"
  by (cases s') (auto simp: world_of_def split: prod.splits)

lemma run_prep_Inr [io_simps]:
  "run_prep m d w = (w', Inr x) \<longleftrightarrow> (\<exists>s'. m (w, d) = (s', Inr x) \<and> w' = fst s')"
  by (auto simp: run_prep_def split: prod.splits)

lemma world_audit_rows: "world_audit E a w = (w', r) \<Longrightarrow> rw_deployments w' = rw_deployments w"
  by (auto simp: world_audit_def write_db_def may_fail_def ask_def change_def bind_io_def
      split: option.splits prod.splits sum.splits)

lemma row_same: "rw_deployments w' = rw_deployments w \<Longrightarrow> row_of_provider p t w' = row_of_provider p t w"
  by (simp add: row_of_provider_def)

lemma prepare_database_done:
  assumes "prepare_database E i s = (s', Inr x)"
  shows "\<exists>r. row_of_provider (sp_providerId (d_identity (snd s))) (sp_deploymentId (d_identity (snd s))) (fst s') =
    Some r \<and> sn_status r = CONFIG_PREPARING"
proof -
  obtain s1 s2 u v where t: "prep_transition E CONFIG_PREPARING s1 = (s2, Inr u)"
    and a: "world_of (prep_audit E i ''completed'' None) s2 = (s', Inr v)"
    using assms by (auto simp: prepare_database_def finish_preparation_def io_simps)
  have "d_identity (snd s') = d_identity (snd s)" using keepsD [OF prepare_database_identity assms] .
  moreover have "d_identity (snd s') = d_identity (snd s2)" using a by (simp add: io_simps)
  moreover have "rw_deployments (fst s') = rw_deployments (fst s2)"
    using a world_audit_rows by (fastforce simp: io_simps prep_audit_def)
  ultimately show ?thesis using prep_transition_saved [OF t] row_same by metis
qed

lemma execute_preparation_done:
  assumes run: "execute_preparation E i w = (w1, Inr x)"
    and row: "get_deployment E (px_providerId i) (px_deploymentId i) w1 = (w2, Inr (Some d))"
  shows "d_status d = CONFIG_PREPARING"
proof -
  obtain d0 w0 where g: "get_deployment E (px_providerId i) (px_deploymentId i) w = (w0, Inr (Some d0))"
    and c: "d_status d0 = CONFIG_PREPARING \<and> w1 = w0 \<or>
      (\<exists>s'. prepare_database E i (w0, d0) = (s', Inr x) \<and> w1 = fst s')"
    using run
    by (auto simp: execute_preparation_def attempt_preparation_def io_simps
        split: if_splits option.splits)
  from g obtain r where r: "row_of_provider (px_providerId i) (px_deploymentId i) w0 = Some r"
    "deploymentFromRow (en_parse_url E) r = Inr d0" by (auto simp: get_deployment_Some)
  from row obtain r' where r': "row_of_provider (px_providerId i) (px_deploymentId i) w1 = Some r'"
    "deploymentFromRow (en_parse_url E) r' = Inr d" by (auto simp: get_deployment_Some)
  from c show ?thesis
  proof
    assume "d_status d0 = CONFIG_PREPARING \<and> w1 = w0"
    with r r' show ?thesis by simp
  next
    assume "\<exists>s'. prepare_database E i (w0, d0) = (s', Inr x) \<and> w1 = fst s'"
    then obtain s' where s': "prepare_database E i (w0, d0) = (s', Inr x)" "w1 = fst s'" by blast
    have "sp_providerId (d_identity d0) = px_providerId i" "sp_deploymentId (d_identity d0) = px_deploymentId i"
      using deploymentFromRow_fields [OF r(2)] provider_row_found [OF r(1)] by simp_all
    then have "sn_status r' = CONFIG_PREPARING" using prepare_database_done [OF s'(1)] r'(1) s'(2) by simp
    then show ?thesis using deploymentFromRow_fields [OF r'(2)] by simp
  qed
qed

lemma store_transition_status: "store_transition E p t s s' r w = (w', Inr d) \<Longrightarrow> d_status d = s"
  by (auto simp: store_transition_def aggregate_transition_def io_simps result_simps dest: transition_target)

interpretation rt: reconcile_contract "reconcile_ports_of E"
  by unfold_locales
    (auto simp: reconcile_ports_of_def dest: store_transition_status execute_preparation_done)

end
