(* ===== verification/ReconcilePromises.thy ===== *)
theory ReconcilePromises
  imports ReconcileContract
begin

text \<open>
  What the reconciliation of Runtime deployments promises of the calls of the process manager: no process
  is started for a foreign provider; a failed stop is forgotten; an interrupted drain is never reversed.
  The locales \<open>quiet_ports\<close> and \<open>foreign_ports\<close> say which interfaces make no call.
\<close>

subsection \<open>Calls of the process manager\<close>

lemma keeps_dep:
  "keeps f m \<Longrightarrow> (\<And>w w' x. m w = (w', Inr x) \<Longrightarrow> keeps f (g x)) \<Longrightarrow> keeps f (bind_io m g)"
  by (auto simp: keeps_def bind_io_def split: prod.splits sum.splits) (metis fst_conv)+

lemma keeps_comp: "keeps f m \<Longrightarrow> keeps (\<lambda>w. g (f w)) m"
  by (simp add: keeps_def)

text \<open>A view of the world that clock, processes and audit do not concern.\<close>

definition stable :: "(runtime_world \<Rightarrow> 'b) \<Rightarrow> bool" where
  "stable f \<longleftrightarrow>
     (\<forall>w n. f (w\<lparr>rw_tick := n\<rparr>) = f w) \<and> (\<forall>w p. f (w\<lparr>rw_processes := p\<rparr>) = f w) \<and> (\<forall>w a. f (w\<lparr>rw_audit := a\<rparr>) = f w)"

lemma stable_views [frame]: "stable rw_calls" "stable rw_deployments"
  by (simp_all add: stable_def)

lemma stableD:
  "stable f \<Longrightarrow> f (w\<lparr>rw_tick := n\<rparr>) = f w" "stable f \<Longrightarrow> f (w\<lparr>rw_processes := p\<rparr>) = f w"
  "stable f \<Longrightarrow> f (w\<lparr>rw_audit := a\<rparr>) = f w"
  by (auto simp: stable_def)

lemma keeps_ask [frame]:
  assumes [frame]: "stable f" shows "keeps f (ask g)"
  using assms by (simp add: keeps_def ask_def stableD)

lemma keeps_may_fail [frame]:
  assumes [frame]: "stable f" shows "keeps f (may_fail g)"
  unfolding may_fail_def by (intro frame)

lemma keeps_look [frame]: "keeps f (look g)"
  by (simp add: keeps_def look_def)

lemma keeps_change [frame]: "(\<And>w. f (g w) = f w) \<Longrightarrow> keeps f (change g)"
  by (simp add: keeps_def change_def)

lemma keeps_read_db [frame]:
  assumes [frame]: "stable f" shows "keeps f (read_db E g)"
  unfolding read_db_def by (intro frame)

lemma keeps_write_db [frame]: "stable f \<Longrightarrow> (\<And>w. f (g w) = f w) \<Longrightarrow> keeps f (write_db E g)"
  unfolding write_db_def by (intro frame) auto

lemma keeps_audit [frame]:
  assumes [frame]: "stable f" shows "keeps f (world_audit E a)"
  unfolding world_audit_def by (intro frame) (simp add: stableD [OF assms])

lemma keeps_model [frame]: "keeps f (model_io r)"
  unfolding model_io_def by (intro frame)

lemma keeps_allocation [frame]: "keeps f (allocation_io r)"
  unfolding allocation_io_def by (intro frame)

lemma keeps_get_deployment [frame]:
  assumes [frame]: "stable f" shows "keeps f (get_deployment E p t)"
  unfolding get_deployment_def by (intro frame)

lemma keeps_pure [frame]: "(\<And>w. f (fst (g w)) = f w) \<Longrightarrow> keeps f (\<lambda>w. case g w of (w', b) \<Rightarrow> (w', h b))"
  by (auto simp: keeps_def split: prod.split) (metis fst_conv)

lemma update_deployment_calls: "rw_calls (fst (update_deployment s e w)) = rw_calls w"
  by (simp add: update_deployment_def split: option.split)

lemma keeps_save [frame]: "keeps rw_calls (save_deployment E s e)"
  unfolding save_deployment_def by (intro frame update_deployment_calls)

lemma keeps_get_process [frame]:
  assumes [frame]: "stable f" shows "keeps f (get_process E p t)"
  unfolding get_process_def by (intro frame)

lemma keeps_list_processes [frame]:
  assumes [frame]: "stable f" shows "keeps f (list_processes E p t)"
  unfolding list_processes_def by (intro frame)

lemma keeps_lease_port [frame]:
  assumes [frame]: "stable f" shows "keeps f (lease_port i e r)"
  using assms by (auto simp: keeps_def lease_port_def stableD split: sum.split)

lemma keeps_same_identity [frame]: "keeps f (assertSameIdentity p i)"
  unfolding assertSameIdentity_def by (intro frame)

lemma keeps_allocate [frame]:
  assumes [frame]: "stable f" shows "keeps f (allocate E p t n)"
  unfolding allocate_def by (intro frame)

lemma keeps_insert_process [frame]:
  assumes [frame]: "stable f" shows "keeps f (insert_process E p q)"
  unfolding insert_process_def
  by (intro keeps_bind frame)
    (auto simp: keeps_def ret_def throw_io_def bind_io_def stableD [OF assms] split: option.split prod.split sum.split
      dest!: keepsD [OF keeps_get_process [OF assms]])

lemma update_process_stable: "stable f \<Longrightarrow> f (fst (update_process p e w)) = f w"
  by (simp add: update_process_def stableD split: option.split)

lemma keeps_upsert_process [frame]:
  assumes [frame]: "stable f" shows "keeps f (upsert_process E p q e)"
  unfolding upsert_process_def by (intro frame update_process_stable)

lemma keeps_require_deployment [frame]:
  assumes [frame]: "stable f" shows "keeps f (require_deployment E p t)"
  unfolding require_deployment_def by (intro frame)

lemma keeps_store_transition [frame]: "keeps rw_calls (store_transition E p t s s' r)"
  unfolding store_transition_def aggregate_transition_def by (intro frame)

lemma keeps_store_fail [frame]: "keeps rw_calls (store_fail E p t s r c)"
  unfolding store_fail_def by (intro frame)

lemma keeps_ensureInstance [frame]:
  assumes [frame]: "stable f" shows "keeps f (ensureInstance E n d)"
  unfolding ensureInstance_def by (intro frame) (auto intro!: frame split: prod.split bool.split option.split)

lemma keeps_getDirectInstance [frame]:
  assumes [frame]: "stable f" shows "keeps f (getDirectInstance E d)"
  unfolding getDirectInstance_def by (auto intro!: frame split: prod.split bool.split option.split)

lemma keeps_ensure_all [frame]:
  assumes [frame]: "stable f" shows "keeps f (ensure_all E n d ps)"
  by (induction ps arbitrary: n) (auto intro!: frame)

lemma keeps_listInstances [frame]:
  assumes [frame]: "stable f" shows "keeps f (listInstances E p t)"
  unfolding listInstances_def by (intro frame)

lemma keeps_retry [frame]:
  assumes "keeps f load" "\<And>p e. keeps f (save p e)"
  shows "keeps f (updateRuntimeProcessObservationWithRetry load save patch parse_url code n)"
proof (induction n)
  case (Suc n)
  have *: "keeps f (\<lambda>w. case save p e w of (w', Inr _) \<Rightarrow> (w', Inr ()) | (w', Inl _) \<Rightarrow>
      updateRuntimeProcessObservationWithRetry load save patch parse_url code n w')" for p e
    using Suc assms(2) [of p e] unfolding keeps_def by (auto split: prod.split sum.split) (metis fst_conv)+
  show ?case unfolding updateRuntimeProcessObservationWithRetry.simps by (intro frame assms *)
qed (simp add: keeps_throw)

lemma keeps_recordHealth [frame]:
  assumes [frame]: "stable f" shows "keeps f (recordHealth E t r)"
  unfolding recordHealth_def by (intro frame)

lemma keeps_recordOrphans [frame]:
  assumes [frame]: "stable f" shows "keeps f (recordOrphans E p t ns c)"
  unfolding recordOrphans_def by (intro frame)

lemma keeps_signal [frame]: "keeps f (signal_checked E)"
  by (simp add: keeps_def signal_checked_def)

lemma keeps_verify [frame]:
  assumes [frame]: "stable f" shows "keeps f (verify_provider E q)"
  unfolding verify_provider_def describe_provider_def by (intro frame)

abbreviation prep_calls :: "runtime_world \<times> deployment \<Rightarrow> process_call list" where
  "prep_calls s \<equiv> rw_calls (fst s)"

lemma keeps_world_of_calls [frame]: "keeps rw_calls m \<Longrightarrow> keeps prep_calls (world_of m)"
  by (auto simp: keeps_def world_of_def split: prod.split) (metis fst_conv)

lemma keeps_world_state_calls [frame]: "(\<And>d. keeps rw_calls (g d)) \<Longrightarrow> keeps prep_calls (\<lambda>s. world_of (g (h (snd s))) s)"
  by (auto simp: keeps_def world_of_def split: prod.split) (metis fst_conv)

lemma keeps_prep_transition [frame]: "keeps prep_calls (prep_transition E status)"
  by (auto simp: keeps_def prep_transition_def Let_def split: prod.split sum.split
      dest!: keepsD [OF keeps_save])

lemma keeps_prepareState [frame]: "keeps prep_calls (prepareState E)"
  unfolding prepareState_def by (intro frame)

lemma keeps_prep_audit [frame]: "keeps rw_calls (prep_audit E i x c)"
  unfolding prep_audit_def by (intro frame)

lemma keeps_getCheckpoint [frame]: "keeps rw_calls (getCheckpoint E t)"
  unfolding getCheckpoint_def by (intro frame)

lemma insert_checkpoint_calls: "rw_calls (fst (insert_checkpoint t c e w)) = rw_calls w"
  by (simp add: insert_checkpoint_def)

lemma keeps_saveCheckpoint [frame]: "keeps rw_calls (saveCheckpoint E t c e)"
  unfolding saveCheckpoint_def by (intro frame insert_checkpoint_calls)

lemma keeps_runStep [frame]: "keeps rw_calls m \<Longrightarrow> keeps rw_calls (runStep E t c step m)"
  unfolding runStep_def Let_def by (intro frame)

lemma keeps_provision [frame]: "keeps rw_calls (provision E t step)"
  unfolding provision_def by (intro frame) simp

lemma keeps_runSteps [frame]: "keeps rw_calls (runSteps E t c steps)"
  by (induction steps arbitrary: c) (auto intro!: frame)

lemma keeps_secret [frame]: "keeps rw_calls (ensure_secret E t p)"
  unfolding ensure_secret_def by (intro frame) simp

lemma keeps_profile [frame]: "keeps rw_calls (requireProfile E s)"
  unfolding requireProfile_def by (intro frame)

lemma keeps_prepare_database [frame]: "keeps prep_calls (prepare_database E i)"
  unfolding prepare_database_def prepare_steps_def finish_preparation_def Let_def by (intro frame)

lemma keeps_recordFailure [frame]: "keeps prep_calls (recordFailure E i c)"
  unfolding recordFailure_def prep_suppressed_def Let_def by (intro frame)

lemma keeps_attempt [frame]: "keeps prep_calls (attempt_preparation E i)"
  unfolding attempt_preparation_def by (intro frame)

lemma keeps_run_prep [frame]: "keeps prep_calls m \<Longrightarrow> keeps rw_calls (run_prep m d)"
  by (auto simp: keeps_def run_prep_def split: prod.split) (metis fst_conv)

lemma keeps_execute [frame]: "keeps rw_calls (execute_preparation E i)"
  unfolding execute_preparation_def by (intro frame)

text \<open>A lifecycle action asks the process manager for nothing but itself.\<close>

definition started :: "runtime_world \<Rightarrow> process_call list" where
  "started w = filter (\<lambda>c. pl_action c = ''start'') (rw_calls w)"

lemma keeps_started [frame]: "keeps rw_calls m \<Longrightarrow> keeps started m"
  using keeps_comp [of rw_calls m "filter (\<lambda>c. pl_action c = ''start'')"] by (simp add: started_def [abs_def])

lemma keeps_operation [frame]: "action \<noteq> ''start'' \<Longrightarrow> keeps started (process_operation E action t)"
  by (simp add: keeps_def process_operation_def started_def Let_def)

lemma keeps_context [frame]: "keeps f (validateContext E c)"
  by (simp add: keeps_def validateContext_def)

lemma keeps_complete [frame]: "keeps rw_calls (complete_action E key t)"
  unfolding complete_action_def by (intro frame) auto

lemma keeps_lifecycle [frame]:
  assumes "action \<noteq> ''start''" shows "keeps started (run_lifecycle E action t c)"
proof -
  have h: "keeps started (\<lambda>w. (let m = mapError E e w; code = (case m of Lifecycle_fault code _ \<Rightarrow> Some code | _ \<Rightarrow> None)
      in bind_io (suppressed (world_audit E (process_audit action ''failed'' t c code))) (\<lambda>_.
         bind_io (suppressed (world_audit E (process_audit action ''failed'' t c code))) (\<lambda>_. throw_io m))) w)" for e
    unfolding keeps_def Let_def
    by (intro allI) (rule keepsD [OF _ surjective_pairing], unfold suppressed_def, intro frame)
  show ?thesis unfolding run_lifecycle_def Let_def
    by (intro frame keeps_operation [OF assms] h [unfolded Let_def])
qed

subsection \<open>A foreign provider is not started\<close>

lemma keeps_checkpoint [frame]: "keeps f (checkpoint P)"
  by (simp add: keeps_def checkpoint_def)

lemma keeps_cancellable [frame]: "keeps f m \<Longrightarrow> keeps f (cancellable P m)"
  unfolding cancellable_def by (intro frame)

lemma failure_keeps:
  assumes [frame]: "\<And>p t. keeps f (rp_getDeployment P p t)" "\<And>p t s r c. keeps f (rp_fail P p t s r c)"
  shows "keeps f (mapAndRecordFailure P i e)"
proof -
  have "keeps f (bind_io (catch_io (cancellable P (rp_getDeployment P (rc_providerId i) (rc_deploymentId i)))
             (\<lambda>_. bind_io (checkpoint P) (\<lambda>_. ret None))) (\<lambda>current.
        bind_io
          (case current of
             None \<Rightarrow> ret ()
           | Some d \<Rightarrow>
               if canFail (d_status d)
               then catch_io
                      (cancellable P (rp_fail P (rc_providerId i) (rc_deploymentId i) (d_status d)
                         (d_observedRevision d) (fault_code (mapped_fault e))))
                      (\<lambda>_. checkpoint P)
               else ret ()) (\<lambda>_.
        throw_io (mapped_fault e))))" by (intro frame)
  then show ?thesis unfolding keeps_def mapAndRecordFailure_def by auto
qed

text \<open>All calls but \<open>start\<close>.\<close>

locale quiet_ports =
  fixes P :: "'w reconcile_ports" and f :: "'w \<Rightarrow> 'b"
  assumes get_quiet [frame]: "keeps f (rp_getDeployment P p t)"
    and transition_quiet [frame]: "keeps f (rp_transition P p t s s' r)"
    and fail_quiet [frame]: "keeps f (rp_fail P p t s r c)"
    and ensure_quiet [frame]: "keeps f (rp_ensureInstance P d)"
    and direct_quiet [frame]: "keeps f (rp_getDirectInstance P d)"
    and list_quiet [frame]: "keeps f (rp_listInstances P p t)"
    and health_quiet [frame]: "keeps f (rp_recordHealth P g h)"
    and orphans_quiet [frame]: "keeps f (rp_recordOrphans P p t ns c)"
    and database_quiet [frame]: "keeps f (rp_database P p t c)"
    and stop_quiet [frame]: "keeps f (rp_stop P g x)"
    and probe_quiet [frame]: "keeps f (rp_probe P g n)"
    and inventory_quiet [frame]: "keeps f (rp_inventory P)"
    and verify_quiet [frame]: "keeps f (rp_verify P q)"
    and external_quiet: "rp_externalHealth P = Some probe \<Longrightarrow> keeps f (probe e)"
begin

lemma move_quiet [frame]: "keeps f (move P i d s)"
  unfolding move_def by (intro frame)

lemma require_quiet [frame]: "keeps f (requireDeployment P i)"
  unfolding requireDeployment_def by (intro frame)

lemma outcome_quiet [frame]: "keeps f (advance P i d s)" "keeps f (finish P i d s)" "keeps f (degrade P i d b)"
  unfolding advance_def finish_def degrade_def by (intro frame)+

lemma instances_quiet [frame]: "keeps f (instance_for P d)" "keeps f (direct_for P d)"
  unfolding instance_for_def direct_for_def by (intro frame)+

lemma probes_quiet [frame]: "keeps f (probe_instance P inst)" "keeps f (probe_direct P dn)"
proof -
  show "keeps f (probe_instance P inst)" unfolding probe_instance_def by (intro frame)
  have "keeps f (probeDirectHealth P dn)"
  proof (cases "rp_externalHealth P")
    case (Some probe)
    then show ?thesis unfolding probeDirectHealth_def by (simp add: keeps_cancellable [OF external_quiet [OF Some]])
  qed (simp add: probeDirectHealth_def keeps_throw)
  then show "keeps f (probe_direct P dn)" unfolding probe_direct_def by (intro frame)
qed

lemma identity_quiet [frame]:
  "keeps f (verifyProviderIdentity P i d t e x)" "keeps f (reconcileProviderIdentity P i d inst)"
  "keeps f (reconcileDirectProviderIdentity P i d dn)"
proof -
  show v: "keeps f (verifyProviderIdentity P i d t e x)" for t e x
    unfolding verifyProviderIdentity_def by (intro frame)
  show "keeps f (reconcileProviderIdentity P i d inst)" unfolding reconcileProviderIdentity_def by (intro frame v)
  show "keeps f (reconcileDirectProviderIdentity P i d dn)" unfolding reconcileDirectProviderIdentity_def
    by (intro frame v)
qed

lemma confirm_quiet [frame]: "keeps f (confirm P i d b x)" "keeps f (still_discovering P i d b x)"
  unfolding confirm_def still_discovering_def by (intro frame)+

lemma stopped_quiet [frame]: "keeps f (stop_step P i d b)"
  unfolding stop_step_def reconcileStopped_def by (intro frame)

lemma orphan_quiet [frame]: "keeps f (detectOrphans P i)"
  unfolding detectOrphans_def Let_def by (intro frame)

lemma failure_quiet [frame]: "keeps f (mapAndRecordFailure P i e)"
  by (intro failure_keeps frame)

lemma direct_step_quiet [frame]: "keeps f (direct_step P i d b)"
  by (cases "d_status d")
    (auto simp: direct_step_def direct_starting_def direct_health_def direct_active_def direct_discovering_def
      intro!: frame)

lemma loop_quiet:
  assumes "\<And>d b w w' d'. good d \<Longrightarrow> keeps f (step d b) \<and> (step d b w = (w', Inr (Continue d')) \<longrightarrow> good d')" and "good d"
  shows "keeps f (reconcile_loop step orphans n d b)"
  using assms(2)
proof (induction n arbitrary: d b)
  case (Suc n)
  show ?case unfolding reconcile_loop.simps
  proof (rule keeps_dep)
    show "keeps f (step d b)" using assms(1) Suc.prems by blast
    fix w w' x assume "step d b w = (w', Inr x)"
    then show "keeps f (case x of Continue d' \<Rightarrow> reconcile_loop step orphans n d' True
        | Return d' p \<Rightarrow> ret \<lparr>rr_deployment = snapshot_of d', rr_progressed = p, rr_orphanProcessNames = orphans\<rparr>)"
      using assms(1) Suc by (cases x) (auto intro: frame)
  qed
qed (simp add: keeps_throw)

end

text \<open>An adapter that never proves to belong to the provider.\<close>

locale foreign_ports = quiet_ports P f + reconcile_contract P
  for P :: "'w reconcile_ports" and f :: "'w \<Rightarrow> 'b" +
  fixes provider :: string
  assumes unverified: "vr_expectedProviderId q = provider \<Longrightarrow> rp_verify P q w = (w', Inr v) \<Longrightarrow> \<not> vf_valid v"
begin

lemma never_verified:
  "rc_providerId i = provider \<Longrightarrow> reconcileProviderIdentity P i d inst w \<noteq> (w', Inr Identity_verified)"
  by (auto simp: reconcileProviderIdentity_def verifyProviderIdentity_def io_simps
      dest: unverified [rotated] split: if_splits)

lemma unverified_quiet:
  assumes "rc_providerId i = provider" "keeps f b" "\<And>d'. keeps f (g d')"
  shows "keeps f (bind_io (reconcileProviderIdentity P i d inst) (\<lambda>x.
    case x of Identity_verified \<Rightarrow> a | Identity_unavailable \<Rightarrow> b | Identity_mismatched d' \<Rightarrow> g d'))"
proof (rule keeps_dep [OF identity_quiet(2)])
  fix w w' x assume "reconcileProviderIdentity P i d inst w = (w', Inr x)"
  then show "keeps f (case x of Identity_verified \<Rightarrow> a | Identity_unavailable \<Rightarrow> b | Identity_mismatched d' \<Rightarrow> g d')"
    using never_verified [OF assms(1)] assms(2,3) by (cases x) auto
qed

lemma platform_step_quiet:
  assumes "rc_providerId i = provider" "d_status d \<notin> {ACTIVE, DEGRADED}"
  shows "keeps f (platform_step P i d b) \<and>
    (platform_step P i d b w = (w', Inr (Continue d')) \<longrightarrow> d_status d' \<notin> {ACTIVE, DEGRADED})"
proof
  have "keeps f (step_starting P i d b)" "keeps f (step_health P i d)" "keeps f (step_discovering P i d b)"
    "keeps f (step_config P i d)" "keeps f (step_database P i)"
    unfolding step_starting_def step_health_def step_discovering_def step_config_def step_database_def
    by (intro frame unverified_quiet assms(1))+
  with assms(2) show "keeps f (platform_step P i d b)"
    unfolding platform_step_def by (cases "d_status d") (auto intro!: frame)
  show "platform_step P i d b w = (w', Inr (Continue d')) \<longrightarrow> d_status d' \<notin> {ACTIVE, DEGRADED}"
    using assms
    by (cases "d_status d")
      (auto simp: platform_step_def step_config_def step_starting_def step_health_def
        step_discovering_def returns stop_step_returns io_simps
        dest!: advance_status step_database_status split: if_splits identity_outcome.splits,
        (metis identity_outcome.exhaust)+)
qed

lemma foreign_reconcile_quiet:
  assumes i: "rc_providerId i = provider"
    and "\<And>w' d. requireDeployment P i w = (w', Inr d) \<Longrightarrow> d_status d \<notin> {ACTIVE, DEGRADED}"
  shows "f (fst (reconcile P i w)) = f w"
proof -
  have direct: "keeps f (reconcileDirectContainer STEP_LIMIT P i d)" for d
    unfolding reconcileDirectContainer_def
    by (intro frame loop_quiet [where good = "\<lambda>_. True"] TrueI) (auto intro: frame)
  have loop: "keeps f (reconcile_loop (platform_step P i) orphans STEP_LIMIT d False)"
    if "d_status d \<notin> {ACTIVE, DEGRADED}" for d orphans
    by (rule loop_quiet [where good = "\<lambda>d. d_status d \<notin> {ACTIVE, DEGRADED}"]) (use platform_step_quiet [OF i] that in blast)+
  have rest: "f (fst ((if identity_authority d = ''direct_container'' then reconcileDirectContainer STEP_LIMIT P i d
     else
       bind_io
         (catch_io (detectOrphans P i)
            (\<lambda>_. throw_io (Reconcile_fault ''RUNTIME_RECONCILE_OPERATION_FAILED'' True))) (\<lambda>orphans.
       catch_io (reconcile_loop (platform_step P i) orphans STEP_LIMIT d False) (mapAndRecordFailure P i))) w1)) = f w1"
    if "requireDeployment P i w = (w1, Inr d)" for w1 d
    by (rule keepsD [OF _ surjective_pairing]) (intro frame direct loop assms(2) [OF that])
  show ?thesis
  proof (cases "rp_aborted P w")
    case True
    then show ?thesis by (simp add: reconcile_def reconcile_within_def bind_io_def checkpoint_def)
  next
    case False
    obtain w1 r where r: "requireDeployment P i w = (w1, r)" by (cases "requireDeployment P i w")
    have "f w1 = f w" using keepsD [OF require_quiet r] .
    then show ?thesis using False r rest
      by (cases r) (auto simp: reconcile_def reconcile_within_def bind_io_def checkpoint_def)
  qed
qed

end

lemma verify_foreign:
  assumes "\<forall>t. en_manifest E t \<noteq> Some provider" "vr_expectedProviderId q = provider"
    and "verify_provider E q w = (w', Inr v)"
  shows "\<not> vf_valid v"
  using assms
  by (auto simp: verify_provider_def describe_provider_def io_simps identity_unavailable_def verifyIdentity_def
      identity_mismatches_def result_simps Let_def split: if_splits option.splits)

definition without_manifest :: "runtime_env \<Rightarrow> string \<Rightarrow> runtime_env" where
  "without_manifest E provider =
     E\<lparr>en_manifest := (\<lambda>t. if en_manifest E t = Some provider then None else en_manifest E t)\<rparr>"

lemma without_manifest: "en_manifest (without_manifest E provider) t \<noteq> Some provider"
  by (simp add: without_manifest_def)

interpretation qt: quiet_ports "reconcile_ports_of E" started
  by unfold_locales (auto simp: reconcile_ports_of_def intro!: frame)

interpretation fp: foreign_ports "reconcile_ports_of (without_manifest E provider)" started provider
  using verify_foreign without_manifest
  by unfold_locales (simp add: reconcile_ports_of_def, metis)

text \<open>C31. No process is started for an adapter of another provider: as long as no manifest names the provider
  of the deployment, a reconciliation asks the process manager for no start, whatever else happens. A
  deployment that is already active or degraded is excepted; there the process is started before the
  identity is checked.\<close>

theorem foreign_provider_not_started:
  assumes "\<forall>t. en_manifest E t \<noteq> Some (rc_providerId i)"
    and "\<forall>r. row_of_provider (rc_providerId i) (rc_deploymentId i) w = Some r \<longrightarrow> sn_status r \<notin> {ACTIVE, DEGRADED}"
  shows "started (fst (reconcile (reconcile_ports_of E) i w)) = started w"
proof -
  have E: "without_manifest E (rc_providerId i) = E" using assms(1) by (simp add: without_manifest_def)
  show ?thesis
  proof (rule fp.foreign_reconcile_quiet [where E = E and i = i and w = w, OF refl, unfolded E])
    fix w' d assume "requireDeployment (reconcile_ports_of E) i w = (w', Inr d)"
    then show "d_status d \<notin> {ACTIVE, DEGRADED}"
      using assms(2) deploymentFromRow_fields
      by (fastforce simp: requireDeployment_def reconcile_ports_of_def get_deployment_Some io_simps split: option.splits)
  qed
qed

subsection \<open>Deployments that are left behind\<close>

lemma mapAndRecordFailure_throws [io_simps]: "mapAndRecordFailure P i e w \<noteq> (w', Inr x)"
  by (auto simp: mapAndRecordFailure_def io_simps)

lemma ports_of:
  "rp_getDeployment (reconcile_ports_of E) = get_deployment E"
  "rp_transition (reconcile_ports_of E) = store_transition E"
  "rp_listInstances (reconcile_ports_of E) = listInstances E"
  "rp_recordOrphans (reconcile_ports_of E) = recordOrphans E"
  "rp_inventory (reconcile_ports_of E) = ask (en_inventory E)"
  by (simp_all add: reconcile_ports_of_def)

lemma snapshot_status [simp]: "sn_status (snapshot_of d) = d_status d"
  by (simp add: snapshot_of_def deployment_spec.extend_def snapshot.fields_def)

lemma orphans_keep: "stable f \<Longrightarrow> keeps f (detectOrphans (reconcile_ports_of E) i)"
  unfolding detectOrphans_def Let_def ports_of by (intro frame) 

lemma requireDeployment_keeps: "stable f \<Longrightarrow> keeps f (requireDeployment (reconcile_ports_of E) i)"
  unfolding requireDeployment_def ports_of by (intro frame)

lemma loop_Return:
  assumes "\<And>w w' x. step d b w = (w', Inr x) \<Longrightarrow> \<exists>d' p. x = Return d' p"
    and "reconcile_loop step orphans (Suc n) d b w = (w', Inr r)"
  shows "\<exists>d' p. step d b w = (w', Inr (Return d' p)) \<and> rr_deployment r = snapshot_of d' \<and> rr_progressed r = p"
proof -
  from assms(2) obtain w1 x where x: "step d b w = (w1, Inr x)"
    "(case x of Continue d' \<Rightarrow> reconcile_loop step orphans n d' True
      | Return d' p \<Rightarrow> ret \<lparr>rr_deployment = snapshot_of d', rr_progressed = p, rr_orphanProcessNames = orphans\<rparr>) w1
     = (w', Inr r)" unfolding reconcile_loop.simps bind_io_Inr by blast
  from assms(1) [OF x(1)] obtain d' p where "x = Return d' p" by blast
  with x show ?thesis by (auto simp: io_simps)
qed

lemma read_platform:
  assumes "requireDeployment (reconcile_ports_of E) i w = (w0, Inr d)"
    and "row_of_provider (rc_providerId i) (rc_deploymentId i) w = Some row"
      "sp_runtimeAuthority row \<noteq> Some ''direct_container''"
  shows "deploymentFromRow (en_parse_url E) row = Inr d \<and> identity_authority d \<noteq> ''direct_container''"
proof
  show dr: "deploymentFromRow (en_parse_url E) row = Inr d"
    using assms(1,2) by (auto simp: requireDeployment_def reconcile_ports_of_def get_deployment_Some io_simps split: option.splits)
  show "identity_authority d \<noteq> ''direct_container''"
    using dr assms(3)
    by (auto simp: deploymentFromRow_def Let_def rehydrateDeployment_def constructDeployment_def Deployment.identity_of_def
        spec_of_def deployment_spec.truncate_def identity_authority_def authority_of_def result_simps
        split: if_splits option.splits sum.splits)
qed

lemma platform_reconcile_once:
  assumes "reconcile (reconcile_ports_of E) i w = (w', Inr r)"
    and row: "row_of_provider (rc_providerId i) (rc_deploymentId i) w = Some row"
      "sp_runtimeAuthority row \<noteq> Some ''direct_container''"
    and once: "\<And>d w w' x. d_status d = sn_status row \<Longrightarrow> d_desiredState d = sp_desiredState row \<Longrightarrow>
      platform_step (reconcile_ports_of E) i d False w = (w', Inr x) \<Longrightarrow> \<exists>d' p. x = Return d' p"
  obtains d w1 d' p where "deploymentFromRow (en_parse_url E) row = Inr d"
    "d_status d = sn_status row" "d_desiredState d = sp_desiredState row"
    "identity_authority d \<noteq> ''direct_container''"
    "platform_step (reconcile_ports_of E) i d False w1 = (w', Inr (Return d' p))"
    "rr_deployment r = snapshot_of d'" "rr_progressed r = p" "rw_calls w1 = rw_calls w" "rw_deployments w1 = rw_deployments w"
proof -
  let ?P = "reconcile_ports_of E"
  obtain d w0 where d: "requireDeployment ?P i w = (w0, Inr d)"
    and rest: "(if identity_authority d = ''direct_container'' then reconcileDirectContainer STEP_LIMIT ?P i d
     else
       bind_io
         (catch_io (detectOrphans ?P i)
            (\<lambda>_. throw_io (Reconcile_fault ''RUNTIME_RECONCILE_OPERATION_FAILED'' True))) (\<lambda>orphans.
       catch_io (reconcile_loop (platform_step ?P i) orphans STEP_LIMIT d False) (mapAndRecordFailure ?P i))) w0 = (w', Inr r)"
    using assms(1) by (auto simp: reconcile_def reconcile_within_def io_simps)
  from read_platform [OF d row] have dr: "deploymentFromRow (en_parse_url E) row = Inr d"
    and auth: "identity_authority d \<noteq> ''direct_container''" by auto
  from rest auth obtain orphans w1 where o: "detectOrphans ?P i w0 = (w1, Inr orphans)"
    and l: "reconcile_loop (platform_step ?P i) orphans (Suc 11) d False w1 = (w', Inr r)"
    by (auto simp: io_simps STEP_LIMIT_def)
  note f = deploymentFromRow_fields [OF dr]
  obtain d' p where "platform_step ?P i d False w1 = (w', Inr (Return d' p))" "rr_deployment r = snapshot_of d'" "rr_progressed r = p"
    using loop_Return [OF _ l] once f by blast
  moreover have "f w1 = f w" if "stable f" for f
    using keepsD [OF orphans_keep [OF that] o] keepsD [OF requireDeployment_keeps [OF that] d] by simp
  ultimately show thesis using that [OF dr] f auth stable_views by metis
qed

lemma failed_left_for_stopped:
  assumes "reconcile (reconcile_ports_of E) i w = (w', Inr r)"
    and "row_of_provider (rc_providerId i) (rc_deploymentId i) w = Some row"
    and "sp_runtimeAuthority row \<noteq> Some ''direct_container''" "sn_status row = FAILED"
    and "sp_desiredState row \<noteq> ''running''"
  shows "sn_status (rr_deployment r) = STOPPED \<and> rw_calls w' = rw_calls w"
proof -
  have once: "\<exists>d' p. x = Return d' p"
    if "d_status d = sn_status row" "d_desiredState d = sp_desiredState row"
      "platform_step (reconcile_ports_of E) i d False w1 = (w2, Inr x)" for d w1 w2 x
    using that assms(5) by (auto simp: platform_step_def stop_step_def io_simps)
  show ?thesis
  proof (rule platform_reconcile_once [OF assms(1-3) once])
    fix d w1 d' p
    assume d: "d_status d = sn_status row" "d_desiredState d = sp_desiredState row"
      and step: "platform_step (reconcile_ports_of E) i d False w1 = (w', Inr (Return d' p))"
      and r: "rr_deployment r = snapshot_of d'" and w1: "rw_calls w1 = rw_calls w"
    have m: "move (reconcile_ports_of E) i d STOPPED w1 = (w', Inr d')"
      using step d assms(4,5) by (auto simp: platform_step_def stop_step_def reconcileStopped_def io_simps)
    have "keeps rw_calls (move (reconcile_ports_of E) i d STOPPED)"
      unfolding move_def ports_of by (intro frame)
    then have "rw_calls w' = rw_calls w1" using m by (rule keepsD)
    then show ?thesis using rt.move_status [OF m] w1 r by simp
  qed auto
qed

subsection \<open>Stops that fail\<close>

lemma loop_fails:
  assumes "\<And>w w' x. step d b w = (w', Inr x) \<Longrightarrow> \<exists>d' p. x = Return d' p"
    and "reconcile_loop step orphans (Suc n) d b w = (w', Inl e)"
  shows "step d b w = (w', Inl e)"
  using assms unfolding reconcile_loop.simps bind_io_Inl by (fastforce simp: io_simps)

text \<open>The process manager refused to stop a process.\<close>

definition failed_stops :: "runtime_world \<Rightarrow> process_call list" where
  "failed_stops w = filter (\<lambda>c. pl_action c = ''stop'' \<and> \<not> pl_done c) (rw_calls w)"

lemma keeps_failed_stops [frame]: "keeps rw_calls m \<Longrightarrow> keeps failed_stops m"
  using keeps_comp [of rw_calls m "filter (\<lambda>c. pl_action c = ''stop'' \<and> \<not> pl_done c)"]
  by (simp add: failed_stops_def [abs_def])

lemma lifecycle_done:
  assumes "run_lifecycle E action t c w = (w', Inr u)"
  shows "failed_stops w' = failed_stops w"
proof -
  have a: "keeps failed_stops (world_audit E x)" and c: "keeps failed_stops (complete_action E key t)" for x key
    by (intro frame; simp add: stable_views)+
  have o: "failed_stops w' = failed_stops w" if "process_operation E action t w = (w', Inr v)" for w w' v
    using that by (auto simp: process_operation_def Let_def failed_stops_def split: option.splits)
  have r: "failed_stops w' = failed_stops w" if "read_db E f w = (w', Inr b)" for w w' b and f :: "runtime_world \<Rightarrow> bool"
    using that by (auto simp: io_simps failed_stops_def)
  from assms show ?thesis
    by (auto simp: run_lifecycle_def Let_def bind_io_Inr catch_io_Inr ret_Inr validateContext_def throw_io_Inr split: if_splits
        dest!: r o keepsD [OF a] keepsD [OF c])
qed

lemma stops_done:
  assumes "each_io (\<lambda>t. cancellable (reconcile_ports_of E) (rp_stop (reconcile_ports_of E) t c)) ts w = (w', Inr u)"
  shows "failed_stops w' = failed_stops w"
  using assms
proof (induction ts arbitrary: w)
  case (Cons t ts)
  then obtain w1 where "run_lifecycle E ''stop'' t c w = (w1, Inr ())"
    "each_io (\<lambda>t. cancellable (reconcile_ports_of E) (rp_stop (reconcile_ports_of E) t c)) ts w1 = (w', Inr u)"
    by (auto simp: io_simps reconcile_ports_of_def)
  then show ?case using Cons.IH lifecycle_done by metis
qed (simp add: io_simps)

lemma keeps_deployments_lifecycle [frame]: "keeps rw_deployments (run_lifecycle E action t c)"
proof -
  have o: "keeps rw_deployments (process_operation E action t)"
    by (simp add: keeps_def process_operation_def Let_def)
  have c: "keeps rw_deployments (complete_action E key t)" for key
    unfolding complete_action_def by (intro frame) auto
  have h: "keeps rw_deployments (\<lambda>w. (let m = mapError E e w; code = (case m of Lifecycle_fault code _ \<Rightarrow> Some code | _ \<Rightarrow> None)
      in bind_io (suppressed (world_audit E (process_audit action ''failed'' t c code))) (\<lambda>_.
         bind_io (suppressed (world_audit E (process_audit action ''failed'' t c code))) (\<lambda>_. throw_io m))) w)" for e
    unfolding keeps_def Let_def
    by (intro allI) (rule keepsD [OF _ surjective_pairing], unfold suppressed_def, intro frame)
  show ?thesis unfolding run_lifecycle_def Let_def
    by (intro frame o c h [unfolded Let_def])
qed

subsection \<open>Rows after a transition\<close>

definition moved_row :: "deployment_status \<Rightarrow> snapshot \<Rightarrow> snapshot" where
  "moved_row s r = r\<lparr>sn_status := s, sn_observedRevision := sn_observedRevision r + 1\<rparr>"

lemma moved_row_read:
  assumes "deploymentFromRow p r = Inr d" "is_safe_integer (sn_observedRevision r + 1)"
  shows "deploymentFromRow p (moved_row s r) = Inr (d\<lparr>d_status := s, d_observedRevision := d_observedRevision d + 1\<rparr>)"
  using assms
  by (auto simp: moved_row_def deploymentFromRow_def Let_def rehydrateDeployment_def constructDeployment_def
      Deployment.identity_of_def spec_of_def deployment_spec.truncate_def result_simps requireRevision_def
      split: if_splits option.splits sum.splits)

lemma deploymentFromRow_replicas: "deploymentFromRow p r = Inr d \<Longrightarrow> d_desiredReplicas d = sp_desiredReplicas r"
  by (auto simp: deploymentFromRow_def Let_def rehydrateDeployment_def constructDeployment_def
      spec_of_def deployment_spec.truncate_def result_simps split: if_splits option.splits sum.splits)

lemma moved_row_saved:
  assumes "deploymentFromRow p r = Inr d" "transition d s pre now = Inr (d', True)"
  shows "saved_row (snapshot_of d') r = moved_row s r"
proof -
  from assms(2) have "d_desiredState d' = d_desiredState d" "d_desiredReplicas d' = d_desiredReplicas d"
    "d_status d' = s" "d_desiredRevision d' = d_desiredRevision d" "d_observedRevision d' = d_observedRevision d + 1"
    unfolding transition_changed by auto
  with deploymentFromRow_fields [OF assms(1)] deploymentFromRow_replicas [OF assms(1)] show ?thesis
    by (simp add: saved_row_def moved_row_def snapshot_of_def deployment_spec.extend_def snapshot.fields_def)
qed

text \<open>A database that answers accepts a transition that was read from the row.\<close>

lemma store_transition_runs:
  assumes ok: "\<forall>t. en_statement E t = None"
    and row: "row_of_provider p t w = Some r" "deploymentFromRow (en_parse_url E) r = Inr d"
    and s: "s \<noteq> d_status d" "s \<in> set (allowedTransitions (d_status d) (identity_authority d))"
    and n: "is_safe_integer (sn_observedRevision r + 1)"
  shows "\<exists>w' d'. store_transition E p t s (d_status d) (d_observedRevision d) w = (w', Inr d') \<and>
    row_of_provider p t w' = Some (moved_row s r)"
proof -
  note f = deploymentFromRow_fields [OF row(2)] provider_row_found [OF row(1)]
  have safe: "is_safe_integer (d_observedRevision d)" "0 \<le> d_observedRevision d"
    using row(2)
    by (auto simp: deploymentFromRow_def Let_def rehydrateDeployment_def constructDeployment_def result_simps
        split: if_splits option.splits sum.splits)
  let ?now = "en_now E (Suc (rw_tick w))"
  obtain d' where d': "transition d s (d_status d, d_observedRevision d) (Some ?now) = Inr (d', True)"
    using s safe unfolding transition_changed by simp
  let ?w1 = "w\<lparr>rw_tick := Suc (rw_tick w)\<rparr>" and ?w2 = "w\<lparr>rw_tick := Suc (Suc (rw_tick w))\<rparr>"
    and ?w3 = "w\<lparr>rw_tick := Suc (Suc (Suc (rw_tick w)))\<rparr>"
  have g: "get_deployment E p t w = (?w1, Inr (Some d))"
    using ok row by (simp add: get_deployment_Some)
  have rq: "require_deployment E p t w = (?w1, Inr d)"
    unfolding require_deployment_def by (rule bind_io_step, rule g, simp add: ret_def)
  have ag: "aggregate_transition E d s (d_status d, d_observedRevision d) ?w1 = (?w2, Inr d')"
    using d' by (simp add: aggregate_transition_def bind_io_def ask_def model_io_def lift_io_def)
  have ids: "sp_providerId (snapshot_of d') = p" "sp_deploymentId (snapshot_of d') = t"
    using transition_target [OF d'] f by (simp_all add: snapshot_of_def deployment_spec.extend_def)
  let ?w4 = "?w3\<lparr>rw_deployments := map (\<lambda>x. if sp_deploymentId x = t \<and> sp_providerId x = p then saved_row (snapshot_of d') x else x) (rw_deployments w)\<rparr>"
  have up: "update_deployment (snapshot_of d') (d_desiredRevision d, d_observedRevision d) ?w3 = (?w4, True)"
    using row(1) f unfolding update_deployment_def ids row_tick by simp
  have sv: "save_deployment E (snapshot_of d') (d_desiredRevision d, d_observedRevision d) ?w2 = (?w4, Inr True)"
    unfolding save_deployment_def
    by (rule bind_io_step [where w' = ?w3 and x = "()"], simp add: may_fail_def ask_def ok,
      rule bind_io_step [where w' = ?w4 and x = True], unfold up, simp_all only: prod.case, simp add: ret_def)
  have "row_of_provider p t ?w4 = Some (saved_row (snapshot_of d') r)"
    using update_deployment_row [OF up] ids row(1) by simp
  moreover have "store_transition E p t s (d_status d) (d_observedRevision d) w = (?w4, Inr d')"
    unfolding store_transition_def
    by (rule bind_io_step, rule rq, rule bind_io_step, rule ag, rule bind_io_step, rule sv, rule ret_def)
  ultimately show ?thesis unfolding moved_row_saved [OF row(2) d'] by blast
qed

lemma cancellable_runs:
  "\<forall>t. \<not> en_aborted E t \<Longrightarrow> m w = (w', Inr x) \<Longrightarrow> cancellable (reconcile_ports_of E) m w = (w', Inr x)"
  by (simp add: cancellable_Inr reconcile_ports_of_def)

lemma failure_recorded:
  assumes answers: "\<forall>t. en_statement E t = None" "\<forall>t. \<not> en_aborted E t"
    and row: "row_of_provider (rc_providerId i) (rc_deploymentId i) w = Some r" "deploymentFromRow (en_parse_url E) r = Inr d"
    and n: "is_safe_integer (sn_observedRevision r + 1)" and s: "d_status d \<notin> {FAILED, STOPPED}"
    and m: "(mapAndRecordFailure (reconcile_ports_of E) i e :: 'a rt) w = (w', x)"
  shows "row_of_provider (rc_providerId i) (rc_deploymentId i) w' = Some (moved_row FAILED r)"
proof -
  let ?P = "reconcile_ports_of E" and ?p = "rc_providerId i" and ?t = "rc_deploymentId i"
  obtain w1 where g: "cancellable ?P (get_deployment E ?p ?t) w = (w1, Inr (Some d))" and w1: "row_of_provider ?p ?t w1 = Some r"
  proof
    have "get_deployment E ?p ?t w = (w\<lparr>rw_tick := Suc (rw_tick w)\<rparr>, Inr (Some d))"
      using answers row by (simp add: get_deployment_Some)
    then show "cancellable ?P (get_deployment E ?p ?t) w = (w\<lparr>rw_tick := Suc (rw_tick w)\<rparr>, Inr (Some d))"
      by (rule cancellable_runs [OF answers(2)])
  qed (simp add: row)
  have "FAILED \<in> set (allowedTransitions (d_status d) (identity_authority d))"
    using s by (cases "d_status d") (simp_all add: allowedTransitions_def)
  then obtain w2 d' where t: "store_transition E ?p ?t FAILED (d_status d) (d_observedRevision d) w1 = (w2, Inr d')"
    and w2: "row_of_provider ?p ?t w2 = Some (moved_row FAILED r)"
    using store_transition_runs [OF answers(1) w1 row(2) _ _ n, of FAILED] s by auto
  obtain w3 where a: "world_audit E \<lparr>ra_action = ''runtime_deployment.reconcile_failed'', ra_subjectId = ?t,
      ra_correlationId = ''runtime-reconcile:'' @ ?t, ra_errorCode = Some (fault_code (mapped_fault e))\<rparr> w2 = (w3, Inr ())"
    using answers(1) by (simp add: world_audit_def write_db_Inr)
  have w3: "row_of_provider ?p ?t w3 = Some (moved_row FAILED r)"
    using w2 keepsD [OF keeps_audit [OF stable_views(2)] a] by (simp add: row_of_provider_def)
  have f: "cancellable ?P (store_fail E ?p ?t (d_status d) (d_observedRevision d) (fault_code (mapped_fault e))) w1 = (w3, Inr ())"
    by (rule cancellable_runs [OF answers(2)], unfold store_fail_def, rule bind_io_step, rule t, rule a)
  have "(mapAndRecordFailure ?P i e :: 'a rt) w = (w3, Inl (mapped_fault e))"
    unfolding mapAndRecordFailure_def
    using answers(2) g f s
    by (simp add: reconcile_ports_of_def bind_io_def catch_io_def throw_io_def canFail_def)
  then show ?thesis using w3 m by simp
qed

lemma stopping_fails:
  assumes "reconcileStopped (reconcile_ports_of E) i d w = (w', Inl e)" "failed_stops w' \<noteq> failed_stops w"
  shows "d_status d \<notin> {STOPPED, REQUESTED, FAILED} \<and>
    (\<exists>w1 d1. rw_deployments w' = rw_deployments w1 \<and>
      (if d_status d = DRAINING then w1 = w else move (reconcile_ports_of E) i d DRAINING w = (w1, Inr d1)))"
proof -
  let ?P = "reconcile_ports_of E"
  let ?stops = "\<lambda>d. each_io (\<lambda>t. cancellable ?P (rp_stop ?P t (stepContext (rc_context i) ''stop'' (d_observedRevision d))))"
  have m: "keeps failed_stops (move ?P i d s)" for d s
    unfolding move_def ports_of by (intro frame)
  have l: "keeps f (cancellable ?P (rp_listInstances ?P p t))" if "stable f" for p t and f :: "runtime_world \<Rightarrow> 'x"
    unfolding ports_of using that by (intro frame)
  have l': "keeps failed_stops (cancellable ?P (rp_listInstances ?P p t))" for p t
    using l [OF stable_views(1)] by (rule keeps_failed_stops)
  have st: "keeps rw_deployments (?stops d ts)" for d ts
    by (intro frame) (simp add: reconcile_ports_of_def frame)
  obtain w1 d1 where f: "d_status d \<notin> {STOPPED, REQUESTED, FAILED}"
    and d1: "(if d_status d \<noteq> DRAINING then move ?P i d DRAINING else ret d) w = (w1, Inr d1)"
    and rest: "bind_io (cancellable ?P (rp_listInstances ?P (rc_providerId i) (rc_deploymentId i))) (\<lambda>targets.
          bind_io (?stops d1 targets) (\<lambda>_. move ?P i d1 STOPPED)) w1 = (w', Inl e)"
    using assms keepsD [OF m]
    by (auto simp: reconcileStopped_def io_simps split: if_splits)
  have k: "failed_stops w1 = failed_stops w"
    using d1 keepsD [OF m] by (auto simp: io_simps split: if_splits)
  obtain ts w2 where w2: "cancellable ?P (rp_listInstances ?P (rc_providerId i) (rc_deploymentId i)) w1 = (w2, Inr ts)"
    "bind_io (?stops d1 ts) (\<lambda>_. move ?P i d1 STOPPED) w2 = (w', Inl e)"
    using rest k assms(2) keepsD [OF l'] unfolding bind_io_Inl by metis
  have "failed_stops w2 = failed_stops w" using keepsD [OF l' w2(1)] k by simp
  then have "?stops d1 ts w2 = (w', Inl e)"
    using w2(2) assms(2) stops_done keepsD [OF m] unfolding bind_io_Inl by metis
  then have "rw_deployments w' = rw_deployments w1"
    using keepsD [OF st] keepsD [OF l [OF stable_views(2)] w2(1)] by metis
  then show ?thesis using f d1 by (auto simp: io_simps split: if_splits)
qed

text \<open>A reconciliation that a failed stop ends: the stop was made by \<open>reconcileStopped\<close>.\<close>

abbreviation checked_orphans :: "runtime_env \<Rightarrow> reconcile_input \<Rightarrow> string list rt" where
  "checked_orphans E i \<equiv> catch_io (detectOrphans (reconcile_ports_of E) i)
     (\<lambda>_. throw_io (Reconcile_fault ''RUNTIME_RECONCILE_OPERATION_FAILED'' True))"

lemma checked_orphans_keep: "stable f \<Longrightarrow> keeps f (checked_orphans E i)"
  by (intro frame orphans_keep)

lemma failed_stop_inside:
  assumes row: "row_of_provider (rc_providerId i) (rc_deploymentId i) w = Some row"
      "sp_runtimeAuthority row \<noteq> Some ''direct_container''" "sp_desiredState row \<noteq> ''running''"
    and live: "\<forall>t. \<not> en_aborted E t"
    and run: "reconcile (reconcile_ports_of E) i w = (w1, Inl e)"
    and stop: "failed_stops w1 \<noteq> failed_stops w"
  obtains d w2 w3 e3 where "deploymentFromRow (en_parse_url E) row = Inr d"
    "rw_deployments w2 = rw_deployments w" "failed_stops w3 \<noteq> failed_stops w2"
    "reconcileStopped (reconcile_ports_of E) i d w2 = (w3, Inl e3)"
    "(mapAndRecordFailure (reconcile_ports_of E) i e3 :: reconcile_result rt) w3 = (w1, Inl e)"
proof -
  let ?P = "reconcile_ports_of E"
  let ?loop = "\<lambda>orphans d. catch_io (reconcile_loop (platform_step ?P i) orphans STEP_LIMIT d False) (mapAndRecordFailure ?P i)"
  have q: "keeps failed_stops (requireDeployment ?P i)" "keeps failed_stops (checked_orphans E i)"
    by (intro keeps_failed_stops requireDeployment_keeps checked_orphans_keep stable_views)+
  have mf: "keeps failed_stops (mapAndRecordFailure ?P i e :: reconcile_result rt)" for e
    by (intro keeps_failed_stops failure_keeps) (auto simp: reconcile_ports_of_def intro!: frame)
  from run stop obtain w0 d where d: "requireDeployment ?P i w = (w0, Inr d)"
    and rest: "(if identity_authority d = ''direct_container'' then reconcileDirectContainer STEP_LIMIT ?P i d
      else bind_io (checked_orphans E i) (\<lambda>orphans. ?loop orphans d)) w0 = (w1, Inl e)"
    using keepsD [OF q(1)] unfolding reconcile_def reconcile_within_def bind_io_Inl
    by (auto simp: checkpoint_def io_simps split: if_splits)
  from read_platform [OF d row(1,2)] have dr: "deploymentFromRow (en_parse_url E) row = Inr d"
    and auth: "identity_authority d \<noteq> ''direct_container''" by auto
  have "checked_orphans E i w0 \<noteq> (w1, Inl e)" using keepsD [OF q(2)] keepsD [OF q(1) d] stop by metis
  with rest auth obtain orphans w2 where o: "checked_orphans E i w0 = (w2, Inr orphans)"
    and c: "?loop orphans d w2 = (w1, Inl e)"
    by (auto simp only: if_False bind_io_Inl)
  then obtain w3 e3 where l: "reconcile_loop (platform_step ?P i) orphans STEP_LIMIT d False w2 = (w3, Inl e3)"
    and m: "(mapAndRecordFailure ?P i e3 :: reconcile_result rt) w3 = (w1, Inl e)"
    unfolding catch_io_Inl by blast
  note f = deploymentFromRow_fields [OF dr]
  have "platform_step ?P i d False w2 = (w3, Inl e3)"
    using l f row(3) unfolding STEP_LIMIT_def
    by (intro loop_fails [where n = 11 and orphans = orphans])
      (auto simp: platform_step_def stop_step_def io_simps eval_nat_numeral)
  then have r: "reconcileStopped ?P i d w2 = (w3, Inl e3)"
    using f row(3) live by (auto simp: platform_step_def stop_step_def io_simps checkpoint_def reconcile_ports_of_def)
  show thesis
  proof (rule that [OF dr _ _ r m])
    show "rw_deployments w2 = rw_deployments w"
      using keepsD [OF checked_orphans_keep [OF stable_views(2)] o] keepsD [OF requireDeployment_keeps [OF stable_views(2)] d]
      by simp
    show "failed_stops w3 \<noteq> failed_stops w2"
      using keepsD [OF q(2) o] keepsD [OF q(1) d] keepsD [OF mf m] stop by simp
  qed
qed

text \<open>A stop that fails is recorded, when the database answers.\<close>

lemma failed_stop_recorded:
  assumes answers: "\<forall>t. en_statement E t = None" "\<forall>t. \<not> en_aborted E t"
    and row: "row_of_provider (rc_providerId i) (rc_deploymentId i) w = Some row"
      "sp_runtimeAuthority row \<noteq> Some ''direct_container''" "sp_desiredState row \<noteq> ''running''"
    and safe: "is_safe_integer (sn_observedRevision row + 1)" "is_safe_integer (sn_observedRevision row + 2)"
    and run: "reconcile (reconcile_ports_of E) i w = (w1, Inl e)"
    and stop: "failed_stops w1 \<noteq> failed_stops w"
  shows "\<exists>r. row_of_provider (rc_providerId i) (rc_deploymentId i) w1 = Some (moved_row FAILED r) \<and>
    (r = row \<or> r = moved_row DRAINING row)"
proof -
  let ?P = "reconcile_ports_of E" and ?p = "rc_providerId i" and ?t = "rc_deploymentId i"
  obtain d w2 w3 e3 where dr: "deploymentFromRow (en_parse_url E) row = Inr d"
    and w2: "rw_deployments w2 = rw_deployments w" "failed_stops w3 \<noteq> failed_stops w2"
    and r: "reconcileStopped ?P i d w2 = (w3, Inl e3)"
    and m: "(mapAndRecordFailure ?P i e3 :: reconcile_result rt) w3 = (w1, Inl e)"
    by (rule failed_stop_inside [OF row answers(2) run stop])
  from stopping_fails [OF r w2(2)] obtain w4 d4 where s: "d_status d \<notin> {STOPPED, REQUESTED, FAILED}"
    "rw_deployments w3 = rw_deployments w4"
    "if d_status d = DRAINING then w4 = w2 else move ?P i d DRAINING w2 = (w4, Inr d4)" by auto
  have row2: "row_of_provider ?p ?t w2 = Some row" using w2(1) row(1) by (simp add: row_of_provider_def)
  show ?thesis
  proof (cases "d_status d = DRAINING")
    case True
    then have "row_of_provider ?p ?t w3 = Some row" using s row2 by (simp add: row_of_provider_def)
    from failure_recorded [OF answers this dr safe(1) _ m] s show ?thesis by auto
  next
    case False
    have ok: "DRAINING \<in> set (allowedTransitions (d_status d) (identity_authority d))"
      using s False by (cases "d_status d") (auto simp: allowedTransitions_def)
    obtain w5 d5 where t: "store_transition E ?p ?t DRAINING (d_status d) (d_observedRevision d) w2 = (w5, Inr d5)"
      "row_of_provider ?p ?t w5 = Some (moved_row DRAINING row)"
      using store_transition_runs [OF answers(1) row2 dr _ ok safe(1)] False by auto
    then have "w5 = w4" using s(3) False by (auto simp: move_def io_simps reconcile_ports_of_def)
    then have "row_of_provider ?p ?t w3 = Some (moved_row DRAINING row)" using s(2) t(2) by (simp add: row_of_provider_def)
    then have "row_of_provider ?p ?t w1 = Some (moved_row FAILED (moved_row DRAINING row))"
      by (rule failure_recorded [OF answers _ moved_row_read [OF dr safe(1)] _ _ m])
        (use safe in \<open>simp_all add: moved_row_def add.assoc\<close>)
    then show ?thesis by blast
  qed
qed

text \<open>C32. A failed stop is forgotten. When the process manager fails to stop a process of a deployment that is to
  be stopped, and the database answers, the reconciliation fails and leaves the deployment \<open>FAILED\<close>; and
  the next reconciliation that succeeds reports it \<open>STOPPED\<close> without asking the process manager for anything,
  though the process was never stopped.\<close>

theorem failed_stop_forgotten:
  assumes answers: "\<forall>t. en_statement E t = None" "\<forall>t. \<not> en_aborted E t"
    and row: "row_of_provider (rc_providerId i) (rc_deploymentId i) w = Some row"
      "sp_runtimeAuthority row \<noteq> Some ''direct_container''" "sp_desiredState row \<noteq> ''running''"
      "0 \<le> sn_observedRevision row" "sn_observedRevision row \<le> 2 ^ 53 - 3"
    and first_run: "reconcile (reconcile_ports_of E) i w = (w1, Inl e)"
    and stop_failed: "failed_stops w1 \<noteq> failed_stops w"
    and next_run: "reconcile (reconcile_ports_of E') j w1 = (w2, Inr r)"
      "rc_providerId j = rc_providerId i" "rc_deploymentId j = rc_deploymentId i"
  shows "map_option sn_status (row_of_provider (rc_providerId i) (rc_deploymentId i) w1) = Some FAILED \<and>
    sn_status (rr_deployment r) = STOPPED \<and> rw_calls w2 = rw_calls w1"
proof -
  have "is_safe_integer (sn_observedRevision row + 1)" "is_safe_integer (sn_observedRevision row + 2)"
    using row(4,5) by (simp_all add: is_safe_integer_def MAX_SAFE_def)
  from failed_stop_recorded [OF answers row(1-3) this first_run stop_failed] obtain r1 where
    r1: "row_of_provider (rc_providerId i) (rc_deploymentId i) w1 = Some (moved_row FAILED r1)"
    "r1 = row \<or> r1 = moved_row DRAINING row" by blast
  from failed_left_for_stopped [OF next_run(1), unfolded next_run(2,3), OF r1(1)] r1 row(2,3) show ?thesis
    by (auto simp: moved_row_def)
qed

text \<open>C33. A drain that was interrupted cannot be reversed: when the desired state of a draining deployment of the
  platform has become \<open>running\<close>, every reconciliation that answers returns it as it is, with no transition and
  no call of the process manager.\<close>

theorem draining_never_left:
  assumes "reconcile (reconcile_ports_of E) i w = (w', Inr r)"
    and "row_of_provider (rc_providerId i) (rc_deploymentId i) w = Some row"
    and "sp_runtimeAuthority row \<noteq> Some ''direct_container''" "sn_status row = DRAINING"
    and "sp_desiredState row = ''running''"
  shows "sn_status (rr_deployment r) = DRAINING \<and> \<not> rr_progressed r \<and> rw_deployments w' = rw_deployments w \<and>
    rw_calls w' = rw_calls w"
proof -
  have once: "\<exists>d' p. x = Return d' p"
    if "d_status d = sn_status row" "d_desiredState d = sp_desiredState row"
      "platform_step (reconcile_ports_of E) i d False w1 = (w2, Inr x)" for d w1 w2 x
    using that assms(4,5) by (auto simp: platform_step_def io_simps)
  show ?thesis
  proof (rule platform_reconcile_once [OF assms(1-3) once])
    fix d w1 d' p
    assume "d_status d = sn_status row" "d_desiredState d = sp_desiredState row"
      "platform_step (reconcile_ports_of E) i d False w1 = (w', Inr (Return d' p))"
      "rr_deployment r = snapshot_of d'" "rr_progressed r = p" "rw_calls w1 = rw_calls w"
      "rw_deployments w1 = rw_deployments w"
    then show ?thesis using assms(4,5) by (auto simp: platform_step_def io_simps)
  qed auto
qed


subsection \<open>Witnesses\<close>

definition sample_row :: "deployment_status \<Rightarrow> string \<Rightarrow> snapshot" where
  "sample_row status desired =
     \<lparr>sp_deploymentId = ''runtime-1'', sp_providerId = ''provider-1'', sp_environment = ''production'',
      sp_desiredState = desired, sp_desiredReplicas = (if desired = ''running'' then 1 else 0), sp_runtimeVersion = ''1.0.0'',
      sp_adapterEndpoint = None, sp_runtimeAuthority = Some ''platform_managed'',
      sp_databaseProfileId = Some ''database-1'', sp_configProfileId = Some ''config-1'', sp_directContainer = None,
      sn_status = status, sn_desiredRevision = 2, sn_observedRevision = 7\<rparr>"

definition sample_world :: "snapshot \<Rightarrow> runtime_world" where
  "sample_world r =
     \<lparr>rw_deployments = [r], rw_processes = [], rw_completed = [], rw_checkpoints = [], rw_audit = [], rw_calls = [],
      rw_provisioned = [], rw_tick = 0\<rparr>"

definition sample_env :: runtime_env where
  "sample_env =
     \<lparr>en_parse_url = (\<lambda>_. None), en_sha256 = (\<lambda>_. replicate 64 CHR ''a''), en_portRange = (41000, 41010),
      en_collate = string_less, en_now = int, en_statement = (\<lambda>_. None), en_aborted = (\<lambda>_. False),
      en_config = (\<lambda>_ _. Inr (Some [(''ADAPTER_ENDPOINT'', JStr ''http://adapter:50051'')])),
      en_credential = (\<lambda>_. None), en_fresh = (\<lambda>_ _. True), en_process = (\<lambda>_ _. None),
      en_probe = (\<lambda>_. Inr \<lparr>hr_processState = Online, hr_live = True, hr_ready = True, hr_reasonCode = ''OK''\<rparr>),
      en_external = (\<lambda>_. Inr \<lparr>hr_processState = Online, hr_live = True, hr_ready = True, hr_reasonCode = ''OK''\<rparr>),
      en_inventory = (\<lambda>_. Inr []), en_credentials = (\<lambda>_ _. None), en_manifest = (\<lambda>_. Some ''provider-2''),
      en_profile = (\<lambda>_ _ _. None), en_secret = (\<lambda>_. Inr ''secret''), en_provision = (\<lambda>_ _. None)\<rparr>"

definition sample_input :: reconcile_input where
  "sample_input =
     \<lparr>rc_providerId = ''provider-1'', rc_deploymentId = ''runtime-1'',
      rc_context = \<lparr>cx_operationId = ''op-1'', cx_correlationId = ''corr-1'', cx_idempotencyKey = ''key-1'',
        cx_timeoutMs = 30000\<rparr>\<rparr>"

definition sample_run :: "deployment_status \<Rightarrow> string \<Rightarrow> runtime_world \<times> (fault + reconcile_result)" where
  "sample_run status desired =
     reconcile (reconcile_ports_of sample_env) sample_input (sample_world (sample_row status desired))"

lemma sample_run_Inr:
  "\<not> isl (snd (sample_run status desired)) \<Longrightarrow>
    reconcile (reconcile_ports_of sample_env) sample_input (sample_world (sample_row status desired)) =
      (fst (sample_run status desired), Inr (projr (snd (sample_run status desired))))"
  by (simp add: sample_run_def)

lemma sample_found:
  "row_of_provider (rc_providerId sample_input) (rc_deploymentId sample_input) (sample_world (sample_row s d)) =
    Some (sample_row s d)"
  by (simp add: row_of_provider_def sample_world_def sample_row_def sample_input_def)

text \<open>An active deployment that is to be stopped; the process manager refuses.\<close>

definition running_world :: runtime_world where
  "running_world = (sample_world (sample_row ACTIVE ''stopped''))
     \<lparr>rw_processes :=
        [(''runtime-aaaaaaaaaaaa-0'',
          \<lparr>pw_projection =
             \<lparr>pj_identity =
                \<lparr>pi_instanceId = ''runtime-aaaaaaaaaaaa-0'', pi_deploymentId = ''runtime-1'',
                 pi_processManager = Some ''pm2'', pi_pm2Name = Some ''sdar-runtime-provider-1-aaaaaaaaaaaa-0'',
                 pi_port = Some 41000, pi_controlEndpoint = None, pi_advertisedEndpoint = None\<rparr>,
              pj_observation = initialObservation\<lparr>ob_processState := Online, ob_livenessState := Live,
                ob_readinessState := Ready\<rparr>,
              pj_observedRevision = 1\<rparr>,
           pw_environment = ''production''\<rparr>)]\<rparr>"

definition stop_run :: "runtime_world \<times> (fault + reconcile_result)" where
  "stop_run =
     reconcile
       (reconcile_ports_of (sample_env\<lparr>en_process := (\<lambda>action t.
          if action = ''stop'' then Some (Error_fault ''PM2_UNAVAILABLE'') else None)\<rparr>))
       sample_input running_world"

definition run_after :: "runtime_world \<times> (fault + reconcile_result)" where
  "run_after = reconcile (reconcile_ports_of sample_env) sample_input (fst stop_run)"

lemma evaluated_stop:
  "case stop_run of (w1, x) \<Rightarrow>
     map pl_action (failed_stops w1) = [''stop''] \<and> isl x \<and> map sn_status (rw_deployments w1) = [FAILED] \<and>
     \<not> isl (snd (reconcile (reconcile_ports_of sample_env) sample_input w1))"
  by code_simp

lemma evaluated_others:
  "\<not> isl (snd (sample_run DRAINING ''running'')) \<and> \<not> isl (snd (sample_run HEALTH_CHECKING ''running''))"
  by code_simp

theorem failed_stop_forgotten_witness:
  "map pl_action (failed_stops (fst stop_run)) = [''stop''] \<and>
   map sn_status (rw_deployments (fst stop_run)) = [FAILED] \<and>
   sn_status (rr_deployment (projr (snd run_after))) = STOPPED \<and> rw_calls (fst run_after) = rw_calls (fst stop_run)"
proof -
  have c: "map pl_action (failed_stops (fst stop_run)) = [''stop''] \<and> isl (snd stop_run) \<and> \<not> isl (snd run_after) \<and>
      map sn_status (rw_deployments (fst stop_run)) = [FAILED]"
    using evaluated_stop unfolding run_after_def case_prod_beta by blast
  have row: "row_of_provider (rc_providerId sample_input) (rc_deploymentId sample_input) running_world =
      Some (sample_row ACTIVE ''stopped'')"
    by (simp add: running_world_def row_of_provider_def sample_world_def sample_row_def sample_input_def)
  have first_run: "reconcile (reconcile_ports_of (sample_env\<lparr>en_process := (\<lambda>action t.
          if action = ''stop'' then Some (Error_fault ''PM2_UNAVAILABLE'') else None)\<rparr>)) sample_input running_world =
      (fst stop_run, Inl (projl (snd stop_run)))"
    using c by (simp add: stop_run_def)
  have run_after: "reconcile (reconcile_ports_of sample_env) sample_input (fst stop_run) =
      (fst run_after, Inr (projr (snd run_after)))"
    using c by (simp add: run_after_def)
  have "failed_stops running_world = []" by (simp add: running_world_def sample_world_def failed_stops_def)
  with c have "failed_stops (fst stop_run) \<noteq> failed_stops running_world" by auto
  from failed_stop_forgotten [OF _ _ row _ _ _ _ first_run this run_after] c show ?thesis
    by (simp add: sample_env_def sample_row_def)
qed

theorem draining_never_left_witness:
  "sn_status (rr_deployment (projr (snd (sample_run DRAINING ''running'')))) = DRAINING \<and>
    rw_calls (fst (sample_run DRAINING ''running'')) = []"
proof -
  have "\<not> isl (snd (sample_run DRAINING ''running''))" using evaluated_others by blast
  from draining_never_left [OF sample_run_Inr [OF this] sample_found] show ?thesis
    by (simp add: sample_row_def sample_world_def)
qed

theorem foreign_provider_not_started_witness:
  "started (fst (sample_run STARTING ''running'')) = [] \<and> isl (snd (sample_run HEALTH_CHECKING ''running'')) = False"
proof
  have "started (fst (sample_run STARTING ''running'')) = started (sample_world (sample_row STARTING ''running''))"
    unfolding sample_run_def
    by (rule foreign_provider_not_started) (simp_all only: sample_found, simp_all add: sample_env_def sample_input_def sample_row_def)
  then show "started (fst (sample_run STARTING ''running'')) = []"
    by (simp add: started_def sample_world_def)
  show "isl (snd (sample_run HEALTH_CHECKING ''running'')) = False" using evaluated_others by blast
qed

text \<open>C30. The loop of the reconciler ends by itself. The method without a bound, whose loop goes round until a
  step returns or fails, always gives a result, whatever the database, the process manager and the adapters
  answer; it is the result of the method with its twelve rounds, and of any bound of at least six. So the
  rounds never run out, and the error \<open>RUNTIME_RECONCILE_STEP_LIMIT\<close> is never raised by the loop.\<close>

theorem reconcile_ends:
  "reconcile_unbounded (reconcile_ports_of E) i w = Some (reconcile (reconcile_ports_of E) i w) \<and>
   reconcile_within (6 + k) (reconcile_ports_of E) i w = reconcile (reconcile_ports_of E) i w"
  using rt.loop_ends rt.limit_irrelevant [of "6 + k"] by simp

end
