(* ===== verification/TaskStore.thy ===== *)
theory TaskStore
  imports DomainTask DomainTiming Protocol
begin

text \<open>
  packages/persistence-postgres/src/tasks.ts: the tables of the task engine (tasks, their commands,
  observations, input requests, admissions and the outbox) with the transactions on them. An operation is
  one serial transaction: it returns the tables it leaves, and an error leaves them as they were. Modelled
  are the columns that some operation reads or that the task shows; not the payloads of events, telemetry
  and links to storage. Of the constraints of migrations/runtime the keys and unique indexes are modelled;
  a violation is the error \<open>23505\<close>. All clock readings of one transaction are one instant of each clock.
\<close>

subsection \<open>Rows\<close>

record clocks =
  ck_process :: int
  ck_database :: int

text \<open>The columns of a task that no operation changes, which are those of its admission.\<close>

record task_identity =
  ti_taskId :: string
  ti_providerId :: string
  ti_operationName :: string
  ti_operationSnapshotId :: string
  ti_authorizationHash :: string
  ti_executionMode :: execution_mode
  ti_simulationId :: "string option"
  ti_arguments :: jobj
  ti_argumentHash :: string
  ti_acceptedAt :: int
  ti_notBefore :: int
  ti_latestStartAt :: int
  ti_deadlineAt :: "int option"
  ti_ttlMs :: "int option"
  ti_timing :: task_timing
  ti_reservationRef :: "string option"

record task_row =
  tk_identity :: task_identity
  tk_externalExecutionId :: "string option"
  tk_internalState :: internal_state
  tk_mcpStatus :: mcp_status
  tk_substate :: "string option"
  tk_statusMessage :: "string option"
  tk_result :: "jobj option"
  tk_error :: "jobj option"
  tk_adapterRevision :: int
  tk_observationRevision :: int
  tk_runtimeRevision :: int
  tk_version :: int
  tk_handleExpiresAt :: "int option"
  tk_terminalAt :: "int option"
  tk_lastConfirmedAt :: "int option"
  tk_runtimeUpdatedAt :: int
  tk_actualStartedAt :: "int option"
  tk_startStopRequestedAt :: "int option"
  tk_startConfirmationDeadline :: "int option"
  tk_startConfirmationAttempts :: int
  tk_invocationAttempt :: int
  tk_nextStartAttemptAt :: "int option"
  tk_scheduleClaimOwner :: "string option"
  tk_scheduleClaimUntil :: "int option"
  tk_cancelRequested :: bool
  tk_stopReason :: "string option"
  tk_nextCommandSequence :: int
  tk_recoveryAttempts :: int
  tk_nextRecoveryAt :: int
  tk_recoveryFailureCount :: int
  tk_lastReconciledAt :: "int option"

abbreviation tk_taskId :: "task_row \<Rightarrow> string" where
  "tk_taskId r \<equiv> ti_taskId (tk_identity r)"

datatype admission_state = Adm_pending | Adm_accepted | Adm_rejected | Adm_published | Adm_uncertain

record admission_row =
  am_identity :: task_identity
  am_state :: admission_state

datatype command_type = Cancel_command | Update_command | Pause_command | Resume_command | Intervention_command

datatype command_state = Cmd_pending | Cmd_claimed | Cmd_retry_wait | Cmd_acknowledged | Cmd_rejected | Cmd_exhausted

record command_row =
  cd_taskId :: string
  cd_sequence :: int
  cd_type :: command_type
  cd_requestHash :: string
  cd_payload :: jobj
  cd_state :: command_state
  cd_attemptCount :: int
  cd_claimOwner :: "string option"
  cd_claimUntil :: "int option"
  cd_stopReason :: "string option"
  cd_priority :: int
  cd_nextAttemptAt :: int
  cd_createdAt :: int
  cd_adapterAck :: "jobj option"
  cd_lastErrorCode :: "string option"
  cd_lastErrorMessage :: "string option"

datatype input_status = In_open | In_answered | In_superseded

record input_row =
  ir_taskId :: string
  ir_key :: string
  ir_description :: string
  ir_schema :: json
  ir_required :: bool
  ir_requestJson :: json
  ir_status :: input_status
  ir_responseHash :: "string option"
  ir_responseJson :: "json option"

datatype inbox_state = Ib_pending | Ib_assigned | Ib_acknowledged | Ib_failed | Ib_ignored

record inbox_row =
  ib_taskId :: string
  ib_key :: string
  ib_responseHash :: string
  ib_responseJson :: json
  ib_state :: inbox_state
  ib_commandSequence :: "int option"
  ib_acceptedAt :: int
  ib_lastErrorCode :: "string option"

text \<open>
  The templates of event keys with their holes. The printed keys begin with the identifier of the task,
  which has no colon, so different templates or holes print differently.
\<close>

datatype event_key =
    Created_key
  | Adapter_key int
  | Start_attempt_key int
  | Start_retry_key int
  | Start_uncertain_key int int
  | Start_reconcile_key int "int option"
  | Start_window_missed_key
  | Admission_rejected_key int
  | Start_confirmation_key int
  | Start_confirmed_key int
  | Recovery_key int
  | Recovery_failed_key int
  | Identity_conflict_key string
  | Cancel_intent_key
  | Input_response_key string
  | Command_key int string
  | Command_fact_key int string command_state int

record observation_row =
  or_taskId :: string
  or_revision :: int
  or_type :: string
  or_reasonCode :: "string option"
  or_occurredAt :: int

record task_db =
  db_tasks :: "(string, task_row) jsmap"
  db_admissions :: "(string, admission_row) jsmap"
  db_commands :: "command_row list"
  db_inputs :: "input_row list"
  db_inbox :: "inbox_row list"
  db_observations :: "observation_row list"
  db_outbox :: "((string \<times> event_key) \<times> string) list"

type_synonym 'a tx = "task_db \<Rightarrow> (task_db \<times> 'a) result"

definition bind_tx :: "'a tx \<Rightarrow> ('a \<Rightarrow> 'b tx) \<Rightarrow> 'b tx" where
  "bind_tx m f db = bind_r (m db) (\<lambda>(db', x). f x db')"

definition ret_tx :: "'a \<Rightarrow> 'a tx" where
  "ret_tx x db = Inr (db, x)"

definition fail_tx :: "string \<Rightarrow> 'a tx" where
  "fail_tx e db = Inl e"

definition find_task :: "string \<Rightarrow> task_db \<Rightarrow> task_row option" where
  "find_task target db = js_get (db_tasks db) target"

definition locked_task :: "string \<Rightarrow> task_row tx" where
  "locked_task target db = (case find_task target db of None \<Rightarrow> Inl ''TASK_NOT_FOUND'' | Some r \<Rightarrow> Inr (db, r))"

definition put_task :: "task_row \<Rightarrow> task_db \<Rightarrow> task_db" where
  "put_task r db = db\<lparr>db_tasks := js_set (tk_taskId r) r (db_tasks db)\<rparr>"

subsection \<open>transitionTask\<close>

text \<open>\<open>TaskTransitionUpdate\<close>: \<open>None\<close> is \<open>undefined\<close>.\<close>

record task_update =
  up_internalState :: "internal_state option"
  up_mcpStatus :: "mcp_status option"
  up_substate :: "string option option"
  up_statusMessage :: "string option option"
  up_result :: "jobj option option"
  up_error :: "jobj option option"
  up_adapterRevision :: "int option"
  up_externalExecutionId :: "string option option"
  up_actualStartedAt :: "int option option"
  up_cancelRequested :: "bool option"
  up_stopReason :: "string option option"
  up_startStopRequestedAt :: "int option option"
  up_startConfirmationDeadline :: "int option option"
  up_startConfirmationAttempts :: "int option"
  up_scheduleClaimOwner :: "string option option"
  up_scheduleClaimUntil :: "int option option"
  up_nextStartAttemptAt :: "int option option"
  up_invocationAttempt :: "int option"
  up_recoveryAttempts :: "int option"
  up_nextRecoveryAt :: "int option"
  up_recoveryFailureCount :: "int option"
  up_lastReconciledAt :: "int option option"

definition no_update :: task_update where
  "no_update =
     \<lparr>up_internalState = None, up_mcpStatus = None, up_substate = None, up_statusMessage = None, up_result = None,
      up_error = None, up_adapterRevision = None, up_externalExecutionId = None, up_actualStartedAt = None,
      up_cancelRequested = None, up_stopReason = None, up_startStopRequestedAt = None,
      up_startConfirmationDeadline = None, up_startConfirmationAttempts = None, up_scheduleClaimOwner = None,
      up_scheduleClaimUntil = None, up_nextStartAttemptAt = None, up_invocationAttempt = None,
      up_recoveryAttempts = None, up_nextRecoveryAt = None, up_recoveryFailureCount = None,
      up_lastReconciledAt = None\<rparr>"

record transition_request =
  tq_taskId :: string
  tq_expectedVersion :: "int option"
  tq_update :: task_update
  tq_type :: string
  tq_occurredAt :: int
  tq_reasonCode :: "string option"
  tq_fromAdapter :: bool
  tq_outboxType :: string
  tq_eventKey :: event_key

definition given :: "'a option \<Rightarrow> 'a \<Rightarrow> 'a" where
  "given assigned old = (case assigned of None \<Rightarrow> old | Some v \<Rightarrow> v)"

text \<open>The columns that the request assigns, and those every transition writes.\<close>

definition assign :: "task_update \<Rightarrow> task_row \<Rightarrow> task_row" where
  "assign u r =
     r\<lparr>tk_internalState := given (up_internalState u) (tk_internalState r),
       tk_mcpStatus := given (up_mcpStatus u) (tk_mcpStatus r),
       tk_substate := given (up_substate u) (tk_substate r),
       tk_statusMessage := given (up_statusMessage u) (tk_statusMessage r),
       tk_result := given (up_result u) (tk_result r),
       tk_error := given (up_error u) (tk_error r),
       tk_adapterRevision := given (up_adapterRevision u) (tk_adapterRevision r),
       tk_externalExecutionId := given (up_externalExecutionId u) (tk_externalExecutionId r),
       tk_actualStartedAt := given (up_actualStartedAt u) (tk_actualStartedAt r),
       tk_cancelRequested := given (up_cancelRequested u) (tk_cancelRequested r),
       tk_stopReason := given (up_stopReason u) (tk_stopReason r),
       tk_startStopRequestedAt := given (up_startStopRequestedAt u) (tk_startStopRequestedAt r),
       tk_startConfirmationDeadline := given (up_startConfirmationDeadline u) (tk_startConfirmationDeadline r),
       tk_startConfirmationAttempts := given (up_startConfirmationAttempts u) (tk_startConfirmationAttempts r),
       tk_scheduleClaimOwner := given (up_scheduleClaimOwner u) (tk_scheduleClaimOwner r),
       tk_scheduleClaimUntil := given (up_scheduleClaimUntil u) (tk_scheduleClaimUntil r),
       tk_nextStartAttemptAt := given (up_nextStartAttemptAt u) (tk_nextStartAttemptAt r),
       tk_invocationAttempt := given (up_invocationAttempt u) (tk_invocationAttempt r),
       tk_recoveryAttempts := given (up_recoveryAttempts u) (tk_recoveryAttempts r),
       tk_nextRecoveryAt := given (up_nextRecoveryAt u) (tk_nextRecoveryAt r),
       tk_recoveryFailureCount := given (up_recoveryFailureCount u) (tk_recoveryFailureCount r),
       tk_lastReconciledAt := given (up_lastReconciledAt u) (tk_lastReconciledAt r)\<rparr>"

definition retain :: "int \<Rightarrow> bool \<Rightarrow> task_row \<Rightarrow> task_row" where
  "retain occurredAt fromAdapter r =
     (let ttl = ti_ttlMs (tk_identity r);
          r = (if isTerminalState (tk_internalState r)
               then r\<lparr>tk_terminalAt := Some occurredAt,
                      tk_handleExpiresAt := Some (occurredAt + (case ttl of None \<Rightarrow> 86400000 | Some t \<Rightarrow> t))\<rparr>
               else (case ttl of None \<Rightarrow> r | Some t \<Rightarrow> r\<lparr>tk_handleExpiresAt := Some (occurredAt + t)\<rparr>))
      in if fromAdapter then r\<lparr>tk_lastConfirmedAt := Some occurredAt\<rparr> else r)"

definition transitioned :: "transition_request \<Rightarrow> task_row \<Rightarrow> task_row" where
  "transitioned q r =
     retain (tq_occurredAt q) (tq_fromAdapter q)
       (assign (tq_update q)
         (r\<lparr>tk_observationRevision := tk_observationRevision r + 1, tk_runtimeRevision := tk_runtimeRevision r + 1,
            tk_version := tk_version r + 1, tk_runtimeUpdatedAt := tq_occurredAt q\<rparr>))"

definition has_event :: "string \<Rightarrow> event_key \<Rightarrow> task_db \<Rightarrow> bool" where
  "has_event target key db \<longleftrightarrow> (target, key) \<in> fst ` set (db_outbox db)"

definition external_taken :: "task_row \<Rightarrow> task_db \<Rightarrow> bool" where
  "external_taken r db \<longleftrightarrow>
     tk_externalExecutionId r \<noteq> None \<and>
     list_ex (\<lambda>x. tk_taskId x \<noteq> tk_taskId r \<and> ti_providerId (tk_identity x) = ti_providerId (tk_identity r) \<and>
                  tk_externalExecutionId x = tk_externalExecutionId r) (js_values (db_tasks db))"

definition observed :: "string \<Rightarrow> int \<Rightarrow> task_db \<Rightarrow> bool" where
  "observed target revision db \<longleftrightarrow>
     list_ex (\<lambda>o'. or_taskId o' = target \<and> or_revision o' = revision) (db_observations db)"

definition record_transition :: "transition_request \<Rightarrow> task_row \<Rightarrow> task_db \<Rightarrow> task_db" where
  "record_transition q r' db =
     put_task r'
       (db\<lparr>db_observations := db_observations db @
            [\<lparr>or_taskId = tq_taskId q, or_revision = tk_observationRevision r', or_type = tq_type q,
              or_reasonCode = tq_reasonCode q, or_occurredAt = tq_occurredAt q\<rparr>],
          db_outbox := db_outbox db @ [((tq_taskId q, tq_eventKey q), tq_outboxType q)]\<rparr>)"

definition transitionTask :: "transition_request \<Rightarrow> (task_row \<times> bool) tx" where
  "transitionTask q db =
     (case find_task (tq_taskId q) db of
        None \<Rightarrow> Inl ''TASK_NOT_FOUND''
      | Some r \<Rightarrow>
          if has_event (tq_taskId q) (tq_eventKey q) db \<or> isTerminalState (tk_internalState r)
          then Inr (db, r, False)
          else if (case tq_expectedVersion q of None \<Rightarrow> False | Some v \<Rightarrow> tk_version r \<noteq> v)
          then Inl ''TASK_VERSION_CONFLICT''
          else if (case up_adapterRevision (tq_update q) of None \<Rightarrow> False | Some v \<Rightarrow> v \<le> tk_adapterRevision r)
          then Inr (db, r, False)
          else
            (let r' = transitioned q r
             in if external_taken r' db \<or> observed (tq_taskId q) (tk_observationRevision r') db then Inl ''23505''
                else Inr (record_transition q r' db, r', True)))"

subsection \<open>Events, inputs and commands\<close>

definition insertOutbox :: "string \<Rightarrow> event_key \<Rightarrow> string \<Rightarrow> task_db \<Rightarrow> task_db" where
  "insertOutbox target key event_type db =
     (if has_event target key db then db
      else db\<lparr>db_outbox := db_outbox db @ [((target, key), event_type)]\<rparr>)"

text \<open>A request that the adapter has sent; \<open>ni_requestJson\<close> is \<open>undefined\<close> for legacy requests.\<close>

record new_input =
  ni_key :: string
  ni_description :: string
  ni_schema :: json
  ni_required :: bool
  ni_requestJson :: "json option"

definition request_json :: "new_input \<Rightarrow> json" where
  "request_json n =
     (case ni_requestJson n of
        Some j \<Rightarrow> j
      | None \<Rightarrow>
          JObj [(''method'', JStr ''elicitation/create''),
                (''params'', JObj [(''mode'', JStr ''form''), (''message'', JStr (ni_description n)),
                                  (''requestedSchema'', ni_schema n)])])"

definition upsertInputRequest :: "string \<Rightarrow> task_db \<Rightarrow> new_input \<Rightarrow> task_db result" where
  "upsertInputRequest target db n =
     (case find (\<lambda>i. ir_taskId i = target \<and> ir_key i = ni_key n) (db_inputs db) of
        None \<Rightarrow>
          Inr (db\<lparr>db_inputs := db_inputs db @
                  [\<lparr>ir_taskId = target, ir_key = ni_key n, ir_description = ni_description n, ir_schema = ni_schema n,
                    ir_required = ni_required n, ir_requestJson = request_json n, ir_status = In_open, ir_responseHash = None,
                    ir_responseJson = None\<rparr>]\<rparr>)
      | Some i \<Rightarrow>
          if ir_schema i = ni_schema n \<and> ir_required i = ni_required n \<and> ir_requestJson i = request_json n
          then Inr (db\<lparr>db_inputs := map (\<lambda>j. if ir_taskId j = target \<and> ir_key j = ni_key n
                                            then j\<lparr>ir_description := ni_description n\<rparr> else j) (db_inputs db)\<rparr>)
          else Inl ''STABLE_INPUT_REQUEST_CONFLICT'')"

definition upsertInputRequests :: "string \<Rightarrow> new_input list \<Rightarrow> unit tx" where
  "upsertInputRequests target inputs db = bind_r (fold_r (upsertInputRequest target) db inputs) (\<lambda>db'. Inr (db', ()))"

definition live_states :: "command_state set" where
  "live_states = {Cmd_pending, Cmd_claimed, Cmd_retry_wait}"

definition normal :: "command_row \<Rightarrow> bool" where
  "normal c \<longleftrightarrow> cd_type c \<noteq> Cancel_command"

text \<open>The latest stop command that may still take effect.\<close>

definition live_cancel :: "string \<Rightarrow> command_row \<Rightarrow> bool" where
  "live_cancel target c \<longleftrightarrow>
     cd_taskId c = target \<and> cd_type c = Cancel_command \<and> cd_state c \<in> insert Cmd_acknowledged live_states"

definition latest :: "command_row list \<Rightarrow> command_row option" where
  "latest cs = find (\<lambda>c. list_all (\<lambda>d. cd_sequence d \<le> cd_sequence c) cs) cs"

definition active_cancel :: "string \<Rightarrow> task_db \<Rightarrow> command_row option" where
  "active_cancel target db = latest (filter (live_cancel target) (db_commands db))"

text \<open>The key and the unique indexes of \<open>task_command\<close> that an insertion can meet.\<close>

definition command_clash :: "command_row \<Rightarrow> task_db \<Rightarrow> bool" where
  "command_clash c db \<longleftrightarrow>
     list_ex (\<lambda>d. cd_taskId d = cd_taskId c \<and>
       (cd_sequence d = cd_sequence c \<or>
        live_cancel (cd_taskId c) d \<and> live_cancel (cd_taskId c) c \<or>
        normal c \<and> cd_type d = cd_type c \<and> cd_requestHash d = cd_requestHash c \<or>
        cd_type c = Intervention_command \<and> cd_type d = Intervention_command \<and>
        js_get (cd_payload c) ''commandId'' \<noteq> None \<and>
        js_get (cd_payload d) ''commandId'' = js_get (cd_payload c) ''commandId'')) (db_commands db)"

definition insert_command :: "command_row \<Rightarrow> unit tx" where
  "insert_command c db =
     (if command_clash c db then Inl ''23505'' else Inr (db\<lparr>db_commands := db_commands db @ [c]\<rparr>, ()))"

definition update_commands :: "(command_row \<Rightarrow> bool) \<Rightarrow> (command_row \<Rightarrow> command_row) \<Rightarrow> task_db \<Rightarrow> task_db" where
  "update_commands P f db = db\<lparr>db_commands := map (\<lambda>c. if P c then f c else c) (db_commands db)\<rparr>"

definition is_command :: "string \<Rightarrow> int \<Rightarrow> command_row \<Rightarrow> bool" where
  "is_command target n c \<longleftrightarrow> cd_taskId c = target \<and> cd_sequence c = n"

definition next_sequence :: "task_row \<Rightarrow> task_db \<Rightarrow> task_db \<times> int" where
  "next_sequence r db =
     (let n = tk_nextCommandSequence r + 1 in (put_task (r\<lparr>tk_nextCommandSequence := n\<rparr>) db, n))"

definition new_command :: "clocks \<Rightarrow> string \<Rightarrow> int \<Rightarrow> command_type \<Rightarrow> string \<Rightarrow> jobj \<Rightarrow> command_row" where
  "new_command ck target n type request_hash payload =
     \<lparr>cd_taskId = target, cd_sequence = n, cd_type = type, cd_requestHash = request_hash, cd_payload = payload,
      cd_state = Cmd_pending, cd_attemptCount = 0, cd_claimOwner = None, cd_claimUntil = None, cd_stopReason = None,
      cd_priority = 0, cd_nextAttemptAt = ck_database ck, cd_createdAt = ck_database ck, cd_adapterAck = None, cd_lastErrorCode = None,
      cd_lastErrorMessage = None\<rparr>"

definition insertCommandFact :: "command_row \<Rightarrow> string \<Rightarrow> task_db \<Rightarrow> task_db" where
  "insertCommandFact c event_type db =
     insertOutbox (cd_taskId c)
       (Command_fact_key (cd_sequence c) event_type (cd_state c) (cd_attemptCount c)) event_type db"

end
