(* ===== verification/TaskSchedule.thy ===== *)
theory TaskSchedule
  imports TaskStore "HOL-Library.Char_ord" "HOL-Library.List_Lexorder"
begin

text \<open>
  packages/persistence-postgres/src/tasks.ts: the admission of a task, its publication, and the claims and
  outcomes of scheduled starts, with the stop of an execution that missed its start window.
\<close>

subsection \<open>Admission\<close>

text \<open>The result tells whether the row was inserted.\<close>

definition createAdmissionIntent :: "task_identity \<Rightarrow> bool tx" where
  "createAdmissionIntent i db =
     (if js_has (db_admissions db) (ti_taskId i) then Inr (db, False)
      else Inr (db\<lparr>db_admissions := js_set (ti_taskId i) \<lparr>am_identity = i, am_state = Adm_pending\<rparr> (db_admissions db)\<rparr>,
                True))"

definition getAdmission :: "string \<Rightarrow> task_db \<Rightarrow> admission_row option" where
  "getAdmission target db = js_get (db_admissions db) target"

definition set_admission :: "string \<Rightarrow> admission_state \<Rightarrow> task_db \<Rightarrow> task_db" where
  "set_admission target state db =
     (case getAdmission target db of
        None \<Rightarrow> db
      | Some a \<Rightarrow> db\<lparr>db_admissions := js_set target (a\<lparr>am_state := state\<rparr>) (db_admissions db)\<rparr>)"

definition markAdmissionUncertain :: "string \<Rightarrow> unit tx" where
  "markAdmissionUncertain target db =
     (case getAdmission target db of
        None \<Rightarrow> Inl ''ADMISSION_INTENT_NOT_FOUND''
      | Some a \<Rightarrow>
          if am_state a \<notin> {Adm_pending, Adm_uncertain} then Inr (db, ())
          else Inr (set_admission target Adm_uncertain db, ()))"

definition recordRejection :: "string \<Rightarrow> unit tx" where
  "recordRejection target db = Inr (set_admission target Adm_rejected db, ())"

definition completeAdmissionWithoutTask :: "string \<Rightarrow> unit tx" where
  "completeAdmissionWithoutTask target db = Inr (set_admission target Adm_published db, ())"

subsection \<open>Transitions of a snapshot\<close>

definition stableObservationType :: "snapshot_transition \<Rightarrow> string" where
  "stableObservationType t =
     (case tr_internalState t of
        TERMINAL_COMPLETED \<Rightarrow> ''task.completed'' | TERMINAL_FAILED \<Rightarrow> ''task.failed''
      | TERMINAL_CANCELLED \<Rightarrow> ''task.cancelled'' | _ \<Rightarrow> tr_observationType t)"

definition reason_in :: "json option \<Rightarrow> string option" where
  "reason_in j =
     (case j of
        Some (JObj kvs) \<Rightarrow> (case js_get kvs ''reasonCode'' of Some (JStr s) \<Rightarrow> Some s | _ \<Rightarrow> None)
      | _ \<Rightarrow> None)"

definition has_reason :: "json option \<Rightarrow> bool" where
  "has_reason j = (case j of Some (JObj kvs) \<Rightarrow> js_has kvs ''reasonCode'' | _ \<Rightarrow> False)"

definition reasonCodeFromTransition :: "snapshot_transition \<Rightarrow> string option" where
  "reasonCodeFromTransition t =
     (case (case tr_result t of Some r \<Rightarrow> Some r | None \<Rightarrow> tr_error t) of
        None \<Rightarrow> None
      | Some body \<Rightarrow>
          if has_reason (js_get body ''structuredContent'') then reason_in (js_get body ''structuredContent'')
          else reason_in (js_get body ''data''))"

definition transitionHasStarted :: "snapshot_transition \<Rightarrow> bool" where
  "transitionHasStarted t \<longleftrightarrow>
     tr_internalState t \<in> {RUNNING, PAUSED, RESUMING, TERMINAL_COMPLETED, TERMINAL_FAILED}"

text \<open>The columns that a transition of a snapshot assigns.\<close>

definition snapshot_update :: "snapshot_transition \<Rightarrow> task_update" where
  "snapshot_update t =
     no_update\<lparr>up_internalState := Some (tr_internalState t), up_mcpStatus := Some (tr_mcpStatus t),
       up_substate := Some (tr_substate t), up_statusMessage := Some (Some (tr_statusMessage t)),
       up_result := Some (tr_result t), up_error := Some (tr_error t)\<rparr>"

subsection \<open>The stop after a missed start window\<close>

definition STOP_WINDOW :: string where
  "STOP_WINDOW = ''START_WINDOW_MISSED''"

definition commandHash :: "(string \<Rightarrow> string) \<Rightarrow> string \<Rightarrow> string" where
  "commandHash sha256 reason = sha256 (''cancel:'' @ reason)"

text \<open>\<open>reason\<close> is given in lower case to the hash.\<close>

definition stop_command :: "(string \<Rightarrow> string) \<Rightarrow> clocks \<Rightarrow> string \<Rightarrow> int \<Rightarrow> string \<Rightarrow> string \<Rightarrow> int \<Rightarrow> int \<Rightarrow> command_row" where
  "stop_command sha256 ck target n reason lower priority nextAttemptAt =
     (new_command ck target n Cancel_command (commandHash sha256 lower) [(''reason'', JStr reason)])
       \<lparr>cd_stopReason := Some reason, cd_priority := priority, cd_nextAttemptAt := nextAttemptAt\<rparr>"

text \<open>
  The live stop command of the task, or a new one. An existing one takes over the reason when
  \<open>take_over\<close> says so.
\<close>

definition ensure_stop ::
    "(string \<Rightarrow> string) \<Rightarrow> clocks \<Rightarrow> task_row \<Rightarrow> string \<Rightarrow> string \<Rightarrow> int \<Rightarrow> int \<Rightarrow> (command_row \<Rightarrow> bool)
       \<Rightarrow> (int \<times> command_row option) tx" where
  "ensure_stop sha256 ck r reason lower priority at_time take_over db =
     (case active_cancel (tk_taskId r) db of
        Some c \<Rightarrow>
          Inr (if take_over c
               then update_commands (is_command (tk_taskId r) (cd_sequence c))
                      (\<lambda>c. c\<lparr>cd_stopReason := Some reason, cd_priority := priority,
                             cd_payload := [(''reason'', JStr reason)]\<rparr>) db
               else db, cd_sequence c, Some c)
      | None \<Rightarrow>
          (case next_sequence r db of
             (db', n) \<Rightarrow>
               bind_r (insert_command (stop_command sha256 ck (tk_taskId r) n reason lower priority at_time) db')
                 (\<lambda>(db'', _). Inr (db'', n, None))))"

definition effective_reason :: "command_row option \<Rightarrow> string" where
  "effective_reason existing =
     (if (case existing of None \<Rightarrow> False | Some c \<Rightarrow> cd_stopReason c = Some ''DEADLINE_REACHED'')
      then ''DEADLINE_REACHED'' else STOP_WINDOW)"

definition window_stop_request :: "task_row \<Rightarrow> int \<Rightarrow> command_row option \<Rightarrow> int \<Rightarrow> transition_request" where
  "window_stop_request r n existing requestedAt =
     \<lparr>tq_taskId = tk_taskId r, tq_expectedVersion = Some (tk_version r),
      tq_update =
        no_update\<lparr>up_internalState := Some STOPPING, up_mcpStatus := Some Working, up_substate := Some (Some ''stopping''),
          up_statusMessage := Some (Some ''Start window missed; safe stop requested.''), up_cancelRequested := Some True,
          up_stopReason := Some (Some (effective_reason existing)),
          up_startStopRequestedAt := (if effective_reason existing = STOP_WINDOW then Some (Some requestedAt) else None),
          up_scheduleClaimOwner := Some None, up_scheduleClaimUntil := Some None, up_nextStartAttemptAt := Some None\<rparr>,
      tq_type = ''task.start_window_violation'', tq_occurredAt = requestedAt, tq_reasonCode = Some STOP_WINDOW,
      tq_fromAdapter = False, tq_outboxType = ''task.start_window_stop_requested'',
      tq_eventKey = Command_key n ''start-window-stop''\<rparr>"

definition persistStartWindowStop :: "(string \<Rightarrow> string) \<Rightarrow> clocks \<Rightarrow> string \<Rightarrow> int \<Rightarrow> unit tx" where
  "persistStartWindowStop sha256 ck target requestedAt =
     bind_tx (locked_task target) (\<lambda>r.
     if isTerminalState (tk_internalState r) then ret_tx ()
     else if tk_externalExecutionId r = None then fail_tx ''START_WINDOW_STOP_WITHOUT_EXECUTION''
     else
       bind_tx
         (ensure_stop sha256 ck r STOP_WINDOW ''start_window_missed'' 200 requestedAt
            (\<lambda>c. cd_stopReason c = Some ''USER_REQUESTED'')) (\<lambda>(n, existing).
       bind_tx (transitionTask (window_stop_request r n existing requestedAt)) (\<lambda>_ db.
         Inr (if existing = None
              then insertCommandFact (new_command ck target n Cancel_command [] []) ''task.command.created'' db
              else db, ()))))"

definition requestStartWindowStop :: "(string \<Rightarrow> string) \<Rightarrow> clocks \<Rightarrow> string \<Rightarrow> int \<Rightarrow> unit tx" where
  "requestStartWindowStop sha256 ck target requestedAt =
     bind_tx (locked_task target) (\<lambda>r.
     if isTerminalState (tk_internalState r) then ret_tx ()
     else if tk_externalExecutionId r = None then fail_tx ''START_WINDOW_STOP_WITHOUT_EXECUTION''
     else persistStartWindowStop sha256 ck target requestedAt)"

subsection \<open>Publication\<close>

record publication =
  pb_identity :: task_identity
  pb_externalExecutionId :: string
  pb_transition :: snapshot_transition
  pb_adapterRevision :: int
  pb_inputRequests :: "new_input list"
  pb_actualStartedAt :: "int option"
  pb_startWindowMissedAt :: "int option"

text \<open>A row with the defaults of the table.\<close>

definition new_task :: "clocks \<Rightarrow> task_identity \<Rightarrow> task_row" where
  "new_task ck i =
     \<lparr>tk_identity = i, tk_externalExecutionId = None, tk_internalState = SCHEDULED, tk_mcpStatus = Working,
      tk_substate = Some ''scheduled'', tk_statusMessage = Some ''Waiting for scheduled start.'', tk_result = None,
      tk_error = None, tk_adapterRevision = 0, tk_observationRevision = 1, tk_runtimeRevision = 1, tk_version = 0,
      tk_handleExpiresAt = None, tk_terminalAt = None, tk_lastConfirmedAt = None, tk_runtimeUpdatedAt = ck_database ck,
      tk_actualStartedAt = None, tk_startStopRequestedAt = None, tk_startConfirmationDeadline = None,
      tk_startConfirmationAttempts = 0, tk_invocationAttempt = 0, tk_nextStartAttemptAt = None,
      tk_scheduleClaimOwner = None, tk_scheduleClaimUntil = None, tk_cancelRequested = False, tk_stopReason = None,
      tk_nextCommandSequence = 0, tk_recoveryAttempts = 0, tk_nextRecoveryAt = ck_database ck,
      tk_recoveryFailureCount = 0, tk_lastReconciledAt = None\<rparr>"

definition accepted_row :: "clocks \<Rightarrow> publication \<Rightarrow> task_row" where
  "accepted_row ck p =
     (let t = pb_transition p; over = isTerminalState (tr_internalState t); ttl = ti_ttlMs (pb_identity p)
      in (new_task ck (pb_identity p))
           \<lparr>tk_externalExecutionId := Some (pb_externalExecutionId p), tk_internalState := tr_internalState t,
            tk_mcpStatus := tr_mcpStatus t, tk_substate := tr_substate t, tk_statusMessage := Some (tr_statusMessage t),
            tk_result := tr_result t, tk_error := tr_error t, tk_adapterRevision := pb_adapterRevision p,
            tk_actualStartedAt := pb_actualStartedAt p, tk_invocationAttempt := 1,
            tk_terminalAt := (if over then Some (ck_database ck) else None),
            tk_handleExpiresAt :=
              (if ttl = None \<and> \<not> over then None
               else Some (ck_database ck + (case ttl of None \<Rightarrow> 86400000 | Some t \<Rightarrow> t))),
            tk_lastConfirmedAt := Some (ck_database ck)\<rparr>)"

definition insert_task :: "task_row \<Rightarrow> unit tx" where
  "insert_task r db =
     (if js_has (db_tasks db) (tk_taskId r) then Inl ''23505:provider_task_pkey''
      else if external_taken r db then Inl ''23505''
      else Inr (put_task r db, ()))"

definition first_observation :: "string \<Rightarrow> string \<Rightarrow> string option \<Rightarrow> int \<Rightarrow> observation_row" where
  "first_observation target type reason occurredAt =
     \<lparr>or_taskId = target, or_revision = 1, or_type = type, or_reasonCode = reason, or_occurredAt = occurredAt\<rparr>"

definition add_observation :: "observation_row \<Rightarrow> task_db \<Rightarrow> task_db" where
  "add_observation x db = db\<lparr>db_observations := db_observations db @ [x]\<rparr>"

definition insertObservation :: "clocks \<Rightarrow> string \<Rightarrow> snapshot_transition \<Rightarrow> unit tx" where
  "insertObservation ck target t db =
     Inr (if observed target 1 db then db
          else add_observation
                 (first_observation target (stableObservationType t) (reasonCodeFromTransition t) (ck_database ck)) db,
          ())"

definition assertAcceptedPublicationIdentity :: "task_row \<Rightarrow> publication \<Rightarrow> bool" where
  "assertAcceptedPublicationIdentity r p \<longleftrightarrow>
     (let i = tk_identity r; j = pb_identity p
      in ti_providerId i = ti_providerId j \<and> ti_operationName i = ti_operationName j \<and>
         ti_operationSnapshotId i = ti_operationSnapshotId j \<and> ti_authorizationHash i = ti_authorizationHash j \<and>
         ti_executionMode i = ti_executionMode j \<and> ti_simulationId i = ti_simulationId j \<and>
         ti_argumentHash i = ti_argumentHash j \<and> tk_externalExecutionId r = Some (pb_externalExecutionId p))"

text \<open>The transaction, and the method: a task that is already there is compared and returned.\<close>

definition publish_transaction :: "(string \<Rightarrow> string) \<Rightarrow> clocks \<Rightarrow> publication \<Rightarrow> task_row tx" where
  "publish_transaction sha256 ck p =
     (let target = ti_taskId (pb_identity p)
      in bind_tx (\<lambda>db. Inr (set_admission target Adm_accepted db, ())) (\<lambda>_.
         bind_tx (insert_task (accepted_row ck p)) (\<lambda>_.
         bind_tx (insertObservation ck target (pb_transition p)) (\<lambda>_.
         bind_tx
           (case pb_startWindowMissedAt p of
              None \<Rightarrow> ret_tx () | Some t \<Rightarrow> persistStartWindowStop sha256 ck target t) (\<lambda>_.
         bind_tx (\<lambda>db. Inr (insertOutbox target Created_key ''task.created'' db, ())) (\<lambda>_.
         bind_tx (upsertInputRequests target (pb_inputRequests p)) (\<lambda>_.
         bind_tx (\<lambda>db. Inr (set_admission target Adm_published db, ())) (\<lambda>_.
           locked_task target))))))))"

definition publishAccepted :: "(string \<Rightarrow> string) \<Rightarrow> clocks \<Rightarrow> publication \<Rightarrow> task_row tx" where
  "publishAccepted sha256 ck p db =
     (case publish_transaction sha256 ck p db of
        Inr x \<Rightarrow> Inr x
      | Inl e \<Rightarrow>
          if e \<noteq> ''23505:provider_task_pkey'' then Inl e
          else
            (case find_task (ti_taskId (pb_identity p)) db of
               None \<Rightarrow> Inl e
             | Some r \<Rightarrow>
                 if assertAcceptedPublicationIdentity r p then Inr (db, r)
                 else Inl ''TASK_ACCEPTED_IDENTITY_CONFLICT''))"

definition scheduled_row :: "clocks \<Rightarrow> task_identity \<Rightarrow> task_row" where
  "scheduled_row ck i =
     (new_task ck i)\<lparr>tk_nextStartAttemptAt := Some (ti_notBefore i),
       tk_handleExpiresAt := (case ti_ttlMs i of None \<Rightarrow> None | Some t \<Rightarrow> Some (ti_acceptedAt i + t)),
       tk_lastConfirmedAt := Some (ti_acceptedAt i)\<rparr>"

definition publishScheduled :: "clocks \<Rightarrow> task_identity \<Rightarrow> task_row tx" where
  "publishScheduled ck i =
     bind_tx (insert_task (scheduled_row ck i)) (\<lambda>_.
     bind_tx
       (\<lambda>db. if observed (ti_taskId i) 1 db then Inl ''23505''
             else Inr (add_observation (first_observation (ti_taskId i) ''task.scheduled'' None (ti_acceptedAt i)) db, ()))
       (\<lambda>_.
     bind_tx (\<lambda>db. Inr (insertOutbox (ti_taskId i) Created_key ''task.created'' db, ())) (\<lambda>_.
     bind_tx (\<lambda>db. Inr (set_admission (ti_taskId i) Adm_published db, ())) (\<lambda>_.
       locked_task (ti_taskId i)))))"

subsection \<open>Claims of due tasks\<close>

fun map_tx :: "('a \<Rightarrow> 'b tx) \<Rightarrow> 'a list \<Rightarrow> 'b list tx" where
  "map_tx f [] = ret_tx []"
| "map_tx f (x # xs) = bind_tx (f x) (\<lambda>y. bind_tx (map_tx f xs) (\<lambda>ys. ret_tx (y # ys)))"

text \<open>The rows of a claim, in the order of the column and then of the identifier, and at most \<open>limit\<close>.\<close>

definition due_rows :: "(task_row \<Rightarrow> bool) \<Rightarrow> (task_row \<Rightarrow> int) \<Rightarrow> int \<Rightarrow> task_db \<Rightarrow> task_row list" where
  "due_rows P column limit db =
     take (nat limit) (sort_key column (sort_key tk_taskId (filter P (js_values (db_tasks db)))))"

definition runtime_request ::
    "task_row \<Rightarrow> task_update \<Rightarrow> string \<Rightarrow> int \<Rightarrow> string \<Rightarrow> event_key \<Rightarrow> transition_request" where
  "runtime_request r u type occurredAt reason key =
     \<lparr>tq_taskId = tk_taskId r, tq_expectedVersion = Some (tk_version r), tq_update = u, tq_type = type,
      tq_occurredAt = occurredAt, tq_reasonCode = Some reason, tq_fromAdapter = False, tq_outboxType = type,
      tq_eventKey = key\<rparr>"

definition transition_row :: "transition_request \<Rightarrow> task_row tx" where
  "transition_row q = bind_tx (transitionTask q) (\<lambda>(r, _). ret_tx r)"

definition start_due_at :: "task_row \<Rightarrow> int" where
  "start_due_at r = (case tk_nextStartAttemptAt r of None \<Rightarrow> ti_notBefore (tk_identity r) | Some t \<Rightarrow> t)"

definition start_due :: "int \<Rightarrow> task_row \<Rightarrow> bool" where
  "start_due now r \<longleftrightarrow>
     tk_externalExecutionId r = None \<and> tk_internalState r = SCHEDULED \<and> ti_notBefore (tk_identity r) \<le> now \<and>
     start_due_at r \<le> now \<and> now < ti_latestStartAt (tk_identity r)"

definition start_claim :: "int \<Rightarrow> string \<Rightarrow> int \<Rightarrow> task_row \<Rightarrow> transition_request" where
  "start_claim now owner lease r =
     runtime_request r
       (no_update\<lparr>up_internalState := Some STARTING, up_statusMessage := Some (Some ''Claimed for scheduled start.''),
          up_scheduleClaimOwner := Some (Some owner), up_scheduleClaimUntil := Some (Some (now + lease)),
          up_invocationAttempt := Some (tk_invocationAttempt r + 1), up_nextStartAttemptAt := Some None\<rparr>)
       ''task.start_attempt'' now ''START_ATTEMPT_CLAIMED'' (Start_attempt_key (tk_invocationAttempt r + 1))"

definition claimDueScheduled :: "int \<Rightarrow> string \<Rightarrow> int \<Rightarrow> int \<Rightarrow> task_row list tx" where
  "claimDueScheduled now owner lease limit db =
     map_tx (\<lambda>r. transition_row (start_claim now owner lease r)) (due_rows (start_due now) start_due_at limit db) db"

definition startWindowMissedTransition :: "int \<Rightarrow> snapshot_transition" where
  "startWindowMissedTransition completedAt =
     \<lparr>tr_internalState = TERMINAL_COMPLETED, tr_mcpStatus = Completed, tr_substate = None,
      tr_statusMessage = ''Start window was missed before execution began.'',
      tr_result = Some
        [(''content'', JArr [JObj [(''type'', JStr ''text''),
            (''text'', JStr ''Start window was missed before execution began.'')]]),
         (''isError'', JBool True),
         (''structuredContent'', JObj [(''outcome'', JStr ''start_window_missed''),
            (''reasonCode'', JStr ''START_WINDOW_MISSED''), (''retryable'', JBool True),
            (''completedAt'', JStr (toISOString completedAt))])],
      tr_error = None, tr_terminal = True, tr_observationType = ''task.start_window_missed''\<rparr>"

definition released :: "task_update \<Rightarrow> task_update" where
  "released u = u\<lparr>up_scheduleClaimOwner := Some None, up_scheduleClaimUntil := Some None\<rparr>"

definition window_missed :: "int \<Rightarrow> task_row \<Rightarrow> transition_request" where
  "window_missed completedAt r =
     runtime_request r
       ((released (snapshot_update (startWindowMissedTransition completedAt)))\<lparr>up_nextStartAttemptAt := Some None\<rparr>)
       ''task.completed'' completedAt ''START_WINDOW_MISSED'' Start_window_missed_key"

definition window_passed :: "int \<Rightarrow> task_row \<Rightarrow> bool" where
  "window_passed now r \<longleftrightarrow>
     tk_internalState r = SCHEDULED \<and> tk_externalExecutionId r = None \<and> ti_latestStartAt (tk_identity r) \<le> now"

definition completeDueStartWindowMisses :: "int \<Rightarrow> int \<Rightarrow> nat tx" where
  "completeDueStartWindowMisses now limit db =
     (let rows = due_rows (window_passed now) (\<lambda>r. ti_latestStartAt (tk_identity r)) limit db
      in bind_tx
           (map_tx (\<lambda>r. transition_row ((window_missed now r)\<lparr>tq_expectedVersion := None\<rparr>)) rows)
           (\<lambda>_. ret_tx (length rows)) db)"

definition claim_lapsed :: "int \<Rightarrow> task_row \<Rightarrow> bool" where
  "claim_lapsed now r \<longleftrightarrow>
     (case tk_scheduleClaimUntil r of None \<Rightarrow> False | Some t \<Rightarrow> t \<le> now)"

definition start_lapsed :: "int \<Rightarrow> task_row \<Rightarrow> bool" where
  "start_lapsed now r \<longleftrightarrow>
     tk_externalExecutionId r = None \<and> tk_internalState r = STARTING \<and> claim_lapsed now r"

definition reconcile_claim :: "int \<Rightarrow> string \<Rightarrow> int \<Rightarrow> task_row \<Rightarrow> transition_request" where
  "reconcile_claim now owner lease r =
     runtime_request r
       (no_update\<lparr>up_scheduleClaimOwner := Some (Some owner), up_scheduleClaimUntil := Some (Some (now + lease)),
          up_statusMessage := Some (Some ''Reconciling an uncertain scheduled start.'')\<rparr>)
       ''task.recovery'' now ''START_RECONCILE_CLAIMED''
       (Start_reconcile_key (tk_invocationAttempt r) (tk_scheduleClaimUntil r))"

definition claimExpiredScheduledStarts :: "int \<Rightarrow> string \<Rightarrow> int \<Rightarrow> int \<Rightarrow> task_row list tx" where
  "claimExpiredScheduledStarts now owner lease limit db =
     map_tx (\<lambda>r. transition_row (reconcile_claim now owner lease r))
       (due_rows (start_lapsed now) (\<lambda>r. case tk_scheduleClaimUntil r of None \<Rightarrow> 0 | Some t \<Rightarrow> t) limit db) db"

subsection \<open>Outcomes of a claimed start\<close>

text \<open>The row of the task while \<open>owner\<close> holds its claim in the given state.\<close>

definition held_row :: "internal_state \<Rightarrow> string \<Rightarrow> string \<Rightarrow> string \<Rightarrow> task_row tx" where
  "held_row state lost target owner db =
     (case find_task target db of
        None \<Rightarrow> Inl lost
      | Some r \<Rightarrow> if tk_internalState r = state \<and> tk_scheduleClaimOwner r = Some owner then Inr (db, r) else Inl lost)"

abbreviation starting_row :: "string \<Rightarrow> string \<Rightarrow> task_row tx" where
  "starting_row \<equiv> held_row STARTING ''SCHEDULED_TASK_CLAIM_LOST''"

definition extend_claim :: "clocks \<Rightarrow> int \<Rightarrow> task_row \<Rightarrow> unit tx" where
  "extend_claim ck lease r db = Inr (put_task (r\<lparr>tk_scheduleClaimUntil := Some (ck_database ck + lease)\<rparr>) db, ())"

definition renewScheduleClaim :: "clocks \<Rightarrow> string \<Rightarrow> string \<Rightarrow> int \<Rightarrow> unit tx" where
  "renewScheduleClaim ck target owner lease = bind_tx (starting_row target owner) (extend_claim ck lease)"

definition or_else :: "'a option \<Rightarrow> 'a option \<Rightarrow> 'a option" where
  "or_else a b = (case a of None \<Rightarrow> b | Some _ \<Rightarrow> a)"

record scheduled_acceptance =
  sa_externalExecutionId :: string
  sa_adapterRevision :: int
  sa_transition :: snapshot_transition
  sa_inputRequests :: "new_input list"
  sa_startWindowMissedAt :: "int option"
  sa_actualStartedAt :: "int option"

definition acceptance_request :: "clocks \<Rightarrow> scheduled_acceptance \<Rightarrow> task_row \<Rightarrow> transition_request" where
  "acceptance_request ck a r =
     \<lparr>tq_taskId = tk_taskId r, tq_expectedVersion = Some (tk_version r),
      tq_update =
        (released (snapshot_update (sa_transition a)))
          \<lparr>up_externalExecutionId := Some (Some (sa_externalExecutionId a)),
           up_adapterRevision := Some (sa_adapterRevision a),
           up_actualStartedAt := Some (or_else (tk_actualStartedAt r) (sa_actualStartedAt a))\<rparr>,
      tq_type = stableObservationType (sa_transition a), tq_occurredAt = ck_process ck,
      tq_reasonCode = reasonCodeFromTransition (sa_transition a), tq_fromAdapter = True,
      tq_outboxType = stableObservationType (sa_transition a), tq_eventKey = Adapter_key (sa_adapterRevision a)\<rparr>"

definition acceptScheduled ::
    "(string \<Rightarrow> string) \<Rightarrow> clocks \<Rightarrow> string \<Rightarrow> string \<Rightarrow> scheduled_acceptance \<Rightarrow> task_row tx" where
  "acceptScheduled sha256 ck target owner a =
     bind_tx (starting_row target owner) (\<lambda>r.
     bind_tx (transition_row (acceptance_request ck a r)) (\<lambda>_.
     bind_tx
       (case sa_startWindowMissedAt a of
          None \<Rightarrow> ret_tx () | Some t \<Rightarrow> persistStartWindowStop sha256 ck target t) (\<lambda>_.
     bind_tx (upsertInputRequests target (sa_inputRequests a)) (\<lambda>_.
     bind_tx (\<lambda>db. Inr (set_admission target Adm_published db, ())) (\<lambda>_.
       locked_task target)))))"

definition releaseScheduleRetry :: "clocks \<Rightarrow> string \<Rightarrow> string \<Rightarrow> int \<Rightarrow> string \<Rightarrow> unit tx" where
  "releaseScheduleRetry ck target owner nextAttemptAt message =
     bind_tx (starting_row target owner) (\<lambda>r.
     bind_tx
       (transition_row
         (runtime_request r
           (released (no_update\<lparr>up_internalState := Some SCHEDULED, up_substate := Some (Some ''scheduled''),
              up_statusMessage := Some (Some message), up_nextStartAttemptAt := Some (Some nextAttemptAt)\<rparr>))
           ''task.start_retry'' (ck_process ck) ''START_RETRY_SCHEDULED'' (Start_retry_key (tk_invocationAttempt r))))
       (\<lambda>_. ret_tx ()))"

definition markScheduleResponseUncertain :: "clocks \<Rightarrow> string \<Rightarrow> string \<Rightarrow> int \<Rightarrow> string \<Rightarrow> unit tx" where
  "markScheduleResponseUncertain ck target owner reconcileAt message =
     bind_tx (starting_row target owner) (\<lambda>r.
     bind_tx
       (transition_row
         (runtime_request r
           (no_update\<lparr>up_statusMessage := Some (Some message), up_scheduleClaimOwner := Some None,
              up_scheduleClaimUntil := Some (Some reconcileAt)\<rparr>)
           ''task.start_uncertain'' (ck_process ck) ''START_RESPONSE_UNCERTAIN''
           (Start_uncertain_key (tk_invocationAttempt r) reconcileAt)))
       (\<lambda>_. ret_tx ()))"

definition deferScheduleReconcile :: "clocks \<Rightarrow> string \<Rightarrow> string \<Rightarrow> int \<Rightarrow> string \<Rightarrow> unit tx" where
  "deferScheduleReconcile = markScheduleResponseUncertain"

definition completeStartWindowMissed :: "string \<Rightarrow> int \<Rightarrow> string \<Rightarrow> task_row tx" where
  "completeStartWindowMissed target completedAt owner =
     bind_tx (held_row STARTING ''SCHEDULED_TASK_NOT_COMPLETED'' target owner) (\<lambda>r.
     if tk_externalExecutionId r \<noteq> None then fail_tx ''SCHEDULED_TASK_NOT_COMPLETED''
     else transition_row (window_missed completedAt r))"

definition admissionRejectedResult :: "int \<Rightarrow> string \<Rightarrow> string \<Rightarrow> bool \<Rightarrow> jobj" where
  "admissionRejectedResult completedAt reasonCode message retryable =
     [(''content'', JArr [JObj [(''type'', JStr ''text''), (''text'', JStr message)]]),
      (''isError'', JBool True),
      (''structuredContent'', JObj [(''outcome'', JStr ''admission_rejected''), (''reasonCode'', JStr reasonCode),
         (''retryable'', JBool retryable), (''completedAt'', JStr (toISOString completedAt))])]"

definition completeScheduledRejection ::
    "string \<Rightarrow> string \<Rightarrow> int \<Rightarrow> string \<Rightarrow> string \<Rightarrow> bool \<Rightarrow> task_row tx" where
  "completeScheduledRejection target owner completedAt reasonCode message retryable =
     bind_tx (held_row STARTING ''SCHEDULED_REJECTION_NOT_COMPLETED'' target owner) (\<lambda>r.
       transition_row
         (runtime_request r
           (released (no_update\<lparr>up_internalState := Some TERMINAL_COMPLETED, up_mcpStatus := Some Completed,
              up_substate := Some None, up_statusMessage := Some (Some message),
              up_result := Some (Some (admissionRejectedResult completedAt reasonCode message retryable)),
              up_error := Some None, up_nextStartAttemptAt := Some None\<rparr>))
           ''task.completed'' completedAt reasonCode (Admission_rejected_key (tk_invocationAttempt r))))"

subsection \<open>Confirmation of bound executions\<close>

definition confirmation_due_at :: "task_row \<Rightarrow> int" where
  "confirmation_due_at r =
     (case tk_startConfirmationDeadline r of None \<Rightarrow> ti_latestStartAt (tk_identity r) | Some t \<Rightarrow> t)"

definition confirmation_due :: "int \<Rightarrow> task_row \<Rightarrow> bool" where
  "confirmation_due now r \<longleftrightarrow>
     \<not> isTerminalState (tk_internalState r) \<and> tk_actualStartedAt r = None \<and> confirmation_due_at r \<le> now \<and>
     tk_externalExecutionId r \<noteq> None \<and> tk_stopReason r = None \<and>
     (tk_scheduleClaimOwner r = None \<or> claim_lapsed now r)"

definition confirmation_claim :: "int \<Rightarrow> string \<Rightarrow> int \<Rightarrow> task_row \<Rightarrow> transition_request" where
  "confirmation_claim now owner lease r =
     runtime_request r
       (no_update\<lparr>up_internalState := Some WAITING_START_CONFIRMATION, up_mcpStatus := Some Working,
          up_statusMessage := Some (Some ''Reconciling bound execution start confirmation.''),
          up_startConfirmationDeadline := Some (Some (confirmation_due_at r)),
          up_startConfirmationAttempts := Some (tk_startConfirmationAttempts r + 1),
          up_scheduleClaimOwner := Some (Some owner), up_scheduleClaimUntil := Some (Some (now + lease))\<rparr>)
       ''task.start_confirmation'' now ''START_CONFIRMATION_CLAIMED''
       (Start_confirmation_key (tk_startConfirmationAttempts r + 1))"

definition claimBoundStartConfirmations :: "int \<Rightarrow> string \<Rightarrow> int \<Rightarrow> int \<Rightarrow> task_row list tx" where
  "claimBoundStartConfirmations now owner limit lease db =
     map_tx (\<lambda>r. transition_row (confirmation_claim now owner lease r))
       (due_rows (confirmation_due now) confirmation_due_at limit db) db"

abbreviation confirming_row :: "string \<Rightarrow> string \<Rightarrow> task_row tx" where
  "confirming_row \<equiv> held_row WAITING_START_CONFIRMATION ''START_CONFIRMATION_CLAIM_LOST''"

definition renewStartConfirmationClaim :: "clocks \<Rightarrow> string \<Rightarrow> string \<Rightarrow> int \<Rightarrow> unit tx" where
  "renewStartConfirmationClaim ck target owner lease = bind_tx (confirming_row target owner) (extend_claim ck lease)"

definition deferStartConfirmation :: "clocks \<Rightarrow> string \<Rightarrow> string \<Rightarrow> int \<Rightarrow> string \<Rightarrow> unit tx" where
  "deferStartConfirmation ck target owner retryAt message =
     bind_tx (confirming_row target owner) (\<lambda>r db.
       Inr (put_task
              (r\<lparr>tk_scheduleClaimOwner := None, tk_scheduleClaimUntil := Some retryAt, tk_statusMessage := Some message,
                 tk_runtimeUpdatedAt := ck_database ck, tk_runtimeRevision := tk_runtimeRevision r + 1\<rparr>) db, ()))"

definition confirmed_request :: "int \<Rightarrow> snapshot_transition \<Rightarrow> int \<Rightarrow> task_row \<Rightarrow> transition_request" where
  "confirmed_request adapterRevision t confirmedAt r =
     \<lparr>tq_taskId = tk_taskId r, tq_expectedVersion = Some (tk_version r),
      tq_update =
        (released (snapshot_update t))\<lparr>up_adapterRevision := Some (max adapterRevision (tk_adapterRevision r)),
           up_actualStartedAt := Some (Some confirmedAt)\<rparr>,
      tq_type = ''task.started'', tq_occurredAt = confirmedAt, tq_reasonCode = Some (tr_statusMessage t),
      tq_fromAdapter = True, tq_outboxType = ''task.started'', tq_eventKey = Start_confirmed_key adapterRevision\<rparr>"

definition confirmBoundExecutionStarted ::
    "string \<Rightarrow> string \<Rightarrow> int \<Rightarrow> snapshot_transition \<Rightarrow> int \<Rightarrow> task_row tx" where
  "confirmBoundExecutionStarted target owner adapterRevision t confirmedAt =
     bind_tx (confirming_row target owner) (\<lambda>r. transition_row (confirmed_request adapterRevision t confirmedAt r))"

definition stopUnconfirmedBoundExecution ::
    "(string \<Rightarrow> string) \<Rightarrow> clocks \<Rightarrow> string \<Rightarrow> string \<Rightarrow> int \<Rightarrow> task_row tx" where
  "stopUnconfirmedBoundExecution sha256 ck target owner requestedAt =
     bind_tx (confirming_row target owner) (\<lambda>_.
     bind_tx (persistStartWindowStop sha256 ck target requestedAt) (\<lambda>_. locked_task target))"

subsection \<open>Deadlines\<close>

definition deadline_due :: "int \<Rightarrow> task_row \<Rightarrow> bool" where
  "deadline_due now r \<longleftrightarrow>
     (case ti_deadlineAt (tk_identity r) of None \<Rightarrow> False | Some t \<Rightarrow> t \<le> now) \<and>
     tk_stopReason r \<noteq> Some ''DEADLINE_REACHED'' \<and> tk_externalExecutionId r \<noteq> None \<and>
     \<not> isTerminalState (tk_internalState r)"

definition deadline_stop :: "int \<Rightarrow> int \<Rightarrow> task_row \<Rightarrow> transition_request" where
  "deadline_stop now n r =
     runtime_request r
       (no_update\<lparr>up_internalState := Some STOPPING, up_mcpStatus := Some Working, up_substate := Some (Some ''stopping''),
          up_statusMessage := Some (Some ''Deadline reached; safe stop requested.''), up_cancelRequested := Some True,
          up_stopReason := Some (Some ''DEADLINE_REACHED'')\<rparr>)
       ''task.deadline_stop_requested'' now ''DEADLINE_REACHED'' (Command_key n ''deadline-stop'')"

definition claim_deadline :: "(string \<Rightarrow> string) \<Rightarrow> clocks \<Rightarrow> int \<Rightarrow> task_row \<Rightarrow> (task_row \<times> int) tx" where
  "claim_deadline sha256 ck now r =
     bind_tx (ensure_stop sha256 ck r ''DEADLINE_REACHED'' ''deadline_reached'' 100 now (\<lambda>_. True)) (\<lambda>(n, existing).
     bind_tx (transition_row (deadline_stop now n r)) (\<lambda>r' db.
       Inr (if existing = None
            then insertCommandFact (new_command ck (tk_taskId r) n Cancel_command [] []) ''task.command.created'' db
            else db, r', n)))"

definition claimExpiredDeadlines ::
    "(string \<Rightarrow> string) \<Rightarrow> clocks \<Rightarrow> int \<Rightarrow> int \<Rightarrow> (task_row \<times> int) list tx" where
  "claimExpiredDeadlines sha256 ck now limit db =
     map_tx (claim_deadline sha256 ck now)
       (due_rows (deadline_due now) (\<lambda>r. case ti_deadlineAt (tk_identity r) of None \<Rightarrow> 0 | Some t \<Rightarrow> t) limit db) db"

end
