(* ===== verification/TaskCommands.thy ===== *)
theory TaskCommands
  imports TaskSchedule
begin

text \<open>
  packages/persistence-postgres/src/tasks.ts: the commands of a task. A command is created for a task, claimed
  under a lease by a dispatcher, and resolved: acknowledged, rejected, retried or exhausted. A safe stop (a
  command \<open>CANCEL\<close>) takes precedence over the others. Also modelled: the snapshots and the recovery results
  that the runtime applies to a task.
\<close>

subsection \<open>Resolutions\<close>

record command_resolution =
  cr_command :: command_row
  cr_duplicate :: bool
  cr_created :: bool

definition existing_command :: "command_row \<Rightarrow> command_resolution" where
  "existing_command c = \<lparr>cr_command = c, cr_duplicate = True, cr_created = False\<rparr>"

definition SUPERSEDED :: string where
  "SUPERSEDED = ''SUPERSEDED_BY_SAFE_STOP''"

definition exhaust_command :: "string \<Rightarrow> string option \<Rightarrow> command_row \<Rightarrow> command_row" where
  "exhaust_command code message c =
     c\<lparr>cd_state := Cmd_exhausted, cd_claimOwner := None, cd_claimUntil := None, cd_lastErrorCode := Some code,
       cd_lastErrorMessage := (if message = None then cd_lastErrorMessage c else message)\<rparr>"

definition superseding :: "command_row \<Rightarrow> command_row" where
  "superseding = exhaust_command SUPERSEDED (Some ''Safe stop superseded the pending command.'')"

text \<open>An \<open>UPDATE ... RETURNING\<close> over commands: the tables, and the new rows.\<close>

definition update_returning ::
    "(command_row \<Rightarrow> bool) \<Rightarrow> (command_row \<Rightarrow> command_row) \<Rightarrow> task_db \<Rightarrow> task_db \<times> command_row list" where
  "update_returning P f db = (update_commands P f db, map f (filter P (db_commands db)))"

definition update_inbox :: "(inbox_row \<Rightarrow> bool) \<Rightarrow> (inbox_row \<Rightarrow> inbox_row) \<Rightarrow> task_db \<Rightarrow> task_db" where
  "update_inbox P f db = db\<lparr>db_inbox := map (\<lambda>i. if P i then f i else i) (db_inbox db)\<rparr>"

definition assigned_to :: "string \<Rightarrow> int \<Rightarrow> inbox_row \<Rightarrow> bool" where
  "assigned_to target n i \<longleftrightarrow> ib_taskId i = target \<and> ib_commandSequence i = Some n \<and> ib_state i = Ib_assigned"

definition settle_inbox :: "string \<Rightarrow> int \<Rightarrow> inbox_state \<Rightarrow> string option \<Rightarrow> task_db \<Rightarrow> task_db" where
  "settle_inbox target n state code =
     update_inbox (assigned_to target n) (\<lambda>i. i\<lparr>ib_state := state, ib_lastErrorCode := code\<rparr>)"

definition markAssignedInputResponsesIgnored :: "string \<Rightarrow> int \<Rightarrow> task_db \<Rightarrow> task_db" where
  "markAssignedInputResponsesIgnored target n = settle_inbox target n Ib_ignored (Some SUPERSEDED)"

definition superseded_fact :: "command_row \<Rightarrow> task_db \<Rightarrow> task_db" where
  "superseded_fact c = insertCommandFact c ''task.command.superseded''"

definition ignore_and_fact :: "command_row \<Rightarrow> task_db \<Rightarrow> task_db" where
  "ignore_and_fact c db =
     superseded_fact c
       (if cd_type c = Update_command then markAssignedInputResponsesIgnored (cd_taskId c) (cd_sequence c) db else db)"

definition stopping :: "task_row \<Rightarrow> bool" where
  "stopping r \<longleftrightarrow> tk_cancelRequested r \<or> tk_stopReason r \<noteq> None \<or> tk_internalState r = STOPPING"

subsection \<open>Creation\<close>

definition recordCommandResolutionFact :: "command_row \<Rightarrow> string \<Rightarrow> task_db \<Rightarrow> task_db" where
  "recordCommandResolutionFact c event_type = insertCommandFact (c\<lparr>cd_attemptCount := 0\<rparr>) event_type"

definition cancel_request :: "clocks \<Rightarrow> int \<Rightarrow> task_row \<Rightarrow> transition_request" where
  "cancel_request ck n r =
     (runtime_request r
       (no_update\<lparr>up_cancelRequested := Some True, up_stopReason := Some (Some ''USER_REQUESTED''),
          up_internalState := Some STOPPING, up_mcpStatus := Some Working, up_substate := Some (Some ''stopping''),
          up_statusMessage := Some (Some ''Cancellation requested.'')\<rparr>)
       ''task.cancel_requested'' (ck_process ck) ''USER_REQUESTED'' (Command_key n ''requested''))"

definition beginCancel :: "clocks \<Rightarrow> string \<Rightarrow> string \<Rightarrow> command_resolution tx" where
  "beginCancel ck target request_hash =
     bind_tx (locked_task target) (\<lambda>r db.
       case active_cancel target db of
         Some c \<Rightarrow> Inr (recordCommandResolutionFact c ''task.command.duplicate'' db, existing_command c)
       | None \<Rightarrow>
           if isTerminalState (tk_internalState r) then Inl ''TASK_ALREADY_TERMINAL''
           else
             (case update_returning
                     (\<lambda>c. cd_taskId c = target \<and> normal c \<and> cd_state c \<in> {Cmd_pending, Cmd_retry_wait}) superseding db of
                (db, superseded) \<Rightarrow>
             (case next_sequence r (fold superseded_fact superseded db) of
                (db, n) \<Rightarrow>
             let c = (new_command ck target n Cancel_command request_hash [(''reason'', JStr ''USER_REQUESTED'')])
                       \<lparr>cd_stopReason := Some ''USER_REQUESTED'', cd_priority := 100\<rparr>
             in bind_tx (insert_command c) (\<lambda>_.
                bind_tx (transitionTask (cancel_request ck n r)) (\<lambda>_ db.
                  Inr (insertCommandFact c ''task.command.created'' db,
                       \<lparr>cr_command = c, cr_duplicate = False, cr_created = True\<rparr>))) db)))"

definition recordCooperativeCancellationIntent :: "clocks \<Rightarrow> string \<Rightarrow> task_row tx" where
  "recordCooperativeCancellationIntent ck target =
     transition_row
       \<lparr>tq_taskId = target, tq_expectedVersion = None,
        tq_update = no_update\<lparr>up_cancelRequested := Some True, up_stopReason := Some (Some ''USER_REQUESTED'')\<rparr>,
        tq_type = ''task.cancel_requested'', tq_occurredAt = ck_process ck,
        tq_reasonCode = Some ''ADAPTER_CANCEL_UNSUPPORTED'', tq_fromAdapter = False,
        tq_outboxType = ''task.cancel_intent_recorded'', tq_eventKey = Cancel_intent_key\<rparr>"

definition command_type_name :: "command_type \<Rightarrow> string" where
  "command_type_name t =
     (case t of
        Cancel_command \<Rightarrow> ''CANCEL'' | Update_command \<Rightarrow> ''UPDATE'' | Pause_command \<Rightarrow> ''PAUSE''
      | Resume_command \<Rightarrow> ''RESUME'' | Intervention_command \<Rightarrow> ''INTERVENTION'')"

text \<open>The rest of a method that creates a command, from the allocation of its sequence number.\<close>

definition create_command ::
    "clocks \<Rightarrow> task_row \<Rightarrow> command_type \<Rightarrow> string \<Rightarrow> jobj \<Rightarrow> command_resolution tx" where
  "create_command ck r type request_hash payload db =
     (case next_sequence r db of
        (db, n) \<Rightarrow>
     let c = new_command ck (tk_taskId r) n type request_hash payload
     in bind_tx (insert_command c) (\<lambda>_.
        bind_tx
          (transitionTask
            (runtime_request r no_update ''task.command_requested'' (ck_process ck) (command_type_name type)
               (Command_key n ''requested''))) (\<lambda>_ db.
          Inr (insertCommandFact c ''task.command.created'' db,
               \<lparr>cr_command = c, cr_duplicate = False, cr_created = True\<rparr>))) db)"

definition requested_before :: "string \<Rightarrow> command_type \<Rightarrow> string \<Rightarrow> task_db \<Rightarrow> command_row option" where
  "requested_before target type request_hash db =
     latest (filter (\<lambda>c. cd_taskId c = target \<and> cd_type c = type \<and> cd_requestHash c = request_hash) (db_commands db))"

definition oldest :: "command_row list \<Rightarrow> command_row option" where
  "oldest cs = find (\<lambda>c. list_all (\<lambda>d. cd_sequence c \<le> cd_sequence d) cs) cs"

definition active_command :: "string \<Rightarrow> task_db \<Rightarrow> command_row option" where
  "active_command target db =
     oldest (filter (\<lambda>c. cd_taskId c = target \<and> cd_state c \<in> live_states) (db_commands db))"

definition beginCommand :: "clocks \<Rightarrow> string \<Rightarrow> command_type \<Rightarrow> string \<Rightarrow> jobj \<Rightarrow> command_resolution tx" where
  "beginCommand ck target type request_hash payload =
     bind_tx (locked_task target) (\<lambda>r db.
       case requested_before target type request_hash db of
         Some c \<Rightarrow> Inr (recordCommandResolutionFact c ''task.command.duplicate'' db, existing_command c)
       | None \<Rightarrow>
           if isTerminalState (tk_internalState r) then Inl ''TASK_ALREADY_TERMINAL''
           else if stopping r then
             (case active_cancel target db of
                Some c \<Rightarrow> Inr (db, existing_command c)
              | None \<Rightarrow> Inl ''STOP_IN_PROGRESS_WITHOUT_COMMAND'')
           else
             (case active_command target db of
                Some c \<Rightarrow> Inr (db, existing_command c)
              | None \<Rightarrow> create_command ck r type request_hash payload db))"

definition findCommandByRequestHash :: "string \<Rightarrow> command_type \<Rightarrow> string \<Rightarrow> task_db \<Rightarrow> command_resolution option" where
  "findCommandByRequestHash target type request_hash db =
     map_option existing_command (requested_before target type request_hash db)"

definition hex64 :: "string \<Rightarrow> bool" where
  "hex64 s \<longleftrightarrow> length s = 64 \<and> list_all (\<lambda>c. c \<in> set ''0123456789abcdef'') s"

text \<open>The hash is over \<open>commandId\<close>, a NUL character and \<open>semanticHash\<close>.\<close>

definition intervention_hash :: "(string \<Rightarrow> string) \<Rightarrow> string \<Rightarrow> string \<Rightarrow> string" where
  "intervention_hash sha256 commandId semanticHash = sha256 (commandId @ CHR 0x00 # semanticHash)"

definition beginBusinessInterventionCommand ::
    "(string \<Rightarrow> string) \<Rightarrow> clocks \<Rightarrow> string \<Rightarrow> string \<Rightarrow> string \<Rightarrow> jobj \<Rightarrow> command_resolution tx" where
  "beginBusinessInterventionCommand sha256 ck target commandId semanticHash payload =
     (if length commandId < 1 \<or> 256 < length commandId \<or> \<not> hex64 semanticHash \<or>
         js_get payload ''commandId'' \<noteq> Some (JStr commandId) \<or>
         js_get payload ''semanticHash'' \<noteq> Some (JStr semanticHash) \<or>
         (case js_get payload ''command'' of Some (JObj _) \<Rightarrow> False | _ \<Rightarrow> True)
      then fail_tx ''BUSINESS_INTERVENTION_COMMAND_INVALID''
      else
        bind_tx (locked_task target) (\<lambda>r db.
          case latest (filter (\<lambda>c. cd_taskId c = target \<and> cd_type c = Intervention_command \<and>
                                   js_get (cd_payload c) ''commandId'' = Some (JStr commandId)) (db_commands db)) of
            Some c \<Rightarrow>
              if js_get (cd_payload c) ''semanticHash'' \<noteq> Some (JStr semanticHash) then Inl ''COMMAND_ID_CONFLICT''
              else Inr (db, existing_command c)
          | None \<Rightarrow>
              if tk_internalState r \<noteq> RUNNING \<or> tk_cancelRequested r \<or> tk_stopReason r \<noteq> None
              then Inl ''BUSINESS_INTERVENTION_TASK_NOT_RUNNING''
              else if list_ex (\<lambda>c. cd_taskId c = target \<and> cd_type c = Intervention_command \<and> cd_state c = Cmd_exhausted \<and>
                        cd_lastErrorCode c = Some ''INTERVENTION_DELIVERY_EXHAUSTED'') (db_commands db)
              then Inl ''BUSINESS_CHANGE_RECONCILIATION_REQUIRED''
              else if list_ex (\<lambda>c. cd_taskId c = target \<and> cd_state c \<in> live_states) (db_commands db)
              then Inl ''BUSINESS_CHANGE_IN_PROGRESS''
              else create_command ck r Intervention_command (intervention_hash sha256 commandId semanticHash) payload db))"

subsection \<open>Claims\<close>

definition claim_expired :: "int \<Rightarrow> command_row \<Rightarrow> bool" where
  "claim_expired at_time c \<longleftrightarrow>
     cd_state c = Cmd_claimed \<and> (case cd_claimUntil c of None \<Rightarrow> False | Some t \<Rightarrow> t \<le> at_time)"

definition cancelled_task :: "command_row \<Rightarrow> task_db \<Rightarrow> bool" where
  "cancelled_task c db = (case find_task (cd_taskId c) db of None \<Rightarrow> False | Some r \<Rightarrow> tk_cancelRequested r)"

definition in_flight :: "int \<Rightarrow> command_row \<Rightarrow> task_db \<Rightarrow> bool" where
  "in_flight at_time c db \<longleftrightarrow>
     list_ex (\<lambda>d. cd_taskId d = cd_taskId c \<and> cd_state d = Cmd_claimed \<and>
                  (case cd_claimUntil d of None \<Rightarrow> False | Some t \<Rightarrow> at_time < t) \<and> cd_sequence d \<noteq> cd_sequence c)
       (db_commands db)"

definition due_command :: "int \<Rightarrow> task_db \<Rightarrow> command_row \<Rightarrow> bool" where
  "due_command at_time db c \<longleftrightarrow>
     find_task (cd_taskId c) db \<noteq> None \<and>
     (cd_state c \<in> {Cmd_pending, Cmd_retry_wait} \<and> cd_nextAttemptAt c \<le> at_time \<or> claim_expired at_time c) \<and>
     (cd_type c = Cancel_command \<or> \<not> cancelled_task c db) \<and> \<not> in_flight at_time c db"

definition ranks_before :: "command_row \<Rightarrow> command_row \<Rightarrow> bool" where
  "ranks_before c d \<longleftrightarrow>
     cd_priority d < cd_priority c \<or> cd_priority c = cd_priority d \<and>
       (cd_nextAttemptAt c < cd_nextAttemptAt d \<or> cd_nextAttemptAt c = cd_nextAttemptAt d \<and>
         (cd_createdAt c < cd_createdAt d \<or> cd_createdAt c = cd_createdAt d \<and> cd_sequence c < cd_sequence d))"

definition first_ranked :: "int \<Rightarrow> task_db \<Rightarrow> command_row \<Rightarrow> bool" where
  "first_ranked at_time db c \<longleftrightarrow>
     due_command at_time db c \<and>
     list_all (\<lambda>d. \<not> (due_command at_time db d \<and> cd_taskId d = cd_taskId c \<and> ranks_before d c)) (db_commands db)"

definition claimable_commands :: "int \<Rightarrow> int \<Rightarrow> task_db \<Rightarrow> command_row list" where
  "claimable_commands at_time limit db =
     take (nat limit) (sort_key cd_taskId (filter (first_ranked at_time db) (db_commands db)))"

definition claimed_command :: "int \<Rightarrow> string \<Rightarrow> int \<Rightarrow> command_row \<Rightarrow> command_row" where
  "claimed_command at_time owner lease c =
     c\<lparr>cd_state := Cmd_claimed, cd_claimOwner := Some owner, cd_claimUntil := Some (at_time + lease),
       cd_attemptCount := cd_attemptCount c + 1\<rparr>"

definition is_one_of :: "command_row list \<Rightarrow> command_row \<Rightarrow> bool" where
  "is_one_of cs c \<longleftrightarrow> list_ex (\<lambda>d. is_command (cd_taskId d) (cd_sequence d) c) cs"

text \<open>The unique index \<open>task_command_one_claimed_per_task_idx\<close>.\<close>

definition single_claims :: "task_db \<Rightarrow> bool" where
  "single_claims db \<longleftrightarrow> distinct (map cd_taskId (filter (\<lambda>c. cd_state c = Cmd_claimed) (db_commands db)))"

definition supersede_lapsed :: "int \<Rightarrow> task_db \<Rightarrow> task_db" where
  "supersede_lapsed at_time db =
     (case update_returning (\<lambda>c. normal c \<and> claim_expired at_time c \<and> cancelled_task c db) superseding db of
        (db, superseded) \<Rightarrow> fold ignore_and_fact superseded db)"

definition claimDueCommands :: "clocks \<Rightarrow> int \<Rightarrow> string \<Rightarrow> int \<Rightarrow> int \<Rightarrow> command_row list tx" where
  "claimDueCommands ck now owner lease limit db0 =
     (let at_time = max now (ck_database ck);
          db = supersede_lapsed at_time db0
      in case update_returning (is_one_of (claimable_commands at_time limit db)) (claimed_command at_time owner lease) db of
           (db', commands) \<Rightarrow>
             if single_claims db'
             then Inr (fold (\<lambda>c. insertCommandFact c ''task.command.claimed'') commands db', commands)
             else Inr (db0, []))"

definition held_command :: "command_row \<Rightarrow> command_row \<Rightarrow> bool" where
  "held_command c d \<longleftrightarrow>
     is_command (cd_taskId c) (cd_sequence c) d \<and> cd_state d = Cmd_claimed \<and> cd_claimOwner d = cd_claimOwner c \<and>
     cd_claimOwner c \<noteq> None"

text \<open>Writes the claimed row; the claim must still be held.\<close>

definition on_claim :: "command_row \<Rightarrow> (command_row \<Rightarrow> command_row) \<Rightarrow> unit tx" where
  "on_claim c f db =
     (if list_ex (held_command c) (db_commands db) then Inr (update_commands (held_command c) f db, ())
      else Inl ''COMMAND_CLAIM_LOST'')"

definition with_fact :: "command_row \<Rightarrow> command_state \<Rightarrow> string \<Rightarrow> unit tx" where
  "with_fact c state event_type db = Inr (insertCommandFact (c\<lparr>cd_state := state\<rparr>) event_type db, ())"

definition release_claim :: "command_state \<Rightarrow> string option \<Rightarrow> string option \<Rightarrow> command_row \<Rightarrow> command_row" where
  "release_claim state code message c =
     c\<lparr>cd_state := state, cd_claimOwner := None, cd_claimUntil := None, cd_lastErrorCode := code,
       cd_lastErrorMessage := message\<rparr>"

definition retryClaimedCommand :: "command_row \<Rightarrow> int \<Rightarrow> string \<Rightarrow> string \<Rightarrow> unit tx" where
  "retryClaimedCommand c nextAttemptAt code message =
     bind_tx
       (on_claim c (\<lambda>d. (release_claim Cmd_retry_wait (Some code) (Some message) d)\<lparr>cd_nextAttemptAt := nextAttemptAt\<rparr>))
       (\<lambda>_. with_fact c Cmd_retry_wait ''task.command.retry_scheduled'')"

definition recordCommandStarted :: "command_row \<Rightarrow> unit tx" where
  "recordCommandStarted c = bind_tx (on_claim c (\<lambda>d. d)) (\<lambda>_. with_fact c Cmd_claimed ''task.command.started'')"

definition renewCommandClaim :: "clocks \<Rightarrow> command_row \<Rightarrow> int \<Rightarrow> unit tx" where
  "renewCommandClaim ck c lease = on_claim c (\<lambda>d. d\<lparr>cd_claimUntil := Some (ck_database ck + lease)\<rparr>)"

definition rejectClaimedCommand :: "command_row \<Rightarrow> string \<Rightarrow> string \<Rightarrow> unit tx" where
  "rejectClaimedCommand c code message =
     bind_tx (on_claim c (release_claim Cmd_rejected (Some code) (Some message))) (\<lambda>_.
     bind_tx
       (\<lambda>db. Inr (if cd_type c = Update_command
                  then settle_inbox (cd_taskId c) (cd_sequence c) Ib_failed (Some ''INPUT_RESPONSE_REJECTED'') db
                  else db, ())) (\<lambda>_.
       with_fact c Cmd_rejected ''task.command.rejected''))"

definition acknowledged :: "jobj \<Rightarrow> command_row \<Rightarrow> command_row" where
  "acknowledged ack d = (release_claim Cmd_acknowledged None None d)\<lparr>cd_adapterAck := Some ack\<rparr>"

definition acknowledgeClaimedCommand :: "command_row \<Rightarrow> jobj \<Rightarrow> unit tx" where
  "acknowledgeClaimedCommand c ack =
     bind_tx (on_claim c (acknowledged ack)) (\<lambda>_. with_fact c Cmd_acknowledged ''task.command.acknowledged'')"

end
