(* ===== verification/TaskOutcomes.thy ===== *)
theory TaskOutcomes
  imports TaskCommands
begin

text \<open>
  packages/persistence-postgres/src/tasks.ts: commands that a safe stop or the state of the task supersedes,
  the outcomes of a stop, the snapshots of the Adapter and the results of recovery.
\<close>

subsection \<open>Superseded commands\<close>

definition supersedable :: "string \<Rightarrow> bool \<Rightarrow> command_row \<Rightarrow> bool" where
  "supersedable target includeClaimed c \<longleftrightarrow>
     cd_taskId c = target \<and> normal c \<and>
     (cd_state c \<in> {Cmd_pending, Cmd_retry_wait} \<or> includeClaimed \<and> cd_state c = Cmd_claimed)"

definition supersedeNormalCommandsForSafeStop :: "string \<Rightarrow> bool \<Rightarrow> nat tx" where
  "supersedeNormalCommandsForSafeStop target includeClaimed db =
     (case update_returning (supersedable target includeClaimed) superseding db of
        (db', superseded) \<Rightarrow> Inr (fold ignore_and_fact superseded db', length superseded))"

definition supersedeClaimedCommandForSafeStop :: "clocks \<Rightarrow> command_row \<Rightarrow> unit tx" where
  "supersedeClaimedCommandForSafeStop ck c db =
     (if list_ex (\<lambda>d. held_command c d \<and> normal d) (db_commands db) then
        Inr (superseded_fact (c\<lparr>cd_state := Cmd_exhausted\<rparr>)
          ((if cd_type c = Update_command then markAssignedInputResponsesIgnored (cd_taskId c) (cd_sequence c) else id)
            (update_commands (\<lambda>d. held_command c d \<and> normal d)
              (\<lambda>d. (exhaust_command SUPERSEDED (Some ''Safe stop superseded the claimed command.'') d)
                     \<lparr>cd_nextAttemptAt := ck_database ck\<rparr>) db)), ())
      else Inl ''COMMAND_CLAIM_LOST'')"

definition supersedeExpiredClaimedNormalCommandsForSafeStop :: "clocks \<Rightarrow> string \<Rightarrow> nat tx" where
  "supersedeExpiredClaimedNormalCommandsForSafeStop ck target db =
     (case update_returning (\<lambda>c. cd_taskId c = target \<and> normal c \<and> claim_expired (ck_database ck) c) superseding db of
        (db', superseded) \<Rightarrow> Inr (fold ignore_and_fact superseded db', length superseded))"

text \<open>Why a command is superseded by the state of its task; \<open>other\<close> when nothing else applies.\<close>

definition state_reason :: "string \<Rightarrow> task_row \<Rightarrow> string" where
  "state_reason other r =
     (if stopping r then SUPERSEDED else if isTerminalState (tk_internalState r) then ''TASK_TERMINAL'' else other)"

definition running_free :: "task_row \<Rightarrow> bool" where
  "running_free r \<longleftrightarrow> tk_internalState r = RUNNING \<and> \<not> tk_cancelRequested r \<and> tk_stopReason r = None"

definition supersedeClaimedBusinessInterventionIfNotRunning :: "command_row \<Rightarrow> bool tx" where
  "supersedeClaimedBusinessInterventionIfNotRunning c =
     (if cd_type c \<noteq> Intervention_command then ret_tx False
      else
        bind_tx (locked_task (cd_taskId c)) (\<lambda>r.
        if running_free r then ret_tx False
        else
          bind_tx
            (on_claim c
              (exhaust_command (state_reason ''BUSINESS_INTERVENTION_TASK_NOT_RUNNING'' r)
                 (Some ''Business intervention was superseded by Task state.''))) (\<lambda>_.
          bind_tx (with_fact c Cmd_exhausted ''task.command.superseded'') (\<lambda>_. ret_tx True))))"

definition exhaustClaimedBusinessIntervention :: "command_row \<Rightarrow> string \<Rightarrow> unit tx" where
  "exhaustClaimedBusinessIntervention c message =
     (if cd_type c \<noteq> Intervention_command then fail_tx ''INTERVENTION_COMMAND_REQUIRED''
      else
        bind_tx (on_claim c (exhaust_command ''INTERVENTION_DELIVERY_EXHAUSTED'' (Some message))) (\<lambda>_.
          with_fact c Cmd_exhausted ''task.command.exhausted''))"

subsection \<open>Outcomes of a stop\<close>

definition ack_text :: "jobj \<Rightarrow> string \<Rightarrow> string \<Rightarrow> string" where
  "ack_text ack member otherwise = (case js_get ack member of Some (JStr s) \<Rightarrow> s | _ \<Rightarrow> otherwise)"

definition cancel_rejection :: "clocks \<Rightarrow> command_row \<Rightarrow> int \<Rightarrow> snapshot_transition \<Rightarrow> jobj \<Rightarrow> task_row \<Rightarrow> transition_request" where
  "cancel_rejection ck c adapterRevision t ack r =
     runtime_request r
       ((snapshot_update t)
          \<lparr>up_adapterRevision := (if tk_adapterRevision r < adapterRevision then Some adapterRevision else None),
           up_cancelRequested := Some False, up_stopReason := Some None\<rparr>)
       ''task.cancel_rejected'' (ck_process ck) (ack_text ack ''reasonCode'' ''CANCEL_REJECTED'')
       (Command_key (cd_sequence c) ''rejected'')"

definition rejectUserCancel :: "clocks \<Rightarrow> command_row \<Rightarrow> int \<Rightarrow> snapshot_transition \<Rightarrow> jobj \<Rightarrow> task_row tx" where
  "rejectUserCancel ck c adapterRevision t ack =
     bind_tx (locked_task (cd_taskId c)) (\<lambda>r.
     if isTerminalState (tk_internalState r) then
       (\<lambda>db. Inr (insertCommandFact (c\<lparr>cd_state := Cmd_exhausted\<rparr>) ''task.command.exhausted''
                (update_commands (is_command (cd_taskId c) (cd_sequence c))
                   (exhaust_command ''TASK_TERMINAL'' None) db), r))
     else
       bind_tx (transition_row (cancel_rejection ck c adapterRevision t ack r)) (\<lambda>r'.
       bind_tx
         (on_claim c (\<lambda>d.
           (release_claim Cmd_rejected (Some (ack_text ack ''reasonCode'' ''CANCEL_REJECTED''))
              (Some (ack_text ack ''message'' ''Adapter rejected cancellation.'')) d)\<lparr>cd_adapterAck := Some ack\<rparr>)) (\<lambda>_.
       bind_tx (with_fact c Cmd_rejected ''task.command.rejected'') (\<lambda>_. ret_tx r'))))"

definition failure_error :: "string \<Rightarrow> string \<Rightarrow> jobj" where
  "failure_error message reasonCode =
     [(''code'', JNum (-32603)), (''message'', JStr message), (''data'', JObj [(''reasonCode'', JStr reasonCode)])]"

definition failing :: "string \<Rightarrow> string \<Rightarrow> task_update" where
  "failing message reasonCode =
     no_update\<lparr>up_internalState := Some TERMINAL_FAILED, up_mcpStatus := Some Failed, up_substate := Some None,
       up_statusMessage := Some (Some message), up_result := Some None,
       up_error := Some (Some (failure_error message reasonCode))\<rparr>"

text \<open>The claim by the owner, whatever the state of the row.\<close>

definition owned_command :: "command_row \<Rightarrow> command_row \<Rightarrow> bool" where
  "owned_command c d \<longleftrightarrow>
     is_command (cd_taskId c) (cd_sequence c) d \<and> cd_claimOwner d = cd_claimOwner c \<and> cd_claimOwner c \<noteq> None"

definition failSafeStopUnconfirmed :: "clocks \<Rightarrow> command_row \<Rightarrow> string \<Rightarrow> task_row tx" where
  "failSafeStopUnconfirmed ck c message =
     bind_tx (locked_task (cd_taskId c)) (\<lambda>r.
     if isTerminalState (tk_internalState r) then
       (\<lambda>db. Inr (insertCommandFact (c\<lparr>cd_state := Cmd_exhausted\<rparr>) ''task.command.exhausted''
                (update_commands (owned_command c) (exhaust_command ''TASK_TERMINAL'' (Some message)) db), r))
     else
       bind_tx
         (transition_row
           (runtime_request r (failing message ''SAFE_STOP_UNCONFIRMED'') ''task.failed'' (ck_process ck)
              ''SAFE_STOP_UNCONFIRMED'' (Command_key (cd_sequence c) ''safe-stop-failed''))) (\<lambda>r'.
       bind_tx
         (\<lambda>db. if list_ex (owned_command c) (db_commands db)
               then Inr (update_commands (owned_command c) (exhaust_command ''SAFE_STOP_UNCONFIRMED'' (Some message)) db, ())
               else Inl ''COMMAND_CLAIM_LOST'') (\<lambda>_.
       bind_tx (with_fact c Cmd_exhausted ''task.command.exhausted'') (\<lambda>_. ret_tx r'))))"

subsection \<open>Snapshots\<close>

definition mergeStopState :: "task_row \<Rightarrow> snapshot_transition \<Rightarrow> snapshot_transition" where
  "mergeStopState r t =
     (if \<not> tk_cancelRequested r \<and> tk_stopReason r = None \<or> tr_terminal t then t
      else
        t\<lparr>tr_internalState := tk_internalState r, tr_mcpStatus := tk_mcpStatus r, tr_substate := tk_substate r,
          tr_statusMessage := (case tk_statusMessage r of None \<Rightarrow> tr_statusMessage t | Some m \<Rightarrow> m),
          tr_result := tk_result r, tr_error := tk_error r\<rparr>)"

definition snapshot_request :: "clocks \<Rightarrow> int \<Rightarrow> snapshot_transition \<Rightarrow> task_row \<Rightarrow> transition_request" where
  "snapshot_request ck adapterRevision t r =
     \<lparr>tq_taskId = tk_taskId r, tq_expectedVersion = Some (tk_version r),
      tq_update =
        (snapshot_update (mergeStopState r t))
          \<lparr>up_adapterRevision := Some adapterRevision,
           up_actualStartedAt :=
             (if transitionHasStarted t \<and> tk_actualStartedAt r = None then Some (Some (ck_process ck)) else None)\<rparr>,
      tq_type = stableObservationType t, tq_occurredAt = ck_process ck, tq_reasonCode = reasonCodeFromTransition t,
      tq_fromAdapter = True, tq_outboxType = stableObservationType t, tq_eventKey = Adapter_key adapterRevision\<rparr>"

definition exhaust_live :: "string \<Rightarrow> task_db \<Rightarrow> task_db" where
  "exhaust_live target db =
     (case update_returning (\<lambda>c. cd_taskId c = target \<and> cd_state c \<in> live_states)
             (exhaust_command ''TASK_TERMINAL'' None) db of
        (db', exhausted) \<Rightarrow> fold (\<lambda>c. insertCommandFact c ''task.command.exhausted'') exhausted db')"

definition applySnapshot :: "clocks \<Rightarrow> string \<Rightarrow> int \<Rightarrow> snapshot_transition \<Rightarrow> new_input list \<Rightarrow> task_row tx" where
  "applySnapshot ck target adapterRevision t inputs =
     bind_tx (locked_task target) (\<lambda>r.
     if isTerminalState (tk_internalState r) \<or> adapterRevision < tk_adapterRevision r then ret_tx r
     else if adapterRevision = tk_adapterRevision r then
       (\<lambda>db. let r' = r\<lparr>tk_lastConfirmedAt := Some (ck_process ck)\<rparr> in Inr (put_task r' db, r'))
     else
       bind_tx (transition_row (snapshot_request ck adapterRevision t r)) (\<lambda>r'.
       bind_tx (upsertInputRequests target inputs) (\<lambda>_ db.
         Inr (if tr_terminal t then exhaust_live target db else db, r'))))"

subsection \<open>Recovery\<close>

definition noteRecovery :: "clocks \<Rightarrow> string \<Rightarrow> unit tx" where
  "noteRecovery ck target =
     bind_tx (locked_task target) (\<lambda>r.
     bind_tx
       (transition_row
         (runtime_request r
           (no_update\<lparr>up_recoveryAttempts := Some (tk_recoveryAttempts r + 1),
              up_lastReconciledAt := Some (Some (ck_process ck)), up_nextRecoveryAt := Some (ck_process ck),
              up_recoveryFailureCount := Some 0\<rparr>)
           ''task.recovery'' (ck_process ck) ''RECONCILED'' (Recovery_key (tk_recoveryAttempts r + 1))))
       (\<lambda>_. ret_tx ()))"

text \<open>\<open>hashtext\<close> of the identifier spreads the attempts.\<close>

definition recovery_delay :: "(string \<Rightarrow> int) \<Rightarrow> string \<Rightarrow> int \<Rightarrow> int" where
  "recovery_delay hashtext target failures =
     min 300000 (1000 * 2 ^ nat (min failures 8)) + (hashtext target + 2147483648) mod 251"

definition noteRecoveryFailure :: "(string \<Rightarrow> int) \<Rightarrow> string \<Rightarrow> int \<Rightarrow> unit tx" where
  "noteRecoveryFailure hashtext target failedAt db =
     (case find_task target db of
        None \<Rightarrow> Inr (db, ())
      | Some r \<Rightarrow>
          if isTerminalState (tk_internalState r) then Inr (db, ())
          else
            Inr (put_task
              (r\<lparr>tk_recoveryFailureCount := tk_recoveryFailureCount r + 1,
                 tk_nextRecoveryAt := failedAt + recovery_delay hashtext target (tk_recoveryFailureCount r)\<rparr>) db, ()))"

definition recordIdentityConflict :: "(string \<Rightarrow> string) \<Rightarrow> string \<Rightarrow> string \<Rightarrow> unit tx" where
  "recordIdentityConflict sha256 target detail =
     bind_tx (locked_task target) (\<lambda>_ db.
       Inr (insertOutbox target (Identity_conflict_key (sha256 detail)) ''task.identity_conflict'' db, ()))"

definition failRecoveryNotFound :: "clocks \<Rightarrow> string \<Rightarrow> string \<Rightarrow> task_row tx" where
  "failRecoveryNotFound ck target message =
     bind_tx (locked_task target) (\<lambda>r.
     if isTerminalState (tk_internalState r) then ret_tx r
     else
       transition_row
         (runtime_request r
           ((failing message ''EXECUTION_NOT_FOUND'')
              \<lparr>up_recoveryAttempts := Some (tk_recoveryAttempts r + 1),
               up_lastReconciledAt := Some (Some (ck_process ck))\<rparr>)
           ''task.failed'' (ck_process ck) ''EXECUTION_NOT_FOUND''
           (Recovery_failed_key (tk_recoveryAttempts r + 1))))"

end
