(* ===== verification/TaskInputs.thy ===== *)
theory TaskInputs
  imports TaskOutcomes CanonicalJson
begin

text \<open>
  packages/persistence-postgres/src/tasks.ts: the answers to the input requests of a task. A response is first
  accepted into an inbox, then promoted to an \<open>UPDATE\<close> command, and settled with the command. Requests with
  business metadata take answers only from a verified responder, while the task waits for them.
  \<open>expired_at\<close>, which the cleaner sets, is not modelled.
\<close>

record authorization =
  az_hash :: string
  az_executionMode :: execution_mode
  az_simulationId :: "string option"
  az_verifiedResponder :: "json option"

definition authorized :: "authorization \<Rightarrow> task_row \<Rightarrow> bool" where
  "authorized a r \<longleftrightarrow>
     ti_authorizationHash (tk_identity r) = az_hash a \<and> ti_executionMode (tk_identity r) = az_executionMode a \<and>
     ti_simulationId (tk_identity r) = az_simulationId a"

definition handle_expired :: "clocks \<Rightarrow> task_row \<Rightarrow> bool" where
  "handle_expired ck r \<longleftrightarrow>
     isTerminalState (tk_internalState r) \<and>
     (case tk_handleExpiresAt r of None \<Rightarrow> False | Some t \<Rightarrow> t \<le> ck_database ck)"

definition getAuthorized :: "clocks \<Rightarrow> string \<Rightarrow> authorization \<Rightarrow> task_db \<Rightarrow> task_row result" where
  "getAuthorized ck target a db =
     (case find_task target db of
        None \<Rightarrow> Inl ''TASK_NOT_FOUND_OR_UNAUTHORIZED''
      | Some r \<Rightarrow>
          if \<not> authorized a r then Inl ''TASK_NOT_FOUND_OR_UNAUTHORIZED''
          else if handle_expired ck r then Inl ''TASK_EXPIRED'' else Inr r)"

subsection \<open>Business metadata\<close>

definition json_member :: "json \<Rightarrow> string \<Rightarrow> json option" where
  "json_member j name = (case j of JObj kvs \<Rightarrow> js_get kvs name | _ \<Rightarrow> None)"

text \<open>\<open>requestJson\<close> has been built by the runtime or parsed, so that \<open>params\<close> is an object.\<close>

definition inputBusinessMetadata :: "json \<Rightarrow> json option" where
  "inputBusinessMetadata requestJson =
     (case Option.bind (json_member requestJson ''params'') (\<lambda>p. json_member p ''_meta'') of
        Some (JObj kvs) \<Rightarrow> js_get kvs ''io.sdar/taskBusiness'' | _ \<Rightarrow> None)"

text \<open>\<open>offset_datetime\<close> reads \<open>z.iso.datetime({ offset: true })\<close>.\<close>

definition inputBusinessDeadlineAt :: "(string \<Rightarrow> int option) \<Rightarrow> json \<Rightarrow> int option result" where
  "inputBusinessDeadlineAt offset_datetime requestJson =
     (case inputBusinessMetadata requestJson of
        None \<Rightarrow> Inr None
      | Some (JObj kvs) \<Rightarrow>
          (case js_get kvs ''deadlineAt'' of
             None \<Rightarrow> Inr None
           | Some (JStr s) \<Rightarrow>
               (case offset_datetime s of None \<Rightarrow> Inl ''BUSINESS_INPUT_DEADLINE_INVALID'' | Some t \<Rightarrow> Inr (Some t))
           | Some _ \<Rightarrow> Inl ''BUSINESS_INPUT_DEADLINE_INVALID'')
      | Some _ \<Rightarrow> Inl ''BUSINESS_INPUT_METADATA_INVALID'')"

definition isMcpInputResponse :: "json \<Rightarrow> bool" where
  "isMcpInputResponse j \<longleftrightarrow>
     json_member j ''action'' \<in> {Some (JStr ''accept''), Some (JStr ''decline''), Some (JStr ''cancel'')}"

definition isVerifiedResponder :: "json \<Rightarrow> bool" where
  "isVerifiedResponder j \<longleftrightarrow>
     (case j of
        JObj kvs \<Rightarrow>
          (let field = (\<lambda>name. case js_get kvs name of None \<Rightarrow> JNull | Some v \<Rightarrow> v)
           in isRuntimeBusinessResponder
                \<lparr>rv_source = field ''source'', rv_actorType = field ''actorType'', rv_actorId = field ''actorId''\<rparr>)
      | _ \<Rightarrow> False)"

definition INPUT_STORAGE :: string where
  "INPUT_STORAGE = ''sdar.runtime-verified-input/1''"

definition stored_response :: "json \<Rightarrow> json option \<Rightarrow> json \<Rightarrow> json" where
  "stored_response requestJson responder response =
     (if inputBusinessMetadata requestJson = None then response
      else JObj ([(''storageVersion'', JStr INPUT_STORAGE), (''response'', response)] @
                 (case responder of None \<Rightarrow> [] | Some v \<Rightarrow> [(''verifiedResponder'', v)])))"

definition decodeStoredInputResponse :: "json \<Rightarrow> (json \<times> json option) result" where
  "decodeStoredInputResponse j =
     (case j of
        JObj kvs \<Rightarrow>
          if js_get kvs ''storageVersion'' = Some (JStr INPUT_STORAGE) then
            (case (js_get kvs ''response'', js_get kvs ''verifiedResponder'') of
               (Some response, Some responder) \<Rightarrow>
                 if isMcpInputResponse response \<and> isVerifiedResponder responder then Inr (response, Some responder)
                 else Inl ''INPUT_RESPONSE_INBOX_INVALID''
             | _ \<Rightarrow> Inl ''INPUT_RESPONSE_INBOX_INVALID'')
          else if isMcpInputResponse j then Inr (j, None) else Inl ''INPUT_RESPONSE_INBOX_INVALID''
      | _ \<Rightarrow> Inl ''INPUT_RESPONSE_INBOX_INVALID'')"

subsection \<open>Acceptance\<close>

datatype input_verdict = Accepted_key | Unknown_key | Answered_key | Superseded_key | Duplicate_key

definition find_input :: "string \<Rightarrow> string \<Rightarrow> task_db \<Rightarrow> input_row option" where
  "find_input target key db = find (\<lambda>i. ir_taskId i = target \<and> ir_key i = key) (db_inputs db)"

definition find_inbox :: "string \<Rightarrow> string \<Rightarrow> task_db \<Rightarrow> inbox_row option" where
  "find_inbox target key db = find (\<lambda>i. ib_taskId i = target \<and> ib_key i = key) (db_inbox db)"

type_synonym validator = "input_row \<Rightarrow> json \<Rightarrow> unit result"

definition response_hash :: "(string \<Rightarrow> string) \<Rightarrow> (rat \<Rightarrow> string) \<Rightarrow> json \<Rightarrow> string" where
  "response_hash sha256 num_string response = sha256 (serialize num_string response)"

text \<open>The checks on the answer to an open request, and the insertion into the inbox.\<close>

definition business_checks ::
    "(string \<Rightarrow> int option) \<Rightarrow> clocks \<Rightarrow> task_row \<Rightarrow> authorization \<Rightarrow> input_row \<Rightarrow> string \<Rightarrow> task_db \<Rightarrow> unit result" where
  "business_checks offset_datetime ck r a i hash db =
     (let business = inputBusinessMetadata (ir_requestJson i) \<noteq> None
      in if business \<and> (stopping r \<or> isTerminalState (tk_internalState r)) then Inl ''BUSINESS_INPUT_TASK_STOPPING''
         else if business \<and> tk_internalState r \<noteq> INPUT_REQUIRED then Inl ''BUSINESS_INPUT_TASK_NOT_WAITING''
         else if business \<and> az_verifiedResponder a = None then Inl ''RESPONDER_NOT_AUTHORIZED''
         else
           bind_r (inputBusinessDeadlineAt offset_datetime (ir_requestJson i)) (\<lambda>deadline.
             if \<not> business then Inr ()
             else
               (case find_inbox (ir_taskId i) (ir_key i) db of
                  Some b \<Rightarrow> throw_if (ib_responseHash b \<noteq> hash) ''INPUT_ANSWER_CONFLICT''
                | None \<Rightarrow>
                    throw_if (case deadline of None \<Rightarrow> False | Some t \<Rightarrow> t \<le> ck_database ck)
                      ''BUSINESS_INPUT_DEADLINE_EXPIRED'')))"

definition deliver :: "clocks \<Rightarrow> authorization \<Rightarrow> input_row \<Rightarrow> json \<Rightarrow> string \<Rightarrow> input_verdict tx" where
  "deliver ck a i response hash db =
     (if find_inbox (ir_taskId i) (ir_key i) db \<noteq> None then Inr (db, Duplicate_key)
      else
        Inr (db\<lparr>db_inbox := db_inbox db @
               [\<lparr>ib_taskId = ir_taskId i, ib_key = ir_key i, ib_responseHash = hash,
                 ib_responseJson = stored_response (ir_requestJson i) (az_verifiedResponder a) response,
                 ib_state = Ib_pending, ib_commandSequence = None, ib_acceptedAt = ck_database ck,
                 ib_lastErrorCode = None\<rparr>]\<rparr>, Accepted_key))"

definition accept_response ::
    "(string \<Rightarrow> int option) \<Rightarrow> validator \<Rightarrow> clocks \<Rightarrow> task_row \<Rightarrow> authorization \<Rightarrow> string \<Rightarrow> json \<Rightarrow> string \<Rightarrow> input_verdict tx" where
  "accept_response offset_datetime validate ck r a key response hash db =
     (case find_input (tk_taskId r) key db of
        None \<Rightarrow> Inr (db, Unknown_key)
      | Some i \<Rightarrow>
          (case ir_status i of
             In_answered \<Rightarrow>
               if inputBusinessMetadata (ir_requestJson i) = None then Inr (db, Answered_key)
               else
                 bind_r (validate i response) (\<lambda>_.
                 bind_r (throw_if (az_verifiedResponder a = None) ''RESPONDER_NOT_AUTHORIZED'') (\<lambda>_.
                 bind_r (throw_if (ir_responseHash i \<noteq> Some hash) ''INPUT_ANSWER_CONFLICT'') (\<lambda>_.
                   Inr (db, Answered_key))))
           | In_superseded \<Rightarrow> Inr (db, Superseded_key)
           | In_open \<Rightarrow>
               bind_r (validate i response) (\<lambda>_.
               bind_r (business_checks offset_datetime ck r a i hash db) (\<lambda>_.
                 deliver ck a i response hash db))))"

definition acceptance_hash :: "(string \<Rightarrow> string) \<Rightarrow> (string \<times> string) list \<Rightarrow> string" where
  "acceptance_hash sha256 hashes = sha256 (join [CHR 0x0A] (map (\<lambda>(key, hash). key @ '':'' @ hash) hashes))"

definition acceptMcpInputResponses ::
    "(string \<Rightarrow> string) \<Rightarrow> (rat \<Rightarrow> string) \<Rightarrow> (string \<Rightarrow> int option) \<Rightarrow> (string \<Rightarrow> string \<Rightarrow> bool) \<Rightarrow> validator
       \<Rightarrow> clocks \<Rightarrow> string \<Rightarrow> authorization \<Rightarrow> jobj \<Rightarrow> (string \<times> input_verdict) list tx" where
  "acceptMcpInputResponses sha256 num_string offset_datetime collate validate ck target a responses db =
     bind_r (getAuthorized ck target a db) (\<lambda>r.
       bind_tx
         (map_tx
           (\<lambda>(key, response).
              bind_tx (accept_response offset_datetime validate ck r a key response (response_hash sha256 num_string response))
                (\<lambda>v. ret_tx ((key, response_hash sha256 num_string response), v)))
           (order_by (\<lambda>x y. collate (fst x) (fst y)) responses)) (\<lambda>verdicts.
       bind_tx
         (case map fst (filter (\<lambda>(_, v). v = Accepted_key) verdicts) of
            [] \<Rightarrow> ret_tx ()
          | hashes \<Rightarrow>
              bind_tx
                (transitionTask
                  (runtime_request r no_update ''task.input_response_accepted'' (ck_process ck) ''INPUT_RESPONSE_ACCEPTED''
                     (Input_response_key (acceptance_hash sha256 hashes)))) (\<lambda>_. ret_tx ())) (\<lambda>_.
         ret_tx (map (\<lambda>((key, _), v). (key, v)) verdicts))) db)"

subsection \<open>Promotion\<close>

text \<open>The pending responses of a task in the order of acceptance.\<close>

definition pending_responses :: "(string \<Rightarrow> string \<Rightarrow> bool) \<Rightarrow> string \<Rightarrow> task_db \<Rightarrow> inbox_row list" where
  "pending_responses collate target db =
     order_by (then_by (\<lambda>x y. ib_acceptedAt x < ib_acceptedAt y) (\<lambda>x y. collate (ib_key x) (ib_key y)))
       (filter (\<lambda>i. ib_taskId i = target \<and> ib_state i = Ib_pending) (db_inbox db))"

definition pending_among :: "string \<Rightarrow> string list \<Rightarrow> inbox_row \<Rightarrow> bool" where
  "pending_among target ks i \<longleftrightarrow> ib_taskId i = target \<and> ib_key i \<in> set ks \<and> ib_state i = Ib_pending"

definition ignore_pending :: "string \<Rightarrow> string list \<Rightarrow> string \<Rightarrow> task_db \<Rightarrow> task_db" where
  "ignore_pending target ks code =
     update_inbox (pending_among target ks) (\<lambda>i. i\<lparr>ib_state := Ib_ignored, ib_lastErrorCode := Some code\<rparr>)"

definition supersede_inputs :: "string \<Rightarrow> string list \<Rightarrow> task_db \<Rightarrow> task_db" where
  "supersede_inputs target ks db =
     db\<lparr>db_inputs := map (\<lambda>i. if ir_taskId i = target \<and> ir_key i \<in> set ks \<and> ir_status i = In_open
                              then i\<lparr>ir_status := In_superseded\<rparr> else i) (db_inputs db)\<rparr>"

definition open_input :: "string \<Rightarrow> task_db \<Rightarrow> string \<Rightarrow> bool" where
  "open_input target db key =
     (case find_input target key db of None \<Rightarrow> False | Some i \<Rightarrow> ir_status i = In_open)"

type_synonym decoded_response = "inbox_row \<times> json \<times> json option"

definition stale_keys :: "task_row \<Rightarrow> decoded_response list \<Rightarrow> task_db \<Rightarrow> string list" where
  "stale_keys r ds db =
     map (\<lambda>(i, _). ib_key i)
       (filter (\<lambda>(i, _, responder). responder \<noteq> None \<and>
                  (tk_internalState r \<noteq> INPUT_REQUIRED \<or> \<not> open_input (tk_taskId r) db (ib_key i))) ds)"

definition drop_stale :: "task_row \<Rightarrow> string list \<Rightarrow> task_db \<Rightarrow> task_db" where
  "drop_stale r ks db =
     (if ks = [] then db
      else if tk_internalState r \<noteq> INPUT_REQUIRED
      then ignore_pending (tk_taskId r) ks ''BUSINESS_INPUT_TASK_NOT_WAITING'' (supersede_inputs (tk_taskId r) ks db)
      else ignore_pending (tk_taskId r) ks ''BUSINESS_INPUT_REQUEST_SUPERSEDED'' db)"

definition update_payload :: "decoded_response list \<Rightarrow> jobj" where
  "update_payload ds =
     (let responders = concat (map (\<lambda>(i, _, responder). case responder of None \<Rightarrow> [] | Some v \<Rightarrow> [(ib_key i, v)]) ds)
      in (''inputResponses'', JObj (map (\<lambda>(i, response, _). (ib_key i, response)) ds)) #
         (if responders = [] then [] else [(''verifiedResponders'', JObj responders)]))"

definition promote_ready :: "(string \<Rightarrow> string) \<Rightarrow> clocks \<Rightarrow> task_row \<Rightarrow> decoded_response list \<Rightarrow> bool tx" where
  "promote_ready sha256 ck r ds db =
     (case next_sequence r db of
        (db, n) \<Rightarrow>
     let ks = map (\<lambda>(i, _). ib_key i) ds;
         c = new_command ck (tk_taskId r) n Update_command
               (acceptance_hash sha256 (map (\<lambda>(i, _). (ib_key i, ib_responseHash i)) ds)) (update_payload ds)
     in bind_tx (insert_command c) (\<lambda>_ db.
          Inr (insertCommandFact c ''task.command.created''
                (update_inbox (pending_among (tk_taskId r) ks)
                   (\<lambda>i. i\<lparr>ib_state := Ib_assigned, ib_commandSequence := Some n\<rparr>) db), True)) db)"

definition promote_task :: "(string \<Rightarrow> string) \<Rightarrow> (string \<Rightarrow> string \<Rightarrow> bool) \<Rightarrow> clocks \<Rightarrow> string \<Rightarrow> bool tx" where
  "promote_task sha256 collate ck target =
     bind_tx (locked_task target) (\<lambda>r db.
       let rows = pending_responses collate target db
       in if rows = [] then Inr (db, False)
          else if stopping r \<or> isTerminalState (tk_internalState r)
          then Inr (ignore_pending target (map ib_key rows) ''TASK_NOT_ACCEPTING_INPUT'' db, False)
          else
            bind_r (map_r (\<lambda>i. bind_r (decodeStoredInputResponse (ib_responseJson i)) (\<lambda>d. Inr (i, d))) rows) (\<lambda>ds.
            let stale = stale_keys r ds db;
                ready = filter (\<lambda>(i, _). ib_key i \<notin> set stale) ds;
                db = drop_stale r stale db
            in if ready = [] then Inr (db, False) else promote_ready sha256 ck r ready db))"

text \<open>
  The tasks with the oldest pending responses, one transaction for each; an error ends the loop and leaves the
  promotions before it.
\<close>

definition oldest_pending :: "task_db \<Rightarrow> string \<Rightarrow> int" where
  "oldest_pending db target =
     Min (ib_acceptedAt ` set (filter (\<lambda>i. ib_taskId i = target \<and> ib_state i = Ib_pending) (db_inbox db)))"

definition promotable_tasks :: "int \<Rightarrow> task_db \<Rightarrow> string list" where
  "promotable_tasks limit db =
     sort (take (nat limit) (sort_key (oldest_pending db)
       (sort (remdups (map ib_taskId (filter (\<lambda>i. ib_state i = Ib_pending) (db_inbox db)))))))"

fun promote_all ::
    "(string \<Rightarrow> string) \<Rightarrow> (string \<Rightarrow> string \<Rightarrow> bool) \<Rightarrow> clocks \<Rightarrow> string list \<Rightarrow> task_db \<Rightarrow> task_db \<times> nat result" where
  "promote_all sha256 collate ck [] db = (db, Inr 0)"
| "promote_all sha256 collate ck (t # ts) db =
     (case promote_task sha256 collate ck t db of
        Inl e \<Rightarrow> (db, Inl e)
      | Inr (db', promoted) \<Rightarrow>
          (case promote_all sha256 collate ck ts db' of
             (db'', Inr n) \<Rightarrow> (db'', Inr (if promoted then n + 1 else n))
           | (db'', Inl e) \<Rightarrow> (db'', Inl e)))"

definition promotePendingInputResponses ::
    "(string \<Rightarrow> string) \<Rightarrow> (string \<Rightarrow> string \<Rightarrow> bool) \<Rightarrow> clocks \<Rightarrow> int \<Rightarrow> task_db \<Rightarrow> task_db \<times> nat result" where
  "promotePendingInputResponses sha256 collate ck limit db =
     (if limit < 1 \<or> 1024 < limit then (db, Inl ''INPUT_RESPONSE_PROMOTION_LIMIT_INVALID'')
      else promote_all sha256 collate ck (promotable_tasks limit db) db)"

subsection \<open>Settlement\<close>

definition payload_keys :: "string \<Rightarrow> command_row \<Rightarrow> string list" where
  "payload_keys name c = (case js_get (cd_payload c) name of Some (JObj kvs) \<Rightarrow> map fst kvs | _ \<Rightarrow> [])"

definition claimed_update :: "command_row \<Rightarrow> task_db \<Rightarrow> bool" where
  "claimed_update c db \<longleftrightarrow> list_ex (\<lambda>d. held_command c d \<and> cd_type d = Update_command) (db_commands db)"

definition supersedeClaimedBusinessInputIfNoLongerCurrent :: "clocks \<Rightarrow> command_row \<Rightarrow> bool tx" where
  "supersedeClaimedBusinessInputIfNoLongerCurrent ck c =
     (if cd_type c \<noteq> Update_command \<or> payload_keys ''verifiedResponders'' c = [] then ret_tx False
      else
        bind_tx (locked_task (cd_taskId c)) (\<lambda>r db.
          let requestsOpen = list_all (open_input (cd_taskId c) db) (payload_keys ''verifiedResponders'' c);
              waiting = tk_internalState r = INPUT_REQUIRED \<and> \<not> tk_cancelRequested r \<and> tk_stopReason r = None;
              reason = (if waiting then ''BUSINESS_INPUT_REQUEST_SUPERSEDED''
                        else state_reason ''BUSINESS_INPUT_TASK_NOT_WAITING'' r);
              message = (if waiting then ''Business input request is no longer open.''
                         else ''Business input response was superseded by Task state.'')
          in if waiting \<and> requestsOpen then Inr (db, False)
             else if \<not> claimed_update c db then Inl ''COMMAND_CLAIM_LOST''
             else
               (let db = update_commands (held_command c)
                           (\<lambda>d. (exhaust_command reason (Some message) d)\<lparr>cd_nextAttemptAt := ck_database ck\<rparr>) db;
                    db = (if waiting then db else supersede_inputs (cd_taskId c) (payload_keys ''inputResponses'' c) db);
                    db = settle_inbox (cd_taskId c) (cd_sequence c) Ib_ignored (Some reason) db
                in Inr (superseded_fact (c\<lparr>cd_state := Cmd_exhausted\<rparr>) db, True))))"

text \<open>\<open>isDeepStrictEqual\<close> on objects does not depend on the order of the members.\<close>

definition same_members :: "jobj \<Rightarrow> jobj \<Rightarrow> bool" where
  "same_members a b \<longleftrightarrow> length a = length b \<and> list_all (\<lambda>(k, v). js_get b k = Some v) a"

definition payload_mismatch :: "command_row \<Rightarrow> (inbox_row \<times> input_row) list \<Rightarrow> bool" where
  "payload_mismatch c rows \<longleftrightarrow>
     (case map_r (\<lambda>(b, i). bind_r (decodeStoredInputResponse (ib_responseJson b)) (\<lambda>d. Inr (b, i, d))) rows of
        Inl _ \<Rightarrow> True
      | Inr ds \<Rightarrow>
          list_ex (\<lambda>(_, i, _, responder). inputBusinessMetadata (ir_requestJson i) \<noteq> None \<and> responder = None) ds \<or>
          (case js_get (cd_payload c) ''inputResponses'' of
             Some (JObj kvs) \<Rightarrow> \<not> same_members kvs (map (\<lambda>(b, _, response, _). (ib_key b, response)) ds)
           | _ \<Rightarrow> True) \<or>
          (let expected = concat (map (\<lambda>(b, _, _, responder).
                 case responder of None \<Rightarrow> [] | Some v \<Rightarrow> [(ib_key b, v)]) ds)
           in case js_get (cd_payload c) ''verifiedResponders'' of
                None \<Rightarrow> expected \<noteq> []
              | Some (JObj kvs) \<Rightarrow> \<not> same_members kvs expected
              | Some _ \<Rightarrow> True))"

definition assigned_rows :: "command_row \<Rightarrow> task_db \<Rightarrow> (inbox_row \<times> input_row) list" where
  "assigned_rows c db =
     concat (map (\<lambda>b. case find_input (ib_taskId b) (ib_key b) db of None \<Rightarrow> [] | Some i \<Rightarrow> [(b, i)])
       (filter (assigned_to (cd_taskId c) (cd_sequence c)) (db_inbox db)))"

definition rejectClaimedPromotedInputIfPayloadMismatch :: "command_row \<Rightarrow> bool tx" where
  "rejectClaimedPromotedInputIfPayloadMismatch c db =
     (if cd_type c \<noteq> Update_command \<or> assigned_rows c db = [] \<or> \<not> payload_mismatch c (assigned_rows c db)
      then Inr (db, False)
      else
        bind_tx
          (rejectClaimedCommand c ''INPUT_RESPONSE_COMMAND_INTEGRITY_INVALID''
             ''Promoted input response differs from its durable inbox record.'') (\<lambda>_. ret_tx True) db)"

datatype input_disposition = Input_failed | Input_task_terminal | Input_superseded

definition disposition :: "task_row \<Rightarrow> input_disposition" where
  "disposition r =
     (if isTerminalState (tk_internalState r) then Input_task_terminal
      else if stopping r then Input_superseded else Input_failed)"

definition disposition_code :: "string \<Rightarrow> input_disposition \<Rightarrow> string" where
  "disposition_code failed d =
     (case d of Input_task_terminal \<Rightarrow> ''TASK_TERMINAL'' | Input_superseded \<Rightarrow> SUPERSEDED | Input_failed \<Rightarrow> failed)"

definition fail_by_input :: "clocks \<Rightarrow> command_row \<Rightarrow> task_row \<Rightarrow> string \<Rightarrow> string \<Rightarrow> string \<Rightarrow> unit tx" where
  "fail_by_input ck c r message reason tag =
     (if disposition r \<noteq> Input_failed then ret_tx ()
      else
        bind_tx
          (transitionTask
            (runtime_request r (failing message reason) ''task.failed'' (ck_process ck) reason
               (Command_key (cd_sequence c) tag))) (\<lambda>_. ret_tx ()))"

definition supersede_answers :: "command_row \<Rightarrow> task_row \<Rightarrow> task_db \<Rightarrow> task_db" where
  "supersede_answers c r db =
     (if isTerminalState (tk_internalState r) then db
      else supersede_inputs (cd_taskId c) (payload_keys ''inputResponses'' c) db)"

definition rejectInputResponseAndFailTask :: "clocks \<Rightarrow> command_row \<Rightarrow> string \<Rightarrow> string \<Rightarrow> input_disposition tx" where
  "rejectInputResponseAndFailTask ck c reasonCode message =
     bind_tx (locked_task (cd_taskId c)) (\<lambda>r db.
       let d = disposition r;
           code = disposition_code reasonCode d;
           state = (if d = Input_failed then Cmd_rejected else Cmd_exhausted)
       in if \<not> claimed_update c db then Inl ''COMMAND_CLAIM_LOST''
          else
            (let db = update_commands (held_command c)
                        (release_claim state (Some code)
                           (Some (if d = Input_failed then message else ''Input response was superseded by task state.''))) db;
                 db = supersede_answers c r db;
                 db = settle_inbox (cd_taskId c) (cd_sequence c) (if d = Input_failed then Ib_failed else Ib_ignored)
                        (Some (if d = Input_failed then ''INPUT_RESPONSE_REJECTED'' else code)) db
             in bind_tx (fail_by_input ck c r ''Input response was rejected.'' ''INPUT_RESPONSE_REJECTED'' ''input-rejected'') (\<lambda>_.
                bind_tx
                  (with_fact c state
                    (if d = Input_failed then ''task.command.rejected'' else ''task.command.superseded''))
                  (\<lambda>_. ret_tx d)) db))"

definition failInputResponseDelivery :: "clocks \<Rightarrow> command_row \<Rightarrow> string \<Rightarrow> unit tx" where
  "failInputResponseDelivery ck c message =
     bind_tx (locked_task (cd_taskId c)) (\<lambda>r.
     let code = disposition_code ''INPUT_RESPONSE_DELIVERY_EXHAUSTED'' (disposition r)
     in bind_tx (on_claim c (exhaust_command code (Some message))) (\<lambda>_.
        bind_tx
          (\<lambda>db. Inr (settle_inbox (cd_taskId c) (cd_sequence c)
                       (if disposition r = Input_failed then Ib_failed else Ib_ignored) (Some code)
                       (supersede_answers c r db), ())) (\<lambda>_.
        bind_tx
          (fail_by_input ck c r ''Input response delivery exhausted.'' ''INPUT_RESPONSE_DELIVERY_EXHAUSTED''
             ''input-delivery-exhausted'') (\<lambda>_.
          with_fact c Cmd_exhausted ''task.command.exhausted''))))"

subsection \<open>Acknowledgement of an answer\<close>

datatype update_result = Update_acknowledged | Update_task_terminal | Update_superseded | Update_not_current

record answer =
  an_key :: string
  an_hash :: string
  an_response :: json

text \<open>The command ends without an answer after the Adapter has accepted it.\<close>

definition exhaust_acknowledged :: "clocks \<Rightarrow> command_row \<Rightarrow> jobj \<Rightarrow> string \<Rightarrow> string \<Rightarrow> string list \<Rightarrow> string \<Rightarrow> update_result
    \<Rightarrow> update_result tx" where
  "exhaust_acknowledged ck c ack code message ks event_type result =
     bind_tx
       (on_claim c (\<lambda>d. (exhaust_command code (Some message) d)
                         \<lparr>cd_nextAttemptAt := ck_database ck, cd_adapterAck := Some ack\<rparr>)) (\<lambda>_.
     bind_tx
       (\<lambda>db. Inr (settle_inbox (cd_taskId c) (cd_sequence c) Ib_ignored (Some code)
                    (supersede_inputs (cd_taskId c) ks db), ())) (\<lambda>_.
     bind_tx (with_fact c Cmd_exhausted event_type) (\<lambda>_. ret_tx result)))"

definition write_answer :: "string \<Rightarrow> task_db \<Rightarrow> answer \<Rightarrow> task_db result" where
  "write_answer target db a =
     (if \<not> open_input target db (an_key a) then Inl ''INPUT_REQUEST_NOT_OPEN''
      else
        Inr (db\<lparr>db_inputs := map (\<lambda>i. if ir_taskId i = target \<and> ir_key i = an_key a
                                  then i\<lparr>ir_status := In_answered, ir_responseHash := Some (an_hash a),
                                         ir_responseJson := Some (an_response a)\<rparr> else i) (db_inputs db)\<rparr>))"

definition input_complete :: "task_row \<Rightarrow> task_db \<Rightarrow> bool" where
  "input_complete r db \<longleftrightarrow>
     tk_internalState r = INPUT_REQUIRED \<and>
     \<not> list_ex (\<lambda>i. ir_taskId i = tk_taskId r \<and> ir_status i = In_open) (db_inputs db)"

definition answered_update :: "task_row \<Rightarrow> task_db \<Rightarrow> task_update" where
  "answered_update r db =
     (if input_complete r db
      then no_update\<lparr>up_internalState := Some RUNNING, up_mcpStatus := Some Working, up_substate := Some None,
             up_statusMessage := Some (Some ''Task input accepted; awaiting Provider observation.'')\<rparr>
      else no_update)"

definition complete_answers :: "clocks \<Rightarrow> command_row \<Rightarrow> jobj \<Rightarrow> answer list \<Rightarrow> task_row \<Rightarrow> update_result tx" where
  "complete_answers ck c ack answers r =
     bind_tx (\<lambda>db. bind_r (fold_r (write_answer (cd_taskId c)) db answers) (\<lambda>db'. Inr (db', ()))) (\<lambda>_.
     bind_tx (\<lambda>db. Inr (settle_inbox (cd_taskId c) (cd_sequence c) Ib_acknowledged None db, ())) (\<lambda>_.
     bind_tx
       (\<lambda>db. transitionTask
               (runtime_request r (answered_update r db) ''task.input_answered'' (ck_process ck) ''INPUT_ANSWERED''
                  (Command_key (cd_sequence c) ''input-answered'')) db) (\<lambda>_.
     bind_tx (on_claim c (acknowledged ack)) (\<lambda>_.
     bind_tx (with_fact c Cmd_acknowledged ''task.command.acknowledged'') (\<lambda>_. ret_tx Update_acknowledged)))))"

definition acknowledgeUpdateAndCompleteInputAnswers ::
    "clocks \<Rightarrow> command_row \<Rightarrow> jobj \<Rightarrow> answer list \<Rightarrow> update_result tx" where
  "acknowledgeUpdateAndCompleteInputAnswers ck c ack answers =
     bind_tx (locked_task (cd_taskId c)) (\<lambda>r db.
       let business = payload_keys ''verifiedResponders'' c;
           waiting = tk_internalState r = INPUT_REQUIRED
       in if \<not> claimed_update c db then Inl ''COMMAND_CLAIM_LOST''
          else if isTerminalState (tk_internalState r)
          then exhaust_acknowledged ck c ack ''TASK_TERMINAL''
                 ''Task transitioned to terminal while command was in progress.''
                 (payload_keys ''inputResponses'' c) ''task.command.exhausted'' Update_task_terminal db
          else if stopping r
          then exhaust_acknowledged ck c ack SUPERSEDED ''Safe stop superseded the claimed command.''
                 (payload_keys ''inputResponses'' c) ''task.command.superseded'' Update_superseded db
          else if business \<noteq> [] \<and> \<not> (waiting \<and> list_all (open_input (cd_taskId c) db) business)
          then exhaust_acknowledged ck c ack
                 (if waiting then ''BUSINESS_INPUT_REQUEST_SUPERSEDED'' else ''BUSINESS_INPUT_TASK_NOT_WAITING'')
                 (if waiting then ''Adapter accepted the response after its business input request was superseded.''
                  else ''Adapter accepted the response after the Task left the business input wait.'')
                 (if waiting then [] else business) ''task.command.superseded'' Update_not_current db
          else complete_answers ck c ack answers r db)"

end
