(* ===== verification/TaskInvariant.thy ===== *)
theory TaskInvariant
  imports TaskInputs
begin

text \<open>
  What every transaction on the tables of the task engine keeps. \<open>good\<close> is the invariant of the tables and
  \<open>evolves\<close> relates two states of them: rows stay, the terminal ones as they are, the counters only grow, and as
  long as the version of a row stands the fields that decide on it stand too. The judgement \<open>ok db0 m db\<close> says
  that the transaction \<open>m\<close>, entered in \<open>db\<close> after \<open>db0\<close>, keeps both; it has one rule per combinator and
  one lemma per operation.
\<close>

named_theorems tx_ok "transactions that keep the invariant"

subsection \<open>Rows\<close>

definition status_of :: "internal_state \<Rightarrow> mcp_status" where
  "status_of s =
     (case s of
        TERMINAL_COMPLETED \<Rightarrow> Completed | TERMINAL_FAILED \<Rightarrow> Failed | TERMINAL_CANCELLED \<Rightarrow> Cancelled
      | INPUT_REQUIRED \<Rightarrow> Input_required | _ \<Rightarrow> Working)"

definition unbound_states :: "internal_state set" where
  "unbound_states = {SCHEDULED, STARTING}"

definition sound :: "task_row \<Rightarrow> bool" where
  "sound r \<longleftrightarrow>
     tk_mcpStatus r = status_of (tk_internalState r) \<and>
     (tk_internalState r \<in> unbound_states \<longrightarrow> tk_externalExecutionId r = None) \<and>
     1 \<le> tk_observationRevision r \<and> 0 \<le> tk_invocationAttempt r"

definition agrees :: "snapshot_transition \<Rightarrow> bool" where
  "agrees t \<longleftrightarrow> tr_mcpStatus t = status_of (tr_internalState t) \<and> tr_internalState t \<notin> unbound_states"

lemma mapAdapterSnapshot_agrees: "mapAdapterSnapshot now s = Inr t \<Longrightarrow> agrees t"
  by (auto simp: mapAdapterSnapshot_def agrees_def status_of_def unbound_states_def working_def terminal_def
      split: if_splits)

text \<open>The fields that only a transition writes.\<close>

definition core :: "task_row \<Rightarrow> task_identity \<times> internal_state \<times> mcp_status \<times> string option \<times> int option \<times> int \<times> int \<times> int
    \<times> bool \<times> string option" where
  "core r =
     (tk_identity r, tk_internalState r, tk_mcpStatus r, tk_externalExecutionId r, tk_actualStartedAt r,
      tk_invocationAttempt r, tk_adapterRevision r, tk_observationRevision r, tk_cancelRequested r, tk_stopReason r)"

definition row_step :: "task_row \<Rightarrow> task_row \<Rightarrow> bool" where
  "row_step r r' \<longleftrightarrow>
     tk_identity r' = tk_identity r \<and>
     (isTerminalState (tk_internalState r) \<longrightarrow> r' = r) \<and>
     tk_version r \<le> tk_version r' \<and> (tk_version r' = tk_version r \<longrightarrow> core r' = core r) \<and>
     tk_observationRevision r \<le> tk_observationRevision r' \<and> tk_runtimeRevision r \<le> tk_runtimeRevision r' \<and>
     tk_adapterRevision r \<le> tk_adapterRevision r' \<and> tk_invocationAttempt r \<le> tk_invocationAttempt r' \<and>
     (tk_externalExecutionId r \<noteq> None \<longrightarrow> tk_externalExecutionId r' = tk_externalExecutionId r) \<and>
     (tk_actualStartedAt r \<noteq> None \<longrightarrow> tk_actualStartedAt r' \<noteq> None)"

lemma row_step_refl [simp]: "row_step r r"
  by (simp add: row_step_def)

lemma row_step_trans: "row_step r s \<Longrightarrow> row_step s t \<Longrightarrow> row_step r t"
  unfolding row_step_def by auto

subsection \<open>The tables\<close>

definition revisions_of :: "string \<Rightarrow> task_db \<Rightarrow> int list" where
  "revisions_of target db = map or_revision (filter (\<lambda>x. or_taskId x = target) (db_observations db))"

definition good :: "task_db \<Rightarrow> bool" where
  "good db \<longleftrightarrow>
     distinct (js_keys (db_tasks db)) \<and>
     (\<forall>(k, r) \<in> set (db_tasks db). tk_taskId r = k \<and> sound r \<and> revisions_of k db = [1..tk_observationRevision r] \<and>
        (\<forall>n. has_event k (Start_attempt_key n) db \<longrightarrow> n \<le> tk_invocationAttempt r)) \<and>
     (\<forall>k. find_task k db = None \<longrightarrow> revisions_of k db = [] \<and> (\<forall>n. \<not> has_event k (Start_attempt_key n) db))"

definition evolves :: "task_db \<Rightarrow> task_db \<Rightarrow> bool" where
  "evolves db db' \<longleftrightarrow>
     (\<forall>k r. find_task k db = Some r \<longrightarrow> (\<exists>r'. find_task k db' = Some r' \<and> row_step r r')) \<and>
     prefix (db_observations db) (db_observations db')"

lemma evolves_refl [simp]: "evolves db db"
  by (auto simp: evolves_def)

lemma evolves_trans: "evolves a b \<Longrightarrow> evolves b c \<Longrightarrow> evolves a c"
  unfolding evolves_def by (meson prefix_order.trans row_step_trans)

lemma evolves_row: "evolves db db' \<Longrightarrow> find_task k db = Some r \<Longrightarrow> \<exists>r'. find_task k db' = Some r' \<and> row_step r r'"
  by (simp add: evolves_def)

lemma goodD:
  assumes "good db" and "find_task k db = Some r"
  shows "tk_taskId r = k" and "sound r" and "revisions_of k db = [1..tk_observationRevision r]"
    and "has_event k (Start_attempt_key n) db \<Longrightarrow> n \<le> tk_invocationAttempt r"
proof -
  have "(k, r) \<in> set (db_tasks db)" using assms(2) by (simp add: find_task_def map_of_SomeD)
  with assms(1) show "tk_taskId r = k" "sound r" "revisions_of k db = [1..tk_observationRevision r]"
    "has_event k (Start_attempt_key n) db \<Longrightarrow> n \<le> tk_invocationAttempt r"
    unfolding good_def by (fast+)
qed

lemma good_values: "good db \<Longrightarrow> r \<in> set (js_values (db_tasks db)) \<Longrightarrow> find_task (tk_taskId r) db = Some r"
  by (auto simp: good_def find_task_def)

lemma goodI:
  assumes "distinct (js_keys (db_tasks db))"
    and "\<And>k r. find_task k db = Some r \<Longrightarrow> tk_taskId r = k \<and> sound r \<and> revisions_of k db = [1..tk_observationRevision r]"
    and "\<And>k r n. find_task k db = Some r \<Longrightarrow> has_event k (Start_attempt_key n) db \<Longrightarrow> n \<le> tk_invocationAttempt r"
    and "\<And>k. find_task k db = None \<Longrightarrow> revisions_of k db = []"
    and "\<And>k n. find_task k db = None \<Longrightarrow> \<not> has_event k (Start_attempt_key n) db"
  shows "good db"
  unfolding good_def using assms by (auto simp: find_task_def)

definition kept :: "task_db \<Rightarrow> task_db \<Rightarrow> bool" where
  "kept db0 db \<longleftrightarrow> good db \<and> evolves db0 db"

definition ok :: "task_db \<Rightarrow> 'a tx \<Rightarrow> task_db \<Rightarrow> bool" where
  "ok db0 m db \<longleftrightarrow> (kept db0 db \<longrightarrow> (\<forall>db' x. m db = Inr (db', x) \<longrightarrow> kept db0 db'))"

lemma okI: "(\<And>db' x. kept db0 db \<Longrightarrow> m db = Inr (db', x) \<Longrightarrow> kept db0 db') \<Longrightarrow> ok db0 m db"
  by (simp add: ok_def)

lemma okD: "ok db0 m db \<Longrightarrow> kept db0 db \<Longrightarrow> m db = Inr (db', x) \<Longrightarrow> kept db0 db'"
  by (auto simp: ok_def)

lemma ok_sub: "ok db m db \<Longrightarrow> ok db0 m db"
  unfolding ok_def kept_def using evolves_trans evolves_refl by blast

lemma ok_bind:
  "ok db0 m db \<Longrightarrow> (\<And>db' x. kept db0 db' \<Longrightarrow> m db = Inr (db', x) \<Longrightarrow> ok db0 (f x) db') \<Longrightarrow> ok db0 (bind_tx m f) db"
  unfolding ok_def bind_tx_def bind_r_Inr by fastforce

lemma ok_ret [simp, tx_ok]: "ok db0 (ret_tx x) db"
  by (simp add: ok_def ret_tx_def)

lemma ok_fail [simp, tx_ok]: "ok db0 (fail_tx e) db"
  by (simp add: ok_def fail_tx_def)

lemma ok_same: "(\<And>db' x. m db = Inr (db', x) \<Longrightarrow> db' = db) \<Longrightarrow> ok db0 m db"
  by (auto simp: ok_def)

subsection \<open>Other tables\<close>

text \<open>Changes that leave the tasks and their observations alone.\<close>

definition quiet :: "task_db \<Rightarrow> task_db \<Rightarrow> bool" where
  "quiet db db' \<longleftrightarrow>
     db_tasks db' = db_tasks db \<and> db_observations db' = db_observations db \<and>
     (\<forall>k n. has_event k (Start_attempt_key n) db' = has_event k (Start_attempt_key n) db)"

lemma quiet_refl [simp]: "quiet db db"
  by (simp add: quiet_def)

lemma quiet_trans: "quiet a b \<Longrightarrow> quiet b c \<Longrightarrow> quiet a c"
  by (simp add: quiet_def)

lemma quiet_find: "quiet db db' \<Longrightarrow> find_task k db' = find_task k db"
  by (simp add: quiet_def find_task_def)

lemma quiet_kept: "quiet db db' \<Longrightarrow> kept db0 db \<Longrightarrow> kept db0 db'"
  by (simp add: quiet_def kept_def good_def evolves_def find_task_def revisions_of_def del: map_of_eq_Some_iff)

lemma ok_quiet: "(\<And>db' x. m db = Inr (db', x) \<Longrightarrow> quiet db db') \<Longrightarrow> ok db0 m db"
  by (auto simp: ok_def intro: quiet_kept)

lemma quiet_fields:
  "quiet db (db\<lparr>db_commands := cs\<rparr>)" "quiet db (db\<lparr>db_inputs := is'\<rparr>)" "quiet db (db\<lparr>db_inbox := bs\<rparr>)"
  "quiet db (db\<lparr>db_admissions := as'\<rparr>)"
  by (simp_all add: quiet_def has_event_def)

lemma quiet_update_commands [simp]: "quiet db (update_commands P f db)"
  by (simp add: update_commands_def quiet_fields)

lemma quiet_update_inbox [simp]: "quiet db (update_inbox P f db)"
  by (simp add: update_inbox_def quiet_fields)

lemma quiet_settle [simp]: "quiet db (settle_inbox t n s c db)"
  by (simp add: settle_inbox_def)

lemma quiet_outbox: "(\<And>n. key \<noteq> Start_attempt_key n) \<Longrightarrow> quiet db (insertOutbox target key e db)"
  by (auto simp: quiet_def insertOutbox_def has_event_def)

lemma quiet_fact [simp]: "quiet db (insertCommandFact c e db)"
  by (simp add: insertCommandFact_def quiet_outbox)

lemma quiet_fold: "(\<And>x d. quiet d (f x d)) \<Longrightarrow> quiet db (fold f xs db)"
proof (induction xs arbitrary: db)
  case (Cons x xs)
  have "quiet (f x db) (fold f xs (f x db))" using Cons by blast
  then show ?case using Cons.prems quiet_trans by fastforce
qed simp

lemma quiet_admission [simp]: "quiet db (set_admission t s db)"
  by (simp add: set_admission_def quiet_fields split: option.split)

lemma quiet_superseded [simp]: "quiet db (superseded_fact c db)" "quiet db (ignore_and_fact c db)"
  by (simp_all add: superseded_fact_def ignore_and_fact_def markAssignedInputResponsesIgnored_def
      quiet_trans [OF quiet_settle quiet_fact])

lemma quiet_inputs [simp]: "quiet db (supersede_inputs t ks db)" "quiet db (supersede_answers c r db)"
  "quiet db (ignore_pending t ks code db)"
  by (simp_all add: supersede_inputs_def supersede_answers_def ignore_pending_def quiet_fields)

lemma quiet_drop [simp]: "quiet db (drop_stale r ks db)"
  by (simp add: drop_stale_def quiet_trans [OF quiet_inputs(1) quiet_inputs(3)])

lemma ok_value [tx_ok]: "quiet db db' \<Longrightarrow> ok db0 (\<lambda>_. Inr (db', x)) db"
  by (rule ok_quiet) simp

lemma ok_lift [tx_ok]: "(\<And>d. quiet d (f d)) \<Longrightarrow> ok db0 (\<lambda>d. Inr (f d, g d)) db"
  by (rule ok_quiet) auto

lemma ok_insert_command [tx_ok]: "ok db0 (insert_command c) db"
  by (rule ok_quiet) (auto simp: insert_command_def quiet_fields split: if_splits)

lemma ok_on_claim [tx_ok]: "ok db0 (on_claim c f) db"
  by (rule ok_quiet) (auto simp: on_claim_def split: if_splits)

lemma ok_with_fact [tx_ok]: "ok db0 (with_fact c s e) db"
  by (rule ok_quiet) (auto simp: with_fact_def)

lemma quiet_upsert: "upsertInputRequest t db n = Inr db' \<Longrightarrow> quiet db db'"
  by (auto simp: upsertInputRequest_def quiet_fields split: option.splits if_splits)

lemma ok_upsert [tx_ok]: "ok db0 (upsertInputRequests t ns) db"
proof (rule ok_quiet)
  fix db' x
  assume "upsertInputRequests t ns db = Inr (db', x)"
  then have "fold_r (upsertInputRequest t) db ns = Inr db'" by (auto simp: upsertInputRequests_def bind_r_Inr)
  then show "quiet db db'"
    by (rule fold_r_invariant [where P = "quiet db"]) (auto intro: quiet_trans dest: quiet_upsert)
qed

subsection \<open>Writes of rows\<close>

lemma find_put [simp]:
  "find_task k (put_task r db) = (if k = tk_taskId r then Some r else find_task k db)"
  by (simp add: find_task_def put_task_def)

lemma put_other [simp]:
  "db_observations (put_task r db) = db_observations db" "revisions_of k (put_task r db) = revisions_of k db"
  "has_event k e (put_task r db) = has_event k e db"
  by (simp_all add: put_task_def revisions_of_def has_event_def)

lemma put_keys: "distinct (js_keys (db_tasks db)) \<Longrightarrow> distinct (js_keys (db_tasks (put_task r db)))"
  by (simp add: put_task_def)

lemma kept_put:
  assumes k: "kept db0 db" and r: "find_task k db = Some r" and step: "row_step r r'"
    and s: "sound r'" and o': "tk_observationRevision r' = tk_observationRevision r"
  shows "kept db0 (put_task r' db)"
proof -
  have g: "good db" and e: "evolves db0 db" using k by (simp_all add: kept_def)
  have t: "tk_taskId r = k" "tk_taskId r' = k" using goodD(1) [OF g r] step by (simp_all add: row_step_def)
  have "good (put_task r' db)"
  proof (rule goodI)
    show "distinct (js_keys (db_tasks (put_task r' db)))" using g by (simp add: good_def put_keys)
    fix i x
    assume x: "find_task i (put_task r' db) = Some x"
    show "tk_taskId x = i \<and> sound x \<and> revisions_of i (put_task r' db) = [1..tk_observationRevision x]"
      using x goodD [OF g r] goodD [OF g, of i x] s o' t by (auto split: if_splits)
    show "n \<le> tk_invocationAttempt x" if "has_event i (Start_attempt_key n) (put_task r' db)" for n
      using x that goodD(4) [OF g r, of n] goodD(4) [OF g, of i x n] step t by (auto simp: row_step_def split: if_splits)
  next
    fix i n
    assume "find_task i (put_task r' db) = None"
    then have "find_task i db = None" by (simp split: if_splits)
    then show "revisions_of i (put_task r' db) = []" "\<not> has_event i (Start_attempt_key n) (put_task r' db)"
      using g by (auto simp: good_def)
  qed
  moreover have "evolves db (put_task r' db)" using r step t by (auto simp: evolves_def)
  ultimately show ?thesis using e evolves_trans by (auto simp: kept_def)
qed

text \<open>A row written with fields outside the core.\<close>

lemma kept_touch:
  assumes "kept db0 db" and "find_task k db = Some r" and "core r' = core r" and "tk_version r' = tk_version r"
    and "\<not> isTerminalState (tk_internalState r)" and "tk_runtimeRevision r \<le> tk_runtimeRevision r'"
  shows "kept db0 (put_task r' db)"
proof (rule kept_put [OF assms(1,2)])
  show "row_step r r'" using assms by (simp add: row_step_def core_def)
  have "sound r" using assms goodD(2) by (auto simp: kept_def)
  then show "sound r'" using assms(3) by (simp add: sound_def core_def)
qed (use assms(3) in \<open>simp add: core_def\<close>)

lemma ok_touch:
  assumes "find_task k db = Some r" and "core r' = core r" and "tk_version r' = tk_version r"
    and "\<not> isTerminalState (tk_internalState r)" and "tk_runtimeRevision r \<le> tk_runtimeRevision r'"
  shows "ok db0 (\<lambda>d. Inr (put_task r' db, x)) db"
  by (rule okI) (use assms kept_touch in auto)

lemma kept_next:
  assumes "kept db0 db" and "find_task k db = Some r" and "\<not> isTerminalState (tk_internalState r)"
    and "next_sequence r db = (db', n)"
  shows "kept db0 db'"
  using assms kept_touch [OF assms(1,2), of "r\<lparr>tk_nextCommandSequence := tk_nextCommandSequence r + 1\<rparr>"]
  by (auto simp: next_sequence_def core_def Let_def)

subsection \<open>Transitions\<close>

definition admissible :: "transition_request \<Rightarrow> task_row \<Rightarrow> bool" where
  "admissible q r \<longleftrightarrow>
     (let u = tq_update q; s = given (up_internalState u) (tk_internalState r);
          e = given (up_externalExecutionId u) (tk_externalExecutionId r);
          n = given (up_invocationAttempt u) (tk_invocationAttempt r)
      in given (up_mcpStatus u) (tk_mcpStatus r) = status_of s \<and> (s \<in> unbound_states \<longrightarrow> e = None) \<and>
         (tk_externalExecutionId r \<noteq> None \<longrightarrow> e = tk_externalExecutionId r) \<and>
         (tk_actualStartedAt r \<noteq> None \<longrightarrow> given (up_actualStartedAt u) (tk_actualStartedAt r) \<noteq> None) \<and>
         tk_invocationAttempt r \<le> n \<and> (\<forall>m. tq_eventKey q = Start_attempt_key m \<longrightarrow> m \<le> n))"

lemma transitioned_fields [simp]:
  "tk_identity (transitioned q r) = tk_identity r"
  "tk_version (transitioned q r) = tk_version r + 1"
  "tk_observationRevision (transitioned q r) = tk_observationRevision r + 1"
  "tk_runtimeRevision (transitioned q r) = tk_runtimeRevision r + 1"
  "tk_internalState (transitioned q r) = given (up_internalState (tq_update q)) (tk_internalState r)"
  "tk_mcpStatus (transitioned q r) = given (up_mcpStatus (tq_update q)) (tk_mcpStatus r)"
  "tk_externalExecutionId (transitioned q r) = given (up_externalExecutionId (tq_update q)) (tk_externalExecutionId r)"
  "tk_actualStartedAt (transitioned q r) = given (up_actualStartedAt (tq_update q)) (tk_actualStartedAt r)"
  "tk_invocationAttempt (transitioned q r) = given (up_invocationAttempt (tq_update q)) (tk_invocationAttempt r)"
  "tk_adapterRevision (transitioned q r) = given (up_adapterRevision (tq_update q)) (tk_adapterRevision r)"
  by (simp_all add: transitioned_def retain_def assign_def Let_def split: option.split)

lemma record_fields [simp]:
  "find_task k (record_transition q r db) = (if k = tk_taskId r then Some r else find_task k db)"
  "revisions_of k (record_transition q r db) =
     revisions_of k db @ (if tq_taskId q = k then [tk_observationRevision r] else [])"
  "has_event k e (record_transition q r db) \<longleftrightarrow> has_event k e db \<or> k = tq_taskId q \<and> e = tq_eventKey q"
  "db_observations (record_transition q r db) = db_observations db @
     [\<lparr>or_taskId = tq_taskId q, or_revision = tk_observationRevision r, or_type = tq_type q,
       or_reasonCode = tq_reasonCode q, or_occurredAt = tq_occurredAt q\<rparr>]"
  by (auto simp: record_transition_def find_task_def put_task_def revisions_of_def has_event_def)

lemma transitioned_step:
  assumes "admissible q r" and "\<not> isTerminalState (tk_internalState r)" and "sound r"
    and "case up_adapterRevision (tq_update q) of None \<Rightarrow> True | Some v \<Rightarrow> tk_adapterRevision r < v"
  shows "row_step r (transitioned q r)" and "sound (transitioned q r)"
  using assms by (auto simp: admissible_def row_step_def sound_def given_def Let_def split: option.splits)

lemma upto_Suc: "1 \<le> n \<Longrightarrow> [1..n] @ [n + 1] = [1..n + (1::int)]"
  by (simp add: upto_rec2)

lemma kept_record:
  assumes k: "kept db0 db" and r: "find_task (tq_taskId q) db = Some r" and a: "admissible q r"
    and t: "\<not> isTerminalState (tk_internalState r)"
    and v: "case up_adapterRevision (tq_update q) of None \<Rightarrow> True | Some v \<Rightarrow> tk_adapterRevision r < v"
  shows "kept db0 (record_transition q (transitioned q r) db)"
proof -
  let ?r = "transitioned q r" and ?d = "record_transition q (transitioned q r) db"
  have g: "good db" and e: "evolves db0 db" using k by (simp_all add: kept_def)
  note R = goodD [OF g r]
  have st: "row_step r ?r" "sound ?r" using transitioned_step [OF a t R(2) v] by simp_all
  have i: "tk_taskId ?r = tq_taskId q" using R(1) by simp
  have o1: "1 \<le> tk_observationRevision r" using R(2) by (simp add: sound_def)
  have "good ?d"
  proof (rule goodI)
    show "distinct (js_keys (db_tasks ?d))" using g by (simp add: good_def record_transition_def put_task_def)
    fix j x
    assume x: "find_task j ?d = Some x"
    show "tk_taskId x = j \<and> sound x \<and> revisions_of j ?d = [1..tk_observationRevision x]"
      using x st(2) i R(3) goodD [OF g, of j x] upto_Suc [OF o1] by (auto split: if_splits)
    show "n \<le> tk_invocationAttempt x" if h: "has_event j (Start_attempt_key n) ?d" for n
    proof (cases "j = tq_taskId q")
      case True
      with x i have x: "x = ?r" by (simp split: if_splits)
      from h True have "has_event (tq_taskId q) (Start_attempt_key n) db \<or> tq_eventKey q = Start_attempt_key n" by auto
      then show ?thesis
        using R(4) [of n] a st(1) by (auto simp: x admissible_def row_step_def Let_def)
    next
      case False
      with x i h show ?thesis using goodD(4) [OF g, of j x n] by (auto split: if_splits)
    qed
  next
    fix j n
    assume "find_task j ?d = None"
    then have "find_task j db = None" "j \<noteq> tq_taskId q" using i by (auto split: if_splits)
    then show "revisions_of j ?d = []" "\<not> has_event j (Start_attempt_key n) ?d" using g by (auto simp: good_def)
  qed
  moreover have "evolves db ?d" using r st(1) i by (auto simp: evolves_def)
  ultimately show ?thesis using e evolves_trans by (auto simp: kept_def)
qed

lemma task_transition_Inr:
  assumes "transitionTask q db = Inr (db', x, b)"
  obtains r where "find_task (tq_taskId q) db = Some r" and "\<not> b" and "db' = db" and "x = r"
  | r where "find_task (tq_taskId q) db = Some r" and "b" and "x = transitioned q r"
      and "db' = record_transition q (transitioned q r) db"
      and "\<not> isTerminalState (tk_internalState r)" and "\<not> has_event (tq_taskId q) (tq_eventKey q) db"
      and "tq_expectedVersion q = None \<or> tq_expectedVersion q = Some (tk_version r)"
      and "case up_adapterRevision (tq_update q) of None \<Rightarrow> True | Some v \<Rightarrow> tk_adapterRevision r < v"
  using assms by (fastforce simp: transitionTask_def Let_def split: option.splits if_splits)

lemma ok_transition:
  assumes "\<And>r. find_task (tq_taskId q) db = Some r \<Longrightarrow> sound r \<Longrightarrow> \<not> isTerminalState (tk_internalState r) \<Longrightarrow>
      tq_expectedVersion q = None \<or> tq_expectedVersion q = Some (tk_version r) \<Longrightarrow> admissible q r"
  shows "ok db0 (transitionTask q) db"
proof (rule okI)
  fix db' x
  assume k: "kept db0 db" and t: "transitionTask q db = Inr (db', x)"
  obtain y b where x: "x = (y, b)" by (cases x)
  from t [unfolded x] show "kept db0 db'"
  proof (cases rule: task_transition_Inr)
    case (1 r)
    then show ?thesis using k by simp
  next
    case (2 r)
    have "sound r" using 2(1) k goodD(2) by (auto simp: kept_def)
    then show ?thesis using kept_record [OF k 2(1) _ 2(5,8)] assms 2 by simp
  qed
qed

text \<open>A request made from a row read earlier in the transaction or in the claim.\<close>

lemma ok_request:
  assumes r: "find_task (tq_taskId q) db1 = Some r" and e: "evolves db1 db" and v: "tq_expectedVersion q = Some (tk_version r)"
    and a: "\<And>r'. core r' = core r \<Longrightarrow> sound r' \<Longrightarrow> \<not> isTerminalState (tk_internalState r') \<Longrightarrow> admissible q r'"
  shows "ok db0 (transitionTask q) db"
proof (rule ok_transition)
  fix r'
  assume r': "find_task (tq_taskId q) db = Some r'" "sound r'" "\<not> isTerminalState (tk_internalState r')"
    and "tq_expectedVersion q = None \<or> tq_expectedVersion q = Some (tk_version r')"
  then have "tk_version r' = tk_version r" using v by simp
  moreover have "row_step r r'" using evolves_row [OF e r] r'(1) by auto
  ultimately have "core r' = core r" by (simp add: row_step_def)
  then show "admissible q r'" using a r' by simp
qed

lemma ok_row: "ok db0 (transitionTask q) db \<Longrightarrow> ok db0 (transition_row q) db"
  unfolding transition_row_def by (rule ok_bind) (auto split: prod.split)

end
