(* ===== verification/TaskKeeps.thy ===== *)
theory TaskKeeps
  imports TaskInvariant
begin

text \<open>
  Every operation on the tables of the task engine keeps their invariant: a lemma for each, by the rules of
  the combinators and the admissibility of the transition it requests.
\<close>

named_theorems request_defs "definitions that show the assignments of a request"

lemmas [request_defs] = admissible_def runtime_request_def no_update_def given_def released_def snapshot_update_def
  agrees_def Let_def

subsection \<open>Rules\<close>

lemma ok_at: "m db = m' db \<Longrightarrow> ok db0 m' db \<Longrightarrow> ok db0 m db"
  by (simp add: ok_def)

lemma ok_locked:
  assumes "\<And>r. find_task t db = Some r \<Longrightarrow> tk_taskId r = t \<Longrightarrow> sound r \<Longrightarrow> kept db0 db \<Longrightarrow> ok db0 (f r) db"
  shows "ok db0 (bind_tx (locked_task t) f) db"
  using assms unfolding ok_def bind_tx_def locked_task_def
  by (auto simp: bind_r_Inr kept_def dest: goodD split: option.splits)

lemma ok_held:
  assumes "\<And>r. find_task t db = Some r \<Longrightarrow> tk_taskId r = t \<Longrightarrow> sound r \<Longrightarrow> tk_internalState r = s \<Longrightarrow>
      tk_scheduleClaimOwner r = Some w \<Longrightarrow> kept db0 db \<Longrightarrow> ok db0 (f r) db"
  shows "ok db0 (bind_tx (held_row s e t w) f) db"
  using assms unfolding ok_def bind_tx_def held_row_def
  by (auto simp: bind_r_Inr kept_def dest: goodD split: option.splits if_splits)

lemma ok_locked_task [tx_ok]: "ok db0 (locked_task t) db"
  by (rule ok_same) (auto simp: locked_task_def split: option.splits)

lemma ok_if: "(c \<Longrightarrow> ok db0 m db) \<Longrightarrow> (\<not> c \<Longrightarrow> ok db0 m' db) \<Longrightarrow> ok db0 (if c then m else m') db"
  by simp

lemma ok_case_option [intro]:
  "ok db0 m db \<Longrightarrow> (\<And>x. ok db0 (f x) db) \<Longrightarrow> ok db0 (case v of None \<Rightarrow> m | Some x \<Rightarrow> f x) db"
  by (cases v) auto

lemma ok_req:
  assumes "kept db0 db" and "find_task (tq_taskId q) db0 = Some r" and "tq_expectedVersion q = Some (tk_version r)"
    and "\<And>r'. core r' = core r \<Longrightarrow> sound r' \<Longrightarrow> \<not> isTerminalState (tk_internalState r') \<Longrightarrow> admissible q r'"
  shows "ok db0 (transitionTask q) db"
  using assms by (intro ok_request [OF assms(2) _ assms(3)]) (auto simp: kept_def)

lemma ok_req_row:
  assumes "kept db0 db" and "find_task (tq_taskId q) db0 = Some r" and "tq_expectedVersion q = Some (tk_version r)"
    and "\<And>r'. core r' = core r \<Longrightarrow> sound r' \<Longrightarrow> \<not> isTerminalState (tk_internalState r') \<Longrightarrow> admissible q r'"
  shows "ok db0 (transition_row q) db"
  using assms by (intro ok_row ok_req)

lemma ok_seq: "ok db0 m db \<Longrightarrow> (\<And>db' x. kept db0 db' \<Longrightarrow> ok db0 (f x) db') \<Longrightarrow> ok db0 (bind_tx m f) db"
  by (rule ok_bind)

text \<open>A row read at the start: \<open>db0\<close> is that state.\<close>

lemma kept_self: "kept db0 db \<Longrightarrow> kept db db"
  by (simp add: kept_def)

lemma ok_start: "(kept db db \<Longrightarrow> ok db m db) \<Longrightarrow> ok db0 m db"
  by (metis kept_self ok_def ok_sub)

lemma status_simps [simp]:
  "status_of SCHEDULED = Working" "status_of STARTING = Working" "status_of WAITING_START_CONFIRMATION = Working"
  "status_of QUEUED = Working" "status_of RUNNING = Working" "status_of STOPPING = Working"
  "status_of TERMINAL_COMPLETED = Completed" "status_of TERMINAL_FAILED = Failed"
  "status_of TERMINAL_CANCELLED = Cancelled" "status_of INPUT_REQUIRED = Input_required"
  by (simp_all add: status_of_def)

lemma unbound_simps [simp]:
  "SCHEDULED \<in> unbound_states" "STARTING \<in> unbound_states" "STOPPING \<notin> unbound_states" "RUNNING \<notin> unbound_states"
  "WAITING_START_CONFIRMATION \<notin> unbound_states" "TERMINAL_COMPLETED \<notin> unbound_states"
  "TERMINAL_FAILED \<notin> unbound_states" "INPUT_REQUIRED \<notin> unbound_states"
  by (simp_all add: unbound_states_def)

lemma terminal_simps [simp]:
  "\<not> isTerminalState STARTING" "\<not> isTerminalState SCHEDULED" "\<not> isTerminalState WAITING_START_CONFIRMATION"
  "\<not> isTerminalState STOPPING" "\<not> isTerminalState RUNNING" "\<not> isTerminalState INPUT_REQUIRED"
  by (simp_all add: isTerminalState_iff)

lemma core_eq:
  "core r' = core r \<Longrightarrow>
     tk_internalState r' = tk_internalState r \<and> tk_mcpStatus r' = tk_mcpStatus r \<and>
     tk_externalExecutionId r' = tk_externalExecutionId r \<and> tk_actualStartedAt r' = tk_actualStartedAt r \<and>
     tk_invocationAttempt r' = tk_invocationAttempt r \<and> tk_adapterRevision r' = tk_adapterRevision r \<and>
     tk_cancelRequested r' = tk_cancelRequested r \<and> tk_stopReason r' = tk_stopReason r"
  by (simp add: core_def)

lemma soundD:
  "sound r \<Longrightarrow> tk_mcpStatus r = status_of (tk_internalState r) \<and>
     (tk_internalState r \<in> unbound_states \<longrightarrow> tk_externalExecutionId r = None)"
  by (simp add: sound_def)

subsection \<open>Claimed starts\<close>

lemma ok_extend: "find_task t db = Some r \<Longrightarrow> \<not> isTerminalState (tk_internalState r) \<Longrightarrow> ok db0 (extend_claim ck lease r) db"
  unfolding extend_claim_def by (rule ok_at [OF refl], rule ok_touch) (auto simp: core_def)

lemma ok_renewScheduleClaim [tx_ok]: "ok db0 (renewScheduleClaim ck t w lease) db"
  unfolding renewScheduleClaim_def by (intro ok_held ok_extend) auto

lemma ok_renewStartConfirmationClaim [tx_ok]: "ok db0 (renewStartConfirmationClaim ck t w lease) db"
  unfolding renewStartConfirmationClaim_def by (intro ok_held ok_extend) auto

lemma ok_deferStartConfirmation [tx_ok]: "ok db0 (deferStartConfirmation ck t w at_time m) db"
  unfolding deferStartConfirmation_def
  by (rule ok_held, rule ok_at [OF refl], rule ok_touch) (auto simp: core_def)

lemma ok_releaseScheduleRetry [tx_ok]: "ok db0 (releaseScheduleRetry ck t w at_time m) db"
  unfolding releaseScheduleRetry_def
  by (rule ok_start, intro ok_held ok_seq tx_ok ok_req_row) (auto simp: request_defs dest!: core_eq soundD)

lemma ok_markScheduleResponseUncertain [tx_ok]: "ok db0 (markScheduleResponseUncertain ck t w at_time m) db"
  unfolding markScheduleResponseUncertain_def
  by (rule ok_start, intro ok_held ok_seq tx_ok ok_req_row) (auto simp: request_defs dest!: core_eq soundD)

lemma ok_completeStartWindowMissed [tx_ok]: "ok db0 (completeStartWindowMissed t at_time w) db"
  unfolding completeStartWindowMissed_def
  by (rule ok_start, intro ok_held ok_if ok_seq tx_ok ok_req_row)
     (auto simp: request_defs window_missed_def startWindowMissedTransition_def dest!: core_eq soundD)

lemma ok_completeScheduledRejection [tx_ok]: "ok db0 (completeScheduledRejection t w at_time c m b) db"
  unfolding completeScheduledRejection_def
  by (rule ok_start, intro ok_held ok_if ok_seq tx_ok ok_req_row) (auto simp: request_defs dest!: core_eq soundD)

lemma ok_confirmBoundExecutionStarted [tx_ok]:
  "agrees tr \<Longrightarrow> ok db0 (confirmBoundExecutionStarted t w n tr at_time) db"
  unfolding confirmBoundExecutionStarted_def
  by (rule ok_start, intro ok_held ok_if ok_seq tx_ok ok_req_row)
     (auto simp: request_defs confirmed_request_def dest!: core_eq soundD)

subsection \<open>The stop after a missed start window\<close>

lemma kept_insert_command: "insert_command c db = Inr (db', u) \<Longrightarrow> quiet db db'"
  by (auto simp: insert_command_def quiet_fields split: if_splits)

lemma ensure_stop_cases:
  assumes "ensure_stop sha ck r reason lower p t f db = Inr (db', n, c)"
  obtains "quiet db db'" | db1 where "next_sequence r db = (db1, n)" and "quiet db1 db'"
  using assms unfolding ensure_stop_def
  by (auto simp: bind_r_Inr dest: kept_insert_command split: option.splits prod.splits if_splits)

lemma ok_ensure_stop:
  assumes "find_task k db = Some r" and "\<not> isTerminalState (tk_internalState r)"
  shows "ok db0 (ensure_stop sha ck r reason lower p t f) db"
proof (rule okI)
  fix db' x
  assume k: "kept db0 db" and e: "ensure_stop sha ck r reason lower p t f db = Inr (db', x)"
  obtain n c where x: "x = (n, c)" by (cases x)
  from e [unfolded x] show "kept db0 db'"
    by (cases rule: ensure_stop_cases) (use kept_next [OF k assms] k quiet_kept in blast)+
qed

lemma ok_lift_if [tx_ok]:
  "(\<And>d. quiet d (f d)) \<Longrightarrow> ok db0 (\<lambda>d. Inr (if c then f d else d, x)) db"
  by (rule ok_quiet) auto

lemma ok_persistStartWindowStop [tx_ok]: "ok db0 (persistStartWindowStop sha ck t at_time) db"
  unfolding persistStartWindowStop_def
proof (rule ok_start, intro ok_locked ok_if tx_ok)
  fix r
  assume r: "find_task t db = Some r" "tk_taskId r = t" "sound r" "\<not> isTerminalState (tk_internalState r)"
    and e: "tk_externalExecutionId r \<noteq> None"
  show "ok db
     (bind_tx
       (ensure_stop sha ck r STOP_WINDOW ''start_window_missed'' 200 at_time (\<lambda>c. cd_stopReason c = Some ''USER_REQUESTED''))
       (\<lambda>(n, existing).
         bind_tx (transitionTask (window_stop_request r n existing at_time)) (\<lambda>_ db.
           Inr (if existing = None
                then insertCommandFact (new_command ck t n Cancel_command [] []) ''task.command.created'' db
                else db, ())))) db"
  proof (rule ok_bind [OF ok_ensure_stop [OF r(1,4)]])
    fix db' and x :: "int \<times> command_row option"
    assume k: "kept db db'"
    obtain n existing where x: "x = (n, existing)" by (cases x)
    have "ok db (transitionTask (window_stop_request r n existing at_time)) db'"
      by (rule ok_req [OF k])
         (use r e in \<open>auto simp: window_stop_request_def request_defs dest!: core_eq soundD\<close>)
    then show "ok db ((\<lambda>(n, existing).
         bind_tx (transitionTask (window_stop_request r n existing at_time)) (\<lambda>_ db.
           Inr (if existing = None
                then insertCommandFact (new_command ck t n Cancel_command [] []) ''task.command.created'' db
                else db, ()))) x) db'"
      unfolding x prod.case by (rule ok_bind) (intro tx_ok, simp)
  qed
qed

lemma ok_requestStartWindowStop [tx_ok]: "ok db0 (requestStartWindowStop sha ck t at_time) db"
  unfolding requestStartWindowStop_def by (intro ok_locked ok_if tx_ok)

lemma ok_stopUnconfirmedBoundExecution [tx_ok]: "ok db0 (stopUnconfirmedBoundExecution sha ck t w at_time) db"
  unfolding stopUnconfirmedBoundExecution_def by (intro ok_held ok_seq tx_ok)

lemma ok_set_admission [tx_ok]: "ok db0 (\<lambda>d. Inr (set_admission t s d, x)) db"
  by (intro tx_ok) simp

lemma ok_acceptScheduled [tx_ok]:
  assumes "agrees (sa_transition a)"
  shows "ok db0 (acceptScheduled sha ck t w a) db"
  unfolding acceptScheduled_def
  by (rule ok_start, intro ok_held ok_if ok_seq ok_case_option tx_ok ok_req_row)
     (use assms in \<open>auto simp: request_defs acceptance_request_def or_else_def dest!: core_eq soundD split: option.splits\<close>)

subsection \<open>Claims of due tasks\<close>

lemma good_entry: "good db \<Longrightarrow> (k, r) \<in> set (db_tasks db) \<Longrightarrow> tk_taskId r = k \<and> find_task k db = Some r"
  by (auto simp: good_def find_task_def)

lemma due_rows_found: "good db \<Longrightarrow> r \<in> set (due_rows P f n db) \<Longrightarrow> find_task (tk_taskId r) db = Some r \<and> P r"
proof -
  assume g: "good db" and r: "r \<in> set (due_rows P f n db)"
  then obtain k where "(k, r) \<in> set (db_tasks db)" and "P r"
    by (auto simp: due_rows_def dest!: in_set_takeD)
  with good_entry [OF g] show ?thesis by auto
qed

lemma values_distinct:
  assumes "good db"
  shows "distinct (map tk_taskId (js_values (db_tasks db)))"
proof -
  have "map tk_taskId (js_values (db_tasks db)) = js_keys (db_tasks db)"
    unfolding map_map by (rule map_cong) (use good_entry [OF assms] in auto)
  then show ?thesis using assms by (simp only: good_def)
qed

lemma due_rows_distinct:
  assumes "good db"
  shows "distinct (map tk_taskId (due_rows P f n db))"
proof -
  let ?xs = "sort_key f (sort_key tk_taskId (filter P (js_values (db_tasks db))))"
  have "distinct (map tk_taskId (filter P (js_values (db_tasks db))))"
    using values_distinct [OF assms] by (rule distinct_map_filter)
  then have "distinct (map tk_taskId ?xs)" by (simp add: distinct_map)
  then show ?thesis unfolding due_rows_def take_map [symmetric] by (rule distinct_take)
qed

lemma transition_frame:
  "transitionTask q db = Inr (db', x, b) \<Longrightarrow> good db \<Longrightarrow> k \<noteq> tq_taskId q \<Longrightarrow> find_task k db' = find_task k db"
  by (erule task_transition_Inr) (auto dest: goodD(1))

lemma row_frame:
  "transition_row q db = Inr (db', x) \<Longrightarrow> good db \<Longrightarrow> k \<noteq> tq_taskId q \<Longrightarrow> find_task k db' = find_task k db"
  by (auto simp: transition_row_def bind_tx_def bind_r_Inr ret_tx_def intro: transition_frame)

lemma ok_map_rows:
  assumes step: "\<And>r d. kept db0 d \<Longrightarrow> r \<in> set rows \<Longrightarrow> find_task (tk_taskId r) d = Some r \<Longrightarrow> ok db0 (f r) d"
    and frame: "\<And>r d d' y k. kept db0 d \<Longrightarrow> r \<in> set rows \<Longrightarrow> find_task (tk_taskId r) d = Some r \<Longrightarrow> f r d = Inr (d', y) \<Longrightarrow>
      k \<noteq> tk_taskId r \<Longrightarrow> find_task k d' = find_task k d"
    and dist: "distinct (map tk_taskId rows)" and found: "\<And>r. r \<in> set rows \<Longrightarrow> find_task (tk_taskId r) db = Some r"
  shows "ok db0 (map_tx f rows) db"
  using assms
proof (induction rows arbitrary: db)
  case (Cons r rows)
  show ?case
  proof (rule okI)
    fix db' x
    assume k: "kept db0 db" and m: "map_tx f (r # rows) db = Inr (db', x)"
    have r: "find_task (tk_taskId r) db = Some r" using Cons.prems(4) by simp
    from m obtain d y ys where d: "f r db = Inr (d, y)" "map_tx f rows d = Inr (db', ys)"
      by (auto simp: bind_tx_def bind_r_Inr ret_tx_def)
    have kd: "kept db0 d" using okD [OF Cons.prems(1) [OF k _ r] k d(1)] by simp
    have "ok db0 (map_tx f rows) d"
    proof (rule Cons.IH)
      fix s
      assume s: "s \<in> set rows"
      then have "tk_taskId s \<noteq> tk_taskId r" using Cons.prems(3) by (simp add: image_iff) metis
      then have "find_task (tk_taskId s) d = find_task (tk_taskId s) db"
        using Cons.prems(2) [OF k _ r d(1)] by simp
      then show "find_task (tk_taskId s) d = Some s" using Cons.prems(4) s by simp
    next
      show "ok db0 (f s) e" if "kept db0 e" "s \<in> set rows" "find_task (tk_taskId s) e = Some s" for s e
        using that by (intro Cons.prems(1)) simp_all
      show "find_task k e' = find_task k e"
        if "kept db0 e" "s \<in> set rows" "find_task (tk_taskId s) e = Some s" "f s e = Inr (e', z)" "k \<noteq> tk_taskId s"
        for s e e' z k
        using that by (intro Cons.prems(2)) simp_all
      show "distinct (map tk_taskId rows)" using Cons.prems(3) by simp
    qed
    then show "kept db0 db'" using kd d(2) by (rule okD)
  qed
qed simp

lemma ok_claim_rows:
  assumes q: "\<And>r. tq_taskId (q r) = tk_taskId r \<and> (tq_expectedVersion (q r) = None \<or> tq_expectedVersion (q r) = Some (tk_version r))"
    and a: "\<And>r. P r \<Longrightarrow> sound r \<Longrightarrow> \<not> isTerminalState (tk_internalState r) \<Longrightarrow> admissible (q r) r"
  shows "ok db0 (\<lambda>d. map_tx (\<lambda>r. transition_row (q r)) (due_rows P f n d) d) db"
proof (rule ok_start)
  assume k: "kept db db"
  then have g: "good db" by (simp add: kept_def)
  have "ok db (map_tx (\<lambda>r. transition_row (q r)) (due_rows P f n db)) db"
  proof (rule ok_map_rows)
    show "ok db (transition_row (q r)) d" if "r \<in> set (due_rows P f n db)" "find_task (tk_taskId r) d = Some r" for r d
      by (rule ok_row, rule ok_transition) (use that q a due_rows_found [OF g that(1)] in \<open>auto\<close>)
    show "find_task j d' = find_task j d" if "kept db d" "transition_row (q r) d = Inr (d', y)" "j \<noteq> tk_taskId r" for r d d' y j
      using that q by (auto simp: kept_def intro: row_frame)
  qed (use due_rows_distinct [OF g] due_rows_found [OF g] in auto)
  then show "ok db (\<lambda>d. map_tx (\<lambda>r. transition_row (q r)) (due_rows P f n d) d) db" by (rule ok_at [OF refl])
qed

lemma ok_claimDueScheduled [tx_ok]: "ok db0 (claimDueScheduled now w lease n) db"
  unfolding claimDueScheduled_def
  by (rule ok_claim_rows) (auto simp: start_claim_def request_defs start_due_def dest!: soundD)

lemma ok_completeDueStartWindowMisses [tx_ok]: "ok db0 (completeDueStartWindowMisses now n) db"
proof -
  let ?q = "\<lambda>r. (window_missed now r)\<lparr>tq_expectedVersion := None\<rparr>"
  have m: "ok db0 (\<lambda>d. map_tx (\<lambda>r. transition_row (?q r))
             (due_rows (window_passed now) (\<lambda>r. ti_latestStartAt (tk_identity r)) n d) d) db"
    by (rule ok_claim_rows)
       (auto simp: window_missed_def startWindowMissedTransition_def request_defs window_passed_def dest!: soundD)
  show ?thesis
    by (rule okI) (use okD [OF m] in \<open>auto simp: completeDueStartWindowMisses_def bind_tx_def bind_r_Inr ret_tx_def Let_def\<close>)
qed

lemma ok_claimExpiredScheduledStarts [tx_ok]: "ok db0 (claimExpiredScheduledStarts now w lease n) db"
  unfolding claimExpiredScheduledStarts_def
  by (rule ok_claim_rows) (auto simp: reconcile_claim_def request_defs start_lapsed_def dest!: soundD)

lemma ok_claimBoundStartConfirmations [tx_ok]: "ok db0 (claimBoundStartConfirmations now w n lease) db"
  unfolding claimBoundStartConfirmations_def
  by (rule ok_claim_rows) (auto simp: confirmation_claim_def request_defs)

lemma next_frame: "next_sequence r db = (db', n) \<Longrightarrow> k \<noteq> tk_taskId r \<Longrightarrow> find_task k db' = find_task k db"
  by (auto simp: next_sequence_def Let_def)

lemma claim_deadline_frame:
  assumes "claim_deadline sha ck now r d = Inr (d', y)" and "kept db0 d" and "find_task (tk_taskId r) d = Some r"
    and "\<not> isTerminalState (tk_internalState r)" and "k \<noteq> tk_taskId r"
  shows "find_task k d' = find_task k d"
proof -
  from assms(1) obtain d1 n c d2 r' where e: "ensure_stop sha ck r ''DEADLINE_REACHED'' ''deadline_reached'' 100 now (\<lambda>_. True) d = Inr (d1, n, c)"
    and t: "transition_row (deadline_stop now n r) d1 = Inr (d2, r')" and q: "quiet d2 d'"
    by (auto simp: claim_deadline_def bind_tx_def bind_r_Inr split: if_splits)
  have "kept db0 d1" using okD [OF ok_ensure_stop [OF assms(3,4)] assms(2) e] .
  then have "find_task k d2 = find_task k d1"
    using row_frame [OF t] assms(5) by (simp add: kept_def deadline_stop_def runtime_request_def)
  moreover have "find_task k d1 = find_task k d"
    using e by (cases rule: ensure_stop_cases) (use next_frame assms(5) quiet_find in metis)+
  ultimately show ?thesis using quiet_find [OF q] by simp
qed

lemma ok_claim_deadline:
  assumes "find_task (tk_taskId r) db = Some r" and "deadline_due now r"
  shows "ok db0 (claim_deadline sha ck now r) db"
  unfolding claim_deadline_def
proof (rule ok_start, rule ok_bind [OF ok_ensure_stop [OF assms(1)]])
  show "\<not> isTerminalState (tk_internalState r)" using assms(2) by (simp add: deadline_due_def)
  fix db' and x :: "int \<times> command_row option"
  assume k: "kept db db'"
  obtain n c where x: "x = (n, c)" by (cases x)
  have "ok db (transition_row (deadline_stop now n r)) db'"
    by (rule ok_req_row [OF k]) (use assms in \<open>auto simp: deadline_stop_def deadline_due_def request_defs\<close>)
  then show "ok db ((\<lambda>(n, existing). bind_tx (transition_row (deadline_stop now n r)) (\<lambda>r' db.
       Inr (if existing = None
            then insertCommandFact (new_command ck (tk_taskId r) n Cancel_command [] []) ''task.command.created'' db
            else db, r', n))) x) db'"
    unfolding x prod.case by (rule ok_bind) (intro tx_ok, simp)
qed

lemma ok_claimExpiredDeadlines [tx_ok]: "ok db0 (claimExpiredDeadlines sha ck now n) db"
proof (rule ok_start)
  assume k: "kept db db"
  then have g: "good db" by (simp add: kept_def)
  let ?rows = "due_rows (deadline_due now) (\<lambda>r. case ti_deadlineAt (tk_identity r) of None \<Rightarrow> 0 | Some t \<Rightarrow> t) n db"
  have d: "deadline_due now r \<and> \<not> isTerminalState (tk_internalState r)" if "r \<in> set ?rows" for r
    using due_rows_found [OF g that] by (simp add: deadline_due_def)
  have "ok db (map_tx (claim_deadline sha ck now) ?rows) db"
  proof (rule ok_map_rows)
    show "distinct (map tk_taskId ?rows)" using g by (rule due_rows_distinct)
    show "find_task (tk_taskId r) db = Some r" if "r \<in> set ?rows" for r using due_rows_found [OF g that] by simp
    show "ok db (claim_deadline sha ck now r) x" if "r \<in> set ?rows" "find_task (tk_taskId r) x = Some r" for r x
      using that(2) d [OF that(1)] by (intro ok_claim_deadline) simp_all
    show "find_task k d' = find_task k x"
      if "kept db x" "r \<in> set ?rows" "find_task (tk_taskId r) x = Some r" "claim_deadline sha ck now r x = Inr (d', y)"
        "k \<noteq> tk_taskId r" for r x d' y k
      using claim_deadline_frame [OF that(4,1,3) _ that(5)] d [OF that(2)] by simp
  qed
  then show "ok db (claimExpiredDeadlines sha ck now n) db"
    unfolding claimExpiredDeadlines_def by (rule ok_at [OF refl])
qed

end
