(* ===== verification/TaskEffects.thy ===== *)
theory TaskEffects
  imports TaskKeeps
begin

text \<open>The remaining operations keep the invariant: publication, commands, outcomes, inputs and recovery.\<close>

subsection \<open>Commands\<close>

lemma quiet_returning: "update_returning P f db = (db', cs) \<Longrightarrow> quiet db db'"
  by (auto simp: update_returning_def)

lemma quiet_resolution [simp]: "quiet db (recordCommandResolutionFact c e db)"
  by (simp add: recordCommandResolutionFact_def)

lemma ok_creation:
  assumes "\<And>d. kept db0 d \<Longrightarrow> ok db0 (transitionTask q) d"
  shows "ok db0 (bind_tx (insert_command c) (\<lambda>_. bind_tx (transitionTask q) (\<lambda>_ d. Inr (insertCommandFact c e d, x)))) db"
  by (intro ok_seq tx_ok assms) simp_all

lemma ok_beginCancel [tx_ok]: "ok db0 (beginCancel ck t h) db"
  unfolding beginCancel_def
proof (rule ok_start, rule ok_locked, rule okI)
  fix r db' x
  assume r: "find_task t db = Some r" "tk_taskId r = t" "sound r" and k: "kept db db"
    and run: "(case active_cancel t db of
         Some c \<Rightarrow> Inr (recordCommandResolutionFact c ''task.command.duplicate'' db, existing_command c)
       | None \<Rightarrow>
           if isTerminalState (tk_internalState r) then Inl ''TASK_ALREADY_TERMINAL''
           else
             (case update_returning
                     (\<lambda>c. cd_taskId c = t \<and> normal c \<and> cd_state c \<in> {Cmd_pending, Cmd_retry_wait}) superseding db of
                (db, superseded) \<Rightarrow>
             (case next_sequence r (fold superseded_fact superseded db) of
                (db, n) \<Rightarrow>
             let c = (new_command ck t n Cancel_command h [(''reason'', JStr ''USER_REQUESTED'')])
                       \<lparr>cd_stopReason := Some ''USER_REQUESTED'', cd_priority := 100\<rparr>
             in bind_tx (insert_command c) (\<lambda>_.
                bind_tx (transitionTask (cancel_request ck n r)) (\<lambda>_ db.
                  Inr (insertCommandFact c ''task.command.created'' db,
                       \<lparr>cr_command = c, cr_duplicate = False, cr_created = True\<rparr>))) db))) = Inr (db', x)"
  show "kept db db'"
  proof (cases "active_cancel t db")
    case (Some c)
    then show ?thesis using run quiet_kept [OF quiet_resolution k] by auto
  next
    case None
    then have live: "\<not> isTerminalState (tk_internalState r)" using run by (auto split: if_splits)
    obtain d1 cs where u: "update_returning
        (\<lambda>c. cd_taskId c = t \<and> normal c \<and> cd_state c \<in> {Cmd_pending, Cmd_retry_wait}) superseding db = (d1, cs)"
      by fastforce
    obtain d2 n where n: "next_sequence r (fold superseded_fact cs d1) = (d2, n)" by fastforce
    have q: "quiet db (fold superseded_fact cs d1)"
      by (rule quiet_trans [OF quiet_returning [OF u] quiet_fold]) simp
    have k2: "kept db d2"
      using kept_next [OF quiet_kept [OF q k] _ live n] quiet_find [OF q] r(1) by simp
    have "ok db (transitionTask (cancel_request ck n r)) d" if "kept db d" for d
      by (rule ok_req [OF that]) (use r in \<open>auto simp: cancel_request_def request_defs dest!: core_eq soundD\<close>)
    note creation = ok_creation [where q = "cancel_request ck n r", OF this]
    from run None live u n show ?thesis
      by (auto simp: Let_def intro: okD [OF creation k2])
  qed
qed

lemma ok_recordCooperativeCancellationIntent [tx_ok]: "ok db0 (recordCooperativeCancellationIntent ck t) db"
  unfolding recordCooperativeCancellationIntent_def
  by (rule ok_row, rule ok_transition) (auto simp: request_defs dest!: soundD)

lemma ok_create_command:
  assumes r: "find_task t db = Some r" "tk_taskId r = t" "sound r" "\<not> isTerminalState (tk_internalState r)"
  shows "ok db (create_command ck r ty h p) db"
proof (rule okI)
  fix db' x
  assume k: "kept db db" and run: "create_command ck r ty h p db = Inr (db', x)"
  obtain d n where n: "next_sequence r db = (d, n)" by fastforce
  have "ok db (transitionTask (runtime_request r no_update ''task.command_requested'' (ck_process ck) (command_type_name ty)
       (Command_key n ''requested''))) e" if "kept db e" for e
    by (rule ok_req [OF that]) (use r in \<open>auto simp: request_defs dest!: core_eq soundD\<close>)
  note creation = ok_creation [where q = "runtime_request r no_update ''task.command_requested'' (ck_process ck)
      (command_type_name ty) (Command_key n ''requested'')", OF this]
  from run n show "kept db db'"
    by (auto simp: create_command_def Let_def intro: okD [OF creation kept_next [OF k r(1,4) n]])
qed

lemma ok_beginCommand [tx_ok]: "ok db0 (beginCommand ck t ty h p) db"
  unfolding beginCommand_def
proof (rule ok_start, rule ok_locked, rule okI)
  fix r db' x
  assume r: "find_task t db = Some r" "tk_taskId r = t" "sound r" and k: "kept db db"
    and run: "(case requested_before t ty h db of
         Some c \<Rightarrow> Inr (recordCommandResolutionFact c ''task.command.duplicate'' db, existing_command c)
       | None \<Rightarrow>
           if isTerminalState (tk_internalState r) then Inl ''TASK_ALREADY_TERMINAL''
           else if stopping r then
             (case active_cancel t db of
                Some c \<Rightarrow> Inr (db, existing_command c)
              | None \<Rightarrow> Inl ''STOP_IN_PROGRESS_WITHOUT_COMMAND'')
           else
             (case active_command t db of
                Some c \<Rightarrow> Inr (db, existing_command c)
              | None \<Rightarrow> create_command ck r ty h p db)) = Inr (db', x)"
  then show "kept db db'"
    using quiet_kept [OF quiet_resolution k] okD [OF ok_create_command [OF r] k]
    by (auto split: option.splits if_splits)
qed

lemma ok_beginBusinessInterventionCommand [tx_ok]: "ok db0 (beginBusinessInterventionCommand sha ck t i h p) db"
  unfolding beginBusinessInterventionCommand_def
proof (intro ok_if tx_ok, rule ok_start, rule ok_locked, rule okI)
  fix r db' x
  assume r: "find_task t db = Some r" "tk_taskId r = t" "sound r" and k: "kept db db"
    and run: "(case latest (filter (\<lambda>c. cd_taskId c = t \<and> cd_type c = Intervention_command \<and>
                                   js_get (cd_payload c) ''commandId'' = Some (JStr i)) (db_commands db)) of
            Some c \<Rightarrow>
              if js_get (cd_payload c) ''semanticHash'' \<noteq> Some (JStr h) then Inl ''COMMAND_ID_CONFLICT''
              else Inr (db, existing_command c)
          | None \<Rightarrow>
              if tk_internalState r \<noteq> RUNNING \<or> tk_cancelRequested r \<or> tk_stopReason r \<noteq> None
              then Inl ''BUSINESS_INTERVENTION_TASK_NOT_RUNNING''
              else if list_ex (\<lambda>c. cd_taskId c = t \<and> cd_type c = Intervention_command \<and> cd_state c = Cmd_exhausted \<and>
                        cd_lastErrorCode c = Some ''INTERVENTION_DELIVERY_EXHAUSTED'') (db_commands db)
              then Inl ''BUSINESS_CHANGE_RECONCILIATION_REQUIRED''
              else if list_ex (\<lambda>c. cd_taskId c = t \<and> cd_state c \<in> live_states) (db_commands db)
              then Inl ''BUSINESS_CHANGE_IN_PROGRESS''
              else create_command ck r Intervention_command (intervention_hash sha i h) p db) = Inr (db', x)"
  show "kept db db'"
  proof (cases "tk_internalState r = RUNNING")
    case True
    have "\<not> isTerminalState (tk_internalState r)" using True by simp
    from okD [OF ok_create_command [OF r this] k] run k show ?thesis
      by (auto split: option.splits if_splits)
  qed (use run k in \<open>auto split: option.splits if_splits\<close>)
qed

lemma quiet_supersede_lapsed: "quiet db (supersede_lapsed n db)"
  by (auto simp: supersede_lapsed_def update_returning_def intro: quiet_trans [OF _ quiet_fold])

lemma ok_claimDueCommands [tx_ok]: "ok db0 (claimDueCommands ck now w lease n) db"
proof (rule ok_quiet)
  fix db' x
  assume run: "claimDueCommands ck now w lease n db = Inr (db', x)"
  let ?at = "max now (ck_database ck)"
  let ?d = "supersede_lapsed ?at db"
  obtain d cs where u: "update_returning (is_one_of (claimable_commands ?at n ?d)) (claimed_command ?at w lease) ?d = (d, cs)"
    by fastforce
  have "quiet db (fold (\<lambda>c. insertCommandFact c ''task.command.claimed'') cs d)"
    by (rule quiet_trans [OF quiet_supersede_lapsed quiet_trans [OF quiet_returning [OF u] quiet_fold]]) simp
  then show "quiet db db'" using run u by (auto simp: claimDueCommands_def Let_def split: if_splits)
qed

lemma ok_settle [tx_ok]:
  "ok db0 (\<lambda>d. Inr (if c then settle_inbox t n s e d else d, x)) db"
  by (rule ok_quiet) auto

lemma ok_retryClaimedCommand [tx_ok]: "ok db0 (retryClaimedCommand c at_time e m) db"
  unfolding retryClaimedCommand_def by (intro ok_seq tx_ok)

lemma ok_recordCommandStarted [tx_ok]: "ok db0 (recordCommandStarted c) db"
  unfolding recordCommandStarted_def by (intro ok_seq tx_ok)

lemma ok_renewCommandClaim [tx_ok]: "ok db0 (renewCommandClaim ck c lease) db"
  unfolding renewCommandClaim_def by (intro tx_ok)

lemma ok_rejectClaimedCommand [tx_ok]: "ok db0 (rejectClaimedCommand c e m) db"
  unfolding rejectClaimedCommand_def by (intro ok_seq tx_ok)

lemma ok_acknowledgeClaimedCommand [tx_ok]: "ok db0 (acknowledgeClaimedCommand c ack) db"
  unfolding acknowledgeClaimedCommand_def by (intro ok_seq tx_ok)

subsection \<open>Outcomes\<close>

lemma ok_supersedeNormalCommandsForSafeStop [tx_ok]: "ok db0 (supersedeNormalCommandsForSafeStop t b) db"
  by (rule ok_quiet) (auto simp: supersedeNormalCommandsForSafeStop_def update_returning_def
      intro: quiet_trans [OF quiet_update_commands quiet_fold])

lemma ok_supersedeExpired [tx_ok]: "ok db0 (supersedeExpiredClaimedNormalCommandsForSafeStop ck t) db"
  by (rule ok_quiet) (auto simp: supersedeExpiredClaimedNormalCommandsForSafeStop_def update_returning_def
      intro: quiet_trans [OF quiet_update_commands quiet_fold])

lemma quiet_superseded_claim:
  "quiet d (superseded_fact c (update_commands P f d))"
  "quiet d (superseded_fact c (markAssignedInputResponsesIgnored t n (update_commands P f d)))"
  by (rule quiet_trans [OF quiet_update_commands quiet_superseded(1)])
    (simp add: markAssignedInputResponsesIgnored_def
       quiet_trans [OF quiet_update_commands quiet_trans [OF quiet_settle quiet_superseded(1)]])

lemma ok_supersedeClaimedCommandForSafeStop [tx_ok]: "ok db0 (supersedeClaimedCommandForSafeStop ck c) db"
  by (rule ok_quiet) (auto simp: supersedeClaimedCommandForSafeStop_def Let_def quiet_superseded_claim split: if_splits)

lemma ok_supersedeClaimedBusinessIntervention [tx_ok]:
  "ok db0 (supersedeClaimedBusinessInterventionIfNotRunning c) db"
  unfolding supersedeClaimedBusinessInterventionIfNotRunning_def by (intro ok_if ok_locked ok_seq tx_ok)

lemma ok_exhaustClaimedBusinessIntervention [tx_ok]: "ok db0 (exhaustClaimedBusinessIntervention c m) db"
  unfolding exhaustClaimedBusinessIntervention_def by (intro ok_if ok_seq tx_ok)

lemma ok_exhausted_fact [tx_ok]: "ok db0 (\<lambda>d. Inr (insertCommandFact c e (update_commands P f d), x)) db"
  by (rule ok_quiet) (auto intro: quiet_trans [OF quiet_update_commands quiet_fact])

lemma ok_rejectUserCancel [tx_ok]: "agrees t \<Longrightarrow> ok db0 (rejectUserCancel ck c n t ack) db"
  unfolding rejectUserCancel_def
  by (rule ok_start, intro ok_locked ok_if ok_seq tx_ok ok_req_row)
     (auto simp: cancel_rejection_def request_defs dest!: core_eq soundD)

lemma ok_owned [tx_ok]:
  "ok db0 (\<lambda>d. if list_ex (owned_command c) (db_commands d) then Inr (update_commands P f d, ()) else Inl e) db"
  by (rule ok_quiet) (auto split: if_splits)

lemma ok_failSafeStopUnconfirmed [tx_ok]: "ok db0 (failSafeStopUnconfirmed ck c m) db"
  unfolding failSafeStopUnconfirmed_def
  by (rule ok_start, intro ok_locked ok_if ok_seq tx_ok ok_req_row)
     (auto simp: failing_def request_defs dest!: core_eq soundD)

lemma mergeStopState_agrees:
  "agrees t \<Longrightarrow> sound r \<Longrightarrow> tr_mcpStatus (mergeStopState r t) = status_of (tr_internalState (mergeStopState r t)) \<and>
     (tr_internalState (mergeStopState r t) \<in> unbound_states \<longrightarrow> tk_internalState r \<in> unbound_states)"
  by (auto simp: mergeStopState_def agrees_def dest!: soundD)

lemma quiet_exhaust_live [simp]: "quiet db (exhaust_live t db)"
  by (auto simp: exhaust_live_def update_returning_def intro: quiet_trans [OF quiet_update_commands quiet_fold])

lemma ok_snapshot_request:
  assumes "agrees t" and "kept db0 db" and "find_task k db0 = Some r" and "tk_taskId r = k" and "sound r"
  shows "ok db0 (transition_row (snapshot_request ck n t r)) db"
proof (rule ok_req_row [OF assms(2)])
  fix r'
  assume r': "core r' = core r" "sound r'"
  have "tr_mcpStatus (mergeStopState r t) = status_of (tr_internalState (mergeStopState r t)) \<and>
     (tr_internalState (mergeStopState r t) \<in> unbound_states \<longrightarrow> tk_externalExecutionId r = None)"
    using mergeStopState_agrees [OF assms(1,5)] soundD [OF assms(5)] by auto
  then show "admissible (snapshot_request ck n t r) r'"
    using core_eq [OF r'(1)] by (auto simp: snapshot_request_def admissible_def snapshot_update_def no_update_def given_def Let_def)
qed (use assms in \<open>auto simp: snapshot_request_def\<close>)

lemma ok_applySnapshot [tx_ok]:
  assumes "agrees t"
  shows "ok db0 (applySnapshot ck k n t is') db"
  unfolding applySnapshot_def
proof (rule ok_start, rule ok_locked, intro ok_if tx_ok)
  fix r
  assume r: "find_task k db = Some r" "tk_taskId r = k" "sound r" and k: "kept db db"
    and c: "\<not> (isTerminalState (tk_internalState r) \<or> n < tk_adapterRevision r)"
  show "ok db (\<lambda>d. let r' = r\<lparr>tk_lastConfirmedAt := Some (ck_process ck)\<rparr> in Inr (put_task r' d, r')) db"
    unfolding Let_def by (rule ok_at [OF refl], rule ok_touch [OF r(1)]) (use c in \<open>auto simp: core_def\<close>)
  show "ok db (bind_tx (transition_row (snapshot_request ck n t r)) (\<lambda>r'.
       bind_tx (upsertInputRequests k is') (\<lambda>_ d. Inr (if tr_terminal t then exhaust_live k d else d, r')))) db"
    using ok_snapshot_request [OF assms _ r] k by (intro ok_seq tx_ok) simp_all
qed

subsection \<open>Recovery\<close>

lemma ok_noteRecovery [tx_ok]: "ok db0 (noteRecovery ck t) db"
  unfolding noteRecovery_def
  by (rule ok_start, intro ok_locked ok_if ok_seq tx_ok ok_req_row) (auto simp: request_defs dest!: core_eq soundD)

lemma ok_noteRecoveryFailure [tx_ok]: "ok db0 (noteRecoveryFailure hash t at_time) db"
proof (rule okI)
  fix db' x
  assume k: "kept db0 db" and run: "noteRecoveryFailure hash t at_time db = Inr (db', x)"
  show "kept db0 db'"
  proof (cases "find_task t db")
    case (Some r)
    show ?thesis
    proof (cases "isTerminalState (tk_internalState r)")
      case False
      from kept_touch [OF k Some, of "r\<lparr>tk_recoveryFailureCount := tk_recoveryFailureCount r + 1,
          tk_nextRecoveryAt := at_time + recovery_delay hash t (tk_recoveryFailureCount r)\<rparr>"]
      show ?thesis using run Some False by (auto simp: noteRecoveryFailure_def core_def)
    qed (use run Some k in \<open>auto simp: noteRecoveryFailure_def\<close>)
  qed (use run k in \<open>auto simp: noteRecoveryFailure_def\<close>)
qed

lemma ok_recordIdentityConflict [tx_ok]: "ok db0 (recordIdentityConflict sha t m) db"
  unfolding recordIdentityConflict_def by (intro ok_locked tx_ok) (simp add: quiet_outbox)

lemma ok_failRecoveryNotFound [tx_ok]: "ok db0 (failRecoveryNotFound ck t m) db"
  unfolding failRecoveryNotFound_def
  by (rule ok_start, intro ok_locked ok_if ok_seq tx_ok ok_req_row)
     (auto simp: failing_def request_defs dest!: core_eq soundD)

end
