(* ===== verification/TaskAnswers.thy ===== *)
theory TaskAnswers
  imports TaskEffects
begin

text \<open>The publication of tasks and the operations on their inputs keep the invariant of the tables.\<close>

subsection \<open>Publication\<close>

lemma bind_tx_assoc: "bind_tx (bind_tx m f) g = bind_tx m (\<lambda>x. bind_tx (f x) g)"
proof
  fix db
  show "bind_tx (bind_tx m f) g db = bind_tx m (\<lambda>x. bind_tx (f x) g) db"
    by (cases "m db") (auto simp: bind_tx_def)
qed

lemma ok_createAdmissionIntent [tx_ok]: "ok db0 (createAdmissionIntent i) db"
  by (rule ok_quiet) (auto simp: createAdmissionIntent_def quiet_fields split: if_splits)

lemma ok_markAdmissionUncertain [tx_ok]: "ok db0 (markAdmissionUncertain t) db"
  by (rule ok_quiet) (auto simp: markAdmissionUncertain_def split: option.splits if_splits)

lemma ok_recordRejection [tx_ok]: "ok db0 (recordRejection t) db"
  unfolding recordRejection_def by (intro tx_ok) simp

lemma ok_completeAdmissionWithoutTask [tx_ok]: "ok db0 (completeAdmissionWithoutTask t) db"
  unfolding completeAdmissionWithoutTask_def by (intro tx_ok) simp

text \<open>A row and its first observation.\<close>

lemma good_absent: "good db \<Longrightarrow> find_task k db = None \<Longrightarrow> revisions_of k db = [] \<and> \<not> has_event k (Start_attempt_key n) db"
  by (simp add: good_def)

lemma not_observed: "good db \<Longrightarrow> find_task k db = None \<Longrightarrow> \<not> observed k n db"
  using good_absent [of db k] by (auto simp: observed_def revisions_of_def list_ex_iff filter_empty_conv)

lemma added_observation [simp]:
  "find_task k (add_observation x db) = find_task k db"
  "revisions_of k (add_observation x db) = revisions_of k db @ (if or_taskId x = k then [or_revision x] else [])"
  "has_event k e (add_observation x db) = has_event k e db"
  "db_observations (add_observation x db) = db_observations db @ [x]"
  "db_tasks (add_observation x db) = db_tasks db"
  by (simp_all add: add_observation_def find_task_def revisions_of_def has_event_def)

lemma kept_new:
  assumes k: "kept db0 db" and n: "find_task (tk_taskId r) db = None" and s: "sound r"
    and o1: "tk_observationRevision r = 1" and x: "or_taskId x = tk_taskId r" "or_revision x = 1"
  shows "kept db0 (add_observation x (put_task r db))"
proof -
  let ?d = "add_observation x (put_task r db)"
  have g: "good db" and e: "evolves db0 db" using k by (simp_all add: kept_def)
  note A = good_absent [OF g n]
  have "good ?d"
  proof (rule goodI)
    show "distinct (js_keys (db_tasks ?d))" using g by (simp add: good_def put_keys)
    fix i y
    assume y: "find_task i ?d = Some y"
    show "tk_taskId y = i \<and> sound y \<and> revisions_of i ?d = [1..tk_observationRevision y]"
      using y A s o1 x goodD [OF g, of i y] by (auto split: if_splits)
    show "m \<le> tk_invocationAttempt y" if "has_event i (Start_attempt_key m) ?d" for m
      using y that A goodD(4) [OF g, of i y m] by (auto split: if_splits)
  next
    fix i m
    assume "find_task i ?d = None"
    then show "revisions_of i ?d = []" "\<not> has_event i (Start_attempt_key m) ?d"
      using good_absent [OF g, of i] x by (auto split: if_splits)
  qed
  moreover have "evolves db ?d" using n by (auto simp: evolves_def)
  ultimately show ?thesis using e evolves_trans by (auto simp: kept_def)
qed

lemma insert_task_Inr:
  "insert_task r db = Inr (db', u) \<Longrightarrow> find_task (tk_taskId r) db = None \<and> db' = put_task r db"
  by (auto simp: insert_task_def find_task_def js_has_def split: if_splits)

lemma ok_new_task:
  assumes s: "sound r" and o1: "tk_observationRevision r = 1"
    and y: "or_taskId y = tk_taskId r" "or_revision y = 1"
    and f: "\<And>d d' x. \<lbrakk>\<not> observed (tk_taskId r) 1 d; f d = Inr (d', x)\<rbrakk> \<Longrightarrow> d' = add_observation y d"
  shows "ok db0 (bind_tx (insert_task r) (\<lambda>_. f)) db"
proof (rule okI)
  fix db' x
  assume k: "kept db0 db" and run: "bind_tx (insert_task r) (\<lambda>_. f) db = Inr (db', x)"
  then obtain d u where d: "insert_task r db = Inr (d, u)" "f d = Inr (db', x)"
    by (auto simp: bind_tx_def bind_r_Inr)
  have n: "find_task (tk_taskId r) db = None" "d = put_task r db" using insert_task_Inr [OF d(1)] by simp_all
  have "\<not> observed (tk_taskId r) 1 d"
    using not_observed [of db "tk_taskId r" 1] n k by (simp add: kept_def observed_def)
  from f [OF this d(2)] show "kept db0 db'" using kept_new [OF k n(1) s o1 y] n(2) by simp
qed

lemma accepted_sound: "agrees (pb_transition p) \<Longrightarrow> sound (accepted_row ck p) \<and> tk_observationRevision (accepted_row ck p) = 1"
  by (simp add: accepted_row_def new_task_def sound_def agrees_def Let_def)

lemma new_task_id [simp]: "tk_taskId (accepted_row ck p) = ti_taskId (pb_identity p)" "tk_taskId (scheduled_row ck i) = ti_taskId i"
  by (simp_all add: accepted_row_def scheduled_row_def new_task_def Let_def)

lemma ok_publish_transaction [tx_ok]:
  assumes "agrees (pb_transition p)"
  shows "ok db0 (publish_transaction sha ck p) db"
proof -
  let ?t = "ti_taskId (pb_identity p)"
  let ?new = "bind_tx (insert_task (accepted_row ck p)) (\<lambda>_. insertObservation ck ?t (pb_transition p))"
  have new: "ok db0 ?new d" for d
    by (rule ok_new_task [where y = "first_observation ?t (stableObservationType (pb_transition p))
          (reasonCodeFromTransition (pb_transition p)) (ck_database ck)"])
       (use accepted_sound [OF assms] in \<open>auto simp: insertObservation_def first_observation_def\<close>)
  have "ok db0 (bind_tx (\<lambda>d. Inr (set_admission ?t Adm_accepted d, ())) (\<lambda>_. bind_tx ?new (\<lambda>_.
         bind_tx (case pb_startWindowMissedAt p of None \<Rightarrow> ret_tx () | Some m \<Rightarrow> persistStartWindowStop sha ck ?t m) (\<lambda>_.
         bind_tx (\<lambda>d. Inr (insertOutbox ?t Created_key ''task.created'' d, ())) (\<lambda>_.
         bind_tx (upsertInputRequests ?t (pb_inputRequests p)) (\<lambda>_.
         bind_tx (\<lambda>d. Inr (set_admission ?t Adm_published d, ())) (\<lambda>_. locked_task ?t))))))) db"
    by (intro ok_seq new ok_case_option tx_ok) (simp_all add: quiet_outbox)
  then show ?thesis unfolding publish_transaction_def Let_def bind_tx_assoc .
qed

lemma ok_publishAccepted [tx_ok]:
  assumes "agrees (pb_transition p)"
  shows "ok db0 (publishAccepted sha ck p) db"
proof (rule okI)
  fix db' x
  assume k: "kept db0 db" and run: "publishAccepted sha ck p db = Inr (db', x)"
  show "kept db0 db'"
  proof (cases "publish_transaction sha ck p db")
    case (Inr y)
    then show ?thesis using run okD [OF ok_publish_transaction [OF assms] k] by (auto simp: publishAccepted_def)
  qed (use run k in \<open>auto simp: publishAccepted_def split: if_splits option.splits\<close>)
qed

lemma ok_publishScheduled [tx_ok]: "ok db0 (publishScheduled ck i) db"
proof -
  let ?o = "\<lambda>d. if observed (ti_taskId i) 1 d then Inl ''23505''
             else Inr (add_observation (first_observation (ti_taskId i) ''task.scheduled'' None (ti_acceptedAt i)) d, ())"
  have s: "sound (scheduled_row ck i)" "tk_observationRevision (scheduled_row ck i) = 1"
    by (simp_all add: scheduled_row_def new_task_def sound_def)
  have new: "ok db0 (bind_tx (insert_task (scheduled_row ck i)) (\<lambda>_. ?o)) d" for d
    by (rule ok_new_task [where y = "first_observation (ti_taskId i) ''task.scheduled'' None (ti_acceptedAt i)"])
       (use s in \<open>auto simp: first_observation_def split: if_splits\<close>)
  have "ok db0 (bind_tx (bind_tx (insert_task (scheduled_row ck i)) (\<lambda>_. ?o)) (\<lambda>_.
     bind_tx (\<lambda>d. Inr (insertOutbox (ti_taskId i) Created_key ''task.created'' d, ())) (\<lambda>_.
     bind_tx (\<lambda>d. Inr (set_admission (ti_taskId i) Adm_published d, ())) (\<lambda>_. locked_task (ti_taskId i))))) db"
    by (intro ok_seq new tx_ok) (simp_all add: quiet_outbox)
  then show ?thesis unfolding publishScheduled_def bind_tx_assoc .
qed

subsection \<open>Inputs\<close>

lemma ok_shift: "quiet db d \<Longrightarrow> ok db0 m d \<Longrightarrow> ok db0 (\<lambda>_. m d) db"
  by (auto simp: ok_def intro: quiet_kept)

lemma ok_dif:
  "(c db \<Longrightarrow> ok db0 m db) \<Longrightarrow> (\<not> c db \<Longrightarrow> ok db0 m' db) \<Longrightarrow> ok db0 (\<lambda>d. if c d then m d else m' d) db"
  by (simp add: ok_def)

lemma ok_dbind: "(\<And>x. ok db0 (f x) db) \<Longrightarrow> ok db0 (\<lambda>d. bind_r (m d) (\<lambda>x. f x d)) db"
  by (auto simp: ok_def bind_r_Inr)

lemma ok_Inl: "ok db0 (\<lambda>_. Inl e) db"
  by (simp add: ok_def)

lemma ok_quiet_value: "quiet db (f db) \<Longrightarrow> ok db0 (\<lambda>d. Inr (f d, g d)) db"
  by (rule ok_quiet) simp

lemma ok_dshift: "quiet db (f db) \<Longrightarrow> ok db0 (m db) (f db) \<Longrightarrow> ok db0 (\<lambda>d. m d (f d)) db"
  by (auto simp: ok_def intro: quiet_kept)

lemma quiet_deliver: "deliver ck a i j h db = Inr (db', v) \<Longrightarrow> quiet db db'"
  by (auto simp: deliver_def quiet_fields split: if_splits)

lemma quiet_accept_response: "accept_response od va ck r a key j h db = Inr (db', v) \<Longrightarrow> quiet db db'"
  by (auto simp: accept_response_def bind_r_Inr dest: quiet_deliver split: option.splits input_status.splits if_splits)

lemma ok_kept: "(kept db0 db \<Longrightarrow> ok db0 m db) \<Longrightarrow> ok db0 m db"
  by (simp add: ok_def)

lemma ok_map_tx:
  assumes step: "\<And>y d. kept db0 d \<Longrightarrow> ok db0 (f y) d"
  shows "ok db0 (map_tx f ys) db"
proof (induction ys arbitrary: db)
  case (Cons y ys)
  show ?case unfolding map_tx.simps by (rule ok_kept) (intro ok_seq step Cons.IH ok_ret)
qed simp

lemma getAuthorized_Inr:
  "getAuthorized ck t a db = Inr r \<Longrightarrow> find_task t db = Some r \<and> authorized a r \<and> \<not> handle_expired ck r"
  by (auto simp: getAuthorized_def split: option.splits if_splits)

lemma ok_acceptMcpInputResponses [tx_ok]:
  "ok db0 (acceptMcpInputResponses sha ns od co va ck t a js) db"
proof (rule ok_start, cases "getAuthorized ck t a db")
  case (Inr r)
  assume k: "kept db db"
  have r: "find_task t db = Some r" "tk_taskId r = t" "sound r"
    using getAuthorized_Inr [OF Inr] goodD [of db t r] k by (auto simp: kept_def)
  have tr: "ok db (transitionTask (runtime_request r no_update ty n re e)) d" if "kept db d" "\<And>m. e \<noteq> Start_attempt_key m" for d ty n re e
    by (rule ok_req [OF that(1)]) (use r that(2) in \<open>auto simp: request_defs dest!: core_eq soundD\<close>)
  have ac: "ok db (accept_response od va ck r a key j h) d" for key j h d
    by (rule ok_quiet) (rule quiet_accept_response)
  have cases: "ok db (case hs of [] \<Rightarrow> ret_tx () | x # xs \<Rightarrow> bind_tx (transitionTask (q hs)) (\<lambda>_. ret_tx ())) d"
    if "\<And>hs. ok db (transitionTask (q hs)) d" for hs q d
    using that by (cases hs) (auto intro!: ok_seq)
  have "ok db (bind_tx
         (map_tx
           (\<lambda>(key, response).
              bind_tx (accept_response od va ck r a key response (response_hash sha ns response))
                (\<lambda>v. ret_tx ((key, response_hash sha ns response), v)))
           (order_by (\<lambda>x y. co (fst x) (fst y)) js)) (\<lambda>verdicts.
       bind_tx
         (case map fst (filter (\<lambda>(_, v). v = Accepted_key) verdicts) of
            [] \<Rightarrow> ret_tx ()
          | hashes \<Rightarrow>
              bind_tx
                (transitionTask
                  (runtime_request r no_update ''task.input_response_accepted'' (ck_process ck) ''INPUT_RESPONSE_ACCEPTED''
                     (Input_response_key (acceptance_hash sha hashes)))) (\<lambda>_. ret_tx ())) (\<lambda>_.
         ret_tx (map (\<lambda>((key, _), v). (key, v)) verdicts)))) db"
    by (intro ok_seq ok_map_tx) (auto intro!: ok_seq ac tr split: list.split)
  then show "ok db (acceptMcpInputResponses sha ns od co va ck t a js) db"
    by (rule ok_at [rotated]) (simp add: acceptMcpInputResponses_def Inr)
qed (rule ok_same, simp add: acceptMcpInputResponses_def)

lemma ok_promote_ready:
  assumes "find_task t db = Some r" and "\<not> isTerminalState (tk_internalState r)"
  shows "ok db0 (promote_ready sha ck r ds) db"
proof (rule okI)
  fix db' x
  assume k: "kept db0 db" and run: "promote_ready sha ck r ds db = Inr (db', x)"
  obtain d n where n: "next_sequence r db = (d, n)" by fastforce
  from run n obtain c e P f where "bind_tx (insert_command c) (\<lambda>_ db. Inr (insertCommandFact c e (update_inbox P f db), True)) d = Inr (db', x)"
    by (auto simp: promote_ready_def Let_def)
  moreover have "ok db0 (bind_tx (insert_command c) (\<lambda>_ db. Inr (insertCommandFact c e (update_inbox P f db), True))) d"
    by (intro ok_seq tx_ok) (rule quiet_trans [OF quiet_update_inbox quiet_fact])
  ultimately show "kept db0 db'" using kept_next [OF k assms n] by (blast intro: okD)
qed

lemma ok_promote_task [tx_ok]: "ok db0 (promote_task sha co ck t) db"
  unfolding promote_task_def Let_def
proof (rule ok_start, rule ok_locked, intro ok_dif ok_dbind)
  fix r ds
  assume r: "find_task t db = Some r" "tk_taskId r = t" "sound r" and k: "kept db db"
    and live: "\<not> (stopping r \<or> isTerminalState (tk_internalState r))"
  let ?ks = "\<lambda>d. stale_keys r ds d"
  show "ok db (\<lambda>d. promote_ready sha ck r (filter (\<lambda>(i, _). ib_key i \<notin> set (?ks d)) ds) (drop_stale r (?ks d) d)) db"
    by (rule ok_dshift [OF quiet_drop ok_promote_ready]) (use r live quiet_find [OF quiet_drop] in auto)
qed (rule ok_quiet_value, simp)+

lemma kept_promote_all:
  "promote_all sha co ck ts db = (db', x) \<Longrightarrow> kept db0 db \<Longrightarrow> kept db0 db'"
proof (induction ts arbitrary: db x)
  case (Cons t ts)
  from Cons.prems show ?case
    using okD [OF ok_promote_task Cons.prems(2)] Cons.IH by (auto split: sum.splits prod.splits)
qed simp

lemma kept_promotePending:
  "promotePendingInputResponses sha co ck n db = (db', x) \<Longrightarrow> kept db0 db \<Longrightarrow> kept db0 db'"
  by (auto simp: promotePendingInputResponses_def intro: kept_promote_all split: if_splits)

lemma ok_supersedeClaimedBusinessInput [tx_ok]: "ok db0 (supersedeClaimedBusinessInputIfNoLongerCurrent ck c) db"
  unfolding supersedeClaimedBusinessInputIfNoLongerCurrent_def Let_def
  by (intro ok_if ok_locked tx_ok, rule ok_quiet)
     (auto simp: quiet_trans [OF quiet_trans [OF quiet_trans [OF quiet_update_commands quiet_inputs(1)] quiet_settle] quiet_superseded(1)]
        quiet_trans [OF quiet_trans [OF quiet_update_commands quiet_settle] quiet_superseded(1)] split: if_splits)

lemma ok_rejectClaimedPromotedInput [tx_ok]: "ok db0 (rejectClaimedPromotedInputIfPayloadMismatch c) db"
proof -
  have "ok db0 (bind_tx (rejectClaimedCommand c e m) (\<lambda>_. ret_tx True)) db" for e m by (intro ok_seq tx_ok)
  then show ?thesis by (auto simp: ok_def rejectClaimedPromotedInputIfPayloadMismatch_def split: if_splits)
qed

lemma ok_fail_by_input:
  assumes "kept db0 db" and "find_task t db0 = Some r" and "tk_taskId r = t" and "sound r"
  shows "ok db0 (fail_by_input ck c r m re tag) db"
  unfolding fail_by_input_def
  by (intro ok_if ok_seq tx_ok ok_req [OF assms(1)])
     (use assms in \<open>auto simp: failing_def request_defs dest!: core_eq soundD\<close>)

lemma ok_bind_at: "quiet db (f db) \<Longrightarrow> ok db0 (bind_tx m g) (f db) \<Longrightarrow> ok db0 (\<lambda>d. bind_tx m g (f d)) db"
  by (auto simp: ok_def intro: quiet_kept)

lemma quiet_rejection:
  "quiet db (settle_inbox t n s code (supersede_answers c r (update_commands P f db)))"
  by (rule quiet_trans [OF quiet_trans [OF quiet_update_commands quiet_inputs(2)] quiet_settle])

lemma ok_rejectInputResponseAndFailTask [tx_ok]: "ok db0 (rejectInputResponseAndFailTask ck c e m) db"
  unfolding rejectInputResponseAndFailTask_def Let_def
  by (rule ok_start, rule ok_locked, rule ok_dif, rule ok_Inl, rule ok_bind_at, rule quiet_rejection, rule ok_seq,
      rule ok_fail_by_input, rule quiet_kept [OF quiet_rejection], assumption+, intro ok_seq tx_ok)

lemma quiet_write: "fold_r (write_answer t) db as = Inr db' \<Longrightarrow> quiet db db'"
  by (erule fold_r_invariant [where P = "quiet db"])
     (auto simp: write_answer_def intro: quiet_trans [OF _ quiet_fields(2)] split: if_splits)

lemma ok_failInputResponseDelivery [tx_ok]: "ok db0 (failInputResponseDelivery ck c m) db"
  unfolding failInputResponseDelivery_def Let_def
  by (rule ok_start, intro ok_locked ok_seq tx_ok ok_fail_by_input) (auto intro: quiet_trans [OF quiet_inputs(2) quiet_settle])

lemma ok_exhaust_acknowledged [tx_ok]: "ok db0 (exhaust_acknowledged ck c ack e m ks ev v) db"
  unfolding exhaust_acknowledged_def
  by (intro ok_seq tx_ok) (auto intro: quiet_trans [OF quiet_inputs(1) quiet_settle])

lemma ok_complete_answers:
  assumes "find_task (cd_taskId c) db = Some r" and "tk_taskId r = cd_taskId c" and "sound r"
  shows "ok db (complete_answers ck c ack as r) db"
proof -
  have w: "ok db (\<lambda>d. bind_r (fold_r (write_answer (cd_taskId c)) d as) (\<lambda>d'. Inr (d', ()))) d" for d
    by (rule ok_quiet) (auto simp: bind_r_Inr dest: quiet_write)
  have t: "ok db (\<lambda>d. transitionTask (runtime_request r (answered_update r d) ty n re (Command_key m tag)) d) d"
    if "kept db d" for d ty n re m tag
    by (rule ok_at [OF refl], rule ok_req [OF that])
       (use assms in \<open>auto simp: answered_update_def input_complete_def request_defs dest!: core_eq soundD\<close>)
  show ?thesis unfolding complete_answers_def by (intro ok_seq w t tx_ok) simp_all
qed

lemma ok_acknowledgeUpdate [tx_ok]: "ok db0 (acknowledgeUpdateAndCompleteInputAnswers ck c ack as) db"
  unfolding acknowledgeUpdateAndCompleteInputAnswers_def Let_def
  by (rule ok_start, rule ok_locked, intro ok_dif ok_Inl ok_complete_answers tx_ok) simp_all

end
