(* ===== verification/TaskHistory.thy ===== *)
theory TaskHistory
  imports TaskAnswers Interfaces
begin

text \<open>
  Histories of the task engine: the operations of the store as data, one transaction each, as the engine, the
  scheduler, the command dispatcher, the watchdog and recovery call them in any order and with any arguments.
  An operation that throws leaves the tables; a start that has been claimed is a grant of the history.
  \<open>agrees\<close> holds of every transition that the callers pass, since they come from \<open>mapAdapterSnapshot\<close>
  (packages/task-engine/src/result-contract.ts), and the result contract changes only their result and error.
\<close>

record task_env =
  te_sha256 :: "string \<Rightarrow> string"
  te_jitter :: "string \<Rightarrow> int"
  te_collate :: "string \<Rightarrow> string \<Rightarrow> bool"
  te_num_string :: "rat \<Rightarrow> string"
  te_offset_datetime :: "string \<Rightarrow> int option"
  te_validate :: validator

datatype publish_op =
    Create_admission task_identity
  | Mark_uncertain string
  | Record_rejection string
  | Complete_without_task string
  | Publish_accepted clocks publication
  | Publish_scheduled clocks task_identity

datatype start_op =
    Claim_due int string int int
  | Complete_due_misses int int
  | Claim_expired_starts int string int int
  | Renew_schedule clocks string string int
  | Accept_scheduled clocks string string scheduled_acceptance
  | Release_retry clocks string string int string
  | Mark_response_uncertain clocks string string int string
  | Defer_reconcile clocks string string int string
  | Complete_missed string int string
  | Complete_rejection string string int string string bool
  | Request_window_stop clocks string int

datatype confirm_op =
    Claim_confirmations int string int int
  | Renew_confirmation clocks string string int
  | Defer_confirmation clocks string string int string
  | Confirm_started string string int snapshot_transition int
  | Stop_unconfirmed clocks string string int
  | Claim_deadlines clocks int int
  | Apply_snapshot clocks string int snapshot_transition "new_input list"
  | Note_recovery clocks string
  | Note_recovery_failure string int
  | Identity_conflict string string
  | Recovery_not_found clocks string string

datatype command_op =
    Begin_cancel clocks string string
  | Cooperative_intent clocks string
  | Begin_command clocks string command_type string jobj
  | Begin_intervention clocks string string string jobj
  | Claim_commands clocks int string int int
  | Retry_claimed command_row int string string
  | Command_started command_row
  | Renew_claim clocks command_row int
  | Reject_claimed command_row string string
  | Acknowledge_claimed command_row jobj
  | Supersede_normal string bool
  | Supersede_claimed clocks command_row
  | Supersede_expired clocks string
  | Supersede_intervention command_row
  | Exhaust_intervention command_row string
  | Reject_cancel clocks command_row int snapshot_transition jobj
  | Stop_failed clocks command_row string

datatype input_op =
    Accept_responses clocks string authorization jobj
  | Promote_pending clocks int
  | Supersede_input clocks command_row
  | Reject_mismatch command_row
  | Reject_and_fail clocks command_row string string
  | Fail_delivery clocks command_row string
  | Acknowledge_update clocks command_row jobj "answer list"

datatype task_op =
    Publishing publish_op | Starting start_op | Confirming confirm_op | Commanding command_op | Answering input_op

type_synonym grant = "string \<times> int"

definition quietly :: "'a tx \<Rightarrow> grant list tx" where
  "quietly m = bind_tx m (\<lambda>_. ret_tx [])"

definition start_of :: "task_row \<Rightarrow> grant" where
  "start_of r = (tk_taskId r, tk_invocationAttempt r)"

fun publish_step :: "task_env \<Rightarrow> publish_op \<Rightarrow> grant list tx" where
  "publish_step e (Create_admission i) = quietly (createAdmissionIntent i)"
| "publish_step e (Mark_uncertain t) = quietly (markAdmissionUncertain t)"
| "publish_step e (Record_rejection t) = quietly (recordRejection t)"
| "publish_step e (Complete_without_task t) = quietly (completeAdmissionWithoutTask t)"
| "publish_step e (Publish_accepted ck p) = quietly (publishAccepted (te_sha256 e) ck p)"
| "publish_step e (Publish_scheduled ck i) = quietly (publishScheduled ck i)"

fun start_step :: "task_env \<Rightarrow> start_op \<Rightarrow> grant list tx" where
  "start_step e (Claim_due now w lease n) = bind_tx (claimDueScheduled now w lease n) (\<lambda>rs. ret_tx (map start_of rs))"
| "start_step e (Complete_due_misses now n) = quietly (completeDueStartWindowMisses now n)"
| "start_step e (Claim_expired_starts now w lease n) = quietly (claimExpiredScheduledStarts now w lease n)"
| "start_step e (Renew_schedule ck t w lease) = quietly (renewScheduleClaim ck t w lease)"
| "start_step e (Accept_scheduled ck t w a) = quietly (acceptScheduled (te_sha256 e) ck t w a)"
| "start_step e (Release_retry ck t w n m) = quietly (releaseScheduleRetry ck t w n m)"
| "start_step e (Mark_response_uncertain ck t w n m) = quietly (markScheduleResponseUncertain ck t w n m)"
| "start_step e (Defer_reconcile ck t w n m) = quietly (deferScheduleReconcile ck t w n m)"
| "start_step e (Complete_missed t n w) = quietly (completeStartWindowMissed t n w)"
| "start_step e (Complete_rejection t w n c m b) = quietly (completeScheduledRejection t w n c m b)"
| "start_step e (Request_window_stop ck t n) = quietly (requestStartWindowStop (te_sha256 e) ck t n)"

fun confirm_step :: "task_env \<Rightarrow> confirm_op \<Rightarrow> grant list tx" where
  "confirm_step e (Claim_confirmations now w n lease) = quietly (claimBoundStartConfirmations now w n lease)"
| "confirm_step e (Renew_confirmation ck t w lease) = quietly (renewStartConfirmationClaim ck t w lease)"
| "confirm_step e (Defer_confirmation ck t w n m) = quietly (deferStartConfirmation ck t w n m)"
| "confirm_step e (Confirm_started t w v tr n) = quietly (confirmBoundExecutionStarted t w v tr n)"
| "confirm_step e (Stop_unconfirmed ck t w n) = quietly (stopUnconfirmedBoundExecution (te_sha256 e) ck t w n)"
| "confirm_step e (Claim_deadlines ck now n) = quietly (claimExpiredDeadlines (te_sha256 e) ck now n)"
| "confirm_step e (Apply_snapshot ck t v tr is') = quietly (applySnapshot ck t v tr is')"
| "confirm_step e (Note_recovery ck t) = quietly (noteRecovery ck t)"
| "confirm_step e (Note_recovery_failure t n) = quietly (noteRecoveryFailure (te_jitter e) t n)"
| "confirm_step e (Identity_conflict t m) = quietly (recordIdentityConflict (te_sha256 e) t m)"
| "confirm_step e (Recovery_not_found ck t m) = quietly (failRecoveryNotFound ck t m)"

fun command_step :: "task_env \<Rightarrow> command_op \<Rightarrow> grant list tx" where
  "command_step e (Begin_cancel ck t h) = quietly (beginCancel ck t h)"
| "command_step e (Cooperative_intent ck t) = quietly (recordCooperativeCancellationIntent ck t)"
| "command_step e (Begin_command ck t ty h p) = quietly (beginCommand ck t ty h p)"
| "command_step e (Begin_intervention ck t i h p) = quietly (beginBusinessInterventionCommand (te_sha256 e) ck t i h p)"
| "command_step e (Claim_commands ck now w lease n) = quietly (claimDueCommands ck now w lease n)"
| "command_step e (Retry_claimed c n x m) = quietly (retryClaimedCommand c n x m)"
| "command_step e (Command_started c) = quietly (recordCommandStarted c)"
| "command_step e (Renew_claim ck c lease) = quietly (renewCommandClaim ck c lease)"
| "command_step e (Reject_claimed c x m) = quietly (rejectClaimedCommand c x m)"
| "command_step e (Acknowledge_claimed c ack) = quietly (acknowledgeClaimedCommand c ack)"
| "command_step e (Supersede_normal t b) = quietly (supersedeNormalCommandsForSafeStop t b)"
| "command_step e (Supersede_claimed ck c) = quietly (supersedeClaimedCommandForSafeStop ck c)"
| "command_step e (Supersede_expired ck t) = quietly (supersedeExpiredClaimedNormalCommandsForSafeStop ck t)"
| "command_step e (Supersede_intervention c) = quietly (supersedeClaimedBusinessInterventionIfNotRunning c)"
| "command_step e (Exhaust_intervention c m) = quietly (exhaustClaimedBusinessIntervention c m)"
| "command_step e (Reject_cancel ck c n t ack) = quietly (rejectUserCancel ck c n t ack)"
| "command_step e (Stop_failed ck c m) = quietly (failSafeStopUnconfirmed ck c m)"

text \<open>A promotion keeps the transactions it has committed, whatever it returns.\<close>

fun input_step :: "task_env \<Rightarrow> input_op \<Rightarrow> grant list tx" where
  "input_step e (Accept_responses ck t a js) =
     quietly (acceptMcpInputResponses (te_sha256 e) (te_num_string e) (te_offset_datetime e) (te_collate e) (te_validate e) ck t a js)"
| "input_step e (Promote_pending ck n) =
     (\<lambda>db. Inr (fst (promotePendingInputResponses (te_sha256 e) (te_collate e) ck n db), []))"
| "input_step e (Supersede_input ck c) = quietly (supersedeClaimedBusinessInputIfNoLongerCurrent ck c)"
| "input_step e (Reject_mismatch c) = quietly (rejectClaimedPromotedInputIfPayloadMismatch c)"
| "input_step e (Reject_and_fail ck c r m) = quietly (rejectInputResponseAndFailTask ck c r m)"
| "input_step e (Fail_delivery ck c m) = quietly (failInputResponseDelivery ck c m)"
| "input_step e (Acknowledge_update ck c ack as) = quietly (acknowledgeUpdateAndCompleteInputAnswers ck c ack as)"

fun transition_of :: "task_op \<Rightarrow> snapshot_transition option" where
  "transition_of (Publishing (Publish_accepted ck p)) = Some (pb_transition p)"
| "transition_of (Starting (Accept_scheduled ck t w a)) = Some (sa_transition a)"
| "transition_of (Confirming (Confirm_started t w v tr n)) = Some tr"
| "transition_of (Confirming (Apply_snapshot ck t v tr is')) = Some tr"
| "transition_of (Commanding (Reject_cancel ck c n tr ack)) = Some tr"
| "transition_of _ = None"

definition mapped :: "task_op \<Rightarrow> bool" where
  "mapped x \<longleftrightarrow> (case transition_of x of None \<Rightarrow> True | Some t \<Rightarrow> agrees t)"

definition perform :: "task_env \<Rightarrow> task_op \<Rightarrow> grant list tx" where
  "perform e x =
     (case x of
        Publishing y \<Rightarrow> publish_step e y | Starting y \<Rightarrow> start_step e y | Confirming y \<Rightarrow> confirm_step e y
      | Commanding y \<Rightarrow> command_step e y | Answering y \<Rightarrow> input_step e y)"

definition task_step :: "task_env \<Rightarrow> task_db \<Rightarrow> task_op \<Rightarrow> error + task_db \<times> grant list" where
  "task_step e db x = (if mapped x then perform e x db else Inl ''TRANSITION_OF_NO_SNAPSHOT'')"

definition no_tasks :: task_db where
  "no_tasks = \<lparr>db_tasks = [], db_admissions = [], db_commands = [], db_inputs = [], db_inbox = [], db_observations = [],
     db_outbox = []\<rparr>"

definition history :: "task_env \<Rightarrow> task_op list \<Rightarrow> task_db \<times> grant list" where
  "history e xs = grants (task_step e) no_tasks xs"

subsection \<open>Every operation keeps the invariant\<close>

lemma ok_quietly: "ok db0 m db \<Longrightarrow> ok db0 (quietly m) db"
  unfolding quietly_def by (rule ok_seq) simp_all

lemma ok_publish_step: "mapped (Publishing x) \<Longrightarrow> ok db0 (publish_step e x) db"
  by (cases x) (auto simp: mapped_def intro!: ok_quietly tx_ok)

lemma ok_deferScheduleReconcile [tx_ok]: "ok db0 (deferScheduleReconcile ck t w n m) db"
  unfolding deferScheduleReconcile_def by (intro tx_ok)

lemma ok_start_step: "mapped (Starting x) \<Longrightarrow> ok db0 (start_step e x) db"
  by (cases x) (auto simp: mapped_def intro!: ok_quietly ok_seq tx_ok)

lemma ok_confirm_step: "mapped (Confirming x) \<Longrightarrow> ok db0 (confirm_step e x) db"
  by (cases x) (auto simp: mapped_def intro!: ok_quietly tx_ok)

lemma ok_command_step: "mapped (Commanding x) \<Longrightarrow> ok db0 (command_step e x) db"
  by (cases x) (auto simp: mapped_def intro!: ok_quietly tx_ok)

lemma ok_promote_step: "ok db0 (\<lambda>db. Inr (fst (promotePendingInputResponses sha co ck n db), g db)) db"
  by (rule okI) (auto intro: kept_promotePending [OF surjective_pairing])

lemma ok_input_step: "ok db0 (input_step e x) db"
  by (cases x) (auto intro!: ok_quietly ok_promote_step tx_ok)

lemma ok_task_step: "ok db0 (\<lambda>db. task_step e db x) db"
proof (cases "mapped x")
  case True
  then have "ok db0 (perform e x) db"
    by (cases x) (auto simp: perform_def intro: ok_publish_step ok_start_step ok_confirm_step ok_command_step ok_input_step)
  then show ?thesis by (simp add: ok_def task_step_def True)
qed (simp add: ok_def task_step_def)

lemma step_kept:
  assumes "good db" and "task_step e db x = Inr (db', gs)"
  shows "good db'" and "evolves db db'"
  using okD [OF ok_task_step [of db e x db], of db' gs] assms by (auto simp: kept_def)

lemma good_empty: "good no_tasks"
  by (simp add: good_def no_tasks_def find_task_def revisions_of_def has_event_def)

lemma grants_kept:
  "good db \<Longrightarrow> grants (task_step e) db xs = (db', gs) \<Longrightarrow> good db' \<and> evolves db db'"
proof (induction xs arbitrary: db gs)
  case (Cons x xs)
  show ?case
  proof (cases "task_step e db x")
    case (Inl a)
    then show ?thesis using Cons by simp
  next
    case (Inr p)
    then obtain d g g' where d: "task_step e db x = Inr (d, g)" "grants (task_step e) d xs = (db', g')"
      using Cons.prems(2) by (cases p) (auto split: prod.splits)
    show ?thesis using Cons.IH [OF step_kept(1) [OF Cons.prems(1) d(1)] d(2)] step_kept(2) [OF Cons.prems(1) d(1)]
      by (blast intro: evolves_trans)
  qed
qed simp

lemma history_kept: "good (fst (history e xs))"
  using grants_kept [OF good_empty surjective_pairing [of "grants (task_step e) no_tasks xs"]] by (simp add: history_def)

subsection \<open>Claimed starts\<close>

definition attempts :: "task_db \<Rightarrow> string \<Rightarrow> int" where
  "attempts db k = (case find_task k db of None \<Rightarrow> 0 | Some r \<Rightarrow> tk_invocationAttempt r)"

lemma attempts_grow: "good db' \<Longrightarrow> evolves db db' \<Longrightarrow> attempts db k \<le> attempts db' k"
  using evolves_row [of db db' k] goodD(2) [of db' k]
  by (fastforce simp: attempts_def row_step_def sound_def split: option.splits)

lemma start_claimed:
  assumes "good db" and "find_task (tk_taskId r) db = Some r" and "start_due now r"
    and "transition_row (start_claim now w lease r) db = Inr (db', r')"
  shows "tk_taskId r' = tk_taskId r" and "tk_invocationAttempt r' = tk_invocationAttempt r + 1"
    and "find_task (tk_taskId r) db' = Some r'"
proof -
  let ?q = "start_claim now w lease r"
  have q: "tq_taskId ?q = tk_taskId r" "tq_eventKey ?q = Start_attempt_key (tk_invocationAttempt r + 1)"
      "up_invocationAttempt (tq_update ?q) = Some (tk_invocationAttempt r + 1)" "up_adapterRevision (tq_update ?q) = None"
    by (simp_all add: start_claim_def runtime_request_def no_update_def)
  have n: "\<not> has_event (tk_taskId r) (Start_attempt_key (tk_invocationAttempt r + 1)) db"
    using goodD(4) [OF assms(1,2)] by force
  obtain b where t: "transitionTask ?q db = Inr (db', r', b)"
    using assms(4) by (auto simp: transition_row_def bind_tx_def bind_r_Inr ret_tx_def)
  have "r' = transitioned ?q r \<and> db' = record_transition ?q r' db"
    using t q n assms(2,3) by (auto simp: transitionTask_def Let_def start_due_def split: if_splits)
  then show "tk_taskId r' = tk_taskId r" "tk_invocationAttempt r' = tk_invocationAttempt r + 1"
    "find_task (tk_taskId r) db' = Some r'"
    using q by (auto simp: given_def)
qed

lemma starts_claimed:
  assumes "good db" and "distinct (map tk_taskId rows)"
    and "\<And>r. r \<in> set rows \<Longrightarrow> find_task (tk_taskId r) db = Some r \<and> start_due now r"
    and "map_tx (\<lambda>r. transition_row (start_claim now w lease r)) rows db = Inr (db', rs)"
  shows "map tk_taskId rs = map tk_taskId rows \<and> map tk_invocationAttempt rs = map (\<lambda>r. tk_invocationAttempt r + 1) rows \<and>
    (\<forall>r \<in> set rs. find_task (tk_taskId r) db' = Some r) \<and>
    (\<forall>k. k \<notin> tk_taskId ` set rows \<longrightarrow> find_task k db' = find_task k db)"
  using assms
proof (induction rows arbitrary: db rs)
  case (Cons r rows)
  let ?q = "start_claim now w lease r"
  have r: "find_task (tk_taskId r) db = Some r" "start_due now r" using Cons.prems(3) by simp_all
  obtain d r' rs' where d: "transition_row ?q db = Inr (d, r')"
      and m: "map_tx (\<lambda>r. transition_row (start_claim now w lease r)) rows d = Inr (db', rs')" and rs: "rs = r' # rs'"
    using Cons.prems(4) by (auto simp: bind_tx_def bind_r_Inr ret_tx_def)
  note C = start_claimed [OF Cons.prems(1) r d]
  have fr: "find_task k d = find_task k db" if "k \<noteq> tk_taskId r" for k
    using row_frame [OF d Cons.prems(1)] that by (simp add: start_claim_def runtime_request_def)
  have ok_r: "ok db (transition_row ?q) db"
    by (rule ok_row, rule ok_transition)
      (use r in \<open>auto simp: start_claim_def start_due_def request_defs dest!: soundD\<close>)
  have "kept db db" using Cons.prems(1) by (simp add: kept_def)
  then have g: "good d" using okD [OF ok_r _ d] by (simp add: kept_def)
  have ih: "find_task (tk_taskId s) d = Some s \<and> start_due now s" if "s \<in> set rows" for s
  proof -
    have "tk_taskId s \<noteq> tk_taskId r" using that Cons.prems(2) by (auto simp: image_iff)
    with fr Cons.prems(3) that show ?thesis by simp
  qed
  have "distinct (map tk_taskId rows)" using Cons.prems(2) by simp
  from Cons.IH [OF g this ih m]
  have I: "map tk_taskId rs' = map tk_taskId rows" "map tk_invocationAttempt rs' = map (\<lambda>r. tk_invocationAttempt r + 1) rows"
    "\<And>s. s \<in> set rs' \<Longrightarrow> find_task (tk_taskId s) db' = Some s"
    "\<And>k. k \<notin> tk_taskId ` set rows \<Longrightarrow> find_task k db' = find_task k d" by blast+
  have n: "tk_taskId r \<notin> tk_taskId ` set rows" using Cons.prems(2) by simp
  show ?case
    unfolding rs using C I(1,2) I(3) I(4) [OF n] I(4) fr by auto
qed (auto simp: ret_tx_def)

lemma due_starts:
  assumes "good db" and "claimDueScheduled now w lease n db = Inr (db', rs)"
  shows "distinct (map tk_taskId rs)" and "\<And>r. r \<in> set rs \<Longrightarrow>
    attempts db (tk_taskId r) < tk_invocationAttempt r \<and> tk_invocationAttempt r \<le> attempts db' (tk_taskId r)"
proof -
  let ?rows = "due_rows (start_due now) start_due_at n db"
  have f: "find_task (tk_taskId r) db = Some r \<and> start_due now r" if "r \<in> set ?rows" for r
    using due_rows_found [OF assms(1) that] .
  have m: "map_tx (\<lambda>r. transition_row (start_claim now w lease r)) ?rows db = Inr (db', rs)"
    using assms(2) by (simp add: claimDueScheduled_def)
  have S: "map tk_taskId rs = map tk_taskId ?rows" "map tk_invocationAttempt rs = map (\<lambda>r. tk_invocationAttempt r + 1) ?rows"
    "\<And>r. r \<in> set rs \<Longrightarrow> find_task (tk_taskId r) db' = Some r"
    using starts_claimed [of db ?rows now w lease db' rs, OF assms(1) due_rows_distinct [OF assms(1)] f m] by blast+
  show "distinct (map tk_taskId rs)" unfolding S(1) using due_rows_distinct [OF assms(1)] .
  fix r
  assume r: "r \<in> set rs"
  then obtain i where i: "i < length rs" "r = rs ! i" by (auto simp: in_set_conv_nth)
  have l: "length rs = length ?rows" using S(1) map_eq_imp_length_eq by blast
  have e: "tk_taskId r = tk_taskId (?rows ! i)" "tk_invocationAttempt r = tk_invocationAttempt (?rows ! i) + 1"
    using S(1,2) i l by (metis nth_map)+
  have "find_task (tk_taskId r) db = Some (?rows ! i)" using f [OF nth_mem] i(1) l e(1) by simp
  then show "attempts db (tk_taskId r) < tk_invocationAttempt r \<and> tk_invocationAttempt r \<le> attempts db' (tk_taskId r)"
    using S(3) r e(2) by (simp add: attempts_def)
qed

lemma quietly_Inr: "quietly m db = Inr (db', gs) \<Longrightarrow> gs = []"
  by (auto simp: quietly_def bind_tx_def bind_r_Inr ret_tx_def)

lemma step_grants:
  assumes "task_step e db x = Inr (db', gs)"
  shows "gs = [] \<or> (\<exists>now w lease n rs. x = Starting (Claim_due now w lease n) \<and>
    claimDueScheduled now w lease n db = Inr (db', rs) \<and> gs = map start_of rs)"
proof (cases x)
  case (Starting y)
  then show ?thesis using assms
    by (cases y) (auto simp: task_step_def mapped_def perform_def bind_tx_def bind_r_Inr ret_tx_def dest!: quietly_Inr split: if_splits)
next
  case (Publishing y)
  then show ?thesis using assms by (cases y) (auto simp: task_step_def perform_def dest!: quietly_Inr split: if_splits)
next
  case (Confirming y)
  then show ?thesis using assms by (cases y) (auto simp: task_step_def perform_def dest!: quietly_Inr split: if_splits)
next
  case (Commanding y)
  then show ?thesis using assms by (cases y) (auto simp: task_step_def perform_def dest!: quietly_Inr split: if_splits)
next
  case (Answering y)
  then show ?thesis using assms by (cases y) (auto simp: task_step_def perform_def dest!: quietly_Inr split: if_splits)
qed

lemma step_attempts:
  assumes "good db" and "task_step e db x = Inr (db', gs)"
  shows "distinct (map fst gs)" and "g \<in> set gs \<Longrightarrow> attempts db (fst g) < snd g \<and> snd g \<le> attempts db' (fst g)"
  using step_grants [OF assms(2)] due_starts [OF assms(1)] by (auto simp: start_of_def comp_def)

interpretation st: fencing good attempts "fst :: grant \<Rightarrow> string" "snd :: grant \<Rightarrow> int" "task_step e" for e
proof (unfold_locales, goal_cases)
  case (1 s x s' ls) then show ?case by (rule step_kept(1))
next
  case (2 s x s' ls k) then show ?case using attempts_grow step_kept by blast
next
  case (3 s x s' ls l) then show ?case by (rule step_attempts(2))
next
  case (4 s x s' ls) then show ?case by (rule step_attempts(1))
qed

end
