(* ===== verification/TaskPromises.thy ===== *)
theory TaskPromises
  imports TaskHistory
begin

text \<open>What the histories of the task engine guarantee, whatever the callers do.\<close>

subsection \<open>Later states\<close>

lemma grants_append: "fst (grants f s (xs @ ys)) = fst (grants f (fst (grants f s xs)) ys)"
proof (induction xs arbitrary: s)
  case (Cons x xs)
  have "fst (grants f s (x # zs)) = (case f s x of Inl _ \<Rightarrow> fst (grants f s zs) | Inr (t, _) \<Rightarrow> fst (grants f t zs))" for zs
    by (auto split: sum.split prod.split)
  then show ?case using Cons.IH by (auto split: sum.split prod.split)
qed simp

lemma history_append: "fst (history e (xs @ ys)) = fst (grants (task_step e) (fst (history e xs)) ys)"
  by (simp add: history_def grants_append)

lemma history_later:
  assumes "find_task k (fst (history e xs)) = Some r"
  obtains r' where "find_task k (fst (history e (xs @ ys))) = Some r'" and "row_step r r'"
  using evolves_row [OF _ assms, of "fst (history e (xs @ ys))"] grants_kept [OF history_kept surjective_pairing, of e e xs ys]
  by (auto simp: history_append)

subsection \<open>A sample\<close>

definition task_sample_env :: task_env where
  "task_sample_env =
     \<lparr>te_sha256 = (\<lambda>s. s), te_jitter = (\<lambda>_. 0), te_collate = (\<lambda>a b. length a < length b), te_num_string = (\<lambda>_. ''0''),
      te_offset_datetime = (\<lambda>_. None), te_validate = (\<lambda>_ _. Inr ())\<rparr>"

definition task_sample_identity :: task_identity where
  "task_sample_identity =
     \<lparr>ti_taskId = ''t1'', ti_providerId = ''p'', ti_operationName = ''drive'', ti_operationSnapshotId = ''s'',
      ti_authorizationHash = ''a'', ti_executionMode = Live, ti_simulationId = None, ti_arguments = [], ti_argumentHash = ''h'',
      ti_acceptedAt = 1000, ti_notBefore = 2000, ti_latestStartAt = 9000, ti_deadlineAt = None, ti_ttlMs = None,
      ti_timing = defaultTiming, ti_reservationRef = None\<rparr>"

definition task_clock :: "int \<Rightarrow> clocks" where
  "task_clock n = \<lparr>ck_process = n, ck_database = n\<rparr>"

definition task_sample_transition :: "internal_state \<Rightarrow> snapshot_transition" where
  "task_sample_transition s =
     \<lparr>tr_internalState = s, tr_mcpStatus = status_of s, tr_substate = None, tr_statusMessage = ''state'', tr_result = Some [],
      tr_error = None, tr_terminal = isTerminalState s, tr_observationType = ''task.state''\<rparr>"

text \<open>A scheduled task is claimed, its start is retried, claimed again and accepted, and it ends.\<close>

definition started_ops :: "task_op list" where
  "started_ops =
     [Publishing (Publish_scheduled (task_clock 1000) task_sample_identity),
      Starting (Claim_due 2000 ''w'' 500 8),
      Starting (Release_retry (task_clock 2100) ''t1'' ''w'' 2400 ''busy''),
      Starting (Claim_due 2400 ''w'' 500 8),
      Starting (Accept_scheduled (task_clock 2500) ''t1'' ''w''
        \<lparr>sa_externalExecutionId = ''x'', sa_adapterRevision = 1, sa_transition = task_sample_transition RUNNING,
         sa_inputRequests = [], sa_startWindowMissedAt = None, sa_actualStartedAt = Some 2500\<rparr>)]"

definition ended_ops :: "task_op list" where
  "ended_ops = started_ops @ [Confirming (Apply_snapshot (task_clock 3000) ''t1'' 2 (task_sample_transition TERMINAL_COMPLETED) [])]"

definition late_ops :: "task_op list" where
  "late_ops =
     [Confirming (Apply_snapshot (task_clock 3100) ''t1'' 3 (task_sample_transition RUNNING) []),
      Commanding (Begin_cancel (task_clock 3200) ''t1'' ''h''), Confirming (Note_recovery (task_clock 3300) ''t1'')]"

definition answered_ops :: "task_op list" where
  "answered_ops =
     [Publishing (Publish_scheduled (task_clock 1000) task_sample_identity),
      Starting (Claim_due 2000 ''w'' 500 8),
      Starting (Accept_scheduled (task_clock 2100) ''t1'' ''w''
        \<lparr>sa_externalExecutionId = ''x'', sa_adapterRevision = 1, sa_transition = task_sample_transition INPUT_REQUIRED,
         sa_inputRequests = [\<lparr>ni_key = ''k'', ni_description = ''d'', ni_schema = JNull, ni_required = True, ni_requestJson = None\<rparr>],
         sa_startWindowMissedAt = None, sa_actualStartedAt = None\<rparr>),
      Answering (Accept_responses (task_clock 2200) ''t1''
        \<lparr>az_hash = ''a'', az_executionMode = Live, az_simulationId = None, az_verifiedResponder = None\<rparr>
        [(''k'', JObj [(''action'', JStr ''accept'')])]),
      Answering (Promote_pending (task_clock 2300) 8)]"

text \<open>What the histories lead to, evaluated once for the witnesses.\<close>

lemma sample_histories:
  "(case find_task ''t1'' (fst (history task_sample_env ended_ops)) of
      None \<Rightarrow> False | Some r \<Rightarrow> isTerminalState (tk_internalState r)) \<and>
   (case find_task ''t1'' (fst (history task_sample_env (take 3 started_ops))) of
      None \<Rightarrow> False | Some r \<Rightarrow> tk_externalExecutionId r = None \<and> tk_invocationAttempt r = 1) \<and>
   (case history task_sample_env started_ops of (db, gs) \<Rightarrow>
      (case find_task ''t1'' db of None \<Rightarrow> False | Some r \<Rightarrow> tk_externalExecutionId r = Some ''x'') \<and>
      \<not> isl (beginCancel (task_clock 2600) ''t1'' ''h'' db)) \<and>
   (case history task_sample_env answered_ops of (db, gs) \<Rightarrow>
      (case beginCancel (task_clock 2600) ''t1'' ''h'' db of Inl e \<Rightarrow> False | Inr (db', x) \<Rightarrow> cr_created x) \<and>
      (case (db_commands db, db_inbox db) of
         (c # cs, b # bs) \<Rightarrow> cd_taskId c = ''t1'' \<and> cd_type c = Update_command \<and> cd_state c = Cmd_pending \<and>
           assigned_to ''t1'' (cd_sequence c) b
       | _ \<Rightarrow> False))"
  by code_simp

subsection \<open>Histories\<close>

text \<open>C6. A task that has ended is never written again, whatever is called.\<close>

theorem ended_task_frozen:
  assumes "find_task k (fst (history e xs)) = Some r" and "isTerminalState (tk_internalState r)"
  shows "find_task k (fst (history e (xs @ ys))) = Some r"
  using history_later [OF assms(1), of ys] assms(2) by (metis row_step_def)

theorem ended_task_frozen_witness:
  "\<exists>r. find_task ''t1'' (fst (history task_sample_env ended_ops)) = Some r \<and>
     find_task ''t1'' (fst (history task_sample_env (ended_ops @ late_ops))) = Some r"
proof -
  obtain r where "find_task ''t1'' (fst (history task_sample_env ended_ops)) = Some r" "isTerminalState (tk_internalState r)"
    using sample_histories by (auto split: option.splits)
  from ended_task_frozen [OF this] this show ?thesis by blast
qed

text \<open>
  C9. In every state the protocol status of a task is that of its internal state, a task that has not been started
  has no execution, and its observations are numbered without a gap up to the revision of the row.
\<close>

theorem task_rows_consistent:
  assumes "find_task k (fst (history e xs)) = Some r"
  shows "tk_taskId r = k \<and> tk_mcpStatus r = status_of (tk_internalState r) \<and>
    \<not> (tk_internalState r \<in> {SCHEDULED, STARTING} \<and> tk_externalExecutionId r \<noteq> None) \<and>
    map or_revision (filter (\<lambda>x. or_taskId x = k) (db_observations (fst (history e xs)))) = [1..tk_observationRevision r]"
  using goodD(1-3) [OF history_kept assms] by (auto simp: sound_def unbound_states_def revisions_of_def)

theorem task_rows_consistent_witness:
  "\<exists>r. find_task ''t1'' (fst (history task_sample_env started_ops)) = Some r \<and> tk_mcpStatus r = status_of (tk_internalState r)"
proof -
  obtain r where "find_task ''t1'' (fst (history task_sample_env started_ops)) = Some r"
    using sample_histories by (auto simp: case_prod_beta split: option.splits)
  from task_rows_consistent [OF this] this show ?thesis by blast
qed

text \<open>
  C8. Whatever is called, a task keeps its identity and, from the moment it is bound to one, its execution; its
  start is never forgotten; and its version, its number of attempts and its adapter, observation and Runtime
  revisions never fall, whether the task is bound or still waits for its start.
\<close>

theorem task_bindings_stand:
  assumes "find_task k (fst (history e xs)) = Some r"
  shows "\<exists>r'. find_task k (fst (history e (xs @ ys))) = Some r' \<and> tk_identity r' = tk_identity r \<and>
    (tk_externalExecutionId r = None \<or> tk_externalExecutionId r' = tk_externalExecutionId r) \<and>
    \<not> (tk_actualStartedAt r \<noteq> None \<and> tk_actualStartedAt r' = None) \<and>
    tk_version r \<le> tk_version r' \<and> tk_adapterRevision r \<le> tk_adapterRevision r' \<and>
    tk_observationRevision r \<le> tk_observationRevision r' \<and> tk_runtimeRevision r \<le> tk_runtimeRevision r' \<and>
    tk_invocationAttempt r \<le> tk_invocationAttempt r'"
proof -
  obtain r' where "find_task k (fst (history e (xs @ ys))) = Some r'" and "row_step r r'"
    using history_later [OF assms] .
  then show ?thesis by (auto simp: row_step_def)
qed

text \<open>A task whose first start was put off, and the same task once it is bound.\<close>

theorem task_bindings_stand_witness:
  "\<exists>r r'. find_task ''t1'' (fst (history task_sample_env (take 3 started_ops))) = Some r \<and>
     tk_externalExecutionId r = None \<and> tk_invocationAttempt r = 1 \<and>
     find_task ''t1'' (fst (history task_sample_env (started_ops @ late_ops))) = Some r' \<and>
     1 \<le> tk_invocationAttempt r' \<and> tk_externalExecutionId r' = Some ''x''"
proof -
  obtain r where f: "find_task ''t1'' (fst (history task_sample_env (take 3 started_ops))) = Some r"
    "tk_externalExecutionId r = None" "tk_invocationAttempt r = 1"
    using sample_histories by (auto split: option.splits)
  obtain q where g: "find_task ''t1'' (fst (history task_sample_env started_ops)) = Some q"
    "tk_externalExecutionId q = Some ''x''"
    using sample_histories by (auto simp: case_prod_beta split: option.splits)
  from task_bindings_stand [OF f(1), of "drop 3 started_ops @ late_ops"] task_bindings_stand [OF g(1), of late_ops] f g
  show ?thesis unfolding append_assoc [symmetric] append_take_drop_id by force
qed

lemma growing_distinct:
  fixes gs :: "(string \<times> int) list"
  shows "sorted_wrt (\<lambda>x y. fst x = fst y \<longrightarrow> snd x < snd y) gs \<Longrightarrow> distinct gs"
  by (induction gs) auto

text \<open>C7. No start attempt of a task is handed to a scheduler twice, in any interleaving of the operations.\<close>

theorem start_attempts_once: "distinct (snd (history e xs))"
proof -
  have "sorted_wrt (\<lambda>x y. fst x = fst y \<longrightarrow> snd x < snd y) (snd (history e xs))"
    using st.tokens_increase [OF good_empty surjective_pairing, of e xs] by (simp add: history_def)
  then show ?thesis by (rule growing_distinct)
qed

subsection \<open>Cancellation\<close>

lemma latest_None: "latest cs = None \<longleftrightarrow> cs = []"
proof (cases "cs = []")
  case False
  define m where "m = Max (cd_sequence ` set cs)"
  have "m \<in> cd_sequence ` set cs" unfolding m_def using False by (intro Max_in) auto
  then obtain c where c: "c \<in> set cs" "cd_sequence c = m" by auto
  have "list_all (\<lambda>d. cd_sequence d \<le> cd_sequence c) cs" using c(2) by (auto simp: list_all_iff m_def)
  then have "latest cs \<noteq> None" unfolding latest_def using c(1) by (auto simp: find_None_iff)
  then show ?thesis using False by simp
qed (simp add: latest_def)

lemma outbox_commands [simp]:
  "db_commands (insertOutbox t k ev db) = db_commands db" "db_inbox (insertOutbox t k ev db) = db_inbox db"
  "db_commands (insertCommandFact c ev db) = db_commands db" "db_inbox (insertCommandFact c ev db) = db_inbox db"
  "find_task i (insertCommandFact c ev db) = find_task i db"
  by (simp_all add: insertOutbox_def insertCommandFact_def find_task_def)

lemma superseded_commands [simp]:
  "db_commands (fold superseded_fact cs db) = db_commands db" "db_inbox (fold superseded_fact cs db) = db_inbox db"
  by (induction cs arbitrary: db) (simp_all add: superseded_fact_def)

lemma next_commands:
  "next_sequence r db = (db', n) \<Longrightarrow> db_commands db' = db_commands db \<and> db_inbox db' = db_inbox db"
  by (auto simp: next_sequence_def put_task_def Let_def)

lemma transition_commands:
  "transitionTask q db = Inr (db', x) \<Longrightarrow> db_commands db' = db_commands db \<and> db_inbox db' = db_inbox db"
  by (auto simp: transitionTask_def record_transition_def put_task_def Let_def split: option.splits if_splits)

lemma beginCancel_cases:
  assumes "beginCancel ck t h db = Inr (db', x)"
  obtains c where "active_cancel t db = Some c" and "x = existing_command c" and "db_commands db' = db_commands db"
    and "db_inbox db' = db_inbox db"
  | n c where "active_cancel t db = None" and "x = \<lparr>cr_command = c, cr_duplicate = False, cr_created = True\<rparr>"
    and "cd_sequence c = n" and "live_cancel t c"
    and "db_commands db' = map (\<lambda>c. if cd_taskId c = t \<and> normal c \<and> cd_state c \<in> {Cmd_pending, Cmd_retry_wait}
                                    then superseding c else c) (db_commands db) @ [c]"
    and "db_inbox db' = db_inbox db"
proof -
  obtain r where r: "find_task t db = Some r"
    using assms by (auto simp: beginCancel_def locked_task_def bind_tx_def split: option.splits)
  show thesis
  proof (cases "active_cancel t db")
    case (Some c)
    then show thesis using assms r that(1) [of c]
      by (simp add: beginCancel_def locked_task_def bind_tx_def recordCommandResolutionFact_def) (metis outbox_commands(3,4))
  next
    case None
    let ?P = "\<lambda>c. cd_taskId c = t \<and> normal c \<and> cd_state c \<in> {Cmd_pending, Cmd_retry_wait}"
    obtain d1 cs where u: "update_returning ?P superseding db = (d1, cs)" by fastforce
    obtain d2 n where n: "next_sequence r (fold superseded_fact cs d1) = (d2, n)" by fastforce
    define c where "c = (new_command ck t n Cancel_command h [(''reason'', JStr ''USER_REQUESTED'')])
      \<lparr>cd_stopReason := Some ''USER_REQUESTED'', cd_priority := 100\<rparr>"
    have d1: "db_commands d1 = map (\<lambda>c. if ?P c then superseding c else c) (db_commands db)" "db_inbox d1 = db_inbox db"
      using u by (auto simp: update_returning_def update_commands_def)
    have d2: "db_commands d2 = db_commands d1" "db_inbox d2 = db_inbox d1" using next_commands [OF n] by simp_all
    from assms r None u n obtain d3 d4 y where d3: "insert_command c d2 = Inr (d3, ())"
        and d4: "transitionTask (cancel_request ck n r) d3 = Inr (d4, y)"
        and e: "db' = insertCommandFact c ''task.command.created'' d4"
        "x = \<lparr>cr_command = c, cr_duplicate = False, cr_created = True\<rparr>"
      by (auto simp: beginCancel_def locked_task_def bind_tx_def bind_r_Inr c_def Let_def split: if_splits)
    have "db_commands d3 = db_commands d2 @ [c]" "db_inbox d3 = db_inbox d2"
      using d3 by (auto simp: insert_command_def split: if_splits)
    moreover have "live_cancel t c" "cd_sequence c = n" by (simp_all add: c_def new_command_def live_cancel_def live_states_def)
    ultimately show thesis using that(2) [OF None e(2)] e(1) d1 d2 transition_commands [OF d4] by simp
  qed
qed

lemma find_beginCancel:
  "beginCancel ck t h db = Inr (db', x) \<Longrightarrow> good db \<Longrightarrow> find_task t db' \<noteq> None"
  using okD [OF ok_beginCancel [of db ck t h db], of db' x] evolves_row [of db db' t]
  by (auto simp: kept_def beginCancel_def locked_task_def bind_tx_def split: option.splits)

text \<open>
  C10. A cancellation that directly follows an accepted one returns its command as a duplicate, issues nothing and
  leaves the task as it is.
\<close>

theorem cancel_idempotent:
  assumes "beginCancel ck t h (fst (history e xs)) = Inr (db', first)"
  shows "\<exists>db'' second. beginCancel ck' t h' db' = Inr (db'', second) \<and> cr_command second = cr_command first \<and>
    cr_duplicate second \<and> \<not> cr_created second \<and> db_commands db'' = db_commands db' \<and> find_task t db'' = find_task t db'"
proof -
  let ?db = "fst (history e xs)"
  have a: "active_cancel t db' = Some (cr_command first)"
    using assms
  proof (cases rule: beginCancel_cases)
    case (1 c)
    then show ?thesis by (simp add: active_cancel_def existing_command_def)
  next
    case (2 n c)
    let ?f = "\<lambda>c. if cd_taskId c = t \<and> normal c \<and> cd_state c \<in> {Cmd_pending, Cmd_retry_wait} then superseding c else c"
    have "filter (live_cancel t) (db_commands ?db) = []" using 2(1) latest_None by (simp add: active_cancel_def)
    moreover have "live_cancel t \<circ> ?f = live_cancel t"
      by (rule ext) (simp add: live_cancel_def normal_def superseding_def exhaust_command_def)
    ultimately have "filter (live_cancel t) (map ?f (db_commands ?db)) = []" by (simp only: filter_map list.map)
    then have "filter (live_cancel t) (db_commands db') = [c]" unfolding 2(5) filter_append using 2(4) by simp
    then show ?thesis using 2(2) by (simp add: active_cancel_def latest_def)
  qed
  obtain r where r: "find_task t db' = Some r" using find_beginCancel [OF assms history_kept] by blast
  then show ?thesis using a
    by (simp add: beginCancel_def locked_task_def bind_tx_def recordCommandResolutionFact_def existing_command_def)
qed

theorem cancel_idempotent_witness:
  "\<exists>db' first db'' second. beginCancel (task_clock 2600) ''t1'' ''h'' (fst (history task_sample_env started_ops)) = Inr (db', first) \<and>
     beginCancel (task_clock 2700) ''t1'' ''h'' db' = Inr (db'', second) \<and> cr_duplicate second"
proof -
  obtain db' first where x: "beginCancel (task_clock 2600) ''t1'' ''h'' (fst (history task_sample_env started_ops)) = Inr (db', first)"
    using sample_histories
    by (cases "beginCancel (task_clock 2600) ''t1'' ''h'' (fst (history task_sample_env started_ops))") (auto simp: case_prod_beta)
  from cancel_idempotent [OF x, of "task_clock 2700" "''h''"] x show ?thesis by blast
qed

text \<open>
  C11. A new cancellation exhausts every answer that waits for delivery, and leaves the inbox as it is: the
  responses stay assigned to a command that no worker will take up.
\<close>

theorem cancel_orphans_responses:
  assumes "beginCancel ck t h db = Inr (db', x)" and "cr_created x"
    and "c \<in> set (db_commands db)" and "cd_taskId c = t" and "cd_type c = Update_command" and "cd_state c = Cmd_pending"
    and "b \<in> set (db_inbox db)" and "assigned_to t (cd_sequence c) b"
  shows "\<exists>c' \<in> set (db_commands db'). is_command t (cd_sequence c) c' \<and> cd_state c' = Cmd_exhausted \<and>
    (\<exists>b' \<in> set (db_inbox db'). assigned_to t (cd_sequence c) b')"
  using assms(1)
proof (cases rule: beginCancel_cases)
  case (2 n d)
  have "superseding c \<in> set (db_commands db')" using 2(5) assms(3-6) by (force simp: normal_def)
  moreover have "is_command t (cd_sequence c) (superseding c) \<and> cd_state (superseding c) = Cmd_exhausted"
    using assms(4) by (simp add: is_command_def superseding_def exhaust_command_def)
  ultimately show ?thesis using 2(6) assms(7,8) by (intro bexI [of _ "superseding c"]) auto
qed (use assms(2) in \<open>simp add: existing_command_def\<close>)

theorem cancel_orphans_responses_witness:
  "\<exists>db' x c'. beginCancel (task_clock 2600) ''t1'' ''h'' (fst (history task_sample_env answered_ops)) = Inr (db', x) \<and>
     c' \<in> set (db_commands db') \<and> cd_state c' = Cmd_exhausted \<and> (\<exists>b' \<in> set (db_inbox db'). assigned_to ''t1'' (cd_sequence c') b')"
proof -
  let ?db = "fst (history task_sample_env answered_ops)"
  obtain db' x where x: "beginCancel (task_clock 2600) ''t1'' ''h'' ?db = Inr (db', x)" "cr_created x"
    using sample_histories by (auto simp: case_prod_beta split: sum.splits)
  obtain c cs b bs where c: "db_commands ?db = c # cs" "cd_taskId c = ''t1''" "cd_type c = Update_command"
      "cd_state c = Cmd_pending" and b: "db_inbox ?db = b # bs" "assigned_to ''t1'' (cd_sequence c) b"
    using sample_histories by (auto simp: case_prod_beta split: list.splits)
  have "c \<in> set (db_commands ?db)" "b \<in> set (db_inbox ?db)" using c(1) b(1) by simp_all
  from cancel_orphans_responses [OF x this(1) c(2-4) this(2) b(2)] x
  show ?thesis by (force simp: is_command_def)
qed

end
