(* ===== verification/ResultContract.thy ===== *)
theory ResultContract
  imports CanonicalJson PmsDomain TaskInvariant
begin

text \<open>
  packages/task-engine/src/result-contract.ts: what the runtime makes of a snapshot of an Adapter. The result is
  limited in size and depth, cleaned of members that name prototypes and checked against the schema of the
  operation; the evidence is validated and attached. A snapshot that breaks the contract becomes a technical
  failure of the task; the report of an inspection that the runtime stops is merged into the result of its task
  (\<open>missingEvidence\<close> lists strings, so that equal members are the same). Parameters: the printing of numbers, \<open>Date.parse\<close>, and the compiled output schema of the
  operation.
\<close>

subsection \<open>JSON text\<close>

fun stringify :: "(rat \<Rightarrow> string) \<Rightarrow> json \<Rightarrow> string" where
  "stringify num_string JNull = ''null''"
| "stringify num_string (JBool b) = (if b then ''true'' else ''false'')"
| "stringify num_string (JStr s) = json_string s"
| "stringify num_string (JNum n) = num_string n"
| "stringify num_string (JArr vs) = ''['' @ join '','' (map (stringify num_string) vs) @ '']''"
| "stringify num_string (JObj kvs) =
     CHR 0x7B # join '','' (map (\<lambda>(k, v). json_string k @ '':'' @ stringify num_string v) kvs) @ [CHR 0x7D]"

definition byte_length :: "string \<Rightarrow> int" where
  "byte_length s = int (length (concat (map utf8_bytes s)))"

subsection \<open>Limits\<close>

text \<open>The visit of the values in order, with the number of values seen.\<close>

fun visit :: "int \<Rightarrow> int \<Rightarrow> json \<Rightarrow> int result"
  and visit_all :: "int \<Rightarrow> int \<Rightarrow> json list \<Rightarrow> int result"
  and visit_members :: "int \<Rightarrow> int \<Rightarrow> jobj \<Rightarrow> int result" where
  "visit nodes depth j =
     (if 10000 < nodes + 1 then Inl ''ADAPTER_RESULT_TOO_COMPLEX''
      else if 32 < depth then Inl ''ADAPTER_RESULT_TOO_DEEP''
      else
        (case j of
           JArr vs \<Rightarrow> visit_all (nodes + 1) (depth + 1) vs
         | JObj kvs \<Rightarrow> visit_members (nodes + 1) (depth + 1) kvs
         | _ \<Rightarrow> Inr (nodes + 1)))"
| "visit_all nodes depth [] = Inr nodes"
| "visit_all nodes depth (v # vs) =
     (case visit nodes depth v of Inl e \<Rightarrow> Inl e | Inr n \<Rightarrow> visit_all n depth vs)"
| "visit_members nodes depth [] = Inr nodes"
| "visit_members nodes depth ((k, v) # kvs) =
     (case visit nodes depth v of Inl e \<Rightarrow> Inl e | Inr n \<Rightarrow> visit_members n depth kvs)"

definition assertResultLimits :: "(rat \<Rightarrow> string) \<Rightarrow> json \<Rightarrow> unit result" where
  "assertResultLimits num_string value =
     bind_r (throw_if (1048576 < byte_length (stringify num_string value)) ''ADAPTER_RESULT_TOO_LARGE'') (\<lambda>_.
     bind_r (visit 0 0 value) (\<lambda>_. Inr ()))"

text \<open>packages/operation-registry/src/registry.ts repeats the limits in front of the compiled output schema.\<close>

definition assertOutputLimits :: "(rat \<Rightarrow> string) \<Rightarrow> json \<Rightarrow> unit result" where
  "assertOutputLimits num_string value =
     bind_r (throw_if (1048576 < byte_length (stringify num_string value)) ''ADAPTER_RESULT_TOO_LARGE'') (\<lambda>_.
     bind_r (visit 0 0 value) (\<lambda>_. Inr ()))"

definition prototype_names :: "string list" where
  "prototype_names = [''__proto__'', ''prototype'', ''constructor'']"

fun sanitizeResult :: "json \<Rightarrow> json" where
  "sanitizeResult (JArr vs) = JArr (map sanitizeResult vs)"
| "sanitizeResult (JObj kvs) =
     JObj (map (\<lambda>(k, v). (k, sanitizeResult v)) (filter (\<lambda>(k, _). k \<notin> set prototype_names) kvs))"
| "sanitizeResult v = v"

subsection \<open>Evidence\<close>

datatype payload_ref =
    Structured_ref "string option"
  | Uri_ref "string option" "string option" "string option"
  | Unknown_ref

record evidence =
  ev_evidenceId :: string
  ev_evidenceType :: string
  ev_observedAt :: string
  ev_subjectRef :: "string option"
  ev_producer :: "json option"
  ev_payloadRef :: payload_ref

fun pointer_chars :: "string \<Rightarrow> bool" where
  "pointer_chars [] = True"
| "pointer_chars (c # cs) =
     (if c = CHR 0x7E
      then (case cs of [] \<Rightarrow> False | d # ds \<Rightarrow> (d = CHR ''0'' \<or> d = CHR ''1'') \<and> pointer_chars ds)
      else pointer_chars cs)"

definition isJsonPointer :: "string \<Rightarrow> bool" where
  "isJsonPointer s \<longleftrightarrow> s = [] \<or> (hd s = CHR ''/'' \<and> pointer_chars s)"

fun unescape :: "char \<Rightarrow> char \<Rightarrow> string \<Rightarrow> string" where
  "unescape digit c (d # e # s) =
     (if d = CHR 0x7E \<and> e = digit then c # unescape digit c s else d # unescape digit c (e # s))"
| "unescape digit c s = s"

definition pointer_key :: "string \<Rightarrow> string" where
  "pointer_key segment = unescape (CHR ''0'') (CHR 0x7E) (unescape (CHR ''1'') (CHR ''/'') segment)"

fun split_slash :: "string \<Rightarrow> string list" where
  "split_slash [] = [[]]"
| "split_slash (c # s) =
     (if c = CHR ''/'' then [] # split_slash s
      else (case split_slash s of [] \<Rightarrow> [[c]] | t # ts \<Rightarrow> (c # t) # ts))"

text \<open>
  \<open>key in current\<close> and \<open>current[key]\<close>. An inherited member is a function, except for \<open>__proto__\<close>, whose
  value is a prototype again; the members of \<open>Array.prototype\<close> are given beside those of \<open>Object.prototype\<close>.
\<close>

definition ARRAY_PROTOTYPE_MEMBERS :: "string list" where
  "ARRAY_PROTOTYPE_MEMBERS =
     [''length'', ''at'', ''concat'', ''copyWithin'', ''entries'', ''every'', ''fill'', ''filter'', ''find'', ''findIndex'',
      ''findLast'', ''findLastIndex'', ''flat'', ''flatMap'', ''forEach'', ''includes'', ''indexOf'', ''join'', ''keys'',
      ''lastIndexOf'', ''map'', ''pop'', ''push'', ''reduce'', ''reduceRight'', ''reverse'', ''shift'', ''slice'', ''some'',
      ''sort'', ''splice'', ''toLocaleString'', ''toReversed'', ''toSorted'', ''toSpliced'', ''toString'', ''unshift'',
      ''values'', ''with'']"

datatype js_place = Json_place json | Array_prototype | Object_prototype | Other_place

definition index_of :: "string \<Rightarrow> nat option" where
  "index_of s =
     (if s \<noteq> [] \<and> list_all (\<lambda>c. c \<in> set ''0123456789'') s \<and> (hd s = CHR ''0'' \<longrightarrow> length s = 1)
      then Some (foldl (\<lambda>n c. 10 * n + (of_char c - 48)) 0 s) else None)"

definition js_in :: "js_place \<Rightarrow> string \<Rightarrow> js_place option" where
  "js_in place key =
     (let inherited = (\<lambda>names proto. if key = ''__proto__'' then Some proto
                                    else if key \<in> set names then Some Other_place else None)
      in case place of
           Json_place (JObj kvs) \<Rightarrow>
             (case js_get kvs key of
                Some v \<Rightarrow> Some (Json_place v) | None \<Rightarrow> inherited OBJECT_PROTOTYPE_MEMBERS Object_prototype)
         | Json_place (JArr vs) \<Rightarrow>
             (case index_of key of
                Some i \<Rightarrow> if i < length vs then Some (Json_place (vs ! i)) else None
              | None \<Rightarrow> inherited (ARRAY_PROTOTYPE_MEMBERS @ OBJECT_PROTOTYPE_MEMBERS) Array_prototype)
         | Array_prototype \<Rightarrow> inherited (ARRAY_PROTOTYPE_MEMBERS @ OBJECT_PROTOTYPE_MEMBERS) Object_prototype
         | Object_prototype \<Rightarrow> inherited OBJECT_PROTOTYPE_MEMBERS Other_place
         | _ \<Rightarrow> None)"

fun pointer_walk :: "js_place \<Rightarrow> string list \<Rightarrow> bool" where
  "pointer_walk place [] = True"
| "pointer_walk place (s # ss) =
     (case js_in place (pointer_key s) of None \<Rightarrow> False | Some next \<Rightarrow> pointer_walk next ss)"

definition jsonPointerExists :: "json \<Rightarrow> string \<Rightarrow> bool" where
  "jsonPointerExists document pointer \<longleftrightarrow>
     pointer = [] \<or> pointer_walk (Json_place document) (split_slash (tl pointer))"

definition lower_char :: "char \<Rightarrow> char" where
  "lower_char c = (let n = (of_char c :: nat) in if 65 \<le> n \<and> n \<le> 90 then char_of (n + 32) else c)"

definition is_lower :: "char \<Rightarrow> bool" where
  "is_lower c \<longleftrightarrow> c \<in> set ''abcdefghijklmnopqrstuvwxyz''"

definition uri_scheme :: "string \<Rightarrow> string option" where
  "uri_scheme value =
     (let lower = map lower_char value;
          scheme = takeWhile (\<lambda>c. is_lower c \<or> c \<in> set ''0123456789+.-'') lower
      in if scheme \<noteq> [] \<and> is_lower (hd scheme) \<and> length scheme < length value \<and> value ! length scheme = CHR '':''
         then Some scheme else None)"

definition allowedEvidenceUri :: "string \<Rightarrow> bool" where
  "allowedEvidenceUri value \<longleftrightarrow>
     (case uri_scheme value of
        None \<Rightarrow> False | Some s \<Rightarrow> s \<in> set [''https'', ''s3'', ''gs'', ''azblob'', ''urn''])"

definition sha256_text :: "string \<Rightarrow> bool" where
  "sha256_text s \<longleftrightarrow> length s = 64 \<and> list_all (\<lambda>c. c \<in> set ''0123456789abcdef'') s"

definition when_some :: "'a option \<Rightarrow> ('a \<Rightarrow> 'b) \<Rightarrow> (string \<times> 'b) list \<Rightarrow> string \<Rightarrow> (string \<times> 'b) list" where
  "when_some v f rest name = (case v of None \<Rightarrow> rest | Some x \<Rightarrow> (name, f x) # rest)"

definition evidencePayloadRef :: "payload_ref \<Rightarrow> jobj \<Rightarrow> json result" where
  "evidencePayloadRef ref content =
     (case ref of
        Structured_ref p \<Rightarrow>
          (case p of
             None \<Rightarrow> Inl ''ADAPTER_EVIDENCE_POINTER_INVALID''
           | Some pointer \<Rightarrow>
               if 512 < int (length pointer) \<or> \<not> isJsonPointer pointer then Inl ''ADAPTER_EVIDENCE_POINTER_INVALID''
               else if \<not> jsonPointerExists (JObj content) pointer then Inl ''ADAPTER_EVIDENCE_POINTER_MISSING''
               else Inr (JObj [(''kind'', JStr ''structured_content''), (''jsonPointer'', JStr pointer)]))
      | Uri_ref u mediaType sha \<Rightarrow>
          (case u of
             None \<Rightarrow> Inl ''ADAPTER_EVIDENCE_URI_INVALID''
           | Some uri \<Rightarrow>
               if 2048 < int (length uri) \<or> \<not> allowedEvidenceUri uri then Inl ''ADAPTER_EVIDENCE_URI_INVALID''
               else if (case sha of None \<Rightarrow> False | Some s \<Rightarrow> \<not> sha256_text s) then Inl ''ADAPTER_EVIDENCE_SHA256_INVALID''
               else Inr (JObj ((''kind'', JStr ''uri'') # (''uri'', JStr uri) #
                      when_some mediaType JStr (when_some sha JStr [] ''sha256'') ''mediaType'')))
      | Unknown_ref \<Rightarrow> Inl ''ADAPTER_EVIDENCE_PAYLOAD_REF_INVALID'')"

text \<open>\<open>\d{4}-\d{2}-\d{2}T\d{2}:\d{2}:\d{2}(?:\.\d+)?(?:Z|[+-]\d{2}:\d{2})\<close>, and a date that \<open>Date.parse\<close> reads.\<close>

definition digits_at :: "nat list \<Rightarrow> string \<Rightarrow> bool" where
  "digits_at is s \<longleftrightarrow> list_all (\<lambda>i. is_digit (s ! i)) is"

definition zone_text :: "string \<Rightarrow> bool" where
  "zone_text s \<longleftrightarrow>
     s = ''Z'' \<or>
     (length s = 6 \<and> s ! 0 \<in> set ''+-'' \<and> s ! 3 = CHR '':'' \<and> digits_at [1, 2, 4, 5] s)"

definition zoned_text :: "string \<Rightarrow> bool" where
  "zoned_text s \<longleftrightarrow>
     19 < length s \<and> digits_at [0, 1, 2, 3, 5, 6, 8, 9, 11, 12, 14, 15, 17, 18] s \<and>
     s ! 4 = CHR ''-'' \<and> s ! 7 = CHR ''-'' \<and> s ! 10 = CHR ''T'' \<and> s ! 13 = CHR '':'' \<and> s ! 16 = CHR '':'' \<and>
     (let rest = drop 19 s
      in if hd rest = CHR ''.''
         then is_digit (hd (tl rest @ ''x'')) \<and> zone_text (dropWhile is_digit (tl rest)) else zone_text rest)"

definition isZonedRfc3339 :: "(string \<Rightarrow> int option) \<Rightarrow> string \<Rightarrow> bool" where
  "isZonedRfc3339 parse s \<longleftrightarrow> zoned_text s \<and> parse s \<noteq> None"

definition producer_valid :: "json option \<Rightarrow> bool" where
  "producer_valid p =
     (case p of
        None \<Rightarrow> True
      | Some (JArr vs) \<Rightarrow> length vs \<le> 16 \<and> list_all (\<lambda>v. case v of JStr _ \<Rightarrow> True | _ \<Rightarrow> False) vs
      | Some _ \<Rightarrow> False)"

definition bounded :: "int \<Rightarrow> int \<Rightarrow> string \<Rightarrow> bool" where
  "bounded least most s \<longleftrightarrow> least \<le> int (length s) \<and> int (length s) \<le> most"

definition evidence_item :: "(string \<Rightarrow> int option) \<Rightarrow> jobj \<Rightarrow> string list \<Rightarrow> evidence \<Rightarrow> json result" where
  "evidence_item parse content ids e =
     bind_r (throw_if (\<not> bounded 1 128 (ev_evidenceId e)) ''ADAPTER_EVIDENCE_ID_INVALID'') (\<lambda>_.
     bind_r (throw_if (ev_evidenceId e \<in> set ids) ''ADAPTER_EVIDENCE_ID_DUPLICATE'') (\<lambda>_.
     bind_r (throw_if (\<not> bounded 1 128 (ev_evidenceType e)) ''ADAPTER_EVIDENCE_TYPE_INVALID'') (\<lambda>_.
     bind_r (throw_if (\<not> isZonedRfc3339 parse (ev_observedAt e)) ''ADAPTER_EVIDENCE_OBSERVED_AT_INVALID'') (\<lambda>_.
     bind_r (throw_if (case ev_subjectRef e of None \<Rightarrow> False | Some s \<Rightarrow> \<not> bounded 1 512 s)
               ''ADAPTER_EVIDENCE_SUBJECT_REF_INVALID'') (\<lambda>_.
     bind_r (throw_if (\<not> producer_valid (ev_producer e)) ''ADAPTER_EVIDENCE_PRODUCER_INVALID'') (\<lambda>_.
     bind_r (evidencePayloadRef (ev_payloadRef e) content) (\<lambda>payloadRef.
       Inr (JObj ((''evidenceId'', JStr (ev_evidenceId e)) # (''evidenceType'', JStr (ev_evidenceType e)) #
              (''observedAt'', JStr (ev_observedAt e)) #
              when_some (ev_subjectRef e) JStr
                ((''payloadRef'', payloadRef) #
                 (case ev_producer e of Some (JArr (p # ps)) \<Rightarrow> [(''producer'', JArr (p # ps))] | _ \<Rightarrow> []))
                ''subjectRef'')))))))))"

fun evidence_items :: "(string \<Rightarrow> int option) \<Rightarrow> jobj \<Rightarrow> string list \<Rightarrow> evidence list \<Rightarrow> json list result" where
  "evidence_items parse content ids [] = Inr []"
| "evidence_items parse content ids (e # es) =
     bind_r (evidence_item parse content ids e) (\<lambda>i.
     bind_r (evidence_items parse content (ev_evidenceId e # ids) es) (\<lambda>is. Inr (i # is)))"

fun depth_within :: "int \<Rightarrow> int \<Rightarrow> json \<Rightarrow> bool" where
  "depth_within most depth (JArr vs) \<longleftrightarrow> depth \<le> most \<and> (\<forall>v \<in> set vs. depth_within most (depth + 1) v)"
| "depth_within most depth (JObj kvs) \<longleftrightarrow> depth \<le> most \<and> (\<forall>m \<in> set kvs. depth_within most (depth + 1) (snd m))"
| "depth_within most depth v \<longleftrightarrow> depth \<le> most"

definition evidence_body :: "json list \<Rightarrow> json" where
  "evidence_body items = JObj [(''profileVersion'', JStr ''1.0''), (''items'', JArr items)]"

record contract_env =
  cn_num_string :: "rat \<Rightarrow> string"
  cn_date_parse :: "string \<Rightarrow> int option"

definition validateEvidence :: "contract_env \<Rightarrow> evidence list \<Rightarrow> jobj \<Rightarrow> json list result" where
  "validateEvidence E es content =
     bind_r (throw_if (64 < length es) ''ADAPTER_EVIDENCE_TOO_MANY_ITEMS'') (\<lambda>_.
     bind_r (evidence_items (cn_date_parse E) content [] es) (\<lambda>items.
     bind_r (throw_if (262144 < byte_length (stringify (cn_num_string E) (evidence_body items))) ''ADAPTER_EVIDENCE_TOO_LARGE'') (\<lambda>_.
     bind_r (throw_if (\<not> depth_within 16 0 (JArr items)) ''ADAPTER_EVIDENCE_TOO_DEEP'') (\<lambda>_. Inr items))))"

subsection \<open>Transitions\<close>

record adapter_input =
  ai_key :: string
  ai_description :: string
  ai_inputSchema :: proto_struct
  ai_required :: bool

record mcp_input =
  mi_key :: string
  mi_method :: string
  mi_params :: proto_struct

record execution_snapshot =
  es_identity :: execution_identity
  es_state :: string
  es_revision :: int
  es_reasonCode :: string
  es_message :: string
  es_retryable :: bool
  es_result :: "proto_struct option"
  es_evidence :: "evidence list"
  es_inputRequests :: "adapter_input list"
  es_mcpInputRequests :: "mcp_input list"

datatype operation_execution = Synchronous | Task_capable | Task_required

record operation =
  op_name :: string
  op_execution :: operation_execution
  op_cancel :: bool
  op_pauseResume :: bool
  op_outputSchema :: "jobj \<Rightarrow> bool"

definition validateOutput :: "contract_env \<Rightarrow> operation \<Rightarrow> jobj \<Rightarrow> unit result" where
  "validateOutput E f r =
     bind_r (assertOutputLimits (cn_num_string E) (JObj r)) (\<lambda>_.
       throw_if (\<not> op_outputSchema f r) ''ADAPTER_OUTPUT_SCHEMA_MISMATCH'')"

text \<open>Members set in turn, as by object spread.\<close>

definition spread :: "jobj \<Rightarrow> jobj \<Rightarrow> jobj" where
  "spread base members = fold (\<lambda>(k, v). js_set k v) members base"

definition attachEvidenceToResult :: "contract_env \<Rightarrow> jobj \<Rightarrow> execution_snapshot \<Rightarrow> jobj \<Rightarrow> jobj result" where
  "attachEvidenceToResult E r snapshot content =
     bind_r (validateEvidence E (es_evidence snapshot) content) (\<lambda>items.
       Inr (spread (spread [(''resultType'', JStr ''complete'')] r)
              (if items = [] then []
               else [(''_meta'', JObj [(''io.sdar/evidence'', evidence_body items)])])))"

definition attachEvidence :: "contract_env \<Rightarrow> snapshot_transition \<Rightarrow> execution_snapshot \<Rightarrow> jobj \<Rightarrow> snapshot_transition result" where
  "attachEvidence E t snapshot content =
     (case tr_result t of
        None \<Rightarrow> Inr t
      | Some r \<Rightarrow> bind_r (attachEvidenceToResult E r snapshot content) (\<lambda>r'. Inr (t\<lparr>tr_result := Some r'\<rparr>)))"

definition adapterResultPayload :: "execution_snapshot \<Rightarrow> jobj" where
  "adapterResultPayload snapshot = (case es_result snapshot of None \<Rightarrow> [] | Some s \<Rightarrow> protoStructToJson s)"

definition sanitizedAdapterResultPayload :: "contract_env \<Rightarrow> execution_snapshot \<Rightarrow> jobj result" where
  "sanitizedAdapterResultPayload E snapshot =
     bind_r (assertResultLimits (cn_num_string E) (JObj (adapterResultPayload snapshot))) (\<lambda>_.
       case sanitizeResult (JObj (adapterResultPayload snapshot)) of JObj r \<Rightarrow> Inr r | _ \<Rightarrow> Inr [])"

definition has_output :: "string \<Rightarrow> bool" where
  "has_output state \<longleftrightarrow> state \<in> set [''SUCCEEDED'', ''BUSINESS_FAILED'', ''PARTIALLY_COMPLETED'']"

definition assertAdapterResultContract :: "contract_env \<Rightarrow> operation \<Rightarrow> execution_snapshot \<Rightarrow> unit result" where
  "assertAdapterResultContract E f snapshot =
     bind_r (sanitizedAdapterResultPayload E snapshot) (\<lambda>payload.
       if has_output (es_state snapshot) then validateOutput E f payload else Inr ())"

definition normalizeSnapshot :: "execution_snapshot \<Rightarrow> jobj \<Rightarrow> adapter_snapshot" where
  "normalizeSnapshot snapshot r =
     \<lparr>as_state = es_state snapshot, as_reasonCode = es_reasonCode snapshot, as_message = es_message snapshot,
      as_retryable = es_retryable snapshot, as_result = Some (JObj r)\<rparr>"

definition technicalFailureTransition :: "int \<Rightarrow> string \<Rightarrow> snapshot_transition" where
  "technicalFailureTransition now reasonCode =
     projr (mapAdapterSnapshot now
       \<lparr>as_state = ''TECHNICAL_FAILED'', as_reasonCode = reasonCode,
        as_message = ''Adapter result failed Runtime contract validation.'', as_retryable = False,
        as_result = Some (JObj [])\<rparr>)"

text \<open>Any error of the projection is reported as an invalid state.\<close>

definition projected :: "int \<Rightarrow> execution_snapshot \<Rightarrow> jobj \<Rightarrow> snapshot_transition result" where
  "projected now snapshot r =
     (case mapAdapterSnapshot now (normalizeSnapshot snapshot r) of
        Inl _ \<Rightarrow> Inl ''ADAPTER_STATE_INVALID'' | Inr t \<Rightarrow> Inr t)"

text \<open>The report of an inspection that failed or was cancelled is kept in its result and error.\<close>

definition inspection_report :: "execution_snapshot \<Rightarrow> jobj \<Rightarrow> snapshot_transition \<Rightarrow> snapshot_transition" where
  "inspection_report snapshot r t =
     t\<lparr>tr_result := Some
         [(''content'', JArr [JObj [(''type'', JStr ''text''),
             (''text'', JStr (or_string (es_message snapshot) (es_reasonCode snapshot)))]]),
          (''isError'', JBool True),
          (''structuredContent'', JObj (spread
             ((''outcome'', JStr (if es_state snapshot = ''CANCELLED'' then ''cancelled'' else ''technical_failure'')) #
              (''reasonCode'', JStr (es_reasonCode snapshot)) # (''retryable'', JBool (es_retryable snapshot)) #
              (case js_get r ''observedAt'' of None \<Rightarrow> [] | Some v \<Rightarrow> [(''completedAt'', v)])) r))],
       tr_error :=
         map_option (\<lambda>e. spread e
           [(''data'', JObj (spread (case js_get e ''data'' of Some (JObj d) \<Rightarrow> d | _ \<Rightarrow> []) r))]) (tr_error t)\<rparr>"

definition contract_transition ::
    "contract_env \<Rightarrow> int \<Rightarrow> operation \<Rightarrow> execution_snapshot \<Rightarrow> snapshot_transition result" where
  "contract_transition E now f snapshot =
     bind_r (sanitizedAdapterResultPayload E snapshot) (\<lambda>r.
     bind_r (if has_output (es_state snapshot) then validateOutput E f r else Inr ()) (\<lambda>_.
     bind_r (projected now snapshot r) (\<lambda>t.
     bind_r
       (if op_name f = ''vehicle_inspect_area'' \<and> es_state snapshot \<in> set [''TECHNICAL_FAILED'', ''CANCELLED'']
        then bind_r (validateOutput E f r) (\<lambda>_. Inr (inspection_report snapshot r t)) else Inr t) (\<lambda>t.
       attachEvidence E t snapshot r))))"

definition validatedSnapshotTransition ::
    "contract_env \<Rightarrow> int \<Rightarrow> operation \<Rightarrow> execution_snapshot \<Rightarrow> snapshot_transition" where
  "validatedSnapshotTransition E now f snapshot =
     (case contract_transition E now f snapshot of
        Inl reasonCode \<Rightarrow> technicalFailureTransition now reasonCode | Inr t \<Rightarrow> t)"

definition synchronousResult :: "contract_env \<Rightarrow> int \<Rightarrow> operation \<Rightarrow> execution_snapshot \<Rightarrow> jobj result" where
  "synchronousResult E now f snapshot =
     bind_r (sanitizedAdapterResultPayload E snapshot) (\<lambda>payload.
     bind_r (if has_output (es_state snapshot) then validateOutput E f payload else Inr ()) (\<lambda>_.
     bind_r (projected now snapshot payload) (\<lambda>t.
     bind_r (throw_if (\<not> tr_terminal t) ''SYNCHRONOUS_OPERATION_RETURNED_NONTERMINAL'') (\<lambda>_.
     bind_r (throw_if (tr_mcpStatus t = Failed) (or_string (es_reasonCode snapshot) ''TECHNICAL_EXECUTION_FAILED'')) (\<lambda>_.
       case tr_result t of
         None \<Rightarrow> Inl ''SYNCHRONOUS_RESULT_MISSING''
       | Some r \<Rightarrow> attachEvidenceToResult E r snapshot payload)))))"

subsection \<open>Inspections that the runtime stops\<close>

text \<open>
  The report of an inspection is kept in the result of its stopped task. \<open>JSON.stringify\<close> of more than 60 KiB
  drops anomalies from the end, then artifact references; a missing piece of evidence is named once.
\<close>

record inspection_parts =
  ip_truncated :: bool
  ip_anomalies :: "json list"
  ip_artifactRefs :: "json list"
  ip_missing :: "json list"

definition add_missing :: "string \<Rightarrow> json list \<Rightarrow> json list" where
  "add_missing name names = (if JStr name \<in> set names then names else names @ [JStr name])"

function inspection_shrink :: "(inspection_parts \<Rightarrow> bool) \<Rightarrow> inspection_parts \<Rightarrow> inspection_parts" where
  "inspection_shrink big p =
     (if big p \<and> (ip_anomalies p \<noteq> [] \<or> ip_artifactRefs p \<noteq> [])
      then inspection_shrink big
             ((if ip_anomalies p \<noteq> [] then p\<lparr>ip_anomalies := butlast (ip_anomalies p)\<rparr>
               else p\<lparr>ip_artifactRefs := butlast (ip_artifactRefs p)\<rparr>)
              \<lparr>ip_truncated := True, ip_missing := add_missing ''INSPECTION_INLINE_REPORT_TRUNCATED'' (ip_missing p)\<rparr>)
      else p)"
  by pat_completeness auto

termination
  by (relation "measure (\<lambda>(_, p). length (ip_anomalies p) + length (ip_artifactRefs p))") (auto simp: neq_Nil_conv)

declare inspection_shrink.simps [simp del]

definition inspection_structured :: "jobj \<Rightarrow> jobj \<Rightarrow> jobj \<Rightarrow> string \<Rightarrow> inspection_parts \<Rightarrow> jobj" where
  "inspection_structured report timing inspectionReport status p =
     spread (spread report timing)
       [(''status'', JStr status), (''anomalies'', JArr (ip_anomalies p)), (''missingEvidence'', JArr (ip_missing p)),
        (''inspectionReport'', JObj (spread inspectionReport
           [(''artifactRefs'', JArr (ip_artifactRefs p)), (''truncated'', JBool (ip_truncated p)),
            (''completion'', JStr (if js_get inspectionReport ''targetReportComplete'' = Some (JBool True)
                                  then ''partial'' else ''unavailable''))]))]"

text \<open>\<open>[...value]\<close>, and \<open>new Set(value)\<close>, which takes an absent value for the empty list.\<close>

definition json_array :: "json option \<Rightarrow> json list result" where
  "json_array j =
     (case j of Some (JArr vs) \<Rightarrow> Inr vs | Some (JStr s) \<Rightarrow> Inr (map (\<lambda>c. JStr [c]) s) | _ \<Rightarrow> Inl ''TypeError'')"

definition json_set :: "json option \<Rightarrow> json list result" where
  "json_set j =
     (if j = None \<or> j = Some JNull then Inr [] else bind_r (json_array j) (\<lambda>vs. Inr (rev (remdups (rev vs)))))"

definition json_object :: "json option \<Rightarrow> jobj result" where
  "json_object j = (case j of Some (JObj kvs) \<Rightarrow> Inr kvs | _ \<Rightarrow> Inl ''TypeError'')"

definition inspection_fits :: "contract_env \<Rightarrow> jobj \<Rightarrow> bool" where
  "inspection_fits E structured \<longleftrightarrow> byte_length (stringify (cn_num_string E) (JObj structured)) \<le> 61440"

definition inspection_merged :: "contract_env \<Rightarrow> jobj \<Rightarrow> jobj \<Rightarrow> jobj result" where
  "inspection_merged E report base =
     (let timing = js_delete ''adapterResult'' base;
          reached = js_get timing ''outcome'' = Some (JStr ''deadline_reached'')
      in bind_r (json_object (js_get report ''inspectionReport'')) (\<lambda>inspectionReport.
         bind_r (json_array (js_get report ''anomalies'')) (\<lambda>anomalies.
         bind_r (json_array (js_get inspectionReport ''artifactRefs'')) (\<lambda>artifactRefs.
         bind_r (json_set (js_get report ''missingEvidence'')) (\<lambda>missing.
           let structured = inspection_structured report timing inspectionReport (if reached then ''timeout'' else ''failed'')
           in Inr (structured
                (inspection_shrink (\<lambda>p. \<not> inspection_fits E (structured p))
                   \<lparr>ip_truncated = (js_get inspectionReport ''truncated'' = Some (JBool True)),
                    ip_anomalies = anomalies, ip_artifactRefs = artifactRefs,
                    ip_missing = add_missing
                      (if reached then ''INSPECTION_TASK_DEADLINE_REACHED'' else ''INSPECTION_START_WINDOW_MISSED'')
                      missing\<rparr>)))))))"

definition inspectionStoppedTransition ::
    "contract_env \<Rightarrow> operation \<Rightarrow> execution_snapshot \<Rightarrow> snapshot_transition \<Rightarrow> snapshot_transition result" where
  "inspectionStoppedTransition E f snapshot t =
     (case tr_result t of
        None \<Rightarrow> Inr t
      | Some r \<Rightarrow>
          if op_name f \<noteq> ''vehicle_inspect_area'' then Inr t
          else
            bind_r (sanitizedAdapterResultPayload E snapshot) (\<lambda>report.
            bind_r (validateOutput E f report) (\<lambda>_.
            bind_r (json_object (js_get r ''structuredContent'')) (\<lambda>base.
            bind_r (inspection_merged E report base) (\<lambda>structured.
            bind_r (attachEvidenceToResult E (js_set ''structuredContent'' (JObj structured) r) snapshot structured) (\<lambda>r'.
              Inr (t\<lparr>tr_result := Some r'\<rparr>)))))))"

lemma inspection_shrink_ends:
  "\<not> big (inspection_shrink big p) \<or> ip_anomalies (inspection_shrink big p) = [] \<and> ip_artifactRefs (inspection_shrink big p) = []"
proof (induction big p rule: inspection_shrink.induct)
  case (1 big p)
  show ?case
  proof (cases "big p \<and> (ip_anomalies p \<noteq> [] \<or> ip_artifactRefs p \<noteq> [])")
    case True
    then show ?thesis using 1 [OF True] by (subst (1 2 3) inspection_shrink.simps) (simp only: if_True simp_thms)
  next
    case False
    then show ?thesis by (auto simp: inspection_shrink.simps [of big p])
  qed
qed

subsection \<open>Facts\<close>

text \<open>The reference of the limits: the number of values, and the deepest level with the value itself at level 0.\<close>

fun node_count :: "json \<Rightarrow> int" where
  "node_count (JArr vs) = 1 + sum_list (map node_count vs)"
| "node_count (JObj kvs) = 1 + sum_list (map (\<lambda>m. node_count (snd m)) kvs)"
| "node_count v = 1"

lemma node_count_positive: "1 \<le> node_count j"
proof (induction j)
  case (JArr vs)
  then show ?case by (auto intro!: sum_list_nonneg) force
next
  case (JObj kvs)
  then show ?case by (auto intro!: sum_list_nonneg) force
qed simp_all

lemma counts_nonnegative:
  "0 \<le> sum_list (map node_count vs)" "0 \<le> sum_list (map (\<lambda>x. node_count (snd x)) kvs)"
  using node_count_positive by (auto intro!: sum_list_nonneg simp: order_trans [OF zero_le_one])

declare visit.simps [simp del]

lemma visit_exact:
  "(visit n d j = Inr m \<longleftrightarrow> n + node_count j \<le> 10000 \<and> depth_within 32 d j \<and> m = n + node_count j)"
  "(n \<le> 10000 \<Longrightarrow> visit_all n d vs = Inr m \<longleftrightarrow>
     n + sum_list (map node_count vs) \<le> 10000 \<and> (\<forall>v \<in> set vs. depth_within 32 d v) \<and>
     m = n + sum_list (map node_count vs))"
  "(n \<le> 10000 \<Longrightarrow> visit_members n d kvs = Inr m \<longleftrightarrow>
     n + sum_list (map (\<lambda>x. node_count (snd x)) kvs) \<le> 10000 \<and> (\<forall>x \<in> set kvs. depth_within 32 d (snd x)) \<and>
     m = n + sum_list (map (\<lambda>x. node_count (snd x)) kvs))"
proof (induction n d j and n d vs and n d kvs arbitrary: m and m and m rule: visit_visit_all_visit_members.induct)
  case (1 n d j)
  show ?case
  proof (cases j)
    case (JArr vs)
    then show ?thesis
      using 1 counts_nonnegative(1) [of vs] by (auto simp: visit.simps not_less add_ac)
  next
    case (JObj kvs)
    then show ?thesis
      using 1 counts_nonnegative(2) [of kvs] by (auto simp: visit.simps not_less add_ac)
  qed (auto simp: visit.simps not_less)
next
  case (3 n d v vs)
  show ?case
  proof (cases "visit n d v")
    case (Inl e)
    then show ?thesis
      using 3(1) [of "n + node_count v"] counts_nonnegative(1) [of vs] by auto
  next
    case (Inr x)
    then show ?thesis
      using 3(1) [of x] 3(2) [OF Inr, of m] counts_nonnegative(1) [of vs] by auto
  qed
next
  case (5 n d k v kvs)
  show ?case
  proof (cases "visit n d v")
    case (Inl e)
    then show ?thesis
      using 5(1) [of "n + node_count v"] counts_nonnegative(2) [of kvs] by auto
  next
    case (Inr x)
    then show ?thesis
      using 5(1) [of x] 5(2) [OF Inr, of m] counts_nonnegative(2) [of kvs] by auto
  qed
qed auto

lemma contract_transition_agrees:
  assumes "contract_transition E now f s = Inr t"
  shows "agrees t"
proof -
  obtain r t0 t1 where t0: "projected now s r = Inr t0"
    and t1: "t1 = t0 \<or> t1 = inspection_report s r t0" and t: "attachEvidence E t1 s r = Inr t"
    using assms by (auto simp: contract_transition_def bind_r_Inr split: if_splits)
  have "agrees t0"
    using t0 by (auto simp: projected_def dest: mapAdapterSnapshot_agrees split: sum.splits)
  then have "agrees t1"
    using t1 by (auto simp: agrees_def inspection_report_def)
  then show ?thesis
    using t by (auto simp: attachEvidence_def agrees_def bind_r_Inr split: option.splits)
qed

lemma technical_agrees: "agrees (technicalFailureTransition now c)"
  by (simp add: technicalFailureTransition_def mapAdapterSnapshot_def agrees_def terminal_def status_of_def
      unbound_states_def)

text \<open>No value inside carries a member that names a prototype.\<close>

fun clean :: "json \<Rightarrow> bool" where
  "clean (JArr vs) \<longleftrightarrow> (\<forall>v \<in> set vs. clean v)"
| "clean (JObj kvs) \<longleftrightarrow> (\<forall>m \<in> set kvs. fst m \<notin> set prototype_names \<and> clean (snd m))"
| "clean v \<longleftrightarrow> True"

lemma sanitize_clean: "clean (sanitizeResult j)"
  by (induction j rule: sanitizeResult.induct) auto

lemma sanitized_limits:
  assumes "sanitizedAdapterResultPayload E s = Inr r"
  shows "node_count (JObj (adapterResultPayload s)) \<le> 10000" "depth_within 32 0 (JObj (adapterResultPayload s))"
    and "clean (JObj r)"
proof -
  have "\<exists>m. visit 0 0 (JObj (adapterResultPayload s)) = Inr m" and "JObj r = sanitizeResult (JObj (adapterResultPayload s))"
    using assms by (auto simp: sanitizedAdapterResultPayload_def assertResultLimits_def bind_r_Inr)
  then show "node_count (JObj (adapterResultPayload s)) \<le> 10000" "depth_within 32 0 (JObj (adapterResultPayload s))"
      "clean (JObj r)"
    using sanitize_clean [of "JObj (adapterResultPayload s)"] by (auto simp: visit_exact)
qed

lemma completed_has_output:
  assumes "projected now s r = Inr t" and "tr_mcpStatus t = Completed"
  shows "has_output (es_state s)"
  using assms
  by (auto simp: projected_def mapAdapterSnapshot_def normalizeSnapshot_def has_output_def working_def terminal_def
      split: if_splits sum.splits)

subsection \<open>Properties\<close>

text \<open>
  C13. Whatever an Adapter reports, the transition that the runtime makes of it has the MCP status of its internal
  state and no state before the binding: the transitions that the task store receives are those it expects.
\<close>

theorem validated_transition_agrees: "agrees (validatedSnapshotTransition E now f s)"
  by (simp add: validatedSnapshotTransition_def technical_agrees contract_transition_agrees split: sum.split)

text \<open>The result that a completed task is to deliver for the cleaned payload \<open>r\<close> and the evidence \<open>items\<close>.\<close>

definition outcome_of :: "string \<Rightarrow> outcome" where
  "outcome_of state =
     (if state = ''SUCCEEDED'' then Success
      else if state = ''BUSINESS_FAILED'' then Business_failure else Partial_completion)"

definition delivered :: "int \<Rightarrow> execution_snapshot \<Rightarrow> jobj \<Rightarrow> json list \<Rightarrow> jobj" where
  "delivered now s r items =
     (let outcome = outcome_of (es_state s)
      in [(''resultType'', JStr ''complete''),
          (''content'', JArr [JObj [(''type'', JStr ''text''), (''text'', JStr (or_string (es_message s) (outcome_name outcome)))]]),
          (''isError'', JBool (es_state s \<noteq> ''SUCCEEDED'')),
          (''structuredContent'', JObj
             ((if es_state s = ''SUCCEEDED'' then []
               else [(''outcome'', JStr (outcome_name outcome)),
                     (''reasonCode'', JStr (or_string (es_reasonCode s) (outcome_upper outcome))),
                     (''retryable'', JBool (es_retryable s)), (''completedAt'', JStr (toISOString now))]) @
              filter (\<lambda>(key, _). \<not> standard_field key) r))] @
         (if items = [] then [] else [(''_meta'', JObj [(''io.sdar/evidence'', evidence_body items)])]))"

lemma delivered_business:
  "spread (spread [(''resultType'', JStr ''complete'')]
       (businessResult now (normalizeSnapshot s r) (outcome_of (es_state s)) (es_state s \<noteq> ''SUCCEEDED'')))
     (if items = [] then [] else [(''_meta'', JObj [(''io.sdar/evidence'', evidence_body items)])]) =
   delivered now s r items"
  by (simp add: delivered_def Let_def spread_def businessResult_def structuredContent_def sanitizeResultPayload_def
      normalizeSnapshot_def outcome_of_def)

lemma projected_result:
  assumes "projected now s r = Inr t" and "tr_mcpStatus t = Completed"
  shows "tr_result t =
    Some (businessResult now (normalizeSnapshot s r) (outcome_of (es_state s)) (es_state s \<noteq> ''SUCCEEDED''))"
  using assms
  by (auto simp: projected_def mapAdapterSnapshot_def normalizeSnapshot_def outcome_of_def working_def terminal_def
      split: if_splits sum.splits)

text \<open>
  C12. The result of a completed task. It is made of the payload that the Adapter reported, cleaned of the members that
  name prototypes and accepted by the schema of the operation, and of nothing else: the standard fields of its
  outcome come from the snapshot, the members with their names are dropped from the payload, and the evidence is the
  validated list. The payload has at most 10000 values and 32 levels, and there are at most 64 pieces of evidence.
\<close>

theorem completed_result_checked:
  assumes "tr_mcpStatus (validatedSnapshotTransition E now f s) = Completed"
  shows "\<exists>r items. sanitizeResult (JObj (adapterResultPayload s)) = JObj r \<and>
    tr_result (validatedSnapshotTransition E now f s) = Some (delivered now s r items) \<and>
    evidence_items (cn_date_parse E) r [] (es_evidence s) = Inr items \<and>
    sanitizedAdapterResultPayload E s = Inr r \<and> op_outputSchema f r \<and> clean (JObj r) \<and>
    node_count (JObj (adapterResultPayload s)) \<le> 10000 \<and> depth_within 32 0 (JObj (adapterResultPayload s)) \<and>
    length (es_evidence s) \<le> 64"
proof -
  obtain t where t: "contract_transition E now f s = Inr t" "tr_mcpStatus t = Completed"
    using assms
    by (auto simp: validatedSnapshotTransition_def technicalFailureTransition_def mapAdapterSnapshot_def terminal_def
        split: sum.splits)
  then obtain r t0 t1 where r: "sanitizedAdapterResultPayload E s = Inr r" and t0: "projected now s r = Inr t0"
    and v: "has_output (es_state s) \<longrightarrow> validateOutput E f r = Inr ()"
    and t1: "t1 = (if op_name f = ''vehicle_inspect_area'' \<and> es_state s \<in> set [''TECHNICAL_FAILED'', ''CANCELLED'']
        then inspection_report s r t0 else t0)" and e: "attachEvidence E t1 s r = Inr t"
    by (auto simp: contract_transition_def bind_r_Inr split: if_splits)
  have "tr_mcpStatus t1 = Completed"
    using e t(2) by (auto simp: attachEvidence_def bind_r_Inr split: option.splits)
  then have c: "tr_mcpStatus t0 = Completed"
    using t1 by (auto simp: inspection_report_def split: if_splits)
  note h = completed_has_output [OF t0 c]
  then have "t1 = t0" using t1 by (auto simp: has_output_def)
  then obtain items where i: "validateEvidence E (es_evidence s) r = Inr items"
      and "tr_result t = Some (delivered now s r items)"
    using e projected_result [OF t0 c]
    by (auto simp: attachEvidence_def attachEvidenceToResult_def bind_r_Inr delivered_business simp del: if_image_distrib)
  moreover have "length (es_evidence s) \<le> 64" "evidence_items (cn_date_parse E) r [] (es_evidence s) = Inr items"
    using i by (auto simp: validateEvidence_def bind_r_Inr throw_if_def split: if_splits)
  moreover have "sanitizeResult (JObj (adapterResultPayload s)) = JObj r"
    using r by (auto simp: sanitizedAdapterResultPayload_def bind_r_Inr)
  moreover have "op_outputSchema f r"
    using v h by (auto simp: validateOutput_def bind_r_Inr throw_if_def split: if_splits)
  moreover have "validatedSnapshotTransition E now f s = t"
    using t(1) by (simp add: validatedSnapshotTransition_def)
  ultimately show ?thesis
    using r sanitized_limits [OF r] by auto
qed

definition sample_contract :: contract_env where
  "sample_contract = \<lparr>cn_num_string = (\<lambda>_. ''0''), cn_date_parse = (\<lambda>_. Some 0)\<rparr>"

definition sample_operation :: operation where
  "sample_operation = \<lparr>op_name = ''vehicle_move'', op_execution = Task_required, op_cancel = True, op_pauseResume = True,
      op_outputSchema = (\<lambda>r. js_has r ''arrived'')\<rparr>"

definition sample_snapshot :: execution_snapshot where
  "sample_snapshot =
     \<lparr>es_identity = \<lparr>ei_taskId = ''t1'', ei_externalExecutionId = ''x1'', ei_operationName = ''vehicle_move'',
        ei_argumentHash = ''h'', ei_executionContext = None\<rparr>, es_state = ''SUCCEEDED'', es_revision = 3, es_reasonCode = [], es_message = [],
      es_retryable = False, es_result = Some (jsonToProtoStruct
        [(''arrived'', JBool True), (''constructor'', JNull), (''outcome'', JStr ''x'')]),
      es_evidence = [\<lparr>ev_evidenceId = ''e1'', ev_evidenceType = ''photo'', ev_observedAt = ''2025-01-01T00:00:00Z'',
        ev_subjectRef = None, ev_producer = None, ev_payloadRef = Structured_ref (Some ''/arrived'')\<rparr>],
      es_inputRequests = [], es_mcpInputRequests = []\<rparr>"

theorem completed_result_checked_witness:
  "tr_result (validatedSnapshotTransition sample_contract 0 sample_operation sample_snapshot) =
     Some [(''resultType'', JStr ''complete''),
       (''content'', JArr [JObj [(''type'', JStr ''text''), (''text'', JStr ''success'')]]),
       (''isError'', JBool False), (''structuredContent'', JObj [(''arrived'', JBool True)]),
       (''_meta'', JObj [(''io.sdar/evidence'', JObj [(''profileVersion'', JStr ''1.0''), (''items'', JArr
          [JObj [(''evidenceId'', JStr ''e1''), (''evidenceType'', JStr ''photo''),
             (''observedAt'', JStr ''2025-01-01T00:00:00Z''),
             (''payloadRef'', JObj [(''kind'', JStr ''structured_content''), (''jsonPointer'', JStr ''/arrived'')])]])])])]"
proof -
  let ?i = "JObj [(''evidenceId'', JStr ''e1''), (''evidenceType'', JStr ''photo''),
     (''observedAt'', JStr ''2025-01-01T00:00:00Z''),
     (''payloadRef'', JObj [(''kind'', JStr ''structured_content''), (''jsonPointer'', JStr ''/arrived'')])]"
  let ?r = "[(''arrived'', JBool True), (''outcome'', JStr ''x'')]"
  have c: "tr_mcpStatus (validatedSnapshotTransition sample_contract 0 sample_operation sample_snapshot) = Completed \<and>
      sanitizeResult (JObj (adapterResultPayload sample_snapshot)) = JObj ?r \<and>
      evidence_items (cn_date_parse sample_contract) ?r [] (es_evidence sample_snapshot) = Inr [?i] \<and>
      \<not> standard_field ''arrived'' \<and> standard_field ''outcome''"
    by code_simp
  have "delivered 0 sample_snapshot ?r [?i] =
      [(''resultType'', JStr ''complete''),
       (''content'', JArr [JObj [(''type'', JStr ''text''), (''text'', JStr ''success'')]]),
       (''isError'', JBool False), (''structuredContent'', JObj [(''arrived'', JBool True)]),
       (''_meta'', JObj [(''io.sdar/evidence'', JObj [(''profileVersion'', JStr ''1.0''), (''items'', JArr [?i])])])]"
    using c by (simp add: delivered_def Let_def sample_snapshot_def outcome_of_def or_string_def evidence_body_def)
  then show ?thesis
    using completed_result_checked [OF conjunct1 [OF c]] c by auto
qed

text \<open>
  C14. A piece of evidence is to point to a member of the reported content, but \<open>in\<close> also finds what every object
  inherits: a pointer to such a name is accepted whatever the content is.
\<close>

theorem evidence_pointer_inherited:
  assumes "name \<in> set OBJECT_PROTOTYPE_MEMBERS"
  shows "evidencePayloadRef (Structured_ref (Some (CHR ''/'' # name))) content =
     Inr (JObj [(''kind'', JStr ''structured_content''), (''jsonPointer'', JStr (CHR ''/'' # name))])"
proof -
  have "\<forall>name \<in> set OBJECT_PROTOTYPE_MEMBERS. split_slash name = [name] \<and> pointer_key name = name \<and>
      length name < 512 \<and> pointer_chars name"
    by code_simp
  then have n: "split_slash name = [name]" "pointer_key name = name" "length name < 512" "pointer_chars name"
    using assms by auto
  have "js_in (Json_place (JObj content)) name \<noteq> None"
    using assms by (simp add: js_in_def Let_def split: option.split)
  then show ?thesis
    using n by (auto simp: evidencePayloadRef_def isJsonPointer_def jsonPointerExists_def)
qed

theorem evidence_pointer_inherited_witness:
  "js_get [] ''toString'' = (None :: json option) \<and>
   evidencePayloadRef (Structured_ref (Some ''/toString'')) [] =
     Inr (JObj [(''kind'', JStr ''structured_content''), (''jsonPointer'', JStr ''/toString'')])"
  using evidence_pointer_inherited [of "''toString''" "[]"] by (simp add: OBJECT_PROTOTYPE_MEMBERS_def)

end
