(* ===== verification/Spec2Isabelle.thy ===== *)
theory Spec2Isabelle
  imports DomainTask DomainTiming Allocation Tracks CanonicalJson Diagnostics Interaction CommandService
    Reducer CatalogPromises WorkerPromises ReconcilePromises TaskPromises ResultContract
begin

text \<open>
  A verification development of the SDAR MCP Provider platform.

  The platform lets an MCP client run long tasks on vehicles. A Runtime serves the client: it admits a
  task, stores it, starts it on the Adapter of a Provider over gRPC, follows its snapshots and controls it
  by commands. A Provider keeps the executions of its vehicle, journals physical dispatches, and publishes
  the business objects of a task (Context, Actions, Required Inputs, Interventions, artifacts). A control
  plane (PMS) keeps the catalog of Providers and brings the Runtime processes to their desired state with
  durable jobs. The development follows this division: three data stores with their operations, each
  under every sequence of calls, and the components that call them.

  \<^bold>\<open>The parts and their theories.\<close>

  Shared. \<open>Prelude\<close>: results with errors, insertion ordered maps, JSON values. \<open>JsTime\<close>: dates and
  timestamps (vehicle-provider-core/src/time.ts). \<open>Interfaces\<close>: the contracts below. \<open>Protocol\<close> and
  \<open>CanonicalJson\<close>: packages/adapter-protocol/src struct.ts, identity.ts, business-events.ts.

  Task vocabulary. \<open>DomainTask\<close> (packages/domain/src/task.ts): internal and MCP states, the projection
  \<open>mapAdapterSnapshot\<close>, business results. \<open>DomainTiming\<close> (timing.ts, availability.ts,
  business-responder.ts).

  The tables of the task engine (packages/persistence-postgres/src/tasks.ts). \<open>TaskStore\<close>: the rows of
  tasks, commands, observations, inputs and admissions, and \<open>transitionTask\<close>, through which every change
  of a task goes. \<open>TaskSchedule\<close>: admission, publication, claims and outcomes of scheduled starts,
  start windows. \<open>TaskCommands\<close> and \<open>TaskOutcomes\<close>: creation, claim and resolution of commands, safe
  stops, snapshots, recovery. \<open>TaskInputs\<close>: the inbox of answers. An operation is one serial
  transaction of type \<open>tx\<close>. \<open>TaskInvariant\<close>, \<open>TaskKeeps\<close>, \<open>TaskEffects\<close>, \<open>TaskAnswers\<close>: the
  invariant \<open>good\<close> of the tables, the relation \<open>evolves\<close> of an earlier to a later state, and a lemma
  for every operation by the rules of the judgement \<open>ok\<close>. \<open>TaskHistory\<close>: the operations as data and their
  histories, in any order and with any arguments; \<open>TaskPromises\<close>: what holds of them. \<open>ResultContract\<close>
  (packages/task-engine/src/result-contract.ts): what the Runtime makes of a reported snapshot.

  The task-business store. \<open>BusinessTypes\<close>, \<open>Interaction\<close>, \<open>Artifact\<close> (packages/vehicle-provider-core/src
  task-business-contract.ts, task-business-interaction.ts, task-business-artifact.ts): the objects with
  the conditions of their schemas and the transitions between versions. \<open>BusinessStore\<close>
  (provider-adapter-kit/src/task-business-store.ts): the checks of a change set. \<open>MemoryBusinessStore\<close>
  (memory-task-business-store.ts): the store, with \<open>claimCommand\<close> and \<open>commitBusinessChangeSet\<close> as its
  steps (\<open>store_step\<close>). \<open>StoreInvariant\<close>: the invariant of a scope; \<open>StorePromises\<close>: what clients rely on.
  \<open>CommandService\<close> (task-business-commands.ts): responses and interventions; each await of a submission
  is given the store that it meets, so that every interleaving with other callers is covered. \<open>Reducer\<close>
  (packages/mcp-protocol/src task-business-feedback.ts, task-business-reducer.ts): the read model.

  The Provider kit. \<open>Journal\<close> (mutation-journal.ts, memory-store.ts), \<open>Diagnostics\<close> (diagnostics.ts and the
  leases of memory-store.ts), \<open>Tracks\<close> (track-arbiter.ts, task-state-mapper.ts).

  The control plane. \<open>PmsDomain\<close> (packages/pms-domain/src). \<open>PmsStore\<close> (pms-persistence-postgres/src
  shared.ts, catalog-repositories.ts), \<open>PmsProviders\<close> (pms-application/src audit-service.ts,
  provider-management.ts, provider-package-sync.ts), \<open>PmsCatalog\<close>: the tables, the calls of the services
  (\<open>pms_step\<close>) and the changes that a call consists of; \<open>CatalogPromises\<close>: what holds of them.
  \<open>PmsJobs\<close> (audit-job-repositories.ts, apps/pms-worker/src worker.ts, job-execution.ts): the job table and a
  round of the worker; \<open>JobPromises\<close>, \<open>WorkerPromises\<close>. \<open>Deployment\<close>, \<open>RuntimeProcess\<close>, \<open>Allocation\<close>
  (packages/runtime-deployment/src model.ts, process.ts, instance-allocation.ts, database-switch.ts).
  \<open>RuntimeReconcile\<close> (pms-application/src runtime-reconcile.ts, provider-identity.ts): the reconciler over
  a record of interfaces; \<open>RuntimeStore\<close> and \<open>RuntimePorts\<close>: the tables, lifecycle and database preparation
  that apps/pms-worker/src/runtime-composition.ts puts behind them; \<open>ReconcileContract\<close>: its loop ends;
  \<open>ReconcilePromises\<close>: which calls of the process manager it makes.

  \<^bold>\<open>The contracts\<close> are locales of \<open>Interfaces\<close> and \<open>ReconcileContract\<close>, each interpreted on the definitions of
  the model. \<open>cas_side\<close> and \<open>cas_aggregate\<close> (compare and swap): both sides of the deployment aggregate, the
  process projection. \<open>fence\<close> and \<open>fence_ledger\<close> (a key passed once): commits of change sets, updates of the
  catalog. \<open>claim_registry\<close> and \<open>claim_ledger\<close> (a fence that keeps a record): command ledger, command
  acknowledgements, mutation journal, consumed diagnostic leases. \<open>guarded_machine\<close> and \<open>guarded_history\<close>
  (versions accepted against their predecessor): Actions, Required Inputs, Interventions. \<open>fencing\<close> (tokens
  that grow with each grant): leases of jobs, start attempts of tasks. \<open>reconcile_contract\<close>, \<open>quiet_ports\<close>,
  \<open>foreign_ports\<close>: what the reconciler relies on and which interfaces make no call.

  \<^bold>\<open>Concurrency.\<close> Transactions of PostgreSQL run one after the other, which is what their row locks and
  conditional updates are written for; a history is any sequence of them. Operations of the memory stores run
  to their next await. The clock of the database, that of the process, random identifiers and rows that other
  transactions hold locked are arguments of the step that reads them. A call of the reconciler may fail at
  every statement; its environment answers by the number of questions asked so far.

  \<^bold>\<open>Parameters\<close> stand for code that is not in the repository: the date-time check of zod (\<open>iso_datetime\<close>), Ajv
  (\<open>ajv\<close>, output schemas), SHA-256, Unicode normalisation (\<open>nfc\<close>), the printing of numbers (\<open>num_string\<close>),
  the parsing of JSON text and of URLs, \<open>Date.parse\<close> on other grammars, the collation of the database, and the
  answers of database, process manager, Adapters and profiles (\<open>runtime_env\<close>).

  \<^bold>\<open>Loops and bounds.\<close> The reconciler's loop has twelve rounds (\<open>STEP_LIMIT\<close>). \<open>reconcile_unbounded\<close> is the
  method without them, as a partial function; it always gives the result of the method, because each round that
  goes on lowers the rank of the status, of which there are six. An observation is retried five times
  (\<open>OBSERVATION_ATTEMPTS\<close>), as in the code. All other loops are structural recursions or have termination proofs.
  Revisions and sequence numbers are unbounded integers beside the code's own checks of safe integers.

  \<^bold>\<open>What is shown.\<close> Of the task-business store: versions are immutable and consecutive, a command is claimed once,
  an entry has one holder, two commands of one type share no Runtime sequence number, commits are fenced by the
  Context revision, snapshots are complete, content is intact. Of the task engine: an ended task is frozen; a
  start attempt is granted once; identity, execution, start and counters of every task stand; rows are
  consistent; cancelling again right after a cancellation changes nothing; the result of a completed task is the
  cleaned and accepted payload with its outcome and evidence. Of the command service and the read model: retries
  replay, claims are current, events only advance. Of the control plane: rows of providers, resources, types and
  packages only advance (providers along \<open>ProviderTransitions\<close>, never back to draft or out of retired), updates
  are fenced, calls of the catalog services are audited, the catalog can be read, synchronising is idempotent;
  stale leases are refused, leases are exclusive, a worker finishes what is due; transitions and changes of the
  desired state of a deployment are never lost, its events replay it, its snapshot is read back; the reconciler
  ends and starts no process for a foreign provider.

  Some theorems state flaws of the code, for all inputs they concern: a cancellation leaves the responses of the
  command it exhausts assigned to it; evidence may point to inherited members; a request with a long key cannot be
  answered; a snapshot of objects without a simulation does not start a read model; a member named \<open>__proto__\<close> is
  not hashed; \<open>parseBusinessEventSequence\<close> with \<open>allowZero\<close> accepts any text that \<open>BigInt\<close> reads; a failed stop
  ends in \<open>STOPPED\<close>; a draining deployment of the platform that is to run again is never moved on.

  \<^bold>\<open>Not modelled\<close>: SQL twins of the memory stores, telemetry and outbox payloads, resource bindings of tasks,
  trajectory evidence, lists and pages of views, retention (the cleaner of expired tasks), HTTP, gRPC and SSE
  transport, device clients, the web console, provisioning, and the engine's own orchestration around the tables.
  Of a row only the columns that some operation reads or that is shown are modelled. Boxes on images add rational
  numbers where the code adds floats; no theorem depends on it. A history refuses a transition whose MCP status
  is not that of its internal state; the result contract makes no other.
\<close>

end
